(* ===== verification/Prelude.thy ===== *)
theory Prelude
  imports Main "HOL-Library.Sublist"
begin

text \<open>
  Shared vocabulary of the development: thrown errors as the left side of a sum, the JavaScript
  string operations the sources use, and the character classes behind their short anchored regular
  expressions.  A JavaScript string is a list of code units; here a code unit is a \<^typ>\<open>char\<close>,
  so strings range over the Latin-1 block.  The one code unit outside it that the sources write
  (the ellipsis of \<^verbatim>\<open>clip\<close>) is the constant \<open>ellipsis\<close>.
\<close>

named_theorems result_simps "inversion of the error monad"
named_theorems str_simps "facts on JavaScript string operations"

section \<open>Thrown errors\<close>

datatype error = Error string

type_synonym 'a result = "error + 'a"

definition throw :: "string \<Rightarrow> 'a result" where
  "throw m = Inl (Error m)"

definition bindE :: "'a result \<Rightarrow> ('a \<Rightarrow> 'b result) \<Rightarrow> 'b result" where
  "bindE m f = (case m of Inl e \<Rightarrow> Inl e | Inr x \<Rightarrow> f x)"

text \<open>\<open>ensure b m\<close> is the source's \<^verbatim>\<open>if (!b) throw new Error(m)\<close>.\<close>

definition ensure :: "bool \<Rightarrow> string \<Rightarrow> unit result" where
  "ensure b m = (if b then Inr () else throw m)"

definition catchE :: "'a result \<Rightarrow> (error \<Rightarrow> 'a result) \<Rightarrow> 'a result" where
  "catchE m h = (case m of Inl e \<Rightarrow> h e | Inr x \<Rightarrow> Inr x)"

fun message :: "error \<Rightarrow> string" where
  "message (Error m) = m"

definition is_ok :: "'a result \<Rightarrow> bool" where
  "is_ok r = (case r of Inl _ \<Rightarrow> False | Inr _ \<Rightarrow> True)"

text \<open>A \<^verbatim>\<open>for ... of\<close> loop whose body may throw; the first error ends it.\<close>

fun forE :: "('a \<Rightarrow> unit result) \<Rightarrow> 'a list \<Rightarrow> unit result" where
  "forE f [] = Inr ()"
| "forE f (x # xs) = bindE (f x) (\<lambda>_. forE f xs)"

fun mapE :: "('a \<Rightarrow> 'b result) \<Rightarrow> 'a list \<Rightarrow> 'b list result" where
  "mapE f [] = Inr []"
| "mapE f (x # xs) = bindE (f x) (\<lambda>y. bindE (mapE f xs) (\<lambda>ys. Inr (y # ys)))"

lemma throw_not_Inr [simp]: "throw m \<noteq> Inr x" "Inr x \<noteq> throw m"
  by (simp_all add: throw_def)

lemma throw_eq_Inl [simp]: "throw m = Inl e \<longleftrightarrow> e = Error m"
  by (auto simp: throw_def)

lemma is_ok_simps [simp]: "is_ok (Inr x)" "\<not> is_ok (Inl e)" "\<not> is_ok (throw m)"
  by (simp_all add: is_ok_def throw_def)

lemma is_ok_iff: "is_ok r \<longleftrightarrow> (\<exists>x. r = Inr x)"
  by (cases r) auto

lemma bindE_simps [simp]: "bindE (Inr x) f = f x" "bindE (Inl e) f = Inl e"
    "bindE (throw m) f = throw m"
  by (simp_all add: bindE_def throw_def)

lemma bindE_Inr [result_simps]: "bindE m f = Inr y \<longleftrightarrow> (\<exists>x. m = Inr x \<and> f x = Inr y)"
  by (cases m) auto

lemma bindE_ok [result_simps]: "is_ok (bindE m f) \<longleftrightarrow> (\<exists>x. m = Inr x \<and> is_ok (f x))"
  by (cases m) auto

lemma bindE_assoc: "bindE (bindE m f) g = bindE m (\<lambda>x. bindE (f x) g)"
  by (cases m) auto

lemma ensure_simps [simp]: "ensure True m = Inr ()" "ensure False m = throw m"
  by (simp_all add: ensure_def)

lemma ensure_Inr [simp, result_simps]: "ensure b m = Inr u \<longleftrightarrow> b"
  by (simp add: ensure_def)

lemma ensure_ok [simp]: "is_ok (ensure b m) \<longleftrightarrow> b"
  by (simp add: ensure_def)

lemma catchE_simps [simp]: "catchE (Inr x) h = Inr x" "catchE (Inl e) h = h e"
  by (simp_all add: catchE_def)

lemma forE_Inr [result_simps]: "forE f xs = Inr u \<longleftrightarrow> (\<forall>x \<in> set xs. f x = Inr ())"
  by (induction xs) (auto simp: bindE_Inr)

lemma forE_append: "forE f (xs @ ys) = bindE (forE f xs) (\<lambda>_. forE f ys)"
  by (induction xs) (auto simp: bindE_assoc)

lemma mapE_Inr: "mapE f xs = Inr ys \<longleftrightarrow> list_all2 (\<lambda>x y. f x = Inr y) xs ys"
proof (induction xs arbitrary: ys)
  case Nil
  show ?case by auto
next
  case (Cons x xs)
  then show ?case by (cases ys) (auto simp: bindE_Inr)
qed

section \<open>JavaScript strings\<close>

abbreviation nl :: char where "nl \<equiv> CHR 0x0A"
abbreviation cr :: char where "cr \<equiv> CHR 0x0D"
abbreviation tab :: char where "tab \<equiv> CHR 0x09"
abbreviation nul :: char where "nul \<equiv> CHR 0x00"
abbreviation slash :: char where "slash \<equiv> CHR ''/''"
abbreviation backslash :: char where "backslash \<equiv> CHR 0x5C"
abbreviation dquote :: char where "dquote \<equiv> CHR 0x22"
abbreviation squote :: char where "squote \<equiv> CHR 0x27"

definition ellipsis :: char where "ellipsis = CHR 0x85"

definition startsWith :: "string \<Rightarrow> string \<Rightarrow> bool" where
  "startsWith s p = (take (length p) s = p)"

definition endsWith :: "string \<Rightarrow> string \<Rightarrow> bool" where
  "endsWith s p = (length p \<le> length s \<and> drop (length s - length p) s = p)"

fun str_includes :: "string \<Rightarrow> string \<Rightarrow> bool" where
  "str_includes [] p = (p = [])"
| "str_includes (c # s) p = (startsWith (c # s) p \<or> str_includes s p)"

text \<open>\<^verbatim>\<open>s.split(c)\<close> for a one-character separator, and \<^verbatim>\<open>xs.join(sep)\<close>.\<close>

fun split_on :: "char \<Rightarrow> string \<Rightarrow> string list" where
  "split_on c [] = [[]]"
| "split_on c (x # xs) =
     (if x = c then [] # split_on c xs
      else (case split_on c xs of [] \<Rightarrow> [[x]] | y # ys \<Rightarrow> (x # y) # ys))"

fun join :: "string \<Rightarrow> string list \<Rightarrow> string" where
  "join sep [] = []"
| "join sep [x] = x"
| "join sep (x # y # ys) = x @ sep @ join sep (y # ys)"

text \<open>\<^verbatim>\<open>filter(Boolean)\<close> on strings keeps the non-empty ones.\<close>

definition nonempty :: "string list \<Rightarrow> string list" where
  "nonempty xs = filter (\<lambda>x. x \<noteq> []) xs"

text \<open>\<^verbatim>\<open>s.split(/\r?\n/)\<close>.\<close>

definition chop_cr :: "string \<Rightarrow> string" where
  "chop_cr s = (if s \<noteq> [] \<and> last s = cr then butlast s else s)"

definition split_lines :: "string \<Rightarrow> string list" where
  "split_lines s = (let ls = split_on nl s in map chop_cr (butlast ls) @ [last ls])"

definition is_space :: "char \<Rightarrow> bool" where
  "is_space c = (c \<in> set [CHR 0x09, CHR 0x0A, CHR 0x0B, CHR 0x0C, CHR 0x0D, CHR 0x20, CHR 0xA0])"

definition trim :: "string \<Rightarrow> string" where
  "trim s = rev (dropWhile is_space (rev (dropWhile is_space s)))"

definition lower_char :: "char \<Rightarrow> char" where
  "lower_char c = (let n = (of_char c :: nat) in
     if 65 \<le> n \<and> n \<le> 90 \<or> 192 \<le> n \<and> n \<le> 222 \<and> n \<noteq> 215 then char_of (n + 32) else c)"

definition lower :: "string \<Rightarrow> string" where
  "lower s = map lower_char s"

section \<open>Character classes\<close>

definition is_digit :: "char \<Rightarrow> bool" where
  "is_digit c = (c \<in> set ''0123456789'')"

definition is_hex :: "char \<Rightarrow> bool" where
  "is_hex c = (c \<in> set ''0123456789abcdef'')"

definition is_lower :: "char \<Rightarrow> bool" where
  "is_lower c = (c \<in> set ''abcdefghijklmnopqrstuvwxyz'')"

definition is_upper :: "char \<Rightarrow> bool" where
  "is_upper c = (c \<in> set ''ABCDEFGHIJKLMNOPQRSTUVWXYZ'')"

definition is_alnum_lower :: "char \<Rightarrow> bool" where
  "is_alnum_lower c = (is_lower c \<or> is_digit c)"

text \<open>\<^verbatim>\<open>/^[0-9a-f]{n}$/\<close> and \<^verbatim>\<open>/^[a-f0-9]{40,64}$/\<close>.\<close>

definition hex_exact :: "nat \<Rightarrow> string \<Rightarrow> bool" where
  "hex_exact n s = (length s = n \<and> list_all is_hex s)"

definition hex_40_64 :: "string \<Rightarrow> bool" where
  "hex_40_64 s = (40 \<le> length s \<and> length s \<le> 64 \<and> list_all is_hex s)"

section \<open>Facts\<close>

lemma startsWith_append [simp]: "startsWith (p @ s) p"
  by (simp add: startsWith_def)

lemma startsWith_iff: "startsWith s p \<longleftrightarrow> (\<exists>t. s = p @ t)"
  by (metis append_eq_conv_conj append_take_drop_id startsWith_def)

lemma startsWith_prefix: "startsWith s p \<longleftrightarrow> prefix p s"
  by (simp add: startsWith_iff prefix_def)

lemma startsWith_Cons [simp]: "startsWith (c # s) (d # p) \<longleftrightarrow> c = d \<and> startsWith s p"
  by (auto simp: startsWith_def)

lemma startsWith_Nil [simp]: "startsWith s []" "startsWith [] p \<longleftrightarrow> p = []"
  by (auto simp: startsWith_def)

lemma startsWith_append_same [simp]: "startsWith (a @ s) (a @ p) = startsWith s p"
  by (simp add: startsWith_def)

lemma endsWith_iff: "endsWith s p \<longleftrightarrow> (\<exists>t. s = t @ p)"
proof
  assume "endsWith s p"
  then show "\<exists>t. s = t @ p"
    by (metis append_take_drop_id endsWith_def)
next
  assume "\<exists>t. s = t @ p"
  then show "endsWith s p" by (auto simp: endsWith_def)
qed

lemma endsWith_append: "length p \<le> length s \<Longrightarrow> endsWith (a @ s) p = endsWith s p"
  by (auto simp: endsWith_def)

lemma str_includes_iff: "str_includes s p \<longleftrightarrow> (\<exists>a b. s = a @ p @ b)"
proof (induction s)
  case Nil
  show ?case by auto
next
  case (Cons c s)
  have "(\<exists>a b. c # s = a @ p @ b) \<longleftrightarrow> startsWith (c # s) p \<or> (\<exists>a b. s = a @ p @ b)"
    by (auto simp: startsWith_iff Cons_eq_append_conv append_eq_Cons_conv)
  with Cons show ?case by simp
qed

lemma str_includes_single: "str_includes s [c] \<longleftrightarrow> c \<in> set s"
  by (simp add: str_includes_iff in_set_conv_decomp)

lemma split_on_ne [simp]: "split_on c s \<noteq> []"
  by (induction s) (auto split: list.splits)

lemma split_on_none: "c \<notin> set s \<Longrightarrow> split_on c s = [s]"
  by (induction s) auto

lemma split_on_append: "c \<notin> set a \<Longrightarrow> split_on c (a @ c # b) = a # split_on c b"
  by (induction a) auto

lemma split_on_sep_free: "x \<in> set (split_on c s) \<Longrightarrow> c \<notin> set x"
  by (induction s arbitrary: x) (auto split: if_splits list.splits)

lemma split_on_chars: "x \<in> set (split_on c s) \<Longrightarrow> set x \<subseteq> set s"
  by (induction s arbitrary: x) (fastforce split: if_splits list.splits)+

lemma join_Cons: "xs \<noteq> [] \<Longrightarrow> join sep (x # xs) = x @ sep @ join sep xs"
  by (cases xs) auto

lemma join_split_on [simp]: "join [c] (split_on c s) = s"
proof (induction s)
  case Nil
  show ?case by simp
next
  case (Cons x s)
  show ?case
  proof (cases "x = c")
    case True
    with Cons show ?thesis by (simp add: join_Cons)
  next
    case False
    obtain y ys where ys: "split_on c s = y # ys" by (cases "split_on c s") auto
    with False Cons show ?thesis by (cases ys) auto
  qed
qed

lemma split_on_join:
  "xs \<noteq> [] \<Longrightarrow> \<forall>x \<in> set xs. c \<notin> set x \<Longrightarrow> split_on c (join [c] xs) = xs"
proof (induction xs)
  case Nil
  then show ?case by simp
next
  case (Cons x xs)
  then show ?case
    by (cases xs) (auto simp: split_on_none split_on_append)
qed

lemma split_on_eq_join: "split_on c s = xs \<Longrightarrow> s = join [c] xs"
  by auto

lemma split_on_inj: "split_on c s = split_on c t \<Longrightarrow> s = t"
  by (metis join_split_on)

lemma length_lower [simp]: "length (lower s) = length s"
  by (simp add: lower_def)

lemma hex_exact_length: "hex_exact n s \<Longrightarrow> length s = n"
  by (simp add: hex_exact_def)

lemma hex_exact_replicate [simp]: "hex_exact n (replicate m c) \<longleftrightarrow> m = n \<and> (n = 0 \<or> is_hex c)"
  by (auto simp: hex_exact_def list_all_iff)

lemma hex_40_64_of_exact: "hex_exact 40 s \<Longrightarrow> hex_40_64 s"
  by (simp add: hex_exact_def hex_40_64_def)

lemma is_hex_digits [simp]: "is_hex CHR ''a''" "is_hex CHR ''b''" "is_hex CHR ''c''"
    "is_hex CHR ''d''" "is_hex CHR ''e''" "is_hex CHR ''f''" "is_hex CHR ''0''" "is_hex CHR ''1''"
  by (simp_all add: is_hex_def)

lemma hex_not_space: "is_hex c \<Longrightarrow> \<not> is_space c"
  by (auto simp: is_hex_def is_space_def)

lemma trim_line:
  assumes "list_all (\<lambda>c. \<not> is_space c) s"
  shows "trim (s @ [nl]) = s" and "trim s = s"
proof -
  have d: "dropWhile is_space t = t" if "list_all (\<lambda>c. \<not> is_space c) t" for t
    using that by (cases t) auto
  have r: "list_all (\<lambda>c. \<not> is_space c) (rev s)" using assms by (simp add: list_all_iff)
  show "trim s = s" using d [OF assms] d [OF r] by (simp add: trim_def)
  have nl: "is_space nl" by (simp add: is_space_def)
  show "trim (s @ [nl]) = s"
  proof (cases s)
    case Nil
    with nl show ?thesis by (simp add: trim_def)
  next
    case (Cons c cs)
    then have "dropWhile is_space (s @ [nl]) = s @ [nl]" using assms by simp
    with nl d [OF r] show ?thesis by (simp add: trim_def)
  qed
qed

section \<open>Lower case\<close>

lemma of_char_lower: "(of_char (lower_char c) :: nat) =
    (let n = of_char c in if 65 \<le> n \<and> n \<le> 90 \<or> 192 \<le> n \<and> n \<le> 222 \<and> n \<noteq> 215 then n + 32 else n)"
  by (auto simp: lower_char_def Let_def)

lemma char_eq_nat: "c = d \<longleftrightarrow> (of_char c :: nat) = of_char d"
  by simp

lemma lower_char_idem [simp]: "lower_char (lower_char c) = lower_char c"
  unfolding char_eq_nat [of "lower_char _"] by (simp add: of_char_lower Let_def)

lemma lower_idem [simp]: "lower (lower s) = lower s"
  by (simp add: lower_def)

text \<open>Characters below \<open>A\<close> or between the two alphabets are not the lower case of another.\<close>

definition caseless :: "char \<Rightarrow> bool" where
  "caseless d = ((of_char d :: nat) < 65 \<or> 91 \<le> (of_char d :: nat) \<and> (of_char d :: nat) \<le> 96
    \<or> 123 \<le> (of_char d :: nat) \<and> (of_char d :: nat) \<le> 191)"

lemma lower_char_caseless: "caseless d \<Longrightarrow> lower_char c = d \<longleftrightarrow> c = d"
  unfolding char_eq_nat [of _ d] of_char_lower caseless_def by (auto simp: Let_def)

lemma caseless_simps [simp]: "caseless slash" "caseless backslash" "caseless CHR ''.''"
    "caseless nul" "caseless nl" "caseless cr" "caseless CHR ''-''" "caseless CHR '':''"
  by (simp_all add: caseless_def)

lemma lower_Nil [simp]: "lower [] = []" "lower s = [] \<longleftrightarrow> s = []"
  by (simp_all add: lower_def)

lemma lower_Cons [simp]: "lower (c # s) = lower_char c # lower s"
  by (simp add: lower_def)

lemma lower_append: "lower (a @ b) = lower a @ lower b"
  by (simp add: lower_def)

lemma caseless_in_lower: "caseless d \<Longrightarrow> d \<in> set (lower s) \<longleftrightarrow> d \<in> set s"
  by (auto simp: lower_def image_iff eq_commute [of d] lower_char_caseless)

lemma split_on_lower: "caseless c \<Longrightarrow> split_on c (lower s) = map lower (split_on c s)"
  by (induction s) (auto simp: lower_char_caseless split: list.splits)

lemma lower_eq_caseless: "list_all caseless w \<Longrightarrow> lower s = w \<longleftrightarrow> s = w"
proof (induction s arbitrary: w)
  case Nil
  then show ?case by auto
next
  case (Cons c s)
  then show ?case by (cases w) (auto simp: lower_char_caseless)
qed

section \<open>Child processes\<close>

text \<open>What \<^verbatim>\<open>spawnSync\<close> returns; the status is \<^verbatim>\<open>null\<close> when the child was killed.\<close>

record proc_result =
  p_status :: "int option"
  p_stdout :: string
  p_stderr :: string

text \<open>The process that runs an external program: its arguments, directory and environment.\<close>

type_synonym spawn = "string list \<Rightarrow> string \<Rightarrow> (string \<times> string) list \<Rightarrow> proc_result"

end
