(* ===== verification/Json.thy ===== *)
theory Json
  imports Prelude
begin

text \<open>
  Values as \<^verbatim>\<open>JSON.parse\<close> returns them: what crosses the broker socket and what the manager
  keeps in its state files.  Numbers are integers (the sources test them with
  \<^verbatim>\<open>Number.isInteger\<close> or compare them with integer literals).  A missing key and the value
  \<^verbatim>\<open>undefined\<close> are both \<open>None\<close>.
\<close>

datatype json =
    JNull
  | JBool bool
  | JNum int
  | JStr string
  | JArr "json list"
  | JObj "(string \<times> json) list"

section \<open>Access\<close>

text \<open>\<^verbatim>\<open>value?.key\<close>: a key of something that is not an object is \<^verbatim>\<open>undefined\<close>.\<close>

definition get :: "json \<Rightarrow> string \<Rightarrow> json option" where
  "get v k = (case v of JObj kvs \<Rightarrow> map_of kvs k | _ \<Rightarrow> None)"

definition keys :: "json \<Rightarrow> string list" where
  "keys v = (case v of JObj kvs \<Rightarrow> map fst kvs | _ \<Rightarrow> [])"

definition is_obj :: "json \<Rightarrow> bool" where
  "is_obj v = (case v of JObj _ \<Rightarrow> True | _ \<Rightarrow> False)"

definition get_str :: "json \<Rightarrow> string \<Rightarrow> string option" where
  "get_str v k = (case get v k of Some (JStr s) \<Rightarrow> Some s | _ \<Rightarrow> None)"

text \<open>JavaScript truthiness.\<close>

fun truthy :: "json option \<Rightarrow> bool" where
  "truthy None = False"
| "truthy (Some JNull) = False"
| "truthy (Some (JBool b)) = b"
| "truthy (Some (JNum n)) = (n \<noteq> 0)"
| "truthy (Some (JStr s)) = (s \<noteq> [])"
| "truthy (Some (JArr _)) = True"
| "truthy (Some (JObj _)) = True"

section \<open>\<^verbatim>\<open>String(value)\<close>\<close>

fun digits_of :: "nat \<Rightarrow> string" where
  "digits_of n = (if n < 10 then [char_of (48 + n)] else digits_of (n div 10) @ [char_of (48 + n mod 10)])"

declare digits_of.simps [simp del]

definition int_to_string :: "int \<Rightarrow> string" where
  "int_to_string n = (if n < 0 then CHR ''-'' # digits_of (nat (- n)) else digits_of (nat n))"

fun to_string :: "json \<Rightarrow> string" and elem_string :: "json \<Rightarrow> string" where
  "to_string JNull = ''null''"
| "to_string (JBool b) = (if b then ''true'' else ''false'')"
| "to_string (JNum n) = int_to_string n"
| "to_string (JStr s) = s"
| "to_string (JArr xs) = join '','' (map elem_string xs)"
| "to_string (JObj _) = ''[object Object]''"
| "elem_string JNull = []"
| "elem_string (JBool b) = (if b then ''true'' else ''false'')"
| "elem_string (JNum n) = int_to_string n"
| "elem_string (JStr s) = s"
| "elem_string (JArr xs) = join '','' (map elem_string xs)"
| "elem_string (JObj _) = ''[object Object]''"

text \<open>\<^verbatim>\<open>String(value || "")\<close>.\<close>

definition string_or_empty :: "json option \<Rightarrow> string" where
  "string_or_empty v = (if truthy v then to_string (the v) else [])"

lemma string_or_empty_simps [simp]:
  "string_or_empty None = []" "string_or_empty (Some (JStr s)) = s" "string_or_empty (Some JNull) = []"
  by (simp_all add: string_or_empty_def)

lemma get_JObj [simp]: "get (JObj kvs) k = map_of kvs k"
  by (simp add: get_def)

lemma keys_JObj [simp]: "keys (JObj kvs) = map fst kvs"
  by (simp add: keys_def)

lemma is_obj_JObj [simp]: "is_obj (JObj kvs)"
  by (simp add: is_obj_def)

lemma get_in_keys: "get v k = Some x \<Longrightarrow> k \<in> set (keys v)"
  by (cases v) (auto simp: get_def keys_def dest: map_of_SomeD intro: rev_image_eqI)

lemma keys_get: "k \<in> set (keys v) \<longleftrightarrow> (\<exists>x. get v k = Some x)"
proof -
  have "\<And>kvs. k \<in> fst ` set kvs \<longleftrightarrow> (\<exists>x. map_of kvs k = Some x)"
    by (metis map_of_eq_None_iff option.exhaust option.distinct(1))
  then show ?thesis by (cases v) (auto simp: get_def keys_def)
qed

text \<open>
  \<^verbatim>\<open>Object.keys(o).sort().join(",") === "a,b"\<close> as the sources use it: the keys of an object
  are distinct, so this is equality of the sorted lists (no expected key contains a comma, and a
  key with a comma in it is compared as the joined text, as the code does).
\<close>

text \<open>Code-unit order on strings (\<^verbatim>\<open>Array.prototype.sort\<close>).\<close>

fun str_le :: "string \<Rightarrow> string \<Rightarrow> bool" where
  "str_le [] _ = True"
| "str_le (_ # _) [] = False"
| "str_le (c # s) (d # t) =
     ((of_char c :: nat) < of_char d \<or> c = d \<and> str_le s t)"

fun insert_str :: "string \<Rightarrow> string list \<Rightarrow> string list" where
  "insert_str x [] = [x]"
| "insert_str x (y # ys) = (if str_le x y then x # y # ys else y # insert_str x ys)"

definition sort_strings :: "string list \<Rightarrow> string list" where
  "sort_strings xs = foldr insert_str xs []"

definition sorted_keys :: "json \<Rightarrow> string" where
  "sorted_keys v = join '','' (sort_strings (keys v))"

lemma set_insert_str [simp]: "set (insert_str x ys) = insert x (set ys)"
  by (induction ys) auto

lemma set_sort_strings [simp]: "set (sort_strings xs) = set xs"
  by (induction xs) (auto simp: sort_strings_def)

lemma length_insert_str [simp]: "length (insert_str x ys) = Suc (length ys)"
  by (induction ys) auto

lemma length_sort_strings [simp]: "length (sort_strings xs) = length xs"
  by (induction xs) (auto simp: sort_strings_def)

section \<open>Assignment of keys\<close>

text \<open>Assignment of a key: in place, or as the last one.\<close>

definition put_field :: "string \<Rightarrow> json \<Rightarrow> json \<Rightarrow> json" where
  "put_field k j v =
    (case v of
       JObj kvs \<Rightarrow> JObj (if k \<in> fst ` set kvs then map (\<lambda>(m, w). if m = k then (k, j) else (m, w)) kvs else kvs @ [(k, j)])
     | _ \<Rightarrow> v)"

definition put_fields :: "(string \<times> json) list \<Rightarrow> json \<Rightarrow> json" where
  "put_fields fs v = fold (\<lambda>(k, j). put_field k j) fs v"

lemma get_put_field: "is_obj v \<Longrightarrow> get (put_field k j v) m = (if m = k then Some j else get v m)"
proof -
  assume "is_obj v"
  then obtain kvs where v: "v = JObj kvs" by (cases v) (auto simp: is_obj_def)
  have "map_of (map (\<lambda>(m, w). if m = k then (k, j) else (m, w)) kvs) m = (if m = k then Some j else map_of kvs m)"
    if "k \<in> set (map fst kvs)"
  proof (cases "m = k")
    case True
    have "k \<in> set (map fst kvs) \<longrightarrow> map_of (map (\<lambda>(m, w). if m = k then (k, j) else (m, w)) kvs) k = Some j"
      by (induction kvs) auto
    then show ?thesis using that True by simp
  next
    case False
    then show ?thesis by (induction kvs) auto
  qed
  moreover have "map_of (kvs @ [(k, j)]) m = (if m = k then Some j else map_of kvs m)" if "k \<notin> fst ` set kvs"
    using that by (induction kvs) auto
  ultimately show ?thesis
    by (cases "k \<in> fst ` set kvs") (simp_all add: v put_field_def del: map_of_append split del: if_split cong del: if_weak_cong)
qed

lemma put_field_is_obj: "is_obj v \<Longrightarrow> is_obj (put_field k j v)"
  by (cases v) (auto simp: put_field_def is_obj_def)

lemma get_put_fields: "is_obj v \<Longrightarrow> m \<notin> fst ` set fs \<Longrightarrow> get (put_fields fs v) m = get v m"
  by (induction fs arbitrary: v) (auto simp: put_fields_def get_put_field put_field_is_obj)

lemma put_fields_is_obj: "is_obj v \<Longrightarrow> is_obj (put_fields fs v)"
  by (induction fs arbitrary: v) (auto simp: put_fields_def put_field_is_obj)

end
