(* ===== verification/PosixPath.thy ===== *)
theory PosixPath
  imports Prelude
begin

text \<open>
  Node's \<^verbatim>\<open>path\<close> module on POSIX, as the sources use it: \<^verbatim>\<open>resolve\<close>, \<^verbatim>\<open>normalize\<close>,
  \<^verbatim>\<open>join\<close>, \<^verbatim>\<open>dirname\<close>, \<^verbatim>\<open>basename\<close>, \<^verbatim>\<open>relative\<close> and
  \<^verbatim>\<open>isAbsolute\<close>.  A resolved path is written out from its list of components, and the two
  versions of \<^verbatim>\<open>isWithin\<close> in the repository are related to the prefix order on components.
\<close>

section \<open>The path module\<close>

definition is_absolute :: "string \<Rightarrow> bool" where
  "is_absolute p = startsWith p ''/''"

text \<open>One component of \<^verbatim>\<open>normalizeString\<close> on an absolute path: empty and \<^verbatim>\<open>.\<close>
  components vanish, \<^verbatim>\<open>..\<close> removes the last one and stops at the root.\<close>

definition push_comp :: "string list \<Rightarrow> string \<Rightarrow> string list" where
  "push_comp acc c =
     (if c = [] \<or> c = ''.'' then acc else if c = ''..'' then butlast acc else acc @ [c])"

definition norm_comps :: "string list \<Rightarrow> string list" where
  "norm_comps cs = foldl push_comp [] cs"

definition abs_path :: "string list \<Rightarrow> string" where
  "abs_path cs = slash # join ''/'' cs"

text \<open>\<^verbatim>\<open>path.resolve(p)\<close> with the process directory \<open>cwd\<close>, and its components.\<close>

definition resolve_comps :: "string \<Rightarrow> string \<Rightarrow> string list" where
  "resolve_comps cwd p =
     norm_comps (split_on slash (if is_absolute p then p else cwd @ slash # p))"

definition path_resolve :: "string \<Rightarrow> string \<Rightarrow> string" where
  "path_resolve cwd p = abs_path (resolve_comps cwd p)"

text \<open>\<^verbatim>\<open>path.join(base, c)\<close> for a resolved base and a plain component.\<close>

definition path_join :: "string \<Rightarrow> string \<Rightarrow> string" where
  "path_join base c = (if base = ''/'' then slash # c else base @ slash # c)"

definition comps_of :: "string \<Rightarrow> string list" where
  "comps_of p = norm_comps (split_on slash p)"

text \<open>\<^verbatim>\<open>dirname\<close> and \<^verbatim>\<open>basename\<close> of a resolved path.\<close>

definition path_dirname :: "string \<Rightarrow> string" where
  "path_dirname p = abs_path (butlast (comps_of p))"

definition path_basename :: "string \<Rightarrow> string" where
  "path_basename p = (if comps_of p = [] then [] else last (comps_of p))"

definition relative_comps :: "string list \<Rightarrow> string list \<Rightarrow> string list" where
  "relative_comps f t =
     (let k = length (longest_common_prefix f t)
      in replicate (length f - k) ''..'' @ drop k t)"

definition path_relative :: "string \<Rightarrow> string \<Rightarrow> string \<Rightarrow> string" where
  "path_relative cwd from to =
     join ''/'' (relative_comps (resolve_comps cwd from) (resolve_comps cwd to))"

section \<open>The two containment tests\<close>

text \<open>The version of the scripts (\<^verbatim>\<open>s6-github-broker.mjs\<close>, \<^verbatim>\<open>disposable-workspace.mjs\<close>,
  \<^verbatim>\<open>s5-runtime.mjs\<close>).\<close>

definition isWithin :: "string \<Rightarrow> string \<Rightarrow> string \<Rightarrow> bool" where
  "isWithin cwd candidate parent =
     (let relative = path_relative cwd parent candidate
      in relative = [] \<or>
         relative \<noteq> ''..'' \<and> \<not> startsWith relative ''../'' \<and> \<not> is_absolute relative)"

text \<open>The version of \<^verbatim>\<open>src/lib/paths.js\<close> (on POSIX \<^verbatim>\<open>normalizeCase\<close> leaves a resolved
  path as it is).\<close>

definition isWithin_lib :: "string \<Rightarrow> string \<Rightarrow> string \<Rightarrow> bool" where
  "isWithin_lib cwd target root =
     (let relative = path_relative cwd root target
      in relative = [] \<or> \<not> startsWith relative ''..'' \<and> \<not> is_absolute relative)"

section \<open>Facts\<close>

definition plain_comp :: "string \<Rightarrow> bool" where
  "plain_comp c = (c \<noteq> [] \<and> c \<noteq> ''.'' \<and> c \<noteq> ''..'' \<and> slash \<notin> set c)"

lemma push_comp_plain:
  assumes "list_all plain_comp acc" and "slash \<notin> set c"
  shows "list_all plain_comp (push_comp acc c)"
  using assms by (auto simp: push_comp_def plain_comp_def list_all_iff dest: in_set_butlastD)

lemma foldl_push_plain:
  assumes "list_all plain_comp acc" and "\<forall>c \<in> set cs. slash \<notin> set c"
  shows "list_all plain_comp (foldl push_comp acc cs)"
  using assms by (induction cs arbitrary: acc) (auto simp: push_comp_plain)

lemma norm_comps_plain: "\<forall>c \<in> set cs. slash \<notin> set c \<Longrightarrow> list_all plain_comp (norm_comps cs)"
  by (simp add: norm_comps_def foldl_push_plain)

lemma resolve_comps_plain [simp]: "list_all plain_comp (resolve_comps cwd p)"
  unfolding resolve_comps_def by (rule norm_comps_plain) (auto dest: split_on_sep_free)

lemma foldl_push_id: "list_all plain_comp cs \<Longrightarrow> foldl push_comp acc cs = acc @ cs"
  by (induction cs arbitrary: acc) (auto simp: push_comp_def plain_comp_def)

lemma norm_comps_id: "list_all plain_comp cs \<Longrightarrow> norm_comps cs = cs"
  by (simp add: norm_comps_def foldl_push_id)

lemma split_abs_path: "list_all plain_comp cs \<Longrightarrow> cs \<noteq> [] \<Longrightarrow> split_on slash (abs_path cs) = [] # cs"
  by (simp add: abs_path_def split_on_join list_all_iff plain_comp_def)

lemma norm_comps_Cons_Nil [simp]: "norm_comps ([] # cs) = norm_comps cs"
  by (simp add: norm_comps_def push_comp_def)

lemma comps_of_abs_path [simp]:
  assumes "list_all plain_comp cs"
  shows "comps_of (abs_path cs) = cs"
proof (cases "cs = []")
  case True
  then show ?thesis by (simp add: comps_of_def abs_path_def norm_comps_def push_comp_def)
next
  case False
  with assms show ?thesis by (simp add: comps_of_def split_abs_path norm_comps_id)
qed

lemma is_absolute_abs_path [simp]: "is_absolute (abs_path cs)"
  by (simp add: is_absolute_def abs_path_def)

lemma resolve_comps_abs [simp]:
  assumes "list_all plain_comp cs"
  shows "resolve_comps cwd (abs_path cs) = cs"
  using comps_of_abs_path [OF assms] by (simp add: resolve_comps_def comps_of_def)

lemma path_resolve_idem [simp]: "path_resolve cwd (path_resolve cwd' p) = path_resolve cwd' p"
  by (simp add: path_resolve_def)

lemma resolve_comps_resolve [simp]: "resolve_comps cwd (path_resolve cwd' p) = resolve_comps cwd' p"
  by (simp add: path_resolve_def)

lemma abs_path_inj:
  "list_all plain_comp a \<Longrightarrow> list_all plain_comp b \<Longrightarrow> abs_path a = abs_path b \<longleftrightarrow> a = b"
  by (metis comps_of_abs_path)

lemma join_abs_path: "path_join (abs_path cs) c = abs_path (cs @ [c])" if "list_all plain_comp cs"
proof (cases "cs = []")
  case True
  then show ?thesis by (simp add: path_join_def abs_path_def)
next
  case False
  have "join ''/'' (cs @ [c]) = join ''/'' cs @ slash # c" using False by (induction cs rule: induct_list012) auto
  moreover have "abs_path cs \<noteq> ''/''" using False that by (cases cs rule: rev_cases; cases "butlast cs") (auto simp: abs_path_def plain_comp_def join_Cons dest: arg_cong [of _ _ length])
  ultimately show ?thesis by (simp add: path_join_def abs_path_def)
qed

lemma path_resolve_eq_iff:
  "path_resolve cwd p = path_resolve cwd' q \<longleftrightarrow> resolve_comps cwd p = resolve_comps cwd' q"
  by (simp add: path_resolve_def abs_path_inj)

lemma lcp_append [simp]: "longest_common_prefix f (f @ t) = f"
  by (induction f) auto

lemma relative_prefix: "relative_comps f (f @ t) = t"
  by (simp add: relative_comps_def)

lemma relative_self [simp]: "relative_comps f f = []"
  using relative_prefix [of f "[]"] by simp

lemma relative_not_prefix:
  assumes "\<not> prefix f t"
  shows "\<exists>r. relative_comps f t = ''..'' # r"
proof -
  let ?l = "longest_common_prefix f t"
  have p: "prefix ?l f" "prefix ?l t"
    by (simp_all add: longest_common_prefix_prefix1 longest_common_prefix_prefix2)
  have "length ?l < length f"
  proof (rule ccontr)
    assume "\<not> length ?l < length f"
    with p(1) have "?l = f"
      by (metis prefix_length_le prefix_length_prefix prefix_order.antisym prefix_order.refl not_less)
    with p(2) assms show False by simp
  qed
  then obtain n where "length f - length ?l = Suc n"
    by (metis Suc_diff_Suc)
  then show ?thesis by (simp add: relative_comps_def Let_def)
qed

lemma join_hd: "xs \<noteq> [] \<Longrightarrow> \<exists>r. join sep xs = hd xs @ r \<and> (tl xs \<noteq> [] \<longrightarrow> startsWith r sep) \<and> (tl xs = [] \<longrightarrow> r = [])"
  by (cases xs; cases "tl xs") auto

lemma startsWith_dotdot_slash:
  assumes "slash \<notin> set c"
  shows "startsWith (c @ slash # r) ''../'' \<longleftrightarrow> c = ''..''"
  using assms by (cases c; cases "tl c"; cases "tl (tl c)") auto

lemma join_plain_escape:
  assumes "list_all plain_comp t" and "t \<noteq> []"
  shows "join ''/'' t \<noteq> []" "join ''/'' t \<noteq> ''..''" "\<not> startsWith (join ''/'' t) ''../''"
    "\<not> is_absolute (join ''/'' t)"
proof -
  obtain c cs where t: "t = c # cs" using assms(2) by (cases t) auto
  with assms(1) have c: "plain_comp c" by simp
  then obtain a b where ab: "c = a # b" "a \<noteq> slash" by (cases c) (auto simp: plain_comp_def)
  have sl: "slash \<notin> set c" "c \<noteq> ''..''" using c by (auto simp: plain_comp_def)
  show "join ''/'' t \<noteq> []" using t ab by (cases cs) auto
  show "\<not> is_absolute (join ''/'' t)" using t ab by (cases cs) (auto simp: is_absolute_def)
  show "join ''/'' t \<noteq> ''..''"
  proof (cases cs)
    case Nil
    with t sl show ?thesis by simp
  next
    case (Cons d ds)
    with t have "slash \<in> set (join ''/'' t)" by simp
    then show ?thesis by auto
  qed
  show "\<not> startsWith (join ''/'' t) ''../''"
  proof (cases cs)
    case Nil
    with t sl(1) show ?thesis by (auto simp: startsWith_iff)
  next
    case (Cons d ds)
    with t sl startsWith_dotdot_slash [OF sl(1)] show ?thesis by simp
  qed
qed

lemma join_dotdot: "join ''/'' (''..'' # r) = ''..'' \<or> startsWith (join ''/'' (''..'' # r)) ''../''"
  by (cases r) auto

theorem isWithin_prefix:
  "isWithin cwd candidate parent \<longleftrightarrow> prefix (resolve_comps cwd parent) (resolve_comps cwd candidate)"
proof (cases "prefix (resolve_comps cwd parent) (resolve_comps cwd candidate)")
  case True
  then obtain t where t: "resolve_comps cwd candidate = resolve_comps cwd parent @ t"
    by (auto simp: prefix_def)
  then have "list_all plain_comp t"
    using resolve_comps_plain [of cwd candidate] by simp
  with True t show ?thesis
    by (cases "t = []") (auto simp: isWithin_def path_relative_def relative_prefix Let_def join_plain_escape)
next
  case False
  then obtain r where "relative_comps (resolve_comps cwd parent) (resolve_comps cwd candidate) = ''..'' # r"
    using relative_not_prefix by blast
  with False join_dotdot [of r] show ?thesis
    by (cases r) (auto simp: isWithin_def path_relative_def Let_def)
qed

theorem isWithin_lib_prefix:
  "isWithin_lib cwd target root \<longleftrightarrow>
     (\<exists>t. resolve_comps cwd target = resolve_comps cwd root @ t \<and> (t = [] \<or> \<not> startsWith (hd t) ''..''))"
proof (cases "prefix (resolve_comps cwd root) (resolve_comps cwd target)")
  case True
  then obtain t where t: "resolve_comps cwd target = resolve_comps cwd root @ t"
    by (auto simp: prefix_def)
  then have pl: "list_all plain_comp t"
    using resolve_comps_plain [of cwd target] by simp
  have sw: "t \<noteq> [] \<Longrightarrow> startsWith (join ''/'' t) ''..'' \<longleftrightarrow> startsWith (hd t) ''..''"
  proof -
    assume "t \<noteq> []"
    with pl obtain c cs where c: "t = c # cs" "c \<noteq> []" "slash \<notin> set c" "c \<noteq> ''.''"
      by (cases t) (auto simp: plain_comp_def)
    then show ?thesis
      by (cases cs; cases c; cases "tl c") (auto)
  qed
  have "path_relative cwd root target = join ''/'' t"
    by (simp add: path_relative_def t relative_prefix)
  then show ?thesis
    using pl sw t by (cases "t = []") (auto simp: isWithin_lib_def Let_def join_plain_escape)
next
  case False
  then obtain r where r: "relative_comps (resolve_comps cwd root) (resolve_comps cwd target) = ''..'' # r"
    using relative_not_prefix by blast
  have "startsWith (join ''/'' (''..'' # r)) ''..''" "join ''/'' (''..'' # r) \<noteq> []"
    by (cases r; simp)+
  with False r show ?thesis
    by (auto simp: isWithin_lib_def path_relative_def Let_def)
qed

text \<open>The library version is the stricter one.\<close>

lemma isWithin_lib_imp: "isWithin_lib cwd target root \<Longrightarrow> isWithin cwd target root"
  by (auto simp: isWithin_lib_prefix isWithin_prefix)

section \<open>Confinement as an interface\<close>

text \<open>
  What every client of a containment test relies on: the root itself is inside, and what is inside
  something inside is inside.  (The library version is not transitive in general, only its
  consequence on components is; clients that need transitivity use the scripts' version.)
\<close>

locale confinement =
  fixes within :: "string \<Rightarrow> string \<Rightarrow> bool"
    and location :: "string \<Rightarrow> string list"
  assumes within_location: "within x r \<Longrightarrow> prefix (location r) (location x)"
    and within_root: "location x = location r \<Longrightarrow> within x r"
begin

lemma refl_within: "within r r"
  by (rule within_root) simp

lemma disjoint_roots:
  assumes "within x r" and "within x s"
  shows "prefix (location r) (location s) \<or> prefix (location s) (location r)"
  using assms by (meson prefix_same_cases within_location)

lemma some_root:
  assumes "list_ex (within x) rs"
  shows "\<exists>r \<in> set rs. prefix (location r) (location x)"
  using assms by (auto simp: list_ex_iff dest: within_location)

end

locale tree_confinement = confinement +
  assumes location_within: "prefix (location r) (location x) \<Longrightarrow> within x r"
begin

lemma trans_within: "within x y \<Longrightarrow> within y z \<Longrightarrow> within x z"
  by (meson location_within prefix_order.trans within_location)

lemma antisym_within: "within x y \<Longrightarrow> within y x \<Longrightarrow> location x = location y"
  by (simp add: prefix_order.antisym within_location)

end

interpretation script_confine: tree_confinement "isWithin cwd" "resolve_comps cwd" for cwd
  by unfold_locales (auto simp: isWithin_prefix)

interpretation lib_confine: confinement "isWithin_lib cwd" "resolve_comps cwd" for cwd
  by unfold_locales (auto simp: isWithin_lib_prefix)

end
