(* ===== verification/JsRegex.thy ===== *)
theory JsRegex
  imports Prelude
begin

text \<open>
  The regular expressions of the sources.  \<open>re\<close> has the constructs they use and
  \<open>matches\<close> returns, in the order a backtracking matcher tries them, the positions at
  which a match that starts at a given position can end; its head is the match JavaScript picks.
  A position is the previous character (if any) and the rest of the input, which is all that
  \<^verbatim>\<open>^\<close>, \<^verbatim>\<open>$\<close> and \<^verbatim>\<open>\b\<close> look at.
\<close>

type_synonym pos = "char option \<times> string"

datatype re =
    Eps
  | Chr "char \<Rightarrow> bool"
  | Seq re re
  | Alt re re
  | Star re
  | Bol
  | Eol
  | BolM
  | EolM
  | Wb
  | NotAhead re

section \<open>Characters\<close>

definition is_word :: "char \<Rightarrow> bool" where
  "is_word c = (is_lower c \<or> is_upper c \<or> is_digit c \<or> c = CHR ''_'')"

definition is_newline :: "char \<Rightarrow> bool" where
  "is_newline c = (c = nl \<or> c = cr)"

definition upper_char :: "char \<Rightarrow> char" where
  "upper_char c = (let n = (of_char c :: nat) in if 97 \<le> n \<and> n \<le> 122 then char_of (n - 32) else c)"

text \<open>A class under the flag \<^verbatim>\<open>i\<close> (all classes of the sources are ASCII).\<close>

definition ci :: "(char \<Rightarrow> bool) \<Rightarrow> char \<Rightarrow> bool" where
  "ci p c = (p c \<or> p (lower_char c) \<or> p (upper_char c))"

section \<open>Matching\<close>

text \<open>Greedy repetition; an iteration that consumes nothing is cut off, as JavaScript does.\<close>

fun iter :: "(pos \<Rightarrow> pos list) \<Rightarrow> nat \<Rightarrow> pos \<Rightarrow> pos list" where
  "iter f 0 x = [x]"
| "iter f (Suc n) x =
     concat (map (iter f n) (filter (\<lambda>y. length (snd y) < length (snd x)) (f x))) @ [x]"

primrec matches :: "re \<Rightarrow> pos \<Rightarrow> pos list" where
  "matches Eps = (\<lambda>x. [x])"
| "matches (Chr p) = (\<lambda>x. case snd x of [] \<Rightarrow> [] | c # r \<Rightarrow> if p c then [(Some c, r)] else [])"
| "matches (Seq a b) = (\<lambda>x. concat (map (matches b) (matches a x)))"
| "matches (Alt a b) = (\<lambda>x. matches a x @ matches b x)"
| "matches (Star a) = (\<lambda>x. iter (matches a) (length (snd x)) x)"
| "matches Bol = (\<lambda>x. if fst x = None then [x] else [])"
| "matches Eol = (\<lambda>x. if snd x = [] then [x] else [])"
| "matches BolM = (\<lambda>x. case fst x of None \<Rightarrow> [x] | Some c \<Rightarrow> if is_newline c then [x] else [])"
| "matches EolM = (\<lambda>x. case snd x of [] \<Rightarrow> [x] | c # _ \<Rightarrow> if is_newline c then [x] else [])"
| "matches Wb = (\<lambda>x.
     if (case fst x of None \<Rightarrow> False | Some c \<Rightarrow> is_word c)
        \<noteq> (case snd x of [] \<Rightarrow> False | c # _ \<Rightarrow> is_word c) then [x] else [])"
| "matches (NotAhead a) = (\<lambda>x. if matches a x = [] then [x] else [])"

fun test_from :: "re \<Rightarrow> char option \<Rightarrow> string \<Rightarrow> bool" where
  "test_from r p [] = (matches r (p, []) \<noteq> [])"
| "test_from r p (c # s) = (matches r (p, c # s) \<noteq> [] \<or> test_from r (Some c) s)"

text \<open>\<^verbatim>\<open>re.test(s)\<close>.\<close>

definition re_test :: "re \<Rightarrow> string \<Rightarrow> bool" where
  "re_test r s = test_from r None s"

section \<open>Building blocks\<close>

primrec lit :: "string \<Rightarrow> re" where
  "lit [] = Eps"
| "lit (c # s) = Seq (Chr (\<lambda>x. x = c)) (lit s)"

primrec lit_i :: "string \<Rightarrow> re" where
  "lit_i [] = Eps"
| "lit_i (c # s) = Seq (Chr (ci (\<lambda>x. x = c))) (lit_i s)"

definition Opt :: "re \<Rightarrow> re" where "Opt r = Alt r Eps"

definition Plus :: "re \<Rightarrow> re" where "Plus r = Seq r (Star r)"

primrec rep :: "nat \<Rightarrow> re \<Rightarrow> re" where
  "rep 0 r = Eps"
| "rep (Suc n) r = Seq r (rep n r)"

fun alts :: "re list \<Rightarrow> re" where
  "alts [] = Chr (\<lambda>_. False)"
| "alts [r] = r"
| "alts (r # rs) = Alt r (alts rs)"

fun seqs :: "re list \<Rightarrow> re" where
  "seqs [] = Eps"
| "seqs [r] = r"
| "seqs (r # rs) = Seq r (seqs rs)"

definition one_of :: "string \<Rightarrow> char \<Rightarrow> bool" where
  "one_of cs c = (c \<in> set cs)"

definition none_of :: "string \<Rightarrow> char \<Rightarrow> bool" where
  "none_of cs c = (c \<notin> set cs)"

abbreviation spaces :: re where "spaces \<equiv> Plus (Chr is_space)"
abbreviation spaces0 :: re where "spaces0 \<equiv> Star (Chr is_space)"

section \<open>Replacement\<close>

text \<open>
  \<^verbatim>\<open>s.replace(/(keep)tail/g, "$1" + text)\<close>: at each leftmost match of \<open>keep\<close>
  followed by \<open>tail\<close> the part matched by \<open>keep\<close> stays and the rest becomes
  \<open>text\<close>.  A match that consumes nothing is skipped (no pattern of the sources has one).
\<close>

definition first_match :: "re \<Rightarrow> re \<Rightarrow> pos \<Rightarrow> (pos \<times> pos) option" where
  "first_match keep tail x =
     (case concat (map (\<lambda>y. map (\<lambda>z. (y, z)) (matches tail y)) (matches keep x)) of
        [] \<Rightarrow> None | yz # _ \<Rightarrow> Some yz)"

function replace_from :: "re \<Rightarrow> re \<Rightarrow> string \<Rightarrow> char option \<Rightarrow> string \<Rightarrow> string" where
  "replace_from keep tail text p s =
     (case s of
        [] \<Rightarrow> []
      | c # t \<Rightarrow>
          (case first_match keep tail (p, s) of
             Some (y, z) \<Rightarrow>
               if length (snd z) < length s
               then take (length s - length (snd y)) s @ text @ replace_from keep tail text (fst z) (snd z)
               else c # replace_from keep tail text (Some c) t
           | None \<Rightarrow> c # replace_from keep tail text (Some c) t))"
  by pat_completeness auto
termination
  by (relation "measure (\<lambda>(keep, tail, text, p, s). length s)") auto

declare replace_from.simps [simp del]

definition replace_all :: "re \<Rightarrow> re \<Rightarrow> string \<Rightarrow> string \<Rightarrow> string" where
  "replace_all keep tail text s = replace_from keep tail text None s"

section \<open>Facts\<close>

lemma iter_self [simp]: "x \<in> set (iter f n x)"
  by (cases n) auto

lemma iter_suffix:
  assumes "y \<in> set (iter f n x)"
    and "\<And>x y. y \<in> set (f x) \<Longrightarrow> suffix (snd y) (snd x)"
  shows "suffix (snd y) (snd x)"
  using assms(1)
proof (induction n arbitrary: x)
  case 0
  then show ?case by simp
next
  case (Suc n)
  show ?case
  proof (cases "y = x")
    case True
    then show ?thesis by simp
  next
    case False
    with Suc.prems obtain z where "z \<in> set (f x)" "y \<in> set (iter f n z)"
      by (auto simp del: split_paired_Ex split_paired_All)
    with Suc.IH assms(2) show ?thesis by (meson suffix_order.trans)
  qed
qed

text \<open>A match consumes a prefix of the rest of the input.\<close>

lemma matches_suffix: "y \<in> set (matches r x) \<Longrightarrow> suffix (snd y) (snd x)"
proof (induction r arbitrary: x y)
  case (Chr p)
  then show ?case by (cases "snd x") (auto split: if_splits simp: suffix_Cons)
next
  case (Seq a b)
  then obtain z where "z \<in> set (matches a x)" "y \<in> set (matches b z)"
    by (auto simp del: split_paired_Ex split_paired_All)
  with Seq.IH show ?case by (meson suffix_order.trans)
next
  case (Star a)
  then show ?case by (metis iter_suffix matches.simps(5))
qed (auto split: if_splits option.splits list.splits)

lemma matches_length: "y \<in> set (matches r x) \<Longrightarrow> length (snd y) \<le> length (snd x)"
  by (auto dest: matches_suffix suffix_length_le)

lemma set_matches_Seq: "z \<in> set (matches (Seq a b) x) \<longleftrightarrow> (\<exists>y \<in> set (matches a x). z \<in> set (matches b y))"
  by auto

text \<open>Greedy repetition reaches every position that progressing iterations reach.\<close>

inductive reach :: "(pos \<Rightarrow> pos list) \<Rightarrow> pos \<Rightarrow> pos \<Rightarrow> bool" for f where
  stop: "reach f x x"
| more: "y \<in> set (f x) \<Longrightarrow> length (snd y) < length (snd x) \<Longrightarrow> reach f y z \<Longrightarrow> reach f x z"

lemma iter_reach: "y \<in> set (iter f n x) \<Longrightarrow> reach f x y"
  by (induction n arbitrary: x) (auto intro: reach.intros)

lemma reach_iter: "reach f x y \<Longrightarrow> length (snd x) \<le> n \<Longrightarrow> y \<in> set (iter f n x)"
proof (induction arbitrary: n rule: reach.induct)
  case (stop x)
  show ?case by simp
next
  case (more y x z)
  then obtain n' where n: "n = Suc n'" by (cases n) auto
  with more have "z \<in> set (iter f n' y)" by simp
  moreover have "y \<in> set (filter (\<lambda>y. length (snd y) < length (snd x)) (f x))"
    using more by simp
  ultimately show ?case unfolding n iter.simps set_append set_concat set_map by blast
qed

lemma set_matches_Star: "y \<in> set (matches (Star a) x) \<longleftrightarrow> reach (matches a) x y"
  by (auto intro: reach_iter iter_reach)

lemma matches_ne_iff: "matches r x \<noteq> [] \<longleftrightarrow> (\<exists>y. y \<in> set (matches r x))"
  by (cases "matches r x") auto

lemma matches_Alt_ne: "matches (Alt a b) x \<noteq> [] \<longleftrightarrow> matches a x \<noteq> [] \<or> matches b x \<noteq> []"
  by auto

lemma star_any_reach:
  assumes "list_all p w"
  shows "reach (matches (Chr p)) (q, w @ s) (if w = [] then q else Some (last w), s)"
  using assms
proof (induction w arbitrary: q)
  case Nil
  show ?case by (simp add: reach.stop)
next
  case (Cons c w)
  then have "reach (matches (Chr p)) (Some c, w @ s) (if w = [] then Some c else Some (last w), s)"
    by simp
  moreover have "(Some c, w @ s) \<in> set (matches (Chr p) (q, (c # w) @ s))"
    using Cons.prems by simp
  ultimately show ?case
    by (auto intro: reach.more)
qed

lemma matches_lit: "(p', s') \<in> set (matches (lit w) (p, s)) \<longleftrightarrow>
    s = w @ s' \<and> p' = (if w = [] then p else Some (last w))"
proof (induction w arbitrary: p s)
  case Nil
  show ?case by auto
next
  case (Cons c w)
  show ?case
    by (cases s) (auto simp: Cons)
qed

lemma test_from_drop:
  "matches r (if a = [] then p else Some (last a), b) \<noteq> [] \<Longrightarrow> test_from r p (a @ b)"
proof (induction a arbitrary: p)
  case Nil
  then show ?case by (cases b) auto
next
  case (Cons c a)
  then show ?case by (auto split: if_splits)
qed

lemma test_from_iff:
  "test_from r p s \<longleftrightarrow> (\<exists>a b. s = a @ b \<and> matches r (if a = [] then p else Some (last a), b) \<noteq> [])"
proof
  show "test_from r p s \<Longrightarrow> \<exists>a b. s = a @ b \<and> matches r (if a = [] then p else Some (last a), b) \<noteq> []"
  proof (induction r p s rule: test_from.induct)
    case (1 r p)
    then show ?case by auto
  next
    case (2 r p c s)
    show ?case
    proof (cases "matches r (p, c # s) \<noteq> []")
      case True
      then have "c # s = [] @ (c # s) \<and> matches r (if [] = ([]::string) then p else Some (last []), c # s) \<noteq> []"
        by simp
      then show ?thesis by blast
    next
      case False
      with 2 obtain a b where "s = a @ b" "matches r (if a = [] then Some c else Some (last a), b) \<noteq> []"
        by auto
      then have "c # s = (c # a) @ b \<and> matches r (if c # a = [] then p else Some (last (c # a)), b) \<noteq> []"
        by auto
      then show ?thesis by blast
    qed
  qed
qed (auto intro: test_from_drop)

lemma re_test_iff:
  "re_test r s \<longleftrightarrow> (\<exists>a b. s = a @ b \<and> matches r (if a = [] then None else Some (last a), b) \<noteq> [])"
  by (simp add: re_test_def test_from_iff)

lemma re_test_alts: "rs \<noteq> [] \<Longrightarrow> re_test (alts rs) s \<longleftrightarrow> (\<exists>r \<in> set rs. re_test r s)"
proof (induction rs rule: alts.induct)
  case (3 r v va)
  have "re_test (Alt r (alts (v # va))) s \<longleftrightarrow> re_test r s \<or> re_test (alts (v # va)) s"
    unfolding re_test_iff matches_Alt_ne by blast
  with 3 show ?case by simp
qed simp_all

section \<open>Case folding\<close>

text \<open>Expressions whose classes do not distinguish letter case match a text and its lower-case
  version alike.\<close>

definition fold_stable :: "(char \<Rightarrow> bool) \<Rightarrow> bool" where
  "fold_stable p = (\<forall>c. p (lower_char c) = p c)"

primrec re_fold :: "re \<Rightarrow> bool" where
  "re_fold Eps = True"
| "re_fold (Chr p) = fold_stable p"
| "re_fold (Seq a b) = (re_fold a \<and> re_fold b)"
| "re_fold (Alt a b) = (re_fold a \<and> re_fold b)"
| "re_fold (Star a) = re_fold a"
| "re_fold Bol = True"
| "re_fold Eol = True"
| "re_fold BolM = False"
| "re_fold EolM = False"
| "re_fold Wb = True"
| "re_fold (NotAhead a) = re_fold a"

definition lower_pos :: "pos \<Rightarrow> pos" where
  "lower_pos x = (map_option lower_char (fst x), lower (snd x))"

lemma iter_lower_pos:
  assumes "\<And>x. f (lower_pos x) = map lower_pos (f x)"
  shows "iter f n (lower_pos x) = map lower_pos (iter f n x)"
proof (induction n arbitrary: x)
  case 0
  show ?case by simp
next
  case (Suc n)
  have "filter (\<lambda>y. length (snd y) < length (snd (lower_pos x))) (f (lower_pos x))
      = map lower_pos (filter (\<lambda>y. length (snd y) < length (snd x)) (f x))"
    unfolding assms filter_map by (simp add: lower_pos_def comp_def)
  then show ?case
    by (simp add: Suc map_concat comp_def)
qed

lemma is_word_lower [simp]: "is_word (lower_char c) = is_word c"
  by (auto simp: is_word_def is_lower_def is_upper_def is_digit_def lower_char_def char_eq_nat Let_def)

lemma matches_lower_pos: "re_fold r \<Longrightarrow> matches r (lower_pos x) = map lower_pos (matches r x)"
proof (induction r arbitrary: x)
  case (Chr p)
  then show ?case by (cases "snd x") (auto simp: lower_pos_def fold_stable_def)
next
  case (Seq a b)
  then show ?case by (simp add: map_concat comp_def)
next
  case (Star a)
  then show ?case using iter_lower_pos [of "matches a" "length (snd x)" x] by (simp add: lower_pos_def)
next
  case Wb
  have "(case map_option lower_char p of None \<Rightarrow> False | Some c \<Rightarrow> is_word c) = (case p of None \<Rightarrow> False | Some c \<Rightarrow> is_word c)" for p
    by (cases p) simp_all
  moreover have "(case lower s of [] \<Rightarrow> False | c # _ \<Rightarrow> is_word c) = (case s of [] \<Rightarrow> False | c # _ \<Rightarrow> is_word c)" for s
    by (cases s) simp_all
  ultimately show ?case by (simp add: lower_pos_def)
qed (auto simp: lower_pos_def)

lemma re_test_lower: "re_fold r \<Longrightarrow> re_test r (lower s) = re_test r s"
proof -
  assume r: "re_fold r"
  have "test_from r (map_option lower_char p) (lower s) = test_from r p s" for p
  proof (induction s arbitrary: p)
    case Nil
    show ?case using matches_lower_pos [OF r, of "(p, [])"] by (simp add: lower_pos_def)
  next
    case (Cons c s)
    show ?case using matches_lower_pos [OF r, of "(p, c # s)"] Cons [of "Some c"]
      by (simp add: lower_pos_def)
  qed
  from this [of None] show ?thesis by (simp add: re_test_def)
qed

text \<open>A literal in lower case under the flag \<^verbatim>\<open>i\<close>.\<close>

definition folded :: "char \<Rightarrow> bool" where
  "folded k = (let n = (of_char k :: nat) in n < 65 \<or> 91 \<le> n \<and> n < 128)"

lemma upper_char_folded: "folded k \<Longrightarrow> upper_char c = k \<Longrightarrow> lower_char c = k"
proof -
  assume k: "folded k" and c: "upper_char c = k"
  have "\<not> (97 \<le> (of_char c :: nat) \<and> (of_char c :: nat) \<le> 122)"
  proof
    assume h: "97 \<le> (of_char c :: nat) \<and> (of_char c :: nat) \<le> 122"
    then have "(of_char k :: nat) = of_char c - 32"
      using c by (auto simp: upper_char_def Let_def)
    with h k show False by (auto simp: folded_def Let_def)
  qed
  with c have "c = k" by (auto simp: upper_char_def Let_def)
  with k show ?thesis by (auto simp: lower_char_def folded_def Let_def)
qed

lemma ci_folded: "folded k \<Longrightarrow> ci (\<lambda>x. x = k) c \<longleftrightarrow> lower_char c = k"
proof -
  assume k: "folded k"
  have "c = k \<Longrightarrow> lower_char c = k"
    using k by (auto simp: lower_char_def folded_def Let_def)
  with k upper_char_folded show ?thesis by (auto simp: ci_def)
qed

lemma fold_stable_ci: "folded k \<Longrightarrow> fold_stable (ci (\<lambda>x. x = k))"
  by (simp add: fold_stable_def ci_folded)

lemma re_fold_lit_i: "list_all folded w \<Longrightarrow> re_fold (lit_i w)"
  by (induction w) (auto simp: fold_stable_ci)

lemma re_fold_alts: "list_all re_fold rs \<Longrightarrow> re_fold (alts rs)"
  by (induction rs rule: alts.induct) (auto simp: fold_stable_def)

lemma re_fold_seqs: "list_all re_fold rs \<Longrightarrow> re_fold (seqs rs)"
  by (induction rs rule: seqs.induct) auto

lemma fold_stable_one_of: "list_all caseless cs \<Longrightarrow> fold_stable (one_of cs)"
proof (induction cs)
  case Nil
  show ?case by (simp add: fold_stable_def one_of_def)
next
  case (Cons d cs)
  then show ?case by (auto simp: fold_stable_def one_of_def lower_char_caseless)
qed

end
