(* ===== verification/PolicyPath.thy ===== *)
theory PolicyPath
  imports Json PosixPath JsRegex
begin

text \<open>
  \<^verbatim>\<open>scripts/pre-commit-policy.mjs\<close>: the path policy shared by the commit hook, the structured
  commit tool and the S6 publish broker.  First the pure classifier, then the checks that ask Git
  about the object behind a name (Git itself is the parameter \<open>git\<close>).
\<close>

section \<open>The classifier\<close>

definition DENIED_DIRECTORY_NAMES :: "string list" where
  "DENIED_DIRECTORY_NAMES =
    [''.git'', ''node_modules'', ''.ds_store'', ''.storage'', ''.venv'', ''__pycache__'',
     ''backups'', ''backup'', ''logs'', ''log'', ''secrets'', ''credentials'', ''private'']"

definition dot :: re where "dot = Chr (\<lambda>c. \<not> is_newline c)"

definition sep_class :: re where "sep_class = Chr (one_of ''._-'')"

definition DENIED_FILE_PATTERNS :: "re list" where
  "DENIED_FILE_PATTERNS =
    [seqs [Bol, lit_i ''.env'', Opt (Seq (lit_i ''.'') (Star dot)), Eol],
     seqs [Bol, lit_i ''db.env'', Eol],
     seqs [Bol, lit_i ''secret'', Opt (lit_i ''s''), lit_i ''.'',
           alts [seqs [lit_i ''y'', Opt (lit_i ''a''), lit_i ''ml''], lit_i ''json''], Eol],
     seqs [Alt Bol sep_class,
           alts [Seq (lit_i ''id_'') (alts [lit_i ''rsa'', lit_i ''dsa'', lit_i ''ecdsa'', lit_i ''ed25519'']),
                 lit_i ''authorized_keys'', lit_i ''known_hosts''],
           Alt Eol sep_class],
     seqs [lit_i ''.'', alts (map lit_i [''pem'', ''key'', ''p12'', ''pfx'', ''jks'']), Eol],
     seqs [lit_i ''.'', alts (map lit_i [''db'', ''sqlite'', ''sqlite3'', ''wal'', ''shm'', ''dump'', ''bak'', ''backup'']), Eol],
     seqs [lit_i ''.log'', Eol]]"

definition slash_or_end :: re where "slash_or_end = Alt (lit_i ''/'') Eol"

definition HIGH_RISK_GOVERNANCE_PATTERNS :: "re list" where
  "HIGH_RISK_GOVERNANCE_PATTERNS =
    [seqs [Bol, lit_i ''.github/workflows'', slash_or_end],
     seqs [Bol, lit_i ''.githooks'', slash_or_end],
     seqs [Bol, lit_i ''scripts/pre-commit-policy.mjs'', Eol],
     seqs [Bol, lit_i ''.gitmodules'', Eol]]"

definition normalizeRepositoryName :: "string \<Rightarrow> string" where
  "normalizeRepositoryName value =
    (if value = [] \<or> nul \<in> set value \<or> cr \<in> set value \<or> nl \<in> set value
        \<or> startsWith value ''/'' \<or> backslash \<in> set value then []
     else let normalized = join ''/'' (nonempty (split_on slash value))
          in if normalized \<noteq> value
                \<or> list_ex (\<lambda>part. part = ''.'' \<or> part = ''..'') (split_on slash normalized)
             then [] else normalized)"

record path_decision =
  pd_allowed :: bool
  pd_reason :: string
  pd_path :: string
  pd_highRisk :: "bool option"

definition classifyPolicyPath :: "string \<Rightarrow> path_decision" where
  "classifyPolicyPath name =
    (let normalized = normalizeRepositoryName name
     in if normalized = [] then
          \<lparr>pd_allowed = False, pd_reason = ''invalid repository-relative path'', pd_path = name, pd_highRisk = None\<rparr>
        else
          let parts = map lower (split_on slash normalized);
              base = last parts
          in if base = ''.env.example'' then
               \<lparr>pd_allowed = True, pd_reason = ''example placeholder'', pd_path = normalized, pd_highRisk = None\<rparr>
             else if list_ex (\<lambda>part. part \<in> set DENIED_DIRECTORY_NAMES) (butlast parts) then
               \<lparr>pd_allowed = False, pd_reason = ''secret-sensitive or runtime directory'', pd_path = normalized, pd_highRisk = None\<rparr>
             else if list_ex (\<lambda>pattern. re_test pattern base) DENIED_FILE_PATTERNS then
               \<lparr>pd_allowed = False, pd_reason = ''secret-sensitive or runtime filename'', pd_path = normalized, pd_highRisk = None\<rparr>
             else
               \<lparr>pd_allowed = True, pd_reason = ''allowed'', pd_path = normalized, pd_highRisk = None\<rparr>)"

definition isDenied :: "string \<Rightarrow> bool" where
  "isDenied name = (\<not> pd_allowed (classifyPolicyPath name))"

definition isHighRiskGovernancePath :: "string \<Rightarrow> bool" where
  "isHighRiskGovernancePath name =
    (let normalized = normalizeRepositoryName name
     in normalized \<noteq> [] \<and> list_ex (\<lambda>pattern. re_test pattern normalized) HIGH_RISK_GOVERNANCE_PATTERNS)"

definition classifyPublishPath :: "string \<Rightarrow> path_decision" where
  "classifyPublishPath name =
    (let policy = classifyPolicyPath name
     in if \<not> pd_allowed policy then policy
        else if isHighRiskGovernancePath (pd_path policy) then
          \<lparr>pd_allowed = False, pd_reason = ''S6 fail-closed governance or automation path'',
           pd_path = pd_path policy, pd_highRisk = Some True\<rparr>
        else policy\<lparr>pd_highRisk := Some False\<rparr>)"

section \<open>Objects behind a name\<close>

record git_entry =
  ge_mode :: string
  ge_type :: "string option"
  ge_object :: string
  ge_stage :: "string option"
  ge_name :: string

text \<open>A non-empty run of a class followed by a separator, as \<^verbatim>\<open>([0-9]+) \<close> matches it.\<close>

definition take_field :: "(char \<Rightarrow> bool) \<Rightarrow> char \<Rightarrow> string \<Rightarrow> (string \<times> string) option" where
  "take_field p sep s =
    (let a = takeWhile p s; r = dropWhile p s
     in if a \<noteq> [] \<and> r \<noteq> [] \<and> hd r = sep then Some (a, tl r) else None)"

definition parseIndexEntry :: "string \<Rightarrow> git_entry option" where
  "parseIndexEntry value =
    (case take_field is_digit CHR '' '' value of None \<Rightarrow> None | Some (mode, r1) \<Rightarrow>
     (case take_field is_hex CHR '' '' r1 of None \<Rightarrow> None | Some (obj, r2) \<Rightarrow>
     (case take_field (one_of ''0123'') tab r2 of None \<Rightarrow> None | Some (stage, name) \<Rightarrow>
        if length stage = 1
        then Some \<lparr>ge_mode = mode, ge_type = None, ge_object = obj, ge_stage = Some stage, ge_name = name\<rparr>
        else None)))"

definition parseTreeEntry :: "string \<Rightarrow> git_entry option" where
  "parseTreeEntry value =
    (case take_field is_digit CHR '' '' value of None \<Rightarrow> None | Some (mode, r1) \<Rightarrow>
     (case take_field is_word CHR '' '' r1 of None \<Rightarrow> None | Some (typ, r2) \<Rightarrow>
     (case take_field is_hex tab r2 of None \<Rightarrow> None | Some (obj, name) \<Rightarrow>
        Some \<lparr>ge_mode = mode, ge_type = Some typ, ge_object = obj, ge_stage = None, ge_name = name\<rparr>)))"

definition isRegularFileEntry :: "git_entry option \<Rightarrow> bool" where
  "isRegularFileEntry entry =
    (case entry of None \<Rightarrow> False
     | Some e \<Rightarrow> ge_type e \<noteq> Some ''commit'' \<and> (ge_mode e = ''100644'' \<or> ge_mode e = ''100755''))"

text \<open>The command line and environment of \<^verbatim>\<open>gitProbe\<close> (POSIX).\<close>

definition probe_argv :: "string \<Rightarrow> string list \<Rightarrow> bool \<Rightarrow> string list" where
  "probe_argv root args literalPathspecs =
    [''git'', ''--no-pager''] @ (if literalPathspecs then [''--literal-pathspecs''] else [])
    @ [''-c'', ''safe.directory='' @ root, ''-c'', ''core.excludesFile=/dev/null''] @ args"

definition probe_env :: "string \<Rightarrow> (string \<times> string) list" where
  "probe_env PATH =
    [(''PATH'', if PATH = [] then ''/usr/bin:/bin'' else PATH), (''LANG'', ''C''), (''LC_ALL'', ''C''),
     (''GIT_CONFIG_NOSYSTEM'', ''1''), (''GIT_CONFIG_SYSTEM'', ''/dev/null''),
     (''GIT_CONFIG_GLOBAL'', ''/dev/null''), (''GIT_TERMINAL_PROMPT'', ''0''), (''GIT_OPTIONAL_LOCKS'', ''0'')]"

definition gitProbe :: "spawn \<Rightarrow> string \<Rightarrow> string \<Rightarrow> string list \<Rightarrow> bool \<Rightarrow> proc_result" where
  "gitProbe spawn PATH root args literalPathspecs =
    spawn (probe_argv root args literalPathspecs) root (probe_env PATH)"

text \<open>\<open>probe args literal\<close> stands for \<^verbatim>\<open>gitProbe(root, args, ...)\<close> with the root fixed.\<close>

type_synonym probe = "string list \<Rightarrow> bool \<Rightarrow> proc_result"

definition indexEntry :: "probe \<Rightarrow> string \<Rightarrow> git_entry option result" where
  "indexEntry probe name =
    (let result = probe [''ls-files'', ''--stage'', ''-z'', ''--'', name] True
     in if p_status result \<noteq> Some 0
        then throw (''Git governance could not inspect staged object: '' @ name)
        else case map parseIndexEntry (nonempty (split_on nul (p_stdout result))) of
               [Some e] \<Rightarrow> Inr (if ge_stage e = Some ''0'' \<and> ge_name e = name then Some e else None)
             | _ \<Rightarrow> Inr None)"

definition treeEntry :: "probe \<Rightarrow> string \<Rightarrow> string \<Rightarrow> bool \<Rightarrow> git_entry option result" where
  "treeEntry probe ref name missingRefAllowed =
    (let verified = probe [''rev-parse'', ''--verify'', ''--quiet'', ref @ ''^{tree}''] False
     in if p_status verified \<noteq> Some 0 then
          (if missingRefAllowed \<and> p_status verified = Some 1 then Inr None
           else throw (''Git governance could not verify tree reference: '' @ ref))
        else
          let result = probe [''ls-tree'', ''-z'', ref, ''--'', name] True
          in if p_status result \<noteq> Some 0
             then throw (''Git governance could not inspect tree object: '' @ name)
             else case map parseTreeEntry (nonempty (split_on nul (p_stdout result))) of
                    [Some e] \<Rightarrow> Inr (if ge_name e = name then Some e else None)
                  | _ \<Rightarrow> Inr None)"

record governed_path =
  gp_decision :: path_decision
  gp_ignored :: bool
  gp_pretracked :: bool

text \<open>\<open>candidateRef = []\<close> selects the index, as the empty string does in the source.\<close>

definition assertGovernedGitPath ::
  "probe \<Rightarrow> string \<Rightarrow> string \<Rightarrow> string \<Rightarrow> bool \<Rightarrow> string \<Rightarrow> governed_path result" where
  "assertGovernedGitPath probe name previousRef candidateRef publish label =
    (let decision = (if publish then classifyPublishPath name else classifyPolicyPath name)
     in if \<not> pd_allowed decision then throw (label @ '' refused '' @ pd_reason decision @ '': '' @ name)
        else
        bindE (if candidateRef \<noteq> [] then treeEntry probe candidateRef (pd_path decision) False
               else indexEntry probe (pd_path decision)) (\<lambda>candidate.
        if \<not> isRegularFileEntry candidate then
          throw (label @ '' refused staged object that is not an ordinary regular file: '' @ name)
        else
          let ignored = probe [''check-ignore'', ''--no-index'', ''--quiet'', ''--'', pd_path decision] False
          in if p_status ignored = Some 1 then
               Inr \<lparr>gp_decision = decision, gp_ignored = False, gp_pretracked = False\<rparr>
             else if p_status ignored \<noteq> Some 0 then
               throw (label @ '' could not verify ignored state: '' @ name
                      @ (if p_stderr ignored \<noteq> [] then '' ('' @ trim (p_stderr ignored) @ '')'' else []))
             else
               bindE (treeEntry probe previousRef (pd_path decision) True) (\<lambda>previous.
               if \<not> isRegularFileEntry previous then
                 throw (label @ '' refused repository-ignored path: '' @ name)
               else Inr \<lparr>gp_decision = decision, gp_ignored = True, gp_pretracked = True\<rparr>)))"

section \<open>The commit hook\<close>

text \<open>
  \<^verbatim>\<open>execFileSync\<close> throws when the child fails; \<open>is_link\<close> is
  \<^verbatim>\<open>existsSync && lstatSync(...).isSymbolicLink()\<close>.  The result carries the root, the
  names and the text written to \<open>output\<close>.
\<close>

definition exec_stdout :: "spawn \<Rightarrow> string list \<Rightarrow> string \<Rightarrow> (string \<times> string) list \<Rightarrow> string result" where
  "exec_stdout spawn argv cwd env =
    (let r = spawn argv cwd env in
     if p_status r = Some 0 then Inr (p_stdout r) else throw ''Command failed'')"

record hook_env =
  he_env :: "(string \<times> string) list"
  he_PATH :: string
  he_hooks_path :: string
  he_mode :: string

definition runPreCommitPolicy ::
  "spawn \<Rightarrow> (string \<Rightarrow> bool) \<Rightarrow> hook_env \<Rightarrow> string \<Rightarrow> (string \<times> string list \<times> string) result" where
  "runPreCommitPolicy spawn is_link h cwd =
    (let env = filter (\<lambda>(k, _). k \<noteq> ''GIT_LITERAL_PATHSPECS'') (he_env h) in
    bindE (exec_stdout spawn [''git'', ''-c'', ''safe.directory=*'', ''rev-parse'', ''--show-toplevel''] cwd env) (\<lambda>out.
    let root = trim out in
    bindE (exec_stdout spawn [''git'', ''-c'', ''safe.directory='' @ root, ''config'', ''--local'', ''--get'', ''core.hooksPath''] root env) (\<lambda>cfg.
    let expectedHookPath = (if he_hooks_path h = [] then ''.githooks'' else he_hooks_path h) in
    if trim cfg \<noteq> expectedHookPath then
      throw (''pre-commit refused: core.hooksPath must be exactly '' @ expectedHookPath)
    else
    bindE (exec_stdout spawn [''git'', ''-c'', ''safe.directory='' @ root, ''diff'', ''--cached'', ''--name-only'', ''-z''] root env) (\<lambda>diff.
    let names = nonempty (split_on nul diff) in
    bindE (forE (\<lambda>name.
        bindE (assertGovernedGitPath (gitProbe spawn (he_PATH h) root) name ''HEAD'' [] False ''pre-commit'') (\<lambda>_.
        ensure (\<not> is_link (path_join root name)) (''pre-commit refused staged symlink: '' @ name))) names) (\<lambda>_.
    bindE (exec_stdout spawn [''git'', ''-c'', ''safe.directory='' @ root, ''diff'', ''--cached'', ''--check''] root env) (\<lambda>check.
    Inr (root, names, check @ (if he_mode h = ''s6'' then ''S6'' else ''S1'')
      @ '' pre-commit policy passed ('' @ digits_of (length names) @ '' path''
      @ (if length names = 1 then [] else ''s'') @ '')'' @ [nl])))))))"

section \<open>What the classifier accepts\<close>

lemma join_append: "xs \<noteq> [] \<Longrightarrow> ys \<noteq> [] \<Longrightarrow> join sep (xs @ ys) = join sep xs @ sep @ join sep ys"
proof (induction xs)
  case (Cons x xs)
  then show ?case by (cases "xs = []") (auto simp: join_Cons)
qed simp

lemma normalizeRepositoryName_Some:
  assumes "normalizeRepositoryName n \<noteq> []"
  shows "normalizeRepositoryName n = n" and "list_all plain_comp (split_on slash n)"
    and "n \<noteq> []" and "backslash \<notin> set n" and "nul \<notin> set n" and "nl \<notin> set n" and "cr \<notin> set n"
proof -
  let ?xs = "split_on slash n"
  have eq: "join ''/'' (nonempty ?xs) = n" and dots: "\<not> list_ex (\<lambda>p. p = ''.'' \<or> p = ''..'') ?xs"
    and ne: "n \<noteq> []"
    using assms by (auto simp: normalizeRepositoryName_def Let_def split: if_splits)
  show "normalizeRepositoryName n = n" "n \<noteq> []" "backslash \<notin> set n" "nul \<notin> set n" "nl \<notin> set n" "cr \<notin> set n"
    using assms by (auto simp: normalizeRepositoryName_def Let_def split: if_splits)
  have free: "\<forall>x \<in> set (nonempty ?xs). slash \<notin> set x"
    by (auto simp: nonempty_def dest: split_on_sep_free)
  have "nonempty ?xs \<noteq> []" using eq ne by (cases "nonempty ?xs") auto
  then have "split_on slash (join ''/'' (nonempty ?xs)) = nonempty ?xs"
    using free by (rule split_on_join)
  then have xs: "?xs = nonempty ?xs" using eq by simp
  have "[] \<notin> set (nonempty ?xs)" by (simp add: nonempty_def)
  then have "[] \<notin> set ?xs" by (subst xs)
  show "list_all plain_comp ?xs"
    unfolding list_all_iff
  proof
    fix c
    assume c: "c \<in> set ?xs"
    then have "c \<noteq> ''.'' \<and> c \<noteq> ''..''" using dots unfolding list_ex_iff by blast
    moreover have "c \<noteq> []" using c \<open>[] \<notin> set ?xs\<close> by metis
    moreover have "slash \<notin> set c" using c by (rule split_on_sep_free)
    ultimately show "plain_comp c" by (simp add: plain_comp_def)
  qed
qed

lemma normalizeRepositoryName_plain:
  assumes "list_all plain_comp (split_on slash n)"
    and "backslash \<notin> set n" "nul \<notin> set n" "nl \<notin> set n" "cr \<notin> set n"
  shows "normalizeRepositoryName n = n"
proof -
  have "nonempty (split_on slash n) = split_on slash n"
    using assms(1) by (auto simp: nonempty_def list_all_iff plain_comp_def intro: filter_True)
  moreover have "\<not> list_ex (\<lambda>p. p = ''.'' \<or> p = ''..'') (split_on slash n)"
    using assms(1) by (auto simp: list_ex_iff list_all_iff plain_comp_def)
  moreover have "n \<noteq> []" using assms(1) by (auto simp: plain_comp_def)
  moreover have "\<not> startsWith n ''/''"
  proof
    assume "startsWith n ''/''"
    then obtain r where "n = slash # r" by (auto simp: startsWith_iff)
    with assms(1) show False by (simp add: plain_comp_def)
  qed
  ultimately show ?thesis using assms(2-) by (simp add: normalizeRepositoryName_def Let_def)
qed

lemma classify_allowed:
  assumes "pd_allowed (classifyPolicyPath n)"
  shows "pd_path (classifyPolicyPath n) = n" and "list_all plain_comp (split_on slash n)"
proof -
  have "normalizeRepositoryName n \<noteq> []"
    using assms by (auto simp: classifyPolicyPath_def Let_def split: if_splits)
  from normalizeRepositoryName_Some [OF this] show
    "pd_path (classifyPolicyPath n) = n" "list_all plain_comp (split_on slash n)"
    by (auto simp: classifyPolicyPath_def Let_def)
qed

lemma publish_allowed:
  assumes "pd_allowed (classifyPublishPath n)"
  shows "pd_allowed (classifyPolicyPath n)" and "pd_path (classifyPublishPath n) = n"
    and "\<not> isHighRiskGovernancePath n"
  using assms classify_allowed(1) [of n]
  by (auto simp: classifyPublishPath_def Let_def split: if_splits)

text \<open>An accepted name joined to a directory stays strictly below it.\<close>

lemma join_plain_below:
  assumes "list_all plain_comp (split_on slash n)"
  shows "resolve_comps cwd (path_join (path_resolve cwd root) n) = resolve_comps cwd root @ split_on slash n"
proof -
  let ?rc = "resolve_comps cwd root"
  have n: "join ''/'' (split_on slash n) = n" by simp
  have "path_join (abs_path ?rc) n = abs_path (?rc @ split_on slash n)"
  proof (cases "?rc = []")
    case True
    then show ?thesis by (simp add: path_join_def abs_path_def)
  next
    case False
    then have "join ''/'' ?rc \<noteq> []"
      by (rule join_plain_escape(1) [OF resolve_comps_plain])
    with False n show ?thesis by (simp add: path_join_def abs_path_def join_append)
  qed
  with assms show ?thesis by (simp add: path_resolve_def)
qed

section \<open>Letter case\<close>

lemma plain_comp_lower [simp]: "plain_comp (lower c) = plain_comp c"
  by (simp add: plain_comp_def lower_eq_caseless caseless_in_lower)

lemma normalize_lower_ne: "normalizeRepositoryName n \<noteq> [] \<Longrightarrow> normalizeRepositoryName (lower n) = lower n"
  using normalizeRepositoryName_Some [of n]
  by (intro normalizeRepositoryName_plain) (auto simp: split_on_lower list_all_iff caseless_in_lower)

lemma normalize_lower: "normalizeRepositoryName (lower n) = lower (normalizeRepositoryName n)"
proof (cases "normalizeRepositoryName n = []")
  case False
  with normalize_lower_ne normalizeRepositoryName_Some(1) show ?thesis by metis
next
  case True
  have "normalizeRepositoryName (lower n) = []"
  proof (rule ccontr)
    assume h: "normalizeRepositoryName (lower n) \<noteq> []"
    then have "normalizeRepositoryName n = n"
      using normalizeRepositoryName_Some(2-) [OF h]
      by (intro normalizeRepositoryName_plain) (auto simp: split_on_lower list_all_iff caseless_in_lower)
    with True normalizeRepositoryName_Some(3) [OF h] show False by simp
  qed
  with True show ?thesis by simp
qed

lemma classify_lower:
  "pd_allowed (classifyPolicyPath (lower n)) = pd_allowed (classifyPolicyPath n)"
  "pd_reason (classifyPolicyPath (lower n)) = pd_reason (classifyPolicyPath n)"
proof -
  have m: "map lower (map lower xs) = map lower xs" for xs by (simp add: comp_def)
  show "pd_allowed (classifyPolicyPath (lower n)) = pd_allowed (classifyPolicyPath n)"
    "pd_reason (classifyPolicyPath (lower n)) = pd_reason (classifyPolicyPath n)"
    unfolding classifyPolicyPath_def normalize_lower Let_def lower_Nil
    by (simp_all only: split_on_lower caseless_simps m if_distrib [of pd_allowed] if_distrib [of pd_reason]
        path_decision.simps cong: if_cong)
qed

lemma high_risk_fold: "list_all re_fold HIGH_RISK_GOVERNANCE_PATTERNS"
  by (simp add: HIGH_RISK_GOVERNANCE_PATTERNS_def slash_or_end_def re_fold_lit_i folded_def fold_stable_ci)

lemma highRisk_lower: "isHighRiskGovernancePath (lower n) = isHighRiskGovernancePath n"
  using high_risk_fold
  by (auto simp: isHighRiskGovernancePath_def normalize_lower Let_def list_ex_iff list_all_iff re_test_lower)

section \<open>Properties\<close>

text \<open>
  The policy does not depend on letter case: a path and its lower-case form get the
  same decision and the same reason from \<^verbatim>\<open>classifyPolicyPath\<close>, and the same answer from
  \<^verbatim>\<open>isHighRiskGovernancePath\<close>, so a case-insensitive file system cannot smuggle
  \<^verbatim>\<open>Secrets/\<close> or \<^verbatim>\<open>.GitHub/Workflows\<close> past them.
\<close>

theorem policy_case_insensitive:
  "pd_allowed (classifyPolicyPath (lower n)) = pd_allowed (classifyPolicyPath n)
   \<and> pd_reason (classifyPolicyPath (lower n)) = pd_reason (classifyPolicyPath n)
   \<and> isHighRiskGovernancePath (lower n) = isHighRiskGovernancePath n
   \<and> pd_allowed (classifyPublishPath (lower n)) = pd_allowed (classifyPublishPath n)"
proof -
  have p: "pd_path (classifyPolicyPath m) = m" if "pd_allowed (classifyPolicyPath m)" for m
    using that by (rule classify_allowed(1))
  have "pd_allowed (classifyPublishPath m)
      \<longleftrightarrow> pd_allowed (classifyPolicyPath m) \<and> \<not> isHighRiskGovernancePath m" for m
    using p [of m] by (auto simp: classifyPublishPath_def Let_def)
  then show ?thesis by (simp add: classify_lower highRisk_lower)
qed

text \<open>A name whose directory part has a denied component in any case, anywhere.\<close>

lemma denied_directory:
  assumes "d \<in> set (butlast (split_on slash n))" "lower d \<in> set DENIED_DIRECTORY_NAMES"
    and "lower (last (split_on slash n)) \<noteq> ''.env.example''"
  shows "\<not> pd_allowed (classifyPolicyPath n)"
proof (cases "normalizeRepositoryName n = []")
  case True
  then show ?thesis by (simp add: classifyPolicyPath_def)
next
  case False
  then have n: "normalizeRepositoryName n = n" by (rule normalizeRepositoryName_Some(1))
  have "list_ex (\<lambda>part. part \<in> set DENIED_DIRECTORY_NAMES) (butlast (map lower (split_on slash n)))"
    using assms(1,2) by (auto simp: list_ex_iff map_butlast [symmetric])
  then show ?thesis
    using assms(3) False by (simp add: classifyPolicyPath_def Let_def n last_map)
qed

text \<open>
  C10 (safety).  A name \<^verbatim>\<open>assertGovernedGitPath\<close> accepts is allowed by the policy (for a
  publication also outside the governance paths), denotes a file strictly below the repository
  root whatever the root is, and is a regular file entry of that exact name in the candidate tree or
  the index; if Git ignores it, it was a regular file of the previous tree as well.
\<close>

theorem governed_path_sound:
  assumes "assertGovernedGitPath probe name previousRef candidateRef publish label = Inr g"
  shows "pd_allowed (classifyPolicyPath name)
    \<and> (publish \<longrightarrow> \<not> isHighRiskGovernancePath name)
    \<and> resolve_comps cwd (path_join (path_resolve cwd root) name) = resolve_comps cwd root @ split_on slash name
    \<and> (\<exists>e. (if candidateRef \<noteq> [] then treeEntry probe candidateRef name False else indexEntry probe name) = Inr (Some e)
         \<and> isRegularFileEntry (Some e) \<and> ge_name e = name)
    \<and> (gp_ignored g \<longrightarrow> (\<exists>e. treeEntry probe previousRef name True = Inr (Some e) \<and> isRegularFileEntry (Some e)))"
proof -
  let ?d = "if publish then classifyPublishPath name else classifyPolicyPath name"
  have d: "pd_allowed ?d" using assms by (auto simp: assertGovernedGitPath_def Let_def split: if_splits)
  then have a: "pd_allowed (classifyPolicyPath name)" "publish \<longrightarrow> \<not> isHighRiskGovernancePath name" "pd_path ?d = name"
    using publish_allowed [of name] classify_allowed(1) [of name] by (auto split: if_splits)
  obtain c where c: "(if candidateRef \<noteq> [] then treeEntry probe candidateRef name False else indexEntry probe name) = Inr c"
    "isRegularFileEntry c" "gp_ignored g \<longrightarrow> (\<exists>e. treeEntry probe previousRef name True = Inr (Some e) \<and> isRegularFileEntry (Some e))"
    using assms d a(3) unfolding assertGovernedGitPath_def Let_def
    by (auto simp: bindE_Inr isRegularFileEntry_def split: if_splits option.splits)
  then obtain e where e: "c = Some e" by (auto simp: isRegularFileEntry_def split: option.splits)
  have "ge_name e = name"
    using c(1) e by (auto simp: treeEntry_def indexEntry_def Let_def split: if_splits list.splits option.splits)
  with a c e join_plain_below [OF classify_allowed(2) [OF a(1)]] show ?thesis by auto
qed

definition sample_probe :: probe where
  "sample_probe args l =
    (if hd args = ''check-ignore'' then \<lparr>p_status = Some 1, p_stdout = [], p_stderr = []\<rparr>
     else \<lparr>p_status = Some 0, p_stdout = ''100644 blob '' @ replicate 40 CHR ''d'' @ [tab] @ ''a.md'' @ [nul], p_stderr = []\<rparr>)"

theorem governed_path_witness:
  "pd_allowed (classifyPolicyPath ''a.md'') \<and> \<not> isHighRiskGovernancePath ''a.md''
   \<and> resolve_comps ''/'' (path_join (path_resolve ''/'' ''/srv/w'') ''a.md'') = resolve_comps ''/'' ''/srv/w'' @ split_on slash ''a.md''"
proof -
  have "is_ok (assertGovernedGitPath sample_probe ''a.md'' ''HEAD'' ''HEAD'' True ''S6 publish'')" by code_simp
  then obtain g where "assertGovernedGitPath sample_probe ''a.md'' ''HEAD'' ''HEAD'' True ''S6 publish'' = Inr g"
    by (auto simp: is_ok_iff)
  from governed_path_sound [OF this, of "''/''" "''/srv/w''"] show ?thesis by blast
qed

lemma take_field_eq:
  "list_all p a \<Longrightarrow> a \<noteq> [] \<Longrightarrow> \<not> p sep \<Longrightarrow> take_field p sep (a @ sep # r) = Some (a, r)"
  by (simp add: take_field_def list_all_iff takeWhile_append2 dropWhile_append2 Let_def)

text \<open>
  What \<^verbatim>\<open>git ls-tree -z\<close> prints for an entry is read back exactly, for
  every name: a tab, a newline or a quote in the name does not shift the fields.
\<close>

theorem tree_entry_roundtrip:
  assumes "list_all is_digit mode" "mode \<noteq> []" "list_all is_word typ" "typ \<noteq> []" "list_all is_hex obj" "obj \<noteq> []"
  shows "parseTreeEntry (mode @ CHR '' '' # typ @ CHR '' '' # obj @ tab # name)
    = Some \<lparr>ge_mode = mode, ge_type = Some typ, ge_object = obj, ge_stage = None, ge_name = name\<rparr>"
proof -
  have "\<not> is_digit CHR '' ''" "\<not> is_word CHR '' ''" "\<not> is_hex tab"
    by (auto simp: is_digit_def is_word_def is_lower_def is_upper_def is_hex_def)
  with assms show ?thesis by (simp add: parseTreeEntry_def take_field_eq)
qed

theorem tree_entry_roundtrip_witness:
  "parseTreeEntry (''100644'' @ CHR '' '' # ''blob'' @ CHR '' '' # ''d0'' @ tab # [tab, nl])
    = Some \<lparr>ge_mode = ''100644'', ge_type = Some ''blob'', ge_object = ''d0'', ge_stage = None, ge_name = [tab, nl]\<rparr>"
  by (rule tree_entry_roundtrip)
    (simp_all add: is_digit_def is_word_def is_lower_def is_hex_def)

end
