(* ===== verification/BrokerIdentity.thy ===== *)
theory BrokerIdentity
  imports Json PosixPath JsRegex PolicyPath
begin

text \<open>
  The identities of the S6 broker (\<^verbatim>\<open>scripts/s6-github-broker.mjs\<close>): session ids, branches,
  remote refs, socket paths and commit ids, with the assertions that guard them, the coordinator's
  path check, the Git command line and the parser of push receipts.
\<close>

unbundle bit_operations_syntax

section \<open>Identifiers\<close>

text \<open>\<^verbatim>\<open>/^<prefix>-[a-z0-9]+-[0-9a-f]{k}$/\<close>.\<close>

definition tagged_id :: "string \<Rightarrow> nat \<Rightarrow> string \<Rightarrow> bool" where
  "tagged_id p k s =
    (startsWith s (p @ ''-'') \<and>
     (let r = drop (length p + 1) s; n = length r in
        k + 2 \<le> n \<and> list_all is_alnum_lower (take (n - (k + 1)) r)
        \<and> r ! (n - (k + 1)) = CHR ''-'' \<and> list_all is_hex (drop (n - k) r)))"

lemma tagged_id_iff:
  "tagged_id p k s \<longleftrightarrow>
     (\<exists>a h. s = p @ ''-'' @ a @ ''-'' @ h \<and> a \<noteq> [] \<and> list_all is_alnum_lower a
            \<and> length h = k \<and> list_all is_hex h)"
proof
  assume t: "tagged_id p k s"
  define r where "r = drop (length p + 1) s"
  define n where "n = length r"
  from t obtain x where "s = (p @ ''-'') @ x"
    by (auto simp: tagged_id_def startsWith_iff)
  then have s: "s = p @ ''-'' @ r" by (simp add: r_def)
  have t': "k + 2 \<le> n" "list_all is_alnum_lower (take (n - (k + 1)) r)" "r ! (n - (k + 1)) = CHR ''-''"
    "list_all is_hex (drop (n - k) r)"
    using t by (simp_all add: tagged_id_def Let_def r_def n_def)
  define i where "i = n - (k + 1)"
  have i: "i < length r" "Suc i = n - k" "0 < i"
    using t'(1) by (auto simp: i_def n_def)
  have "r = take i r @ r ! i # drop (Suc i) r"
    using i(1) by (rule id_take_nth_drop)
  then have "s = p @ ''-'' @ take i r @ ''-'' @ drop (n - k) r"
    using s t'(3) i(2) by (simp add: i_def)
  moreover have "take i r \<noteq> []" using i by (cases r) auto
  moreover have "length (drop (n - k) r) = k" using t'(1) by (simp add: n_def)
  ultimately show "\<exists>a h. s = p @ ''-'' @ a @ ''-'' @ h \<and> a \<noteq> [] \<and> list_all is_alnum_lower a
      \<and> length h = k \<and> list_all is_hex h"
    using t'(2,4) by (intro exI[of _ "take i r"] exI[of _ "drop (n - k) r"]) (simp add: i_def)
next
  assume "\<exists>a h. s = p @ ''-'' @ a @ ''-'' @ h \<and> a \<noteq> [] \<and> list_all is_alnum_lower a
      \<and> length h = k \<and> list_all is_hex h"
  then obtain a h where s: "s = (p @ ''-'') @ (a @ CHR ''-'' # h)" "a \<noteq> []" "list_all is_alnum_lower a"
    "length h = k" "list_all is_hex h" by auto
  then show "tagged_id p k s"
    unfolding tagged_id_def s(1) startsWith_iff by (cases a) (auto simp: Let_def nth_append)
qed

definition S6_REPOSITORY_ALIAS :: string where "S6_REPOSITORY_ALIAS = ''homelab''"
definition S6_REPOSITORY_URL :: string where
  "S6_REPOSITORY_URL = ''https://github.com/cardkazuma/homelab.git''"
definition S6_REMOTE_NAME :: string where "S6_REMOTE_NAME = ''origin''"
definition S6_BRANCH_PREFIX :: string where "S6_BRANCH_PREFIX = ''bridge/s6''"
definition S6_REMOTE_REF_PREFIX :: string where "S6_REMOTE_REF_PREFIX = ''refs/heads/bridge/s6/''"
definition S6_GOVERNANCE_HOOKS_PATH :: string where "S6_GOVERNANCE_HOOKS_PATH = ''/bridge-governance/hooks''"
definition S6_STANDARD_FETCH_REFSPEC :: string where
  "S6_STANDARD_FETCH_REFSPEC = ''+refs/heads/*:refs/remotes/origin/*''"
definition S6_CANONICAL_PLACEHOLDER_PATHS :: "string list" where
  "S6_CANONICAL_PLACEHOLDER_PATHS = [''paperless/secrets/decrypt-passwords.txt.example'']"
definition ZERO_SHA :: string where "ZERO_SHA = replicate 40 CHR ''0''"
definition S7B_COORDINATED_ROUTES :: "string list" where
  "S7B_COORDINATED_ROUTES = [''write_file'', ''edit_file'', ''apply_patch'']"

definition SHA_test :: "string \<Rightarrow> bool" where "SHA_test s = hex_exact 40 s"
definition SESSION_test :: "string \<Rightarrow> bool" where "SESSION_test s = tagged_id ''s6'' 16 s"
definition BRANCH_test :: "string \<Rightarrow> bool" where "BRANCH_test s = tagged_id ''bridge/s6/s6'' 16 s"
definition REMOTE_REF_test :: "string \<Rightarrow> bool" where
  "REMOTE_REF_test s = tagged_id ''refs/heads/bridge/s6/s6'' 16 s"

definition assertS6RepositoryAlias :: "string \<Rightarrow> string result" where
  "assertS6RepositoryAlias alias =
    (if alias \<noteq> S6_REPOSITORY_ALIAS then throw ''S6 supports only the homelab repository alias''
     else Inr S6_REPOSITORY_URL)"

definition assertS6Source :: "string \<Rightarrow> string result" where
  "assertS6Source source =
    (if source \<noteq> S6_REPOSITORY_URL
     then throw ''S6 source is fixed to the canonical homelab GitHub repository'' else Inr source)"

definition assertSessionId :: "string \<Rightarrow> unit result" where
  "assertSessionId value = ensure (SESSION_test value) ''invalid S6 session id''"

definition s6BranchForSession :: "string \<Rightarrow> string result" where
  "s6BranchForSession sessionId =
    bindE (assertSessionId sessionId) (\<lambda>_. Inr (S6_BRANCH_PREFIX @ ''/'' @ sessionId))"

definition s6RemoteRefForSession :: "string \<Rightarrow> string result" where
  "s6RemoteRefForSession sessionId =
    bindE (assertSessionId sessionId) (\<lambda>_. Inr (S6_REMOTE_REF_PREFIX @ sessionId))"

definition s6BrokerSocketPath :: "(string \<Rightarrow> string) \<Rightarrow> string \<Rightarrow> string \<Rightarrow> string \<Rightarrow> string result" where
  "s6BrokerSocketPath sha256 cwd managerRoot sessionId =
    bindE (assertSessionId sessionId) (\<lambda>_.
    if managerRoot = [] \<or> \<not> is_absolute managerRoot then throw ''S6 broker manager root must be absolute''
    else let suffix = take 16 (sha256 sessionId)
         in Inr (path_join (path_join (path_resolve cwd managerRoot) (CHR ''b'' # take 10 suffix)) ''publish.sock''))"

definition assertRemoteRef :: "string \<Rightarrow> string \<Rightarrow> unit result" where
  "assertRemoteRef ref sessionId =
    (if \<not> REMOTE_REF_test ref then throw ''S6 remote ref is not the generated branch ref''
     else bindE (s6RemoteRefForSession sessionId) (\<lambda>own.
       ensure (ref = own) ''S6 remote ref is not the generated branch ref''))"

definition assertSha :: "string \<Rightarrow> string \<Rightarrow> string result" where
  "assertSha value label = (if SHA_test value then Inr value else throw (label @ '' is not a full Git SHA''))"

lemma SHA_zero [simp]: "SHA_test ZERO_SHA"
  by (simp add: SHA_test_def ZERO_SHA_def)

lemma assertSha_Inr [simp, result_simps]: "assertSha v l = Inr x \<longleftrightarrow> SHA_test v \<and> x = v"
  by (auto simp: assertSha_def)

lemma assertSessionId_Inr [simp, result_simps]: "assertSessionId v = Inr u \<longleftrightarrow> SESSION_test v"
  by (simp add: assertSessionId_def)

lemma SESSION_branch: "SESSION_test s \<Longrightarrow> BRANCH_test (S6_BRANCH_PREFIX @ ''/'' @ s)"
  by (force simp: SESSION_test_def BRANCH_test_def tagged_id_iff S6_BRANCH_PREFIX_def)

lemma SESSION_ref: "SESSION_test s \<Longrightarrow> REMOTE_REF_test (S6_REMOTE_REF_PREFIX @ s)"
  by (force simp: SESSION_test_def REMOTE_REF_test_def tagged_id_iff S6_REMOTE_REF_PREFIX_def)

lemma s6BranchForSession_Inr [result_simps]:
  "s6BranchForSession s = Inr b \<longleftrightarrow> SESSION_test s \<and> b = S6_BRANCH_PREFIX @ ''/'' @ s"
  by (auto simp: s6BranchForSession_def bindE_Inr)

lemma s6RemoteRefForSession_Inr [result_simps]:
  "s6RemoteRefForSession s = Inr r \<longleftrightarrow> SESSION_test s \<and> r = S6_REMOTE_REF_PREFIX @ s"
  by (auto simp: s6RemoteRefForSession_def bindE_Inr)

lemma assertRemoteRef_Inr [result_simps]:
  "assertRemoteRef ref s = Inr u \<longleftrightarrow> SESSION_test s \<and> ref = S6_REMOTE_REF_PREFIX @ s"
  using SESSION_ref by (auto simp: assertRemoteRef_def result_simps)

section \<open>Paths the container may name\<close>

definition assertCoordinatorRelativePath :: "json option \<Rightarrow> string result" where
  "assertCoordinatorRelativePath v =
    (case v of
       Some (JStr value) \<Rightarrow>
         if value = [] \<or> nul \<in> set value \<or> startsWith value ''/'' \<or> backslash \<in> set value
            \<or> str_includes value ''//''
         then throw ''S7-B coordinator path must be normalized and repository-relative''
         else if list_ex (\<lambda>part. part = [] \<or> part = ''.'' \<or> part = ''..'') (split_on slash value)
         then throw ''S7-B coordinator path must be normalized and repository-relative''
         else Inr value
     | _ \<Rightarrow> throw ''S7-B coordinator path must be normalized and repository-relative'')"

lemma assertCoordinatorRelativePath_plain:
  assumes "assertCoordinatorRelativePath v = Inr p"
  shows "v = Some (JStr p)" and "list_all plain_comp (split_on slash p)"
proof -
  from assms show v: "v = Some (JStr p)"
    by (auto simp: assertCoordinatorRelativePath_def split: option.splits json.splits if_splits)
  have "\<not> list_ex (\<lambda>part. part = [] \<or> part = ''.'' \<or> part = ''..'') (split_on slash p)"
    using assms unfolding v by (simp add: assertCoordinatorRelativePath_def split: if_splits)
  then show "list_all plain_comp (split_on slash p)"
    unfolding list_all_iff list_ex_iff plain_comp_def by (blast dest: split_on_sep_free)
qed

section \<open>Messages\<close>

definition TOKEN_LIKE :: re where
  "TOKEN_LIKE = alts
    [Seq (lit_i ''github_pat_'') (Plus (Chr (\<lambda>c. is_word c))),
     seqs [lit_i ''gh'', Chr (ci (one_of ''pousr'')), lit_i ''_'',
           Plus (Chr (ci (\<lambda>c. is_upper c \<or> is_lower c \<or> is_digit c)))],
     seqs [lit_i ''Bearer'', spaces, Plus (Chr (\<lambda>c. \<not> is_space c))],
     seqs [lit_i ''password'', Chr (one_of ''=:''), Plus (Chr (\<lambda>c. \<not> is_space c))]]"

definition sanitizeGitError :: "string \<Rightarrow> string" where
  "sanitizeGitError value =
    take 400
      (replace_all Eps (Seq (lit_i ''https://'') (Plus (Chr (\<lambda>c. \<not> is_space c))))
        ''https://github.com/<redacted>''
        (replace_all Eps TOKEN_LIKE ''<redacted>'' (if value = [] then ''unknown error'' else value)))"

section \<open>Git command line and push receipts\<close>

definition gitArgs :: "string list \<Rightarrow> string \<Rightarrow> bool \<Rightarrow> string \<Rightarrow> string \<Rightarrow> string list result" where
  "gitArgs args cwd disableHooks hooksPath credentialHelper =
    (if disableHooks \<and> (\<not> is_absolute hooksPath \<or> hooksPath = ''/'') then throw ''S6 broker hook directory is invalid''
     else if credentialHelper \<noteq> [] \<and> (\<not> is_absolute credentialHelper \<or> credentialHelper = ''/'')
     then throw ''S6 trusted credential helper path is invalid''
     else Inr ([''--no-pager'', ''-c'', ''safe.directory='' @ cwd, ''-c'', ''core.abbrev=40'', ''-c'', ''core.fsmonitor=false'',
       ''-c'', ''diff.external='', ''-c'', ''http.followRedirects=false'', ''-c'', ''protocol.allow=never'',
       ''-c'', ''protocol.https.allow=always'']
       @ (if disableHooks then [''-c'', ''core.hooksPath='' @ hooksPath] else [])
       @ [''-c'', ''credential.helper='']
       @ (if credentialHelper \<noteq> [] then [''-c'', ''credential.https://github.com.helper='' @ credentialHelper] else [])
       @ args))"

record receipt =
  rc_oldSha :: "string option"
  rc_newSha :: "string option"

text \<open>\<^verbatim>\<open>/\b([0-9a-f]{40})\.\.([0-9a-f]{40})$/\<close>: the last 82 characters, on a word boundary.\<close>

definition receipt_range :: "string \<Rightarrow> (string \<times> string) option" where
  "receipt_range line =
    (let n = length line; t = drop (n - 82) line; a = take 40 t; b = drop 42 t in
     if 82 \<le> n \<and> hex_exact 40 a \<and> take 2 (drop 40 t) = ''..'' \<and> hex_exact 40 b
        \<and> (n = 82 \<or> \<not> is_word (line ! (n - 83)))
     then Some (a, b) else None)"

definition parsePushReceipt :: "string \<Rightarrow> string \<Rightarrow> receipt result" where
  "parsePushReceipt output ref =
    (let lines = nonempty (map trim (split_lines output));
         target = ''HEAD:'' @ ref in
     case find (\<lambda>line. str_includes line target) lines of
       None \<Rightarrow> throw ''S6 push did not return a fixed-branch receipt''
     | Some matching \<Rightarrow>
         (case receipt_range matching of
            Some (a, b) \<Rightarrow> Inr \<lparr>rc_oldSha = Some a, rc_newSha = Some b\<rparr>
          | None \<Rightarrow>
              if str_includes matching ''[new branch]'' then Inr \<lparr>rc_oldSha = None, rc_newSha = None\<rparr>
              else throw ''S6 push receipt was not an exact fast-forward or new-branch result''))"

lemma receipt_range_sha: "receipt_range line = Some (a, b) \<Longrightarrow> SHA_test a \<and> SHA_test b"
  by (auto simp: receipt_range_def Let_def SHA_test_def split: if_splits)

lemma parsePushReceipt_Inr:
  assumes "parsePushReceipt out ref = Inr r"
  shows "(\<exists>a b. r = \<lparr>rc_oldSha = Some a, rc_newSha = Some b\<rparr> \<and> SHA_test a \<and> SHA_test b)
       \<or> r = \<lparr>rc_oldSha = None, rc_newSha = None\<rparr>"
  using assms by (auto simp: parsePushReceipt_def Let_def split: option.splits if_splits dest: receipt_range_sha)

text \<open>A porcelain line with a full range is read back.\<close>

lemma receipt_range_line:
  assumes "SHA_test a" "SHA_test b" "pre = [] \<or> \<not> is_word (last pre)"
  shows "receipt_range (pre @ a @ ''..'' @ b) = Some (a, b)"
proof -
  have l: "length a = 40" "length b = 40"
    using assms by (simp_all add: SHA_test_def hex_exact_def)
  have "(pre @ a @ ''..'' @ b) ! (length (pre @ a @ ''..'' @ b) - 83) = last pre" if "pre \<noteq> []"
    using that l by (simp add: nth_append last_conv_nth)
  then show ?thesis
    using assms l by (auto simp: receipt_range_def Let_def SHA_test_def)
qed

end
