(* ===== verification/Effects.thy ===== *)
theory Effects
  imports Prelude
begin

text \<open>
  Code that changes state.  An action takes the state and returns its result (or the error it
  threw), the state it leaves and the \<^emph>\<open>states it passed through\<close>: every operation that writes
  appends the state it wrote, so the list holds exactly the points at which a crash of the process
  can leave what is persisted.
\<close>

type_synonym ('s, 'a) act = "'s \<Rightarrow> 'a result \<times> 's \<times> 's list"

definition ret :: "'a \<Rightarrow> ('s, 'a) act" where
  "ret x s = (Inr x, s, [])"

definition fail :: "string \<Rightarrow> ('s, 'a) act" where
  "fail m s = (throw m, s, [])"

definition andThen :: "('s, 'a) act \<Rightarrow> ('a \<Rightarrow> ('s, 'b) act) \<Rightarrow> ('s, 'b) act" where
  "andThen m f s =
    (case m s of
       (Inl e, s', h) \<Rightarrow> (Inl e, s', h)
     | (Inr x, s', h) \<Rightarrow> (case f x s' of (r, s'', h') \<Rightarrow> (r, s'', h @ h')))"

text \<open>A computation that only looks at the state.\<close>

definition look :: "('s \<Rightarrow> 'a result) \<Rightarrow> ('s, 'a) act" where
  "look f s = (f s, s, [])"

text \<open>One write.\<close>

definition store :: "('s \<Rightarrow> 's) \<Rightarrow> ('s, unit) act" where
  "store f s = (Inr (), f s, [f s])"

text \<open>A call of something that answers and changes the state in one step.\<close>

definition call :: "('s \<Rightarrow> 'a \<times> 's) \<Rightarrow> ('s, 'a) act" where
  "call f s = (case f s of (x, s') \<Rightarrow> (Inr x, s', [s']))"

definition guard :: "bool \<Rightarrow> string \<Rightarrow> ('s, unit) act" where
  "guard b m = (if b then ret () else fail m)"

definition handle :: "('s, 'a) act \<Rightarrow> (error \<Rightarrow> ('s, 'a) act) \<Rightarrow> ('s, 'a) act" where
  "handle m f s =
    (case m s of
       (Inr x, s', h) \<Rightarrow> (Inr x, s', h)
     | (Inl e, s', h) \<Rightarrow> (case f e s' of (r, s'', h') \<Rightarrow> (r, s'', h @ h')))"

fun forA :: "('a \<Rightarrow> ('s, unit) act) \<Rightarrow> 'a list \<Rightarrow> ('s, unit) act" where
  "forA f [] = ret ()"
| "forA f (x # xs) = andThen (f x) (\<lambda>_. forA f xs)"

section \<open>Successful runs\<close>

text \<open>\<open>runs m s x s'\<close>: from \<open>s\<close> the action returns \<open>x\<close> and leaves \<open>s'\<close>.\<close>

definition runs :: "('s, 'a) act \<Rightarrow> 's \<Rightarrow> 'a \<Rightarrow> 's \<Rightarrow> bool" where
  "runs m s x s' = (\<exists>h. m s = (Inr x, s', h))"

named_theorems run_simps "when an action returns"

lemma runs_ret [run_simps]: "runs (ret v) s x s' \<longleftrightarrow> x = v \<and> s' = s"
  by (auto simp: runs_def ret_def)

lemma runs_fail [run_simps]: "\<not> runs (fail m) s x s'"
  by (simp add: runs_def fail_def)

lemma runs_andThen [run_simps]:
  "runs (andThen m f) s y s'' \<longleftrightarrow> (\<exists>x s'. runs m s x s' \<and> runs (f x) s' y s'')"
  by (auto simp: runs_def andThen_def split: sum.splits prod.splits)

lemma runs_andThenI: "runs m s y s' \<Longrightarrow> runs (f y) s' z s'' \<Longrightarrow> runs (andThen m f) s z s''"
  unfolding runs_andThen by blast

lemma runs_look [run_simps]: "runs (look f) s x s' \<longleftrightarrow> f s = Inr x \<and> s' = s"
  by (auto simp: runs_def look_def)

lemma runs_store [run_simps]: "runs (store f) s x s' \<longleftrightarrow> s' = f s"
  by (auto simp: runs_def store_def)

lemma runs_call [run_simps]: "runs (call f) s x s' \<longleftrightarrow> f s = (x, s')"
  by (auto simp: runs_def call_def split: prod.splits)

lemma runs_guard [run_simps]: "runs (guard b m) s x s' \<longleftrightarrow> b \<and> s' = s"
  by (auto simp: guard_def runs_def ret_def fail_def)

text \<open>A run that is evaluated: whether it returns, and what.\<close>

definition answered :: "'a result \<times> 's \<times> 's list \<Rightarrow> bool" where
  "answered r = (case fst r of Inl _ \<Rightarrow> False | Inr _ \<Rightarrow> True)"

definition the_answer :: "'a result \<times> 's \<times> 's list \<Rightarrow> 'a" where
  "the_answer r = projr (fst r)"

lemma runs_answer: "answered (m s) \<Longrightarrow> runs m s (the_answer (m s)) (fst (snd (m s)))"
  by (cases "m s") (auto simp: answered_def the_answer_def runs_def split: sum.splits)

section \<open>Failing runs\<close>

definition fails :: "('s, 'a) act \<Rightarrow> 's \<Rightarrow> error \<Rightarrow> 's \<Rightarrow> bool" where
  "fails m s e s' = (\<exists>h. m s = (Inl e, s', h))"

named_theorems fail_simps "when an action fails"

lemma fails_steps [fail_simps]:
  "\<not> fails (ret v) s e s'" "fails (fail m) s e s' \<longleftrightarrow> e = Error m \<and> s' = s"
  "fails (guard c m) s e s' \<longleftrightarrow> \<not> c \<and> e = Error m \<and> s' = s" "fails (look f) s e s' \<longleftrightarrow> f s = Inl e \<and> s' = s"
  by (auto simp: fails_def ret_def fail_def guard_def look_def)

lemma fails_andThen [fail_simps]:
  "fails (andThen m f) s e s' \<longleftrightarrow> fails m s e s' \<or> (\<exists>y s1. runs m s y s1 \<and> fails (f y) s1 e s')"
  by (auto simp: fails_def runs_def andThen_def split: sum.splits prod.splits)

lemma runs_handle: "runs (handle m f) s v s' \<longleftrightarrow> runs m s v s' \<or> (\<exists>e s1. fails m s e s1 \<and> runs (f e) s1 v s')"
  by (auto simp: fails_def runs_def handle_def split: sum.splits prod.splits)

section \<open>Invariants of every state passed through\<close>

definition keeps :: "('s \<Rightarrow> bool) \<Rightarrow> ('s, 'a) act \<Rightarrow> bool" where
  "keeps I m = (\<forall>s. I s \<longrightarrow> (case m s of (r, s', h) \<Rightarrow> I s' \<and> list_all I h))"

text \<open>
  The triple \<open>hoare P m Q I\<close>: from a state with \<open>P\<close> every state passed through and
  the state left have \<open>I\<close>, and a returned value and the state left satisfy \<open>Q\<close>.
\<close>

definition hoare :: "('s \<Rightarrow> bool) \<Rightarrow> ('s, 'a) act \<Rightarrow> ('a \<Rightarrow> 's \<Rightarrow> bool) \<Rightarrow> ('s \<Rightarrow> bool) \<Rightarrow> bool" where
  "hoare P m Q I =
    (\<forall>s. P s \<longrightarrow> (case m s of (r, s', h) \<Rightarrow> I s' \<and> list_all I h \<and> (\<forall>x. r = Inr x \<longrightarrow> Q x s')))"

lemma hoare_keeps: "hoare I m (\<lambda>_. I) I \<Longrightarrow> keeps I m"
  by (auto simp: hoare_def keeps_def)

lemma keeps_hoare: "keeps I m \<Longrightarrow> hoare I m (\<lambda>_. I) I"
  by (fastforce simp: hoare_def keeps_def split: prod.splits)

named_theorems hoare_intros "rules for triples"

lemma hoare_andThen [hoare_intros]:
  "hoare P m Q I \<Longrightarrow> (\<And>x. hoare (Q x) (f x) R I) \<Longrightarrow> hoare P (andThen m f) R I"
  by (fastforce simp: hoare_def andThen_def split: sum.splits prod.splits)

lemma hoare_ret: "(\<And>s. P s \<Longrightarrow> I s \<and> Q v s) \<Longrightarrow> hoare P (ret v) Q I"
  by (auto simp: hoare_def ret_def)

lemma hoare_fail [hoare_intros]: "(\<And>s. P s \<Longrightarrow> I s) \<Longrightarrow> hoare P (fail m) Q I"
  by (auto simp: hoare_def fail_def)

lemma hoare_look: "(\<And>s. P s \<Longrightarrow> I s) \<Longrightarrow> hoare P (look f) (\<lambda>x s. P s \<and> f s = Inr x) I"
  by (auto simp: hoare_def look_def)

lemma hoare_guard: "(\<And>s. P s \<Longrightarrow> I s) \<Longrightarrow> hoare P (guard b m) (\<lambda>_ s. P s \<and> b) I"
  by (auto simp: hoare_def guard_def ret_def fail_def)

lemma hoare_store: "(\<And>s. P s \<Longrightarrow> I (f s) \<and> Q () (f s)) \<Longrightarrow> hoare P (store f) Q I"
  by (auto simp: hoare_def store_def)

lemma hoare_call: "(\<And>s x s'. P s \<Longrightarrow> f s = (x, s') \<Longrightarrow> I s' \<and> Q x s') \<Longrightarrow> hoare P (call f) Q I"
  by (auto simp: hoare_def call_def split: prod.splits)

lemma hoare_weaken:
  "hoare P m Q I \<Longrightarrow> (\<And>s. P' s \<Longrightarrow> P s) \<Longrightarrow> (\<And>x s. Q x s \<Longrightarrow> Q' x s) \<Longrightarrow> hoare P' m Q' I"
  by (fastforce simp: hoare_def split: prod.splits)

lemma hoare_if:
  "(b \<Longrightarrow> hoare P m Q I) \<Longrightarrow> (\<not> b \<Longrightarrow> hoare P n Q I) \<Longrightarrow> hoare P (if b then m else n) Q I"
  by simp

lemma hoare_forA:
  "(\<And>x. x \<in> set xs \<Longrightarrow> hoare P (f x) (\<lambda>_. P) I) \<Longrightarrow> (\<And>s. P s \<Longrightarrow> I s) \<Longrightarrow> hoare P (forA f xs) (\<lambda>_. P) I"
  by (induction xs) (auto intro!: hoare_andThen hoare_ret)

lemma hoare_pre_false: "(\<And>s. \<not> P s) \<Longrightarrow> hoare P m Q I"
  by (simp add: hoare_def)

lemma hoare_assume: "(\<And>s. P s \<Longrightarrow> hoare (\<lambda>t. t = s) m Q I) \<Longrightarrow> hoare P m Q I"
  by (simp add: hoare_def)

text \<open>Actions that never write.\<close>

definition inspects :: "('s, 'a) act \<Rightarrow> bool" where
  "inspects m = (\<forall>s. \<exists>r. m s = (r, s, []))"

lemma inspects_look [simp]: "inspects (look f)" "inspects (ret v)" "inspects (fail m)" "inspects (guard b m)"
  by (auto simp: inspects_def look_def ret_def fail_def guard_def)

lemma inspects_andThen: "inspects m \<Longrightarrow> (\<And>x. inspects (f x)) \<Longrightarrow> inspects (andThen m f)"
  unfolding inspects_def andThen_def
  by (intro allI) (metis (mono_tags, lifting) append_Nil case_prod_conv old.sum.exhaust sum.case(1,2))

lemma inspects_keeps:
  assumes "inspects m"
  shows "keeps I m"
  unfolding keeps_def
proof (intro allI impI)
  fix s
  assume "I s"
  moreover obtain r where "m s = (r, s, [])" using assms unfolding inspects_def by blast
  ultimately show "case m s of (r, s', h) \<Rightarrow> I s' \<and> list_all I h" by simp
qed

section \<open>Preservation by composed actions\<close>

lemma keeps_look [hoare_intros]: "keeps I (look f)" "keeps I (ret v)" "keeps I (fail m)" "keeps I (guard c m)"
  by (simp_all add: inspects_keeps)

lemma keeps_if [hoare_intros]: "(c \<Longrightarrow> keeps I m) \<Longrightarrow> (\<not> c \<Longrightarrow> keeps I n) \<Longrightarrow> keeps I (if c then m else n)"
  by simp

lemma keeps_let [hoare_intros]: "keeps I (f v) \<Longrightarrow> keeps I (let y = v in f y)"
  by simp

text \<open>The continuation may use what is known about the value returned.\<close>

lemma keeps_bind_fact:
  assumes "keeps I m"
    and "\<And>s y s'. I s \<Longrightarrow> runs m s y s' \<Longrightarrow> C y"
    and "\<And>y. C y \<Longrightarrow> keeps I (f y)"
  shows "keeps I (andThen m f)"
  unfolding keeps_def
proof (intro allI impI)
  fix s
  assume s: "I s"
  obtain r s' h where m: "m s = (r, s', h)" by (cases "m s")
  with assms(1) s have I: "I s'" "list_all I h" by (auto simp: keeps_def)
  show "case andThen m f s of (r, s', h) \<Rightarrow> I s' \<and> list_all I h"
  proof (cases r)
    case (Inl e)
    with m I show ?thesis by (simp add: andThen_def)
  next
    case (Inr y)
    with m s have "C y" by (intro assms(2)) (auto simp: runs_def)
    then have "keeps I (f y)" by (rule assms(3))
    then show ?thesis using m Inr I by (auto simp: keeps_def andThen_def split: prod.splits)
  qed
qed

lemma keeps_andThen [hoare_intros]: "keeps I m \<Longrightarrow> (\<And>y. keeps I (f y)) \<Longrightarrow> keeps I (andThen m f)"
  by (rule keeps_bind_fact [where C = "\<lambda>_. True"]) simp_all

lemma keeps_handle [hoare_intros]:
  assumes "keeps I m" and "\<And>e. keeps I (f e)"
  shows "keeps I (handle m f)"
  unfolding keeps_def
proof (intro allI impI)
  fix s
  assume s: "I s"
  obtain r s' h where m: "m s = (r, s', h)" by (cases "m s")
  with assms(1) s have I: "I s'" "list_all I h" by (auto simp: keeps_def)
  show "case handle m f s of (r, s', h) \<Rightarrow> I s' \<and> list_all I h"
  proof (cases r)
    case (Inr y)
    with m I show ?thesis by (simp add: handle_def)
  next
    case (Inl e)
    then show ?thesis using m I assms(2) [of e] by (auto simp: keeps_def handle_def split: prod.splits)
  qed
qed

lemma keeps_forA: "(\<And>y. y \<in> set ys \<Longrightarrow> keeps I (f y)) \<Longrightarrow> keeps I (forA f ys)"
  by (induction ys) (auto intro: hoare_intros)

lemma keeps_runs: "keeps I m \<Longrightarrow> runs m s y s' \<Longrightarrow> I s \<Longrightarrow> I s'"
  by (fastforce simp: keeps_def runs_def)

lemma keeps_states:
  assumes "keeps I m" "I s" "m s = (r, s', h)"
  shows "I s'" "list_all I h"
  using assms by (auto simp: keeps_def)

end
