(* ===== verification/BrokerWorld.thy ===== *)
theory BrokerWorld
  imports BrokerIdentity Effects
begin

text \<open>
  What the S6 broker sees of the outside (\<^verbatim>\<open>scripts/s6-github-broker.mjs\<close>): the files it keeps
  (\<open>w_files\<close>, by path), the set of attested commits it holds in memory (\<open>w_attested\<close>) and
  an opaque \<open>w_repo\<close> for the clone, the remote and the file system, which only the functions of
  \<open>ext\<close> read or change.  \<open>x_git\<close> runs an inspecting \<^verbatim>\<open>git\<close> command,
  \<open>x_net\<close> one that changes refs, the clone or the remote, or that asks the remote; both take
  the whole command line, the directory and the environment.
\<close>

record fstat =
  st_kind :: string  \<comment> \<open>\<open>file\<close>, \<open>directory\<close>, \<open>symlink\<close>, \<open>socket\<close> or other\<close>
  st_mode :: nat
  st_uid :: nat
  st_dev :: nat
  st_ino :: nat
  st_birthtime :: "string option"

definition isFile :: "fstat \<Rightarrow> bool" where "isFile st = (st_kind st = ''file'')"
definition isDirectory :: "fstat \<Rightarrow> bool" where "isDirectory st = (st_kind st = ''directory'')"
definition isSymbolicLink :: "fstat \<Rightarrow> bool" where "isSymbolicLink st = (st_kind st = ''symlink'')"

text \<open>\<open>mode_has m bits\<close> is \<^verbatim>\<open>(mode & bits) !== 0\<close>.\<close>

definition mode_has :: "nat \<Rightarrow> nat \<Rightarrow> bool" where
  "mode_has m bits = (m AND bits \<noteq> 0)"

record 'r ext =
  x_git :: "'r \<Rightarrow> string list \<Rightarrow> string \<Rightarrow> (string \<times> string) list \<Rightarrow> proc_result"
  x_net :: "string list \<Rightarrow> string \<Rightarrow> (string \<times> string) list \<Rightarrow> 'r \<Rightarrow> proc_result \<times> 'r"
  x_credential :: "'r \<Rightarrow> string result"
  x_exists :: "'r \<Rightarrow> string \<Rightarrow> bool"
  x_realpath :: "'r \<Rightarrow> string \<Rightarrow> string result"
  x_lstat :: "'r \<Rightarrow> string \<Rightarrow> fstat option"
  x_readFile :: "'r \<Rightarrow> string \<Rightarrow> string result"
  x_readdir :: "'r \<Rightarrow> string \<Rightarrow> string list"
  x_sha256 :: "string \<Rightarrow> string"
  x_now :: "'r \<Rightarrow> string"
  x_environ :: "string \<Rightarrow> string option"
  x_cwd :: string
  x_uid :: nat
  x_platform :: string

record 'r world =
  w_repo :: 'r
  w_files :: "string \<Rightarrow> json option"
  w_attested :: "string set"

type_synonym ('r, 'a) bact = "('r world, 'a) act"

text \<open>The broker object; the paths its constructor derives are definitions.\<close>

record broker =
  b_managerRoot :: string
  b_bridgeRoot :: string
  b_sessionId :: string

definition sessionsRoot :: "broker \<Rightarrow> string" where
  "sessionsRoot b = path_join (b_managerRoot b) ''sessions''"
definition stateRoot :: "broker \<Rightarrow> string" where
  "stateRoot b = path_join (b_managerRoot b) ''manager-state''"
definition governanceRoot :: "broker \<Rightarrow> string" where
  "governanceRoot b = path_join (b_managerRoot b) ''governance''"
definition gitHome :: "broker \<Rightarrow> string" where
  "gitHome b = path_join (b_managerRoot b) ''git-home''"
definition brokerHooksRoot :: "broker \<Rightarrow> string" where
  "brokerHooksRoot b = path_join (b_managerRoot b) ''broker-empty-hooks''"
definition brokerTemplateRoot :: "broker \<Rightarrow> string" where
  "brokerTemplateRoot b = path_join (b_managerRoot b) ''broker-empty-template''"
definition coordinatorMarkerPath :: "broker \<Rightarrow> string" where
  "coordinatorMarkerPath b = path_join (stateRoot b) (b_sessionId b @ ''.coordinator.json'')"
definition publishStatePath :: "broker \<Rightarrow> string" where
  "publishStatePath b = path_join (stateRoot b) (b_sessionId b @ ''.published.json'')"
definition attachmentRecoveryStatePath :: "broker \<Rightarrow> string" where
  "attachmentRecoveryStatePath b = path_join (stateRoot b) (b_sessionId b @ ''.attachment-recovery.json'')"

definition workspacePath :: "broker \<Rightarrow> string \<Rightarrow> string result" where
  "workspacePath b sessionId = bindE (assertSessionId sessionId) (\<lambda>_. Inr (path_join (sessionsRoot b) sessionId))"

section \<open>Files\<close>

text \<open>\<^verbatim>\<open>readJson\<close>: \<^verbatim>\<open>null\<close> for a missing or malformed file, which
  \<^verbatim>\<open>if (!parsed)\<close> also finds for a falsy value.\<close>

definition readJson :: "'r world \<Rightarrow> string \<Rightarrow> json option" where
  "readJson w p = (if truthy (w_files w p) then w_files w p else None)"

text \<open>\<^verbatim>\<open>atomicWrite\<close>: a temporary file renamed over the old one.\<close>

definition atomicWrite :: "string \<Rightarrow> ('r world \<Rightarrow> json) \<Rightarrow> ('r, unit) bact" where
  "atomicWrite p v = store (\<lambda>w. w\<lparr>w_files := (w_files w)(p \<mapsto> v w)\<rparr>)"

definition rmSync :: "string \<Rightarrow> ('r, unit) bact" where
  "rmSync p = store (\<lambda>w. w\<lparr>w_files := (w_files w)(p := None)\<rparr>)"

definition addAttested :: "string \<Rightarrow> ('r, unit) bact" where
  "addAttested sha w = (Inr (), w\<lparr>w_attested := insert sha (w_attested w)\<rparr>, [])"

text \<open>A string field of a state file; the manager and the broker write strings there.\<close>

definition field :: "json \<Rightarrow> string \<Rightarrow> string" where
  "field v k = (case get v k of Some (JStr s) \<Rightarrow> s | _ \<Rightarrow> [])"

definition has_str :: "json \<Rightarrow> string \<Rightarrow> string \<Rightarrow> bool" where
  "has_str v k s = (get v k = Some (JStr s))"

text \<open>From the root down to \<open>target\<close>: every existing ancestor must be a real directory.\<close>

definition ancestors :: "string \<Rightarrow> string list" where
  "ancestors p = map (\<lambda>n. abs_path (take n (comps_of p))) [0..<Suc (length (comps_of p))]"

definition ensureNoSymlinkAncestors :: "'r ext \<Rightarrow> 'r \<Rightarrow> string \<Rightarrow> unit result" where
  "ensureNoSymlinkAncestors x r target =
    forE (\<lambda>item.
      if \<not> x_exists x r item then Inr ()
      else case x_lstat x r item of
        None \<Rightarrow> throw (''ENOENT: '' @ item)
      | Some st \<Rightarrow>
          if isSymbolicLink st then
            (if x_platform x = ''darwin'' \<and> item \<in> set [''/tmp'', ''/var''] then Inr ()
             else throw (''S6 path has a symlink ancestor: '' @ item))
          else ensure (isDirectory st) (''S6 path ancestor is not a directory: '' @ item))
      (ancestors (path_resolve (x_cwd x) target))"

text \<open>
  A directory that is missing is created private, owned and empty; one that exists is made private
  and must be a real, owned, empty directory.
\<close>

definition ensurePrivateEmptyDirectory :: "'r ext \<Rightarrow> 'r \<Rightarrow> string \<Rightarrow> string \<Rightarrow> unit result" where
  "ensurePrivateEmptyDirectory x r directory label =
    (case x_lstat x r directory of
       None \<Rightarrow> Inr ()
     | Some st \<Rightarrow>
         bindE (ensure (isDirectory st \<and> \<not> isSymbolicLink st) (label @ '' must be a real directory'')) (\<lambda>_.
         bindE (ensure (st_uid st = x_uid x) (label @ '' owner mismatch'')) (\<lambda>_.
         ensure (x_readdir x r directory = []) (label @ '' must remain empty''))))"

definition ensureGitIsolationRoots :: "'r ext \<Rightarrow> broker \<Rightarrow> 'r \<Rightarrow> unit result" where
  "ensureGitIsolationRoots x b r =
    bindE (ensurePrivateEmptyDirectory x r (brokerHooksRoot b) ''S6 broker hook directory'') (\<lambda>_.
    ensurePrivateEmptyDirectory x r (brokerTemplateRoot b) ''S6 broker template directory'')"

definition assertSafeBrokerRoot :: "'r ext \<Rightarrow> 'r \<Rightarrow> string \<Rightarrow> unit result" where
  "assertSafeBrokerRoot x r root =
    bindE (ensure (path_resolve (x_cwd x) root \<noteq> ''/'' \<and> \<not> str_includes root ''/volume1/docker'')
      ''S6 broker manager root is unsafe'') (\<lambda>_.
    bindE (ensure (startsWith (path_basename root) ''chatgpt-local-bridge-s6-'')
      ''S6 broker manager root identity is invalid'') (\<lambda>_.
    ensureNoSymlinkAncestors x r root))"

text \<open>The constructor; a new broker starts with no attested commit.\<close>

definition newBroker :: "'r ext \<Rightarrow> string \<Rightarrow> string \<Rightarrow> string \<Rightarrow> ('r, broker) bact" where
  "newBroker x managerRoot bridgeRoot sessionId =
    andThen (guard (managerRoot \<noteq> [] \<and> is_absolute managerRoot) ''S6 broker manager root must be absolute'') (\<lambda>_.
    andThen (guard (bridgeRoot \<noteq> [] \<and> is_absolute bridgeRoot) ''S6 broker bridge root must be absolute'') (\<lambda>_.
    andThen (look (\<lambda>_. assertSessionId sessionId)) (\<lambda>_.
    let b = \<lparr>b_managerRoot = path_resolve (x_cwd x) managerRoot, b_bridgeRoot = path_resolve (x_cwd x) bridgeRoot,
             b_sessionId = sessionId\<rparr> in
    andThen (store (\<lambda>w. w\<lparr>w_attested := {}\<rparr>)) (\<lambda>_.
    andThen (look (\<lambda>w. assertSafeBrokerRoot x (w_repo w) (b_managerRoot b))) (\<lambda>_.
    andThen (look (\<lambda>w. ensureGitIsolationRoots x b (w_repo w))) (\<lambda>_.
    andThen (look (\<lambda>_. assertS6RepositoryAlias S6_REPOSITORY_ALIAS)) (\<lambda>_.
    ret b)))))))"

section \<open>Running Git\<close>

definition gitEnvironment :: "'r ext \<Rightarrow> broker \<Rightarrow> 'r \<Rightarrow> (string \<times> string) list result" where
  "gitEnvironment x b r =
    bindE (ensureGitIsolationRoots x b r) (\<lambda>_. Inr
      [(''PATH'', case x_environ x ''PATH'' of None \<Rightarrow> ''/usr/bin:/bin'' | Some p \<Rightarrow> if p = [] then ''/usr/bin:/bin'' else p),
       (''HOME'', gitHome b), (''XDG_CONFIG_HOME'', path_join (gitHome b) ''config''),
       (''LANG'', ''C''), (''LC_ALL'', ''C''),
       (''GIT_CONFIG_NOSYSTEM'', ''1''), (''GIT_CONFIG_SYSTEM'', ''/dev/null''), (''GIT_CONFIG_GLOBAL'', ''/dev/null''),
       (''GIT_TERMINAL_PROMPT'', ''0''), (''GIT_ASKPASS'', ''/usr/bin/false''), (''GIT_SSH_COMMAND'', ''/usr/bin/false''),
       (''GIT_TEMPLATE_DIR'', brokerTemplateRoot b), (''GIT_OPTIONAL_LOCKS'', ''0'')])"

text \<open>Inspecting commands: \<^verbatim>\<open>gitStatus\<close> and, under \<^verbatim>\<open>gitOutput\<close>,
  \<^verbatim>\<open>gitStatusWithCredential\<close>.\<close>

definition gitStatus :: "'r ext \<Rightarrow> broker \<Rightarrow> 'r \<Rightarrow> string list \<Rightarrow> string \<Rightarrow> proc_result result" where
  "gitStatus x b r args cwd =
    bindE (gitArgs args cwd True (brokerHooksRoot b) []) (\<lambda>argv.
    bindE (gitEnvironment x b r) (\<lambda>env.
    Inr (x_git x r (''git'' # argv) cwd env)))"

definition gitStatusWithCredential :: "'r ext \<Rightarrow> broker \<Rightarrow> 'r \<Rightarrow> string list \<Rightarrow> string \<Rightarrow> bool \<Rightarrow> proc_result result" where
  "gitStatusWithCredential x b r args cwd disableHooks =
    bindE (gitEnvironment x b r) (\<lambda>env.
    bindE (gitArgs args cwd disableHooks (brokerHooksRoot b) []) (\<lambda>argv.
    Inr (x_git x r (''git'' # argv) cwd env)))"

definition child_text :: "proc_result \<Rightarrow> string" where
  "child_text res = (if p_stderr res \<noteq> [] then p_stderr res else p_stdout res)"

definition gitOutput_opt :: "'r ext \<Rightarrow> broker \<Rightarrow> 'r \<Rightarrow> string list \<Rightarrow> string \<Rightarrow> bool \<Rightarrow> string result" where
  "gitOutput_opt x b r args cwd disableHooks =
    bindE (gitStatusWithCredential x b r args cwd disableHooks) (\<lambda>res.
    if p_status res \<noteq> Some 0 then throw (''S6 Git inspection failed: '' @ sanitizeGitError (child_text res))
    else Inr (p_stdout res))"

definition gitOutput :: "'r ext \<Rightarrow> broker \<Rightarrow> 'r \<Rightarrow> string list \<Rightarrow> string \<Rightarrow> string result" where
  "gitOutput x b r args cwd = gitOutput_opt x b r args cwd True"

text \<open>A command that changes the repository or talks to the remote.\<close>

definition gitResult :: "'r ext \<Rightarrow> broker \<Rightarrow> string list \<Rightarrow> string \<Rightarrow> string \<Rightarrow> ('r, proc_result) bact" where
  "gitResult x b args cwd credentialHelper =
    andThen (look (\<lambda>w. gitEnvironment x b (w_repo w))) (\<lambda>env.
    andThen (look (\<lambda>_. gitArgs args cwd True (brokerHooksRoot b) credentialHelper)) (\<lambda>argv.
    andThen (call (\<lambda>w. case x_net x (''git'' # argv) cwd env (w_repo w) of (res, r') \<Rightarrow> (res, w\<lparr>w_repo := r'\<rparr>))) (\<lambda>res.
    if p_status res \<noteq> Some 0 then fail (''S6 Git operation failed: '' @ sanitizeGitError (child_text res))
    else ret res)))"

text \<open>\<^verbatim>\<open>withCredential\<close>: the credential runner answers with a helper path or throws.\<close>

definition withCredential :: "'r ext \<Rightarrow> (string \<Rightarrow> ('r, 'a) bact) \<Rightarrow> ('r, 'a) bact" where
  "withCredential x k =
    andThen (look (\<lambda>w. x_credential x (w_repo w))) (\<lambda>helperBin.
    andThen (guard (is_absolute helperBin) ''trusted S6 Git credential helper path is invalid'') (\<lambda>_.
    k helperBin))"

end
