(* ===== verification/ReviewedHooks.thy ===== *)
theory ReviewedHooks
  imports Prelude
begin

text \<open>
  The reviewed hooks and the hash of the reviewed policy helper (\<^verbatim>\<open>src/lib/git-governance.js\<close>), which the Git tools
  and the S6 broker both compare with.
\<close>

definition REVIEWED_HOOK_SOURCE :: string where
  "REVIEWED_HOOK_SOURCE = ''#!/bin/sh'' @ [nl] @ ''set -eu'' @ [nl] @ ''exec node scripts/pre-commit-policy.mjs'' @ [nl]"

definition S6_REVIEWED_HOOK_SOURCE :: string where
  "S6_REVIEWED_HOOK_SOURCE =
    ''#!/bin/sh'' @ [nl] @ ''set -eu'' @ [nl] @ ''exec node '' @ [dquote]
    @ ''${BRIDGE_REVIEWED_POLICY_PATH:?bridge policy path missing}'' @ [dquote, nl]"

definition REVIEWED_POLICY_SHA256 :: string where
  "REVIEWED_POLICY_SHA256 = ''3a3c1ccba7480d8954655446828982e4114763118bb9920b99e6926eda39de8c''"

end
