(* ===== verification/BrokerInspect.thy ===== *)
theory BrokerInspect
  imports BrokerWorld ReviewedHooks
begin

text \<open>
  The checks of \<^verbatim>\<open>class S6GitHubBroker\<close> (\<^verbatim>\<open>scripts/s6-github-broker.mjs\<close>) on the
  registered workspace, the manager's governance files, the clone, its tree and its commit graph,
  and the publish state file.  None of them changes the world.
\<close>

section \<open>The registered workspace\<close>

record workspace_record =
  wr_sessionId :: string
  wr_state :: string
  wr_source :: string
  wr_branch :: string
  wr_workspacePath :: string
  wr_statePath :: string
  wr_expectedBaseCommit :: string
  wr_sourceCommit :: string
  wr_coreHooksPath :: string
  wr_governanceHostRoot :: string

definition workspace_of_json :: "json \<Rightarrow> workspace_record" where
  "workspace_of_json v =
    \<lparr>wr_sessionId = field v ''sessionId'', wr_state = field v ''state'', wr_source = field v ''source'',
     wr_branch = field v ''branch'', wr_workspacePath = field v ''workspacePath'', wr_statePath = field v ''statePath'',
     wr_expectedBaseCommit = field v ''expectedBaseCommit'', wr_sourceCommit = field v ''sourceCommit'',
     wr_coreHooksPath = field v ''coreHooksPath'', wr_governanceHostRoot = field v ''governanceHostRoot''\<rparr>"

definition readWorkspaceState :: "broker \<Rightarrow> 'r world \<Rightarrow> string \<Rightarrow> workspace_record result" where
  "readWorkspaceState b w sessionId =
    bindE (assertSessionId sessionId) (\<lambda>_.
    case readJson w (path_join (stateRoot b) (sessionId @ ''.json'')) of
      None \<Rightarrow> throw ''S6 workspace state is invalid''
    | Some parsed \<Rightarrow>
        if \<not> has_str parsed ''sessionId'' sessionId \<or> \<not> has_str parsed ''kind'' ''workspace''
        then throw ''S6 workspace state is invalid'' else Inr (workspace_of_json parsed))"

definition validateRegisteredWorkspaceRecord :: "'r ext \<Rightarrow> broker \<Rightarrow> 'r world \<Rightarrow> workspace_record result" where
  "validateRegisteredWorkspaceRecord x b w =
    (let sid = b_sessionId b in
    bindE (readWorkspaceState b w sid) (\<lambda>rec.
    bindE (ensure (wr_state rec = ''active'') ''S6 manager session is not active'') (\<lambda>_.
    bindE (ensure (wr_sessionId rec = sid) ''S6 manager session identity mismatch'') (\<lambda>_.
    bindE (ensure (wr_source rec = S6_REPOSITORY_URL) ''S6 session source is not canonical homelab'') (\<lambda>_.
    bindE (s6BranchForSession sid) (\<lambda>branch.
    bindE (ensure (wr_branch rec = branch \<and> BRANCH_test (wr_branch rec)) ''S6 generated branch registry identity mismatch'') (\<lambda>_.
    bindE (workspacePath b sid) (\<lambda>wp.
    bindE (ensure (path_resolve (x_cwd x) (wr_workspacePath rec) = wp) ''S6 workspace path is not manager-owned'') (\<lambda>_.
    bindE (ensure (path_resolve (x_cwd x) (wr_statePath rec) = path_join (stateRoot b) (sid @ ''.json''))
      ''S6 state path is not manager-owned'') (\<lambda>_.
    bindE (ensure (SHA_test (wr_expectedBaseCommit rec) \<and> SHA_test (wr_sourceCommit rec))
      ''S6 expected canonical base is missing'') (\<lambda>_.
    bindE (ensure (wr_coreHooksPath rec = S6_GOVERNANCE_HOOKS_PATH) ''S6 reviewed external governance is not active'') (\<lambda>_.
    Inr rec))))))))))))"

definition validateManagerGovernance :: "'r ext \<Rightarrow> broker \<Rightarrow> 'r world \<Rightarrow> workspace_record \<Rightarrow> unit result" where
  "validateManagerGovernance x b w rec =
    (let root = path_resolve (x_cwd x) (wr_governanceHostRoot rec);
         base = path_basename root;
         hook = path_join (path_join root ''hooks'') ''pre-commit'';
         policy = path_join root ''pre-commit-policy.mjs'';
         r = w_repo w
     in bindE (ensure (isWithin (x_cwd x) root (governanceRoot b) \<and> startsWith base (b_sessionId b @ ''-'')
                 \<and> hex_exact 16 (drop (length (b_sessionId b) + 1) base))
               ''S6 external governance root is not manager-owned'') (\<lambda>_.
        bindE (forE (\<lambda>target.
            case x_lstat x r target of
              None \<Rightarrow> throw (''ENOENT: '' @ target)
            | Some st \<Rightarrow>
                ensure (isFile st \<and> \<not> isSymbolicLink st \<and> \<not> (target = hook \<and> \<not> mode_has (st_mode st) 73))
                  ''S6 external governance file is not immutable and reviewed'') [hook, policy]) (\<lambda>_.
        bindE (x_readFile x r hook) (\<lambda>source.
        bindE (ensure (source = S6_REVIEWED_HOOK_SOURCE) ''S6 external hook changed'') (\<lambda>_.
        bindE (x_readFile x r policy) (\<lambda>text.
        ensure (x_sha256 x text = REVIEWED_POLICY_SHA256) ''S6 external policy helper changed''))))))"

section \<open>The clone\<close>

definition REPOSITORY_CONFIG :: re where
  "REPOSITORY_CONFIG = Seq Bol (alts
    [lit_i ''alias.'', lit_i ''credential.'', lit_i ''url.'', lit_i ''include'', lit_i ''submodule.'',
     lit_i ''filter.'', lit_i ''http.'', lit_i ''protocol.'', lit_i ''diff.'', lit_i ''difftool.'', lit_i ''mergetool.'',
     Seq (lit_i ''core.'') (alts (map lit_i [''sshCommand'', ''gitProxy'', ''askPass'', ''attributesFile'', ''fsmonitor'', ''fsmonitorHook''])),
     Seq (lit_i ''remote.'') (NotAhead (seqs [lit_i ''origin.'', Alt (lit_i ''url'') (lit_i ''fetch''), Eol])),
     lit_i ''remote.origin.pushurl''])"

definition clean_status_args :: "string list" where
  "clean_status_args = [''status'', ''--porcelain=v1'', ''--ignored'', ''--untracked-files=all'']"

definition lines_of :: "string \<Rightarrow> string list" where
  "lines_of s = nonempty (split_lines s)"

definition validateWorkspaceIdentity ::
  "'r ext \<Rightarrow> broker \<Rightarrow> 'r world \<Rightarrow> string \<Rightarrow> string \<Rightarrow> bool \<Rightarrow> bool \<Rightarrow> unit result" where
  "validateWorkspaceIdentity x b w wp branch requireAttachedBranch requireClean =
    (let r = w_repo w; out = (\<lambda>args. gitOutput x b r args wp) in
    bindE (if x_exists x r wp then
             bindE (x_realpath x r wp) (\<lambda>real. bindE (x_realpath x r (path_resolve (x_cwd x) wp)) (\<lambda>own.
             ensure (real = own) ''S6 workspace is not a real manager-owned directory''))
           else throw ''S6 workspace is not a real manager-owned directory'') (\<lambda>_.
    bindE (case x_lstat x r (path_join wp ''.git'') of
             None \<Rightarrow> throw (''ENOENT: '' @ path_join wp ''.git'')
           | Some st \<Rightarrow> ensure (isDirectory st \<and> \<not> isSymbolicLink st) ''S6 workspace Git directory is not a real directory'') (\<lambda>_.
    bindE (if requireAttachedBranch then
             bindE (out [''branch'', ''--show-current'']) (\<lambda>t.
             ensure (trim t = branch) ''S6 HEAD is not attached to the generated branch'')
           else Inr ()) (\<lambda>_.
    bindE (out [''rev-parse'', ''--is-shallow-repository'']) (\<lambda>shallow.
    bindE (ensure (trim shallow = ''false'') ''S6 workspace is shallow'') (\<lambda>_.
    bindE (out [''remote'']) (\<lambda>remote.
    bindE (ensure (join [nl] (lines_of (trim remote)) = S6_REMOTE_NAME) ''S6 workspace has an unexpected remote'') (\<lambda>_.
    bindE (out [''config'', ''--local'', ''--get-all'', ''remote.origin.url'']) (\<lambda>urls.
    bindE (ensure (lines_of (trim urls) = [S6_REPOSITORY_URL]) ''S6 origin is not the single fixed canonical URL'') (\<lambda>_.
    bindE (gitStatus x b r [''config'', ''--local'', ''--get-all'', ''remote.origin.pushurl''] wp) (\<lambda>pushurl.
    bindE (ensure (p_status pushurl \<noteq> Some 0) ''S6 origin pushurl is not allowed'') (\<lambda>_.
    bindE (out [''config'', ''--local'', ''--get-all'', ''remote.origin.fetch'']) (\<lambda>fetch.
    bindE (ensure (lines_of (trim fetch) = [S6_STANDARD_FETCH_REFSPEC])
      ''S6 origin fetch refspec is not the standard clone refspec'') (\<lambda>_.
    bindE (gitOutput_opt x b r [''config'', ''--local'', ''--get'', ''core.hooksPath''] wp False) (\<lambda>hookPath.
    bindE (ensure (trim hookPath = S6_GOVERNANCE_HOOKS_PATH)
      ''S6 core.hooksPath is not the manager-mounted reviewed hook path'') (\<lambda>_.
    bindE (out [''config'', ''--local'', ''--name-only'', ''--list'']) (\<lambda>config.
    bindE (forE (\<lambda>key. ensure (\<not> re_test REPOSITORY_CONFIG key)
        (''S6 repository-controlled Git config is not allowed: '' @ key)) (lines_of config)) (\<lambda>_.
    if requireClean then
      bindE (out clean_status_args) (\<lambda>status.
      ensure (trim status = []) ''S6 publish requires a clean worktree, index, and ignored set'')
    else Inr ()))))))))))))))))))"

text \<open>\<^verbatim>\<open>/^([0-9]+)\s+(\w+)\s+([0-9a-f]{40})\t([\s\S]*)$/\<close>.\<close>

definition take_run :: "(char \<Rightarrow> bool) \<Rightarrow> string \<Rightarrow> (string \<times> string) option" where
  "take_run p s = (if takeWhile p s = [] then None else Some (takeWhile p s, dropWhile p s))"

definition parse_ls_tree :: "string \<Rightarrow> git_entry option" where
  "parse_ls_tree line =
    (case take_run is_digit line of None \<Rightarrow> None | Some (mode, r1) \<Rightarrow>
     (case take_run is_space r1 of None \<Rightarrow> None | Some (_, r2) \<Rightarrow>
     (case take_run is_word r2 of None \<Rightarrow> None | Some (typ, r3) \<Rightarrow>
     (case take_run is_space r3 of None \<Rightarrow> None | Some (_, r4) \<Rightarrow>
     (case take_field is_hex tab r4 of None \<Rightarrow> None | Some (obj, name) \<Rightarrow>
        if length obj = 40
        then Some \<lparr>ge_mode = mode, ge_type = Some typ, ge_object = obj, ge_stage = None, ge_name = name\<rparr>
        else None)))))"

definition treeEntries :: "'r ext \<Rightarrow> broker \<Rightarrow> 'r world \<Rightarrow> string \<Rightarrow> git_entry list result" where
  "treeEntries x b w wp =
    bindE (gitOutput x b (w_repo w) [''ls-tree'', ''-r'', ''-z'', ''HEAD''] wp) (\<lambda>raw.
    mapE (\<lambda>line. case parse_ls_tree line of None \<Rightarrow> throw ''S6 tree entry format is invalid'' | Some e \<Rightarrow> Inr e)
      (nonempty (split_on nul raw)))"

definition checkTreeEntry :: "'r ext \<Rightarrow> 'r world \<Rightarrow> string \<Rightarrow> bool \<Rightarrow> git_entry \<Rightarrow> unit result" where
  "checkTreeEntry x w wp publish entry =
    (if ge_mode entry = ''120000'' then throw (''S6 refuses symlink tree entry: '' @ ge_name entry)
     else if ge_mode entry = ''160000'' \<or> ge_type entry = Some ''commit'' then
       throw (''S6 refuses submodule tree entry: '' @ ge_name entry)
     else let normalized = normalizeRepositoryName (ge_name entry) in
       if normalized = [] then throw (''S6 refuses invalid tree path: '' @ ge_name entry)
       else if publish \<and> isHighRiskGovernancePath normalized then Inr ()
       else let decision = classifyPolicyPath normalized in
         if \<not> pd_allowed decision \<and> normalized \<notin> set S6_CANONICAL_PLACEHOLDER_PATHS then
           throw (pd_reason decision @ '': '' @ normalized)
         else let absolute = path_join wp normalized in
           if x_exists x (w_repo w) absolute
              \<and> (case x_lstat x (w_repo w) absolute of None \<Rightarrow> False | Some st \<Rightarrow> isSymbolicLink st)
           then throw (''S6 refuses working-tree symlink: '' @ normalized)
           else Inr ())"

definition validateTree :: "'r ext \<Rightarrow> broker \<Rightarrow> 'r world \<Rightarrow> string \<Rightarrow> bool \<Rightarrow> unit result" where
  "validateTree x b w wp publish =
    bindE (treeEntries x b w wp) (forE (checkTreeEntry x w wp publish))"

section \<open>The commit graph\<close>

text \<open>\<^verbatim>\<open>s.split(/\s+/)\<close>.\<close>

function split_ws :: "string \<Rightarrow> string list" where
  "split_ws s =
    (let a = takeWhile (\<lambda>c. \<not> is_space c) s; r = dropWhile (\<lambda>c. \<not> is_space c) s
     in if r = [] then [a] else a # split_ws (dropWhile is_space (tl r)))"
  by pat_completeness auto
termination
proof (relation "measure length", goal_cases)
  case (2 s a r)
  have "length (dropWhile is_space (tl r)) \<le> length (tl r)" by (rule length_dropWhile_le)
  also have "length (tl r) < length r" using 2(3) by simp
  also have "length r \<le> length s" using 2(2) by (simp add: length_dropWhile_le)
  finally show ?case by simp
qed simp

declare split_ws.simps [simp del]

definition graph_row :: "string \<Rightarrow> string result" where
  "graph_row row =
    (let fields = split_ws (trim row) in
     if \<not> SHA_test (hd fields) then throw ''S6 commit graph contains an invalid object''
     else if length fields \<noteq> 2 then throw ''S6 rejects merge commits; publish history must be linear''
     else Inr (hd fields))"

definition graphCommits :: "'r ext \<Rightarrow> broker \<Rightarrow> 'r world \<Rightarrow> string \<Rightarrow> string \<Rightarrow> string \<Rightarrow> string list result" where
  "graphCommits x b w wp base head =
    bindE (gitOutput x b (w_repo w) [''rev-list'', ''--parents'', base @ ''..'' @ head] wp) (\<lambda>out.
    mapE graph_row (lines_of out))"

definition changedPaths :: "'r ext \<Rightarrow> broker \<Rightarrow> 'r world \<Rightarrow> string \<Rightarrow> string \<Rightarrow> string \<Rightarrow> string list result" where
  "changedPaths x b w wp base head =
    bindE (gitOutput x b (w_repo w)
      [''diff'', ''--no-ext-diff'', ''--no-textconv'', ''--name-only'', ''-z'', base @ ''..'' @ head] wp) (\<lambda>out.
    Inr (nonempty (split_on nul out)))"

definition commitChangedPaths :: "'r ext \<Rightarrow> broker \<Rightarrow> 'r world \<Rightarrow> string \<Rightarrow> string \<Rightarrow> string list result" where
  "commitChangedPaths x b w wp sha =
    bindE (gitOutput x b (w_repo w)
      [''diff-tree'', ''--no-ext-diff'', ''--root'', ''--no-commit-id'', ''--name-only'', ''-r'', ''-z'', sha] wp) (\<lambda>out.
    Inr (nonempty (split_on nul out)))"

definition isAncestor :: "'r ext \<Rightarrow> broker \<Rightarrow> 'r world \<Rightarrow> string \<Rightarrow> string \<Rightarrow> string \<Rightarrow> bool result" where
  "isAncestor x b w ancestor descendant wp =
    bindE (assertSha ancestor ''ancestor'') (\<lambda>_.
    bindE (assertSha descendant ''descendant'') (\<lambda>_.
    bindE (gitStatus x b (w_repo w) [''merge-base'', ''--is-ancestor'', ancestor, descendant] wp) (\<lambda>res.
    Inr (p_status res = Some 0))))"

definition assertPublishPath :: "'r ext \<Rightarrow> 'r world \<Rightarrow> string \<Rightarrow> string \<Rightarrow> string \<Rightarrow> string \<Rightarrow> unit result" where
  "assertPublishPath x w wp name previousRef candidateRef =
    bindE (assertGovernedGitPath
      (gitProbe (\<lambda>argv cwd env. x_git x (w_repo w) argv cwd env)
        (case x_environ x ''PATH'' of None \<Rightarrow> [] | Some p \<Rightarrow> p) wp)
      name previousRef candidateRef True ''S6 publish'') (\<lambda>_. Inr ())"

section \<open>State files\<close>

record publish_state =
  ps_state :: string
  ps_targetSha :: string
  ps_publishedSha :: string
  ps_priorSha :: "string option"
  ps_remoteRef :: string
  ps_baseCommit :: string

definition prior_of_json :: "json \<Rightarrow> string option" where
  "prior_of_json v =
    (case get v ''priorSha'' of None \<Rightarrow> None | Some JNull \<Rightarrow> None | Some (JStr s) \<Rightarrow> Some s | Some _ \<Rightarrow> Some [])"

definition publish_of_json :: "json \<Rightarrow> publish_state" where
  "publish_of_json v =
    \<lparr>ps_state = field v ''state'', ps_targetSha = field v ''targetSha'', ps_publishedSha = field v ''publishedSha'',
     ps_priorSha = prior_of_json v, ps_remoteRef = field v ''remoteRef'', ps_baseCommit = field v ''baseCommit''\<rparr>"

definition readPublishState :: "broker \<Rightarrow> 'r world \<Rightarrow> publish_state option result" where
  "readPublishState b w =
    (case readJson w (publishStatePath b) of
       None \<Rightarrow> Inr None
     | Some parsed \<Rightarrow>
         let sid = b_sessionId b; p = publish_of_json parsed in
         bindE (s6BranchForSession sid) (\<lambda>branch.
         bindE (s6RemoteRefForSession sid) (\<lambda>ref.
         bindE (ensure (get parsed ''version'' = Some (JNum 1) \<and> has_str parsed ''kind'' ''s6-publish''
             \<and> has_str parsed ''sessionId'' sid \<and> has_str parsed ''repository'' S6_REPOSITORY_ALIAS
             \<and> has_str parsed ''branch'' branch \<and> has_str parsed ''remoteRef'' ref)
           ''S6 publish state is invalid'') (\<lambda>_.
         bindE (ensure (ps_state p \<in> set [''publishing'', ''published'']
             \<and> SHA_test (if ps_targetSha p \<noteq> [] then ps_targetSha p else ps_publishedSha p))
           ''S6 publish state is invalid'') (\<lambda>_.
         bindE (ensure (\<not> (ps_state p = ''published'' \<and> ps_targetSha p \<noteq> ps_publishedSha p))
           ''S6 publish state target mismatch'') (\<lambda>_.
         bindE (ensure (case ps_priorSha p of None \<Rightarrow> True | Some s \<Rightarrow> SHA_test s) ''S6 publish prior SHA is invalid'') (\<lambda>_.
         Inr (Some p))))))))"

definition opt_json :: "string option \<Rightarrow> json" where
  "opt_json v = (case v of None \<Rightarrow> JNull | Some s \<Rightarrow> JStr s)"

definition publish_json :: "string \<Rightarrow> string \<Rightarrow> string \<Rightarrow> string \<Rightarrow> string \<Rightarrow> string option \<Rightarrow> string \<Rightarrow> string \<Rightarrow> json" where
  "publish_json sid branch ref sha base prior state now = JObj
    [(''version'', JNum 1), (''kind'', JStr ''s6-publish''), (''state'', JStr state),
     (''repository'', JStr S6_REPOSITORY_ALIAS), (''sessionId'', JStr sid), (''branch'', JStr branch),
     (''remoteRef'', JStr ref), (''baseCommit'', JStr base), (''targetSha'', JStr sha),
     (''publishedSha'', if state = ''published'' then JStr sha else JNull),
     (''priorSha'', opt_json prior), (''updatedAt'', JStr now)]"

definition writePublishedState ::
  "'r ext \<Rightarrow> broker \<Rightarrow> string \<Rightarrow> string \<Rightarrow> string \<Rightarrow> string option \<Rightarrow> ('r, unit) bact" where
  "writePublishedState x b sha base state prior =
    andThen (look (\<lambda>_. assertSha sha ''published SHA'')) (\<lambda>_.
    andThen (look (\<lambda>_. assertSha base ''published base'')) (\<lambda>_.
    andThen (look (\<lambda>_. s6BranchForSession (b_sessionId b))) (\<lambda>branch.
    andThen (look (\<lambda>_. s6RemoteRefForSession (b_sessionId b))) (\<lambda>ref.
    atomicWrite (publishStatePath b)
      (\<lambda>w. publish_json (b_sessionId b) branch ref sha base prior state (x_now x (w_repo w)))))))"

end
