(* ===== verification/BrokerPublish.thy ===== *)
theory BrokerPublish
  imports BrokerInspect
begin

text \<open>
  Attestation and publication (\<^verbatim>\<open>class S6GitHubBroker\<close> of
  \<^verbatim>\<open>scripts/s6-github-broker.mjs\<close>): the attested set and what restores it,
  \<^verbatim>\<open>publishBranch\<close>, \<^verbatim>\<open>recoverPublish\<close>, the attachment recovery and the
  materialisation of the clone, as actions whose writes are possible crash points.
\<close>

section \<open>The attested set\<close>

record recovery_state =
  rs_commit :: string
  rs_parent :: string
  rs_tree :: string
  rs_subject :: string

definition recovery_json :: "broker \<Rightarrow> workspace_record \<Rightarrow> recovery_state \<Rightarrow> string \<Rightarrow> json" where
  "recovery_json b rec st now = JObj
    [(''version'', JNum 1), (''kind'', JStr ''s6-attachment-recovery''), (''repository'', JStr S6_REPOSITORY_ALIAS),
     (''sessionId'', JStr (b_sessionId b)), (''branch'', JStr (wr_branch rec)),
     (''baseCommit'', JStr (wr_expectedBaseCommit rec)), (''commit'', JStr (rs_commit st)),
     (''parent'', JStr (rs_parent st)), (''tree'', JStr (rs_tree st)), (''subject'', JStr (rs_subject st)),
     (''updatedAt'', JStr now)]"

definition writeAttachmentRecoveryState ::
  "'r ext \<Rightarrow> broker \<Rightarrow> workspace_record \<Rightarrow> recovery_state \<Rightarrow> ('r, unit) bact" where
  "writeAttachmentRecoveryState x b rec st =
    atomicWrite (attachmentRecoveryStatePath b) (\<lambda>w. recovery_json b rec st (x_now x (w_repo w)))"

definition parent_row :: "'r ext \<Rightarrow> broker \<Rightarrow> 'r world \<Rightarrow> string \<Rightarrow> string \<Rightarrow> string list result" where
  "parent_row x b w wp sha =
    bindE (gitOutput x b (w_repo w) [''rev-list'', ''--parents'', ''-n'', ''1'', sha] wp) (\<lambda>out.
    Inr (split_ws (trim out)))"

definition trimmed :: "'r ext \<Rightarrow> broker \<Rightarrow> 'r world \<Rightarrow> string list \<Rightarrow> string \<Rightarrow> string result" where
  "trimmed x b w args wp = bindE (gitOutput x b (w_repo w) args wp) (\<lambda>out. Inr (trim out))"

definition recovery_valid :: "broker \<Rightarrow> workspace_record \<Rightarrow> string \<Rightarrow> json \<Rightarrow> bool" where
  "recovery_valid b rec base st =
    (get st ''version'' = Some (JNum 1) \<and> has_str st ''kind'' ''s6-attachment-recovery''
     \<and> has_str st ''repository'' S6_REPOSITORY_ALIAS \<and> has_str st ''sessionId'' (b_sessionId b)
     \<and> has_str st ''branch'' (wr_branch rec) \<and> has_str st ''baseCommit'' base
     \<and> SHA_test (field st ''commit'') \<and> has_str st ''parent'' base \<and> SHA_test (field st ''tree'')
     \<and> field st ''subject'' \<noteq> [])"

definition restoreAttachmentRecoveryAttestation ::
  "'r ext \<Rightarrow> broker \<Rightarrow> workspace_record \<Rightarrow> string \<Rightarrow> string \<Rightarrow> ('r, unit) bact" where
  "restoreAttachmentRecoveryAttestation x b rec base head =
    andThen (look (\<lambda>w. Inr (readJson w (attachmentRecoveryStatePath b)))) (\<lambda>state.
    case state of None \<Rightarrow> ret ()
    | Some st \<Rightarrow>
        let wp = wr_workspacePath rec; commit = field st ''commit'' in
        andThen (guard (recovery_valid b rec base st) ''S6 attachment recovery attestation state is invalid'') (\<lambda>_.
        andThen (look (\<lambda>w. isAncestor x b w commit head wp)) (\<lambda>anc.
        andThen (guard anc ''S6 attachment recovery attestation is not in the current branch history'') (\<lambda>_.
        andThen (look (\<lambda>w. parent_row x b w wp commit)) (\<lambda>graph.
        andThen (guard (graph = [commit, field st ''parent'']) ''S6 attachment recovery attestation parent changed'') (\<lambda>_.
        andThen (look (\<lambda>w. trimmed x b w [''rev-parse'', commit @ ''^{tree}''] wp)) (\<lambda>tree.
        andThen (guard (tree = field st ''tree'') ''S6 attachment recovery attestation tree changed'') (\<lambda>_.
        andThen (look (\<lambda>w. trimmed x b w [''show'', ''-s'', ''--format=%s'', commit] wp)) (\<lambda>subject.
        andThen (guard (subject = field st ''subject'') ''S6 attachment recovery attestation subject changed'') (\<lambda>_.
        addAttested commit))))))))))"

definition trusted_target :: "publish_state \<Rightarrow> string" where
  "trusted_target p = (if ps_state p = ''published'' then ps_publishedSha p else ps_targetSha p)"

text \<open>\<open>both_ancestors\<close> is the short-circuit of the two \<^verbatim>\<open>isAncestor\<close> calls.\<close>

definition both_ancestors :: "'r ext \<Rightarrow> broker \<Rightarrow> 'r world \<Rightarrow> string \<Rightarrow> string \<Rightarrow> string \<Rightarrow> string \<Rightarrow> bool result" where
  "both_ancestors x b w base mid head wp =
    bindE (isAncestor x b w base mid wp) (\<lambda>below.
    if \<not> below then Inr False else isAncestor x b w mid head wp)"

definition restoreTarget :: "'r ext \<Rightarrow> broker \<Rightarrow> string \<Rightarrow> string \<Rightarrow> string \<Rightarrow> string \<Rightarrow> ('r, unit) bact" where
  "restoreTarget x b wp base head target =
    (if \<not> SHA_test target then ret ()
     else
       andThen (look (\<lambda>w. both_ancestors x b w base target head wp)) (\<lambda>ok.
       if \<not> ok then ret ()
       else andThen (look (\<lambda>w. graphCommits x b w wp base target)) (forA addAttested)))"

definition restorePublishedAttestations ::
  "'r ext \<Rightarrow> broker \<Rightarrow> workspace_record \<Rightarrow> string \<Rightarrow> string \<Rightarrow> ('r, unit) bact" where
  "restorePublishedAttestations x b rec base head =
    andThen (look (readPublishState b)) (\<lambda>state.
    case state of None \<Rightarrow> ret ()
    | Some p \<Rightarrow> restoreTarget x b (wr_workspacePath rec) base head (trusted_target p))"

section \<open>Validation before publishing\<close>

record validation =
  v_record :: workspace_record
  v_base :: string
  v_head :: string
  v_commits :: "string list"
  v_changed :: "string list"

definition validateLocalPublishState :: "'r ext \<Rightarrow> broker \<Rightarrow> bool \<Rightarrow> ('r, validation) bact" where
  "validateLocalPublishState x b requireAttestations =
    andThen (look (validateRegisteredWorkspaceRecord x b)) (\<lambda>rec.
    let wp = wr_workspacePath rec; base = wr_expectedBaseCommit rec in
    andThen (look (\<lambda>w. validateManagerGovernance x b w rec)) (\<lambda>_.
    andThen (look (\<lambda>w. validateWorkspaceIdentity x b w wp (wr_branch rec) True True)) (\<lambda>_.
    andThen (look (\<lambda>w. trimmed x b w [''rev-parse'', ''HEAD''] wp)) (\<lambda>head.
    andThen (look (\<lambda>_. assertSha head ''S6 local HEAD'')) (\<lambda>_.
    andThen (look (\<lambda>w. isAncestor x b w base head wp)) (\<lambda>anc.
    andThen (guard anc ''S6 local HEAD is not a descendant of the recorded base'') (\<lambda>_.
    andThen (restorePublishedAttestations x b rec base head) (\<lambda>_.
    andThen (restoreAttachmentRecoveryAttestation x b rec base head) (\<lambda>_.
    andThen (look (\<lambda>w. graphCommits x b w wp base head)) (\<lambda>commits.
    andThen (look (\<lambda>w. ensure (\<not> requireAttestations \<or> list_all (\<lambda>sha. sha \<in> w_attested w) commits)
      ''S6 publish requires every unpublished commit to have a structured-commit attestation'')) (\<lambda>_.
    andThen (look (\<lambda>w. validateTree x b w wp True)) (\<lambda>_.
    andThen (look (\<lambda>w. changedPaths x b w wp base head)) (\<lambda>changed.
    andThen (look (\<lambda>w. forE (\<lambda>name. assertPublishPath x w wp name ''HEAD'' ''HEAD'') changed)) (\<lambda>_.
    andThen (look (\<lambda>w. forE (\<lambda>sha.
        bindE (commitChangedPaths x b w wp sha)
          (forE (\<lambda>name. assertPublishPath x w wp name (sha @ ''^'') sha))) commits)) (\<lambda>_.
    ret \<lparr>v_record = rec, v_base = base, v_head = head, v_commits = commits, v_changed = changed\<rparr>)))))))))))))))"

definition attestCommit :: "'r ext \<Rightarrow> broker \<Rightarrow> string \<Rightarrow> ('r, string) bact" where
  "attestCommit x b sha =
    andThen (look (\<lambda>_. assertSha sha ''commit attestation'')) (\<lambda>_.
    andThen (validateLocalPublishState x b False) (\<lambda>validation.
    andThen (guard (v_head validation = sha) ''only the current S6 branch HEAD may be attested'') (\<lambda>_.
    andThen (addAttested sha) (\<lambda>_. ret sha))))"

definition preflightCommit :: "'r ext \<Rightarrow> broker \<Rightarrow> 'r world \<Rightarrow> string result" where
  "preflightCommit x b w =
    bindE (validateRegisteredWorkspaceRecord x b w) (\<lambda>rec.
    bindE (validateManagerGovernance x b w rec) (\<lambda>_.
    bindE (validateWorkspaceIdentity x b w (wr_workspacePath rec) (wr_branch rec) True False) (\<lambda>_.
    Inr (wr_branch rec))))"

section \<open>The remote\<close>

text \<open>\<^verbatim>\<open>/^([0-9a-f]{40})\s+(.+)$/\<close>.\<close>

definition parse_ls_remote :: "string \<Rightarrow> (string \<times> string) option" where
  "parse_ls_remote line =
    (let a = take 40 line; r = drop 40 line; t = dropWhile is_space r in
     if hex_exact 40 a \<and> r \<noteq> [] \<and> is_space (hd r) \<and> t \<noteq> [] then Some (a, t) else None)"

definition remote_ref_of :: "string \<Rightarrow> string \<Rightarrow> string option result" where
  "remote_ref_of stdout ref =
    (case lines_of (trim stdout) of
       [] \<Rightarrow> Inr None
     | [line] \<Rightarrow>
         (case parse_ls_remote line of
            None \<Rightarrow> throw ''S6 remote returned an unexpected branch identity''
          | Some (sha, name) \<Rightarrow>
              if name \<noteq> ref then throw ''S6 remote returned an unexpected branch identity'' else Inr (Some sha))
     | _ \<Rightarrow> throw ''S6 remote returned an ambiguous branch result'')"

definition readRemoteRef :: "'r ext \<Rightarrow> broker \<Rightarrow> string \<Rightarrow> string \<Rightarrow> string \<Rightarrow> ('r, string option) bact" where
  "readRemoteRef x b wp ref credentialHelper =
    andThen (look (\<lambda>_. assertRemoteRef ref (b_sessionId b))) (\<lambda>_.
    andThen (gitResult x b [''ls-remote'', ''--heads'', S6_REMOTE_NAME, ref] wp credentialHelper) (\<lambda>res.
    look (\<lambda>_. remote_ref_of (p_stdout res) ref)))"

definition pushRemote ::
  "'r ext \<Rightarrow> broker \<Rightarrow> string \<Rightarrow> string \<Rightarrow> string \<Rightarrow> ('r, string option \<times> string) bact" where
  "pushRemote x b wp ref credentialHelper =
    andThen (look (\<lambda>_. assertRemoteRef ref (b_sessionId b))) (\<lambda>_.
    andThen (gitResult x b [''push'', ''--porcelain'', S6_REMOTE_NAME, ''HEAD:'' @ ref] wp credentialHelper) (\<lambda>res.
    andThen (look (\<lambda>_. parsePushReceipt (p_stdout res @ [nl] @ p_stderr res) ref)) (\<lambda>receipt.
    case rc_newSha receipt of
      Some new \<Rightarrow> ret (rc_oldSha receipt, new)
    | None \<Rightarrow>
        andThen (look (\<lambda>w. trimmed x b w [''rev-parse'', ''HEAD''] wp)) (\<lambda>new. ret (rc_oldSha receipt, new)))))"

record evidence =
  ev_repository :: string
  ev_sessionId :: string
  ev_branch :: string
  ev_remoteRef :: string
  ev_baseCommit :: string
  ev_commit :: string
  ev_remoteSha :: string
  ev_status :: string

definition publishEvidence :: "string \<Rightarrow> string \<Rightarrow> string \<Rightarrow> string \<Rightarrow> string \<Rightarrow> evidence result" where
  "publishEvidence sessionId head base ref status =
    bindE (s6BranchForSession sessionId) (\<lambda>branch. Inr
      \<lparr>ev_repository = S6_REPOSITORY_ALIAS, ev_sessionId = sessionId, ev_branch = branch, ev_remoteRef = ref,
       ev_baseCommit = base, ev_commit = head, ev_remoteSha = head, ev_status = status\<rparr>)"

section \<open>Publication\<close>

definition opt_str :: "string \<Rightarrow> string option" where
  "opt_str s = (if s = [] then None else Some s)"

text \<open>The head the remote must have before this publication.\<close>

definition prior_of :: "publish_state option \<Rightarrow> string option" where
  "prior_of state =
    (case state of None \<Rightarrow> None
     | Some p \<Rightarrow> if ps_state p = ''publishing'' then ps_priorSha p else opt_str (ps_publishedSha p))"

definition is_publishing :: "publish_state option \<Rightarrow> bool" where
  "is_publishing state = (case state of None \<Rightarrow> False | Some p \<Rightarrow> ps_state p = ''publishing'')"

definition target_of :: "publish_state option \<Rightarrow> string" where
  "target_of state = (case state of None \<Rightarrow> [] | Some p \<Rightarrow> ps_targetSha p)"

definition pushAndConfirm ::
  "'r ext \<Rightarrow> broker \<Rightarrow> validation \<Rightarrow> string \<Rightarrow> string option \<Rightarrow> string \<Rightarrow> ('r, evidence) bact" where
  "pushAndConfirm x b v ref prior helper =
    (let wp = wr_workspacePath (v_record v); head = v_head v; base = v_base v in
     andThen (writePublishedState x b head base ''publishing'' prior) (\<lambda>_.
     andThen (pushRemote x b wp ref helper) (\<lambda>pushed.
     andThen (guard (fst pushed = prior \<and> snd pushed = head) ''S6 push receipt did not match the recorded remote state'') (\<lambda>_.
     andThen (readRemoteRef x b wp ref helper) (\<lambda>remoteAfter.
     andThen (guard (remoteAfter = Some head) ''S6 remote read-back did not match local HEAD'') (\<lambda>_.
     andThen (writePublishedState x b head base ''published'' prior) (\<lambda>_.
     look (\<lambda>_. publishEvidence (b_sessionId b) head base ref ''published''))))))))"

definition publishFromRemote ::
  "'r ext \<Rightarrow> broker \<Rightarrow> validation \<Rightarrow> string \<Rightarrow> publish_state option \<Rightarrow> string option \<Rightarrow> string \<Rightarrow> ('r, evidence) bact" where
  "publishFromRemote x b v ref publishState remoteBefore helper =
    (let head = v_head v; base = v_base v; prior = prior_of publishState; wp = wr_workspacePath (v_record v) in
     andThen (guard (\<not> is_publishing publishState
         \<or> remoteBefore = prior \<or> remoteBefore = Some (target_of publishState))
       ''unexpected remote movement during S6 publish recovery'') (\<lambda>_.
     if is_publishing publishState \<and> remoteBefore = Some (target_of publishState) then
       andThen (guard (target_of publishState = head) ''pending S6 publish target differs from local HEAD'') (\<lambda>_.
       andThen (writePublishedState x b head base ''published'' None) (\<lambda>_.
       look (\<lambda>_. publishEvidence (b_sessionId b) head base ref ''recovered'')))
     else
       andThen (guard (prior = None \<or> remoteBefore = prior) ''unexpected remote movement on the S6 branch'') (\<lambda>_.
       andThen (guard (prior \<noteq> None \<or> remoteBefore = None) ''S6 branch already exists and is not owned by this session'') (\<lambda>_.
       andThen (look (\<lambda>w. case prior of None \<Rightarrow> Inr True | Some p \<Rightarrow> isAncestor x b w p head wp)) (\<lambda>forward.
       andThen (guard forward ''S6 publish is not a fast-forward'') (\<lambda>_.
       if prior = Some head then look (\<lambda>_. publishEvidence (b_sessionId b) head base ref ''already-published'')
       else pushAndConfirm x b v ref prior helper))))))"

definition publishBranch :: "'r ext \<Rightarrow> broker \<Rightarrow> ('r, evidence) bact" where
  "publishBranch x b =
    andThen (validateLocalPublishState x b True) (\<lambda>v.
    andThen (guard (v_commits v \<noteq> []) ''S6 publish requires at least one reviewed local commit beyond the expected base'') (\<lambda>_.
    andThen (look (\<lambda>_. s6RemoteRefForSession (b_sessionId b))) (\<lambda>ref.
    andThen (look (readPublishState b)) (\<lambda>publishState.
    withCredential x (\<lambda>helper.
      andThen (readRemoteRef x b (wr_workspacePath (v_record v)) ref helper) (\<lambda>remoteBefore.
      publishFromRemote x b v ref publishState remoteBefore helper))))))"

text \<open>The result of \<^verbatim>\<open>recoverPublish\<close>: whether it recovered, and the state.\<close>

definition resumePublish :: "'r ext \<Rightarrow> broker \<Rightarrow> publish_state \<Rightarrow> ('r, bool \<times> string) bact" where
  "resumePublish x b p =
    andThen (validateLocalPublishState x b True) (\<lambda>v.
    withCredential x (\<lambda>helper.
      andThen (readRemoteRef x b (wr_workspacePath (v_record v)) (ps_remoteRef p) helper) (\<lambda>remote.
      if remote = Some (ps_targetSha p) \<and> ps_targetSha p = v_head v then
        andThen (writePublishedState x b (ps_targetSha p) (v_base v) ''published'' (ps_priorSha p)) (\<lambda>_.
        ret (True, ''published''))
      else
        andThen (guard (remote = ps_priorSha p) ''cannot recover S6 publish after unexpected remote movement'') (\<lambda>_.
        andThen (rmSync (publishStatePath b)) (\<lambda>_.
        ret (True, ''ready''))))))"

definition recoverPublish :: "'r ext \<Rightarrow> broker \<Rightarrow> ('r, bool \<times> string) bact" where
  "recoverPublish x b =
    andThen (look (readPublishState b)) (\<lambda>state.
    case state of
      None \<Rightarrow> ret (False, ''none'')
    | Some p \<Rightarrow> if ps_state p \<noteq> ''publishing'' then ret (False, ps_state p) else resumePublish x b p)"

section \<open>Attachment recovery\<close>

record expectations =
  ex_commit :: string
  ex_parent :: string
  ex_tree :: string
  ex_subject :: string

definition check_head :: "'r ext \<Rightarrow> broker \<Rightarrow> 'r world \<Rightarrow> string \<Rightarrow> string list \<Rightarrow> string \<Rightarrow> string \<Rightarrow> unit result" where
  "check_head x b w wp args expected m =
    bindE (trimmed x b w args wp) (\<lambda>value. ensure (value = expected) m)"

definition recoverGeneratedBranchAttachment ::
  "'r ext \<Rightarrow> broker \<Rightarrow> expectations \<Rightarrow> ('r, string option) bact" where
  "recoverGeneratedBranchAttachment x b ex =
    andThen (look (\<lambda>_. assertSha (ex_commit ex) ''expected recovery commit'')) (\<lambda>_.
    andThen (look (\<lambda>_. assertSha (ex_parent ex) ''expected recovery parent'')) (\<lambda>_.
    andThen (look (\<lambda>_. assertSha (ex_tree ex) ''expected recovery tree'')) (\<lambda>_.
    andThen (guard (ex_subject ex \<noteq> [] \<and> nul \<notin> set (ex_subject ex)) ''expected recovery subject is invalid'') (\<lambda>_.
    andThen (look (validateRegisteredWorkspaceRecord x b)) (\<lambda>rec.
    let wp = wr_workspacePath rec; ref = ''refs/heads/'' @ wr_branch rec in
    andThen (look (\<lambda>w. validateManagerGovernance x b w rec)) (\<lambda>_.
    andThen (look (\<lambda>w. validateWorkspaceIdentity x b w wp (wr_branch rec) False True)) (\<lambda>_.
    andThen (guard (wr_expectedBaseCommit rec = ex_parent ex \<and> wr_sourceCommit rec = ex_parent ex)
      ''S6 registered workspace base did not match the expected commit parent'') (\<lambda>_.
    andThen (look (\<lambda>w. check_head x b w wp [''rev-parse'', ''HEAD''] (ex_commit ex)
      ''S6 recovery HEAD did not match the exact expected commit'')) (\<lambda>_.
    andThen (look (\<lambda>w. parent_row x b w wp (ex_commit ex))) (\<lambda>graph.
    andThen (guard (graph = [ex_commit ex, ex_parent ex])
      ''S6 recovery commit parent did not match the exact expected parent'') (\<lambda>_.
    andThen (look (\<lambda>w. check_head x b w wp [''rev-parse'', ex_commit ex @ ''^{tree}''] (ex_tree ex)
      ''S6 recovery commit tree did not match the exact expected tree'')) (\<lambda>_.
    andThen (look (\<lambda>w. check_head x b w wp [''show'', ''-s'', ''--format=%s'', ex_commit ex] (ex_subject ex)
      ''S6 recovery commit subject did not match the exact expected subject'')) (\<lambda>_.
    andThen (look (\<lambda>w. gitStatus x b (w_repo w) [''rev-parse'', ''--verify'', ''--quiet'', ref] wp)) (\<lambda>refResult.
    andThen (guard (p_status refResult = Some 0 \<or> p_status refResult = Some 1)
      ''S6 generated branch ref could not be inspected'') (\<lambda>_.
    let oldSha = (if p_status refResult = Some 0 then Some (trim (p_stdout refResult)) else None) in
    andThen (guard (oldSha = None \<or> oldSha = Some (ex_parent ex))
      ''S6 generated branch old ref did not match the exact expected parent'') (\<lambda>_.
    andThen (handle (gitResult x b [''update-ref'', ref, ex_commit ex, case oldSha of None \<Rightarrow> ZERO_SHA | Some o' \<Rightarrow> o'] wp [])
      (\<lambda>e. fail (''S6 generated branch compare-and-swap failed: '' @ message e))) (\<lambda>_.
    andThen (look (\<lambda>w. check_head x b w wp [''rev-parse'', ''--verify'', ref] (ex_commit ex)
      ''S6 generated branch compare-and-swap read-back failed'')) (\<lambda>_.
    andThen (look (\<lambda>w. check_head x b w wp [''rev-parse'', ''HEAD''] (ex_commit ex)
      ''S6 recovery HEAD moved during compare-and-swap'')) (\<lambda>_.
    andThen (gitResult x b [''symbolic-ref'', ''HEAD'', ref] wp []) (\<lambda>_.
    andThen (look (\<lambda>w. check_head x b w wp [''branch'', ''--show-current''] (wr_branch rec)
      ''S6 recovery did not attach HEAD to the generated branch'')) (\<lambda>_.
    andThen (look (\<lambda>w. check_head x b w wp [''rev-parse'', ''HEAD''] (ex_commit ex)
      ''S6 recovery changed the expected commit'')) (\<lambda>_.
    andThen (look (\<lambda>w. check_head x b w wp [''rev-parse'', ''HEAD^''] (ex_parent ex)
      ''S6 recovery changed the expected parent'')) (\<lambda>_.
    andThen (look (\<lambda>w. check_head x b w wp [''rev-parse'', ''HEAD^{tree}''] (ex_tree ex)
      ''S6 recovery changed the expected tree'')) (\<lambda>_.
    andThen (look (\<lambda>w. check_head x b w wp clean_status_args []
      ''S6 recovery did not preserve a clean worktree, index, and ignored set'')) (\<lambda>_.
    andThen (writeAttachmentRecoveryState x b rec
      \<lparr>rs_commit = ex_commit ex, rs_parent = ex_parent ex, rs_tree = ex_tree ex, rs_subject = ex_subject ex\<rparr>) (\<lambda>_.
    ret oldSha))))))))))))))))))))))))))"

definition recordAttachedRecoveryAttestation ::
  "'r ext \<Rightarrow> broker \<Rightarrow> expectations \<Rightarrow> ('r, string) bact" where
  "recordAttachedRecoveryAttestation x b ex =
    andThen (look (\<lambda>_. assertSha (ex_commit ex) ''expected recovery commit'')) (\<lambda>_.
    andThen (look (\<lambda>_. assertSha (ex_parent ex) ''expected recovery parent'')) (\<lambda>_.
    andThen (look (\<lambda>_. assertSha (ex_tree ex) ''expected recovery tree'')) (\<lambda>_.
    andThen (look (validateRegisteredWorkspaceRecord x b)) (\<lambda>rec.
    let wp = wr_workspacePath rec in
    andThen (look (\<lambda>w. validateManagerGovernance x b w rec)) (\<lambda>_.
    andThen (look (\<lambda>w. validateWorkspaceIdentity x b w wp (wr_branch rec) True True)) (\<lambda>_.
    andThen (guard (wr_expectedBaseCommit rec = ex_parent ex \<and> wr_sourceCommit rec = ex_parent ex)
      ''S6 registered workspace base did not match the expected commit parent'') (\<lambda>_.
    andThen (look (\<lambda>w. check_head x b w wp [''rev-parse'', ''HEAD''] (ex_commit ex)
      ''S6 attached recovery HEAD did not match the exact expected commit'')) (\<lambda>_.
    andThen (look (\<lambda>w. parent_row x b w wp (ex_commit ex))) (\<lambda>graph.
    andThen (guard (graph = [ex_commit ex, ex_parent ex])
      ''S6 attached recovery parent did not match the exact expected parent'') (\<lambda>_.
    andThen (look (\<lambda>w. check_head x b w wp [''rev-parse'', ex_commit ex @ ''^{tree}''] (ex_tree ex)
      ''S6 attached recovery tree did not match the exact expected tree'')) (\<lambda>_.
    andThen (look (\<lambda>w. check_head x b w wp [''show'', ''-s'', ''--format=%s'', ex_commit ex] (ex_subject ex)
      ''S6 attached recovery subject did not match the exact expected subject'')) (\<lambda>_.
    andThen (writeAttachmentRecoveryState x b rec
      \<lparr>rs_commit = ex_commit ex, rs_parent = ex_parent ex, rs_tree = ex_tree ex, rs_subject = ex_subject ex\<rparr>) (\<lambda>_.
    ret (ex_commit ex))))))))))))))"

section \<open>Materialisation\<close>

definition validateClone :: "'r ext \<Rightarrow> broker \<Rightarrow> 'r world \<Rightarrow> string \<Rightarrow> unit result" where
  "validateClone x b w wp =
    (let r = w_repo w; out = (\<lambda>args. trimmed x b w args wp) in
    bindE (x_realpath x r wp) (\<lambda>real. bindE (x_realpath x r (path_resolve (x_cwd x) wp)) (\<lambda>own.
    bindE (ensure (real = own) ''S6 clone path escaped manager root'') (\<lambda>_.
    bindE (out [''rev-parse'', ''--is-shallow-repository'']) (\<lambda>shallow.
    bindE (ensure (shallow = ''false'') ''S6 GitHub clone is shallow'') (\<lambda>_.
    bindE (out [''remote'']) (\<lambda>remote.
    bindE (ensure (remote = S6_REMOTE_NAME) ''S6 GitHub clone has an unexpected remote'') (\<lambda>_.
    bindE (out [''config'', ''--local'', ''--get-all'', ''remote.origin.url'']) (\<lambda>urls.
    bindE (ensure (lines_of urls = [S6_REPOSITORY_URL]) ''S6 GitHub clone origin identity mismatch'') (\<lambda>_.
    bindE (gitStatus x b r [''config'', ''--local'', ''--get-all'', ''remote.origin.pushurl''] wp) (\<lambda>pushurl.
    ensure (p_status pushurl \<noteq> Some 0) ''S6 GitHub clone contains a pushurl'')))))))))))"

definition ensureParentPath :: "'r ext \<Rightarrow> string \<Rightarrow> string \<Rightarrow> unit result" where
  "ensureParentPath x target parent =
    ensure (isWithin (x_cwd x) target parent \<and> path_resolve (x_cwd x) target \<noteq> path_resolve (x_cwd x) parent)
      ''S6 path escaped manager sessions''"

definition materializeWorkspace ::
  "'r ext \<Rightarrow> broker \<Rightarrow> string \<Rightarrow> string \<Rightarrow> string \<Rightarrow> string \<Rightarrow> string \<Rightarrow> ('r, string) bact" where
  "materializeWorkspace x b source remoteName wp sessionId managerRoot =
    andThen (look (\<lambda>_. assertS6Source source)) (\<lambda>_.
    andThen (guard (remoteName = S6_REMOTE_NAME) ''S6 source remote must be origin'') (\<lambda>_.
    andThen (look (\<lambda>_. workspacePath b sessionId)) (\<lambda>own.
    andThen (guard (path_resolve (x_cwd x) managerRoot = b_managerRoot b \<and> path_resolve (x_cwd x) wp = own)
      ''S6 materialization path is not manager-owned'') (\<lambda>_.
    andThen (look (\<lambda>w. readWorkspaceState b w sessionId)) (\<lambda>state.
    andThen (look (\<lambda>_. s6BranchForSession sessionId)) (\<lambda>branch.
    andThen (guard (wr_state state = ''provisioning'' \<and> wr_branch state = branch \<and> wr_source state = S6_REPOSITORY_URL)
      ''S6 workspace is not in the expected provisioning state'') (\<lambda>_.
    andThen (look (\<lambda>w. ensureNoSymlinkAncestors x (w_repo w) (b_managerRoot b))) (\<lambda>_.
    andThen (look (\<lambda>_. ensureParentPath x wp (sessionsRoot b))) (\<lambda>_.
    andThen (withCredential x (\<lambda>helper.
      gitResult x b [''clone'', ''--no-checkout'', ''--no-local'', ''--no-hardlinks'', ''--origin'', S6_REMOTE_NAME,
        S6_REPOSITORY_URL, wp] (b_managerRoot b) helper)) (\<lambda>_.
    andThen (look (\<lambda>w. validateClone x b w wp)) (\<lambda>_.
    andThen (look (\<lambda>w. trimmed x b w [''rev-parse'', ''--verify'', ''refs/remotes/origin/main''] wp)) (\<lambda>base.
    andThen (look (\<lambda>_. assertSha base ''canonical base commit'')) (\<lambda>_.
    andThen (gitResult x b [''checkout'', ''--detach'', ''--no-recurse-submodules'', base] wp []) (\<lambda>_.
    andThen (look (\<lambda>w. validateTree x b w wp False)) (\<lambda>_.
    ret base)))))))))))))))"

end
