(* ===== verification/BrokerSafety.thy ===== *)
theory BrokerSafety
  imports BrokerPublish
begin

text \<open>
  What the broker's operations guarantee: what a successful publication has checked, that the
  attested set never holds a commit nobody attested, over every sequence of operations, crashes
  and changes made by the container or the remote, and how an interrupted publication is resumed.
\<close>

section \<open>Checks do not look at the attested set\<close>

named_theorems frame_simps "functions of the repository and the state files only"

lemma frame_read [simp, frame_simps]:
  "readJson (w\<lparr>w_attested := A\<rparr>) = readJson w"
  "readWorkspaceState b (w\<lparr>w_attested := A\<rparr>) = readWorkspaceState b w"
  "readPublishState b (w\<lparr>w_attested := A\<rparr>) = readPublishState b w"
  by (auto simp: readJson_def readWorkspaceState_def readPublishState_def fun_eq_iff)

lemma frame_checks [simp, frame_simps]:
  "validateRegisteredWorkspaceRecord x b (w\<lparr>w_attested := A\<rparr>) = validateRegisteredWorkspaceRecord x b w"
  "validateManagerGovernance x b (w\<lparr>w_attested := A\<rparr>) = validateManagerGovernance x b w"
  "validateWorkspaceIdentity x b (w\<lparr>w_attested := A\<rparr>) = validateWorkspaceIdentity x b w"
  by (simp_all add: validateRegisteredWorkspaceRecord_def validateManagerGovernance_def validateWorkspaceIdentity_def fun_eq_iff)

lemma frame_git [simp, frame_simps]:
  "graphCommits x b (w\<lparr>w_attested := A\<rparr>) = graphCommits x b w"
  "changedPaths x b (w\<lparr>w_attested := A\<rparr>) = changedPaths x b w"
  "commitChangedPaths x b (w\<lparr>w_attested := A\<rparr>) = commitChangedPaths x b w"
  "isAncestor x b (w\<lparr>w_attested := A\<rparr>) = isAncestor x b w"
  "treeEntries x b (w\<lparr>w_attested := A\<rparr>) = treeEntries x b w"
  "checkTreeEntry x (w\<lparr>w_attested := A\<rparr>) = checkTreeEntry x w"
  "assertPublishPath x (w\<lparr>w_attested := A\<rparr>) = assertPublishPath x w"
  by (simp_all add: graphCommits_def changedPaths_def commitChangedPaths_def isAncestor_def treeEntries_def
      checkTreeEntry_def assertPublishPath_def fun_eq_iff Let_def cong: if_cong)

lemma frame_tree [simp, frame_simps]:
  "validateTree x b (w\<lparr>w_attested := A\<rparr>) = validateTree x b w"
  by (simp add: validateTree_def fun_eq_iff)

section \<open>Actions that only extend the attested set\<close>

definition only_attests :: "('r, 'a) bact \<Rightarrow> bool" where
  "only_attests m = (\<forall>w. \<exists>r A. m w = (r, w\<lparr>w_attested := A\<rparr>, []) \<and> w_attested w \<subseteq> A)"

lemma only_attestsE:
  assumes "only_attests m"
  obtains r A where "m w = (r, w\<lparr>w_attested := A\<rparr>, [])" "w_attested w \<subseteq> A"
  using assms unfolding only_attests_def by blast

lemma only_attests_basic [simp]: "only_attests (look f)" "only_attests (ret v)" "only_attests (fail m)"
    "only_attests (guard c m)" "only_attests (addAttested sha)"
proof -
  have self: "\<exists>A. w = w\<lparr>w_attested := A\<rparr> \<and> w_attested w \<subseteq> A" for w :: "'r world"
    by (rule exI [of _ "w_attested w"]) simp
  show "only_attests (look f)" "only_attests (ret v)" "only_attests (fail m)"
    "only_attests (guard c m)"
    using self by (auto simp: only_attests_def look_def ret_def fail_def guard_def)
  show "only_attests (addAttested sha)"
    by (auto simp: only_attests_def addAttested_def)
qed

lemma only_attests_andThen [intro]:
  assumes "only_attests m" and "\<And>y. only_attests (f y)"
  shows "only_attests (andThen m f)"
  unfolding only_attests_def
proof
  fix w
  obtain r A where m: "m w = (r, w\<lparr>w_attested := A\<rparr>, [])" "w_attested w \<subseteq> A"
    using assms(1) by (rule only_attestsE)
  show "\<exists>r A. andThen m f w = (r, w\<lparr>w_attested := A\<rparr>, []) \<and> w_attested w \<subseteq> A"
  proof (cases r)
    case (Inl e)
    with m show ?thesis by (auto simp: andThen_def)
  next
    case (Inr y)
    obtain r' B where "f y (w\<lparr>w_attested := A\<rparr>) = (r', w\<lparr>w_attested := B\<rparr>, [])" "A \<subseteq> B"
      using assms(2) [of y] by (rule only_attestsE [of "f y" "w\<lparr>w_attested := A\<rparr>"]) auto
    with m Inr show ?thesis by (auto simp: andThen_def)
  qed
qed

lemma only_attests_forA [intro]: "(\<And>y. only_attests (f y)) \<Longrightarrow> only_attests (forA f xs)"
  by (induction xs) auto

lemma only_attests_runs:
  assumes "only_attests m" and "runs m w v w'"
  shows "\<exists>A. w' = w\<lparr>w_attested := A\<rparr> \<and> w_attested w \<subseteq> A"
proof -
  obtain r A where "m w = (r, w\<lparr>w_attested := A\<rparr>, [])" "w_attested w \<subseteq> A"
    using assms(1) by (rule only_attestsE)
  with assms(2) show ?thesis by (auto simp: runs_def)
qed

lemma only_attests_restore:
  "only_attests (restorePublishedAttestations x b rec base head)"
  "only_attests (restoreAttachmentRecoveryAttestation x b rec base head)"
  unfolding restorePublishedAttestations_def restoreTarget_def restoreAttachmentRecoveryAttestation_def
  by (auto intro!: only_attests_andThen only_attests_forA simp: Let_def split: option.splits)

lemma only_attests_validate: "only_attests (validateLocalPublishState x b req)"
  unfolding validateLocalPublishState_def Let_def
  by (intro only_attests_andThen only_attests_restore) simp_all

section \<open>What a validated state is\<close>

text \<open>Every path the unpublished commits touch, as the broker lists them.\<close>

definition governed :: "'r ext \<Rightarrow> broker \<Rightarrow> 'r world \<Rightarrow> string \<Rightarrow> string list \<Rightarrow> bool" where
  "governed x b w wp commits =
    (\<forall>sha \<in> set commits. \<exists>names. commitChangedPaths x b w wp sha = Inr names
       \<and> (\<forall>name \<in> set names. assertPublishPath x w wp name (sha @ ''^'') sha = Inr ()))"

lemma runs_validate:
  assumes "runs (validateLocalPublishState x b req) w v w'"
  shows "validateRegisteredWorkspaceRecord x b w = Inr (v_record v)"
    and "v_base v = wr_expectedBaseCommit (v_record v)"
    and "SHA_test (v_head v)"
    and "isAncestor x b w (v_base v) (v_head v) (wr_workspacePath (v_record v)) = Inr True"
    and "graphCommits x b w (wr_workspacePath (v_record v)) (v_base v) (v_head v) = Inr (v_commits v)"
    and "req \<Longrightarrow> set (v_commits v) \<subseteq> w_attested w'"
    and "validateWorkspaceIdentity x b w (wr_workspacePath (v_record v)) (wr_branch (v_record v)) True True = Inr ()"
    and "validateTree x b w (wr_workspacePath (v_record v)) True = Inr ()"
    and "governed x b w (wr_workspacePath (v_record v)) (v_commits v)"
    and "\<exists>A. w' = w\<lparr>w_attested := A\<rparr> \<and> w_attested w \<subseteq> A"
proof -
  show "\<exists>A. w' = w\<lparr>w_attested := A\<rparr> \<and> w_attested w \<subseteq> A"
    by (rule only_attests_runs [OF only_attests_validate assms])
  obtain rec w1 w2 where
    1: "validateRegisteredWorkspaceRecord x b w = Inr rec" and
    2: "validateWorkspaceIdentity x b w (wr_workspacePath rec) (wr_branch rec) True True = Inr ()" and
    3: "SHA_test (v_head v)" "isAncestor x b w (wr_expectedBaseCommit rec) (v_head v) (wr_workspacePath rec) = Inr True" and
    r1: "runs (restorePublishedAttestations x b rec (wr_expectedBaseCommit rec) (v_head v)) w () w1" and
    r2: "runs (restoreAttachmentRecoveryAttestation x b rec (wr_expectedBaseCommit rec) (v_head v)) w1 () w2" and
    4: "graphCommits x b w2 (wr_workspacePath rec) (wr_expectedBaseCommit rec) (v_head v) = Inr (v_commits v)"
      "req \<Longrightarrow> set (v_commits v) \<subseteq> w_attested w2" "validateTree x b w2 (wr_workspacePath rec) True = Inr ()"
      "\<forall>sha \<in> set (v_commits v). bindE (commitChangedPaths x b w2 (wr_workspacePath rec) sha)
        (forE (\<lambda>name. assertPublishPath x w2 (wr_workspacePath rec) name (sha @ ''^'') sha)) = Inr ()" and
    5: "w' = w2" "v_record v = rec" "v_base v = wr_expectedBaseCommit rec"
    using assms unfolding validateLocalPublishState_def Let_def
    by (auto simp: run_simps list_all_iff forE_Inr subset_iff)
  obtain A1 where A1: "w1 = w\<lparr>w_attested := A1\<rparr>"
    using only_attests_runs [OF only_attests_restore(1) r1] by blast
  obtain A2 where "w2 = w1\<lparr>w_attested := A2\<rparr>"
    using only_attests_runs [OF only_attests_restore(2) r2] by blast
  with A1 have w2: "w2 = w\<lparr>w_attested := A2\<rparr>" by simp
  show "validateRegisteredWorkspaceRecord x b w = Inr (v_record v)"
    "v_base v = wr_expectedBaseCommit (v_record v)" "SHA_test (v_head v)"
    "isAncestor x b w (v_base v) (v_head v) (wr_workspacePath (v_record v)) = Inr True"
    "graphCommits x b w (wr_workspacePath (v_record v)) (v_base v) (v_head v) = Inr (v_commits v)"
    "req \<Longrightarrow> set (v_commits v) \<subseteq> w_attested w'"
    "validateWorkspaceIdentity x b w (wr_workspacePath (v_record v)) (wr_branch (v_record v)) True True = Inr ()"
    "validateTree x b w (wr_workspacePath (v_record v)) True = Inr ()"
    using 1 2 3 4 5 by (simp_all add: w2)
  show "governed x b w (wr_workspacePath (v_record v)) (v_commits v)"
    using 4(4) 5 unfolding governed_def w2 by (auto simp: bindE_Inr forE_Inr)
qed

section \<open>Successful publications\<close>

lemma runs_gitResult:
  assumes "runs (gitResult x b args cwd helper) w res w'"
  shows "\<exists>r. w' = w\<lparr>w_repo := r\<rparr>"
  using assms by (auto simp: gitResult_def run_simps split_beta split: if_splits)

lemma runs_readRemoteRef:
  assumes "runs (readRemoteRef x b wp ref helper) w v w'"
  shows "\<exists>r. w' = w\<lparr>w_repo := r\<rparr>"
  using assms by (auto simp: readRemoteRef_def run_simps dest: runs_gitResult)

lemma runs_pushRemote:
  assumes "runs (pushRemote x b wp ref helper) w v w'"
  shows "\<exists>r. w' = w\<lparr>w_repo := r\<rparr>"
  using assms by (auto simp: pushRemote_def run_simps split: option.splits dest: runs_gitResult)

lemma runs_writePublished:
  "runs (writePublishedState x b sha base state prior) w u w' \<longleftrightarrow>
     SHA_test sha \<and> SHA_test base \<and> SESSION_test (b_sessionId b)
     \<and> w' = w\<lparr>w_files := (w_files w)(publishStatePath b \<mapsto>
         publish_json (b_sessionId b) (S6_BRANCH_PREFIX @ ''/'' @ b_sessionId b) (S6_REMOTE_REF_PREFIX @ b_sessionId b)
           sha base prior state (x_now x (w_repo w)))\<rparr>"
  by (auto simp: writePublishedState_def run_simps result_simps atomicWrite_def)

lemma publish_json_fields:
  "field (publish_json sid br ref sha base prior state now) ''state'' = state"
  "field (publish_json sid br ref sha base prior state now) ''targetSha'' = sha"
  "field (publish_json sid br ref sha base prior state now) ''publishedSha'' = (if state = ''published'' then sha else [])"
  "field (publish_json sid br ref sha base prior state now) ''remoteRef'' = ref"
  "field (publish_json sid br ref sha base prior state now) ''baseCommit'' = base"
  "prior_of_json (publish_json sid br ref sha base prior state now) = prior"
  by (simp_all add: publish_json_def field_def prior_of_json_def opt_json_def split: option.splits)

text \<open>The state file is read back as it was written.\<close>

lemma publish_json_read:
  assumes "SESSION_test (b_sessionId b)" "SHA_test sha" "state = ''publishing'' \<or> state = ''published''"
    and "case prior of None \<Rightarrow> True | Some s \<Rightarrow> SHA_test s"
    and "w_files w (publishStatePath b) = Some (publish_json (b_sessionId b) (S6_BRANCH_PREFIX @ ''/'' @ b_sessionId b)
      (S6_REMOTE_REF_PREFIX @ b_sessionId b) sha base prior state now)"
  shows "readPublishState b w = Inr (Some \<lparr>ps_state = state, ps_targetSha = sha,
    ps_publishedSha = (if state = ''published'' then sha else []), ps_priorSha = prior,
    ps_remoteRef = S6_REMOTE_REF_PREFIX @ b_sessionId b, ps_baseCommit = base\<rparr>)"
proof -
  have "sha \<noteq> []" using assms(2) by (auto simp: SHA_test_def hex_exact_def)
  have br: "s6BranchForSession (b_sessionId b) = Inr (S6_BRANCH_PREFIX @ ''/'' @ b_sessionId b)"
    and rf: "s6RemoteRefForSession (b_sessionId b) = Inr (S6_REMOTE_REF_PREFIX @ b_sessionId b)"
    using assms(1) by (simp_all add: result_simps)
  define J where "J = publish_json (b_sessionId b) (S6_BRANCH_PREFIX @ ''/'' @ b_sessionId b)
      (S6_REMOTE_REF_PREFIX @ b_sessionId b) sha base prior state now"
  have J: "readJson w (publishStatePath b) = Some J"
    using assms(5) by (simp add: readJson_def J_def publish_json_def)
  have ids: "get J ''version'' = Some (JNum 1)" "has_str J ''kind'' ''s6-publish''"
    "has_str J ''sessionId'' (b_sessionId b)" "has_str J ''repository'' S6_REPOSITORY_ALIAS"
    "has_str J ''branch'' (S6_BRANCH_PREFIX @ ''/'' @ b_sessionId b)"
    "has_str J ''remoteRef'' (S6_REMOTE_REF_PREFIX @ b_sessionId b)"
    by (simp_all add: J_def publish_json_def has_str_def)
  have p: "publish_of_json J = \<lparr>ps_state = state, ps_targetSha = sha,
    ps_publishedSha = (if state = ''published'' then sha else []), ps_priorSha = prior,
    ps_remoteRef = S6_REMOTE_REF_PREFIX @ b_sessionId b, ps_baseCommit = base\<rparr>"
    by (simp add: publish_of_json_def J_def publish_json_fields)
  show ?thesis
    using assms(2-4) \<open>sha \<noteq> []\<close> ids unfolding readPublishState_def J
    by (auto simp: Let_def br rf p)
qed

lemma publishEvidence_Inr [result_simps]:
  "publishEvidence sid head base ref status = Inr ev \<longleftrightarrow> SESSION_test sid \<and>
     ev = \<lparr>ev_repository = S6_REPOSITORY_ALIAS, ev_sessionId = sid, ev_branch = S6_BRANCH_PREFIX @ ''/'' @ sid,
       ev_remoteRef = ref, ev_baseCommit = base, ev_commit = head, ev_remoteSha = head, ev_status = status\<rparr>"
  by (auto simp: publishEvidence_def result_simps)

text \<open>Whatever the branch taken, the evidence names the validated head, and the file says so.\<close>

lemma runs_pushAndConfirm:
  assumes "runs (pushAndConfirm x b v ref prior helper) w ev w'"
  shows "ev_commit ev = v_head v" "ev_baseCommit ev = v_base v" "ev_status ev = ''published''"
    "w_attested w' = w_attested w" "ev_remoteRef ev = ref"
    "\<exists>now. w_files w' (publishStatePath b) = Some (publish_json (b_sessionId b) (S6_BRANCH_PREFIX @ ''/'' @ b_sessionId b)
      (S6_REMOTE_REF_PREFIX @ b_sessionId b) (v_head v) (v_base v) prior ''published'' now)"
    "\<exists>wm. runs (readRemoteRef x b (wr_workspacePath (v_record v)) ref helper) wm (Some (v_head v)) (w'\<lparr>w_files := w_files wm\<rparr>)"
proof -
  obtain w1 pushed w2 w3 where
    1: "runs (writePublishedState x b (v_head v) (v_base v) ''publishing'' prior) w () w1" and
    2: "runs (pushRemote x b (wr_workspacePath (v_record v)) ref helper) w1 pushed w2" and
    3: "runs (readRemoteRef x b (wr_workspacePath (v_record v)) ref helper) w2 (Some (v_head v)) w3" and
    4: "runs (writePublishedState x b (v_head v) (v_base v) ''published'' prior) w3 () w'" and
    5: "publishEvidence (b_sessionId b) (v_head v) (v_base v) ref ''published'' = Inr ev"
    using assms unfolding pushAndConfirm_def Let_def by (auto simp: run_simps)
  obtain r2 r3 where r: "w2 = w1\<lparr>w_repo := r2\<rparr>" "w3 = w2\<lparr>w_repo := r3\<rparr>"
    using runs_pushRemote [OF 2] runs_readRemoteRef [OF 3] by blast
  show "ev_commit ev = v_head v" "ev_baseCommit ev = v_base v" "ev_status ev = ''published''"
    "ev_remoteRef ev = ref"
    using 5 by (simp_all add: result_simps)
  show "w_attested w' = w_attested w"
    using 1 4 r by (simp add: runs_writePublished)
  show "\<exists>now. w_files w' (publishStatePath b) = Some (publish_json (b_sessionId b) (S6_BRANCH_PREFIX @ ''/'' @ b_sessionId b)
      (S6_REMOTE_REF_PREFIX @ b_sessionId b) (v_head v) (v_base v) prior ''published'' now)"
    using 4 by (auto simp: runs_writePublished)
  have "w'\<lparr>w_files := w_files w2\<rparr> = w3"
    using 4 r by (simp add: runs_writePublished)
  with 3 show "\<exists>wm. runs (readRemoteRef x b (wr_workspacePath (v_record v)) ref helper) wm (Some (v_head v))
      (w'\<lparr>w_files := w_files wm\<rparr>)"
    by metis
qed

lemma publishFromRemote_cases:
  assumes "runs (publishFromRemote x b v ref st before helper) w ev w'"
  obtains
    (recovered) "is_publishing st" "before = Some (target_of st)" "target_of st = v_head v"
      "runs (writePublishedState x b (v_head v) (v_base v) ''published'' None) w () w'"
      "publishEvidence (b_sessionId b) (v_head v) (v_base v) ref ''recovered'' = Inr ev"
  | (already) "before = prior_of st" "prior_of st = Some (v_head v)" "w' = w"
      "publishEvidence (b_sessionId b) (v_head v) (v_base v) ref ''already-published'' = Inr ev"
  | (pushed) "before = prior_of st" "prior_of st \<noteq> Some (v_head v)"
      "\<forall>p. prior_of st = Some p \<longrightarrow> isAncestor x b w p (v_head v) (wr_workspacePath (v_record v)) = Inr True"
      "runs (pushAndConfirm x b v ref (prior_of st) helper) w ev w'"
proof (cases "is_publishing st \<and> before = Some (target_of st)")
  case True
  with assms show thesis
    by (intro recovered) (auto simp: publishFromRemote_def Let_def run_simps)
next
  case False
  then have r: "before = prior_of st" "(case prior_of st of None \<Rightarrow> Inr True
      | Some p \<Rightarrow> isAncestor x b w p (v_head v) (wr_workspacePath (v_record v))) = Inr True"
    "runs (if prior_of st = Some (v_head v) then look (\<lambda>_. publishEvidence (b_sessionId b) (v_head v) (v_base v) ref ''already-published'')
      else pushAndConfirm x b v ref (prior_of st) helper) w ev w'"
    using assms by (auto simp: publishFromRemote_def Let_def runs_andThen runs_guard runs_look)
  show thesis
  proof (cases "prior_of st = Some (v_head v)")
    case True
    with r show thesis by (intro already) (auto simp: run_simps)
  next
    case False
    with r show thesis by (intro pushed) auto
  qed
qed

lemma runs_publishFromRemote:
  assumes "runs (publishFromRemote x b v ref st before helper) w ev w'"
  shows "ev_commit ev = v_head v" "ev_baseCommit ev = v_base v" "w_attested w' = w_attested w" "ev_remoteRef ev = ref"
    "ev_status ev \<in> {''published'', ''recovered'', ''already-published''}"
    "ev_status ev \<noteq> ''published'' \<Longrightarrow> before = Some (v_head v)"
proof -
  from assms have "ev_commit ev = v_head v \<and> ev_baseCommit ev = v_base v \<and> w_attested w' = w_attested w
      \<and> ev_remoteRef ev = ref \<and> ev_status ev \<in> {''published'', ''recovered'', ''already-published''}
      \<and> (ev_status ev \<noteq> ''published'' \<longrightarrow> before = Some (v_head v))"
  proof (cases rule: publishFromRemote_cases)
    case recovered
    then show ?thesis by (simp add: publishEvidence_Inr runs_writePublished)
  next
    case already
    then show ?thesis by (simp add: publishEvidence_Inr)
  next
    case pushed
    with runs_pushAndConfirm(1-5) [OF pushed(4)] show ?thesis by simp
  qed
  then show "ev_commit ev = v_head v" "ev_baseCommit ev = v_base v" "w_attested w' = w_attested w" "ev_remoteRef ev = ref"
    "ev_status ev \<in> {''published'', ''recovered'', ''already-published''}"
    "ev_status ev \<noteq> ''published'' \<Longrightarrow> before = Some (v_head v)"
    by blast+
qed

lemma runs_publishBranch:
  assumes "runs (publishBranch x b) w ev w'"
  obtains v w1 st before helper w2 where
    "runs (validateLocalPublishState x b True) w v w1" "v_commits v \<noteq> []" "SESSION_test (b_sessionId b)"
    "readPublishState b w1 = Inr st" "x_credential x (w_repo w1) = Inr helper"
    "runs (readRemoteRef x b (wr_workspacePath (v_record v)) (S6_REMOTE_REF_PREFIX @ b_sessionId b) helper) w1 before w2"
    "runs (publishFromRemote x b v (S6_REMOTE_REF_PREFIX @ b_sessionId b) st before helper) w2 ev w'"
  using assms unfolding publishBranch_def withCredential_def
  by (auto simp: run_simps result_simps)

lemma assertPublishPath_allowed:
  assumes "assertPublishPath x w wp name previous candidate = Inr ()"
  shows "pd_allowed (classifyPolicyPath name)" and "\<not> isHighRiskGovernancePath name"
proof -
  have "pd_allowed (classifyPublishPath name)"
    using assms by (auto simp: assertPublishPath_def assertGovernedGitPath_def Let_def bindE_Inr split: if_splits)
  then show "pd_allowed (classifyPolicyPath name)" and "\<not> isHighRiskGovernancePath name"
    by (rule publish_allowed)+
qed

lemma governed_names: "governed x b w wp commits \<Longrightarrow> sha \<in> set commits \<Longrightarrow> \<exists>names. commitChangedPaths x b w wp sha = Inr names"
  unfolding governed_def by blast

lemma governed_allowed:
  assumes "governed x b w wp commits" "sha \<in> set commits" "commitChangedPaths x b w wp sha = Inr names" "name \<in> set names"
  shows "pd_allowed (classifyPolicyPath name) \<and> \<not> isHighRiskGovernancePath name"
proof -
  obtain ns where "commitChangedPaths x b w wp sha = Inr ns"
    "\<forall>name \<in> set ns. assertPublishPath x w wp name (sha @ ''^'') sha = Inr ()"
    using assms(1,2) unfolding governed_def by blast
  with assms(3,4) have "assertPublishPath x w wp name (sha @ ''^'') sha = Inr ()" by simp
  then show ?thesis by (simp add: assertPublishPath_allowed)
qed

text \<open>
  C1 (safety).  When \<^verbatim>\<open>publishBranch\<close> returns, the commit it reports is the head of a linear
  history (\<^verbatim>\<open>graphCommits\<close> returns only rows with one parent) above the registered base;
  every commit of that history is in the attested set, and no path that any of those commits
  touched is a denied path or a high-risk governance path.  The evidence names this session's
  generated ref.
\<close>

theorem publish_only_attested:
  assumes "runs (publishBranch x b) w ev w'"
  shows "\<exists>rec commits. validateRegisteredWorkspaceRecord x b w = Inr rec
    \<and> ev_baseCommit ev = wr_expectedBaseCommit rec
    \<and> ev_remoteRef ev = S6_REMOTE_REF_PREFIX @ b_sessionId b
    \<and> graphCommits x b w (wr_workspacePath rec) (ev_baseCommit ev) (ev_commit ev) = Inr commits
    \<and> commits \<noteq> [] \<and> set commits \<subseteq> w_attested w'
    \<and> (\<forall>sha \<in> set commits. \<exists>names. commitChangedPaths x b w (wr_workspacePath rec) sha = Inr names
         \<and> (\<forall>name \<in> set names. pd_allowed (classifyPolicyPath name) \<and> \<not> isHighRiskGovernancePath name))"
proof -
  obtain v w1 st before helper w2 where
    v: "runs (validateLocalPublishState x b True) w v w1" "v_commits v \<noteq> []" and
    r: "runs (readRemoteRef x b (wr_workspacePath (v_record v)) (S6_REMOTE_REF_PREFIX @ b_sessionId b) helper) w1 before w2" and
    p: "runs (publishFromRemote x b v (S6_REMOTE_REF_PREFIX @ b_sessionId b) st before helper) w2 ev w'"
    using assms by (rule runs_publishBranch)
  note V = runs_validate [OF v(1)]
  note P = runs_publishFromRemote [OF p]
  obtain r where "w2 = w1\<lparr>w_repo := r\<rparr>" using runs_readRemoteRef [OF r] by blast
  with P(3) have "w_attested w' = w_attested w1" by simp
  then have "set (v_commits v) \<subseteq> w_attested w'" using V(6) by simp
  moreover have "\<exists>names. commitChangedPaths x b w (wr_workspacePath (v_record v)) sha = Inr names
      \<and> (\<forall>name \<in> set names. pd_allowed (classifyPolicyPath name) \<and> \<not> isHighRiskGovernancePath name)"
    if sha: "sha \<in> set (v_commits v)" for sha
  proof -
    obtain names where n: "commitChangedPaths x b w (wr_workspacePath (v_record v)) sha = Inr names"
      using governed_names [OF V(9) sha] by (rule exE)
    then show ?thesis using governed_allowed [OF V(9) sha n] by simp
  qed
  ultimately show ?thesis
    using V(1,2,5) v(2) P(1,2,4) by (intro exI [of _ "v_record v"] exI [of _ "v_commits v"]) simp
qed

end
