(* ===== verification/BrokerProvenance.thy ===== *)
theory BrokerProvenance
  imports BrokerSafety
begin

text \<open>
  The broker as a transition system: its operations, the crashes between their writes, and what the
  container, the remote and the manager do around it.  The invariant is that every commit the broker
  treats as attested, now or after a restart, was attested by a commit attestation or named by an
  operator's recovery command.
\<close>

section \<open>The broker over time\<close>

text \<open>
  \<open>history base x b G\<close>: the commits above the base up to a given commit are a function of
  the two ids, since a commit id is the hash of the commit and of its ancestry.  (Git honours this
  for a repository without replacement refs; the broker does not disable them.)
\<close>

definition history :: "'r ext \<Rightarrow> broker \<Rightarrow> string \<Rightarrow> (string \<Rightarrow> string set) \<Rightarrow> bool" where
  "history x b base G =
    (\<forall>w wp target commits. graphCommits x b w wp base target = Inr commits \<longrightarrow> set commits = G target)"

text \<open>A state of the system: the broker's world and the commits somebody has attested.\<close>

type_synonym 'r system = "'r world \<times> string set"

text \<open>A crash loses the attested set and keeps what had been written.\<close>

definition restarted :: "'r world \<Rightarrow> 'r world" where
  "restarted w = w\<lparr>w_attested := {}\<rparr>"

definition crash_points :: "('r, 'a) bact \<Rightarrow> 'r world \<Rightarrow> 'r world set" where
  "crash_points m w = (case m w of (_, w', h) \<Rightarrow> insert w (insert w' (set h)))"

definition after :: "('r, 'a) bact \<Rightarrow> 'r world \<Rightarrow> 'r world" where
  "after m w = fst (snd (m w))"

definition returns :: "('r, 'a) bact \<Rightarrow> 'r world \<Rightarrow> bool" where
  "returns m w = is_ok (fst (m w))"

text \<open>
  The steps: anything the container or the remote does to the repository; anything the manager does
  to other state files that keeps the session's base commit; a commit attestation, with the commit
  counted as attested only when the call returned; a publication; a recovery of a publication; the
  two operator commands that name an exact reviewed commit, which count as its attestation; and a
  crash in any of them.
\<close>

inductive step :: "'r ext \<Rightarrow> broker \<Rightarrow> string \<Rightarrow> 'r system \<Rightarrow> 'r system \<Rightarrow> bool"
  for x b base where
  outside: "step x b base (w, E) (w\<lparr>w_repo := r\<rparr>, E)"
| manager: "f (publishStatePath b) = w_files w (publishStatePath b) \<Longrightarrow>
    f (attachmentRecoveryStatePath b) = w_files w (attachmentRecoveryStatePath b) \<Longrightarrow>
    (\<And>rec. readWorkspaceState b (w\<lparr>w_files := f\<rparr>) (b_sessionId b) = Inr rec \<Longrightarrow> wr_expectedBaseCommit rec = base) \<Longrightarrow>
    step x b base (w, E) (w\<lparr>w_files := f\<rparr>, E)"
| attest: "step x b base (w, E)
    (after (attestCommit x b sha) w, if returns (attestCommit x b sha) w then insert sha E else E)"
| publish: "step x b base (w, E) (after (publishBranch x b) w, E)"
| recover: "step x b base (w, E) (after (recoverPublish x b) w, E)"
| attach: "step x b base (w, E) (after (recoverGeneratedBranchAttachment x b ex) w, insert (ex_commit ex) E)"
| attached: "step x b base (w, E) (after (recordAttachedRecoveryAttestation x b ex) w, insert (ex_commit ex) E)"
| crash: "w' \<in> crash_points (publishBranch x b) w \<union> crash_points (recoverPublish x b) w
      \<union> crash_points (attestCommit x b sha) w \<Longrightarrow> step x b base (w, E) (restarted w', E)"
| crash_attach: "w' \<in> crash_points (recoverGeneratedBranchAttachment x b ex) w
      \<union> crash_points (recordAttachedRecoveryAttestation x b ex) w \<Longrightarrow>
    step x b base (w, E) (restarted w', insert (ex_commit ex) E)"

text \<open>The system starts with a new broker: nothing attested, no publish or recovery file.\<close>

inductive reachable :: "'r ext \<Rightarrow> broker \<Rightarrow> string \<Rightarrow> 'r system \<Rightarrow> bool"
  for x b base where
  start: "w_attested w = {} \<Longrightarrow> w_files w (publishStatePath b) = None \<Longrightarrow>
    w_files w (attachmentRecoveryStatePath b) = None \<Longrightarrow>
    (\<And>rec. readWorkspaceState b w (b_sessionId b) = Inr rec \<Longrightarrow> wr_expectedBaseCommit rec = base) \<Longrightarrow>
    reachable x b base (w, {})"
| next_state: "reachable x b base s \<Longrightarrow> step x b base s s' \<Longrightarrow> reachable x b base s'"

section \<open>The invariant\<close>

definition published_ok :: "broker \<Rightarrow> (string \<Rightarrow> string set) \<Rightarrow> string set \<Rightarrow> 'r world \<Rightarrow> bool" where
  "published_ok b G E w = (\<forall>p. readPublishState b w = Inr (Some p) \<longrightarrow> G (trusted_target p) \<subseteq> E)"

definition recovery_ok :: "broker \<Rightarrow> string set \<Rightarrow> 'r world \<Rightarrow> bool" where
  "recovery_ok b E w =
    (\<forall>st. readJson w (attachmentRecoveryStatePath b) = Some st \<longrightarrow> field st ''commit'' \<in> E)"

definition base_ok :: "broker \<Rightarrow> string \<Rightarrow> 'r world \<Rightarrow> bool" where
  "base_ok b base w =
    (\<forall>rec. readWorkspaceState b w (b_sessionId b) = Inr rec \<longrightarrow> wr_expectedBaseCommit rec = base)"

definition provenance :: "broker \<Rightarrow> string \<Rightarrow> (string \<Rightarrow> string set) \<Rightarrow> string set \<Rightarrow> 'r world \<Rightarrow> bool" where
  "provenance b base G E w =
    (w_attested w \<subseteq> E \<and> published_ok b G E w \<and> recovery_ok b E w \<and> base_ok b base w)"

lemma provenance_mono: "provenance b base G E w \<Longrightarrow> E \<subseteq> F \<Longrightarrow> provenance b base G F w"
  unfolding provenance_def published_ok_def recovery_ok_def by blast

lemma readPublish_repo [simp]: "readPublishState b (w\<lparr>w_repo := r\<rparr>) = readPublishState b w"
  by (simp add: readPublishState_def readJson_def)

lemma readWorkspace_repo [simp]: "readWorkspaceState b (w\<lparr>w_repo := r\<rparr>) = readWorkspaceState b w"
  by (simp add: readWorkspaceState_def readJson_def fun_eq_iff)

lemma provenance_repo [simp]: "provenance b base G E (w\<lparr>w_repo := r\<rparr>) = provenance b base G E w"
  by (simp add: provenance_def published_ok_def recovery_ok_def base_ok_def readJson_def)

lemma provenance_attested:
  "provenance b base G E (w\<lparr>w_attested := A\<rparr>) \<longleftrightarrow>
     A \<subseteq> E \<and> published_ok b G E w \<and> recovery_ok b E w \<and> base_ok b base w"
  by (simp add: provenance_def published_ok_def recovery_ok_def base_ok_def)

lemma provenance_restarted: "provenance b base G E w \<Longrightarrow> provenance b base G E (restarted w)"
  unfolding restarted_def provenance_attested by (simp add: provenance_def)

section \<open>Preservation\<close>

lemma keeps_gitResult [hoare_intros]: "keeps (provenance b base G E) (gitResult x b' args cwd helper)"
  unfolding gitResult_def
  by (intro hoare_intros) (simp add: keeps_def call_def split: prod.splits)

lemma keeps_credential [hoare_intros]:
  "(\<And>h. keeps I (k h)) \<Longrightarrow> keeps I (withCredential x k)"
  unfolding withCredential_def by (intro hoare_intros)

lemma keeps_remote [hoare_intros]:
  "keeps (provenance b base G E) (readRemoteRef x b' wp ref helper)"
  "keeps (provenance b base G E) (pushRemote x b' wp ref helper)"
  unfolding readRemoteRef_def pushRemote_def
  by (intro hoare_intros | simp add: hoare_intros split: option.split)+

lemma path_join_inj [simp]: "path_join d c = path_join d c' \<longleftrightarrow> c = c'"
  by (simp add: path_join_def)

lemma state_paths [simp]:
  "publishStatePath b \<noteq> attachmentRecoveryStatePath b" "attachmentRecoveryStatePath b \<noteq> publishStatePath b"
  "path_join (stateRoot b) (b_sessionId b @ ''.json'') \<noteq> publishStatePath b"
  "path_join (stateRoot b) (b_sessionId b @ ''.json'') \<noteq> attachmentRecoveryStatePath b"
  by (simp_all add: publishStatePath_def attachmentRecoveryStatePath_def)

lemma readPublishState_parsed:
  assumes "readPublishState b w = Inr (Some p)"
  shows "\<exists>J. readJson w (publishStatePath b) = Some J \<and> p = publish_of_json J"
  using assms by (auto simp: readPublishState_def Let_def bindE_Inr split: option.splits)

lemma provenance_files:
  assumes "provenance b base G E w"
    and "f (path_join (stateRoot b) (b_sessionId b @ ''.json'')) = w_files w (path_join (stateRoot b) (b_sessionId b @ ''.json''))"
    and "published_ok b G E (w\<lparr>w_files := f\<rparr>)" "recovery_ok b E (w\<lparr>w_files := f\<rparr>)"
  shows "provenance b base G E (w\<lparr>w_files := f\<rparr>)"
proof -
  have "readWorkspaceState b (w\<lparr>w_files := f\<rparr>) (b_sessionId b) = readWorkspaceState b w (b_sessionId b)"
    using assms(2) by (simp add: readWorkspaceState_def readJson_def)
  with assms show ?thesis by (simp add: provenance_def base_ok_def)
qed

lemma recovery_ok_other:
  assumes "recovery_ok b E w" "f (attachmentRecoveryStatePath b) = w_files w (attachmentRecoveryStatePath b)"
  shows "recovery_ok b E (w\<lparr>w_files := f\<rparr>)"
proof -
  have "readJson (w\<lparr>w_files := f\<rparr>) (attachmentRecoveryStatePath b) = readJson w (attachmentRecoveryStatePath b)"
    using assms(2) by (simp add: readJson_def)
  with assms(1) show ?thesis by (simp add: recovery_ok_def)
qed

lemma published_ok_other:
  assumes "published_ok b G E w" "f (publishStatePath b) = w_files w (publishStatePath b)"
  shows "published_ok b G E (w\<lparr>w_files := f\<rparr>)"
proof -
  have "readPublishState b (w\<lparr>w_files := f\<rparr>) = readPublishState b w"
    using assms(2) by (simp add: readPublishState_def readJson_def)
  with assms(1) show ?thesis by (simp add: published_ok_def)
qed

lemma keeps_writePublished:
  fixes x :: "'r ext"
  assumes "G sha \<subseteq> E"
  shows "keeps (provenance b base G E) (writePublishedState x b sha bs state prior)"
proof -
  have "provenance b base G E (w\<lparr>w_files := (w_files w)(publishStatePath b \<mapsto> publish_json sid br ref sha bs prior state now)\<rparr>)"
    if "provenance b base G E w" for w :: "'r world" and sid br ref now
  proof (rule provenance_files [OF that])
    let ?f = "(w_files w)(publishStatePath b \<mapsto> publish_json sid br ref sha bs prior state now)"
    show "published_ok b G E (w\<lparr>w_files := ?f\<rparr>)"
      unfolding published_ok_def
    proof (intro allI impI)
      fix p
      assume "readPublishState b (w\<lparr>w_files := ?f\<rparr>) = Inr (Some p)"
      then have "p = publish_of_json (publish_json sid br ref sha bs prior state now)"
        using readPublishState_parsed by (fastforce simp: readJson_def split: if_splits)
      then have "trusted_target p = sha"
        by (simp add: trusted_target_def publish_of_json_def publish_json_fields)
      with assms show "G (trusted_target p) \<subseteq> E" by simp
    qed
    show "recovery_ok b E (w\<lparr>w_files := ?f\<rparr>)"
      using that by (intro recovery_ok_other) (simp_all add: provenance_def)
  qed simp
  then show ?thesis
    unfolding writePublishedState_def atomicWrite_def
    by (intro hoare_intros) (auto simp: keeps_def store_def)
qed

lemma keeps_rmPublished [hoare_intros]: "keeps (provenance b base G E) (rmSync (publishStatePath b))"
proof -
  have "provenance b base G E (w\<lparr>w_files := (w_files w)(publishStatePath b := None)\<rparr>)"
    if "provenance b base G E w" for w :: "'r world"
    using that
    by (intro provenance_files recovery_ok_other)
      (auto simp: provenance_def published_ok_def readPublishState_def readJson_def)
  then show ?thesis by (auto simp: keeps_def rmSync_def store_def)
qed

lemma keeps_writeRecovery:
  fixes x :: "'r ext"
  assumes "rs_commit st \<in> E"
  shows "keeps (provenance b base G E) (writeAttachmentRecoveryState x b rec st)"
proof -
  have "provenance b base G E (w\<lparr>w_files := (w_files w)(attachmentRecoveryStatePath b \<mapsto> J)\<rparr>)"
    if "provenance b base G E w" "field J ''commit'' \<in> E" for w :: "'r world" and J
  proof (rule provenance_files [OF that(1)])
    let ?w = "w\<lparr>w_files := (w_files w)(attachmentRecoveryStatePath b \<mapsto> J)\<rparr>"
    show "recovery_ok b E ?w"
      using that(2) by (simp add: recovery_ok_def readJson_def)
    show "published_ok b G E ?w"
      using that(1) by (intro published_ok_other) (simp_all add: provenance_def)
  qed simp
  moreover have "field (recovery_json b rec st now) ''commit'' = rs_commit st" for now
    by (simp add: recovery_json_def field_def)
  ultimately show ?thesis
    using assms by (simp add: keeps_def store_def writeAttachmentRecoveryState_def atomicWrite_def)
qed

lemma keeps_addAttested: "sha \<in> E \<Longrightarrow> keeps (provenance b base G E) (addAttested sha)"
  by (simp add: keeps_def addAttested_def provenance_attested) (simp add: provenance_def)


lemma base_of_record:
  assumes "base_ok b base w" "validateRegisteredWorkspaceRecord x b w = Inr rec"
  shows "wr_expectedBaseCommit rec = base"
  using assms by (auto simp: base_ok_def validateRegisteredWorkspaceRecord_def Let_def bindE_Inr)

lemma keeps_restoreTarget:
  assumes "history x b base G" and "G target \<subseteq> E"
  shows "keeps (provenance b base G E) (restoreTarget x b wp base head target)"
proof -
  have "keeps (provenance b base G E) (andThen (look (\<lambda>w. graphCommits x b w wp base target)) (forA addAttested))"
  proof (rule keeps_bind_fact [where C = "\<lambda>commits. set commits \<subseteq> E"])
    show "set y \<subseteq> E" if "runs (look (\<lambda>w. graphCommits x b w wp base target)) s y s'" for s y s'
      using that assms by (auto simp: run_simps history_def)
    show "keeps (provenance b base G E) (forA addAttested y)" if "set y \<subseteq> E" for y
      using that by (intro keeps_forA keeps_addAttested) auto
  qed (simp add: hoare_intros)
  then show ?thesis
    unfolding restoreTarget_def
    by (rule keeps_if [OF keeps_look(2) keeps_andThen [OF keeps_look(1) keeps_if [OF keeps_look(2)]]])
qed

lemma keeps_restorePublished:
  assumes "history x b base G"
  shows "keeps (provenance b base G E) (restorePublishedAttestations x b rec base head)"
  unfolding restorePublishedAttestations_def
proof (rule keeps_bind_fact [where C = "\<lambda>state. \<forall>p. state = Some p \<longrightarrow> G (trusted_target p) \<subseteq> E"])
  show "\<forall>p. y = Some p \<longrightarrow> G (trusted_target p) \<subseteq> E"
    if "provenance b base G E s" "runs (look (readPublishState b)) s y s'" for s y s'
    using that by (auto simp: run_simps provenance_def published_ok_def)
qed (auto intro: hoare_intros keeps_restoreTarget [OF assms] split: option.split)

lemma keeps_restoreRecovery:
  "keeps (provenance b base G E) (restoreAttachmentRecoveryAttestation x b rec bs head)"
  unfolding restoreAttachmentRecoveryAttestation_def
proof (rule keeps_bind_fact [where C = "\<lambda>state. \<forall>st. state = Some st \<longrightarrow> field st ''commit'' \<in> E"])
  show "\<forall>st. y = Some st \<longrightarrow> field st ''commit'' \<in> E"
    if "provenance b base G E s" "runs (look (\<lambda>w. Inr (readJson w (attachmentRecoveryStatePath b)))) s y s'" for s y s'
    using that by (auto simp: run_simps provenance_def recovery_ok_def)
qed (auto simp: Let_def split: option.split intro!: hoare_intros keeps_addAttested)

lemma keeps_validate:
  assumes "history x b base G"
  shows "keeps (provenance b base G E) (validateLocalPublishState x b req)"
  unfolding validateLocalPublishState_def
proof (rule keeps_bind_fact [where C = "\<lambda>rec. wr_expectedBaseCommit rec = base"])
  show "wr_expectedBaseCommit y = base"
    if "provenance b base G E s" "runs (look (validateRegisteredWorkspaceRecord x b)) s y s'" for s y s'
    using that by (auto simp: run_simps provenance_def intro: base_of_record)
qed (insert assms, auto simp: Let_def intro!: hoare_intros keeps_restorePublished keeps_restoreRecovery)

text \<open>What the later stages of a publication may assume of a validated state.\<close>

lemma validated_fact:
  assumes "history x b base G" "provenance b base G E w" "runs (validateLocalPublishState x b True) w v w'"
  shows "G (v_head v) \<subseteq> E \<and> v_base v = base"
proof -
  note V = runs_validate [OF assms(3)]
  have base: "v_base v = base"
    using V(1,2) assms(2) by (auto simp: provenance_def intro: base_of_record)
  have "provenance b base G E w'"
    using keeps_runs [OF keeps_validate [OF assms(1)] assms(3) assms(2)] .
  then have "set (v_commits v) \<subseteq> E" using V(6) by (auto simp: provenance_def)
  moreover have "set (v_commits v) = G (v_head v)"
    using V(5) assms(1) base by (auto simp: history_def)
  ultimately show ?thesis using base by simp
qed

lemma keeps_publishBranch:
  assumes "history x b base G"
  shows "keeps (provenance b base G E) (publishBranch x b)"
  unfolding publishBranch_def
proof (rule keeps_bind_fact [where C = "\<lambda>v. G (v_head v) \<subseteq> E \<and> v_base v = base", OF keeps_validate [OF assms]])
  show "G (v_head y) \<subseteq> E \<and> v_base y = base"
    if "provenance b base G E s" "runs (validateLocalPublishState x b True) s y s'" for s y s'
    using assms that by (rule validated_fact)
qed (auto simp: publishFromRemote_def pushAndConfirm_def Let_def intro!: hoare_intros keeps_writePublished)

lemma keeps_resumePublish:
  assumes "history x b base G"
  shows "keeps (provenance b base G E) (resumePublish x b p)"
  unfolding resumePublish_def
proof (rule keeps_bind_fact [where C = "\<lambda>v. G (v_head v) \<subseteq> E \<and> v_base v = base", OF keeps_validate [OF assms]])
  show "G (v_head y) \<subseteq> E \<and> v_base y = base"
    if "provenance b base G E s" "runs (validateLocalPublishState x b True) s y s'" for s y s'
    using assms that by (rule validated_fact)
qed (auto intro!: hoare_intros keeps_writePublished)

lemma keeps_recoverPublish:
  assumes "history x b base G"
  shows "keeps (provenance b base G E) (recoverPublish x b)"
  unfolding recoverPublish_def
  by (rule keeps_andThen) (auto intro: hoare_intros keeps_resumePublish [OF assms] split: option.split)

lemma keeps_attach:
  assumes "ex_commit ex \<in> E"
  shows "keeps (provenance b base G E) (recoverGeneratedBranchAttachment x b ex)"
    and "keeps (provenance b base G E) (recordAttachedRecoveryAttestation x b ex)"
  using assms unfolding recoverGeneratedBranchAttachment_def recordAttachedRecoveryAttestation_def Let_def
  by (intro hoare_intros keeps_writeRecovery, simp)+

lemma only_attests_attest: "only_attests (attestCommit x b sha)"
  unfolding attestCommit_def by (intro only_attests_andThen only_attests_validate) simp_all

lemma attestCommit_states:
  assumes "history x b base G" "provenance b base G E w" "attestCommit x b sha w = (r, w', h)"
  shows "provenance b base G (if is_ok r then insert sha E else E) w'" and "h = []"
proof -
  obtain r0 A where "attestCommit x b sha w = (r0, w\<lparr>w_attested := A\<rparr>, [])"
    by (rule only_attestsE [OF only_attests_attest])
  with assms(3) show "h = []" by simp
  obtain r1 w1 h1 where v: "validateLocalPublishState x b False w = (r1, w1, h1)"
    by (cases "validateLocalPublishState x b False w")
  have p1: "provenance b base G E w1"
    using keeps_states(1) [OF keeps_validate [OF assms(1)] assms(2) v] .
  then have p2: "provenance b base G (insert sha E) (w1\<lparr>w_attested := insert sha (w_attested w1)\<rparr>)"
    using provenance_mono [OF p1, of "insert sha E"] by (auto simp: provenance_attested) (auto simp: provenance_def)
  show "provenance b base G (if is_ok r then insert sha E else E) w'"
  proof (cases "SHA_test sha")
    case False
    then have "r = throw ''commit attestation is not a full Git SHA'' \<and> w' = w"
      using assms(3) by (simp add: attestCommit_def andThen_def look_def assertSha_def throw_def)
    with assms(2) show ?thesis by simp
  next
    case True
    then show ?thesis
      using assms(3) v p1 p2
      by (auto simp: attestCommit_def andThen_def look_def guard_def ret_def fail_def addAttested_def assertSha_def
          split: sum.splits if_splits)
  qed
qed

section \<open>Reachable states\<close>

lemma crash_points_keeps:
  assumes "keeps I m" "I w" "w' \<in> crash_points m w"
  shows "I w'"
proof -
  obtain r s h where m: "m w = (r, s, h)" by (cases "m w")
  then show ?thesis
    using keeps_states [OF assms(1,2) m] assms(2,3) by (auto simp: crash_points_def list_all_iff)
qed

lemma after_keeps: "keeps I m \<Longrightarrow> I w \<Longrightarrow> I (after m w)"
  by (cases "m w") (auto simp: after_def dest: keeps_states(1))

lemma crash_points_only_attests:
  assumes "only_attests m" "w' \<in> crash_points m w"
  shows "\<exists>A. w' = w\<lparr>w_attested := A\<rparr>"
proof -
  obtain r A where "m w = (r, w\<lparr>w_attested := A\<rparr>, [])" using assms(1) by (rule only_attestsE)
  then have "w' = w\<lparr>w_attested := w_attested w\<rparr> \<or> w' = w\<lparr>w_attested := A\<rparr>"
    using assms(2) by (auto simp: crash_points_def)
  then show ?thesis by blast
qed

lemma step_provenance:
  assumes "step x b base s s'" "history x b base G" "provenance b base G (snd s) (fst s)"
  shows "provenance b base G (snd s') (fst s')"
  using assms(1)
proof cases
  case (outside w E r)
  with assms(3) show ?thesis by simp
next
  case (manager f w E)
  have "published_ok b G E (w\<lparr>w_files := f\<rparr>)" "recovery_ok b E (w\<lparr>w_files := f\<rparr>)"
    using manager assms(3) by (auto intro!: published_ok_other recovery_ok_other simp: provenance_def)
  with manager assms(3) show ?thesis by (auto simp: provenance_def base_ok_def)
next
  case (attest w E sha)
  obtain r w' h where "attestCommit x b sha w = (r, w', h)" by (cases "attestCommit x b sha w")
  with attestCommit_states(1) [OF assms(2) _ this, of E] attest assms(3)
  show ?thesis by (simp add: after_def returns_def)
next
  case (publish w E)
  with assms(3) show ?thesis by (simp add: after_keeps [OF keeps_publishBranch [OF assms(2)]])
next
  case (recover w E)
  with assms(3) show ?thesis by (simp add: after_keeps [OF keeps_recoverPublish [OF assms(2)]])
next
  case (attach w E ex)
  with assms(3) have "provenance b base G (insert (ex_commit ex) E) w" by (auto intro: provenance_mono)
  with attach show ?thesis by (simp add: after_keeps [OF keeps_attach(1)])
next
  case (attached w E ex)
  with assms(3) have "provenance b base G (insert (ex_commit ex) E) w" by (auto intro: provenance_mono)
  with attached show ?thesis by (simp add: after_keeps [OF keeps_attach(2)])
next
  case (crash w' w sha E)
  then have p: "provenance b base G E w" using assms(3) by simp
  from crash(3) have "provenance b base G E (restarted w')"
  proof (elim UnE)
    assume "w' \<in> crash_points (publishBranch x b) w"
    then show ?thesis by (rule provenance_restarted [OF crash_points_keeps [OF keeps_publishBranch [OF assms(2)] p]])
  next
    assume "w' \<in> crash_points (recoverPublish x b) w"
    then show ?thesis by (rule provenance_restarted [OF crash_points_keeps [OF keeps_recoverPublish [OF assms(2)] p]])
  next
    assume "w' \<in> crash_points (attestCommit x b sha) w"
    then obtain A where "w' = w\<lparr>w_attested := A\<rparr>"
      using crash_points_only_attests [OF only_attests_attest] by blast
    with provenance_restarted [OF p] show ?thesis by (simp add: restarted_def)
  qed
  with crash show ?thesis by simp
next
  case (crash_attach w' ex w E)
  then have p: "provenance b base G (insert (ex_commit ex) E) w" using assms(3) by (auto intro: provenance_mono)
  have "provenance b base G (insert (ex_commit ex) E) w'"
    using crash_attach(3)
  proof (elim UnE)
    assume "w' \<in> crash_points (recoverGeneratedBranchAttachment x b ex) w"
    then show ?thesis by (rule crash_points_keeps [OF keeps_attach(1) [OF insertI1] p])
  next
    assume "w' \<in> crash_points (recordAttachedRecoveryAttestation x b ex) w"
    then show ?thesis by (rule crash_points_keeps [OF keeps_attach(2) [OF insertI1] p])
  qed
  with crash_attach show ?thesis by (simp add: provenance_restarted)
qed

lemma reachable_provenance:
  assumes "reachable x b base s" "history x b base G"
  shows "provenance b base G (snd s) (fst s)"
  using assms(1)
proof induction
  case (start w)
  have "readPublishState b w = Inr None" "readJson w (attachmentRecoveryStatePath b) = None"
    using start(2,3) by (simp_all add: readPublishState_def readJson_def)
  then have "published_ok b G {} w" "recovery_ok b {} w"
    by (simp_all add: published_ok_def recovery_ok_def)
  moreover have "base_ok b base w" using start(4) unfolding base_ok_def by blast
  ultimately show ?case using start(1) by (simp add: provenance_def)
next
  case (next_state s s')
  show ?case by (rule step_provenance [OF next_state.hyps(2) assms(2) next_state.IH])
qed



end
