(* ===== verification/BrokerRefine.thy ===== *)
theory BrokerRefine
  imports BrokerProvenance
begin

text \<open>
  The publication protocol as an abstract machine and the broker's refinement of it.  The abstract
  state is what the session owes the remote: nothing, a pending move from a known head to a target,
  or a confirmed head.  Every write \<^verbatim>\<open>publishBranch\<close> makes is a step of the machine, a
  publication interrupted at any of its writes is resumed, and the one transition of
  \<^verbatim>\<open>recoverPublish\<close> that is not a step of the machine is characterised.
\<close>

section \<open>The abstract machine\<close>

datatype pub = Idle | Pending "string option" string | Done string

fun settled :: "pub \<Rightarrow> string option" where
  "settled Idle = None"
| "settled (Pending prior t) = prior"
| "settled (Done sha) = Some sha"

inductive pub_step :: "pub \<Rightarrow> pub \<Rightarrow> bool" where
  stay: "pub_step s s"
| begin_move: "pub_step s (Pending (settled s) t)"
| confirm: "pub_step (Pending prior t) (Done t)"
| abandon: "pub_step (Pending None t) Idle"

inductive_simps pub_step_simps [simp]:
  "pub_step s (Pending p t)" "pub_step s (Done t)" "pub_step s Idle"

text \<open>A file the broker refuses to read has no abstract state.\<close>

definition abs_pub :: "broker \<Rightarrow> 'r world \<Rightarrow> pub option" where
  "abs_pub b w =
    (case readPublishState b w of
       Inl _ \<Rightarrow> None
     | Inr None \<Rightarrow> Some Idle
     | Inr (Some p) \<Rightarrow> Some (if ps_state p = ''published'' then Done (ps_publishedSha p)
         else Pending (ps_priorSha p) (ps_targetSha p)))"

definition abs_step :: "broker \<Rightarrow> 'r world \<Rightarrow> 'r world \<Rightarrow> bool" where
  "abs_step b w w' =
    (abs_pub b w = abs_pub b w'
     \<or> (\<exists>s s'. abs_pub b w = Some s \<and> abs_pub b w' = Some s' \<and> pub_step s s'))"

lemma abs_step_refl [simp]: "abs_step b w w"
  by (simp add: abs_step_def)

lemma abs_pub_repo [simp]: "abs_pub b (w\<lparr>w_repo := r\<rparr>) = abs_pub b w"
  by (simp add: abs_pub_def)

lemma abs_pub_attested [simp]: "abs_pub b (w\<lparr>w_attested := A\<rparr>) = abs_pub b w"
  by (simp add: abs_pub_def)

section \<open>Actions that refine a machine\<close>

text \<open>
  \<open>refines f R P m Q\<close>: from a state with \<open>P\<close>, the abstract states (under \<open>f\<close>) of the
  states passed through form a path of \<open>R\<close> that ends in the abstract state left, and a returned
  value and the state left satisfy \<open>Q\<close>.
\<close>

definition path_to :: "('s \<Rightarrow> 'p) \<Rightarrow> ('p \<Rightarrow> 'p \<Rightarrow> bool) \<Rightarrow> 's \<Rightarrow> 's list \<Rightarrow> 's \<Rightarrow> bool" where
  "path_to f R s h s' = (successively R (map f (s # h)) \<and> last (map f (s # h)) = f s')"

definition refines ::
  "('s \<Rightarrow> 'p) \<Rightarrow> ('p \<Rightarrow> 'p \<Rightarrow> bool) \<Rightarrow> ('s \<Rightarrow> bool) \<Rightarrow> ('s, 'a) act \<Rightarrow> ('a \<Rightarrow> 's \<Rightarrow> bool) \<Rightarrow> bool" where
  "refines f R P m Q =
    (\<forall>s. P s \<longrightarrow> (case m s of (r, s', h) \<Rightarrow> path_to f R s h s' \<and> (\<forall>v. r = Inr v \<longrightarrow> Q v s')))"

lemma successively_glue:
  "successively R a \<Longrightarrow> a \<noteq> [] \<Longrightarrow> last a = p \<Longrightarrow> successively R (p # c) \<Longrightarrow>
   successively R (a @ c) \<and> last (a @ c) = last (p # c)"
  by (cases c) (auto simp: successively_append_iff)

lemma path_to_append:
  assumes "path_to f R s h s'" "path_to f R s' h' s''"
  shows "path_to f R s (h @ h') s''"
  using assms successively_glue [of R "map f (s # h)" "f s'" "map f h'"]
  by (simp add: path_to_def)

lemma refines_andThen:
  assumes "refines f R P m Q" "\<And>v. refines f R (Q v) (g v) S"
  shows "refines f R P (andThen m g) S"
  unfolding refines_def
proof (intro allI impI)
  fix s
  assume "P s"
  obtain r s' h where m: "m s = (r, s', h)" by (cases "m s")
  with assms(1) \<open>P s\<close> have p: "path_to f R s h s'" "\<forall>v. r = Inr v \<longrightarrow> Q v s'" by (auto simp: refines_def)
  show "case andThen m g s of (r, s', h) \<Rightarrow> path_to f R s h s' \<and> (\<forall>v. r = Inr v \<longrightarrow> S v s')"
  proof (cases r)
    case (Inl e)
    with m p show ?thesis by (simp add: andThen_def)
  next
    case (Inr v)
    obtain r2 s2 h2 where g: "g v s' = (r2, s2, h2)" by (cases "g v s'")
    have "path_to f R s' h2 s2 \<and> (\<forall>v. r2 = Inr v \<longrightarrow> S v s2)"
      using assms(2) [of v] p(2) Inr g by (auto simp: refines_def)
    with m g p(1) Inr show ?thesis by (auto simp: andThen_def intro: path_to_append)
  qed
qed

lemma refines_look: "refines f R P (look g) (\<lambda>v s. P s \<and> g s = Inr v)"
  by (simp add: refines_def look_def path_to_def)

lemma refines_ret: "(\<And>s. P s \<Longrightarrow> Q v s) \<Longrightarrow> refines f R P (ret v) Q"
  by (simp add: refines_def ret_def path_to_def)

lemma refines_fail: "refines f R P (fail e) Q"
  by (simp add: refines_def fail_def path_to_def throw_def)

lemma refines_guard: "refines f R P (guard c e) (\<lambda>_ s. P s \<and> c)"
  by (simp add: refines_def guard_def ret_def fail_def path_to_def throw_def)

lemma refines_store:
  "(\<And>s. P s \<Longrightarrow> R (f s) (f (g s)) \<and> Q () (g s)) \<Longrightarrow> refines f R P (store g) Q"
  by (simp add: refines_def store_def path_to_def)

lemma refines_weaken:
  "refines f R P' m Q' \<Longrightarrow> (\<And>s. P s \<Longrightarrow> P' s) \<Longrightarrow> (\<And>v s. Q' v s \<Longrightarrow> Q v s) \<Longrightarrow> refines f R P m Q"
  by (fastforce simp: refines_def split: prod.splits)

lemma refines_fact: "(\<And>s. P s \<Longrightarrow> c) \<Longrightarrow> (c \<Longrightarrow> refines f R P m Q) \<Longrightarrow> refines f R P m Q"
  by (cases "\<exists>s. P s") (auto simp: refines_def)

text \<open>What leaves the abstract state alone can be stuttered over.\<close>

definition silent :: "('s \<Rightarrow> 'p) \<Rightarrow> ('s, 'a) act \<Rightarrow> bool" where
  "silent f m = (\<forall>s. case m s of (r, s', h) \<Rightarrow> f s' = f s \<and> (\<forall>t \<in> set h. f t = f s))"

lemma refines_silent:
  assumes "silent f m" "\<And>p. R p p"
  shows "refines f R (\<lambda>s. f s = p) m (\<lambda>_ s. f s = p)"
  unfolding refines_def
proof (intro allI impI)
  fix s
  assume p: "f s = p"
  obtain r s' h where m: "m s = (r, s', h)" by (cases "m s")
  have a: "f s' = p" "\<forall>t \<in> set h. f t = p" using m p spec [OF assms(1) [unfolded silent_def], of s] by auto
  then have "map f (s # h) = replicate (Suc (length h)) p"
    using p by (simp add: map_replicate_const [symmetric])
  moreover have "successively R (replicate n p)" for n
  proof (induction n)
    case (Suc n)
    then show ?case using assms(2) by (cases n) auto
  qed simp
  ultimately have "path_to f R s h s'" using a(1) by (simp only: path_to_def) simp
  with m a(1) show "case m s of (r, s', h) \<Rightarrow> path_to f R s h s' \<and> (\<forall>v. r = Inr v \<longrightarrow> f s' = p)" by simp
qed

lemma silent_basic [simp]: "silent f (look g)" "silent f (ret v)" "silent f (fail e)" "silent f (guard c e)"
  by (simp_all add: silent_def look_def ret_def fail_def guard_def)

lemma silent_andThen: "silent f m \<Longrightarrow> (\<And>v. silent f (g v)) \<Longrightarrow> silent f (andThen m g)"
  unfolding silent_def andThen_def
  by (fastforce split: prod.splits sum.splits)

section \<open>The broker's writes\<close>

definition pub_move :: "pub option \<Rightarrow> pub option \<Rightarrow> bool" where
  "pub_move p q = (p = q \<or> (\<exists>s s'. p = Some s \<and> q = Some s' \<and> pub_step s s'))"

lemma pub_move_refl [simp]: "pub_move p p"
  by (simp add: pub_move_def)

lemma readPublishState_Some:
  assumes "readPublishState b w = Inr (Some p)"
  shows "\<exists>J. p = publish_of_json J \<and> has_str J ''remoteRef'' (S6_REMOTE_REF_PREFIX @ b_sessionId b)
    \<and> SESSION_test (b_sessionId b) \<and> ps_state p \<in> set [''publishing'', ''published'']
    \<and> SHA_test (if ps_targetSha p \<noteq> [] then ps_targetSha p else ps_publishedSha p)
    \<and> (ps_state p = ''published'' \<longrightarrow> ps_targetSha p = ps_publishedSha p)
    \<and> (case ps_priorSha p of None \<Rightarrow> True | Some s \<Rightarrow> SHA_test s)"
proof -
  obtain J where "readJson w (publishStatePath b) = Some J"
    using assms by (cases "readJson w (publishStatePath b)") (auto simp: readPublishState_def)
  then show ?thesis
    using assms unfolding readPublishState_def
    by (intro exI [of _ J]) (simp only: option.case Let_def bindE_Inr ensure_Inr s6BranchForSession_Inr s6RemoteRefForSession_Inr, blast)
qed

lemma readPublishState_valid:
  assumes "readPublishState b w = Inr (Some p)"
  shows "ps_state p = ''publishing'' \<or> ps_state p = ''published''"
    and "case ps_priorSha p of None \<Rightarrow> True | Some s \<Rightarrow> SHA_test s"
    and "ps_state p = ''published'' \<Longrightarrow> SHA_test (ps_publishedSha p) \<and> ps_targetSha p = ps_publishedSha p"
    and "ps_remoteRef p = S6_REMOTE_REF_PREFIX @ b_sessionId b" and "SESSION_test (b_sessionId b)"
proof -
  obtain J where J: "p = publish_of_json J" "has_str J ''remoteRef'' (S6_REMOTE_REF_PREFIX @ b_sessionId b)"
    "SESSION_test (b_sessionId b)" "ps_state p \<in> set [''publishing'', ''published'']"
    "SHA_test (if ps_targetSha p \<noteq> [] then ps_targetSha p else ps_publishedSha p)"
    "ps_state p = ''published'' \<longrightarrow> ps_targetSha p = ps_publishedSha p"
    "case ps_priorSha p of None \<Rightarrow> True | Some s \<Rightarrow> SHA_test s"
    using readPublishState_Some [OF assms] by blast
  show "ps_state p = ''publishing'' \<or> ps_state p = ''published''" using J(4) by simp
  show "case ps_priorSha p of None \<Rightarrow> True | Some s \<Rightarrow> SHA_test s" by (rule J(7))
  show "SESSION_test (b_sessionId b)" by (rule J(3))
  show "ps_remoteRef p = S6_REMOTE_REF_PREFIX @ b_sessionId b"
    using J(1,2) by (simp add: publish_of_json_def has_str_def field_def)
  show "ps_state p = ''published'' \<Longrightarrow> SHA_test (ps_publishedSha p) \<and> ps_targetSha p = ps_publishedSha p"
    using J(5,6) by (auto split: if_splits)
qed

definition state_of :: "publish_state option \<Rightarrow> pub" where
  "state_of st =
    (case st of None \<Rightarrow> Idle
     | Some p \<Rightarrow> if ps_state p = ''published'' then Done (ps_publishedSha p) else Pending (ps_priorSha p) (ps_targetSha p))"

lemma abs_pub_read: "readPublishState b w = Inr st \<Longrightarrow> abs_pub b w = Some (state_of st)"
  by (simp add: abs_pub_def state_of_def split: option.split)

lemma prior_settled:
  assumes "readPublishState b w = Inr st"
  shows "prior_of st = settled (state_of st)"
    and "case prior_of st of None \<Rightarrow> True | Some s \<Rightarrow> SHA_test s"
proof -
  have ne: "SHA_test s \<Longrightarrow> s \<noteq> []" for s by (auto simp: SHA_test_def hex_exact_def)
  show "prior_of st = settled (state_of st)"
    using assms readPublishState_valid(1,3) [of b w] ne
    by (cases st) (fastforce simp: prior_of_def state_of_def opt_str_def)+
  show "case prior_of st of None \<Rightarrow> True | Some s \<Rightarrow> SHA_test s"
    using assms readPublishState_valid(1,2,3) [of b w] ne
    by (cases st) (fastforce simp: prior_of_def opt_str_def split: option.splits)+
qed

lemma abs_after_write:
  assumes "SESSION_test (b_sessionId b)" "SHA_test sha" "state = ''publishing'' \<or> state = ''published''"
    and "case prior of None \<Rightarrow> True | Some s \<Rightarrow> SHA_test s"
  shows "abs_pub b (w\<lparr>w_files := (w_files w)(publishStatePath b \<mapsto> publish_json (b_sessionId b)
      (S6_BRANCH_PREFIX @ ''/'' @ b_sessionId b) (S6_REMOTE_REF_PREFIX @ b_sessionId b) sha base prior state now)\<rparr>)
    = Some (if state = ''published'' then Done sha else Pending prior sha)"
proof -
  let ?w = "w\<lparr>w_files := (w_files w)(publishStatePath b \<mapsto> publish_json (b_sessionId b)
      (S6_BRANCH_PREFIX @ ''/'' @ b_sessionId b) (S6_REMOTE_REF_PREFIX @ b_sessionId b) sha base prior state now)\<rparr>"
  have "readPublishState b ?w = Inr (Some \<lparr>ps_state = state, ps_targetSha = sha,
    ps_publishedSha = (if state = ''published'' then sha else []), ps_priorSha = prior,
    ps_remoteRef = S6_REMOTE_REF_PREFIX @ b_sessionId b, ps_baseCommit = base\<rparr>)"
    by (rule publish_json_read [OF assms]) simp
  then have "abs_pub b ?w = Some (state_of (Some \<lparr>ps_state = state, ps_targetSha = sha,
    ps_publishedSha = (if state = ''published'' then sha else []), ps_priorSha = prior,
    ps_remoteRef = S6_REMOTE_REF_PREFIX @ b_sessionId b, ps_baseCommit = base\<rparr>))"
    by (rule abs_pub_read)
  then show ?thesis by (simp add: state_of_def)
qed

lemma refines_writePublished:
  assumes "state = ''publishing'' \<or> state = ''published''" "case prior of None \<Rightarrow> True | Some s \<Rightarrow> SHA_test s"
    and "pub_move a (Some (if state = ''published'' then Done sha else Pending prior sha))"
  shows "refines (abs_pub b) pub_move (\<lambda>w. abs_pub b w = a) (writePublishedState x b sha base state prior)
    (\<lambda>_ w. abs_pub b w = Some (if state = ''published'' then Done sha else Pending prior sha))"
proof -
  have "refines (abs_pub b) pub_move
      (\<lambda>w. (((abs_pub b w = a \<and> assertSha sha ''published SHA'' = Inr u1) \<and> assertSha base ''published base'' = Inr u2)
        \<and> s6BranchForSession (b_sessionId b) = Inr br) \<and> s6RemoteRefForSession (b_sessionId b) = Inr rf)
      (atomicWrite (publishStatePath b) (\<lambda>w. publish_json (b_sessionId b) br rf sha base prior state (x_now x (w_repo w))))
      (\<lambda>_ w. abs_pub b w = Some (if state = ''published'' then Done sha else Pending prior sha))" for u1 u2 br rf
    unfolding atomicWrite_def
  proof (rule refines_store, goal_cases)
    case (1 w)
    then have k: "SESSION_test (b_sessionId b)" "SHA_test sha" "br = S6_BRANCH_PREFIX @ ''/'' @ b_sessionId b"
      "rf = S6_REMOTE_REF_PREFIX @ b_sessionId b" "abs_pub b w = a"
      by (auto simp: result_simps)
    have e: "abs_pub b (w\<lparr>w_files := (w_files w)(publishStatePath b \<mapsto>
        publish_json (b_sessionId b) br rf sha base prior state (x_now x (w_repo w)))\<rparr>)
      = Some (if state = ''published'' then Done sha else Pending prior sha)"
      unfolding k(3,4) by (rule abs_after_write [OF k(1,2) assms(1,2)])
    show ?case unfolding e using assms(3) k(5) by simp
  qed
  then show ?thesis
    unfolding writePublishedState_def by (intro refines_andThen [OF refines_look]) simp
qed

lemma silent_validate: "silent (abs_pub b) (validateLocalPublishState x b req)"
proof -
  have "case validateLocalPublishState x b req w of (r, w', h) \<Rightarrow> abs_pub b w' = abs_pub b w \<and> (\<forall>t \<in> set h. abs_pub b t = abs_pub b w)" for w
    by (rule only_attestsE [OF only_attests_validate, of x b req w]) simp
  then show ?thesis by (simp add: silent_def)
qed

lemma silent_gitResult: "silent (abs_pub b) (gitResult x b args cwd helper)"
  unfolding gitResult_def
  by (intro silent_andThen) (auto simp: silent_def call_def fail_def ret_def look_def split: prod.splits)

lemma silent_remote:
  "silent (abs_pub b) (readRemoteRef x b wp ref helper)" "silent (abs_pub b) (pushRemote x b wp ref helper)"
  unfolding readRemoteRef_def pushRemote_def
  by (intro silent_andThen silent_gitResult silent_basic | simp split: option.split add: silent_andThen)+

section \<open>Publication refines the machine\<close>

abbreviation at_pub :: "broker \<Rightarrow> pub option \<Rightarrow> 'r world \<Rightarrow> bool" where
  "at_pub b a w \<equiv> abs_pub b w = a"

lemma refines_then_silent:
  assumes "silent (abs_pub b) m" "\<And>v. refines (abs_pub b) pub_move (at_pub b a) (g v) Q"
  shows "refines (abs_pub b) pub_move (at_pub b a) (andThen m g) Q"
  by (rule refines_andThen [OF refines_silent [OF assms(1)] assms(2)]) simp

lemma refines_any: "refines f R P m Q \<Longrightarrow> refines f R P m (\<lambda>_ _. True)"
  by (erule refines_weaken) simp_all

lemma refines_stutter: "silent (abs_pub b) m \<Longrightarrow> refines (abs_pub b) pub_move (at_pub b a) m (\<lambda>_ _. True)"
  by (rule refines_any [OF refines_silent]) simp_all

lemma refines_guarded:
  assumes "c \<Longrightarrow> refines f R P m Q"
  shows "refines f R P (andThen (guard c e) (\<lambda>_. m)) Q"
proof (rule refines_andThen [OF refines_guard])
  show "refines f R (\<lambda>s. P s \<and> c) m Q"
    using assms by (cases c) (simp_all add: refines_def)
qed

lemma refines_pushAndConfirm:
  assumes "case prior of None \<Rightarrow> True | Some s \<Rightarrow> SHA_test s" "prior = settled s"
  shows "refines (abs_pub b) pub_move (at_pub b (Some s)) (pushAndConfirm x b v ref prior helper) (\<lambda>_ _. True)"
proof -
  let ?mid = "Some (Pending prior (v_head v))"
  have b1: "pub_move (Some s) ?mid" using assms(2) by (auto simp: pub_move_def pub_step.begin_move)
  have c1: "pub_move ?mid (Some (Done (v_head v)))" by (auto simp: pub_move_def)
  have w1: "refines (abs_pub b) pub_move (at_pub b (Some s))
      (writePublishedState x b (v_head v) (v_base v) ''publishing'' prior) (\<lambda>_. at_pub b ?mid)"
    using refines_writePublished [of "''publishing''" prior "Some s" "v_head v" b x "v_base v"] assms(1) b1 by simp
  have w2: "refines (abs_pub b) pub_move (at_pub b ?mid)
      (writePublishedState x b (v_head v) (v_base v) ''published'' prior) (\<lambda>_. at_pub b (Some (Done (v_head v))))"
    using refines_writePublished [of "''published''" prior ?mid "v_head v" b x "v_base v"] assms(1) c1 by simp
  show ?thesis
    unfolding pushAndConfirm_def Let_def
    by (intro refines_andThen [OF w1] refines_then_silent [OF silent_remote(2)] refines_then_silent [OF silent_basic(4)]
        refines_then_silent [OF silent_remote(1)] refines_andThen [OF w2] refines_stutter silent_basic)
qed

lemma refines_publishFromRemote:
  assumes "readPublishState b w0 = Inr st"
  shows "refines (abs_pub b) pub_move (at_pub b (Some (state_of st)))
    (publishFromRemote x b v ref st before helper) (\<lambda>_ _. True)"
proof (cases "is_publishing st \<and> before = Some (target_of st)")
  case True
  then obtain p where p: "st = Some p" "ps_state p = ''publishing''" by (auto simp: is_publishing_def split: option.splits)
  then have s: "state_of st = Pending (ps_priorSha p) (target_of st)" by (simp add: state_of_def target_of_def)
  have "refines (abs_pub b) pub_move (at_pub b (Some (state_of st)))
      (writePublishedState x b (v_head v) (v_base v) ''published'' None) (\<lambda>_. at_pub b (Some (Done (v_head v))))"
    if "target_of st = v_head v"
    using refines_writePublished [of "''published''" None "Some (state_of st)" "v_head v" b x "v_base v"] that s
    by (simp add: pub_move_def)
  then have "refines (abs_pub b) pub_move (at_pub b (Some (state_of st)))
      (andThen (guard (target_of st = v_head v) e) (\<lambda>_. andThen (writePublishedState x b (v_head v) (v_base v) ''published'' None)
        (\<lambda>_. look (\<lambda>_. publishEvidence (b_sessionId b) (v_head v) (v_base v) ref ''recovered'')))) (\<lambda>_ _. True)" for e
    by (intro refines_guarded) (rule refines_andThen, assumption, rule refines_stutter, rule silent_basic)
  then show ?thesis
    using True unfolding publishFromRemote_def Let_def
    by (simp only: if_True simp_thms) (rule refines_then_silent [OF silent_basic(4)])
next
  case False
  have "refines (abs_pub b) pub_move (at_pub b (Some (state_of st))) (pushAndConfirm x b v ref (prior_of st) helper) (\<lambda>_ _. True)"
    using prior_settled [OF assms] by (intro refines_pushAndConfirm)
  with False show ?thesis
    unfolding publishFromRemote_def Let_def
    by (simp only: if_False) (intro refines_then_silent silent_basic; simp add: refines_stutter)
qed

text \<open>
  C4 (refinement).  Whatever Git, the remote and the credential runner answer, and whether the call
  returns or throws, the publish-state files that \<^verbatim>\<open>publishBranch\<close> leaves behind, write by
  write, are a run of the abstract machine: a move to a target is announced from the head the file
  recorded, before the push, and only an announced target is confirmed.
\<close>

theorem publish_refines_machine:
  fixes x :: "'r ext"
  shows "case publishBranch x b w of (r, w', h) \<Rightarrow>
    successively pub_move (map (abs_pub b) (w # h)) \<and> last (map (abs_pub b) (w # h)) = abs_pub b w'"
proof -
  have k: "refines (abs_pub b) pub_move (\<lambda>w. at_pub b a w \<and> readPublishState b w = Inr st)
      (withCredential x (\<lambda>helper. andThen (readRemoteRef x b wp ref helper)
        (\<lambda>remoteBefore. publishFromRemote x b v ref st remoteBefore helper))) (\<lambda>_ _. True)" for a st wp ref v
  proof (rule refines_fact [where c = "\<exists>w0. readPublishState b (w0 :: 'r world) = Inr st \<and> a = Some (state_of st)"])
    show "\<exists>w0. readPublishState b (w0 :: 'r world) = Inr st \<and> a = Some (state_of st)"
      if "at_pub b a s \<and> readPublishState b s = Inr st" for s :: "'r world"
      using that abs_pub_read [of b s st] by (intro exI [of _ s]) simp
    assume "\<exists>w0. readPublishState b (w0 :: 'r world) = Inr st \<and> a = Some (state_of st)"
    then obtain w0 :: "'r world" where w0: "readPublishState b w0 = Inr st" "a = Some (state_of st)" by blast
    show "refines (abs_pub b) pub_move (\<lambda>w. at_pub b a w \<and> readPublishState b w = Inr st)
      (withCredential x (\<lambda>helper. andThen (readRemoteRef x b wp ref helper)
        (\<lambda>remoteBefore. publishFromRemote x b v ref st remoteBefore helper))) (\<lambda>_ _. True)"
      unfolding withCredential_def w0(2)
      by (rule refines_weaken [where P' = "at_pub b (Some (state_of st))" and Q' = "\<lambda>_ _. True"])
        (intro refines_then_silent [OF silent_basic(1)] refines_then_silent [OF silent_basic(4)]
          refines_then_silent [OF silent_remote(1)] refines_publishFromRemote [OF w0(1)], simp_all)
  qed
  have "refines (abs_pub b) pub_move (at_pub b (abs_pub b w)) (publishBranch x b) (\<lambda>_ _. True)"
    unfolding publishBranch_def
    by (intro refines_then_silent [OF silent_validate] refines_then_silent [OF silent_basic(4)]
        refines_then_silent [OF silent_basic(1)] refines_andThen [OF refines_look k])
  then show ?thesis
    by (auto simp: refines_def path_to_def split: prod.splits)
qed

section \<open>Interrupted publications\<close>

lemma forA_addAttested: "forA addAttested shas w = (Inr (), w\<lparr>w_attested := w_attested w \<union> set shas\<rparr>, [])"
  by (induction shas arbitrary: w) (simp_all add: ret_def andThen_def addAttested_def)

lemma validate_attested:
  assumes "runs (validateLocalPublishState x b False) w v w1" "set (v_commits v) \<subseteq> w_attested w1"
  shows "runs (validateLocalPublishState x b True) w v w1"
  using assms unfolding validateLocalPublishState_def Let_def
  by (auto simp: run_simps list_all_iff subset_iff)

text \<open>The pending target restores the attestations of its whole history.\<close>

lemma pending_restores:
  assumes "readPublishState b w = Inr (Some p)" "ps_state p = ''publishing''"
    and "runs (validateLocalPublishState x b False) w v w1" "ps_targetSha p = v_head v"
    and "isAncestor x b w (v_head v) (v_head v) (wr_workspacePath (v_record v)) = Inr True"
  shows "set (v_commits v) \<subseteq> w_attested w1"
proof -
  note V = runs_validate [OF assms(3)]
  let ?wp = "wr_workspacePath (v_record v)" and ?base = "v_base v" and ?head = "v_head v"
  obtain wa where
    r: "runs (restorePublishedAttestations x b (v_record v) ?base ?head) w () wa" and
    e: "runs (restoreAttachmentRecoveryAttestation x b (v_record v) ?base ?head) wa () w1"
    using assms(3) unfolding validateLocalPublishState_def Let_def by (auto simp: run_simps)
  have "both_ancestors x b w ?base ?head ?head ?wp = Inr True"
    using V(4) assms(5) by (simp add: both_ancestors_def)
  then have "runs (restorePublishedAttestations x b (v_record v) ?base ?head) w () (w\<lparr>w_attested := w_attested w \<union> set (v_commits v)\<rparr>)"
    using assms(1,2,4) V(3,5)
    by (auto simp: restorePublishedAttestations_def restoreTarget_def trusted_target_def run_simps forA_addAttested
        runs_def [of "forA addAttested (v_commits v)"])
  then have "wa = w\<lparr>w_attested := w_attested w \<union> set (v_commits v)\<rparr>"
    using r by (auto simp: runs_def)
  moreover have "w_attested wa \<subseteq> w_attested w1"
    using only_attests_runs [OF only_attests_restore(2) e] by auto
  ultimately show ?thesis by auto
qed

text \<open>
  C5 (liveness).  A publication that crashed after the push and before the confirming write is
  resumed: after the restart the attested set is empty, but the pending file names the target, and
  when the head is still that target and the remote answers with it, the next
  \<^verbatim>\<open>publishBranch\<close> returns, reports the recovery and leaves the head confirmed.  What is
  assumed of the outside: the workspace passes the checks that need no attestation, a commit is its
  own ancestor, the credential runner answers, and \<^verbatim>\<open>ls-remote\<close> reads the target.
\<close>

theorem interrupted_publish_recovers:
  assumes "readPublishState b w = Inr (Some p)" "ps_state p = ''publishing''"
    and "runs (validateLocalPublishState x b False) w v w1" "ps_targetSha p = v_head v" "v_commits v \<noteq> []"
    and "isAncestor x b w (v_head v) (v_head v) (wr_workspacePath (v_record v)) = Inr True"
    and "x_credential x (w_repo w) = Inr helper" "is_absolute helper"
    and "runs (readRemoteRef x b (wr_workspacePath (v_record v)) (S6_REMOTE_REF_PREFIX @ b_sessionId b) helper)
      w1 (Some (v_head v)) w2"
  shows "\<exists>ev w'. runs (publishBranch x b) w ev w' \<and> ev_status ev = ''recovered'' \<and> ev_commit ev = v_head v
    \<and> abs_pub b w' = Some (Done (v_head v))"
proof -
  note V = runs_validate [OF assms(3)]
  have v: "runs (validateLocalPublishState x b True) w v w1"
    by (rule validate_attested [OF assms(3) pending_restores [OF assms(1-4,6)]])
  obtain A where w1: "w1 = w\<lparr>w_attested := A\<rparr>" using V(10) by blast
  have sid: "SESSION_test (b_sessionId b)" using readPublishState_valid(5) [OF assms(1)] .
  obtain r where w2: "w2 = w1\<lparr>w_repo := r\<rparr>" using runs_readRemoteRef [OF assms(9)] by blast
  have base: "SHA_test (v_base v)"
    using V(1,2) by (auto simp: validateRegisteredWorkspaceRecord_def Let_def bindE_Inr)
  define w' where "w' = w2\<lparr>w_files := (w_files w2)(publishStatePath b \<mapsto>
    publish_json (b_sessionId b) (S6_BRANCH_PREFIX @ ''/'' @ b_sessionId b) (S6_REMOTE_REF_PREFIX @ b_sessionId b)
      (v_head v) (v_base v) None ''published'' (x_now x (w_repo w2)))\<rparr>"
  define ev where "ev = \<lparr>ev_repository = S6_REPOSITORY_ALIAS, ev_sessionId = b_sessionId b,
    ev_branch = S6_BRANCH_PREFIX @ ''/'' @ b_sessionId b, ev_remoteRef = S6_REMOTE_REF_PREFIX @ b_sessionId b,
    ev_baseCommit = v_base v, ev_commit = v_head v, ev_remoteSha = v_head v, ev_status = ''recovered''\<rparr>"
  have "runs (writePublishedState x b (v_head v) (v_base v) ''published'' None) w2 () w'"
    unfolding runs_writePublished w'_def using V(3) base sid by simp
  then have "runs (publishFromRemote x b v (S6_REMOTE_REF_PREFIX @ b_sessionId b) (Some p) (Some (v_head v)) helper) w2 ev w'"
    using assms(2,4) sid
    by (simp add: publishFromRemote_def Let_def is_publishing_def target_of_def run_simps publishEvidence_Inr ev_def)
  moreover have "s6RemoteRefForSession (b_sessionId b) = Inr (S6_REMOTE_REF_PREFIX @ b_sessionId b)"
    using sid by (simp add: result_simps)
  moreover have "readPublishState b w1 = Inr (Some p)" "x_credential x (w_repo w1) = Inr helper"
    using assms(1,7) by (simp_all add: w1)
  ultimately have "runs (publishBranch x b) w ev w'"
    using v assms(5,8,9) unfolding publishBranch_def withCredential_def
    by (simp add: run_simps) blast
  moreover have "abs_pub b w' = Some (Done (v_head v))"
    using abs_after_write [OF sid V(3), of "''published''" None w2] by (simp add: w'_def)
  ultimately show ?thesis by (intro exI [of _ ev] exI [of _ w']) (simp add: ev_def)
qed

section \<open>The transition that is not a step of the machine\<close>

lemma readPublish_files:
  "w_files u (publishStatePath b) = w_files w (publishStatePath b) \<Longrightarrow> readPublishState b u = readPublishState b w"
  by (simp add: readPublishState_def readJson_def)

lemma ready_forgets:
  assumes "runs (recoverPublish x b) w (True, ''ready'') w'"
  shows "\<exists>p (v :: validation). readPublishState b w = Inr (Some p) \<and> ps_state p = ''publishing''
    \<and> readPublishState b w' = Inr None
    \<and> (\<exists>wa wb helper. runs (readRemoteRef x b (wr_workspacePath (v_record v)) (ps_remoteRef p) helper) wa (ps_priorSha p) wb)"
proof -
  obtain st where st: "readPublishState b w = Inr st"
    "runs (case st of None \<Rightarrow> ret (False, ''none'')
      | Some p \<Rightarrow> if ps_state p \<noteq> ''publishing'' then ret (False, ps_state p) else resumePublish x b p) w (True, ''ready'') w'"
    using assms unfolding recoverPublish_def by (auto simp: run_simps)
  then obtain p where p: "st = Some p" "ps_state p = ''publishing''" "runs (resumePublish x b p) w (True, ''ready'') w'"
    by (cases st) (auto simp: run_simps split: if_splits)
  then obtain v :: validation and w1 w2 helper where
    "runs (readRemoteRef x b (wr_workspacePath (v_record v)) (ps_remoteRef p) helper) w1 (ps_priorSha p) w2"
    "runs (rmSync (publishStatePath b)) w2 () w'"
    unfolding resumePublish_def withCredential_def
    by (auto simp: run_simps split: if_splits)
  then have "readPublishState b w' = Inr None" by (simp add: readPublishState_def readJson_def rmSync_def run_simps)
  with st(1) p \<open>runs (readRemoteRef _ _ _ _ _) _ _ _\<close> show ?thesis by blast
qed


end
