(* ===== verification/BrokerDemo.thy ===== *)
theory BrokerDemo
  imports BrokerRefine
begin

text \<open>
  A concrete outside for the broker: a clone whose history is the base commit and two commits on top
  of it, one file, and a remote that answers as Git does.  The state \<open>(head, remote)\<close> is the
  local head and the head of the session's remote branch.  It shows that the hypotheses of the
  broker's properties can hold, and the witnesses run the broker's operations on it.
\<close>

type_synonym demo_repo = "string \<times> string option"

definition demo_sid :: string where "demo_sid = ''s6-demo-0123456789abcdef''"
definition demo_root :: string where "demo_root = ''/srv/chatgpt-local-bridge-s6-demo''"
definition demo_broker :: broker where
  "demo_broker = \<lparr>b_managerRoot = demo_root, b_bridgeRoot = ''/srv/bridge'', b_sessionId = demo_sid\<rparr>"

definition demo_base :: string where "demo_base = replicate 40 CHR ''a''"
definition demo_first :: string where "demo_first = replicate 40 CHR ''b''"
definition demo_second :: string where "demo_second = replicate 40 CHR ''c''"

text \<open>The ancestry: a commit with its ancestors above the base, newest first.\<close>

definition demo_above :: "string \<Rightarrow> string list" where
  "demo_above sha =
    (if sha = demo_first then [demo_first] else if sha = demo_second then [demo_second, demo_first] else [])"

definition demo_parent :: "string \<Rightarrow> string" where
  "demo_parent sha = (if sha = demo_second then demo_first else demo_base)"

definition demo_ancestor :: "string \<Rightarrow> string \<Rightarrow> bool" where
  "demo_ancestor a d = (a = d \<or> a = demo_base \<or> a \<in> set (demo_above d))"

definition demo_ok :: "string \<Rightarrow> proc_result" where
  "demo_ok out = \<lparr>p_status = Some 0, p_stdout = out, p_stderr = []\<rparr>"
definition demo_status :: "int \<Rightarrow> proc_result" where
  "demo_status n = \<lparr>p_status = Some n, p_stdout = [], p_stderr = []\<rparr>"

text \<open>The arguments after the broker's or the policy helper's fixed options.\<close>

definition demo_args :: "string list \<Rightarrow> string list" where
  "demo_args argv =
    (let probe = tl (dropWhile (\<lambda>s. s \<noteq> ''core.excludesFile=/dev/null'') argv);
         own = tl (dropWhile (\<lambda>s. s \<noteq> ''credential.helper='') argv)
     in if ''core.excludesFile=/dev/null'' \<in> set argv then probe
        else if take 1 own = [''-c''] then drop 2 own else own)"

definition demo_entry :: string where
  "demo_entry = ''100644 blob '' @ replicate 40 CHR ''d'' @ [tab] @ ''README.md'' @ [nul]"

definition demo_file :: string where "demo_file = ''README.md'' @ [nul]"

definition demo_reply :: "demo_repo \<Rightarrow> string list \<Rightarrow> proc_result" where
  "demo_reply r args =
    (let sub = (if args = [] then [] else hd args) in
     if args = [''rev-parse'', ''HEAD''] then demo_ok (fst r @ [nl])
     else if args = [''rev-parse'', ''--is-shallow-repository''] then demo_ok ''false''
     else if sub = ''rev-parse'' then demo_ok (replicate 40 CHR ''e'')
     else if sub = ''branch'' then demo_ok (S6_BRANCH_PREFIX @ ''/'' @ demo_sid)
     else if sub = ''remote'' then demo_ok (S6_REMOTE_NAME @ [nl])
     else if args = [''config'', ''--local'', ''--get-all'', ''remote.origin.url''] then demo_ok S6_REPOSITORY_URL
     else if args = [''config'', ''--local'', ''--get-all'', ''remote.origin.pushurl''] then demo_status 1
     else if args = [''config'', ''--local'', ''--get-all'', ''remote.origin.fetch''] then demo_ok S6_STANDARD_FETCH_REFSPEC
     else if args = [''config'', ''--local'', ''--get'', ''core.hooksPath''] then demo_ok S6_GOVERNANCE_HOOKS_PATH
     else if sub = ''config'' then demo_ok (''core.bare'' @ [nl] @ ''remote.origin.url'')
     else if sub = ''status'' then demo_ok []
     else if sub = ''merge-base'' then demo_status (if demo_ancestor (args ! 2) (args ! 3) then 0 else 1)
     else if take 3 args = [''rev-list'', ''--parents'', ''-n''] then demo_ok (args ! 4 @ '' '' @ demo_parent (args ! 4))
     else if sub = ''rev-list'' then
       demo_ok (join [nl] (map (\<lambda>c. c @ '' '' @ demo_parent c) (demo_above (drop 42 (args ! 2)))))
     else if sub = ''ls-tree'' then demo_ok demo_entry
     else if sub = ''diff'' then demo_ok demo_file
     else if sub = ''diff-tree'' then demo_ok demo_file
     else if sub = ''show'' then demo_ok ''subject''
     else if sub = ''ls-files'' then demo_ok []
     else demo_status 1)"

definition demo_git :: "demo_repo \<Rightarrow> string list \<Rightarrow> string \<Rightarrow> (string \<times> string) list \<Rightarrow> proc_result" where
  "demo_git r argv cwd env = demo_reply r (demo_args argv)"

definition demo_ref :: string where "demo_ref = S6_REMOTE_REF_PREFIX @ demo_sid"

definition demo_answer :: "demo_repo \<Rightarrow> string list \<Rightarrow> proc_result \<times> demo_repo" where
  "demo_answer r args =
    (let sub = (if args = [] then [] else hd args) in
     if sub = ''ls-remote'' then
       (demo_ok (case snd r of None \<Rightarrow> [] | Some sha \<Rightarrow> sha @ [tab] @ demo_ref @ [nl]), r)
     else if sub = ''push'' then
       (demo_ok (''HEAD:'' @ demo_ref @ [tab]
          @ (case snd r of None \<Rightarrow> ''[new branch]'' | Some sha \<Rightarrow> sha @ ''..'' @ fst r)), (fst r, Some (fst r)))
     else (demo_ok [], r))"

definition demo_net :: "string list \<Rightarrow> string \<Rightarrow> (string \<times> string) list \<Rightarrow> demo_repo \<Rightarrow> proc_result \<times> demo_repo" where
  "demo_net argv cwd env r = demo_answer r (demo_args argv)"

definition demo_dir :: fstat where
  "demo_dir = \<lparr>st_kind = ''directory'', st_mode = 448, st_uid = 501, st_dev = 1, st_ino = 2, st_birthtime = None\<rparr>"
definition demo_script :: fstat where
  "demo_script = \<lparr>st_kind = ''file'', st_mode = 493, st_uid = 501, st_dev = 1, st_ino = 3, st_birthtime = None\<rparr>"

definition demo_private :: fstat where
  "demo_private = \<lparr>st_kind = ''file'', st_mode = 384, st_uid = 501, st_dev = 1, st_ino = 4, st_birthtime = None\<rparr>"

definition demo_settings :: "string \<Rightarrow> string option" where
  "demo_settings n =
    (if n = ''S7B_COORDINATOR_STORE'' then Some ''/srv/store/work.db''
     else if n = ''S7B_COORDINATOR_ARTIFACT_SHA256'' then Some ''3e528011ce130797af25aeca2f1bb1faea294cd46838cfbadffc488cd9463f96''
     else if n = ''S7B_COORDINATOR_SAFETY_GENERATION'' then Some ''7''
     else if n = ''S7B_COORDINATOR_BOOT_IDENTITY'' then Some ''boot''
     else if n = ''S7B_COORDINATOR_PYTHON'' then Some ''/usr/bin/python3''
     else if n = ''S7B_COORDINATOR_DRIVER'' then Some ''/srv/s7b-coordinator-driver.py''
     else None)"

definition demo_lstat :: "string \<Rightarrow> fstat" where
  "demo_lstat p =
    (if endsWith p ''pre-commit'' \<or> endsWith p ''.mjs'' \<or> endsWith p ''.md'' then demo_script
     else if endsWith p ''.json'' \<or> endsWith p ''.db'' then demo_private else demo_dir)"

definition demo :: "demo_repo ext" where
  "demo = \<lparr>x_git = demo_git, x_net = demo_net, x_credential = (\<lambda>_. Inr ''/usr/bin/helper''),
    x_exists = (\<lambda>_ _. True), x_realpath = (\<lambda>_ p. Inr p),
    x_lstat = (\<lambda>_ p. Some (demo_lstat p)),
    x_readFile = (\<lambda>_ p. Inr (if endsWith p ''pre-commit'' then S6_REVIEWED_HOOK_SOURCE else ''policy'')),
    x_readdir = (\<lambda>_ _. []), x_sha256 = (\<lambda>_. REVIEWED_POLICY_SHA256), x_now = (\<lambda>_. ''now''),
    x_environ = demo_settings, x_cwd = ''/srv'', x_uid = 501, x_platform = ''linux''\<rparr>"

definition demo_wp :: string where "demo_wp = demo_root @ ''/sessions/'' @ demo_sid"
definition demo_statePath :: string where "demo_statePath = demo_root @ ''/manager-state/'' @ demo_sid @ ''.json''"
definition demo_govRoot :: string where "demo_govRoot = demo_root @ ''/governance/'' @ demo_sid @ ''-0123456789abcdef''"
definition demo_branch :: string where "demo_branch = S6_BRANCH_PREFIX @ ''/'' @ demo_sid"

definition demo_record :: json where
  "demo_record = JObj
    [(''kind'', JStr ''workspace''), (''sessionId'', JStr demo_sid), (''state'', JStr ''active''),
     (''source'', JStr S6_REPOSITORY_URL), (''branch'', JStr demo_branch),
     (''workspacePath'', JStr demo_wp),
     (''statePath'', JStr demo_statePath),
     (''expectedBaseCommit'', JStr demo_base), (''sourceCommit'', JStr demo_base),
     (''coreHooksPath'', JStr S6_GOVERNANCE_HOOKS_PATH),
     (''governanceHostRoot'', JStr demo_govRoot)]"

definition demo_world :: "string \<Rightarrow> string option \<Rightarrow> json option \<Rightarrow> string set \<Rightarrow> demo_repo world" where
  "demo_world head remote publish attested =
    \<lparr>w_repo = (head, remote),
     w_files = (\<lambda>p. if p = path_join (stateRoot demo_broker) (demo_sid @ ''.json'') then Some demo_record
        else if p = publishStatePath demo_broker then publish else None),
     w_attested = attested\<rparr>"

definition demo_evidence :: "string \<Rightarrow> string \<Rightarrow> evidence" where
  "demo_evidence head status =
    \<lparr>ev_repository = S6_REPOSITORY_ALIAS, ev_sessionId = demo_sid, ev_branch = S6_BRANCH_PREFIX @ ''/'' @ demo_sid,
     ev_remoteRef = demo_ref, ev_baseCommit = demo_base, ev_commit = head, ev_remoteSha = head, ev_status = status\<rparr>"

section \<open>Evaluation\<close>

text \<open>
  The demo runs by rewriting: the Git plumbing once for all arguments, then the closed computations
  on its outputs.
\<close>

named_theorems demo_simps "evaluation of the demo"

lemma demo_sel [demo_simps]:
  "x_git demo = demo_git" "x_net demo = demo_net" "x_credential demo r = Inr ''/usr/bin/helper''"
  "x_exists demo r p" "x_realpath demo r p = Inr p" "x_readdir demo r p = []"
  "x_lstat demo r p = Some (demo_lstat p)"
  "x_readFile demo r p = Inr (if endsWith p ''pre-commit'' then S6_REVIEWED_HOOK_SOURCE else ''policy'')"
  "x_sha256 demo t = REVIEWED_POLICY_SHA256" "x_now demo r = ''now''" "x_environ demo n = demo_settings n"
  "x_cwd demo = ''/srv''" "x_uid demo = 501" "x_platform demo = ''linux''"
  by (simp_all add: demo_def)

definition demo_env :: "(string \<times> string) list" where
  "demo_env = projr (gitEnvironment demo demo_broker (demo_first, None))"

lemma demo_environment [demo_simps]: "gitEnvironment demo demo_broker r = Inr demo_env"
  by (simp add: gitEnvironment_def demo_env_def ensureGitIsolationRoots_def ensurePrivateEmptyDirectory_def
      demo_sel demo_lstat_def demo_settings_def demo_dir_def isDirectory_def isSymbolicLink_def endsWith_def brokerHooksRoot_def brokerTemplateRoot_def
      demo_broker_def demo_root_def path_join_def)

lemma demo_hooks: "is_absolute (brokerHooksRoot demo_broker) \<and> brokerHooksRoot demo_broker \<noteq> ''/''"
  by (simp add: brokerHooksRoot_def demo_broker_def demo_root_def path_join_def is_absolute_def)

lemma demo_args_own:
  assumes "gitArgs args cwd dh (brokerHooksRoot demo_broker) helper = Inr argv"
    and "''core.excludesFile=/dev/null'' \<notin> set args" and "take 1 args \<noteq> [''-c'']"
  shows "demo_args (''git'' # argv) = args"
  using assms
  by (cases helper; cases args) (auto simp: gitArgs_def demo_args_def split: if_splits)

lemma demo_gitArgs: "\<exists>argv. gitArgs args cwd dh (brokerHooksRoot demo_broker) [] = Inr argv"
  using demo_hooks by (simp add: gitArgs_def)

lemma demo_output [demo_simps]:
  assumes "''core.excludesFile=/dev/null'' \<notin> set args" and "take 1 args \<noteq> [''-c'']"
  shows "gitOutput_opt demo demo_broker r args cwd dh =
    (if p_status (demo_reply r args) \<noteq> Some 0
     then throw (''S6 Git inspection failed: '' @ sanitizeGitError (child_text (demo_reply r args)))
     else Inr (p_stdout (demo_reply r args)))"
    and "gitStatus demo demo_broker r args cwd = Inr (demo_reply r args)"
proof -
  obtain argv where a: "gitArgs args cwd dh (brokerHooksRoot demo_broker) [] = Inr argv" using demo_gitArgs by blast
  obtain argv' where a': "gitArgs args cwd True (brokerHooksRoot demo_broker) [] = Inr argv'" using demo_gitArgs by blast
  show "gitOutput_opt demo demo_broker r args cwd dh =
    (if p_status (demo_reply r args) \<noteq> Some 0
     then throw (''S6 Git inspection failed: '' @ sanitizeGitError (child_text (demo_reply r args)))
     else Inr (p_stdout (demo_reply r args)))"
    using demo_args_own [OF a assms] a
    by (simp add: gitOutput_opt_def gitStatusWithCredential_def demo_environment demo_sel demo_git_def)
  show "gitStatus demo demo_broker r args cwd = Inr (demo_reply r args)"
    using demo_args_own [OF a' assms] a'
    by (simp add: gitStatus_def demo_environment demo_sel demo_git_def)
qed

lemma demo_call [demo_simps]:
  assumes "''core.excludesFile=/dev/null'' \<notin> set args" and "take 1 args \<noteq> [''-c'']"
    and "helper = ''/usr/bin/helper''"
  shows "gitResult demo demo_broker args cwd helper w =
    (let res = fst (demo_answer (w_repo w) args); w' = w\<lparr>w_repo := snd (demo_answer (w_repo w) args)\<rparr> in
     if p_status res \<noteq> Some 0
     then (throw (''S6 Git operation failed: '' @ sanitizeGitError (child_text res)), w', [w'])
     else (Inr res, w', [w']))"
proof -
  obtain argv where a: "gitArgs args cwd True (brokerHooksRoot demo_broker) helper = Inr argv"
    using demo_hooks assms(3) by (simp add: gitArgs_def is_absolute_def)
  show ?thesis
    using demo_args_own [OF a assms(1,2)] a
    by (simp add: gitResult_def andThen_def look_def call_def demo_environment demo_sel demo_net_def
        fail_def ret_def throw_def Let_def split_beta)
qed

text \<open>A run of the model is read off its result.\<close>

lemma runs_of_result:
  assumes "fst (m w) = Inr v"
  shows "runs m w v (fst (snd (m w)))"
  using assms by (cases "m w") (auto simp: runs_def)

subsection \<open>The checks on the demo\<close>

definition demo_rec :: workspace_record where
  "demo_rec =
    \<lparr>wr_sessionId = demo_sid, wr_state = ''active'', wr_source = S6_REPOSITORY_URL, wr_branch = demo_branch,
     wr_workspacePath = demo_wp, wr_statePath = demo_statePath,
     wr_expectedBaseCommit = demo_base, wr_sourceCommit = demo_base, wr_coreHooksPath = S6_GOVERNANCE_HOOKS_PATH,
     wr_governanceHostRoot = demo_govRoot\<rparr>"

lemma demo_session [demo_simps]: "SESSION_test demo_sid" "b_sessionId demo_broker = demo_sid"
  "assertSessionId demo_sid = Inr ()" "s6BranchForSession demo_sid = Inr demo_branch"
  "s6RemoteRefForSession demo_sid = Inr demo_ref" "BRANCH_test demo_branch"
proof -
  show s: "SESSION_test demo_sid" by code_simp
  show "b_sessionId demo_broker = demo_sid" by (simp add: demo_broker_def)
  show "assertSessionId demo_sid = Inr ()" using s by simp
  show "s6BranchForSession demo_sid = Inr demo_branch" "s6RemoteRefForSession demo_sid = Inr demo_ref"
    using s by (simp_all add: result_simps demo_branch_def demo_ref_def)
  show "BRANCH_test demo_branch" unfolding demo_branch_def by (rule SESSION_branch [OF s])
qed

lemma demo_paths [demo_simps]:
  "path_resolve ''/srv'' demo_wp = path_join (sessionsRoot demo_broker) demo_sid"
  "path_resolve ''/srv'' demo_statePath
    = path_join (stateRoot demo_broker) (demo_sid @ ''.json'')"
  "path_join (sessionsRoot demo_broker) demo_sid = demo_wp"
  by code_simp+

lemma demo_shas [demo_simps]: "SHA_test demo_base" "SHA_test demo_first" "SHA_test demo_second"
  by (simp_all add: SHA_test_def demo_base_def demo_first_def demo_second_def)

lemma demo_distinct [demo_simps]:
  "demo_base \<noteq> demo_first" "demo_first \<noteq> demo_base" "demo_base \<noteq> demo_second" "demo_second \<noteq> demo_base"
  "demo_first \<noteq> demo_second" "demo_second \<noteq> demo_first" "demo_base \<noteq> []" "demo_first \<noteq> []" "demo_second \<noteq> []"
  by (simp_all add: demo_base_def demo_first_def demo_second_def)

lemma demo_read [demo_simps]: "readWorkspaceState demo_broker (demo_world h r p A) demo_sid = Inr demo_rec"
  by (simp add: readWorkspaceState_def readJson_def demo_world_def demo_session demo_record_def has_str_def
      workspace_of_json_def field_def demo_rec_def)

lemma demo_registered [demo_simps]:
  "validateRegisteredWorkspaceRecord demo demo_broker (demo_world h r p A) = Inr demo_rec"
  by (simp add: validateRegisteredWorkspaceRecord_def demo_simps demo_rec_def workspacePath_def)

lemma demo_repo [demo_simps]: "w_repo (demo_world h r p A) = (h, r)" "w_attested (demo_world h r p A) = A"
  by (simp_all add: demo_world_def)

lemma demo_governed_root:
  "isWithin ''/srv'' (path_resolve ''/srv'' demo_govRoot) (governanceRoot demo_broker)"
  "path_basename (path_resolve ''/srv'' demo_govRoot) = demo_sid @ ''-0123456789abcdef''"
  "path_resolve ''/srv'' demo_govRoot = demo_govRoot"
  "mode_has 493 73"
  by code_simp+

lemma endsWith_join [simp]: "endsWith (path_join a b) b"
  by (auto simp: endsWith_iff path_join_def)

lemma demo_governance [demo_simps]:
  "validateManagerGovernance demo demo_broker w demo_rec = Inr ()"
proof -
  have "\<not> endsWith (path_join d ''pre-commit-policy.mjs'') ''pre-commit''"
    "endsWith (path_join d ''pre-commit-policy.mjs'') ''.mjs''" for d
    by (auto simp: endsWith_def path_join_def)
  then show ?thesis
    by (simp add: validateManagerGovernance_def demo_simps demo_lstat_def demo_rec_def demo_governed_root(1,2)
        demo_script_def isFile_def isSymbolicLink_def demo_governed_root(4) hex_exact_def is_hex_def)
qed

lemma demo_replies [demo_simps]:
  "demo_reply r [''branch'', ''--show-current''] = demo_ok demo_branch"
  "demo_reply r [''rev-parse'', ''HEAD''] = demo_ok (fst r @ [nl])"
  "demo_reply r [''rev-parse'', ''--is-shallow-repository''] = demo_ok ''false''"
  "demo_reply r [''remote''] = demo_ok (S6_REMOTE_NAME @ [nl])"
  "demo_reply r [''config'', ''--local'', ''--get-all'', ''remote.origin.url''] = demo_ok S6_REPOSITORY_URL"
  "demo_reply r [''config'', ''--local'', ''--get-all'', ''remote.origin.pushurl''] = demo_status 1"
  "demo_reply r [''config'', ''--local'', ''--get-all'', ''remote.origin.fetch''] = demo_ok S6_STANDARD_FETCH_REFSPEC"
  "demo_reply r [''config'', ''--local'', ''--get'', ''core.hooksPath''] = demo_ok S6_GOVERNANCE_HOOKS_PATH"
  "demo_reply r [''config'', ''--local'', ''--name-only'', ''--list''] = demo_ok (''core.bare'' @ [nl] @ ''remote.origin.url'')"
  "demo_reply r [''status'', ''--porcelain=v1'', ''--ignored'', ''--untracked-files=all''] = demo_ok []"
  "demo_reply r [''ls-tree'', ''-r'', ''-z'', ''HEAD''] = demo_ok demo_entry"
  "demo_reply r [''merge-base'', ''--is-ancestor'', a, d] = demo_status (if demo_ancestor a d then 0 else 1)"
  "demo_reply r [''ls-files'', ''-s'', ''-z''] = demo_ok []"
  "demo_reply r [''rev-parse'', ''--git-common-dir''] = demo_ok (replicate 40 CHR ''e'')"
  "demo_reply r [''rev-parse'', ''--verify'', ''refs/remotes/origin/main''] = demo_ok (replicate 40 CHR ''e'')"
  "demo_reply r [''diff'', ''--no-ext-diff'', ''--no-textconv'', ''--name-only'', ''-z'', rng] = demo_ok demo_file"
  "demo_reply r [''diff-tree'', ''--no-ext-diff'', ''--root'', ''--no-commit-id'', ''--name-only'', ''-r'', ''-z'', sha] = demo_ok demo_file"
  by (simp_all add: demo_reply_def Let_def demo_branch_def)

lemma demo_rev_list [demo_simps]:
  "demo_reply r [''rev-list'', ''--parents'', demo_base @ ''..'' @ t] =
     demo_ok (join [nl] (map (\<lambda>c. c @ '' '' @ demo_parent c) (demo_above t)))"
proof -
  have "drop 42 (demo_base @ ''..'' @ t) = t" by (simp add: demo_base_def)
  moreover have "demo_base @ ''..'' @ t \<noteq> ''-n''" by (simp add: demo_base_def numeral_nat)
  ultimately show ?thesis by (simp add: demo_reply_def Let_def del: append.simps)
qed

lemma demo_proc [demo_simps]:
  "p_status (demo_ok t) = Some 0" "p_stdout (demo_ok t) = t" "p_stderr (demo_ok t) = []"
  "p_status (demo_status n) = Some n" "p_stdout (demo_status n) = []" "p_stderr (demo_status n) = []"
  by (simp_all add: demo_ok_def demo_status_def)

lemma demo_texts [demo_simps]:
  "trim demo_branch = demo_branch" "trim ''false'' = ''false''" "trim [] = []"
  "join [nl] (lines_of (trim (S6_REMOTE_NAME @ [nl]))) = S6_REMOTE_NAME"
  "lines_of (trim S6_REPOSITORY_URL) = [S6_REPOSITORY_URL]"
  "lines_of (trim S6_STANDARD_FETCH_REFSPEC) = [S6_STANDARD_FETCH_REFSPEC]"
  "trim S6_GOVERNANCE_HOOKS_PATH = S6_GOVERNANCE_HOOKS_PATH"
  "lines_of (''core.bare'' @ [nl] @ ''remote.origin.url'') = [''core.bare'', ''remote.origin.url'']"
  by code_simp+

lemma demo_config [demo_simps]: "\<not> re_test REPOSITORY_CONFIG ''core.bare''" "\<not> re_test REPOSITORY_CONFIG ''remote.origin.url''"
  by code_simp+

lemma demo_git_dir: "\<not> endsWith (path_join d ''.git'') ''pre-commit''" "\<not> endsWith (path_join d ''.git'') ''.mjs''"
    "\<not> endsWith (path_join d ''.git'') ''.md''" "\<not> endsWith (path_join d ''.git'') ''.json''" "\<not> endsWith (path_join d ''.git'') ''.db''"
  by (auto simp: endsWith_def path_join_def)

lemma demo_identity [demo_simps]:
  "validateWorkspaceIdentity demo demo_broker w demo_wp demo_branch True clean = Inr ()"
  by (simp add: validateWorkspaceIdentity_def gitOutput_def demo_simps demo_git_dir demo_lstat_def demo_dir_def
        isDirectory_def isSymbolicLink_def clean_status_args_def Let_def del: append.simps)

definition demo_decision :: path_decision where
  "demo_decision = \<lparr>pd_allowed = True, pd_reason = ''allowed'', pd_path = ''README.md'', pd_highRisk = Some False\<rparr>"

lemma demo_classify: "classifyPublishPath ''README.md'' = demo_decision"
  by code_simp

lemma demo_classify_tree: "normalizeRepositoryName ''README.md'' = ''README.md''"
    "\<not> isHighRiskGovernancePath ''README.md''" "pd_allowed (classifyPolicyPath ''README.md'')"
proof -
  have a: "pd_allowed (classifyPublishPath ''README.md'')" by (simp add: demo_classify demo_decision_def)
  show "normalizeRepositoryName ''README.md'' = ''README.md''" by code_simp
  show "\<not> isHighRiskGovernancePath ''README.md''" "pd_allowed (classifyPolicyPath ''README.md'')"
    using publish_allowed [OF a] by simp_all
qed

lemma demo_entries [demo_simps]:
  "nonempty (split_on nul demo_entry) = [butlast demo_entry]" "nonempty (split_on nul demo_file) = [''README.md'']"
  "parse_ls_tree (butlast demo_entry) = Some \<lparr>ge_mode = ''100644'', ge_type = Some ''blob'',
     ge_object = replicate 40 CHR ''d'', ge_stage = None, ge_name = ''README.md''\<rparr>"
  "parseTreeEntry (butlast demo_entry) = Some \<lparr>ge_mode = ''100644'', ge_type = Some ''blob'',
     ge_object = replicate 40 CHR ''d'', ge_stage = None, ge_name = ''README.md''\<rparr>"
  by code_simp+

lemma demo_tree [demo_simps]: "validateTree demo demo_broker (demo_world h r p A) demo_wp True = Inr ()"
  by (simp add: validateTree_def treeEntries_def gitOutput_def demo_simps checkTreeEntry_def demo_classify_tree
      Let_def demo_lstat_def demo_script_def isSymbolicLink_def endsWith_def path_join_def)

lemma demo_probe_args: "demo_args (probe_argv root args l) = args" if "''core.excludesFile=/dev/null'' \<notin> set args"
  using that by (simp add: demo_args_def probe_argv_def Let_def)

lemma demo_ancestors [demo_simps]:
  "SHA_test a \<Longrightarrow> SHA_test d \<Longrightarrow> isAncestor demo demo_broker (demo_world h r p A) a d wp = Inr (demo_ancestor a d)"
proof -
  assume s: "SHA_test a" "SHA_test d"
  then have "a \<noteq> ''core.excludesFile=/dev/null''" "d \<noteq> ''core.excludesFile=/dev/null''"
    by (auto simp: SHA_test_def hex_exact_def)
  with s show ?thesis by (simp add: isAncestor_def assertSha_def demo_simps)
qed

lemma demo_changed [demo_simps]:
  "changedPaths demo demo_broker (demo_world h r p A) wp demo_base t = Inr [''README.md'']"
proof -
  have "''core.excludesFile=/dev/null'' \<noteq> demo_base @ ''..'' @ t"
    by (auto dest: arg_cong [where f = hd] simp: demo_base_def)
  then show ?thesis
    by (simp add: changedPaths_def gitOutput_def demo_simps del: append.simps)
qed

lemma demo_commit_changed [demo_simps]:
  "SHA_test sha \<Longrightarrow> commitChangedPaths demo demo_broker (demo_world h r p A) wp sha = Inr [''README.md'']"
proof -
  assume s: "SHA_test sha"
  then have "sha \<noteq> ''core.excludesFile=/dev/null''" by (auto simp: SHA_test_def hex_exact_def)
  then show ?thesis by (simp add: commitChangedPaths_def gitOutput_def demo_simps)
qed

lemma demo_publish_path [demo_simps]:
  assumes "candidate \<noteq> []" "candidate \<noteq> ''core.excludesFile=/dev/null''" "candidate @ ''^{tree}'' \<noteq> ''core.excludesFile=/dev/null''"
  shows "assertPublishPath demo (demo_world h r p A) wp ''README.md'' previous candidate = Inr ()"
  using assms
  by (simp add: assertPublishPath_def assertGovernedGitPath_def demo_settings_def demo_classify demo_decision_def gitProbe_def demo_simps
      demo_git_def demo_probe_args treeEntry_def demo_reply_def Let_def isRegularFileEntry_def)

lemma demo_graph [demo_simps]:
  "graphCommits demo demo_broker (demo_world h r p A) wp demo_base demo_first = Inr [demo_first]"
  "graphCommits demo demo_broker (demo_world h r p A) wp demo_base demo_second = Inr [demo_second, demo_first]"
proof -
  have ne: "''core.excludesFile=/dev/null'' \<noteq> demo_base @ ''..'' @ t" for t
    by (auto dest: arg_cong [where f = hd] simp: demo_base_def)
  have "mapE graph_row (lines_of (join [nl] (map (\<lambda>c. c @ '' '' @ demo_parent c) (demo_above demo_first)))) = Inr [demo_first]"
    "mapE graph_row (lines_of (join [nl] (map (\<lambda>c. c @ '' '' @ demo_parent c) (demo_above demo_second)))) = Inr [demo_second, demo_first]"
    by code_simp+
  with ne show "graphCommits demo demo_broker (demo_world h r p A) wp demo_base demo_first = Inr [demo_first]"
    "graphCommits demo demo_broker (demo_world h r p A) wp demo_base demo_second = Inr [demo_second, demo_first]"
    by (simp_all add: graphCommits_def gitOutput_def demo_simps del: append.simps)
qed

section \<open>Runs\<close>

lemma demo_rec_sel [demo_simps]: "wr_workspacePath demo_rec = demo_wp" "wr_expectedBaseCommit demo_rec = demo_base"
    "wr_branch demo_rec = demo_branch"
  by (simp_all add: demo_rec_def)

definition demo_pending :: "string option \<Rightarrow> string \<Rightarrow> json" where
  "demo_pending prior target = publish_json demo_sid demo_branch demo_ref target demo_base prior ''publishing'' ''now''"

definition demo_state :: "string option \<Rightarrow> string \<Rightarrow> publish_state" where
  "demo_state prior target =
    \<lparr>ps_state = ''publishing'', ps_targetSha = target, ps_publishedSha = [], ps_priorSha = prior,
     ps_remoteRef = demo_ref, ps_baseCommit = demo_base\<rparr>"

lemma demo_files:
  "w_files (demo_world h r p A) (publishStatePath demo_broker) = p"
  "w_files (demo_world h r p A) (attachmentRecoveryStatePath demo_broker) = None"
  using state_paths(3,4) [of demo_broker] state_paths(1,2) [of demo_broker]
  by (simp_all add: demo_world_def demo_session)

lemma demo_no_state [demo_simps]: "readPublishState demo_broker (demo_world h r None A) = Inr None"
    "readJson (demo_world h r p A) (attachmentRecoveryStatePath demo_broker) = None"
  by (simp_all add: readPublishState_def readJson_def demo_files)

lemma demo_pending_read [demo_simps]:
  assumes "SHA_test target" "case prior of None \<Rightarrow> True | Some s \<Rightarrow> SHA_test s"
  shows "readPublishState demo_broker (demo_world h r (Some (demo_pending prior target)) A) = Inr (Some (demo_state prior target))"
proof -
  have w: "w_files (demo_world h r (Some (demo_pending prior target)) A) (publishStatePath demo_broker)
      = Some (publish_json (b_sessionId demo_broker) (S6_BRANCH_PREFIX @ ''/'' @ b_sessionId demo_broker)
          (S6_REMOTE_REF_PREFIX @ b_sessionId demo_broker) target demo_base prior ''publishing'' ''now'')"
    by (simp add: demo_files demo_pending_def demo_session demo_branch_def demo_ref_def)
  show ?thesis
    using publish_json_read [OF _ assms(1) _ assms(2) w]
    by (simp add: demo_session demo_state_def demo_ref_def)
qed

lemma demo_head [demo_simps]:
  "SHA_test h \<Longrightarrow> trimmed demo demo_broker (demo_world h r p A) [''rev-parse'', ''HEAD''] wp = Inr h"
proof -
  assume "SHA_test h"
  then have "list_all (\<lambda>c. \<not> is_space c) h"
    by (auto simp: SHA_test_def hex_exact_def list_all_iff hex_not_space)
  then have "trim (h @ [nl]) = h" by (rule trim_line)
  then show ?thesis by (simp add: trimmed_def gitOutput_def demo_simps)
qed

definition demo_validation :: "string \<Rightarrow> string list \<Rightarrow> validation" where
  "demo_validation head commits =
    \<lparr>v_record = demo_rec, v_base = demo_base, v_head = head, v_commits = commits, v_changed = [''README.md'']\<rparr>"

text \<open>The whole validation, with and without the attestation check.\<close>

lemma demo_run_eq: "look f w = (f w, w, [])" "ret v w = (Inr v, w, [])"
  "guard c e w = (if c then Inr () else throw e, w, [])" "fail e w = (throw e, w, [])"
  by (simp_all add: look_def ret_def guard_def fail_def)

lemma demo_candidate [simp]:
  "SHA_test sha \<Longrightarrow> sha \<noteq> [] \<and> sha \<noteq> ''core.excludesFile=/dev/null'' \<and> sha @ ''^{tree}'' \<noteq> ''core.excludesFile=/dev/null''"
proof -
  assume "SHA_test sha"
  then have "length sha = 40" by (simp add: SHA_test_def hex_exact_def)
  then show ?thesis by (auto dest: arg_cong [where f = length])
qed

lemma demo_validate_fresh:
  assumes "\<not> req \<or> demo_first \<in> A"
  shows "validateLocalPublishState demo demo_broker req (demo_world demo_first r None A)
    = (Inr (demo_validation demo_first [demo_first]), demo_world demo_first r None A, [])"
proof -
  have a: "demo_ancestor demo_base demo_first" by (simp add: demo_ancestor_def)
  have c: "''HEAD'' \<noteq> ''core.excludesFile=/dev/null''" by simp
  show ?thesis
    using assms a
    by (simp add: validateLocalPublishState_def andThen_def demo_run_eq demo_simps Let_def assertSha_def
        restorePublishedAttestations_def restoreAttachmentRecoveryAttestation_def demo_validation_def)
qed

lemma demo_updates [demo_simps]:
  "(demo_world h r p A)\<lparr>w_repo := (h', r')\<rparr> = demo_world h' r' p A"
  "(demo_world h r p A)\<lparr>w_files := (w_files (demo_world h r p A))(publishStatePath demo_broker \<mapsto> J)\<rparr> = demo_world h r (Some J) A"
  "(demo_world h r p A)\<lparr>w_files := (w_files (demo_world h r p A))(publishStatePath demo_broker := None)\<rparr> = demo_world h r None A"
  "(demo_world h r p A)\<lparr>w_attested := B\<rparr> = demo_world h r p B"
  using state_paths(3) [of demo_broker]
  by (auto simp: demo_world_def demo_session fun_eq_iff)

lemma demo_ls_remote:
  assumes "case remote of None \<Rightarrow> True | Some s \<Rightarrow> s \<in> {demo_first, demo_second}"
  shows "readRemoteRef demo demo_broker wp demo_ref ''/usr/bin/helper'' (demo_world h remote p A)
    = (Inr remote, demo_world h remote p A, [demo_world h remote p A])"
proof -
  have r: "demo_ref \<noteq> ''core.excludesFile=/dev/null''" "assertRemoteRef demo_ref demo_sid = Inr ()"
    by (simp add: demo_ref_def S6_REMOTE_REF_PREFIX_def) (simp add: result_simps demo_simps demo_ref_def)
  have a: "demo_answer (h, remote) [''ls-remote'', ''--heads'', S6_REMOTE_NAME, demo_ref] =
    (demo_ok (case remote of None \<Rightarrow> [] | Some sha \<Rightarrow> sha @ [tab] @ demo_ref @ [nl]), (h, remote))"
    by (simp add: demo_answer_def Let_def)
  have p: "remote_ref_of (case remote of None \<Rightarrow> [] | Some sha \<Rightarrow> sha @ [tab] @ demo_ref @ [nl]) demo_ref = Inr remote"
  proof -
    have "remote_ref_of [] demo_ref = Inr None"
      "remote_ref_of (demo_first @ [tab] @ demo_ref @ [nl]) demo_ref = Inr (Some demo_first)"
      "remote_ref_of (demo_second @ [tab] @ demo_ref @ [nl]) demo_ref = Inr (Some demo_second)"
      by code_simp+
    with assms show ?thesis by (auto split: option.splits)
  qed
  have n: "S6_REMOTE_NAME \<noteq> ''core.excludesFile=/dev/null''" by (simp add: S6_REMOTE_NAME_def)
  have c: "gitResult demo demo_broker [''ls-remote'', ''--heads'', S6_REMOTE_NAME, demo_ref] wp ''/usr/bin/helper'' (demo_world h remote p A)
    = (Inr (demo_ok (case remote of None \<Rightarrow> [] | Some sha \<Rightarrow> sha @ [tab] @ demo_ref @ [nl])), demo_world h remote p A, [demo_world h remote p A])"
    using r(1) n by (subst demo_call) (auto simp: demo_simps a Let_def)
  show ?thesis
    by (simp add: readRemoteRef_def andThen_def demo_run_eq demo_simps r c p)
qed

lemma demo_push:
  "pushRemote demo demo_broker wp demo_ref ''/usr/bin/helper'' (demo_world demo_first None p A)
    = (Inr (None, demo_first), demo_world demo_first (Some demo_first) p A, [demo_world demo_first (Some demo_first) p A])"
proof -
  have r: "assertRemoteRef demo_ref demo_sid = Inr ()" by (simp add: result_simps demo_simps demo_ref_def)
  have a: "demo_answer (demo_first, None) [''push'', ''--porcelain'', S6_REMOTE_NAME, ''HEAD:'' @ demo_ref] =
    (demo_ok (''HEAD:'' @ demo_ref @ [tab] @ ''[new branch]''), (demo_first, Some demo_first))"
    by (simp add: demo_answer_def Let_def)
  have p: "parsePushReceipt (''HEAD:'' @ demo_ref @ [tab] @ ''[new branch]'' @ [nl]) demo_ref
    = Inr \<lparr>rc_oldSha = None, rc_newSha = None\<rparr>"
    by code_simp
  have n: "''core.excludesFile=/dev/null'' \<notin> set [''push'', ''--porcelain'', S6_REMOTE_NAME, ''HEAD:'' @ demo_ref]"
    by (simp add: S6_REMOTE_NAME_def)
  have c: "gitResult demo demo_broker [''push'', ''--porcelain'', S6_REMOTE_NAME, ''HEAD:'' @ demo_ref] wp ''/usr/bin/helper'' (demo_world demo_first None p A)
    = (Inr (demo_ok (''HEAD:'' @ demo_ref @ [tab] @ ''[new branch]'')), demo_world demo_first (Some demo_first) p A, [demo_world demo_first (Some demo_first) p A])"
    using n by (subst demo_call) (simp_all add: demo_simps a Let_def del: append.simps)
  show ?thesis
    unfolding pushRemote_def
    by (simp add: andThen_def demo_run_eq demo_simps r c p del: append.simps)
qed

lemma demo_write:
  assumes "SHA_test sha"
  shows "writePublishedState demo demo_broker sha demo_base state prior (demo_world h r p A)
    = (Inr (), demo_world h r (Some (publish_json demo_sid demo_branch demo_ref sha demo_base prior state ''now'')) A,
       [demo_world h r (Some (publish_json demo_sid demo_branch demo_ref sha demo_base prior state ''now'')) A])"
  using assms
  by (simp add: writePublishedState_def atomicWrite_def andThen_def demo_run_eq store_def demo_simps assertSha_def)

lemma demo_evidence_eq: "publishEvidence demo_sid head demo_base demo_ref status = Inr (demo_evidence head status)"
  by (simp add: publishEvidence_def demo_simps demo_evidence_def demo_branch_def)

text \<open>The first publication, from a broker that has attested the first commit.\<close>

lemma demo_publish:
  "publishBranch demo demo_broker (demo_world demo_first None None {demo_first}) =
    (Inr (demo_evidence demo_first ''published''),
     demo_world demo_first (Some demo_first)
       (Some (publish_json demo_sid demo_branch demo_ref demo_first demo_base None ''published'' ''now'')) {demo_first},
     [demo_world demo_first None None {demo_first},
      demo_world demo_first None (Some (demo_pending None demo_first)) {demo_first},
      demo_world demo_first (Some demo_first) (Some (demo_pending None demo_first)) {demo_first},
      demo_world demo_first (Some demo_first) (Some (demo_pending None demo_first)) {demo_first},
      demo_world demo_first (Some demo_first)
       (Some (publish_json demo_sid demo_branch demo_ref demo_first demo_base None ''published'' ''now'')) {demo_first}])"
  by (simp add: publishBranch_def withCredential_def publishFromRemote_def pushAndConfirm_def andThen_def demo_run_eq
      demo_simps demo_validate_fresh demo_validation_def demo_ls_remote demo_push demo_write demo_evidence_eq
      prior_of_def is_publishing_def is_absolute_def Let_def demo_pending_def)

text \<open>The same broker restarted after the push, before the confirming write.\<close>

lemma demo_ancestor_refl: "demo_ancestor a a" "demo_ancestor demo_base a"
  by (simp_all add: demo_ancestor_def)

lemma demo_validate_pending:
  "validateLocalPublishState demo demo_broker req (demo_world demo_first r (Some (demo_pending None demo_first)) A)
    = (Inr (demo_validation demo_first [demo_first]),
       demo_world demo_first r (Some (demo_pending None demo_first)) (insert demo_first A), [])"
proof -
  have b: "both_ancestors demo demo_broker (demo_world demo_first r (Some (demo_pending None demo_first)) A)
      demo_base demo_first demo_first demo_wp = Inr True"
    by (simp add: both_ancestors_def demo_simps demo_ancestor_refl)
  show ?thesis
    by (simp add: validateLocalPublishState_def andThen_def demo_run_eq demo_simps Let_def assertSha_def b
        restorePublishedAttestations_def restoreTarget_def trusted_target_def demo_state_def addAttested_def
        restoreAttachmentRecoveryAttestation_def demo_validation_def demo_ancestor_refl)
qed

end
