(* ===== verification/BrokerWitness.thy ===== *)
theory BrokerWitness
  imports BrokerDemo
begin

text \<open>
  The broker's properties applied to runs of the demo: its hypotheses hold there, so none of the
  theorems is vacuous.
\<close>

section \<open>Hypotheses on the demo\<close>

lemma demo_history: "history demo demo_broker demo_base (\<lambda>t. set (demo_above t))"
  unfolding history_def
proof (intro allI impI)
  fix w :: "demo_repo world" and wp target commits
  assume g: "graphCommits demo demo_broker w wp demo_base target = Inr commits"
  have ne: "''core.excludesFile=/dev/null'' \<noteq> demo_base @ ''..'' @ target"
    by (auto dest: arg_cong [where f = hd] simp: demo_base_def)
  have m: "mapE graph_row (lines_of (join [nl] (map (\<lambda>c. c @ '' '' @ demo_parent c) (demo_above target)))) = Inr (demo_above target)"
  proof -
    have "mapE graph_row (lines_of (join [nl] (map (\<lambda>c. c @ '' '' @ demo_parent c) (demo_above demo_first)))) = Inr (demo_above demo_first)"
      "mapE graph_row (lines_of (join [nl] (map (\<lambda>c. c @ '' '' @ demo_parent c) (demo_above demo_second)))) = Inr (demo_above demo_second)"
      "mapE graph_row (lines_of (join [nl] (map (\<lambda>c. c @ '' '' @ demo_parent c) []))) = Inr []"
      by code_simp+
    moreover have "target = demo_first \<or> target = demo_second \<or> demo_above target = []"
      by (simp add: demo_above_def)
    ultimately show ?thesis by auto
  qed
  have "graphCommits demo demo_broker w wp demo_base target = Inr (demo_above target)"
    using ne m by (simp add: graphCommits_def gitOutput_def demo_simps del: append.simps)
  with g show "set commits = set (demo_above target)" by simp
qed

lemma demo_attest:
  "attestCommit demo demo_broker demo_first (demo_world demo_first None None {})
    = (Inr demo_first, demo_world demo_first None None {demo_first}, [])"
  by (simp add: attestCommit_def andThen_def demo_run_eq demo_simps demo_validate_fresh assertSha_def
      demo_validation_def addAttested_def)

lemma demo_reachable: "reachable demo demo_broker demo_base (demo_world demo_first None None {demo_first}, {demo_first})"
proof -
  have "reachable demo demo_broker demo_base (demo_world demo_first None None {}, {})"
    by (rule reachable.start) (auto simp: demo_simps demo_files)
  moreover have "step demo demo_broker demo_base (demo_world demo_first None None {}, {})
      (demo_world demo_first None None {demo_first}, {demo_first})"
    using step.attest [of demo demo_broker demo_base "demo_world demo_first None None {}" "{}" demo_first]
    by (simp add: demo_attest after_def returns_def)
  ultimately show ?thesis by (rule reachable.next_state)
qed

lemma demo_publish_runs:
  "runs (publishBranch demo demo_broker) (demo_world demo_first None None {demo_first}) (demo_evidence demo_first ''published'')
    (demo_world demo_first (Some demo_first)
      (Some (publish_json demo_sid demo_branch demo_ref demo_first demo_base None ''published'' ''now'')) {demo_first})"
  by (simp add: runs_def demo_publish)

section \<open>Witnesses\<close>

theorem publish_only_attested_witness:
  "demo_first \<in> w_attested (demo_world demo_first None None {demo_first})
   \<and> (\<exists>rec commits. validateRegisteredWorkspaceRecord demo demo_broker (demo_world demo_first None None {demo_first}) = Inr rec
      \<and> commits \<noteq> [] \<and> set commits \<subseteq> {demo_first})"
  using publish_only_attested [OF demo_publish_runs] by (auto simp: demo_simps)



theorem interrupted_publish_recovers_witness:
  "\<exists>ev w'. runs (publishBranch demo demo_broker) (demo_world demo_first (Some demo_first) (Some (demo_pending None demo_first)) {}) ev w'
    \<and> ev_status ev = ''recovered'' \<and> ev_commit ev = demo_first \<and> abs_pub demo_broker w' = Some (Done demo_first)"
proof -
  let ?w = "demo_world demo_first (Some demo_first) (Some (demo_pending None demo_first)) {}"
  let ?w1 = "demo_world demo_first (Some demo_first) (Some (demo_pending None demo_first)) {demo_first}"
  let ?v = "demo_validation demo_first [demo_first]"
  have 1: "readPublishState demo_broker ?w = Inr (Some (demo_state None demo_first))" by (simp add: demo_simps)
  have 2: "ps_state (demo_state None demo_first) = ''publishing''" "ps_targetSha (demo_state None demo_first) = v_head ?v"
    "v_commits ?v \<noteq> []" by (simp_all add: demo_state_def demo_validation_def)
  have 3: "runs (validateLocalPublishState demo demo_broker False) ?w ?v ?w1"
    by (simp add: runs_def demo_validate_pending)
  have 4: "isAncestor demo demo_broker ?w (v_head ?v) (v_head ?v) (wr_workspacePath (v_record ?v)) = Inr True"
    by (simp add: demo_validation_def demo_simps demo_ancestor_refl)
  have 5: "x_credential demo (w_repo ?w) = Inr ''/usr/bin/helper''" "is_absolute ''/usr/bin/helper''"
    by (simp_all add: demo_simps is_absolute_def)
  have 6: "runs (readRemoteRef demo demo_broker (wr_workspacePath (v_record ?v)) (S6_REMOTE_REF_PREFIX @ b_sessionId demo_broker)
      ''/usr/bin/helper'') ?w1 (Some (v_head ?v)) ?w1"
    using demo_ls_remote [of "Some demo_first"]
    by (simp add: runs_def demo_session demo_ref_def [symmetric] demo_validation_def)
  show ?thesis
    using interrupted_publish_recovers [OF 1 2(1) 3 2(2,3) 4 5 6] by (simp add: demo_validation_def)
qed

lemma demo_validate_behind:
  "validateLocalPublishState demo demo_broker True (demo_world demo_second r (Some (demo_pending (Some demo_first) demo_second)) A)
    = (Inr (demo_validation demo_second [demo_second, demo_first]),
       demo_world demo_second r (Some (demo_pending (Some demo_first) demo_second)) (insert demo_first (insert demo_second A)), [])"
proof -
  have b: "both_ancestors demo demo_broker (demo_world demo_second r (Some (demo_pending (Some demo_first) demo_second)) A)
      demo_base demo_second demo_second demo_wp = Inr True"
    by (simp add: both_ancestors_def demo_simps demo_ancestor_refl)
  show ?thesis
    by (simp add: validateLocalPublishState_def andThen_def demo_run_eq demo_simps Let_def assertSha_def b
        restorePublishedAttestations_def restoreTarget_def trusted_target_def demo_state_def addAttested_def
        restoreAttachmentRecoveryAttestation_def demo_validation_def demo_ancestor_refl)
qed


end
