(* ===== verification/JsonText.thy ===== *)
theory JsonText
  imports Json
begin

text \<open>
  \<^verbatim>\<open>JSON.stringify\<close>, \<^verbatim>\<open>Buffer.byteLength\<close> and \<^verbatim>\<open>Number(text)\<close> as the sources use
  them.  A character above \<^verbatim>\<open>0x7F\<close> takes two bytes in UTF-8; numbers are read when they are
  integers, in decimal, hexadecimal, octal or binary notation, anything else is \<open>None\<close>.
\<close>

section \<open>Text of a value\<close>

definition hex_digit :: "nat \<Rightarrow> char" where
  "hex_digit n = ''0123456789abcdef'' ! n"

definition escape_char :: "char \<Rightarrow> string" where
  "escape_char c =
    (let n = (of_char c :: nat) in
     if c = dquote then [backslash, dquote] else if c = backslash then [backslash, backslash]
     else if n = 8 then [backslash, CHR ''b''] else if c = tab then [backslash, CHR ''t'']
     else if c = nl then [backslash, CHR ''n''] else if n = 12 then [backslash, CHR ''f'']
     else if c = cr then [backslash, CHR ''r'']
     else if n < 32 then [backslash, CHR ''u'', CHR ''0'', CHR ''0'', hex_digit (n div 16), hex_digit (n mod 16)]
     else [c])"

definition quote_string :: "string \<Rightarrow> string" where
  "quote_string s = [dquote] @ concat (map escape_char s) @ [dquote]"

fun stringify :: "json \<Rightarrow> string" where
  "stringify JNull = ''null''"
| "stringify (JBool b) = (if b then ''true'' else ''false'')"
| "stringify (JNum n) = int_to_string n"
| "stringify (JStr s) = quote_string s"
| "stringify (JArr xs) = ''['' @ join '','' (map stringify xs) @ '']''"
| "stringify (JObj kvs) = ''{'' @ join '','' (map (\<lambda>(k, v). quote_string k @ '':'' @ stringify v) kvs) @ ''}''"

definition byteLength :: "string \<Rightarrow> nat" where
  "byteLength s = sum_list (map (\<lambda>c. if (of_char c :: nat) < 128 then 1 else 2) s)"

lemma byteLength_simps [simp]: "byteLength [] = 0"
    "byteLength (c # s) = (if (of_char c :: nat) < 128 then 1 else 2) + byteLength s"
    "byteLength (s @ t) = byteLength s + byteLength t"
  by (simp_all add: byteLength_def)

lemma byteLength_bounds: "length s \<le> byteLength s" "byteLength s \<le> 2 * length s"
  by (induction s) auto

section \<open>Integers in text\<close>

definition digit_value :: "char \<Rightarrow> nat option" where
  "digit_value c =
    (let n = (of_char c :: nat) in
     if 48 \<le> n \<and> n \<le> 57 then Some (n - 48)
     else if 97 \<le> n \<and> n \<le> 122 then Some (n - 87)
     else if 65 \<le> n \<and> n \<le> 90 then Some (n - 55) else None)"

fun digits_value :: "nat \<Rightarrow> nat \<Rightarrow> string \<Rightarrow> nat option" where
  "digits_value base acc [] = Some acc"
| "digits_value base acc (c # s) =
     (case digit_value c of None \<Rightarrow> None
      | Some d \<Rightarrow> if d < base then digits_value base (base * acc + d) s else None)"

definition unsigned_value :: "nat \<Rightarrow> string \<Rightarrow> nat option" where
  "unsigned_value base s = (if s = [] then None else digits_value base 0 s)"

definition split_sign :: "string \<Rightarrow> int \<times> string" where
  "split_sign s =
    (if startsWith s ''-'' then (- 1, drop 1 s) else if startsWith s ''+'' then (1, drop 1 s) else (1, s))"

definition exponent_value :: "string \<Rightarrow> int option" where
  "exponent_value s =
    (if s = [] then Some 0
     else map_option (\<lambda>n. fst (split_sign (tl s)) * int n) (unsigned_value 10 (snd (split_sign (tl s)))))"

text \<open>A decimal literal: digits with an optional point and exponent.\<close>

definition decimal_value :: "string \<Rightarrow> int option" where
  "decimal_value s =
    (let m = takeWhile (\<lambda>c. c \<noteq> CHR ''e'' \<and> c \<noteq> CHR ''E'') s;
         e = dropWhile (\<lambda>c. c \<noteq> CHR ''e'' \<and> c \<noteq> CHR ''E'') s;
         ip = takeWhile (\<lambda>c. c \<noteq> CHR ''.'') m; fp = drop 1 (dropWhile (\<lambda>c. c \<noteq> CHR ''.'') m)
     in case (unsigned_value 10 (ip @ fp), exponent_value e) of
          (Some n, Some x) \<Rightarrow>
            let k = x - int (length fp) in
            if 0 \<le> k then Some (int n * 10 ^ nat k)
            else if int n mod 10 ^ nat (- k) = 0 then Some (int n div 10 ^ nat (- k)) else None
        | _ \<Rightarrow> None)"

definition js_integer :: "string \<Rightarrow> int option" where
  "js_integer text =
    (let s = trim text; p = lower (take 2 s) in
     if s = [] then Some 0
     else if p = ''0x'' then map_option int (unsigned_value 16 (drop 2 s))
     else if p = ''0o'' then map_option int (unsigned_value 8 (drop 2 s))
     else if p = ''0b'' then map_option int (unsigned_value 2 (drop 2 s))
     else map_option (\<lambda>n. fst (split_sign s) * n) (decimal_value (snd (split_sign s))))"

end
