(* ===== verification/Coordinator.thy ===== *)
theory Coordinator
  imports BrokerInspect JsonText
begin

text \<open>
  The coordinator seam of the S6 broker (\<^verbatim>\<open>scripts/s6-github-broker.mjs\<close>):
  \<^verbatim>\<open>coordinateMutation\<close> and \<^verbatim>\<open>coordinateObservation\<close>, the session marker that binds
  the broker to one durable store, and the bounded projection of the coordinator's result that the
  container receives.  The coordinator driver, its result and \<^verbatim>\<open>localeCompare\<close> are parameters.
\<close>

section \<open>The projection\<close>

definition S7B_BRIDGE_MUTATION_RESPONSE_MAX_BYTES :: nat where
  "S7B_BRIDGE_MUTATION_RESPONSE_MAX_BYTES = 16 * 1024"

definition DECISIONS :: "string list" where
  "DECISIONS = [''ALLOW'', ''WARN'', ''REFRESH'', ''BLOCK'', ''UNAVAILABLE'']"

definition boundedDecision :: "json option \<Rightarrow> json result" where
  "boundedDecision v =
    (case v of
       Some (JStr s) \<Rightarrow>
         if s \<in> set DECISIONS then Inr (JStr s)
         else throw ''S7-B coordinator mutation decision is invalid for Bridge projection''
     | _ \<Rightarrow> throw ''S7-B coordinator mutation decision is invalid for Bridge projection'')"

definition boundedBridgeString :: "json option \<Rightarrow> string \<Rightarrow> nat \<Rightarrow> json result" where
  "boundedBridgeString v label maximum =
    (case v of
       Some (JStr s) \<Rightarrow>
         if s = [] \<or> byteLength s > maximum then throw (label @ '' is invalid for Bridge projection'') else Inr (JStr s)
     | _ \<Rightarrow> throw (label @ '' is invalid for Bridge projection''))"

text \<open>\<^verbatim>\<open>v?.key\<close> on something that may be missing.\<close>

definition get_opt :: "json option \<Rightarrow> string \<Rightarrow> json option" where
  "get_opt v k = (case v of None \<Rightarrow> None | Some j \<Rightarrow> get j k)"

definition projectBridgeFreshness :: "json option \<Rightarrow> json" where
  "projectBridgeFreshness freshness =
    (case get_opt (get_opt freshness ''current'') ''worktree_content_version'' of
       Some (JObj kvs) \<Rightarrow>
         let version = JObj kvs; wrap = (\<lambda>v. JObj [(''current'', JObj [(''worktree_content_version'', JObj v)])]) in
         if has_str version ''state'' ''absent'' \<and> length kvs = 1 then wrap [(''state'', JStr ''absent'')]
         else if has_str version ''state'' ''present'' \<and> has_str version ''algorithm'' ''sha256''
                 \<and> hex_exact 64 (string_or_empty (get version ''hex''))
         then wrap [(''state'', JStr ''present''), (''algorithm'', JStr ''sha256''), (''hex'', the (get version ''hex''))]
         else JNull
     | _ \<Rightarrow> JNull)"

text \<open>\<^verbatim>\<open>/^[a-z][a-z0-9_]{0,63}$/\<close>.\<close>

definition metadata_key :: "string \<Rightarrow> bool" where
  "metadata_key k =
    (k \<noteq> [] \<and> is_lower (hd k) \<and> length k \<le> 64 \<and> list_all (\<lambda>c. is_lower c \<or> is_digit c \<or> c = CHR ''_'') (tl k))"

definition MAX_SAFE_INTEGER :: int where "MAX_SAFE_INTEGER = 9007199254740991"

definition metadata_value :: "json \<Rightarrow> bool" where
  "metadata_value v =
    (case v of JBool _ \<Rightarrow> True | JNum n \<Rightarrow> abs n \<le> MAX_SAFE_INTEGER
     | JStr s \<Rightarrow> s \<noteq> [] \<and> byteLength s \<le> 256 | _ \<Rightarrow> False)"

text \<open>\<open>locale_sort\<close> is \<^verbatim>\<open>Object.entries(v).sort(localeCompare on keys)\<close>.\<close>

type_synonym locale_sort = "(string \<times> json) list \<Rightarrow> (string \<times> json) list"

definition projectBridgeMetadata :: "locale_sort \<Rightarrow> json option \<Rightarrow> json" where
  "projectBridgeMetadata locale_sort v =
    (case v of
       Some (JObj kvs) \<Rightarrow>
         let projected = filter (\<lambda>(k, item). metadata_key k \<and> metadata_value item) (take 16 (locale_sort kvs))
         in if projected = [] then JNull else JObj projected
     | _ \<Rightarrow> JNull)"

definition projectBridgeEvidenceRefs :: "json option \<Rightarrow> json result" where
  "projectBridgeEvidenceRefs v =
    (case v of
       Some (JArr refs) \<Rightarrow>
         bindE (mapE (\<lambda>r. boundedBridgeString (Some r) ''S7-B coordinator evidence reference'' 256) (take 16 refs))
           (\<lambda>xs. Inr (JArr xs))
     | _ \<Rightarrow> Inr (JArr []))"

definition projectBridgeLifecycle :: "json option \<Rightarrow> json result" where
  "projectBridgeLifecycle v =
    (case v of
       Some (JObj kvs) \<Rightarrow>
         let value = JObj kvs in
         bindE (boundedBridgeString (get value ''session_id'') ''S7-B coordinator session identity'' 128) (\<lambda>sid.
         bindE (boundedBridgeString (get value ''route'') ''S7-B coordinator route'' 32) (\<lambda>route.
         bindE (boundedBridgeString (get value ''path'') ''S7-B coordinator path'' 4096) (\<lambda>path.
         Inr (JObj [(''session_id'', sid), (''route'', route), (''path'', path),
               (''exclusive'', JBool (get value ''exclusive'' = Some (JBool True)))]))))
     | _ \<Rightarrow> throw ''S7-B coordinator lifecycle metadata is invalid for Bridge projection'')"

definition projectS7BBridgeMutationResult :: "locale_sort \<Rightarrow> json option \<Rightarrow> json result" where
  "projectS7BBridgeMutationResult locale_sort v =
    (case v of
       Some (JObj kvs) \<Rightarrow>
         let res = JObj kvs in
         bindE (boundedDecision (get res ''decision'')) (\<lambda>decision.
         bindE (boundedBridgeString (get res ''reason_code'') ''S7-B coordinator reason code'' 128) (\<lambda>reason.
         bindE (projectBridgeEvidenceRefs (get res ''evidence_refs'')) (\<lambda>refs.
         bindE (projectBridgeLifecycle (get res ''lifecycle'')) (\<lambda>lifecycle.
         let projected = JObj
           [(''bridge_projection'', JStr ''s7b-mutation-result-v1''),
            (''allowed'', JBool (get res ''allowed'' = Some (JBool True))), (''decision'', decision),
            (''reason_code'', reason), (''freshness'', projectBridgeFreshness (get res ''freshness'')),
            (''enforcement'', projectBridgeMetadata locale_sort (get res ''enforcement'')),
            (''store_health'', projectBridgeMetadata locale_sort (get res ''store_health'')),
            (''evidence_refs'', refs), (''lifecycle'', lifecycle)]
         in if byteLength (stringify projected) > S7B_BRIDGE_MUTATION_RESPONSE_MAX_BYTES
            then throw ''S7-B Bridge mutation projection exceeded its bounded response limit''
            else Inr projected))))
     | _ \<Rightarrow> throw ''S7-B coordinator mutation result is invalid for Bridge projection'')"

section \<open>The durable binding\<close>

definition S7B_ARTIFACT_SHA256 :: string where
  "S7B_ARTIFACT_SHA256 = ''3e528011ce130797af25aeca2f1bb1faea294cd46838cfbadffc488cd9463f96''"
definition S7B_REPOSITORY_ID :: int where "S7B_REPOSITORY_ID = 1297989453"
definition S7B_COORDINATOR_DRIVER :: string where "S7B_COORDINATOR_DRIVER = ''s7b-coordinator-driver.py''"

definition coordinatorValue :: "'r ext \<Rightarrow> string \<Rightarrow> string result" where
  "coordinatorValue x name =
    (case x_environ x name of
       Some v \<Rightarrow> if v = [] then throw (''S7-B coordinator setting '' @ name @ '' is unavailable'') else Inr v
     | None \<Rightarrow> throw (''S7-B coordinator setting '' @ name @ '' is unavailable''))"

definition coordinatorInteger :: "'r ext \<Rightarrow> string \<Rightarrow> int result" where
  "coordinatorInteger x name =
    bindE (coordinatorValue x name) (\<lambda>v.
    case js_integer v of
      Some n \<Rightarrow> if n \<le> 0 then throw (''S7-B coordinator setting '' @ name @ '' is invalid'') else Inr n
    | None \<Rightarrow> throw (''S7-B coordinator setting '' @ name @ '' is invalid''))"

record binding =
  bi_store :: string
  bi_artifact :: string
  bi_identity :: string
  bi_generation :: int
  bi_bootIdentity :: string

text \<open>Owner-only and owned by this user: \<^verbatim>\<open>(mode & 0o077) === 0\<close>.\<close>

definition private_owned :: "'r ext \<Rightarrow> fstat \<Rightarrow> bool" where
  "private_owned x st = (\<not> mode_has (st_mode st) 63 \<and> st_uid st = x_uid x)"

definition lstat_or_throw :: "'r ext \<Rightarrow> 'r \<Rightarrow> string \<Rightarrow> fstat result" where
  "lstat_or_throw x r p = (case x_lstat x r p of None \<Rightarrow> throw (''ENOENT: '' @ p) | Some st \<Rightarrow> Inr st)"

definition coordinatorBinding :: "'r ext \<Rightarrow> 'r \<Rightarrow> binding result" where
  "coordinatorBinding x r =
    bindE (coordinatorValue x ''S7B_COORDINATOR_STORE'') (\<lambda>selected.
    bindE (coordinatorValue x ''S7B_COORDINATOR_ARTIFACT_SHA256'') (\<lambda>artifact.
    let str = path_resolve (x_cwd x) selected in
    bindE (ensure (str = selected \<and> x_exists x r str) ''S7-B selected coordinator store is unavailable'') (\<lambda>_.
    bindE (ensureNoSymlinkAncestors x r (path_dirname str)) (\<lambda>_.
    bindE (lstat_or_throw x r str) (\<lambda>st.
    bindE (ensure (isFile st \<and> \<not> isSymbolicLink st \<and> private_owned x st) ''S7-B selected coordinator store is unsafe'') (\<lambda>_.
    bindE (lstat_or_throw x r (path_dirname str)) (\<lambda>parent.
    bindE (ensure (isDirectory parent \<and> \<not> isSymbolicLink parent \<and> private_owned x parent)
      ''S7-B selected coordinator store parent is unsafe'') (\<lambda>_.
    bindE (ensure (hex_exact 64 artifact \<and> artifact = S7B_ARTIFACT_SHA256) ''S7-B coordinator artifact binding is invalid'') (\<lambda>_.
    bindE (coordinatorInteger x ''S7B_COORDINATOR_SAFETY_GENERATION'') (\<lambda>generation.
    bindE (coordinatorValue x ''S7B_COORDINATOR_BOOT_IDENTITY'') (\<lambda>boot.
    let material = join [nul] [''s7b-selected-store-v2'', str, digits_of (st_dev st), digits_of (st_ino st),
                     case st_birthtime st of None \<Rightarrow> ''unknown'' | Some t \<Rightarrow> t]
    in Inr \<lparr>bi_store = str, bi_artifact = artifact, bi_identity = ''sha256:'' @ x_sha256 x material,
             bi_generation = generation, bi_bootIdentity = boot\<rparr>)))))))))))"

definition readCoordinatorMarker :: "'r ext \<Rightarrow> 'r world \<Rightarrow> string \<Rightarrow> json option result" where
  "readCoordinatorMarker x w p =
    (if w_files w p = None then Inr None
     else
       bindE (lstat_or_throw x (w_repo w) p) (\<lambda>st.
       bindE (ensure (isFile st \<and> \<not> isSymbolicLink st \<and> private_owned x st)
         ''S7-B coordinator session marker is not owner-only'') (\<lambda>_.
       case readJson w p of
         None \<Rightarrow> throw ''S7-B coordinator session marker is invalid''
       | Some v \<Rightarrow>
           if get v ''version'' = Some (JNum 2) \<and> has_str v ''kind'' ''s7b-coordinator-session'' then Inr (Some v)
           else throw ''S7-B coordinator session marker is invalid'')))"

definition marker_matches :: "json \<Rightarrow> string \<Rightarrow> binding \<Rightarrow> bool" where
  "marker_matches marker session_id bi =
    (has_str marker ''session_id'' session_id \<and> has_str marker ''store_identity'' (bi_identity bi)
     \<and> get marker ''store_generation'' = Some (JNum (bi_generation bi))
     \<and> has_str marker ''boot_identity'' (bi_bootIdentity bi) \<and> has_str marker ''artifact_sha256'' (bi_artifact bi)
     \<and> get marker ''repository_id'' = Some (JNum S7B_REPOSITORY_ID)
     \<and> get marker ''registered'' = Some (JBool True) \<and> get marker ''attested'' = Some (JBool True))"

definition marker_json :: "string \<Rightarrow> binding \<Rightarrow> string \<Rightarrow> json" where
  "marker_json session_id bi now = JObj
    [(''version'', JNum 2), (''kind'', JStr ''s7b-coordinator-session''), (''session_id'', JStr session_id),
     (''repository_id'', JNum S7B_REPOSITORY_ID), (''store_identity'', JStr (bi_identity bi)),
     (''store_generation'', JNum (bi_generation bi)), (''boot_identity'', JStr (bi_bootIdentity bi)),
     (''artifact_sha256'', JStr (bi_artifact bi)), (''registered'', JBool True), (''attested'', JBool True),
     (''updated_at'', JStr now)]"

text \<open>\<^verbatim>\<open>{...marker, updated_at: now}\<close>.\<close>

definition with_updated_at :: "json \<Rightarrow> string \<Rightarrow> json" where
  "with_updated_at v now =
    (case v of
       JObj kvs \<Rightarrow>
         if map_of kvs ''updated_at'' = None then JObj (kvs @ [(''updated_at'', JStr now)])
         else JObj (map (\<lambda>(k, w). if k = ''updated_at'' then (k, JStr now) else (k, w)) kvs)
     | _ \<Rightarrow> v)"

section \<open>Calling the coordinator\<close>

text \<open>
  The driver process, \<^verbatim>\<open>JSON.parse\<close> and the random request id.  \<open>c_locale\<close> sorts the
  metadata keys.
\<close>

record 'r coord =
  c_run :: "string \<Rightarrow> string list \<Rightarrow> string \<Rightarrow> (string \<times> string) list \<Rightarrow> string \<Rightarrow> 'r \<Rightarrow> proc_result \<times> 'r"
  c_parse :: "string \<Rightarrow> json option"
  c_request_id :: "'r \<Rightarrow> string"
  c_homedir :: string
  c_locale :: locale_sort

definition coordinatorProcessEnvironment :: "'r ext \<Rightarrow> string \<Rightarrow> (string \<times> string) list result" where
  "coordinatorProcessEnvironment x homedir =
    (let env = (\<lambda>n. case x_environ x n of None \<Rightarrow> [] | Some v \<Rightarrow> v);
         values =
           [(''PATH'', if env ''PATH'' = [] then ''/usr/bin:/bin'' else env ''PATH''),
            (''HOME'', if env ''HOME'' = [] then homedir else env ''HOME''),
            (''LANG'', ''C.UTF-8''), (''LC_ALL'', ''C.UTF-8''), (''TZ'', ''UTC''),
            (''WORK_COORDINATOR_SELECTED_STORE'', env ''S7B_COORDINATOR_STORE''),
            (''WORK_COORDINATOR_BOOT_IDENTITY'', env ''S7B_COORDINATOR_BOOT_IDENTITY''),
            (''WORK_COORDINATOR_SAFETY_GENERATION'', env ''S7B_COORDINATOR_SAFETY_GENERATION''),
            (''S7B_COORDINATOR_REPOSITORY_ID'', int_to_string S7B_REPOSITORY_ID)]
     in if list_ex (\<lambda>(k, v). v = []) values then throw ''S7-B coordinator process environment is incomplete''
        else Inr values)"

definition with_request_id :: "json \<Rightarrow> string \<Rightarrow> json" where
  "with_request_id request rid = (case request of JObj kvs \<Rightarrow> JObj (kvs @ [(''request_id'', JStr (''s7b-'' @ rid))]) | _ \<Rightarrow> request)"

definition invokeCoordinator :: "'r ext \<Rightarrow> 'r coord \<Rightarrow> broker \<Rightarrow> json \<Rightarrow> ('r, json) bact" where
  "invokeCoordinator x c b request =
    andThen (look (\<lambda>w. Inr (with_request_id request (c_request_id c (w_repo w))))) (\<lambda>value.
    andThen (look (\<lambda>_. coordinatorValue x ''S7B_COORDINATOR_PYTHON'')) (\<lambda>python.
    andThen (look (\<lambda>_. coordinatorValue x ''S7B_COORDINATOR_DRIVER'')) (\<lambda>driver.
    andThen (guard (is_absolute python \<and> is_absolute driver \<and> path_basename driver = S7B_COORDINATOR_DRIVER)
      ''S7-B coordinator executable binding is invalid'') (\<lambda>_.
    andThen (look (\<lambda>_. coordinatorProcessEnvironment x (c_homedir c))) (\<lambda>env.
    andThen (call (\<lambda>w. case c_run c python [driver] (b_bridgeRoot b) env (stringify value @ [nl]) (w_repo w) of
        (res, r') \<Rightarrow> (res, w\<lparr>w_repo := r'\<rparr>))) (\<lambda>child.
    andThen (guard (p_status child = Some 0) (''S7-B coordinator driver failed: '' @ sanitizeGitError (p_stderr child))) (\<lambda>_.
    let lines = lines_of (trim (p_stdout child)) in
    andThen (guard (length lines = 1) ''S7-B coordinator driver returned ambiguous output'') (\<lambda>_.
    case c_parse c (hd lines) of
      None \<Rightarrow> fail ''S7-B coordinator driver returned malformed output''
    | Some res \<Rightarrow>
        andThen (guard (is_obj res) ''S7-B coordinator result is invalid'') (\<lambda>_. ret res)))))))))"

definition RESULT_DECISIONS :: "string list" where
  "RESULT_DECISIONS = [''ALLOW'', ''WARN'', ''BLOCK'', ''REFRESH'', ''UNAVAILABLE'']"

definition decision_of :: "json \<Rightarrow> string" where
  "decision_of v = field v ''decision''"

definition assertCoordinatorResult :: "json \<Rightarrow> string \<Rightarrow> unit result" where
  "assertCoordinatorResult res action =
    (if \<not> is_obj res \<or> decision_of res \<notin> set RESULT_DECISIONS
     then throw (''S7-B coordinator '' @ action @ '' returned an invalid result'')
     else if decision_of res = ''UNAVAILABLE''
     then throw (''S7-B coordinator '' @ action @ '' is unavailable: ''
       @ (if truthy (get res ''reason_code'') then to_string (the (get res ''reason_code'')) else ''unknown''))
     else Inr ())"

definition boundMarker :: "'r ext \<Rightarrow> broker \<Rightarrow> string \<Rightarrow> binding \<Rightarrow> string \<Rightarrow> ('r, json) bact" where
  "boundMarker x b session_id bi m =
    andThen (look (\<lambda>w. readCoordinatorMarker x w (coordinatorMarkerPath b))) (\<lambda>marker.
    case marker of
      None \<Rightarrow> fail m
    | Some v \<Rightarrow> andThen (guard (marker_matches v session_id bi) m) (\<lambda>_. ret v))"

definition refreshCoordinatorMarker :: "'r ext \<Rightarrow> broker \<Rightarrow> string \<Rightarrow> binding \<Rightarrow> ('r, unit) bact" where
  "refreshCoordinatorMarker x b session_id bi =
    andThen (boundMarker x b session_id bi ''S7-B coordinator store changed while handling the mutation'') (\<lambda>marker.
    atomicWrite (coordinatorMarkerPath b) (\<lambda>w. with_updated_at marker (x_now x (w_repo w))))"

definition currentBinding :: "'r ext \<Rightarrow> ('r, binding) bact" where
  "currentBinding x = look (\<lambda>w. coordinatorBinding x (w_repo w))"

definition invokeCoordinatorBound :: "'r ext \<Rightarrow> 'r coord \<Rightarrow> broker \<Rightarrow> json \<Rightarrow> string \<Rightarrow> ('r, json) bact" where
  "invokeCoordinatorBound x c b request session_id =
    andThen (currentBinding x) (\<lambda>bi.
    andThen (boundMarker x b session_id bi ''S7-B coordinator store changed before the mutation check'') (\<lambda>_.
    andThen (invokeCoordinator x c b request) (\<lambda>res.
    andThen (currentBinding x) (\<lambda>now.
    andThen (refreshCoordinatorMarker x b session_id now) (\<lambda>_.
    ret res)))))"

section \<open>The session\<close>

definition context_json :: "broker \<Rightarrow> workspace_record \<Rightarrow> string \<Rightarrow> string \<Rightarrow> json" where
  "context_json b rec worktree instnc = JObj
    [(''project_id'', JStr ''hl-chatgpt-local-bridge''), (''task_id'', JStr (''s7b-'' @ b_sessionId b)),
     (''session_id'', JStr (b_sessionId b)), (''agent_id'', JStr ''chatgpt-local-bridge''),
     (''workspace_id'', JStr (''s6-workspace-'' @ b_sessionId b)), (''worktree_id'', JStr worktree),
     (''branch'', JStr (wr_branch rec)), (''base_sha'', JStr (wr_expectedBaseCommit rec)),
     (''local_repository_instance_id'', JStr instnc)]"

definition coordinatorContext :: "'r ext \<Rightarrow> broker \<Rightarrow> workspace_record \<Rightarrow> 'r world \<Rightarrow> json result" where
  "coordinatorContext x b rec w =
    bindE (gitOutput x b (w_repo w) [''rev-parse'', ''--git-common-dir''] (wr_workspacePath rec)) (\<lambda>out.
    Inr (context_json b rec
      (''sha256:'' @ x_sha256 x (''s7b-worktree-v1'' @ [nul] @ wr_workspacePath rec))
      (''sha256:'' @ x_sha256 x (''s7b-local-repository-instance-v1'' @ [nul] @ trim out))))"

definition request_json :: "string \<Rightarrow> json \<Rightarrow> (string \<times> json) list \<Rightarrow> json" where
  "request_json action ctx extra = JObj ([(''action'', JStr action), (''context'', ctx)] @ extra)"

definition ensureCoordinatorSession :: "'r ext \<Rightarrow> 'r coord \<Rightarrow> broker \<Rightarrow> json \<Rightarrow> ('r, unit) bact" where
  "ensureCoordinatorSession x c b ctx =
    (let sid = b_sessionId b in
     andThen (currentBinding x) (\<lambda>bi.
     andThen (look (\<lambda>w. readCoordinatorMarker x w (coordinatorMarkerPath b))) (\<lambda>marker.
     case marker of
       Some v \<Rightarrow>
         andThen (guard (marker_matches v sid bi) ''S7-B coordinator session marker does not match the selected durable binding'') (\<lambda>_.
         andThen (invokeCoordinatorBound x c b (request_json ''attest_capabilities'' ctx []) sid) (\<lambda>attested.
         look (\<lambda>_. assertCoordinatorResult attested ''attest_capabilities'')))
     | None \<Rightarrow>
         andThen (invokeCoordinator x c b (request_json ''register_session'' ctx [])) (\<lambda>registered.
         andThen (look (\<lambda>_. assertCoordinatorResult registered ''register_session'')) (\<lambda>_.
         andThen (invokeCoordinator x c b (request_json ''attest_capabilities'' ctx [])) (\<lambda>attested.
         andThen (look (\<lambda>_. assertCoordinatorResult attested ''attest_capabilities'')) (\<lambda>_.
         atomicWrite (coordinatorMarkerPath b) (\<lambda>w. marker_json sid bi (x_now x (w_repo w))))))))))"

section \<open>Snapshots\<close>

definition present :: "string \<Rightarrow> json" where
  "present hex = JObj [(''state'', JStr ''present''), (''algorithm'', JStr ''sha1''), (''hex'', JStr hex)]"

definition absent :: json where "absent = JObj [(''state'', JStr ''absent'')]"

definition content_version :: "json \<Rightarrow> json" where
  "content_version hex = JObj [(''state'', JStr ''present''), (''algorithm'', JStr ''sha256''), (''hex'', hex)]"

text \<open>\<^verbatim>\<open>/^(\d{6}) ([0-9a-f]{40}) (\d)\t/\<close>.\<close>

definition parse_ls_files :: "string \<Rightarrow> (string \<times> string \<times> string) option" where
  "parse_ls_files entry =
    (case take_field is_digit CHR '' '' entry of None \<Rightarrow> None | Some (mode, r1) \<Rightarrow>
     (case take_field is_hex CHR '' '' r1 of None \<Rightarrow> None | Some (oid, r2) \<Rightarrow>
     (case take_field is_digit tab r2 of None \<Rightarrow> None | Some (stage, _) \<Rightarrow>
        if length mode = 6 \<and> length oid = 40 \<and> length stage = 1 then Some (mode, oid, stage) else None)))"

definition index_entry_json :: "string \<Rightarrow> json result" where
  "index_entry_json entry =
    (case parse_ls_files entry of
       None \<Rightarrow> throw ''S7-B coordinator index snapshot is invalid''
     | Some (mode, oid, stage) \<Rightarrow>
         if mode \<in> set [''100644'', ''100755'', ''120000'', ''160000'']
         then Inr (JObj [(''mode'', JStr mode), (''oid'', present oid), (''stage'', JNum (the (js_integer stage)))])
         else throw ''S7-B coordinator index snapshot is invalid'')"

text \<open>Duplicates by their JSON text, first occurrence kept, as a \<^verbatim>\<open>Map\<close> keeps them.\<close>

fun unique_entries :: "json list \<Rightarrow> json list" where
  "unique_entries [] = []"
| "unique_entries (v # vs) = v # unique_entries (filter (\<lambda>u. stringify u \<noteq> stringify v) vs)"

text \<open>\<open>content\<close> is \<^verbatim>\<open>contentSha256\<close> when it was provided.\<close>

definition coordinatorSnapshot ::
  "'r ext \<Rightarrow> broker \<Rightarrow> workspace_record \<Rightarrow> string \<Rightarrow> json option \<Rightarrow> 'r world \<Rightarrow> json result" where
  "coordinatorSnapshot x b rec target content w =
    (let wp = wr_workspacePath rec; r = w_repo w in
     bindE (gitOutput x b r [''rev-parse'', ''HEAD''] wp) (\<lambda>out.
     bindE (assertSha (trim out) ''S7-B coordinator HEAD'') (\<lambda>head.
     bindE (gitStatus x b r [''rev-parse'', ''--verify'', ''refs/remotes/origin/main''] wp) (\<lambda>up.
     bindE (gitOutput x b r [''ls-files'', ''-s'', ''-z''] wp) (\<lambda>index.
     bindE (mapE index_entry_json (nonempty (split_on nul index))) (\<lambda>entries.
     bindE (case content of
              Some v \<Rightarrow> Inr (if v = JNull then absent else content_version v)
            | None \<Rightarrow>
                if x_exists x r target then bindE (x_readFile x r target) (\<lambda>t. Inr (content_version (JStr (x_sha256 x t))))
                else Inr absent) (\<lambda>version.
     Inr (JObj
       [(''head_oid'', present head), (''index_entries'', JArr (unique_entries entries)),
        (''worktree_content_version'', version), (''base_oid'', present (wr_expectedBaseCommit rec)),
        (''upstream_oid'', if p_status up = Some 0 \<and> SHA_test (trim (p_stdout up)) then present (trim (p_stdout up)) else absent),
        (''generated_owner_resource_id'', JNull)]))))))))"

section \<open>The mutation and observation seams\<close>

definition coordinatorTarget :: "'r ext \<Rightarrow> broker \<Rightarrow> workspace_record \<Rightarrow> string \<Rightarrow> 'r world \<Rightarrow> string result" where
  "coordinatorTarget x b rec rel w =
    (let wp = wr_workspacePath rec; target = path_resolve (x_cwd x) (path_join (path_resolve (x_cwd x) wp) rel); r = w_repo w in
     bindE (ensure (isWithin (x_cwd x) target wp \<and> target \<noteq> wp) ''S7-B coordinator target escaped the registered workspace'') (\<lambda>_.
     bindE (ensureNoSymlinkAncestors x r (path_dirname target)) (\<lambda>_.
     bindE (if x_exists x r target then
              bindE (lstat_or_throw x r target) (\<lambda>st.
              ensure (\<not> isSymbolicLink st \<and> isFile st) ''S7-B coordinator target is not a regular file'')
            else Inr ()) (\<lambda>_.
     Inr target))))"

definition sameContentVersion :: "json option \<Rightarrow> json option \<Rightarrow> bool" where
  "sameContentVersion actual expected =
    (if get_opt actual ''state'' \<noteq> get_opt expected ''state'' then False
     else if get_opt actual ''state'' = Some (JStr ''absent'') then True
     else get_opt actual ''algorithm'' = get_opt expected ''algorithm'' \<and> get_opt actual ''hex'' = get_opt expected ''hex'')"

definition or_null :: "json option \<Rightarrow> json" where
  "or_null v = (if truthy v then the v else JNull)"

definition or_empty :: "json option \<Rightarrow> json" where
  "or_empty v = (if truthy v then the v else JArr [])"

definition opt_entry :: "string \<Rightarrow> json option \<Rightarrow> (string \<times> json) list" where
  "opt_entry k v = (case v of None \<Rightarrow> [] | Some j \<Rightarrow> [(k, j)])"

text \<open>The fence of an exclusive claim.\<close>

definition claim_fence :: "'r ext \<Rightarrow> json option \<Rightarrow> json option result" where
  "claim_fence x claim =
    (case claim of
       None \<Rightarrow> Inr None
     | Some v \<Rightarrow>
         if decision_of v = ''ALLOW'' \<and> truthy (get v ''effective_authority'') then
           bindE (coordinatorValue x ''S7B_COORDINATOR_BOOT_IDENTITY'') (\<lambda>boot.
           bindE (coordinatorInteger x ''S7B_COORDINATOR_SAFETY_GENERATION'') (\<lambda>generation.
           Inr (Some (JObj (opt_entry ''ownership_version'' (get_opt (get v ''effective_authority'') ''ownership_version'')
             @ [(''boot_identity'', JStr boot), (''safety_generation'', JNum generation)])))))
         else Inr None)"

definition checkBeforeMutation ::
  "'r ext \<Rightarrow> 'r coord \<Rightarrow> broker \<Rightarrow> json \<Rightarrow> string \<Rightarrow> json option \<Rightarrow> json \<Rightarrow> ('r, json) bact" where
  "checkBeforeMutation x c b ctx rel fence snapshot =
    andThen (invokeCoordinatorBound x c b
      (request_json ''check_before_mutation'' ctx ([(''path'', JStr rel), (''current'', snapshot)] @ opt_entry ''fence'' fence))
      (b_sessionId b)) (\<lambda>res.
    andThen (look (\<lambda>_. assertCoordinatorResult res ''check_before_mutation'')) (\<lambda>_. ret res))"

text \<open>What is reported of a check: the decision and the reason, after the handler's bytes were compared.\<close>

definition compared :: "json \<Rightarrow> json option \<Rightarrow> string \<times> json option" where
  "compared checked observed =
    (if decision_of checked \<in> set [''ALLOW'', ''WARN''] \<and> observed \<noteq> None \<and> observed \<noteq> Some JNull
        \<and> \<not> sameContentVersion (get_opt (get_opt (get checked ''freshness'') ''current'') ''worktree_content_version'')
              (map_option content_version observed)
     then (''REFRESH'', Some (JStr ''STALE_OBSERVATION''))
     else (decision_of checked, get checked ''reason_code''))"

definition mutation_result :: "json \<Rightarrow> string \<times> json option \<Rightarrow> string \<Rightarrow> string \<Rightarrow> string \<Rightarrow> bool \<Rightarrow> json" where
  "mutation_result checked dr sid route rel exclusive = JObj
    ([(''allowed'', JBool (fst dr \<in> set [''ALLOW'', ''WARN''])), (''decision'', JStr (fst dr))]
     @ opt_entry ''reason_code'' (snd dr)
     @ [(''freshness'', or_null (get checked ''freshness'')), (''enforcement'', or_null (get checked ''enforcement'')),
        (''store_health'', or_null (get checked ''store_health'')), (''evidence_refs'', or_empty (get checked ''evidence_refs'')),
        (''lifecycle'', JObj [(''session_id'', JStr sid), (''route'', JStr route), (''path'', JStr rel), (''exclusive'', JBool exclusive)])])"

definition acquireClaim :: "'r ext \<Rightarrow> 'r coord \<Rightarrow> broker \<Rightarrow> json \<Rightarrow> string \<Rightarrow> ('r, json option) bact" where
  "acquireClaim x c b ctx rel =
    (if rel \<noteq> ''HANDOFF.md'' then
       andThen (invokeCoordinatorBound x c b (request_json ''acquire_claim'' ctx [(''path'', JStr rel)]) (b_sessionId b)) (\<lambda>claim.
       andThen (look (\<lambda>_. assertCoordinatorResult claim ''acquire_claim'')) (\<lambda>_. ret (Some claim)))
     else ret None)"

text \<open>A missing observation of a file that is still absent is made, and the check repeated.\<close>

definition recheckAbsent ::
  "'r ext \<Rightarrow> 'r coord \<Rightarrow> broker \<Rightarrow> workspace_record \<Rightarrow> json \<Rightarrow> string \<Rightarrow> string \<Rightarrow> json option \<Rightarrow> json option
    \<Rightarrow> json \<Rightarrow> json \<Rightarrow> ('r, json) bact" where
  "recheckAbsent x c b rec ctx rel target observed fence current checked =
    (if decision_of checked = ''REFRESH'' \<and> \<not> truthy (get checked ''freshness'') \<and> observed = Some JNull
        \<and> get_opt (get current ''worktree_content_version'') ''state'' = Some (JStr ''absent'') then
       andThen (look (coordinatorSnapshot x b rec target (Some JNull))) (\<lambda>observation.
       andThen (invokeCoordinatorBound x c b (request_json ''observe_resource'' ctx
         [(''path'', JStr rel), (''observation'', observation)]) (b_sessionId b)) (\<lambda>seen.
       andThen (look (\<lambda>_. assertCoordinatorResult seen ''observe_resource'')) (\<lambda>_.
       andThen (look (coordinatorSnapshot x b rec target (Some JNull))) (\<lambda>again.
       checkBeforeMutation x c b ctx rel fence again))))
     else ret checked)"

text \<open>\<open>observed\<close>: \<^verbatim>\<open>observedContentSha256\<close>, \<open>None\<close> when undefined.\<close>

definition coordinateMutation ::
  "'r ext \<Rightarrow> 'r coord \<Rightarrow> broker \<Rightarrow> string \<Rightarrow> json option \<Rightarrow> json option \<Rightarrow> ('r, json) bact" where
  "coordinateMutation x c b route path observed =
    andThen (guard (route \<in> set S7B_COORDINATED_ROUTES) ''S7-B coordinator route is not covered by the Bridge adapter'') (\<lambda>_.
    andThen (look (\<lambda>_. assertCoordinatorRelativePath path)) (\<lambda>rel.
    andThen (look (validateRegisteredWorkspaceRecord x b)) (\<lambda>rec.
    andThen (look (\<lambda>w. validateManagerGovernance x b w rec)) (\<lambda>_.
    andThen (look (\<lambda>w. validateWorkspaceIdentity x b w (wr_workspacePath rec) (wr_branch rec) True False)) (\<lambda>_.
    andThen (look (coordinatorTarget x b rec rel)) (\<lambda>target.
    andThen (look (coordinatorContext x b rec)) (\<lambda>ctx.
    andThen (ensureCoordinatorSession x c b ctx) (\<lambda>_.
    andThen (guard (observed = None \<or> observed = Some JNull \<or> hex_exact 64 (to_string (the observed)))
      ''S7-B coordinator observed content version is invalid'') (\<lambda>_.
    andThen (invokeCoordinatorBound x c b (request_json ''declare_intent'' ctx
      [(''resources'', JArr [JObj [(''path'', JStr rel)]])]) (b_sessionId b)) (\<lambda>intent.
    andThen (look (\<lambda>_. assertCoordinatorResult intent ''declare_intent'')) (\<lambda>_.
    andThen (acquireClaim x c b ctx rel) (\<lambda>claim.
    andThen (look (coordinatorSnapshot x b rec target None)) (\<lambda>current.
    andThen (look (\<lambda>_. claim_fence x claim)) (\<lambda>fence.
    andThen (checkBeforeMutation x c b ctx rel fence current) (\<lambda>checked.
    andThen (recheckAbsent x c b rec ctx rel target observed fence current checked) (\<lambda>final.
    look (\<lambda>_. projectS7BBridgeMutationResult (c_locale c)
      (Some (mutation_result final (compared final observed) (b_sessionId b) route rel (rel \<noteq> ''HANDOFF.md''))))))))))))))))))))"

definition observation_result :: "json \<Rightarrow> string \<Rightarrow> string \<Rightarrow> json" where
  "observation_result seen sid rel = JObj
    ([(''allowed'', JBool True), (''decision'', JStr (decision_of seen))]
     @ opt_entry ''reason_code'' (get seen ''reason_code'')
     @ [(''freshness'', or_null (get seen ''freshness'')), (''store_health'', or_null (get seen ''store_health'')),
        (''evidence_refs'', or_empty (get seen ''evidence_refs'')),
        (''lifecycle'', JObj [(''session_id'', JStr sid), (''path'', JStr rel), (''operation'', JStr ''observe_resource'')])])"

text \<open>\<open>content\<close>: \<^verbatim>\<open>contentSha256\<close>, \<open>None\<close> when undefined.\<close>

definition coordinateObservation ::
  "'r ext \<Rightarrow> 'r coord \<Rightarrow> broker \<Rightarrow> json option \<Rightarrow> json option \<Rightarrow> ('r, json) bact" where
  "coordinateObservation x c b path content =
    andThen (look (\<lambda>_. assertCoordinatorRelativePath path)) (\<lambda>rel.
    andThen (guard (content = Some JNull \<or> hex_exact 64 (string_or_empty content))
      ''S7-B coordinator observed content version is invalid'') (\<lambda>_.
    andThen (look (validateRegisteredWorkspaceRecord x b)) (\<lambda>rec.
    andThen (look (\<lambda>w. validateManagerGovernance x b w rec)) (\<lambda>_.
    andThen (look (\<lambda>w. validateWorkspaceIdentity x b w (wr_workspacePath rec) (wr_branch rec) True False)) (\<lambda>_.
    andThen (look (coordinatorTarget x b rec rel)) (\<lambda>target.
    andThen (look (coordinatorContext x b rec)) (\<lambda>ctx.
    andThen (ensureCoordinatorSession x c b ctx) (\<lambda>_.
    andThen (look (coordinatorSnapshot x b rec target content)) (\<lambda>observation.
    andThen (invokeCoordinatorBound x c b (request_json ''observe_resource'' ctx
      [(''path'', JStr rel), (''observation'', observation)]) (b_sessionId b)) (\<lambda>seen.
    andThen (look (\<lambda>_. assertCoordinatorResult seen ''observe_resource'')) (\<lambda>_.
    ret (observation_result seen (b_sessionId b) rel))))))))))))"

section \<open>The store stays the same during a call\<close>

lemma runs_invokeCoordinator:
  assumes "runs (invokeCoordinator x c b request) w res w'"
  shows "\<exists>r. w' = w\<lparr>w_repo := r\<rparr>" and "is_obj res"
  using assms
  by (auto simp: invokeCoordinator_def run_simps Let_def split_beta split: option.splits)

lemma runs_boundMarker:
  "runs (boundMarker x b sid bi m) w v w' \<longleftrightarrow>
     readCoordinatorMarker x w (coordinatorMarkerPath b) = Inr (Some v) \<and> marker_matches v sid bi \<and> w' = w"
  by (auto simp: boundMarker_def run_simps split: option.splits)

lemma readJson_repo [simp]: "readJson (w\<lparr>w_repo := r\<rparr>) = readJson w"
  by (simp add: readJson_def fun_eq_iff)

lemma readCoordinatorMarker_Some:
  "readCoordinatorMarker x w p = Inr (Some v) \<Longrightarrow> readJson w p = Some v"
  by (auto simp: readCoordinatorMarker_def bindE_Inr split: if_splits option.splits)

lemma marker_matches_unique:
  "marker_matches v sid bi \<Longrightarrow> marker_matches v sid' bi' \<Longrightarrow>
   sid = sid' \<and> bi_identity bi = bi_identity bi' \<and> bi_generation bi = bi_generation bi'
   \<and> bi_bootIdentity bi = bi_bootIdentity bi' \<and> bi_artifact bi = bi_artifact bi'"
  by (auto simp: marker_matches_def has_str_def)

text \<open>
  A coordinator call that returns was made and finished against one durable store: the
  binding read before the request and the binding read after the answer have the same store
  identity, safety generation, boot identity and artifact, and the session marker matched it at both
  moments.  A store replaced while the request was in flight makes the call throw.
\<close>

theorem bound_call_one_store:
  assumes "runs (invokeCoordinatorBound x c b request sid) w res w'"
  shows "\<exists>before after r. coordinatorBinding x (w_repo w) = Inr before \<and> coordinatorBinding x r = Inr after
    \<and> bi_identity after = bi_identity before \<and> bi_generation after = bi_generation before
    \<and> bi_bootIdentity after = bi_bootIdentity before \<and> bi_artifact after = bi_artifact before
    \<and> (\<exists>v. readJson w (coordinatorMarkerPath b) = Some v \<and> marker_matches v sid before \<and> marker_matches v sid after)
    \<and> w_repo w' = r \<and> is_obj res"
proof -
  obtain bi v w1 now v' where
    1: "coordinatorBinding x (w_repo w) = Inr bi" and
    2: "readCoordinatorMarker x w (coordinatorMarkerPath b) = Inr (Some v)" "marker_matches v sid bi" and
    3: "runs (invokeCoordinator x c b request) w res w1" and
    4: "coordinatorBinding x (w_repo w1) = Inr now" and
    5: "readCoordinatorMarker x w1 (coordinatorMarkerPath b) = Inr (Some v')" "marker_matches v' sid now" and
    6: "w' = w1\<lparr>w_files := (w_files w1)(coordinatorMarkerPath b \<mapsto> with_updated_at v' (x_now x (w_repo w1)))\<rparr>"
    using assms
    unfolding invokeCoordinatorBound_def refreshCoordinatorMarker_def currentBinding_def atomicWrite_def
    by (auto simp: run_simps runs_boundMarker)
  obtain r where r: "w1 = w\<lparr>w_repo := r\<rparr>" using runs_invokeCoordinator(1) [OF 3] by blast
  have "v' = v"
    using readCoordinatorMarker_Some [OF 2(1)] readCoordinatorMarker_Some [OF 5(1)] r by simp
  with 2 5 have m: "marker_matches v sid bi" "marker_matches v sid now" by auto
  have u: "bi_identity now = bi_identity bi" "bi_generation now = bi_generation bi"
    "bi_bootIdentity now = bi_bootIdentity bi" "bi_artifact now = bi_artifact bi"
    using marker_matches_unique [OF m] by simp_all
  have "coordinatorBinding x r = Inr now" "w_repo w' = r" using 4 6 r by simp_all
  with 1 u m runs_invokeCoordinator(2) [OF 3] readCoordinatorMarker_Some [OF 2(1)]
  show ?thesis
    by (intro exI [of _ bi] exI [of _ now] exI [of _ r] conjI exI [of _ v]) simp_all
qed

section \<open>What the container is told\<close>

lemma boundedBridgeString_Inr:
  "boundedBridgeString v label n = Inr j \<longleftrightarrow> (\<exists>s. v = Some (JStr s) \<and> s \<noteq> [] \<and> byteLength s \<le> n \<and> j = JStr s)"
  by (auto simp: boundedBridgeString_def split: option.splits json.splits)

lemma projectBridgeMetadata_bounded:
  "projectBridgeMetadata ls v = JNull \<or>
   (\<exists>kvs. projectBridgeMetadata ls v = JObj kvs \<and> length kvs \<le> 16
     \<and> list_all (\<lambda>(k, item). metadata_key k \<and> metadata_value item) kvs)"
proof -
  have "length (filter P (take 16 xs)) \<le> 16" for P and xs :: "(string \<times> json) list"
    by (rule le_trans [OF length_filter_le]) simp
  then show ?thesis
    by (auto simp: projectBridgeMetadata_def Let_def list_all_iff split: option.splits json.splits)
qed

lemma list_all2_source: "list_all2 P xs ys \<Longrightarrow> y \<in> set ys \<Longrightarrow> \<exists>x \<in> set xs. P x y"
  by (induction rule: list_all2_induct) auto

lemma projectBridgeEvidenceRefs_bounded:
  assumes "projectBridgeEvidenceRefs v = Inr j"
  shows "\<exists>xs. j = JArr xs \<and> length xs \<le> 16 \<and> list_all (\<lambda>r. \<exists>s. r = JStr s \<and> byteLength s \<le> 256) xs"
proof (cases "\<exists>refs. v = Some (JArr refs)")
  case True
  then obtain refs xs where x: "v = Some (JArr refs)" "j = JArr xs"
    "list_all2 (\<lambda>r y. boundedBridgeString (Some r) ''S7-B coordinator evidence reference'' 256 = Inr y) (take 16 refs) xs"
    using assms by (auto simp: projectBridgeEvidenceRefs_def bindE_Inr mapE_Inr)
  then have "length xs \<le> 16" by (auto dest!: list_all2_lengthD)
  moreover have "\<exists>s. y = JStr s \<and> byteLength s \<le> 256" if "y \<in> set xs" for y
    using list_all2_source [OF x(3) that] by (auto simp: boundedBridgeString_Inr)
  ultimately show ?thesis using x(2) by (auto simp: list_all_iff)
next
  case False
  with assms have "j = JArr []" by (auto simp: projectBridgeEvidenceRefs_def split: option.splits json.splits)
  then show ?thesis by simp
qed

lemma projection_Inr:
  assumes "projectS7BBridgeMutationResult ls v = Inr p"
  shows "\<exists>kvs d s refs lc. v = Some (JObj kvs) \<and> boundedDecision (get (JObj kvs) ''decision'') = Inr d
    \<and> get (JObj kvs) ''reason_code'' = Some (JStr s) \<and> s \<noteq> [] \<and> byteLength s \<le> 128
    \<and> projectBridgeEvidenceRefs (get (JObj kvs) ''evidence_refs'') = Inr refs
    \<and> projectBridgeLifecycle (get (JObj kvs) ''lifecycle'') = Inr lc
    \<and> p = JObj [(''bridge_projection'', JStr ''s7b-mutation-result-v1''),
            (''allowed'', JBool (get (JObj kvs) ''allowed'' = Some (JBool True))), (''decision'', d),
            (''reason_code'', JStr s), (''freshness'', projectBridgeFreshness (get (JObj kvs) ''freshness'')),
            (''enforcement'', projectBridgeMetadata ls (get (JObj kvs) ''enforcement'')),
            (''store_health'', projectBridgeMetadata ls (get (JObj kvs) ''store_health'')),
            (''evidence_refs'', refs), (''lifecycle'', lc)]
    \<and> byteLength (stringify p) \<le> S7B_BRIDGE_MUTATION_RESPONSE_MAX_BYTES"
  using assms
  unfolding projectS7BBridgeMutationResult_def Let_def
  by (auto simp: bindE_Inr boundedBridgeString_Inr not_less simp del: get_JObj split: option.splits json.splits if_splits)

text \<open>
  Whatever the coordinator answered, the projection the container receives has exactly
  the nine listed keys, at most 16 KiB of text, at most 16 metadata entries per object with
  scalar values of at most 256 bytes, and at most 16 evidence references of at most 256 bytes.
\<close>

theorem projection_bounded:
  assumes "projectS7BBridgeMutationResult ls v = Inr p"
  shows "keys p = [''bridge_projection'', ''allowed'', ''decision'', ''reason_code'', ''freshness'', ''enforcement'',
      ''store_health'', ''evidence_refs'', ''lifecycle'']
    \<and> byteLength (stringify p) \<le> 16384
    \<and> (\<forall>k \<in> {''enforcement'', ''store_health''}. get p k = Some JNull \<or>
         (\<exists>kvs. get p k = Some (JObj kvs) \<and> length kvs \<le> 16 \<and> list_all (\<lambda>(k, item). metadata_key k \<and> metadata_value item) kvs))
    \<and> (\<exists>xs. get p ''evidence_refs'' = Some (JArr xs) \<and> length xs \<le> 16
         \<and> list_all (\<lambda>r. \<exists>s. r = JStr s \<and> byteLength s \<le> 256) xs)"
proof -
  obtain kvs d s refs lc where k: "projectBridgeEvidenceRefs (get (JObj kvs) ''evidence_refs'') = Inr refs"
    and p: "p = JObj [(''bridge_projection'', JStr ''s7b-mutation-result-v1''),
            (''allowed'', JBool (get (JObj kvs) ''allowed'' = Some (JBool True))), (''decision'', d),
            (''reason_code'', JStr s), (''freshness'', projectBridgeFreshness (get (JObj kvs) ''freshness'')),
            (''enforcement'', projectBridgeMetadata ls (get (JObj kvs) ''enforcement'')),
            (''store_health'', projectBridgeMetadata ls (get (JObj kvs) ''store_health'')),
            (''evidence_refs'', refs), (''lifecycle'', lc)]"
    and b: "byteLength (stringify p) \<le> S7B_BRIDGE_MUTATION_RESPONSE_MAX_BYTES"
    using projection_Inr [OF assms] by blast
  have "byteLength (stringify p) \<le> 16384" using b by (simp add: S7B_BRIDGE_MUTATION_RESPONSE_MAX_BYTES_def)
  moreover have "\<forall>k \<in> {''enforcement'', ''store_health''}. get p k = Some JNull \<or>
      (\<exists>kvs. get p k = Some (JObj kvs) \<and> length kvs \<le> 16 \<and> list_all (\<lambda>(k, item). metadata_key k \<and> metadata_value item) kvs)"
    using projectBridgeMetadata_bounded [of ls "get (JObj kvs) ''enforcement''"]
      projectBridgeMetadata_bounded [of ls "get (JObj kvs) ''store_health''"] by (auto simp: p)
  moreover have "\<exists>xs. get p ''evidence_refs'' = Some (JArr xs) \<and> length xs \<le> 16
      \<and> list_all (\<lambda>r. \<exists>s. r = JStr s \<and> byteLength s \<le> 256) xs"
    using projectBridgeEvidenceRefs_bounded [OF k] by (auto simp: p)
  ultimately show ?thesis by (simp add: p)
qed

section \<open>When a mutation is allowed\<close>

lemma compared_allowed:
  assumes "fst (compared checked observed) \<in> set [''ALLOW'', ''WARN'']"
  shows "decision_of checked \<in> {''ALLOW'', ''WARN''}"
    and "observed \<noteq> None \<Longrightarrow> observed \<noteq> Some JNull \<Longrightarrow>
      sameContentVersion (get_opt (get_opt (get checked ''freshness'') ''current'') ''worktree_content_version'')
        (map_option content_version observed)"
  using assms by (auto simp: compared_def split: if_splits)

lemma projection_allowed:
  assumes "projectS7BBridgeMutationResult ls (Some (mutation_result checked dr sid route rel ex)) = Inr p"
    and "get p ''allowed'' = Some (JBool True)"
  shows "fst dr \<in> set [''ALLOW'', ''WARN'']"
proof -
  have "get p ''allowed'' = Some (JBool (get (mutation_result checked dr sid route rel ex) ''allowed'' = Some (JBool True)))"
    using projection_Inr [OF assms(1)] by auto
  then show ?thesis using assms(2) by (simp add: mutation_result_def)
qed

lemma coordinatorTarget_Inr:
  assumes "coordinatorTarget x b rec rel w = Inr target" "assertCoordinatorRelativePath (Some (JStr rel)) = Inr rel"
  shows "resolve_comps (x_cwd x) target = resolve_comps (x_cwd x) (wr_workspacePath rec) @ split_on slash rel"
    and "x_exists x (w_repo w) target \<Longrightarrow> \<exists>st. x_lstat x (w_repo w) target = Some st \<and> isFile st \<and> \<not> isSymbolicLink st"
proof -
  have t: "target = path_resolve (x_cwd x) (path_join (path_resolve (x_cwd x) (wr_workspacePath rec)) rel)"
    using assms(1) by (auto simp: coordinatorTarget_def Let_def bindE_Inr)
  show "resolve_comps (x_cwd x) target = resolve_comps (x_cwd x) (wr_workspacePath rec) @ split_on slash rel"
    using join_plain_below [OF assertCoordinatorRelativePath_plain(2) [OF assms(2)]]
    by (simp add: t)
  show "x_exists x (w_repo w) target \<Longrightarrow> \<exists>st. x_lstat x (w_repo w) target = Some st \<and> isFile st \<and> \<not> isSymbolicLink st"
    using assms(1)
    by (auto simp: coordinatorTarget_def Let_def bindE_Inr lstat_or_throw_def split: option.splits if_splits)
qed

lemma recheckAbsent_checked:
  assumes "runs (checkBeforeMutation x c b ctx rel fence current) w0 checked w1"
    and "runs (recheckAbsent x c b rec ctx rel target observed fence current checked) w1 final w2"
  shows "\<exists>ctx fence snapshot w1 w2. runs (checkBeforeMutation x c b ctx rel fence snapshot) w1 final w2"
  using assms by (fastforce simp: recheckAbsent_def run_simps split: if_splits)

text \<open>
  C9 (safety).  A mutation the broker reports as allowed names a path that resolves strictly below
  the registered workspace and is no symbolic link or directory there; the coordinator's last
  \<^verbatim>\<open>check_before_mutation\<close> answered ALLOW or WARN; and when the handler sent the hash of the
  bytes it derived the mutation from, that hash is the content version the coordinator checked.
\<close>

theorem mutation_allowed_is_current:
  assumes "runs (coordinateMutation x c b route path observed) w p w'" "get p ''allowed'' = Some (JBool True)"
  shows "\<exists>rel rec target checked. path = Some (JStr rel)
    \<and> validateRegisteredWorkspaceRecord x b w = Inr rec
    \<and> resolve_comps (x_cwd x) target = resolve_comps (x_cwd x) (wr_workspacePath rec) @ split_on slash rel
    \<and> (x_exists x (w_repo w) target \<longrightarrow> (\<exists>st. x_lstat x (w_repo w) target = Some st \<and> isFile st \<and> \<not> isSymbolicLink st))
    \<and> (\<exists>ctx fence snapshot w1 w2. runs (checkBeforeMutation x c b ctx rel fence snapshot) w1 checked w2)
    \<and> decision_of checked \<in> {''ALLOW'', ''WARN''}
    \<and> (observed \<noteq> None \<and> observed \<noteq> Some JNull \<longrightarrow>
        sameContentVersion (get_opt (get_opt (get checked ''freshness'') ''current'') ''worktree_content_version'')
          (map_option content_version observed))"
proof -
  obtain rel rec target ctx fence current checked wa wb wc final where
    1: "assertCoordinatorRelativePath path = Inr rel" "validateRegisteredWorkspaceRecord x b w = Inr rec"
      "coordinatorTarget x b rec rel w = Inr target" and
    c: "runs (checkBeforeMutation x c b ctx rel fence current) wa checked wb"
      "runs (recheckAbsent x c b rec ctx rel target observed fence current checked) wb final wc" and
    3: "projectS7BBridgeMutationResult (c_locale c)
      (Some (mutation_result final (compared final observed) (b_sessionId b) route rel (rel \<noteq> ''HANDOFF.md''))) = Inr p"
    using assms(1) unfolding coordinateMutation_def by (auto simp: run_simps)
  note 2 = recheckAbsent_checked [OF c]
  have rel: "path = Some (JStr rel)" using assertCoordinatorRelativePath_plain(1) [OF 1(1)] .
  have a: "fst (compared final observed) \<in> set [''ALLOW'', ''WARN'']" by (rule projection_allowed [OF 3 assms(2)])
  show ?thesis
    using rel 1(2) coordinatorTarget_Inr [OF 1(3)] 1(1) 2 compared_allowed [OF a]
    by (intro exI [of _ rel] exI [of _ rec] exI [of _ target] exI [of _ final]) auto
qed

end
