(* ===== verification/CoordinatorWitness.thy ===== *)
theory CoordinatorWitness
  imports Coordinator BrokerDemo
begin

text \<open>
  The demo with a coordinator that allows every request, and the coordinator's properties on it.
\<close>

definition demo_hash :: string where "demo_hash = ''ffffffffffffffffffffffffffffffffffffffffffffffffffffffffffffffff''"

definition demo_allow :: json where
  "demo_allow = JObj
    [(''decision'', JStr ''ALLOW''), (''reason_code'', JStr ''OK''),
     (''freshness'', JObj [(''current'', JObj [(''worktree_content_version'', content_version (JStr demo_hash))])])]"

definition demo_coord :: "demo_repo coord" where
  "demo_coord = \<lparr>c_run = (\<lambda>_ _ _ _ _ r. (demo_ok ''allow'', r)), c_parse = (\<lambda>_. Some demo_allow),
    c_request_id = (\<lambda>_. ''0''), c_homedir = ''/home/x'', c_locale = id\<rparr>"

lemma demo_coord_sel: "c_run demo_coord p a d e i r = (demo_ok ''allow'', r)" "c_parse demo_coord t = Some demo_allow"
    "c_locale demo_coord = id" "c_homedir demo_coord = ''/home/x''" "c_request_id demo_coord r = ''0''"
  by (simp_all add: demo_coord_def)

definition demo_binding :: binding where
  "demo_binding = projr (coordinatorBinding demo (demo_first, None))"

lemma demo_ancestor_dirs: "ensureNoSymlinkAncestors demo r ''/srv/store'' = Inr ()"
proof -
  have "ancestors (path_resolve ''/srv'' ''/srv/store'') = [''/'', ''/srv'', ''/srv/store'']" by code_simp
  then show ?thesis
    by (simp add: ensureNoSymlinkAncestors_def demo_simps demo_lstat_def demo_dir_def isSymbolicLink_def isDirectory_def
        endsWith_def)
qed

lemma demo_store_paths: "path_resolve ''/srv'' ''/srv/store/work.db'' = ''/srv/store/work.db''"
    "path_dirname ''/srv/store/work.db'' = ''/srv/store''" "js_integer ''7'' = Some 7"
    "mode_has 384 63 = False" "mode_has 448 63 = False"
    "hex_exact 64 ''3e528011ce130797af25aeca2f1bb1faea294cd46838cfbadffc488cd9463f96''"
  by code_simp+

lemma demo_bound: "coordinatorBinding demo r = Inr demo_binding"
proof -
  have "coordinatorBinding demo r = coordinatorBinding demo r' \<and> is_ok (coordinatorBinding demo r)" for r r'
    by (simp add: coordinatorBinding_def coordinatorValue_def coordinatorInteger_def demo_simps demo_settings_def
        demo_store_paths demo_ancestor_dirs lstat_or_throw_def demo_lstat_def demo_dir_def demo_private_def
        private_owned_def isFile_def isDirectory_def isSymbolicLink_def endsWith_def S7B_ARTIFACT_SHA256_def Let_def)
  then show ?thesis
    by (metis demo_binding_def is_ok_iff sum.sel(2))
qed

definition demo_marker :: json where "demo_marker = marker_json demo_sid demo_binding ''now''"

definition demo_marked :: "demo_repo world" where
  "demo_marked = (demo_world demo_first None None {})
    \<lparr>w_files := (w_files (demo_world demo_first None None {}))(coordinatorMarkerPath demo_broker \<mapsto> demo_marker)\<rparr>"

lemma demo_marker_file: "w_files demo_marked (coordinatorMarkerPath demo_broker) = Some demo_marker" "w_repo demo_marked = (demo_first, None)"
  by (simp_all add: demo_marked_def demo_world_def)

lemma demo_marker_ok: "marker_matches demo_marker demo_sid demo_binding" "get demo_marker ''version'' = Some (JNum 2)"
    "has_str demo_marker ''kind'' ''s7b-coordinator-session''" "truthy (Some demo_marker)"
    "with_updated_at demo_marker ''now'' = demo_marker"
  by (simp_all add: demo_marker_def marker_json_def marker_matches_def has_str_def with_updated_at_def)

lemma demo_marker_stat: "demo_lstat (coordinatorMarkerPath demo_broker) = demo_private"
proof -
  obtain d where d: "coordinatorMarkerPath demo_broker = d @ ''.coordinator.json''"
    by (rule that [of "(if stateRoot demo_broker = ''/'' then [slash] else stateRoot demo_broker @ [slash]) @ demo_sid"])
      (simp add: coordinatorMarkerPath_def path_join_def demo_session)
  have "endsWith (d @ ''.coordinator.json'') ''.json''" "\<not> endsWith (d @ ''.coordinator.json'') ''pre-commit''"
    "\<not> endsWith (d @ ''.coordinator.json'') ''.mjs''" "\<not> endsWith (d @ ''.coordinator.json'') ''.md''"
    by (simp_all add: endsWith_append, simp_all add: endsWith_def)
  with d show ?thesis by (simp add: demo_lstat_def)
qed

lemma demo_read_marker: "readCoordinatorMarker demo demo_marked (coordinatorMarkerPath demo_broker) = Inr (Some demo_marker)"
  by (simp add: readCoordinatorMarker_def demo_marker_file lstat_or_throw_def demo_simps demo_marker_stat demo_private_def
      isFile_def isSymbolicLink_def private_owned_def demo_store_paths readJson_def demo_marker_ok)

lemma demo_same: "demo_marked\<lparr>w_repo := (demo_first, None)\<rparr> = demo_marked"
    "demo_marked\<lparr>w_files := (w_files demo_marked)(coordinatorMarkerPath demo_broker \<mapsto> demo_marker)\<rparr> = demo_marked"
  by (simp_all add: demo_marked_def demo_world_def)

lemma demo_process_env: "\<exists>env. coordinatorProcessEnvironment demo ''/home/x'' = Inr env"
  by (simp add: coordinatorProcessEnvironment_def demo_simps demo_settings_def Let_def S7B_REPOSITORY_ID_def
      int_to_string_def digits_of.simps)

lemma demo_invoke: "runs (invokeCoordinator demo demo_coord demo_broker request) demo_marked demo_allow demo_marked"
proof -
  obtain env where env: "coordinatorProcessEnvironment demo ''/home/x'' = Inr env" using demo_process_env by blast
  have t: "lines_of (trim ''allow'') = [''allow'']" "path_basename ''/srv/s7b-coordinator-driver.py'' = S7B_COORDINATOR_DRIVER"
    by code_simp+
  have v: "coordinatorValue demo ''S7B_COORDINATOR_PYTHON'' = Inr ''/usr/bin/python3''"
    "coordinatorValue demo ''S7B_COORDINATOR_DRIVER'' = Inr ''/srv/s7b-coordinator-driver.py''"
    by (simp_all add: coordinatorValue_def demo_simps demo_settings_def)
  have a: "is_obj demo_allow" by (simp add: demo_allow_def)
  show ?thesis
    unfolding invokeCoordinator_def
    by (simp add: run_simps v env demo_coord_sel t a demo_simps demo_marker_file demo_same is_absolute_def Let_def)
qed

lemma demo_invoke_bound: "runs (invokeCoordinatorBound demo demo_coord demo_broker request demo_sid) demo_marked demo_allow demo_marked"
  unfolding invokeCoordinatorBound_def refreshCoordinatorMarker_def currentBinding_def atomicWrite_def
  using demo_invoke
  by (auto simp: run_simps runs_boundMarker demo_marker_file demo_bound demo_read_marker demo_marker_ok demo_same demo_simps
      intro!: exI [of _ demo_marked])

theorem bound_call_one_store_witness:
  "\<exists>before after r. coordinatorBinding demo (demo_first, None) = Inr before \<and> coordinatorBinding demo r = Inr after
    \<and> bi_identity after = bi_identity before"
  using bound_call_one_store [OF demo_invoke_bound] by (auto simp: demo_marker_file)

definition demo_result :: json where
  "demo_result = JObj
    [(''allowed'', JBool True), (''decision'', JStr ''ALLOW''), (''reason_code'', JStr ''OK''),
     (''enforcement'', JObj [(''mode'', JStr ''on'')]), (''repository'', JStr ''not projected''),
     (''lifecycle'', JObj [(''session_id'', JStr ''s''), (''route'', JStr ''r''), (''path'', JStr ''a''), (''exclusive'', JBool True)])]"

definition demo_projection :: json where
  "demo_projection = JObj
    [(''bridge_projection'', JStr ''s7b-mutation-result-v1''), (''allowed'', JBool True), (''decision'', JStr ''ALLOW''),
     (''reason_code'', JStr ''OK''), (''freshness'', JNull), (''enforcement'', JObj [(''mode'', JStr ''on'')]),
     (''store_health'', JNull), (''evidence_refs'', JArr []),
     (''lifecycle'', JObj [(''session_id'', JStr ''s''), (''route'', JStr ''r''), (''path'', JStr ''a''), (''exclusive'', JBool True)])]"

lemma demo_projection_short: "byteLength (stringify demo_projection) \<le> 16384"
  by (simp add: demo_projection_def quote_string_def escape_char_def Let_def)

lemma demo_projected: "projectS7BBridgeMutationResult id (Some demo_result) = Inr demo_projection"
  using demo_projection_short
  by (simp add: projectS7BBridgeMutationResult_def demo_result_def demo_projection_def boundedDecision_def DECISIONS_def
      boundedBridgeString_def projectBridgeEvidenceRefs_def projectBridgeLifecycle_def projectBridgeFreshness_def
      projectBridgeMetadata_def metadata_key_def metadata_value_def get_opt_def is_lower_def Let_def
      S7B_BRIDGE_MUTATION_RESPONSE_MAX_BYTES_def del: stringify.simps)

theorem projection_bounded_witness:
  "get demo_projection ''repository'' = None \<and> byteLength (stringify demo_projection) \<le> 16384"
  using projection_bounded [OF demo_projected] by (simp add: demo_projection_def)

section \<open>A whole mutation\<close>

lemma demo_marked_record: "validateRegisteredWorkspaceRecord demo demo_broker demo_marked = Inr demo_rec"
proof -
  have "coordinatorMarkerPath demo_broker \<noteq> path_join (stateRoot demo_broker) (demo_sid @ ''.json'')"
    by (simp add: coordinatorMarkerPath_def demo_session)
  then have "readWorkspaceState demo_broker demo_marked demo_sid = readWorkspaceState demo_broker (demo_world demo_first None None {}) demo_sid"
    by (simp add: readWorkspaceState_def readJson_def demo_marked_def)
  then show ?thesis
    by (simp add: validateRegisteredWorkspaceRecord_def demo_simps demo_rec_def workspacePath_def)
qed

lemma demo_target: "\<exists>target. coordinatorTarget demo demo_broker demo_rec ''README.md'' demo_marked = Inr target"
proof -
  have "isWithin ''/srv'' (path_resolve ''/srv'' (path_join (path_resolve ''/srv'' demo_wp) ''README.md'')) demo_wp"
    "path_resolve ''/srv'' (path_join (path_resolve ''/srv'' demo_wp) ''README.md'') = demo_wp @ ''/README.md''"
    "ancestors (path_resolve ''/srv'' (path_dirname (demo_wp @ ''/README.md'')))
      = [''/'', ''/srv'', ''/srv/chatgpt-local-bridge-s6-demo'', ''/srv/chatgpt-local-bridge-s6-demo/sessions'', demo_wp]"
    "demo_lstat demo_wp = demo_dir" "demo_lstat (demo_wp @ ''/README.md'') = demo_script"
    by code_simp+
  then show ?thesis
    by (simp add: coordinatorTarget_def demo_simps demo_marker_file ensureNoSymlinkAncestors_def lstat_or_throw_def
        demo_lstat_def [of "''/''"] demo_lstat_def [of "CHR ''/'' # _"] endsWith_def demo_dir_def demo_script_def
        isDirectory_def isSymbolicLink_def isFile_def Let_def)
qed

lemma demo_context: "\<exists>ctx. coordinatorContext demo demo_broker demo_rec demo_marked = Inr ctx"
  by (simp add: coordinatorContext_def gitOutput_def demo_simps demo_marker_file)

lemma demo_snapshot:
  "\<exists>snap. coordinatorSnapshot demo demo_broker demo_rec target None demo_marked = Inr snap"
proof -
  have "trim (demo_first @ [nl]) = demo_first"
    by (rule trim_line) (simp add: demo_first_def list_all_iff is_space_def)
  then show ?thesis
    by (simp add: coordinatorSnapshot_def gitOutput_def demo_simps demo_marker_file assertSha_def nonempty_def Let_def)
qed

lemma demo_decision: "assertCoordinatorResult demo_allow action = Inr ()" "decision_of demo_allow = ''ALLOW''"
    "get demo_allow ''reason_code'' = Some (JStr ''OK'')"
    "compared demo_allow (Some (JStr demo_hash)) = (''ALLOW'', Some (JStr ''OK''))"
  by (simp_all add: assertCoordinatorResult_def demo_allow_def decision_of_def field_def RESULT_DECISIONS_def compared_def
      get_opt_def content_version_def sameContentVersion_def)

definition demo_edit :: json where
  "demo_edit = mutation_result demo_allow (''ALLOW'', Some (JStr ''OK'')) demo_sid ''edit_file'' ''README.md'' True"

definition demo_edit_projection :: json where
  "demo_edit_projection = JObj
    [(''bridge_projection'', JStr ''s7b-mutation-result-v1''), (''allowed'', JBool True), (''decision'', JStr ''ALLOW''),
     (''reason_code'', JStr ''OK''),
     (''freshness'', JObj [(''current'', JObj [(''worktree_content_version'', content_version (JStr demo_hash))])]),
     (''enforcement'', JNull), (''store_health'', JNull), (''evidence_refs'', JArr []),
     (''lifecycle'', JObj [(''session_id'', JStr demo_sid), (''route'', JStr ''edit_file''), (''path'', JStr ''README.md''), (''exclusive'', JBool True)])]"

lemma demo_edit_short: "byteLength (stringify demo_edit_projection) \<le> 16384"
  by (simp add: demo_edit_projection_def content_version_def demo_hash_def demo_sid_def quote_string_def escape_char_def
      Let_def)

lemma demo_edit_projected: "projectS7BBridgeMutationResult id (Some demo_edit) = Inr demo_edit_projection"
  using demo_edit_short
  by (simp add: projectS7BBridgeMutationResult_def demo_edit_def mutation_result_def opt_entry_def demo_allow_def or_null_def
      or_empty_def demo_edit_projection_def boundedDecision_def DECISIONS_def
      boundedBridgeString_def projectBridgeEvidenceRefs_def projectBridgeLifecycle_def projectBridgeFreshness_def
      projectBridgeMetadata_def get_opt_def Let_def content_version_def has_str_def demo_hash_def demo_sid_def
      S7B_BRIDGE_MUTATION_RESPONSE_MAX_BYTES_def is_hex_def hex_exact_def del: stringify.simps)

lemma demo_ensure: "runs (ensureCoordinatorSession demo demo_coord demo_broker ctx) demo_marked () demo_marked"
  using demo_invoke_bound
  by (auto simp: ensureCoordinatorSession_def currentBinding_def run_simps demo_simps demo_marker_file demo_bound demo_read_marker
      demo_marker_ok demo_decision Let_def intro!: exI [of _ demo_allow])

lemma demo_check: "runs (checkBeforeMutation demo demo_coord demo_broker ctx rel fence snap) demo_marked demo_allow demo_marked"
  unfolding checkBeforeMutation_def using demo_invoke_bound by (auto simp: run_simps demo_simps demo_decision)

lemma demo_mutation:
  "runs (coordinateMutation demo demo_coord demo_broker ''edit_file'' (Some (JStr ''README.md'')) (Some (JStr demo_hash)))
    demo_marked demo_edit_projection demo_marked"
proof -
  obtain target ctx snap where
    t: "coordinatorTarget demo demo_broker demo_rec ''README.md'' demo_marked = Inr target"
      "coordinatorContext demo demo_broker demo_rec demo_marked = Inr ctx"
      "coordinatorSnapshot demo demo_broker demo_rec target None demo_marked = Inr snap"
    using demo_target demo_context demo_snapshot by blast
  have p: "assertCoordinatorRelativePath (Some (JStr ''README.md'')) = Inr ''README.md''" by code_simp
  have h: "hex_exact 64 demo_hash" by (simp add: demo_hash_def hex_exact_def)
  have r: "''edit_file'' \<in> set S7B_COORDINATED_ROUTES" by (simp add: S7B_COORDINATED_ROUTES_def)
  have a: "runs (acquireClaim demo demo_coord demo_broker ctx ''README.md'') demo_marked (Some demo_allow) demo_marked"
    unfolding acquireClaim_def using demo_invoke_bound by (auto simp: run_simps demo_simps demo_decision)
  have f: "claim_fence demo (Some demo_allow) = Inr None"
    by (simp add: claim_fence_def demo_decision demo_allow_def)
  have k: "runs (recheckAbsent demo demo_coord demo_broker demo_rec ctx ''README.md'' target (Some (JStr demo_hash)) None snap demo_allow)
      demo_marked demo_allow demo_marked"
    by (simp add: recheckAbsent_def demo_decision run_simps)
  show ?thesis
    unfolding coordinateMutation_def runs_andThen runs_look runs_guard
    using p h r a f k t demo_ensure demo_invoke_bound demo_check demo_edit_projected demo_marked_record
    by (fastforce simp: demo_simps demo_decision demo_coord_sel demo_edit_def)
qed

theorem mutation_allowed_is_current_witness:
  "\<exists>rel checked. Some (JStr ''README.md'') = Some (JStr rel) \<and> decision_of checked \<in> {''ALLOW'', ''WARN''}
    \<and> sameContentVersion (get_opt (get_opt (get checked ''freshness'') ''current'') ''worktree_content_version'')
          (Some (content_version (JStr demo_hash)))"
  using mutation_allowed_is_current [OF demo_mutation] by (auto simp: demo_edit_projection_def)

end
