(* ===== verification/JsonParse.thy ===== *)
theory JsonParse
  imports JsonText
begin

text \<open>
  \<^verbatim>\<open>JSON.parse\<close>.  Strings are Latin-1 (an escape beyond it, like a number that is not an
  integer, is outside the model and reads as malformed); of two equal keys the last value counts.
  The reader takes fuel for the depth of its calls; \<open>pvalue_fuel\<close> shows that
  \<open>2 * length s + 1\<close> is never exhausted, and \<open>parse_stringify\<close> that the text of a
  value reads back.
\<close>

section \<open>The reader\<close>

definition json_space :: "char \<Rightarrow> bool" where
  "json_space c = (c = CHR '' '' \<or> c = nl \<or> c = cr \<or> c = tab)"

definition skip_ws :: "string \<Rightarrow> string" where
  "skip_ws s = dropWhile json_space s"

definition hex_value :: "string \<Rightarrow> nat option" where
  "hex_value s = (if length s = 4 then digits_value 16 0 s else None)"

text \<open>The character an escape stands for and how many characters follow its letter.\<close>

definition escaped :: "char \<Rightarrow> string \<Rightarrow> (char \<times> nat) option" where
  "escaped e s =
    (if e = dquote \<or> e = backslash \<or> e = slash then Some (e, 0)
     else if e = CHR ''b'' then Some (CHR 0x08, 0) else if e = CHR ''f'' then Some (CHR 0x0C, 0)
     else if e = CHR ''n'' then Some (nl, 0) else if e = CHR ''r'' then Some (cr, 0)
     else if e = CHR ''t'' then Some (tab, 0)
     else if e = CHR ''u'' then
       (case hex_value (take 4 s) of
          Some v \<Rightarrow> if v < 256 then Some (char_of v, 4) else None
        | None \<Rightarrow> None)
     else None)"

fun pchars :: "string \<Rightarrow> (string \<times> string) option" where
  "pchars [] = None"
| "pchars (c # s) =
    (if c = dquote then Some ([], s)
     else if (of_char c :: nat) < 32 then None
     else if c \<noteq> backslash then map_option (\<lambda>(t, r). (c # t, r)) (pchars s)
     else (case s of
             [] \<Rightarrow> None
           | e # s' \<Rightarrow>
               (case escaped e s' of
                  None \<Rightarrow> None
                | Some (d, k) \<Rightarrow> map_option (\<lambda>(t, r). (d # t, r)) (pchars (drop k s')))))"

definition number_char :: "char \<Rightarrow> bool" where
  "number_char c = (is_digit c \<or> c \<in> set ''+-.eE'')"

text \<open>\<^verbatim>\<open>-?(0|[1-9][0-9]*)([.][0-9]+)?([eE][+-]?[0-9]+)?\<close>.\<close>

definition digits_only :: "string \<Rightarrow> bool" where
  "digits_only s = (s \<noteq> [] \<and> list_all is_digit s)"

definition json_unsigned :: "string \<Rightarrow> bool" where
  "json_unsigned u =
    (let ip = takeWhile is_digit u; r = dropWhile is_digit u;
         fp = (if startsWith r ''.'' then takeWhile is_digit (tl r) else []);
         x = (if startsWith r ''.'' then dropWhile is_digit (tl r) else r)
     in ip \<noteq> [] \<and> (hd ip = CHR ''0'' \<longrightarrow> length ip = 1) \<and> (startsWith r ''.'' \<longrightarrow> fp \<noteq> [])
        \<and> (x = [] \<or> (hd x = CHR ''e'' \<or> hd x = CHR ''E'') \<and> digits_only (snd (split_sign (tl x)))))"

definition json_number :: "string \<Rightarrow> int option" where
  "json_number s =
    (if startsWith s ''-'' then (if json_unsigned (tl s) then map_option uminus (decimal_value (tl s)) else None)
     else if json_unsigned s then decimal_value s else None)"

definition pnumber :: "string \<Rightarrow> (json \<times> string) option" where
  "pnumber s = map_option (\<lambda>n. (JNum n, dropWhile number_char s)) (json_number (takeWhile number_char s))"

definition pliteral :: "string \<Rightarrow> (json \<times> string) option" where
  "pliteral s =
    (if startsWith s ''null'' then Some (JNull, drop 4 s)
     else if startsWith s ''true'' then Some (JBool True, drop 4 s)
     else if startsWith s ''false'' then Some (JBool False, drop 5 s)
     else pnumber s)"

text \<open>An object keeps the place of a repeated key and its last value.\<close>

definition put_key :: "(string \<times> json) list \<Rightarrow> string \<times> json \<Rightarrow> (string \<times> json) list" where
  "put_key kvs kv =
    (if fst kv \<in> fst ` set kvs then map (\<lambda>(k, v). if k = fst kv then kv else (k, v)) kvs else kvs @ [kv])"

definition obj_of :: "(string \<times> json) list \<Rightarrow> json" where
  "obj_of kvs = JObj (foldl put_key [] kvs)"

text \<open>After white space, one expected character.\<close>

definition token :: "char \<Rightarrow> string \<Rightarrow> string option" where
  "token c s = (case skip_ws s of [] \<Rightarrow> None | d # r \<Rightarrow> if d = c then Some r else None)"

fun pvalue :: "nat \<Rightarrow> string \<Rightarrow> (json \<times> string) option"
  and pelems :: "nat \<Rightarrow> string \<Rightarrow> (json list \<times> string) option"
  and pmembers :: "nat \<Rightarrow> string \<Rightarrow> ((string \<times> json) list \<times> string) option" where
  "pvalue 0 s = None"
| "pvalue (Suc n) s =
    (case token dquote s of
       Some r \<Rightarrow> Option.bind (pchars r) (\<lambda>(t, q). Some (JStr t, q))
     | None \<Rightarrow>
    (case token CHR ''['' s of
       Some r \<Rightarrow>
         (case token CHR '']'' r of
            Some q \<Rightarrow> Some (JArr [], q)
          | None \<Rightarrow> Option.bind (pelems n r) (\<lambda>(vs, q). Some (JArr vs, q)))
     | None \<Rightarrow>
    (case token CHR ''{'' s of
       Some r \<Rightarrow>
         (case token CHR ''}'' r of
            Some q \<Rightarrow> Some (JObj [], q)
          | None \<Rightarrow> Option.bind (pmembers n r) (\<lambda>(kvs, q). Some (obj_of kvs, q)))
     | None \<Rightarrow> pliteral (skip_ws s))))"
| "pelems 0 s = None"
| "pelems (Suc n) s =
    Option.bind (pvalue n s) (\<lambda>(v, r).
    case token CHR '','' r of
      Some q \<Rightarrow> Option.bind (pelems n q) (\<lambda>(vs, z). Some (v # vs, z))
    | None \<Rightarrow> Option.bind (token CHR '']'' r) (\<lambda>q. Some ([v], q)))"
| "pmembers 0 s = None"
| "pmembers (Suc n) s =
    Option.bind (token dquote s) (\<lambda>r.
    Option.bind (pchars r) (\<lambda>(k, r1).
    Option.bind (token CHR '':'' r1) (\<lambda>r2.
    Option.bind (pvalue n r2) (\<lambda>(v, r3).
    case token CHR '','' r3 of
      Some q \<Rightarrow> Option.bind (pmembers n q) (\<lambda>(kvs, z). Some ((k, v) # kvs, z))
    | None \<Rightarrow> Option.bind (token CHR ''}'' r3) (\<lambda>q. Some ([(k, v)], q))))))"

lemmas step_simps = pvalue.simps(2) pelems.simps(2) pmembers.simps(2)

declare step_simps [simp del]

lemma pelems_Some:
  "pelems (Suc n) s = Some (vs, r) \<longleftrightarrow>
     (\<exists>w q. pvalue n s = Some (w, q) \<and>
        ((\<exists>q' ws. token CHR '','' q = Some q' \<and> pelems n q' = Some (ws, r) \<and> vs = w # ws)
         \<or> token CHR '','' q = None \<and> token CHR '']'' q = Some r \<and> vs = [w]))"
proof (cases "pvalue n s")
  case (Some a)
  then show ?thesis by (cases a; cases "token CHR '','' (snd a)") (auto simp: step_simps bind_eq_Some_conv)
qed (simp add: step_simps)

lemma pmembers_Some:
  "pmembers (Suc n) s = Some (kvs, r) \<longleftrightarrow>
     (\<exists>r0 k r1 r2 w q. token dquote s = Some r0 \<and> pchars r0 = Some (k, r1) \<and> token CHR '':'' r1 = Some r2
        \<and> pvalue n r2 = Some (w, q) \<and>
        ((\<exists>q' ws. token CHR '','' q = Some q' \<and> pmembers n q' = Some (ws, r) \<and> kvs = (k, w) # ws)
         \<or> token CHR '','' q = None \<and> token CHR ''}'' q = Some r \<and> kvs = [(k, w)]))"
proof (cases "\<exists>r0 k r1 r2 w q. token dquote s = Some r0 \<and> pchars r0 = Some (k, r1) \<and> token CHR '':'' r1 = Some r2
        \<and> pvalue n r2 = Some (w, q)")
  case True
  then obtain r0 k r1 r2 w q where "token dquote s = Some r0" "pchars r0 = Some (k, r1)" "token CHR '':'' r1 = Some r2"
      "pvalue n r2 = Some (w, q)" by blast
  then show ?thesis by (cases "token CHR '','' q") (auto simp: step_simps bind_eq_Some_conv)
next
  case False
  then show ?thesis by (auto simp: step_simps bind_eq_Some_conv)
qed

definition JSON_parse :: "string \<Rightarrow> json option" where
  "JSON_parse s =
    (case pvalue (2 * length s + 1) s of
       None \<Rightarrow> None
     | Some (v, r) \<Rightarrow> if skip_ws r = [] then Some v else None)"

section \<open>The fuel is enough\<close>

lemma skip_ws_length: "length (skip_ws s) \<le> length s"
  by (simp add: skip_ws_def length_dropWhile_le)

lemma token_length: "token c s = Some r \<Longrightarrow> length r < length s"
  using skip_ws_length [of s] by (auto simp: token_def split: list.splits if_splits)

lemma pchars_length: "pchars s = Some (t, r) \<Longrightarrow> length r < length s"
proof (induction s arbitrary: t r rule: pchars.induct)
  case 1
  then show ?case by simp
next
  case (2 c s)
  then show ?case by (fastforce split: if_splits list.splits option.splits prod.splits)
qed

lemma pliteral_length: "pliteral s = Some (v, r) \<Longrightarrow> length r < length s"
proof -
  have "length (dropWhile number_char s) < length s" if "json_number (takeWhile number_char s) = Some n" for n
  proof -
    have "takeWhile number_char s \<noteq> []" using that by (auto simp: json_number_def json_unsigned_def startsWith_def)
    then obtain c s' where "s = c # s'" "number_char c" by (cases s) (auto split: if_splits)
    then show ?thesis using length_dropWhile_le [of number_char s'] by simp
  qed
  then show "pliteral s = Some (v, r) \<Longrightarrow> length r < length s"
    by (cases s) (auto simp: pliteral_def pnumber_def split: if_splits)
qed

lemma parsed_length_all:
  "(\<forall>s v r. pvalue n s = Some (v, r) \<longrightarrow> length r < length s)
   \<and> (\<forall>s vs r. pelems n s = Some (vs, r) \<longrightarrow> length r < length s)
   \<and> (\<forall>s kvs r. pmembers n s = Some (kvs, r) \<longrightarrow> length r < length s)"
proof (induction n)
  case 0
  show ?case by simp
next
  case (Suc n)
  have v: "length r < length s" if "pvalue n s = Some (v, r)" for s v r using Suc that by blast
  have e: "length r < length s" if "pelems n s = Some (vs, r)" for s vs r using Suc that by blast
  have m: "length r < length s" if "pmembers n s = Some (kvs, r)" for s kvs r using Suc that by blast
  have l: "length r < length s" if "pliteral (skip_ws s) = Some (v, r)" for s v r
    using pliteral_length [OF that] skip_ws_length [of s] by simp
  have "length r < length s" if "pvalue (Suc n) s = Some (v, r)" for s v r
    using that by (auto simp: step_simps bind_eq_Some_conv split: option.splits dest!: token_length pchars_length e m intro: l)
  moreover have "length r < length s" if "pelems (Suc n) s = Some (vs, r)" for s vs r
    using that by (auto simp: pelems_Some dest!: token_length v e)
  moreover have "length r < length s" if "pmembers (Suc n) s = Some (kvs, r)" for s kvs r
    using that by (auto simp: pmembers_Some dest!: token_length pchars_length v m)
  ultimately show ?case by blast
qed

lemma parsed_length:
  "pvalue n s = Some (v, r) \<Longrightarrow> length r < length s"
  "pelems n s = Some (vs, r) \<Longrightarrow> length r < length s"
  "pmembers n s = Some (kvs, r) \<Longrightarrow> length r < length s"
  using parsed_length_all [of n] by blast+

text \<open>With twice the length of the input more fuel changes nothing.\<close>

lemma fuel_enough:
  "(\<forall>s. 2 * length s < n \<longrightarrow> pvalue (Suc n) s = pvalue n s)
   \<and> (\<forall>s. 2 * length s + 1 < n \<longrightarrow> pelems (Suc n) s = pelems n s)
   \<and> (\<forall>s. 2 * length s < n \<longrightarrow> pmembers (Suc n) s = pmembers n s)"
proof (induction n)
  case 0
  show ?case by simp
next
  case (Suc n)
  have v: "pvalue (Suc n) s = pvalue n s" if "2 * length s < n" for s using Suc that by blast
  have e: "pelems (Suc n) s = pelems n s" if "2 * length s + 1 < n" for s using Suc that by blast
  have m: "pmembers (Suc n) s = pmembers n s" if "2 * length s < n" for s using Suc that by blast
  have "pvalue (Suc (Suc n)) s = pvalue (Suc n) s" if "2 * length s < Suc n" for s
  proof -
    have "pelems (Suc n) r = pelems n r" "pmembers (Suc n) r = pmembers n r" if "token c s = Some r" for c r
      using token_length [OF that] \<open>2 * length s < Suc n\<close> by (simp_all add: e m)
    then show ?thesis unfolding pvalue.simps(2) [of "Suc n"] pvalue.simps(2) [of n] by (auto split: option.splits)
  qed
  moreover have "pelems (Suc (Suc n)) s = pelems (Suc n) s" if "2 * length s + 1 < Suc n" for s
  proof -
    have v': "pvalue (Suc n) s = pvalue n s" using that by (simp add: v)
    have "pelems (Suc n) q = pelems n q" if "pvalue n s = Some (w, r)" "token c r = Some q" for w r c q
      using parsed_length(1) [OF that(1)] token_length [OF that(2)] \<open>2 * length s + 1 < Suc n\<close> by (simp add: e)
    then show ?thesis unfolding pelems.simps(2) [of "Suc n"] pelems.simps(2) [of n] v' by (cases "pvalue n s") (auto split: option.splits)
  qed
  moreover have "pmembers (Suc (Suc n)) s = pmembers (Suc n) s" if "2 * length s < Suc n" for s
  proof (cases "\<exists>r k r1 r2. token dquote s = Some r \<and> pchars r = Some (k, r1) \<and> token CHR '':'' r1 = Some r2")
    case True
    then obtain r k r1 r2 where t: "token dquote s = Some r" "pchars r = Some (k, r1)" "token CHR '':'' r1 = Some r2"
      by blast
    have l: "length r2 + 3 \<le> length s"
      using token_length [OF t(1)] pchars_length [OF t(2)] token_length [OF t(3)] by simp
    then have v': "pvalue (Suc n) r2 = pvalue n r2" using that by (simp add: v)
    have "pmembers (Suc n) q = pmembers n q" if "pvalue n r2 = Some (w, r3)" "token c r3 = Some q" for w r3 c q
      using parsed_length(1) [OF that(1)] token_length [OF that(2)] l \<open>2 * length s < Suc n\<close> by (simp add: m)
    then show ?thesis unfolding pmembers.simps(2) [of "Suc n"] pmembers.simps(2) [of n] using t by (cases "pvalue n r2") (auto simp: v' split: option.splits)
  next
    case False
    then show ?thesis unfolding pmembers.simps(2) [of "Suc n"] pmembers.simps(2) [of n] by (auto simp: bind_eq_None_conv split: bind_splits)
  qed
  ultimately show ?case by blast
qed

lemma pvalue_fuel:
  assumes "2 * length s < n" "n \<le> k"
  shows "pvalue k s = pvalue n s"
  using assms(2)
proof (induction k rule: dec_induct)
  case base
  show ?case by simp
next
  case (step k)
  then show ?case using fuel_enough [of k] assms(1) by simp
qed

section \<open>The text of a value reads back\<close>

text \<open>Objects with distinct keys, as every object of the sources has.\<close>

fun json_ok :: "json \<Rightarrow> bool" where
  "json_ok (JArr vs) = list_all json_ok vs"
| "json_ok (JObj kvs) = (distinct (map fst kvs) \<and> list_all (\<lambda>(k, v). json_ok v) kvs)"
| "json_ok _ = True"

lemma put_keys_distinct: "distinct (map fst (acc @ kvs)) \<Longrightarrow> foldl put_key acc kvs = acc @ kvs"
  by (induction kvs arbitrary: acc) (auto simp: put_key_def)

lemma obj_of_distinct: "distinct (map fst kvs) \<Longrightarrow> obj_of kvs = JObj kvs"
  using put_keys_distinct [of "[]"] by (simp add: obj_of_def)

lemma digits_value_hex:
  "n < 256 \<Longrightarrow> hex_value [CHR ''0'', CHR ''0'', hex_digit (n div 16), hex_digit (n mod 16)] = Some n"
proof -
  have "\<forall>k \<in> set [0..<16]. digit_value (hex_digit k) = Some k \<and> k < 16" by code_simp
  then have d: "digit_value (hex_digit k) = Some k" if "k < 16" for k using that by simp
  assume "n < 256"
  then have "n div 16 < 16" by simp
  moreover have "digit_value CHR ''0'' = Some 0" by (simp add: digit_value_def)
  ultimately show ?thesis by (simp add: hex_value_def d)
qed

lemma escaped_escape_char:
  "escape_char c = [c] \<and> c \<noteq> dquote \<and> c \<noteq> backslash \<and> \<not> (of_char c :: nat) < 32
   \<or> (\<exists>e s. escape_char c = backslash # e # s \<and> (\<forall>t. escaped e (s @ t) = Some (c, length s)))"
proof (cases "c \<in> {dquote, backslash, CHR 0x08, tab, nl, CHR 0x0C, cr} \<or> \<not> (of_char c :: nat) < 32")
  case True
  then show ?thesis by (auto simp: escape_char_def escaped_def Let_def)
next
  case False
  let ?n = "of_char c :: nat"
  have c: "char_of ?n = c" by simp
  have ne: "?n \<noteq> 8"
  proof
    assume "?n = 8"
    moreover have "char_of (8 :: nat) = CHR 0x08" by code_simp
    ultimately have "c = CHR 0x08" using c by simp
    with False show False by simp
  qed
  have ne': "?n \<noteq> 12"
  proof
    assume "?n = 12"
    moreover have "char_of (12 :: nat) = CHR 0x0C" by code_simp
    ultimately have "c = CHR 0x0C" using c by simp
    with False show False by simp
  qed
  have "escape_char c = [backslash, CHR ''u'', CHR ''0'', CHR ''0'', hex_digit (?n div 16), hex_digit (?n mod 16)]"
    using False ne ne' by (auto simp: escape_char_def Let_def)
  moreover have "escaped CHR ''u'' ([CHR ''0'', CHR ''0'', hex_digit (?n div 16), hex_digit (?n mod 16)] @ t) = Some (c, 4)" for t
    using False digits_value_hex [of ?n] by (simp add: escaped_def)
  ultimately show ?thesis by auto
qed

lemma pchars_quote: "pchars (concat (map escape_char s) @ dquote # r) = Some (s, r)"
proof (induction s)
  case Nil
  show ?case by simp
next
  case (Cons c s)
  from escaped_escape_char [of c] show ?case
  proof
    assume "escape_char c = [c] \<and> c \<noteq> dquote \<and> c \<noteq> backslash \<and> \<not> (of_char c :: nat) < 32"
    then show ?thesis using Cons by simp
  next
    assume "\<exists>e s. escape_char c = backslash # e # s \<and> (\<forall>t. escaped e (s @ t) = Some (c, length s))"
    then show ?thesis using Cons by auto
  qed
qed

lemma token_here [simp]: "\<not> json_space c \<Longrightarrow> token c (c # r) = Some r"
  by (simp add: token_def skip_ws_def)

lemma token_other [simp]: "\<not> json_space d \<Longrightarrow> d \<noteq> c \<Longrightarrow> token c (d # r) = None"
  by (simp add: token_def skip_ws_def)

lemma json_space_simps [simp]: "\<not> json_space dquote" "\<not> json_space CHR ''[''" "\<not> json_space CHR '']''" "\<not> json_space CHR ''{''"
    "\<not> json_space CHR ''}''" "\<not> json_space CHR '',''" "\<not> json_space CHR '':''" "\<not> json_space CHR ''n''" "\<not> json_space CHR ''t''"
    "\<not> json_space CHR ''f''"
  by (simp_all add: json_space_def)

section \<open>Numbers\<close>

lemma digits_of_digit: "d < 10 \<Longrightarrow> is_digit (char_of (48 + d)) \<and> digit_value (char_of (48 + d)) = Some d"
proof -
  have "\<forall>d \<in> set [0..<10]. is_digit (char_of (48 + d)) \<and> digit_value (char_of (48 + d)) = Some d" by code_simp
  then show "d < 10 \<Longrightarrow> ?thesis" by simp
qed

lemma digits_value_append:
  "digits_value b a (s @ t) = Option.bind (digits_value b a s) (\<lambda>a'. digits_value b a' t)"
  by (induction b a s rule: digits_value.induct) (auto split: option.splits)

lemma digits_of_value: "digits_value 10 0 (digits_of n) = Some n \<and> list_all is_digit (digits_of n) \<and> digits_of n \<noteq> []
    \<and> (hd (digits_of n) = CHR ''0'' \<longrightarrow> length (digits_of n) = 1)"
proof (induction n rule: digits_of.induct)
  case (1 n)
  show ?case
  proof (cases "n < 10")
    case True
    then show ?thesis using digits_of_digit [OF True] by (simp add: digits_of.simps [of n])
  next
    case False
    have z: "hd (digits_of (n div 10)) \<noteq> CHR ''0''"
    proof
      assume "hd (digits_of (n div 10)) = CHR ''0''"
      then have "length (digits_of (n div 10)) = 1" using 1 False by simp
      then have "digits_of (n div 10) = ''0''" using \<open>hd (digits_of (n div 10)) = CHR ''0''\<close>
        by (cases "digits_of (n div 10)") auto
      then have "n div 10 = 0" using 1 False by (simp add: digit_value_def)
      then show False using False by simp
    qed
    have "n mod 10 < 10" by simp
    then show ?thesis using 1 False z digits_of_digit [of "n mod 10"]
      by (simp add: digits_of.simps [of n] digits_value_append hd_append)
  qed
qed

lemma digit_plain: "is_digit c \<Longrightarrow> c \<noteq> CHR ''e'' \<and> c \<noteq> CHR ''E'' \<and> c \<noteq> CHR ''.'' \<and> c \<noteq> CHR ''-'' \<and> number_char c"
  by (auto simp: is_digit_def number_char_def)

lemma takeWhile_all_digits: "list_all is_digit s \<Longrightarrow> (\<And>c. is_digit c \<Longrightarrow> P c) \<Longrightarrow> takeWhile P s = s \<and> dropWhile P s = []"
  by (auto simp: list_all_iff)

lemma decimal_digits:
  assumes "list_all is_digit s" "s \<noteq> []" "digits_value 10 0 s = Some n"
  shows "decimal_value s = Some (int n)"
proof -
  have e: "takeWhile (\<lambda>c. c \<noteq> CHR ''e'' \<and> c \<noteq> CHR ''E'') s = s" "dropWhile (\<lambda>c. c \<noteq> CHR ''e'' \<and> c \<noteq> CHR ''E'') s = []"
    using takeWhile_all_digits [OF assms(1), of "\<lambda>c. c \<noteq> CHR ''e'' \<and> c \<noteq> CHR ''E''"] digit_plain by blast+
  have p: "takeWhile (\<lambda>c. c \<noteq> CHR ''.'') s = s" "dropWhile (\<lambda>c. c \<noteq> CHR ''.'') s = []"
    using takeWhile_all_digits [OF assms(1), of "\<lambda>c. c \<noteq> CHR ''.''"] digit_plain by blast+
  show ?thesis
    unfolding decimal_value_def Let_def e p using assms(2,3) by (simp add: unsigned_value_def exponent_value_def)
qed

lemma json_unsigned_digits: "json_unsigned (digits_of n)"
proof -
  have t: "takeWhile is_digit (digits_of n) = digits_of n" "dropWhile is_digit (digits_of n) = []"
    using takeWhile_all_digits [of "digits_of n" is_digit] digits_of_value by blast+
  show ?thesis unfolding json_unsigned_def Let_def t using digits_of_value [of n] by simp
qed

definition ends_number :: "string \<Rightarrow> bool" where
  "ends_number r = (r = [] \<or> \<not> number_char (hd r))"

lemma int_text:
  "list_all number_char (int_to_string n)" "json_number (int_to_string n) = Some n"
  "int_to_string n \<noteq> []" "hd (int_to_string n) \<in> set ''-0123456789''"
proof -
  have d: "list_all is_digit (digits_of k)" "digits_of k \<noteq> []" "decimal_value (digits_of k) = Some (int k)" for k
    using digits_of_value [of k] decimal_digits [of "digits_of k" k] by auto
  have h: "is_digit (hd (digits_of k))" for k using d(1,2) [of k] by (cases "digits_of k") auto
  then have m: "\<not> startsWith (digits_of k) ''-''" for k
    using d(2) [of k] h [of k] digit_plain [of "CHR ''-''"] by (cases "digits_of k") auto
  show "list_all number_char (int_to_string n)"
    using d(1) digit_plain by (auto simp: int_to_string_def list_all_iff) (simp add: number_char_def)
  show "json_number (int_to_string n) = Some n"
    by (simp add: int_to_string_def json_number_def d m json_unsigned_digits)
  show "int_to_string n \<noteq> []" by (simp add: int_to_string_def d)
  show "hd (int_to_string n) \<in> set ''-0123456789''"
    using h by (auto simp: int_to_string_def is_digit_def)
qed

lemma pnumber_int: "ends_number r \<Longrightarrow> pnumber (int_to_string n @ r) = Some (JNum n, r)"
proof -
  assume e: "ends_number r"
  then have "takeWhile number_char r = []" "dropWhile number_char r = r"
    by (cases r; simp add: ends_number_def)+
  then have "takeWhile number_char (int_to_string n @ r) = int_to_string n" "dropWhile number_char (int_to_string n @ r) = r"
    using int_text(1) [of n] by (simp_all add: list_all_iff takeWhile_append2 dropWhile_append2)
  then show ?thesis by (simp add: pnumber_def int_text)
qed

section \<open>The round trip\<close>

lemma pliteral_int: "ends_number r \<Longrightarrow> pliteral (int_to_string n @ r) = Some (JNum n, r)"
  using int_text(3,4) [of n] pnumber_int [of r n]
  by (cases "int_to_string n") (auto simp: pliteral_def)

lemma skip_ws_int: "skip_ws (int_to_string n @ r) = int_to_string n @ r"
  and token_int: "c \<in> {dquote, CHR ''['', CHR ''{''} \<Longrightarrow> token c (int_to_string n @ r) = None"
  using int_text(3,4) [of n]
  by (cases "int_to_string n"; auto simp: skip_ws_def json_space_def token_def)+

lemma ends_number_simps [simp]: "ends_number (CHR '','' # r)" "ends_number (CHR '']'' # r)" "ends_number (CHR ''}'' # r)"
    "ends_number []"
  by (simp_all add: ends_number_def number_char_def is_digit_def)

text \<open>The first character of a value's text is none that would end a list or an object.\<close>

lemma stringify_start:
  "\<exists>c t. stringify v = c # t \<and> \<not> json_space c \<and> c \<noteq> CHR '']'' \<and> c \<noteq> CHR ''}'' \<and> c \<noteq> CHR '',''"
  using int_text(3,4) [of "case v of JNum n \<Rightarrow> n | _ \<Rightarrow> 0"]
  by (cases v; cases "int_to_string (case v of JNum n \<Rightarrow> n | _ \<Rightarrow> 0)") (auto simp: quote_string_def json_space_def)

lemma token_stringify: "c = CHR '']'' \<or> c = CHR ''}'' \<Longrightarrow> token c (stringify v @ r) = None"
  using stringify_start [of v] by auto

text \<open>How deep the calls go on a value's text.\<close>

fun depth :: "json \<Rightarrow> nat" where
  "depth (JArr vs) = 1 + sum_list (map (\<lambda>v. Suc (depth v)) vs)"
| "depth (JObj kvs) = 1 + sum_list (map (\<lambda>kv. Suc (depth (snd kv))) kvs)"
| "depth _ = 1"

lemma pelems_stringify:
  assumes "vs \<noteq> []" "sum_list (map (\<lambda>v. Suc (depth v)) vs) \<le> n"
    "\<And>v n r. v \<in> set vs \<Longrightarrow> depth v \<le> n \<Longrightarrow> ends_number r \<Longrightarrow> pvalue n (stringify v @ r) = Some (v, r)"
  shows "pelems n (join '','' (map stringify vs) @ CHR '']'' # r) = Some (vs, r)"
  using assms
proof (induction vs arbitrary: n)
  case Nil
  then show ?case by simp
next
  case (Cons v vs)
  then obtain m where m: "n = Suc m" "depth v \<le> m" by (cases n) auto
  show ?case
  proof (cases vs)
    case Nil
    then show ?thesis using Cons.prems(3) [of v m "CHR '']'' # r"] m by (simp add: pelems_Some)
  next
    case (Cons w ws)
    have "pelems m (join '','' (map stringify vs) @ CHR '']'' # r) = Some (vs, r)"
      using Cons.IH [of m] Cons.prems m Cons by simp
    then show ?thesis
      using Cons.prems(3) [of v m "CHR '','' # join '','' (map stringify vs) @ CHR '']'' # r"] m Cons by (simp add: pelems_Some)
  qed
qed

lemma pmembers_stringify:
  assumes "kvs \<noteq> []" "sum_list (map (\<lambda>kv. Suc (depth (snd kv))) kvs) \<le> n"
    "\<And>k v n r. (k, v) \<in> set kvs \<Longrightarrow> depth v \<le> n \<Longrightarrow> ends_number r \<Longrightarrow> pvalue n (stringify v @ r) = Some (v, r)"
  shows "pmembers n (join '','' (map (\<lambda>(k, v). quote_string k @ '':'' @ stringify v) kvs) @ CHR ''}'' # r) = Some (kvs, r)"
  using assms
proof (induction kvs arbitrary: n)
  case Nil
  then show ?case by simp
next
  case (Cons kv kvs)
  obtain k v where kv: "kv = (k, v)" by (cases kv)
  from Cons kv obtain m where m: "n = Suc m" "depth v \<le> m" by (cases n) auto
  show ?case
  proof (cases kvs)
    case Nil
    then show ?thesis using Cons.prems(3) [of k v m "CHR ''}'' # r"] m kv
      by (simp add: pmembers_Some quote_string_def pchars_quote)
  next
    case (Cons w ws)
    let ?t = "join '','' (map (\<lambda>(k, v). quote_string k @ '':'' @ stringify v) kvs) @ CHR ''}'' # r"
    have "pmembers m ?t = Some (kvs, r)"
      by (rule Cons.IH) (use Cons.prems m Cons kv in \<open>auto\<close>)
    moreover have "pvalue m (stringify v @ CHR '','' # ?t) = Some (v, CHR '','' # ?t)"
      using Cons.prems(3) [of k v m "CHR '','' # ?t"] m kv by simp
    ultimately show ?thesis
      using m Cons kv by (simp add: pmembers_Some quote_string_def pchars_quote)
  qed
qed

lemma pvalue_stringify:
  "json_ok v \<Longrightarrow> depth v \<le> n \<Longrightarrow> ends_number r \<Longrightarrow> pvalue n (stringify v @ r) = Some (v, r)"
proof (induction v arbitrary: n r)
  case JNull
  then show ?case by (cases n) (simp_all add: step_simps token_def skip_ws_def pliteral_def json_space_def)
next
  case (JBool b)
  then show ?case by (cases n; cases b) (simp_all add: step_simps token_def skip_ws_def pliteral_def json_space_def)
next
  case (JNum k)
  then show ?case by (cases n) (simp_all add: step_simps token_int skip_ws_int pliteral_int)
next
  case (JStr s)
  then show ?case by (cases n) (simp_all add: step_simps quote_string_def pchars_quote)
next
  case (JArr vs)
  then obtain m where m: "n = Suc m" by (cases n) auto
  show ?case
  proof (cases vs)
    case (Cons v ws)
    have "token CHR '']'' (join '','' (map stringify vs) @ CHR '']'' # r) = None"
      using token_stringify [of "CHR '']''" v] Cons by (cases ws) simp_all
    moreover have "pelems m (join '','' (map stringify vs) @ CHR '']'' # r) = Some (vs, r)"
      by (rule pelems_stringify) (use JArr m Cons in \<open>auto simp: list_all_iff\<close>)
    ultimately show ?thesis using m by (simp add: step_simps)
  qed (simp add: m step_simps)
next
  case (JObj kvs)
  then obtain m where m: "n = Suc m" by (cases n) auto
  show ?case
  proof (cases kvs)
    case (Cons kv ws)
    have "token CHR ''}'' (join '','' (map (\<lambda>(k, v). quote_string k @ '':'' @ stringify v) kvs) @ CHR ''}'' # r) = None"
      using Cons by (cases ws) (auto simp: quote_string_def split_beta)
    moreover have "pmembers m (join '','' (map (\<lambda>(k, v). quote_string k @ '':'' @ stringify v) kvs) @ CHR ''}'' # r) = Some (kvs, r)"
      by (rule pmembers_stringify) (use JObj m Cons in \<open>fastforce simp: list_all_iff\<close>)+
    ultimately show ?thesis using m JObj.prems(1) by (simp add: step_simps obj_of_distinct)
  qed (simp add: m step_simps)
qed

lemma length_join: "length (join [c] xs) = sum_list (map length xs) + (length xs - 1)"
  by (induction "[c]" xs rule: join.induct) auto

lemma depth_length: "depth v \<le> length (stringify v)"
proof (induction v)
  case (JNum k)
  then show ?case using int_text(3) [of k] by (cases "int_to_string k") auto
next
  case (JArr vs)
  then have "sum_list (map depth vs) \<le> sum_list (map (\<lambda>v. length (stringify v)) vs)"
    by (intro sum_list_mono) simp
  then show ?case by (cases vs) (simp_all add: length_join sum_list_Suc comp_def)
next
  case (JObj kvs)
  have "sum_list (map (\<lambda>kv. depth (snd kv)) kvs)
      \<le> sum_list (map (\<lambda>kv. length (quote_string (fst kv)) + length (stringify (snd kv))) kvs)"
    by (intro sum_list_mono) (use JObj in \<open>fastforce intro: trans_le_add2\<close>)
  then show ?case by (cases kvs) (simp_all add: length_join sum_list_Suc comp_def split_beta)
qed (simp_all add: quote_string_def)

theorem parse_stringify: "json_ok v \<Longrightarrow> JSON_parse (stringify v) = Some v"
  using pvalue_stringify [of v "2 * length (stringify v) + 1" "[]"] depth_length [of v]
  by (simp add: JSON_parse_def skip_ws_def)

section \<open>What is read is well formed\<close>

lemma put_key_distinct:
  assumes "distinct (map fst kvs)"
  shows "distinct (map fst (put_key kvs kv))"
proof -
  have e: "map fst (map (\<lambda>(k, v). if k = fst kv then kv else (k, v)) kvs) = map fst kvs"
    by (induction kvs) auto
  show ?thesis
  proof (cases "fst kv \<in> fst ` set kvs")
    case True
    then have "map fst (put_key kvs kv) = map fst kvs" using e by (simp only: put_key_def if_True)
    then show ?thesis using assms by simp
  next
    case False
    then show ?thesis using assms by (simp add: put_key_def)
  qed
qed

lemma put_key_ok:
  assumes "list_all (\<lambda>(k, v). json_ok v) kvs" "json_ok (snd kv)"
  shows "list_all (\<lambda>(k, v). json_ok v) (put_key kvs kv)"
proof -
  have "json_ok (snd x)" if "x \<in> set (put_key kvs kv)" for x
    using that assms by (cases kv) (fastforce simp: put_key_def list_all_iff split: if_splits)
  then show ?thesis by (auto simp: list_all_iff)
qed

lemma obj_of_ok: "list_all (\<lambda>(k, v). json_ok v) kvs \<Longrightarrow> json_ok (obj_of kvs)"
proof -
  have "distinct (map fst (foldl put_key acc kvs)) \<and> list_all (\<lambda>(k, v). json_ok v) (foldl put_key acc kvs)"
    if "distinct (map fst acc)" "list_all (\<lambda>(k, v). json_ok v) acc" "list_all (\<lambda>(k, v). json_ok v) kvs" for acc
    using that by (induction kvs arbitrary: acc) (auto simp: put_key_distinct put_key_ok split_beta)
  from this [of "[]"] show "list_all (\<lambda>(k, v). json_ok v) kvs \<Longrightarrow> json_ok (obj_of kvs)"
    by (simp add: obj_of_def)
qed

lemma parsed_ok_all:
  "(\<forall>s v r. pvalue n s = Some (v, r) \<longrightarrow> json_ok v)
   \<and> (\<forall>s vs r. pelems n s = Some (vs, r) \<longrightarrow> list_all json_ok vs)
   \<and> (\<forall>s kvs r. pmembers n s = Some (kvs, r) \<longrightarrow> list_all (\<lambda>(k, v). json_ok v) kvs)"
proof (induction n)
  case 0
  show ?case by simp
next
  case (Suc n)
  have v: "json_ok v" if "pvalue n s = Some (v, r)" for s v r using Suc that by blast
  have e: "list_all json_ok vs" if "pelems n s = Some (vs, r)" for s vs r using Suc that by blast
  have m: "json_ok (obj_of kvs)" "list_all (\<lambda>(k, v). json_ok v) kvs" if "pmembers n s = Some (kvs, r)" for s kvs r
    using Suc that obj_of_ok by blast+
  have l: "json_ok v" if "pliteral s = Some (v, r)" for s v r
    using that by (auto simp: pliteral_def pnumber_def split: if_splits)
  have "json_ok v" if "pvalue (Suc n) s = Some (v, r)" for s v r
    using that by (auto simp: step_simps bind_eq_Some_conv split: option.splits dest: e m(1) l)
  moreover have "list_all json_ok vs" if "pelems (Suc n) s = Some (vs, r)" for s vs r
    using that by (auto simp: pelems_Some dest: v e)
  moreover have "list_all (\<lambda>(k, v). json_ok v) kvs" if "pmembers (Suc n) s = Some (kvs, r)" for s kvs r
    using that by (auto simp: pmembers_Some dest: v m(2))
  ultimately show ?case by blast
qed

theorem parse_ok: "JSON_parse s = Some v \<Longrightarrow> json_ok v"
  using parsed_ok_all [of "2 * length s + 1"] unfolding JSON_parse_def
  by (force split: option.splits if_splits)

end
