(* ===== verification/BrokerProtocol.thy ===== *)
theory BrokerProtocol
  imports Coordinator BrokerProvenance JsonParse "HOL-Library.Multiset"
begin

text \<open>
  The channel between the container and the broker: \<^verbatim>\<open>dispatchS6BrokerRequest\<close> and
  \<^verbatim>\<open>S6BrokerServer.handle\<close> of \<^verbatim>\<open>scripts/s6-github-broker.mjs\<close>, and the client
  \<^verbatim>\<open>src/lib/s6-broker-client.js\<close>.  A dispatch is one step here; in the program two
  connections can interleave at its awaits.  A socket delivers the text in arbitrary chunks.
\<close>

section \<open>The dispatcher\<close>

record 'r server =
  sv_world :: "'r world"
  sv_capability :: "json option"

definition on_world :: "('r, 'a) bact \<Rightarrow> ('r server, 'a) act" where
  "on_world m s = (case m (sv_world s) of
     (r, w, h) \<Rightarrow> (r, s\<lparr>sv_world := w\<rparr>, map (\<lambda>v. s\<lparr>sv_world := v\<rparr>) h))"

text \<open>
  What the dispatcher works with: \<open>dm_byte\<close> is the byte \<^verbatim>\<open>Buffer.from\<close> stores for an
  array element with that text, \<open>dm_parse_error\<close> the message of a failed \<^verbatim>\<open>JSON.parse\<close>.
\<close>

record 'r daemon =
  dm_ext :: "'r ext"
  dm_coord :: "'r coord"
  dm_broker :: broker
  dm_byte :: "string \<Rightarrow> nat"
  dm_parse_error :: "string \<Rightarrow> string"

definition capability_text :: "json option \<Rightarrow> bool" where
  "capability_text v = hex_exact 64 (string_or_empty v)"

definition buffer_from :: "(string \<Rightarrow> nat) \<Rightarrow> json option \<Rightarrow> nat list" where
  "buffer_from byte v =
    (case v of Some (JStr s) \<Rightarrow> map of_char s | Some (JArr xs) \<Rightarrow> map (\<lambda>e. byte (elem_string e)) xs | _ \<Rightarrow> [])"

definition sameCapability :: "(string \<Rightarrow> nat) \<Rightarrow> json option \<Rightarrow> json option \<Rightarrow> bool result" where
  "sameCapability byte left right =
    (if \<not> capability_text left \<or> \<not> capability_text right then Inr False
     else if length (buffer_from byte left) \<noteq> length (buffer_from byte right)
     then throw ''Input buffers must have the same byte length''
     else Inr (buffer_from byte left = buffer_from byte right))"

definition attest_json :: "string \<Rightarrow> json" where
  "attest_json sha = JObj [(''attested'', JBool True), (''commit'', JStr sha)]"

definition preflight_json :: "string \<Rightarrow> json" where
  "preflight_json branch = JObj [(''preflight'', JBool True), (''branch'', JStr branch)]"

definition evidence_json :: "evidence \<Rightarrow> json" where
  "evidence_json e = JObj
    [(''repository'', JStr (ev_repository e)), (''sessionId'', JStr (ev_sessionId e)), (''branch'', JStr (ev_branch e)),
     (''remoteRef'', JStr (ev_remoteRef e)), (''baseCommit'', JStr (ev_baseCommit e)), (''commit'', JStr (ev_commit e)),
     (''remoteSha'', JStr (ev_remoteSha e)), (''status'', JStr (ev_status e))]"

text \<open>\<^verbatim>\<open>broker.attestCommit(request.sha)\<close>; what is not a string never equals the head.\<close>

definition attestValue :: "'r ext \<Rightarrow> broker \<Rightarrow> json option \<Rightarrow> ('r, json) bact" where
  "attestValue x b v =
    (case v of
       Some (JStr sha) \<Rightarrow> andThen (attestCommit x b sha) (\<lambda>c. ret (attest_json c))
     | _ \<Rightarrow>
         andThen (look (\<lambda>_. assertSha (string_or_empty v) ''commit attestation'')) (\<lambda>_.
         andThen (validateLocalPublishState x b False) (\<lambda>_.
         fail ''only the current S6 branch HEAD may be attested'')))"

definition registerCapability :: "json \<Rightarrow> ('r server, json) act" where
  "registerCapability request =
    andThen (look (\<lambda>s. ensure (\<not> truthy (sv_capability s) \<and> sorted_keys request = ''capability,operation''
      \<and> capability_text (get request ''capability'')) ''S6 broker registration is closed'')) (\<lambda>_.
    andThen (store (\<lambda>s. s\<lparr>sv_capability := get request ''capability''\<rparr>)) (\<lambda>_.
    ret (JObj [(''registered'', JBool True)])))"

definition content_ok :: "json option \<Rightarrow> bool" where
  "content_ok v = (v = Some JNull \<or> hex_exact 64 (string_or_empty v))"

definition serveMutation :: "'r daemon \<Rightarrow> json \<Rightarrow> ('r server, json) act" where
  "serveMutation dm request =
    (let observed = get request ''observed_content_sha256'' in
     andThen (guard (sorted_keys request \<in> set [''capability,operation,path,route'',
         ''capability,observed_content_sha256,operation,path,route''])
       ''S7-B coordinator request accepts only a covered route and path (optional observed content version)'') (\<lambda>_.
     andThen (guard (\<exists>route \<in> set S7B_COORDINATED_ROUTES. has_str request ''route'' route)
       ''S7-B coordinator route is invalid'') (\<lambda>_.
     andThen (guard (observed = None \<or> content_ok observed) ''S7-B coordinator observed content version is invalid'') (\<lambda>_.
     andThen (look (\<lambda>_. assertCoordinatorRelativePath (get request ''path''))) (\<lambda>rel.
     on_world (coordinateMutation (dm_ext dm) (dm_coord dm) (dm_broker dm) (field request ''route'') (Some (JStr rel)) observed))))))"

definition serveObservation :: "'r daemon \<Rightarrow> json \<Rightarrow> ('r server, json) act" where
  "serveObservation dm request =
    andThen (guard (sorted_keys request = ''capability,content_sha256,operation,path'')
      ''S7-B observation request accepts only a path and content version'') (\<lambda>_.
    andThen (guard (content_ok (get request ''content_sha256'')) ''S7-B coordinator observed content version is invalid'') (\<lambda>_.
    andThen (look (\<lambda>_. assertCoordinatorRelativePath (get request ''path''))) (\<lambda>rel.
    on_world (coordinateObservation (dm_ext dm) (dm_coord dm) (dm_broker dm) (Some (JStr rel)) (get request ''content_sha256'')))))"

text \<open>The operations behind the authentication.\<close>

definition serveOperation :: "'r daemon \<Rightarrow> json \<Rightarrow> ('r server, json) act" where
  "serveOperation dm request =
    (let is = has_str request ''operation''; ks = sorted_keys request in
     if is ''attest'' then
       andThen (guard (ks = ''capability,operation,sha'') ''invalid attest request'') (\<lambda>_.
       on_world (attestValue (dm_ext dm) (dm_broker dm) (get request ''sha'')))
     else if is ''preflight-commit'' then
       andThen (guard (ks = ''capability,operation'') ''commit preflight accepts no authority-bearing input'') (\<lambda>_.
       on_world (andThen (look (preflightCommit (dm_ext dm) (dm_broker dm))) (\<lambda>branch. ret (preflight_json branch))))
     else if is ''publish'' then
       andThen (guard (ks = ''capability,operation'') ''publish accepts no authority-bearing input'') (\<lambda>_.
       on_world (andThen (publishBranch (dm_ext dm) (dm_broker dm)) (\<lambda>e. ret (evidence_json e))))
     else if is ''coordinate-mutation'' then serveMutation dm request
     else if is ''coordinate-observe'' then serveObservation dm request
     else fail ''unsupported S6 broker operation'')"

definition authenticate :: "'r daemon \<Rightarrow> json \<Rightarrow> 'r server \<Rightarrow> unit result" where
  "authenticate dm request s =
    (if \<not> truthy (sv_capability s) then throw ''broker authentication failed''
     else bindE (sameCapability (dm_byte dm) (get request ''capability'') (sv_capability s)) (\<lambda>same.
       ensure same ''broker authentication failed''))"

definition dispatchS6BrokerRequest :: "'r daemon \<Rightarrow> json \<Rightarrow> ('r server, json) act" where
  "dispatchS6BrokerRequest dm request =
    (if \<not> is_obj request then fail ''invalid broker request''
     else if has_str request ''operation'' ''register'' then registerCapability request
     else andThen (look (authenticate dm request)) (\<lambda>_. serveOperation dm request))"

section \<open>One connection of the server\<close>

record conn =
  cn_buffer :: string
  cn_done :: bool
  cn_reply :: "string option"

definition fresh_conn :: conn where
  "fresh_conn = \<lparr>cn_buffer = [], cn_done = False, cn_reply = None\<rparr>"

text \<open>\<^verbatim>\<open>socket.end(text)\<close>; a second one raises the error that closes the connection.\<close>

definition end_with :: "string \<Rightarrow> conn \<Rightarrow> conn" where
  "end_with text c = (if cn_reply c = None then c\<lparr>cn_reply := Some text\<rparr> else c\<lparr>cn_done := True\<rparr>)"

definition error_json :: "string \<Rightarrow> json" where
  "error_json m = JObj [(''error'', JStr m)]"

definition reply_line :: "json result \<Rightarrow> string" where
  "reply_line r = stringify (case r of Inr v \<Rightarrow> v | Inl e \<Rightarrow> error_json (sanitizeGitError (message e))) @ [nl]"

definition MAX_REQUEST_BYTES :: nat where "MAX_REQUEST_BYTES = 64 * 1024"

definition first_line :: "string \<Rightarrow> string" where
  "first_line s = takeWhile (\<lambda>c. c \<noteq> nl) s"

definition onData :: "'r daemon \<Rightarrow> string \<Rightarrow> conn \<times> 'r server \<Rightarrow> conn \<times> 'r server" where
  "onData dm chunk st =
    (case st of (c, s) \<Rightarrow>
     if cn_done c then (c, s)
     else
       let buffer = cn_buffer c @ chunk; c = c\<lparr>cn_buffer := buffer\<rparr> in
       if byteLength buffer > MAX_REQUEST_BYTES \<or> nl \<notin> set buffer then (c, s)
       else (case JSON_parse (first_line buffer) of
               None \<Rightarrow>
                 (end_with (reply_line (throw (dm_parse_error dm (first_line buffer)))) c, s)
             | Some request \<Rightarrow>
                 (case dispatchS6BrokerRequest dm request s of
                    (r, s', h) \<Rightarrow> (end_with (reply_line r) (c\<lparr>cn_done := True\<rparr>), s'))))"

definition onError :: "conn \<times> 'r server \<Rightarrow> conn \<times> 'r server" where
  "onError st = (case st of (c, s) \<Rightarrow> (c\<lparr>cn_done := True, cn_reply := Some (case cn_reply c of None \<Rightarrow> [] | Some t \<Rightarrow> t)\<rparr>, s))"

definition onChunks :: "'r daemon \<Rightarrow> string list \<Rightarrow> conn \<times> 'r server \<Rightarrow> conn \<times> 'r server" where
  "onChunks dm chunks st = fold (onData dm) chunks st"

definition parseBrokerReady :: "string \<Rightarrow> bool result" where
  "parseBrokerReady line = (if trim line \<noteq> ''S6_BROKER_READY'' then throw ''S6 broker readiness marker is invalid'' else Inr True)"

text \<open>\<^verbatim>\<open>parseArgs\<close>: the positional arguments and the named ones, the last value first.\<close>

fun parseArgs :: "string list \<Rightarrow> string list \<Rightarrow> (string \<times> string option) list \<Rightarrow> string list \<times> (string \<times> string option) list" where
  "parseArgs [] rest named = (rest, named)"
| "parseArgs (item # args) rest named =
    (if startsWith item ''--'' then
       (case split_on CHR ''='' (drop 2 item) of
          [key] \<Rightarrow> parseArgs (drop 1 args) rest ((key, if args = [] then None else Some (hd args)) # named)
        | key # inline # _ \<Rightarrow> parseArgs args rest ((key, Some inline) # named)
        | [] \<Rightarrow> parseArgs args rest named)
     else parseArgs args (rest @ [item]) named)"

section \<open>The client\<close>

record client =
  cl_socket :: string
  cl_registered :: bool
  cl_capability :: string
  cl_registration :: "bool result option"

definition S6_BROKER_RESPONSE_MAX_BYTES :: nat where "S6_BROKER_RESPONSE_MAX_BYTES = 128 * 1024"

definition CAPABILITY_test :: "string \<Rightarrow> bool" where "CAPABILITY_test s = hex_exact 64 s"

definition RELATIVE_PATH :: re where
  "RELATIVE_PATH =
    (let dot = Chr (\<lambda>c. \<not> is_newline c); edge = Alt Bol (lit ''/'') in
     seqs [Bol, NotAhead (lit ''/''), NotAhead (seqs [Star dot, edge, lit ''..'', Opt (lit ''/'')]),
       NotAhead (seqs [Star dot, edge, lit ''.'', Alt (lit ''/'') Eol]), NotAhead (seqs [Star dot, lit ''//'']),
       Plus (Chr (\<lambda>c. c \<noteq> nul)), Eol])"

definition client_path :: "json option \<Rightarrow> bool" where
  "client_path v = (case v of Some (JStr p) \<Rightarrow> re_test RELATIVE_PATH p | _ \<Rightarrow> False)"

text \<open>The response so far: \<open>None\<close> until a line is complete.\<close>

definition consumeS6BrokerResponse :: "string \<Rightarrow> json option result" where
  "consumeS6BrokerResponse response =
    (if byteLength response > S6_BROKER_RESPONSE_MAX_BYTES then throw ''S6 broker response exceeded bounded response limit''
     else if nl \<notin> set response then Inr None
     else case JSON_parse (first_line response) of
            None \<Rightarrow> throw ''S6 broker returned malformed evidence''
          | Some v \<Rightarrow> Inr (Some v))"

definition s6BrokerConfigured :: "client \<Rightarrow> bool" where
  "s6BrokerConfigured cl = (cl_socket cl \<noteq> [] \<and> cl_registered cl)"

definition request_keys :: "json \<Rightarrow> string" where
  "request_keys request = join '','' (sort_strings (filter (\<lambda>k. k \<noteq> ''capability'') (keys request)))"

definition route_ok :: "json \<Rightarrow> bool" where
  "route_ok request = (\<exists>route \<in> set S7B_COORDINATED_ROUTES. has_str request ''route'' route)"

text \<open>The shape each operation must have before anything is sent.\<close>

definition assertRequest :: "json \<Rightarrow> bool \<Rightarrow> unit result" where
  "assertRequest request registration =
    (let is = (\<lambda>op. \<not> registration \<and> has_str request ''operation'' op); ks = request_keys request in
     if registration \<and> (ks \<noteq> ''operation'' \<or> \<not> has_str request ''operation'' ''register'')
     then throw ''invalid S6 broker registration request''
     else if is ''publish'' \<and> ks \<noteq> ''operation'' then throw ''invalid S6 publish request''
     else if is ''preflight-commit'' \<and> ks \<noteq> ''operation'' then throw ''invalid S6 commit preflight request''
     else if is ''attest'' \<and> (ks \<noteq> ''operation,sha'' \<or> \<not> SHA_test (string_or_empty (get request ''sha'')))
     then throw ''invalid S6 attestation request''
     else if is ''coordinate-mutation'' \<and>
        (ks \<notin> set [''operation,path,route'', ''observedContentSha256,operation,path,route''] \<or> \<not> route_ok request
         \<or> \<not> client_path (get request ''path'')
         \<or> get request ''observedContentSha256'' \<noteq> None \<and> \<not> content_ok (get request ''observedContentSha256''))
     then throw ''invalid S7-B coordinator request''
     else if is ''coordinate-observe'' \<and>
        (ks \<noteq> ''contentSha256,operation,path'' \<or> \<not> client_path (get request ''path'')
         \<or> \<not> content_ok (get request ''contentSha256''))
     then throw ''invalid S7-B coordinator observation request''
     else Inr ())"

definition if_truthy :: "string \<Rightarrow> json option \<Rightarrow> (string \<times> json) list" where
  "if_truthy k v = (if truthy v then [(k, the v)] else [])"

definition request_body :: "string \<Rightarrow> json \<Rightarrow> json" where
  "request_body capability request = JObj
    ([(''capability'', JStr capability)] @ opt_entry ''operation'' (get request ''operation'')
     @ if_truthy ''sha'' (get request ''sha'') @ if_truthy ''route'' (get request ''route'')
     @ if_truthy ''path'' (get request ''path'')
     @ opt_entry ''observed_content_sha256'' (get request ''observedContentSha256'')
     @ opt_entry ''content_sha256'' (get request ''contentSha256''))"

text \<open>\<^verbatim>\<open>requestBroker\<close> up to the line it sends.\<close>

definition requestBroker :: "client \<Rightarrow> json \<Rightarrow> bool \<Rightarrow> string result" where
  "requestBroker cl request registration =
    bindE (ensure (cl_socket cl = ''/transport/s6-broker.sock'') ''S6 broker channel identity is invalid'') (\<lambda>_.
    bindE (ensure (registration \<or> cl_registered cl) ''S6 broker attestation channel is not registered'') (\<lambda>_.
    let capability = (if registration then string_or_empty (get request ''capability'') else cl_capability cl) in
    bindE (ensure (CAPABILITY_test capability) ''S6 broker capability is invalid'') (\<lambda>_.
    bindE (assertRequest request registration) (\<lambda>_.
    Inr (stringify (request_body capability request) @ [nl])))))"

definition s6BrokerAttestCommit :: "client \<Rightarrow> json \<Rightarrow> string result" where
  "s6BrokerAttestCommit cl sha = requestBroker cl (JObj [(''operation'', JStr ''attest''), (''sha'', sha)]) False"

definition s6BrokerPreflightCommit :: "client \<Rightarrow> string result" where
  "s6BrokerPreflightCommit cl = requestBroker cl (JObj [(''operation'', JStr ''preflight-commit'')]) False"

definition s6BrokerPublishBranch :: "client \<Rightarrow> string result" where
  "s6BrokerPublishBranch cl = requestBroker cl (JObj [(''operation'', JStr ''publish'')]) False"

definition s6BrokerCoordinateMutation :: "client \<Rightarrow> string \<Rightarrow> json \<Rightarrow> json option \<Rightarrow> string result" where
  "s6BrokerCoordinateMutation cl route path observed =
    bindE (ensure (route \<in> set S7B_COORDINATED_ROUTES) ''S7-B coordinator route is not covered by the Bridge adapter'') (\<lambda>_.
    bindE (ensure (client_path (Some path)) ''S7-B coordinator path must be a normalized repository-relative path'') (\<lambda>_.
    bindE (ensure (observed = None \<or> observed = Some JNull \<or> hex_exact 64 (to_string (the observed)))
      ''S7-B coordinator observed content version is invalid'') (\<lambda>_.
    requestBroker cl (JObj ([(''operation'', JStr ''coordinate-mutation''), (''route'', JStr route), (''path'', path)]
      @ opt_entry ''observedContentSha256'' observed)) False)))"

definition s6BrokerObserveResource :: "client \<Rightarrow> json \<Rightarrow> json \<Rightarrow> string result" where
  "s6BrokerObserveResource cl path content =
    bindE (ensure (client_path (Some path)) ''S7-B coordinator path must be a normalized repository-relative path'') (\<lambda>_.
    bindE (ensure (content_ok (Some content)) ''S7-B coordinator observed content version is invalid'') (\<lambda>_.
    requestBroker cl (JObj [(''operation'', JStr ''coordinate-observe''), (''path'', path), (''contentSha256'', content)]) False))"

text \<open>The events of a client socket; the first outcome settles the promise.\<close>

datatype client_event = Data string | Failed string | TimedOut | Closed

record call_state =
  ca_response :: string
  ca_settled :: "json result option"

definition finish :: "json result \<Rightarrow> call_state \<Rightarrow> call_state" where
  "finish r c = (case ca_settled c of None \<Rightarrow> c\<lparr>ca_settled := Some r\<rparr> | Some _ \<Rightarrow> c)"

definition onClientData :: "string \<Rightarrow> call_state \<Rightarrow> call_state" where
  "onClientData chunk c =
    (let c = c\<lparr>ca_response := ca_response c @ chunk\<rparr> in
     case consumeS6BrokerResponse (ca_response c) of
       Inl e \<Rightarrow> finish (Inl e) c
     | Inr None \<Rightarrow> c
     | Inr (Some v) \<Rightarrow>
         if truthy (get v ''error'') then finish (throw (to_string (the (get v ''error'')))) c else finish (Inr v) c)"

fun onClientEvent :: "client_event \<Rightarrow> call_state \<Rightarrow> call_state" where
  "onClientEvent (Data chunk) c = onClientData chunk c"
| "onClientEvent (Failed m) c = finish (throw (''S6 broker request failed: '' @ m)) c"
| "onClientEvent TimedOut c = finish (throw ''S6 broker request timed out'') c"
| "onClientEvent Closed c = finish (throw ''S6 broker closed the request'') c"

text \<open>
  \<^verbatim>\<open>initializeS6Broker\<close>; \<open>answer\<close> is what the exchange of the registration line yields.
  The promise is kept, so a failure is, too.
\<close>

definition initializeS6Broker :: "(string \<Rightarrow> json result) \<Rightarrow> client \<Rightarrow> bool result \<times> client" where
  "initializeS6Broker answer cl =
    (if cl_socket cl = [] then (Inr False, cl)
     else if cl_registered cl then (Inr True, cl)
     else case cl_registration cl of
       Some r \<Rightarrow> (r, cl)
     | None \<Rightarrow>
         (case requestBroker cl (JObj [(''operation'', JStr ''register''), (''capability'', JStr (cl_capability cl))]) True of
            Inl e \<Rightarrow> (Inl e, cl)
          | Inr line \<Rightarrow>
              let r = bindE (answer line) (\<lambda>v.
                        if get v ''registered'' = Some (JBool True) then Inr True
                        else throw ''S6 broker registration was not acknowledged'')
              in (r, cl\<lparr>cl_registration := Some r, cl_registered := is_ok r\<rparr>)))"

section \<open>Authentication\<close>

lemma runs_on_world [run_simps]:
  "runs (on_world m) s v s' \<longleftrightarrow> (\<exists>w. runs m (sv_world s) v w \<and> s' = s\<lparr>sv_world := w\<rparr>)"
  by (auto simp: runs_def on_world_def split: prod.splits)

text \<open>Every operation behind the authentication leaves the capability alone.\<close>

definition same_capability :: "json option \<Rightarrow> 'r server \<Rightarrow> bool" where
  "same_capability cap s = (sv_capability s = cap)"

lemma keeps_on_world: "keeps (same_capability cap) (on_world m)"
  by (auto simp: keeps_def on_world_def same_capability_def list_all_iff split: prod.splits)

lemma keeps_serve: "keeps (same_capability cap) (serveOperation dm request)"
  by (auto simp: serveOperation_def serveMutation_def serveObservation_def Let_def
      intro!: keeps_andThen keeps_on_world keeps_look)

lemma byte_strings:
  shows "buffer_from byte (Some (JStr a)) = buffer_from byte (Some (JStr b)) \<longleftrightarrow> a = b"
proof -
  have "map of_char a = (map of_char b :: nat list) \<longleftrightarrow> a = b" by (rule inj_map_eq_map) (simp add: inj_def)
  then show ?thesis by (simp add: buffer_from_def)
qed

lemma join_comma: "2 \<le> length xs \<Longrightarrow> CHR '','' \<in> set (join '','' xs)"
  by (cases xs; cases "tl xs") auto

lemma sameCapability_string:
  assumes "sameCapability byte v (Some (JStr cap)) = Inr True"
  shows "v = Some (JStr cap)"
proof -
  have t: "capability_text v" "capability_text (Some (JStr cap))"
    and l: "length (buffer_from byte v) = length (buffer_from byte (Some (JStr cap)))"
    and e: "buffer_from byte v = buffer_from byte (Some (JStr cap))"
    using assms by (auto simp: sameCapability_def split: if_splits)
  have c: "length (buffer_from byte (Some (JStr cap))) = 64"
    using t(2) by (simp add: capability_text_def buffer_from_def hex_exact_def)
  show ?thesis
  proof (cases "\<exists>a. v = Some (JStr a)")
    case True
    then show ?thesis using e byte_strings [of byte _ cap] by auto
  next
    case False
    have "length (buffer_from byte v) = 64" using l c by simp
    moreover have "\<exists>xs. v = Some (JArr xs)" if "buffer_from byte v \<noteq> []"
      using that False by (cases v; cases "the v") (simp_all add: buffer_from_def)
    ultimately have "\<exists>xs. v = Some (JArr xs) \<and> length xs = 64"
      by (force simp: buffer_from_def)
    then obtain xs where v: "v = Some (JArr xs)" "length xs = 64" by blast
    then have "CHR '','' \<in> set (string_or_empty v)" using join_comma [of "map elem_string xs"] by (simp add: string_or_empty_def)
    moreover have "\<not> is_hex CHR '',''" by (simp add: is_hex_def)
    ultimately have "\<not> capability_text v" unfolding capability_text_def hex_exact_def list_all_iff by blast
    then show ?thesis using t(1) by simp
  qed
qed

lemma dispatch_unauthenticated:
  assumes "sv_capability s = Some (JStr cap)" "CAPABILITY_test cap" "get request ''capability'' \<noteq> Some (JStr cap)"
  shows "\<exists>e. dispatchS6BrokerRequest dm request s = (Inl e, s, [])"
proof -
  have "\<not> is_ok (authenticate dm request s)"
    using assms sameCapability_string [of "dm_byte dm" _ cap]
    by (auto simp: authenticate_def result_simps is_ok_iff)
  then obtain e where e: "authenticate dm request s = Inl e" by (cases "authenticate dm request s") auto
  have c: "cap \<noteq> []" using assms(2) by (auto simp: CAPABILITY_test_def hex_exact_def)
  show ?thesis
    using e c assms(1)
    by (simp add: dispatchS6BrokerRequest_def registerCapability_def andThen_def look_def fail_def throw_def)
qed

lemma serve_capability:
  "dispatchS6BrokerRequest dm request s = (r, s', h) \<Longrightarrow> truthy (sv_capability s) \<Longrightarrow> sv_capability s' = sv_capability s"
proof -
  assume d: "dispatchS6BrokerRequest dm request s = (r, s', h)" and t: "truthy (sv_capability s)"
  have "keeps (same_capability (sv_capability s)) (andThen (look (authenticate dm request)) (\<lambda>_. serveOperation dm request))"
    by (intro keeps_andThen keeps_look keeps_serve)
  moreover have "r = throw ''S6 broker registration is closed'' \<and> s' = s"
    if "is_obj request" "has_str request ''operation'' ''register''"
    using d that t by (auto simp: dispatchS6BrokerRequest_def registerCapability_def andThen_def look_def throw_def ensure_def)
  ultimately show ?thesis
    using d unfolding keeps_def same_capability_def
    by (cases "is_obj request"; cases "has_str request ''operation'' ''register''")
       (fastforce simp: dispatchS6BrokerRequest_def fail_def)+
qed

text \<open>
  C7 (safety).  Once a capability is registered the dispatcher never replaces it, and a request that
  does not carry exactly that capability - whatever its operation, its other keys, or the JSON type
  of what it sends instead - is refused and leaves the broker, its files, the repository and the
  attested commits as they were.
\<close>

theorem dispatch_authenticated:
  assumes "sv_capability s = Some (JStr cap)" "CAPABILITY_test cap"
    and "dispatchS6BrokerRequest dm request s = (r, s', h)"
  shows "sv_capability s' = Some (JStr cap)
    \<and> (get request ''capability'' = Some (JStr cap) \<or> \<not> is_ok r \<and> s' = s \<and> h = [])"
proof -
  have "truthy (sv_capability s)" using assms(1,2) by (auto simp: CAPABILITY_test_def hex_exact_def)
  then have "sv_capability s' = Some (JStr cap)" using serve_capability [OF assms(3)] assms(1) by simp
  moreover have "\<not> is_ok r \<and> s' = s \<and> h = []" if "get request ''capability'' \<noteq> Some (JStr cap)"
    using dispatch_unauthenticated [OF assms(1,2) that, of dm] assms(3) by auto
  ultimately show ?thesis by blast
qed

section \<open>One request per connection\<close>

text \<open>\<open>served dm s sent s'\<close>: what a connection that received \<open>sent\<close> may do to the server.\<close>

definition served :: "'r daemon \<Rightarrow> 'r server \<Rightarrow> string \<Rightarrow> 'r server \<Rightarrow> bool" where
  "served dm s sent s' =
    (s' = s \<or> (\<exists>request. nl \<in> set sent \<and> JSON_parse (first_line sent) = Some request
                \<and> s' = fst (snd (dispatchS6BrokerRequest dm request s))))"

lemma first_line_append: "nl \<in> set a \<Longrightarrow> first_line (a @ b) = first_line a"
  by (induction a) (auto simp: first_line_def)

lemma served_append: "served dm s sent s' \<Longrightarrow> served dm s (sent @ later) s'"
  by (auto simp: served_def first_line_append)

definition conn_inv :: "'r daemon \<Rightarrow> 'r server \<Rightarrow> string \<Rightarrow> conn \<times> 'r server \<Rightarrow> bool" where
  "conn_inv dm s sent st =
    (case st of (c, s') \<Rightarrow> served dm s sent s' \<and> (\<not> cn_done c \<longrightarrow> s' = s \<and> cn_buffer c = sent))"

lemma onData_inv: "conn_inv dm s sent st \<Longrightarrow> conn_inv dm s (sent @ chunk) (onData dm chunk st)"
proof -
  assume i: "conn_inv dm s sent st"
  obtain c s' where st: "st = (c, s')" by (cases st)
  show ?thesis
  proof (cases "cn_done c")
    case True
    then show ?thesis using i st by (simp add: conn_inv_def onData_def served_append)
  next
    case False
    then have e: "s' = s" "cn_buffer c = sent" using i st by (simp_all add: conn_inv_def)
    show ?thesis
    proof (cases "JSON_parse (first_line (sent @ chunk))")
      case None
      then show ?thesis using False e st
        by (auto simp: conn_inv_def onData_def Let_def end_with_def served_def)
    next
      case (Some request)
      obtain r t h where d: "dispatchS6BrokerRequest dm request s = (r, t, h)" by (cases "dispatchS6BrokerRequest dm request s")
      show ?thesis using False e st Some d
        by (auto simp: conn_inv_def onData_def Let_def end_with_def served_def)
    qed
  qed
qed

lemma onChunks_inv: "conn_inv dm s sent st \<Longrightarrow> conn_inv dm s (sent @ concat chunks) (onChunks dm chunks st)"
proof (induction chunks arbitrary: sent st)
  case Nil
  then show ?case by (simp add: onChunks_def)
next
  case (Cons chunk chunks)
  from Cons.IH [OF onData_inv [OF Cons.prems, of chunk]] show ?case by (simp add: onChunks_def)
qed

text \<open>
  However a peer splits what it sends into chunks, and whatever it pipelines after
  its first line, a connection changes the broker by at most one dispatch, and that of the value its
  first line parses to.
\<close>

theorem connection_serves_once:
  "served dm s (concat chunks) (snd (onChunks dm chunks (fresh_conn, s)))"
proof -
  have "conn_inv dm s [] (fresh_conn, s)" by (simp add: conn_inv_def fresh_conn_def served_def)
  from onChunks_inv [OF this, of chunks] show ?thesis by (auto simp: conn_inv_def split: prod.splits)
qed

section \<open>What the client sends is what the broker serves\<close>

lemma escape_char_no_nl: "nl \<notin> set (escape_char c)"
proof -
  have "\<forall>k \<in> set [0..<16]. hex_digit k \<noteq> nl" by code_simp
  then have h: "hex_digit k \<noteq> nl" if "k < 16" for k using that by simp
  have m: "(of_char c :: nat) mod 16 < 16" by simp
  have d: "hex_digit (of_char c div 16) \<noteq> nl" if "(of_char c :: nat) < 32" using h that by simp
  show ?thesis
    using h [OF m] d by (auto simp: escape_char_def Let_def)
qed

lemma quote_no_nl: "nl \<notin> set (quote_string s)"
  using escape_char_no_nl by (simp add: quote_string_def)

lemma join_set: "set (join sep xs) \<subseteq> \<Union> (set ` set xs) \<union> set sep"
  by (induction sep xs rule: join.induct) auto

lemma stringify_no_nl: "nl \<notin> set (stringify v)"
proof (induction v)
  case (JNum n)
  have "\<not> number_char nl" by (simp add: number_char_def is_digit_def)
  then show ?case using int_text(1) [of n] by (auto simp: list_all_iff)
next
  case (JArr vs)
  then show ?case using join_set [of "'',''" "map stringify vs"] by auto
next
  case (JObj kvs)
  have "nl \<notin> set (case kv of (k, v) \<Rightarrow> quote_string k @ '':'' @ stringify v)" if "kv \<in> set kvs" for kv
    using JObj [OF that, of "snd kv"] quote_no_nl [of "fst kv"] by (cases kv) simp
  then have "nl \<notin> \<Union> (set ` set (map (\<lambda>(k, v). quote_string k @ '':'' @ stringify v) kvs)) \<union> set '',''"
    by auto
  then have "nl \<notin> set (join '','' (map (\<lambda>(k, v). quote_string k @ '':'' @ stringify v) kvs))"
    using join_set by blast
  then show ?case by simp
qed (simp_all add: quote_no_nl)

lemma first_line_text: "nl \<notin> set t \<Longrightarrow> first_line (t @ nl # r) = t"
  by (induction t) (auto simp: first_line_def)

lemma byteLength_nl: "byteLength (t @ [nl]) = byteLength t + 1"
  by simp

text \<open>The whole exchange on one connection, and what an operation answers.\<close>

definition exchange :: "'r daemon \<Rightarrow> string list \<Rightarrow> 'r server \<Rightarrow> string option \<times> 'r server" where
  "exchange dm chunks s = (case onChunks dm chunks (fresh_conn, s) of (c, s') \<Rightarrow> (cn_reply c, s'))"

definition answers :: "('r server, json) act \<Rightarrow> 'r server \<Rightarrow> string option \<times> 'r server" where
  "answers m s = (case m s of (r, s', h) \<Rightarrow> (Some (reply_line r), s'))"

lemma onChunks_done: "cn_done c \<Longrightarrow> onChunks dm chunks (c, s) = (c, s)"
  by (induction chunks) (auto simp: onChunks_def onData_def)

lemma line_split:
  assumes "chunk @ later = rest @ [c]" "c \<notin> set chunk"
  obtains t where "rest = chunk @ t" "later = t @ [c]"
  using assms
proof (induction chunk arbitrary: rest thesis)
  case Nil
  then show ?case by simp
next
  case (Cons x xs)
  show ?case
  proof (cases rest)
    case Nil
    then show ?thesis using Cons.prems by simp
  next
    case (Cons y ys)
    with Cons.prems have "xs @ later = ys @ [c]" "y = x" "c \<notin> set xs" by auto
    with Cons.IH [of ys] Cons.prems Cons show ?thesis by auto
  qed
qed

lemma onChunks_line:
  assumes "JSON_parse body = Some request" "nl \<notin> set body" "byteLength body < MAX_REQUEST_BYTES"
    and "concat chunks = rest @ [nl]" "body = seen @ rest"
  shows "\<exists>c. cn_reply c = fst (answers (dispatchS6BrokerRequest dm request) s)
      \<and> onChunks dm chunks (\<lparr>cn_buffer = seen, cn_done = False, cn_reply = None\<rparr>, s)
          = (c, snd (answers (dispatchS6BrokerRequest dm request) s))"
  using assms(4,5)
proof (induction chunks arbitrary: seen rest)
  case Nil
  then show ?case by simp
next
  case (Cons chunk chunks)
  obtain r s' h where d: "dispatchS6BrokerRequest dm request s = (r, s', h)"
    by (cases "dispatchS6BrokerRequest dm request s")
  show ?case
  proof (cases "nl \<in> set chunk")
    case True
    have e: "chunk @ concat chunks = rest @ [nl]" using Cons.prems(1) by simp
    have n: "nl \<notin> set rest" using assms(2) Cons.prems(2) by auto
    from e n True have c: "chunk = rest @ [nl]" "concat chunks = []"
      by (auto simp: append_eq_append_conv2 append_eq_Cons_conv)
    have "first_line (seen @ chunk) = body" using c Cons.prems(2) first_line_text [OF assms(2), of "[]"] by simp
    moreover have "byteLength (seen @ chunk) \<le> MAX_REQUEST_BYTES" using c Cons.prems(2) assms(3) by simp
    ultimately show ?thesis
      using c True d assms(1)
      by (simp add: onChunks_def onData_def Let_def answers_def end_with_def)
         (simp add: onChunks_done [unfolded onChunks_def])
  next
    case False
    obtain t where t: "rest = chunk @ t" "concat chunks = t @ [nl]"
      using line_split [of chunk "concat chunks" rest nl] Cons.prems(1) False by auto
    have "nl \<notin> set (seen @ chunk)" using assms(2) Cons.prems(2) t by auto
    then have "onData dm chunk (\<lparr>cn_buffer = seen, cn_done = False, cn_reply = None\<rparr>, s)
        = (\<lparr>cn_buffer = seen @ chunk, cn_done = False, cn_reply = None\<rparr>, s)"
      by (simp add: onData_def Let_def)
    then show ?thesis using Cons.IH [of t "seen @ chunk"] Cons.prems(2) t by (simp add: onChunks_def)
  qed
qed

lemma exchange_line:
  assumes "json_ok request" "concat chunks = stringify request @ [nl]" "byteLength (stringify request) < MAX_REQUEST_BYTES"
  shows "exchange dm chunks s = answers (dispatchS6BrokerRequest dm request) s"
proof -
  obtain c where c: "cn_reply c = fst (answers (dispatchS6BrokerRequest dm request) s)"
    "onChunks dm chunks (fresh_conn, s) = (c, snd (answers (dispatchS6BrokerRequest dm request) s))"
    using onChunks_line [OF parse_stringify [OF assms(1)] stringify_no_nl assms(3,2), of "[]" dm s]
    by (auto simp: fresh_conn_def)
  then show ?thesis by (simp add: exchange_def)
qed

text \<open>The calls of the client, the line each sends and the broker operation it is meant to reach.\<close>

datatype broker_call =
    AttestCall json
  | PreflightCall
  | PublishCall
  | MutationCall string json "json option"
  | ObserveCall json json

fun call_line :: "client \<Rightarrow> broker_call \<Rightarrow> string result" where
  "call_line cl (AttestCall sha) = s6BrokerAttestCommit cl sha"
| "call_line cl PreflightCall = s6BrokerPreflightCommit cl"
| "call_line cl PublishCall = s6BrokerPublishBranch cl"
| "call_line cl (MutationCall route path observed) = s6BrokerCoordinateMutation cl route path observed"
| "call_line cl (ObserveCall path content) = s6BrokerObserveResource cl path content"

fun call_ok :: "broker_call \<Rightarrow> bool" where
  "call_ok (AttestCall sha) = json_ok sha"
| "call_ok (MutationCall route path observed) = (case observed of None \<Rightarrow> True | Some v \<Rightarrow> json_ok v)"
| "call_ok (ObserveCall path content) = json_ok content"
| "call_ok _ = True"

fun call_operation :: "'r daemon \<Rightarrow> broker_call \<Rightarrow> ('r server, json) act" where
  "call_operation dm (AttestCall sha) = on_world (attestValue (dm_ext dm) (dm_broker dm) (Some sha))"
| "call_operation dm PreflightCall =
    on_world (andThen (look (preflightCommit (dm_ext dm) (dm_broker dm))) (\<lambda>branch. ret (preflight_json branch)))"
| "call_operation dm PublishCall =
    on_world (andThen (publishBranch (dm_ext dm) (dm_broker dm)) (\<lambda>e. ret (evidence_json e)))"
| "call_operation dm (MutationCall route path observed) =
    andThen (look (\<lambda>_. assertCoordinatorRelativePath (Some path))) (\<lambda>rel.
    on_world (coordinateMutation (dm_ext dm) (dm_coord dm) (dm_broker dm) route (Some (JStr rel)) observed))"
| "call_operation dm (ObserveCall path content) =
    andThen (look (\<lambda>_. assertCoordinatorRelativePath (Some path))) (\<lambda>rel.
    on_world (coordinateObservation (dm_ext dm) (dm_coord dm) (dm_broker dm) (Some (JStr rel)) (Some content)))"

lemma sorted_key_lists:
  "sorted_keys (JObj [(''capability'', a), (''operation'', b)]) = ''capability,operation''"
  "sorted_keys (JObj [(''capability'', a), (''operation'', b), (''sha'', c)]) = ''capability,operation,sha''"
  "sorted_keys (JObj [(''capability'', a), (''operation'', b), (''route'', c), (''path'', d)]) = ''capability,operation,path,route''"
  "sorted_keys (JObj [(''capability'', a), (''operation'', b), (''route'', c), (''path'', d), (''observed_content_sha256'', e)])
    = ''capability,observed_content_sha256,operation,path,route''"
  "sorted_keys (JObj [(''capability'', a), (''operation'', b), (''path'', d), (''content_sha256'', e)])
    = ''capability,content_sha256,operation,path''"
  by (simp_all add: sorted_keys_def sort_strings_def)

lemma authenticated:
  assumes "sv_capability s = Some (JStr cap)" "CAPABILITY_test cap" "get request ''capability'' = Some (JStr cap)"
  shows "authenticate dm request s = Inr ()"
proof -
  have "truthy (Some (JStr cap))" using assms(2) by (auto simp: CAPABILITY_test_def hex_exact_def)
  then show ?thesis
    using assms by (simp add: authenticate_def sameCapability_def capability_text_def CAPABILITY_test_def)
qed

lemma client_path_Some: "client_path v \<Longrightarrow> \<exists>p. v = Some (JStr p) \<and> p \<noteq> []"
proof -
  have "\<not> re_test RELATIVE_PATH []" by code_simp
  then show "client_path v \<Longrightarrow> ?thesis"
    by (auto simp: client_path_def split: option.splits json.splits)
qed

lemma requestBroker_Inr:
  "requestBroker cl request False = Inr line \<Longrightarrow>
     line = stringify (request_body (cl_capability cl) request) @ [nl] \<and> CAPABILITY_test (cl_capability cl)
     \<and> assertRequest request False = Inr ()"
  by (auto simp: requestBroker_def Let_def result_simps)

definition reaches :: "'r daemon \<Rightarrow> client \<Rightarrow> json \<Rightarrow> ('r server, json) act \<Rightarrow> bool" where
  "reaches dm cl request operation =
    (json_ok request \<and> get request ''capability'' = Some (JStr (cl_capability cl)) \<and> is_obj request
     \<and> \<not> has_str request ''operation'' ''register'' \<and> serveOperation dm request = operation)"

lemma guard_true: "andThen (guard True m) f = f ()"
  by (rule ext) (auto simp: andThen_def guard_def ret_def split: prod.splits)

lemma routes_short: "route \<in> set S7B_COORDINATED_ROUTES \<Longrightarrow> route \<noteq> []"
  by (auto simp: S7B_COORDINATED_ROUTES_def)

lemma call_reaches:
  assumes "call_line cl k = Inr line" "call_ok k"
  shows "\<exists>request. line = stringify request @ [nl] \<and> CAPABILITY_test (cl_capability cl)
    \<and> reaches dm cl request (call_operation dm k)"
proof (cases k)
  case (AttestCall sha)
  let ?q = "JObj [(''operation'', JStr ''attest''), (''sha'', sha)]"
  have r: "requestBroker cl ?q False = Inr line" using assms(1) AttestCall by (simp add: s6BrokerAttestCommit_def)
  have "SHA_test (string_or_empty (Some sha))"
    using requestBroker_Inr [OF r] by (auto simp: assertRequest_def Let_def has_str_def split: if_splits)
  then have t: "truthy (Some sha)" by (auto simp: string_or_empty_def SHA_test_def hex_exact_def split: if_splits)
  let ?b = "request_body (cl_capability cl) ?q"
  have b: "?b = JObj [(''capability'', JStr (cl_capability cl)), (''operation'', JStr ''attest''), (''sha'', sha)]"
    using t by (simp add: request_body_def opt_entry_def if_truthy_def)
  have "reaches dm cl ?b (call_operation dm k)"
    using assms(2) AttestCall unfolding b reaches_def
    by (simp add: has_str_def serveOperation_def sorted_key_lists guard_true)
  then show ?thesis using requestBroker_Inr [OF r] by blast
next
  case PreflightCall
  let ?q = "JObj [(''operation'', JStr ''preflight-commit'')]" and ?b = "request_body (cl_capability cl) (JObj [(''operation'', JStr ''preflight-commit'')])"
  have r: "requestBroker cl ?q False = Inr line" using assms(1) PreflightCall by (simp add: s6BrokerPreflightCommit_def)
  have b: "?b = JObj [(''capability'', JStr (cl_capability cl)), (''operation'', JStr ''preflight-commit'')]"
    by (simp add: request_body_def opt_entry_def if_truthy_def)
  have "reaches dm cl ?b (call_operation dm k)"
    using PreflightCall unfolding b reaches_def
    by (simp add: has_str_def serveOperation_def sorted_key_lists guard_true)
  then show ?thesis using requestBroker_Inr [OF r] by blast
next
  case PublishCall
  let ?q = "JObj [(''operation'', JStr ''publish'')]" and ?b = "request_body (cl_capability cl) (JObj [(''operation'', JStr ''publish'')])"
  have r: "requestBroker cl ?q False = Inr line" using assms(1) PublishCall by (simp add: s6BrokerPublishBranch_def)
  have b: "?b = JObj [(''capability'', JStr (cl_capability cl)), (''operation'', JStr ''publish'')]"
    by (simp add: request_body_def opt_entry_def if_truthy_def)
  have "reaches dm cl ?b (call_operation dm k)"
    using PublishCall unfolding b reaches_def
    by (simp add: has_str_def serveOperation_def sorted_key_lists guard_true)
  then show ?thesis using requestBroker_Inr [OF r] by blast
next
  case (MutationCall route path observed)
  let ?q = "JObj ([(''operation'', JStr ''coordinate-mutation''), (''route'', JStr route), (''path'', path)]
      @ opt_entry ''observedContentSha256'' observed)"
  have r: "requestBroker cl ?q False = Inr line" and m: "route \<in> set S7B_COORDINATED_ROUTES" "client_path (Some path)"
    using assms(1) MutationCall by (auto simp: s6BrokerCoordinateMutation_def result_simps)
  obtain p where p: "path = JStr p" "p \<noteq> []" using client_path_Some [OF m(2)] by auto
  have o: "observed = None \<or> content_ok observed"
    using requestBroker_Inr [OF r]
    by (cases observed) (auto simp: assertRequest_def Let_def has_str_def opt_entry_def split: if_splits)
  let ?b = "request_body (cl_capability cl) ?q"
  have b: "?b = JObj ([(''capability'', JStr (cl_capability cl)), (''operation'', JStr ''coordinate-mutation''), (''route'', JStr route),
      (''path'', JStr p)] @ opt_entry ''observed_content_sha256'' observed)"
    using p routes_short [OF m(1)] by (cases observed) (simp_all add: request_body_def opt_entry_def if_truthy_def)
  have "reaches dm cl ?b (call_operation dm k)"
    using assms(2) MutationCall p m(1) o unfolding b reaches_def
    by (cases observed)
       (auto simp: has_str_def field_def serveOperation_def serveMutation_def Let_def sorted_key_lists guard_true opt_entry_def)
  then show ?thesis using requestBroker_Inr [OF r] by blast
next
  case (ObserveCall path content)
  let ?q = "JObj [(''operation'', JStr ''coordinate-observe''), (''path'', path), (''contentSha256'', content)]"
  have r: "requestBroker cl ?q False = Inr line" and m: "content_ok (Some content)" "client_path (Some path)"
    using assms(1) ObserveCall by (auto simp: s6BrokerObserveResource_def result_simps)
  obtain p where p: "path = JStr p" "p \<noteq> []" using client_path_Some [OF m(2)] by auto
  let ?b = "request_body (cl_capability cl) ?q"
  have b: "?b = JObj [(''capability'', JStr (cl_capability cl)), (''operation'', JStr ''coordinate-observe''),
      (''path'', JStr p), (''content_sha256'', content)]"
    using p by (simp add: request_body_def opt_entry_def if_truthy_def)
  have "reaches dm cl ?b (call_operation dm k)"
    using assms(2) ObserveCall p m(1) unfolding b reaches_def
    by (simp add: has_str_def serveOperation_def serveObservation_def sorted_key_lists guard_true)
  then show ?thesis using requestBroker_Inr [OF r] by blast
qed

text \<open>
  C8 (equivalence).  A call the client accepts, sent over any chunking of its line to a server that
  registered the client's capability, is exactly the broker operation it names with the client's
  arguments: no call is refused for its shape, none reaches another operation, and the reply is that
  operation's result (or its sanitized error).
\<close>

theorem client_call_is_broker_operation:
  assumes "call_line cl k = Inr line" "call_ok k" "concat chunks = line" "byteLength line \<le> MAX_REQUEST_BYTES"
    and "sv_capability s = Some (JStr (cl_capability cl))"
  shows "exchange dm chunks s = answers (call_operation dm k) s"
proof -
  obtain request where q: "line = stringify request @ [nl]" "CAPABILITY_test (cl_capability cl)"
    "reaches dm cl request (call_operation dm k)"
    using call_reaches [OF assms(1,2)] by blast
  have "exchange dm chunks s = answers (dispatchS6BrokerRequest dm request) s"
    by (rule exchange_line) (use q assms(3,4) in \<open>auto simp: reaches_def\<close>)
  moreover have "authenticate dm request s = Inr ()"
    using q by (intro authenticated [OF assms(5)]) (auto simp: reaches_def)
  ultimately show ?thesis
    using q(3) by (simp add: reaches_def answers_def dispatchS6BrokerRequest_def andThen_def look_def split_beta)
qed

section \<open>What the broker answers arrives\<close>

lemma json_ok_get: "json_ok v \<Longrightarrow> get v k = Some j \<Longrightarrow> json_ok j"
  by (cases v) (auto simp: get_def list_all_iff dest: map_of_SomeD)

lemma json_ok_get_opt: "(\<And>j. v = Some j \<Longrightarrow> json_ok j) \<Longrightarrow> get_opt v k = Some j \<Longrightarrow> json_ok j"
  by (auto simp: get_opt_def json_ok_get split: option.splits)

lemma json_ok_freshness:
  assumes "\<And>j. v = Some j \<Longrightarrow> json_ok j"
  shows "json_ok (projectBridgeFreshness v)"
proof -
  let ?w = "get_opt (get_opt v ''current'') ''worktree_content_version''"
  have w: "json_ok j" if "?w = Some j" for j
    using json_ok_get_opt [of "get_opt v ''current''" "''worktree_content_version''" j] json_ok_get_opt [of v "''current''"] assms that
    by blast
  show ?thesis
  proof (cases "\<exists>kvs. ?w = Some (JObj kvs)")
    case True
    then obtain kvs where k: "?w = Some (JObj kvs)" by blast
    have "json_ok h" if "get (JObj kvs) ''hex'' = Some h" for h using json_ok_get [OF w [OF k] that] .
    moreover have "get (JObj kvs) ''hex'' \<noteq> None" if "hex_exact 64 (string_or_empty (get (JObj kvs) ''hex''))"
      using that by (cases "get (JObj kvs) ''hex''") (simp_all add: hex_exact_def del: get_JObj)
    ultimately show ?thesis
      unfolding projectBridgeFreshness_def k by (auto simp: Let_def simp del: get_JObj)
  next
    case False
    then show ?thesis by (auto simp: projectBridgeFreshness_def split: option.splits json.splits)
  qed
qed

lemma json_ok_metadata:
  assumes "\<And>j. v = Some j \<Longrightarrow> json_ok j" "\<And>kvs. mset (ls kvs) = mset kvs"
  shows "json_ok (projectBridgeMetadata ls v)"
proof (cases "\<exists>kvs. v = Some (JObj kvs)")
  case True
  then obtain kvs where k: "v = Some (JObj kvs)" by blast
  let ?q = "filter (\<lambda>(k, item). metadata_key k \<and> metadata_value item) (take 16 (ls kvs))"
  have "mset (map fst (ls kvs)) = mset (map fst kvs)" using assms(2) [of kvs] by simp
  moreover have "distinct (map fst kvs)" using assms(1) [OF k] by simp
  ultimately have "distinct (map fst (ls kvs))" by (metis mset_eq_imp_distinct_iff)
  then have "distinct (map fst (take 16 (ls kvs)))" by (metis distinct_take take_map)
  then have "distinct (map fst ?q)" by (rule distinct_map_filter)
  moreover have "json_ok j" if "(x, j) \<in> set ?q" for x j
    using that by (cases j) (auto simp: metadata_value_def)
  ultimately show ?thesis using k by (auto simp: projectBridgeMetadata_def Let_def list_all_iff)
next
  case False
  then show ?thesis by (auto simp: projectBridgeMetadata_def split: option.splits json.splits)
qed

lemma json_ok_projection:
  assumes "projectS7BBridgeMutationResult ls (Some v) = Inr p" "json_ok v" "\<And>kvs. mset (ls kvs) = mset kvs"
  shows "json_ok p"
proof -
  obtain kvs d s refs lc where v: "v = JObj kvs" and d: "boundedDecision (get (JObj kvs) ''decision'') = Inr d"
    and k: "projectBridgeEvidenceRefs (get (JObj kvs) ''evidence_refs'') = Inr refs"
    and l: "projectBridgeLifecycle (get (JObj kvs) ''lifecycle'') = Inr lc"
    and p: "p = JObj [(''bridge_projection'', JStr ''s7b-mutation-result-v1''),
            (''allowed'', JBool (get (JObj kvs) ''allowed'' = Some (JBool True))), (''decision'', d),
            (''reason_code'', JStr s), (''freshness'', projectBridgeFreshness (get (JObj kvs) ''freshness'')),
            (''enforcement'', projectBridgeMetadata ls (get (JObj kvs) ''enforcement'')),
            (''store_health'', projectBridgeMetadata ls (get (JObj kvs) ''store_health'')),
            (''evidence_refs'', refs), (''lifecycle'', lc)]"
    using projection_Inr [OF assms(1)] by blast
  have g: "json_ok j" if "get (JObj kvs) key = Some j" for key j using json_ok_get that assms(2) v by blast
  have "json_ok d" using d by (auto simp: boundedDecision_def split: option.splits json.splits if_splits)
  moreover have "json_ok refs" using projectBridgeEvidenceRefs_bounded [OF k] by (fastforce simp: list_all_iff)
  moreover have "json_ok lc" using l
    by (auto simp: projectBridgeLifecycle_def Let_def result_simps boundedBridgeString_Inr simp del: get_JObj split: option.splits json.splits)
  ultimately show ?thesis
    unfolding p by (simp add: json_ok_freshness [OF g] json_ok_metadata [OF g assms(3)] del: get_JObj)
qed

text \<open>
  C11 (roundtrip).  What the broker answers to a coordinated mutation always fits the bounded frame of
  the client and is read back as the very projection that was sent; \<open>ls\<close> only reorders keys.
\<close>

theorem mutation_reply_arrives:
  assumes "projectS7BBridgeMutationResult ls (Some v) = Inr p" "json_ok v" "\<And>kvs. mset (ls kvs) = mset kvs"
  shows "consumeS6BrokerResponse (reply_line (Inr p)) = Inr (Some p)"
proof -
  have "byteLength (stringify p) \<le> 16384"
    using projection_Inr [OF assms(1)] by (auto simp: S7B_BRIDGE_MUTATION_RESPONSE_MAX_BYTES_def)
  moreover have "first_line (stringify p @ [nl]) = stringify p"
    using first_line_text [OF stringify_no_nl, of _ "[]"] by simp
  ultimately show ?thesis
    using parse_stringify [OF json_ok_projection [OF assms]]
    by (simp add: consumeS6BrokerResponse_def reply_line_def S6_BROKER_RESPONSE_MAX_BYTES_def)
qed

text \<open>
  A registration that was sent and not acknowledged is remembered: every later
  initialization answers with the same error, and the client never becomes configured.
\<close>

theorem failed_registration_sticks:
  assumes "initializeS6Broker answer cl = (Inl e, cl')" "cl_registration cl' \<noteq> None" "cl_registration cl = None"
  shows "initializeS6Broker answer' cl' = (Inl e, cl') \<and> \<not> s6BrokerConfigured cl'"
  using assms
  by (auto simp: initializeS6Broker_def s6BrokerConfigured_def Let_def split: if_splits sum.splits option.splits)

end
