(* ===== verification/ChannelProxy.thy ===== *)
theory ChannelProxy
  imports BrokerProtocol
begin

text \<open>
  The sidecar that carries the channel when no host socket can be mounted:
  \<^verbatim>\<open>scripts/s6-broker-channel-proxy.mjs\<close> numbers the requests of its sockets and writes
  them to its output, \<^verbatim>\<open>scripts/s6-broker-proxy-host.mjs\<close> dispatches each and writes the
  numbered response reply.  Sockets are numbered; a line is its text without the line feed.
\<close>

section \<open>The sidecar\<close>

record peer =
  pe_buffer :: string
  pe_sent :: bool
  pe_destroyed :: bool
  pe_written :: "string option"

definition fresh_peer :: peer where
  "fresh_peer = \<lparr>pe_buffer = [], pe_sent = False, pe_destroyed = False, pe_written = None\<rparr>"

record proxy =
  px_peers :: "nat \<Rightarrow> peer"
  px_pending :: "(int \<times> nat) list"
  px_nextId :: int

definition initial_proxy :: proxy where
  "initial_proxy = \<lparr>px_peers = (\<lambda>_. fresh_peer), px_pending = [], px_nextId = 1\<rparr>"

definition set_peer :: "nat \<Rightarrow> peer \<Rightarrow> proxy \<Rightarrow> proxy" where
  "set_peer i p px = px\<lparr>px_peers := (px_peers px)(i := p)\<rparr>"

definition envelope :: "int \<Rightarrow> string \<Rightarrow> json \<Rightarrow> json" where
  "envelope n key v = JObj [(''id'', JNum n), (key, v)]"

text \<open>A chunk from a socket; the second component is the line written to the host, if any.\<close>

definition proxyData :: "nat \<Rightarrow> string \<Rightarrow> proxy \<Rightarrow> proxy \<times> string option" where
  "proxyData i chunk px =
    (let p = px_peers px i; buffer = pe_buffer p @ chunk; p' = p\<lparr>pe_buffer := buffer\<rparr> in
     if pe_sent p \<or> pe_destroyed p then (px, None)
     else if byteLength buffer > MAX_REQUEST_BYTES then (set_peer i (p'\<lparr>pe_destroyed := True\<rparr>) px, None)
     else if nl \<notin> set buffer then (set_peer i p' px, None)
     else (case JSON_parse (first_line buffer) of
             None \<Rightarrow> (set_peer i (p'\<lparr>pe_destroyed := True\<rparr>) px, None)
           | Some request \<Rightarrow>
               ((set_peer i (p'\<lparr>pe_sent := True\<rparr>) px)
                  \<lparr>px_pending := px_pending px @ [(px_nextId px, i)], px_nextId := px_nextId px + 1\<rparr>,
                Some (stringify (envelope (px_nextId px) ''request'' request)))))"

definition is_response :: "json option \<Rightarrow> bool" where
  "is_response v = (case v of Some (JObj _) \<Rightarrow> True | Some (JArr _) \<Rightarrow> True | _ \<Rightarrow> False)"

definition pending_socket :: "json option \<Rightarrow> proxy \<Rightarrow> (int \<times> nat) option" where
  "pending_socket v px =
    (case v of Some (JNum n) \<Rightarrow> map_option (\<lambda>i. (n, i)) (map_of (px_pending px) n) | _ \<Rightarrow> None)"

text \<open>A line from the host.\<close>

definition proxyLine :: "string \<Rightarrow> proxy \<Rightarrow> proxy" where
  "proxyLine line px =
    (case JSON_parse line of
       None \<Rightarrow> px
     | Some env \<Rightarrow>
         (case pending_socket (get env ''id'') px of
            None \<Rightarrow> px
          | Some (n, i) \<Rightarrow>
              if \<not> is_response (get env ''response'') then px
              else set_peer i ((px_peers px i)\<lparr>pe_written := Some (stringify (the (get env ''response'')) @ [nl])\<rparr>)
                     (px\<lparr>px_pending := filter (\<lambda>(m, j). m \<noteq> n) (px_pending px)\<rparr>)))"

definition proxyClose :: "nat \<Rightarrow> proxy \<Rightarrow> proxy" where
  "proxyClose i px =
    (set_peer i ((px_peers px i)\<lparr>pe_destroyed := True\<rparr>) px)\<lparr>px_pending := filter (\<lambda>(m, j). j \<noteq> i) (px_pending px)\<rparr>"

section \<open>The host\<close>

definition hostResponse :: "json result \<Rightarrow> json" where
  "hostResponse r =
    (case r of
       Inr v \<Rightarrow> v
     | Inl e \<Rightarrow> error_json (take 400 (if message e = [] then ''broker request failed'' else message e)))"

definition hostLine :: "'r daemon \<Rightarrow> string \<Rightarrow> 'r server \<Rightarrow> string option \<times> 'r server" where
  "hostLine dm line s =
    (case JSON_parse line of
       None \<Rightarrow> (None, s)
     | Some env \<Rightarrow>
         (case get env ''id'' of
            Some (JNum n) \<Rightarrow>
              if abs n > MAX_SAFE_INTEGER \<or> \<not> truthy (get env ''request'') then (None, s)
              else (case dispatchS6BrokerRequest dm (the (get env ''request'')) s of
                      (r, s', h) \<Rightarrow> (Some (stringify (envelope n ''response'' (hostResponse r))), s'))
          | _ \<Rightarrow> (None, s)))"

text \<open>The resource names the host accepts.\<close>

definition named_resource :: "string \<Rightarrow> string \<Rightarrow> bool" where
  "named_resource ending name = (endsWith name ending \<and> tagged_id ''s6'' 12 (take (length name - length ending) name))"

definition assertProxyIdentity :: "string \<Rightarrow> string \<Rightarrow> unit result" where
  "assertProxyIdentity volumeName proxyName =
    ensure (named_resource ''-transport'' volumeName \<and> named_resource ''-broker-proxy'' proxyName)
      ''S6 broker proxy resource identity is invalid''"

section \<open>Every socket gets the answer to its own request\<close>

text \<open>
  The numbers in use are distinct and below the next one; a socket waits under at most one number,
  has sent its request and not been answered.
\<close>

definition proxy_ok :: "proxy \<Rightarrow> bool" where
  "proxy_ok px =
    (distinct (map fst (px_pending px)) \<and> distinct (map snd (px_pending px)) \<and> 1 \<le> px_nextId px
     \<and> list_all (\<lambda>(n, i). 1 \<le> n \<and> n < px_nextId px \<and> pe_sent (px_peers px i) \<and> pe_written (px_peers px i) = None) (px_pending px)
     \<and> (\<forall>i. pe_written (px_peers px i) \<noteq> None \<longrightarrow> pe_sent (px_peers px i)))"

inductive proxy_step :: "proxy \<Rightarrow> proxy \<Rightarrow> bool" where
  data: "proxy_step px (fst (proxyData i chunk px))"
| line: "proxy_step px (proxyLine l px)"
| close: "proxy_step px (proxyClose i px)"

inductive proxy_reachable :: "proxy \<Rightarrow> bool" where
  start: "proxy_reachable initial_proxy"
| step: "proxy_reachable px \<Longrightarrow> proxy_step px px' \<Longrightarrow> proxy_reachable px'"

lemma set_peer_sel [simp]:
  "px_peers (set_peer i p px) = (px_peers px)(i := p)" "px_pending (set_peer i p px) = px_pending px"
  "px_nextId (set_peer i p px) = px_nextId px"
  by (simp_all add: set_peer_def)

lemma proxyData_ok: "proxy_ok px \<Longrightarrow> proxy_ok (fst (proxyData i chunk px))"
  by (force simp: proxy_ok_def proxyData_def Let_def list_all_iff split: option.splits)

lemma distinct_map_snd_filter: "distinct (map snd xs) \<Longrightarrow> distinct (map snd (filter P xs))"
  by (rule distinct_map_filter)

lemma proxyLine_ok:
  assumes "proxy_ok px"
  shows "proxy_ok (proxyLine l px)"
proof (cases "proxyLine l px = px")
  case True
  then show ?thesis using assms by simp
next
  case False
  then obtain n i text' where l: "map_of (px_pending px) n = Some i"
    "proxyLine l px = set_peer i ((px_peers px i)\<lparr>pe_written := Some text'\<rparr>)
       (px\<lparr>px_pending := filter (\<lambda>(m, j). m \<noteq> n) (px_pending px)\<rparr>)"
    by (auto simp: proxyLine_def pending_socket_def split: option.splits json.splits if_splits)
  have m: "(n, i) \<in> set (px_pending px)" using l(1) by (rule map_of_SomeD)
  have u: "j \<noteq> i" if "(k, j) \<in> set (px_pending px)" "k \<noteq> n" for k j
  proof
    assume "j = i"
    moreover have "inj_on snd (set (px_pending px))" using assms by (simp add: proxy_ok_def distinct_map)
    ultimately show False using inj_onD [of snd _ "(k, j)" "(n, i)"] that m by auto
  qed
  show ?thesis
    using assms m u unfolding l(2) proxy_ok_def
    by (auto simp: list_all_iff distinct_map_filter)
qed

lemma proxyClose_ok: "proxy_ok px \<Longrightarrow> proxy_ok (proxyClose i px)"
  by (auto simp: proxy_ok_def proxyClose_def list_all_iff distinct_map_filter)

text \<open>
  In every reachable state of the sidecar the pending numbers are distinct and
  fresh, no socket waits twice, and only a socket that sent its request and was not answered waits.
\<close>

theorem proxy_reachable_ok: "proxy_reachable px \<Longrightarrow> proxy_ok px"
proof (induction rule: proxy_reachable.induct)
  case start
  show ?case by (simp add: proxy_ok_def initial_proxy_def fresh_peer_def)
next
  case (step px px')
  from step(2) step(3) show ?case
    by cases (auto intro: proxyData_ok proxyLine_ok proxyClose_ok)
qed

text \<open>A run of the sidecar between the request of a socket and its answer.\<close>

lemma proxyData_sent:
  assumes "proxyData i chunk px = (px', Some line)"
  shows "\<exists>request. JSON_parse (first_line (pe_buffer (px_peers px i) @ chunk)) = Some request
    \<and> line = stringify (envelope (px_nextId px) ''request'' request)
    \<and> px_pending px' = px_pending px @ [(px_nextId px, i)]
    \<and> \<not> pe_sent (px_peers px i)"
  using assms by (auto simp: proxyData_def Let_def split: if_splits option.splits)

lemma envelope_parses: "json_ok v \<Longrightarrow> k \<noteq> ''id'' \<Longrightarrow> JSON_parse (stringify (envelope n k v)) = Some (envelope n k v)"
  by (rule parse_stringify) (simp add: envelope_def)

text \<open>
  What a socket sent is dispatched once, unchanged, and the response to it is
  written to that socket and no other.
\<close>

theorem proxied_answer_is_own:
  assumes "proxy_ok px" "proxyData i chunk px = (px', Some line)" "px_nextId px \<le> MAX_SAFE_INTEGER"
    and "JSON_parse (first_line (pe_buffer (px_peers px i) @ chunk)) = Some request" "is_obj request"
    and "dispatchS6BrokerRequest dm request s = (r, s', h)" "json_ok (hostResponse r)" "is_response (Some (hostResponse r))"
  shows "\<exists>reply. hostLine dm line s = (Some reply, s')
    \<and> pe_written (px_peers (proxyLine reply px') i) = Some (stringify (hostResponse r) @ [nl])
    \<and> (\<forall>j. j \<noteq> i \<longrightarrow> px_peers (proxyLine reply px') j = px_peers px' j)"
proof -
  have l: "line = stringify (envelope (px_nextId px) ''request'' request)"
    and pd: "px_pending px' = px_pending px @ [(px_nextId px, i)]"
    using proxyData_sent [OF assms(2)] assms(4) by auto
  have p: "JSON_parse line = Some (envelope (px_nextId px) ''request'' request)"
    unfolding l by (rule envelope_parses) (simp_all add: parse_ok [OF assms(4)])
  have t: "truthy (Some request)" using assms(5) by (cases request) (simp_all add: is_obj_def)
  have n: "1 \<le> px_nextId px" using assms(1) by (simp add: proxy_ok_def)
  let ?reply = "stringify (envelope (px_nextId px) ''response'' (hostResponse r))"
  have h: "hostLine dm line s = (Some ?reply, s')"
    using assms(3,6) t n unfolding hostLine_def p by (simp add: envelope_def)
  have "map_of (px_pending px) (px_nextId px) = None"
    using assms(1) by (force simp: proxy_ok_def list_all_iff map_of_eq_None_iff)
  then have m: "map_of (px_pending px') (px_nextId px) = Some i" unfolding pd by (simp add: map_add_def)
  have b: "JSON_parse ?reply = Some (envelope (px_nextId px) ''response'' (hostResponse r))"
    using assms(7) by (intro envelope_parses) simp_all
  have q: "proxyLine ?reply px' = set_peer i ((px_peers px' i)\<lparr>pe_written := Some (stringify (hostResponse r) @ [nl])\<rparr>)
      (px'\<lparr>px_pending := filter (\<lambda>(m, j). m \<noteq> px_nextId px) (px_pending px')\<rparr>)"
    using m assms(8) unfolding proxyLine_def b by (simp add: pending_socket_def envelope_def)
  show ?thesis by (intro exI [of _ ?reply] conjI h) (simp_all add: q)
qed

end
