(* ===== verification/ProtocolWitness.thy ===== *)
theory ProtocolWitness
  imports ChannelProxy CoordinatorWitness BrokerWitness
begin

text \<open>The channel's properties applied to the demo broker and a client with a concrete capability.\<close>

definition demo_daemon :: "demo_repo daemon" where
  "demo_daemon = \<lparr>dm_ext = demo, dm_coord = demo_coord, dm_broker = demo_broker, dm_byte = (\<lambda>_. 0),
     dm_parse_error = (\<lambda>_. ''Unexpected token'')\<rparr>"

definition demo_capability :: string where
  "demo_capability = ''aaaaaaaaaaaaaaaaaaaaaaaaaaaaaaaaaaaaaaaaaaaaaaaaaaaaaaaaaaaaaaaa''"

definition demo_client :: client where
  "demo_client = \<lparr>cl_socket = ''/transport/s6-broker.sock'', cl_registered = True, cl_capability = demo_capability, cl_registration = None\<rparr>"

definition demo_server :: "demo_repo server" where
  "demo_server = \<lparr>sv_world = demo_world demo_first None None {demo_first}, sv_capability = Some (JStr demo_capability)\<rparr>"

lemma demo_capability_ok: "CAPABILITY_test demo_capability"
  by (simp add: CAPABILITY_test_def demo_capability_def hex_exact_def)

definition demo_stranger :: json where
  "demo_stranger = JObj [(''operation'', JStr ''publish''), (''capability'', JArr [JStr demo_capability])]"

theorem dispatch_authenticated_witness:
  "\<exists>r s' h. dispatchS6BrokerRequest demo_daemon demo_stranger demo_server = (r, s', h)
     \<and> sv_capability s' = Some (JStr demo_capability) \<and> \<not> is_ok r \<and> s' = demo_server"
proof -
  obtain r s' h where d: "dispatchS6BrokerRequest demo_daemon demo_stranger demo_server = (r, s', h)"
    by (cases "dispatchS6BrokerRequest demo_daemon demo_stranger demo_server")
  have "sv_capability demo_server = Some (JStr demo_capability)" by (simp add: demo_server_def)
  from dispatch_authenticated [OF this demo_capability_ok d] d show ?thesis
    by (auto simp: demo_stranger_def)
qed

definition demo_publish_line :: string where
  "demo_publish_line = stringify (JObj [(''capability'', JStr demo_capability), (''operation'', JStr ''publish'')]) @ [nl]"

lemma demo_publish_call: "call_line demo_client PublishCall = Inr demo_publish_line"
proof -
  have "request_body demo_capability (JObj [(''operation'', JStr ''publish'')])
      = JObj [(''capability'', JStr demo_capability), (''operation'', JStr ''publish'')]"
    by (simp add: request_body_def opt_entry_def if_truthy_def)
  then show ?thesis
    using demo_capability_ok
    by (simp add: s6BrokerPublishBranch_def requestBroker_def demo_client_def assertRequest_def request_keys_def sort_strings_def
        has_str_def demo_publish_line_def Let_def del: stringify.simps)
qed

lemma demo_publish_short: "byteLength demo_publish_line \<le> MAX_REQUEST_BYTES"
  by (simp add: demo_publish_line_def demo_capability_def quote_string_def escape_char_def Let_def MAX_REQUEST_BYTES_def)

theorem client_call_is_broker_operation_witness:
  "exchange demo_daemon [take 7 demo_publish_line, drop 7 demo_publish_line] demo_server
    = (Some (reply_line (Inr (evidence_json (demo_evidence demo_first ''published'')))),
       demo_server\<lparr>sv_world := demo_world demo_first (Some demo_first)
          (Some (publish_json demo_sid demo_branch demo_ref demo_first demo_base None ''published'' ''now'')) {demo_first}\<rparr>)"
proof -
  have "exchange demo_daemon [take 7 demo_publish_line, drop 7 demo_publish_line] demo_server
      = answers (call_operation demo_daemon PublishCall) demo_server"
    by (rule client_call_is_broker_operation [OF demo_publish_call _ _ demo_publish_short])
       (simp_all add: demo_server_def demo_client_def)
  moreover have "runs (call_operation demo_daemon PublishCall) demo_server (evidence_json (demo_evidence demo_first ''published''))
      (demo_server\<lparr>sv_world := demo_world demo_first (Some demo_first)
          (Some (publish_json demo_sid demo_branch demo_ref demo_first demo_base None ''published'' ''now'')) {demo_first}\<rparr>)"
    using demo_publish_runs by (auto simp: run_simps demo_daemon_def demo_server_def)
  ultimately show ?thesis by (auto simp: answers_def runs_def)
qed

theorem mutation_reply_arrives_witness:
  "consumeS6BrokerResponse (reply_line (Inr demo_edit_projection)) = Inr (Some demo_edit_projection)"
proof (rule mutation_reply_arrives [OF demo_edit_projected])
  show "json_ok demo_edit"
    by (simp add: demo_edit_def mutation_result_def demo_allow_def opt_entry_def or_null_def or_empty_def content_version_def)
qed simp

theorem failed_registration_sticks_witness:
  "initializeS6Broker (\<lambda>_. Inr (JObj [(''registered'', JBool True)]))
     (snd (initializeS6Broker (\<lambda>_. throw ''refused'') (demo_client\<lparr>cl_registered := False\<rparr>)))
   = initializeS6Broker (\<lambda>_. throw ''refused'') (demo_client\<lparr>cl_registered := False\<rparr>)"
proof -
  let ?f = "\<lambda>_::string. throw ''refused'' :: json result" and ?c = "demo_client\<lparr>cl_registered := False\<rparr>"
  have s: "is_ok (requestBroker ?c (JObj [(''operation'', JStr ''register''), (''capability'', JStr (cl_capability ?c))]) True)"
    using demo_capability_ok
    by (simp add: requestBroker_def demo_client_def assertRequest_def request_keys_def sort_strings_def has_str_def Let_def del: stringify.simps)
  then obtain cl' where i: "initializeS6Broker ?f ?c = (Inl (Error ''refused''), cl')" "cl_registration cl' \<noteq> None"
    by (auto simp: initializeS6Broker_def is_ok_iff demo_client_def Let_def throw_def)
  have "cl_registration ?c = None" by (simp add: demo_client_def)
  from failed_registration_sticks [OF i this] i(1) show ?thesis by simp
qed

section \<open>The sidecar\<close>

theorem proxy_reachable_ok_witness:
  "proxy_ok (fst (proxyData 0 demo_publish_line initial_proxy))"
  by (rule proxy_reachable_ok, rule proxy_reachable.step [OF proxy_reachable.start proxy_step.data])

definition demo_request :: json where
  "demo_request = JObj [(''capability'', JStr demo_capability), (''operation'', JStr ''publish'')]"

lemma demo_line_parses: "JSON_parse (first_line demo_publish_line) = Some demo_request" "nl \<in> set demo_publish_line"
proof -
  have l: "demo_publish_line = stringify demo_request @ [nl]" by (simp only: demo_publish_line_def demo_request_def)
  have "first_line demo_publish_line = stringify demo_request"
    unfolding l using first_line_text [OF stringify_no_nl, of demo_request "[]"] by simp
  moreover have "JSON_parse (stringify demo_request) = Some demo_request"
    by (rule parse_stringify) (simp add: demo_request_def)
  ultimately show "JSON_parse (first_line demo_publish_line) = Some demo_request" by simp
  show "nl \<in> set demo_publish_line" unfolding l by simp
qed

theorem proxied_answer_is_own_witness:
  "\<exists>px' line reply s'. proxyData 0 demo_publish_line initial_proxy = (px', Some line)
    \<and> hostLine demo_daemon line demo_server = (Some reply, s') \<and> pe_written (px_peers (proxyLine reply px') 0) \<noteq> None"
proof -
  obtain px' line where d: "proxyData 0 demo_publish_line initial_proxy = (px', Some line)"
    using demo_line_parses demo_publish_short
    by (simp add: proxyData_def initial_proxy_def fresh_peer_def Let_def)
  obtain r s' h where r: "dispatchS6BrokerRequest demo_daemon demo_request demo_server = (r, s', h)"
    by (cases "dispatchS6BrokerRequest demo_daemon demo_request demo_server")
  have "authenticate demo_daemon demo_request demo_server = Inr ()"
    using demo_capability_ok by (intro authenticated [of _ demo_capability]) (simp_all add: demo_server_def demo_request_def)
  moreover have "runs (serveOperation demo_daemon demo_request) demo_server (evidence_json (demo_evidence demo_first ''published''))
      (demo_server\<lparr>sv_world := demo_world demo_first (Some demo_first)
          (Some (publish_json demo_sid demo_branch demo_ref demo_first demo_base None ''published'' ''now'')) {demo_first}\<rparr>)"
    using demo_publish_runs
    by (auto simp: serveOperation_def demo_request_def has_str_def sorted_key_lists guard_true run_simps demo_daemon_def demo_server_def)
  ultimately have r': "r = Inr (evidence_json (demo_evidence demo_first ''published''))"
    using r by (auto simp: dispatchS6BrokerRequest_def demo_request_def has_str_def andThen_def look_def runs_def)
  have ok: "proxy_ok initial_proxy" by (simp add: proxy_ok_def initial_proxy_def fresh_peer_def)
  have p: "JSON_parse (first_line (pe_buffer (px_peers initial_proxy 0) @ demo_publish_line)) = Some demo_request"
    using demo_line_parses by (simp add: initial_proxy_def fresh_peer_def)
  have n: "px_nextId initial_proxy \<le> MAX_SAFE_INTEGER" by (simp add: initial_proxy_def MAX_SAFE_INTEGER_def)
  have o: "is_obj demo_request" by (simp add: demo_request_def)
  have a: "json_ok (hostResponse r)" "is_response (Some (hostResponse r))"
    by (simp_all add: r' hostResponse_def evidence_json_def is_response_def)
  from proxied_answer_is_own [OF ok d n p o r a] d show ?thesis by fastforce
qed

end
