(* ===== verification/HostWorkspaces.thy ===== *)
theory HostWorkspaces
  imports Effects JsonText PosixPath
begin

text \<open>
  The index of host workspaces (\<^verbatim>\<open>src/lib/host-workspaces.js\<close>): one JSON file with a record
  per workspace.  Records stay JSON values, as the file has them.  Git, the file system, the clock,
  SHA-256 and the random id are parameters (\<open>hx\<close>); \<open>ho_repo\<close> is what they read and change.
  Workspace ids are looked up among the keys of the file.
\<close>

section \<open>What the index works with\<close>

record dirent =
  de_name :: string
  de_directory :: bool
  de_symlink :: bool

record 'r hx =
  hx_git :: "string list \<Rightarrow> string \<Rightarrow> (string \<times> string) list \<Rightarrow> 'r \<Rightarrow> proc_result \<times> 'r"
  hx_realpath :: "'r \<Rightarrow> string \<Rightarrow> string result"
  hx_isDirectory :: "'r \<Rightarrow> string \<Rightarrow> bool result"
  hx_exists :: "'r \<Rightarrow> string \<Rightarrow> bool"
  hx_readdir :: "'r \<Rightarrow> string \<Rightarrow> dirent list"
  hx_mkdir :: "string \<Rightarrow> 'r \<Rightarrow> 'r"
  hx_sha256 :: "string \<Rightarrow> string"
  hx_randomHex :: "'r \<Rightarrow> string"
  hx_now :: "'r \<Rightarrow> string"
  hx_environ :: "(string \<times> string) list"
  hx_cwd :: string
  hx_stateFile :: string
  hx_worktreeRoot :: string
  hx_newest_first :: "json list \<Rightarrow> json list"

text \<open>\<open>ho_file\<close>: no file, a file that does not parse (\<open>Some None\<close>), or a value.\<close>

record 'r hosts =
  ho_repo :: 'r
  ho_file :: "json option option"

type_synonym ('r, 'a) hact = "('r hosts, 'a) act"

definition peek :: "('r \<Rightarrow> 'a result) \<Rightarrow> ('r, 'a) hact" where
  "peek f = look (\<lambda>s. f (ho_repo s))"

definition hspawn :: "'r hx \<Rightarrow> string list \<Rightarrow> string \<Rightarrow> ('r, proc_result) hact" where
  "hspawn x args cwd =
    call (\<lambda>s. case hx_git x (''--no-pager'' # args) cwd (hx_environ x @ [(''GIT_TERMINAL_PROMPT'', ''0'')]) (ho_repo s) of
                (res, r) \<Rightarrow> (res, s\<lparr>ho_repo := r\<rparr>))"

definition hgit :: "'r hx \<Rightarrow> string list \<Rightarrow> string \<Rightarrow> ('r, string) hact" where
  "hgit x args cwd =
    andThen (hspawn x args cwd) (\<lambda>res.
    if p_status res \<noteq> Some 0
    then fail (trim (if p_stderr res \<noteq> [] then p_stderr res else if p_stdout res \<noteq> [] then p_stdout res else ''git command failed''))
    else ret (trim (p_stdout res)))"

definition optionalGit :: "'r hx \<Rightarrow> string list \<Rightarrow> string \<Rightarrow> ('r, string option) hact" where
  "optionalGit x args cwd =
    andThen (hspawn x args cwd) (\<lambda>res. ret (if p_status res = Some 0 then Some (trim (p_stdout res)) else None))"

definition fixedGit :: "'r hx \<Rightarrow> string list \<Rightarrow> string \<Rightarrow> string \<Rightarrow> ('r, string) hact" where
  "fixedGit x args cwd failureMessage =
    andThen (hspawn x args cwd) (\<lambda>res.
    if p_status res \<noteq> Some 0 then fail failureMessage else ret (trim (p_stdout res)))"

text \<open>A value that JavaScript takes for false counts as absent.\<close>

definition truthy_str :: "string option \<Rightarrow> string" where
  "truthy_str v = (case v of None \<Rightarrow> [] | Some s \<Rightarrow> s)"

definition str_or_null :: "string option \<Rightarrow> json" where
  "str_or_null v = (if truthy_str v = [] then JNull else JStr (truthy_str v))"

section \<open>The state of a working tree\<close>

record git_state =
  gs_repository :: bool
  gs_path :: string
  gs_head :: "string option"
  gs_branch :: string
  gs_dirty :: bool
  gs_status :: "string list"

definition status_dirty :: "string \<Rightarrow> bool" where
  "status_dirty status = list_ex (\<lambda>l. l \<noteq> []) (drop 1 (split_on nl status))"

definition status_lines :: "string \<Rightarrow> string list" where
  "status_lines status = take 100 (nonempty (split_on nl status))"

definition inspectGit :: "'r hx \<Rightarrow> string \<Rightarrow> ('r, git_state) hact" where
  "inspectGit x root =
    andThen (hgit x [''rev-parse'', ''HEAD''] root) (\<lambda>head.
    andThen (hgit x [''branch'', ''--show-current''] root) (\<lambda>branch.
    andThen (hgit x [''status'', ''--short'', ''--branch''] root) (\<lambda>status.
    ret \<lparr>gs_repository = True, gs_path = [], gs_head = Some head, gs_branch = branch,
         gs_dirty = status_dirty status, gs_status = status_lines status\<rparr>)))"

definition no_repository :: git_state where
  "no_repository = \<lparr>gs_repository = False, gs_path = [], gs_head = None, gs_branch = [], gs_dirty = False, gs_status = []\<rparr>"

definition inspectRepository :: "'r hx \<Rightarrow> string \<Rightarrow> string \<Rightarrow> ('r, git_state) hact" where
  "inspectRepository x root repositoryPath =
    andThen (optionalGit x [''rev-parse'', ''HEAD''] root) (\<lambda>head.
    andThen (optionalGit x [''branch'', ''--show-current''] root) (\<lambda>branch.
    andThen (hgit x [''status'', ''--short'', ''--branch''] root) (\<lambda>status.
    ret \<lparr>gs_repository = True, gs_path = repositoryPath, gs_head = head, gs_branch = truthy_str branch,
         gs_dirty = status_dirty status, gs_status = status_lines status\<rparr>)))"

definition inspectAttachedDirectory :: "'r hx \<Rightarrow> string \<Rightarrow> ('r, git_state) hact" where
  "inspectAttachedDirectory x root =
    andThen (peek (\<lambda>r. bindE (hx_isDirectory x r root) (\<lambda>d. ensure d (''workspace directory is unavailable: '' @ root)))) (\<lambda>_.
    andThen (optionalGit x [''rev-parse'', ''--show-toplevel''] root) (\<lambda>topLevel.
    if truthy_str topLevel = [] then ret no_repository
    else
      andThen (peek (\<lambda>r. hx_realpath x r (truthy_str topLevel))) (\<lambda>repositoryPath.
      andThen (peek (\<lambda>r. hx_realpath x r root)) (\<lambda>real.
      if repositoryPath \<noteq> real then ret no_repository else inspectRepository x root repositoryPath))))"

definition inspectRecord :: "'r hx \<Rightarrow> json \<Rightarrow> ('r, git_state) hact" where
  "inspectRecord x rec =
    (let worktreePath = string_or_empty (get rec ''worktreePath'') in
     if get rec ''kind'' = Some (JStr ''attached'') then inspectAttachedDirectory x worktreePath else inspectGit x worktreePath)"

definition publicGitState :: "git_state \<Rightarrow> json" where
  "publicGitState st =
    (if \<not> gs_repository st then JObj [(''repository'', JBool False)]
     else JObj [(''repository'', JBool True), (''head'', case gs_head st of None \<Rightarrow> JNull | Some h \<Rightarrow> JStr h),
       (''branch'', JStr (gs_branch st)), (''dirty'', JBool (gs_dirty st)), (''status'', JArr (map JStr (gs_status st)))])"

definition instructionFiles :: "'r hx \<Rightarrow> 'r \<Rightarrow> string \<Rightarrow> json" where
  "instructionFiles x r root =
    JArr (map JStr (filter (hx_exists x r) (map (path_join root) [''AGENTS.md'', ''HANDOFF.md''])))"

section \<open>Checks of what the caller gives\<close>

definition realDirectory :: "'r hx \<Rightarrow> json option \<Rightarrow> string \<Rightarrow> 'r \<Rightarrow> string result" where
  "realDirectory x v name r =
    bindE (ensure (is_absolute (string_or_empty v)) (name @ '' must be absolute'')) (\<lambda>_.
    bindE (hx_realpath x r (string_or_empty v)) (\<lambda>resolved.
    bindE (hx_isDirectory x r resolved) (\<lambda>d.
    bindE (ensure d (name @ '' must be a directory'')) (\<lambda>_.
    Inr resolved))))"

definition bounded :: "json option \<Rightarrow> nat \<Rightarrow> bool \<Rightarrow> string result" where
  "bounded v maximum required =
    (let t = trim (string_or_empty v) in
     if (required \<and> t = []) \<or> nul \<in> set t \<or> length t > maximum then throw ''workspace text field is invalid'' else Inr t)"

definition validBranch :: "json option \<Rightarrow> bool" where
  "validBranch v =
    (case v of Some (JStr s) \<Rightarrow> s \<noteq> [] \<and> length s \<le> 200 \<and> \<not> startsWith s ''-'' \<and> nul \<notin> set s | _ \<Rightarrow> False)"

definition scope_items :: "json \<Rightarrow> json list result" where
  "scope_items v =
    (case v of
       JArr xs \<Rightarrow>
         if length xs > 100 \<or> list_ex (\<lambda>i. case i of JStr s \<Rightarrow> length s > 500 | _ \<Rightarrow> True) xs
         then throw ''workspace scope is invalid'' else Inr xs
     | _ \<Rightarrow> throw ''workspace scope is invalid'')"

record texts =
  tx_objective :: string
  tx_project :: string
  tx_scope :: "string list"

text \<open>The text fields every creating operation normalizes.\<close>

definition workspace_texts :: "json option \<Rightarrow> json option \<Rightarrow> json \<Rightarrow> texts result" where
  "workspace_texts objective project wscope =
    bindE (scope_items wscope) (\<lambda>items.
    bindE (bounded objective 2000 True) (\<lambda>normalizedObjective.
    bindE (bounded project 200 False) (\<lambda>normalizedProject.
    bindE (mapE (\<lambda>i. bounded (Some i) 500 False) items) (\<lambda>normalizedScope.
    Inr \<lparr>tx_objective = normalizedObjective, tx_project = normalizedProject, tx_scope = normalizedScope\<rparr>))))"

section \<open>A valid index\<close>

definition andE :: "bool result \<Rightarrow> bool result \<Rightarrow> bool result" where
  "andE a b = bindE a (\<lambda>x. if x then b else Inr False)"

definition orE :: "bool result \<Rightarrow> bool result \<Rightarrow> bool result" where
  "orE a b = bindE a (\<lambda>x. if x then Inr True else b)"

fun everyE :: "('a \<Rightarrow> bool result) \<Rightarrow> 'a list \<Rightarrow> bool result" where
  "everyE f [] = Inr True"
| "everyE f (x # xs) = andE (f x) (everyE f xs)"

text \<open>\<^verbatim>\<open>path.isAbsolute(v || "")\<close> throws on a value that is neither falsy nor a string.\<close>

definition absolute_field :: "json \<Rightarrow> string \<Rightarrow> bool result" where
  "absolute_field v k =
    (case get v k of
       Some (JStr s) \<Rightarrow> Inr (is_absolute s)
     | other \<Rightarrow> if truthy other then throw ''The \"path\" argument must be of type string'' else Inr False)"

definition hash_field :: "json option \<Rightarrow> bool" where
  "hash_field v = hex_40_64 (string_or_empty v)"

definition hash_or_null :: "json option \<Rightarrow> bool" where
  "hash_or_null v = (v = Some JNull \<or> hash_field v)"

definition is_str :: "json option \<Rightarrow> bool" where
  "is_str v = (case v of Some (JStr _) \<Rightarrow> True | _ \<Rightarrow> False)"

definition is_bool :: "json option \<Rightarrow> bool" where
  "is_bool v = (case v of Some (JBool _) \<Rightarrow> True | _ \<Rightarrow> False)"

definition is_arr :: "json option \<Rightarrow> bool" where
  "is_arr v = (case v of Some (JArr _) \<Rightarrow> True | _ \<Rightarrow> False)"

definition valid_binding :: "json \<Rightarrow> bool" where
  "valid_binding rec =
    (is_bool (get rec ''managedWorktree'') \<and> validBranch (get rec ''requestedBranch'') \<and> hash_field (get rec ''expectedHead'')
     \<and> is_str (get rec ''remote'')
     \<and> (get rec ''remoteIdentity'' = None \<or> get rec ''remoteIdentity'' = Some (JStr [])
        \<or> hex_exact 64 (to_string (the (get rec ''remoteIdentity''))))
     \<and> (get rec ''remoteHead'' = None \<or> get rec ''remoteHead'' = Some JNull \<or> hex_40_64 (to_string (the (get rec ''remoteHead''))))
     \<and> (get rec ''kind'' \<noteq> Some (JStr ''remote-branch'')
        \<or> get rec ''managedWorktree'' = Some (JBool True) \<and> get rec ''remote'' \<noteq> Some (JStr [])))"

definition validWorkspaceKind :: "json \<Rightarrow> bool" where
  "validWorkspaceKind rec =
    (let kind = get rec ''kind'' in
     if \<not> truthy kind \<or> kind = Some (JStr ''worktree'') then hash_field (get rec ''baseHead'')
     else
       let common = kind \<in> Some ` JStr ` set [''attached'', ''existing-branch'', ''remote-branch''] \<and> is_str (get rec ''branch'')
             \<and> is_str (get rec ''baseRef'') \<and> hash_or_null (get rec ''baseHead'') \<and> hash_or_null (get rec ''observedHead'')
       in if \<not> common \<or> kind = Some (JStr ''attached'') then common else valid_binding rec)"

text \<open>\<^verbatim>\<open>/^ws_[a-f0-9]{16}$/\<close>.\<close>

definition workspace_id :: "string \<Rightarrow> bool" where
  "workspace_id s = (startsWith s ''ws_'' \<and> hex_exact 16 (drop 3 s))"

definition valid_entry :: "string \<times> json \<Rightarrow> bool result" where
  "valid_entry kv =
    (case kv of (key, rec) \<Rightarrow>
     andE (Inr (get rec ''id'' = Some (JStr key) \<and> workspace_id key \<and> get rec ''version'' = Some (JNum 1)))
     (andE (absolute_field rec ''repositoryPath'')
     (andE (absolute_field rec ''worktreePath'')
     (Inr (hex_exact 64 (string_or_empty (get rec ''repositoryIdentity'')) \<and> is_arr (get rec ''scope'')
       \<and> is_arr (get rec ''processIds'') \<and> validWorkspaceKind rec)))))"

definition validIndex :: "json \<Rightarrow> bool result" where
  "validIndex v =
    (if get v ''version'' \<noteq> Some (JNum 1) then Inr False
     else case get v ''workspaces'' of
       Some (JObj kvs) \<Rightarrow> everyE valid_entry kvs
     | _ \<Rightarrow> Inr False)"

section \<open>Reading and writing the index\<close>

definition recoverEntry :: "'r hx \<Rightarrow> dirent \<Rightarrow> ('r, (string \<times> git_state) list) hact" where
  "recoverEntry x entry =
    (if \<not> de_directory entry \<or> de_symlink entry then ret []
     else let p = path_join (hx_worktreeRoot x) (de_name entry) in
       handle (andThen (inspectGit x p) (\<lambda>st. ret [(p, st)])) (\<lambda>_. ret []))"

fun recoverEntries :: "'r hx \<Rightarrow> dirent list \<Rightarrow> ('r, (string \<times> git_state) list) hact" where
  "recoverEntries x [] = ret []"
| "recoverEntries x (e # es) =
    andThen (recoverEntry x e) (\<lambda>a. andThen (recoverEntries x es) (\<lambda>b. ret (a @ b)))"

definition recoverCandidates :: "'r hx \<Rightarrow> ('r, (string \<times> git_state) list) hact" where
  "recoverCandidates x =
    andThen (peek (\<lambda>r. Inr (if hx_exists x r (hx_worktreeRoot x) then hx_readdir x r (hx_worktreeRoot x) else []))) (\<lambda>entries.
    recoverEntries x entries)"

definition empty_index :: json where
  "empty_index = JObj [(''version'', JNum 1), (''workspaces'', JObj [])]"

definition readIndex :: "'r hx \<Rightarrow> ('r, json) hact" where
  "readIndex x =
    andThen (look (\<lambda>s. Inr (ho_file s))) (\<lambda>file.
    case file of
      None \<Rightarrow>
        andThen (recoverCandidates x) (\<lambda>found.
        andThen (guard (found = [])
          ''workspace index is missing while recoverable work exists; use workspace_recover for read-only candidates'') (\<lambda>_.
        ret empty_index))
    | Some None \<Rightarrow>
        fail (''workspace index is corrupt; preserved at '' @ hx_stateFile x @ ''; use workspace_recover for read-only candidates'')
    | Some (Some v) \<Rightarrow>
        andThen (look (\<lambda>_. validIndex v)) (\<lambda>ok.
        andThen (guard ok
          (''workspace index is invalid; preserved at '' @ hx_stateFile x @ ''; use workspace_recover for read-only candidates'')) (\<lambda>_.
        ret v)))"

definition workspaces_of :: "json \<Rightarrow> (string \<times> json) list" where
  "workspaces_of v = (case get v ''workspaces'' of Some (JObj kvs) \<Rightarrow> kvs | _ \<Rightarrow> [])"

definition put_record :: "string \<Rightarrow> json \<Rightarrow> json \<Rightarrow> json" where
  "put_record key rec v =
    put_field ''workspaces'' (put_field key rec (JObj (workspaces_of v))) v"

definition writeIndex :: "json \<Rightarrow> ('r, unit) hact" where
  "writeIndex v = store (\<lambda>s. s\<lparr>ho_file := Some (Some v)\<rparr>)"

definition find_record :: "json \<Rightarrow> string \<Rightarrow> json result" where
  "find_record v key =
    (case map_of (workspaces_of v) key of
       Some rec \<Rightarrow> if truthy (Some rec) then Inr rec else throw (''unknown host workspace '' @ key)
     | None \<Rightarrow> throw (''unknown host workspace '' @ key))"

definition listWorkspaces :: "'r hx \<Rightarrow> ('r, json list) hact" where
  "listWorkspaces x = andThen (readIndex x) (\<lambda>v. ret (hx_newest_first x (map snd (workspaces_of v))))"

definition getWorkspace :: "'r hx \<Rightarrow> string \<Rightarrow> ('r, json) hact" where
  "getWorkspace x key = andThen (readIndex x) (\<lambda>v. look (\<lambda>_. find_record v key))"

section \<open>Creating and attaching\<close>

definition realGitCommonDir :: "'r hx \<Rightarrow> string \<Rightarrow> ('r, string) hact" where
  "realGitCommonDir x root =
    andThen (hgit x [''rev-parse'', ''--git-common-dir''] root) (\<lambda>v.
    peek (\<lambda>r. hx_realpath x r (path_resolve (path_resolve (hx_cwd x) root) v)))"

definition identityOf :: "'r hx \<Rightarrow> string \<Rightarrow> ('r, string) hact" where
  "identityOf x root = andThen (realGitCommonDir x root) (\<lambda>p. ret (hx_sha256 x p))"

definition branch_text :: "json option \<Rightarrow> string" where
  "branch_text v = (case v of Some (JStr s) \<Rightarrow> s | _ \<Rightarrow> [])"

text \<open>The repository, the branch name and their checks.\<close>

definition sourceWithBranch :: "'r hx \<Rightarrow> json option \<Rightarrow> json option \<Rightarrow> ('r, string) hact" where
  "sourceWithBranch x repositoryPath branch =
    andThen (peek (realDirectory x repositoryPath ''repositoryPath'')) (\<lambda>source.
    andThen (hgit x [''rev-parse'', ''--git-dir''] source) (\<lambda>_.
    andThen (guard (validBranch branch) ''workspace branch is invalid'') (\<lambda>_.
    andThen (hgit x [''check-ref-format'', ''--branch'', branch_text branch] source) (\<lambda>_.
    ret source))))"

definition newId :: "'r hx \<Rightarrow> ('r, string) hact" where
  "newId x = peek (\<lambda>r. Inr (''ws_'' @ hx_randomHex x r))"

definition makeWorktreeRoot :: "'r hx \<Rightarrow> ('r, unit) hact" where
  "makeWorktreeRoot x = call (\<lambda>s. ((), s\<lparr>ho_repo := hx_mkdir x (hx_worktreeRoot x) (ho_repo s)\<rparr>))"

definition text_entries :: "texts \<Rightarrow> (string \<times> json) list" where
  "text_entries t =
    [(''project'', JStr (tx_project t)), (''objective'', JStr (tx_objective t)), (''scope'', JArr (map JStr (tx_scope t)))]"

definition fresh_entries :: "string \<Rightarrow> (string \<times> json) list" where
  "fresh_entries now =
    [(''pr'', JNull), (''checkpoint'', JNull), (''processIds'', JArr []), (''createdAt'', JStr now), (''updatedAt'', JStr now)]"

definition addRecord :: "json \<Rightarrow> string \<Rightarrow> json \<Rightarrow> ('r, unit) hact" where
  "addRecord index key rec = writeIndex (put_record key rec index)"

definition created_record ::
  "string \<Rightarrow> texts \<Rightarrow> string \<Rightarrow> string \<Rightarrow> string \<Rightarrow> string \<Rightarrow> string \<Rightarrow> string \<Rightarrow> string \<Rightarrow> json" where
  "created_record key t source repositoryIdentity worktreePath branch base baseHead now =
    JObj ([(''id'', JStr key), (''version'', JNum 1), (''kind'', JStr ''worktree'')] @ text_entries t @
      [(''repositoryPath'', JStr source), (''repositoryIdentity'', JStr repositoryIdentity), (''worktreePath'', JStr worktreePath),
       (''branch'', JStr branch), (''baseRef'', JStr base), (''baseHead'', JStr baseHead),
       (''observedHead'', JStr baseHead)] @ fresh_entries now)"

definition attached_record :: "string \<Rightarrow> texts \<Rightarrow> string \<Rightarrow> string \<Rightarrow> string \<Rightarrow> git_state \<Rightarrow> string \<Rightarrow> json" where
  "attached_record key t repositoryPath repositoryIdentity selected st now =
    JObj ([(''id'', JStr key), (''version'', JNum 1), (''kind'', JStr ''attached'')] @ text_entries t @
      [(''repositoryPath'', JStr repositoryPath), (''repositoryIdentity'', JStr repositoryIdentity), (''worktreePath'', JStr selected),
       (''branch'', JStr (gs_branch st)), (''baseRef'', JStr (truthy_str (gs_head st))), (''baseHead'', str_or_null (gs_head st)),
       (''observedHead'', str_or_null (gs_head st))] @ fresh_entries now)"

definition createWorkspace ::
  "'r hx \<Rightarrow> json option \<Rightarrow> json option \<Rightarrow> json option \<Rightarrow> json option \<Rightarrow> json option \<Rightarrow> json \<Rightarrow> ('r, json) hact" where
  "createWorkspace x repositoryPath branch base objective project wscope =
    andThen (sourceWithBranch x repositoryPath branch) (\<lambda>source.
    andThen (look (\<lambda>_. workspace_texts objective project wscope)) (\<lambda>t.
    andThen (look (\<lambda>_. bounded base 200 True)) (\<lambda>normalizedBase.
    andThen (hgit x [''rev-parse'', ''--verify'', normalizedBase @ ''^{commit}''] source) (\<lambda>baseHead.
    andThen (readIndex x) (\<lambda>index.
    andThen (newId x) (\<lambda>key.
    let target = path_join (hx_worktreeRoot x) key in
    andThen (makeWorktreeRoot x) (\<lambda>_.
    andThen (hgit x [''worktree'', ''add'', target, ''-b'', branch_text branch, baseHead] source) (\<lambda>_.
    andThen (peek (\<lambda>r. Inr (hx_now x r))) (\<lambda>now.
    andThen (identityOf x source) (\<lambda>repositoryIdentity.
    andThen (peek (\<lambda>r. hx_realpath x r target)) (\<lambda>worktreePath.
    let rec = created_record key t source repositoryIdentity worktreePath (branch_text branch) normalizedBase baseHead now in
    andThen (addRecord index key rec) (\<lambda>_.
    ret rec))))))))))))"

text \<open>What the attaching operations answer: the record, the state of the tree, the instruction files.\<close>

definition described :: "'r hx \<Rightarrow> json \<Rightarrow> git_state \<Rightarrow> ('r, json) hact" where
  "described x rec st =
    peek (\<lambda>r. Inr (put_fields [(''git'', publicGitState st),
      (''instructionFiles'', instructionFiles x r (string_or_empty (get rec ''worktreePath'')))] rec))"

definition attachWorkspace ::
  "'r hx \<Rightarrow> json option \<Rightarrow> json option \<Rightarrow> json option \<Rightarrow> json \<Rightarrow> ('r, json) hact" where
  "attachWorkspace x directoryPath objective project wscope =
    andThen (peek (realDirectory x directoryPath ''directoryPath'')) (\<lambda>selected.
    andThen (look (\<lambda>_. workspace_texts objective project wscope)) (\<lambda>t.
    andThen (readIndex x) (\<lambda>index.
    andThen (inspectAttachedDirectory x selected) (\<lambda>st.
    let repositoryPath = (if gs_repository st then gs_path st else selected) in
    andThen (if gs_repository st then identityOf x selected else ret (hx_sha256 x selected)) (\<lambda>repositoryIdentity.
    andThen (newId x) (\<lambda>key.
    andThen (peek (\<lambda>r. Inr (hx_now x r))) (\<lambda>now.
    let rec = attached_record key t repositoryPath repositoryIdentity selected st now in
    andThen (addRecord index key rec) (\<lambda>_.
    described x rec st))))))))"

section \<open>Attaching a reviewed branch\<close>

text \<open>\<^verbatim>\<open>/^[A-Za-z0-9][A-Za-z0-9._-]{0,100}$/\<close>.\<close>

definition is_alnum :: "char \<Rightarrow> bool" where
  "is_alnum c = (is_lower c \<or> is_upper c \<or> is_digit c)"

definition remote_name :: "string \<Rightarrow> bool" where
  "remote_name s = (s \<noteq> [] \<and> is_alnum (hd s) \<and> length s \<le> 101 \<and> list_all (\<lambda>c. is_alnum c \<or> c \<in> set ''._-'') (tl s))"

definition first_word :: "string \<Rightarrow> string" where
  "first_word s = takeWhile (\<lambda>c. \<not> is_space c) s"

definition verifyRemoteHead :: "'r hx \<Rightarrow> string \<Rightarrow> string \<Rightarrow> string \<Rightarrow> string \<Rightarrow> ('r, unit) hact" where
  "verifyRemoteHead x root remote branch expectedHead =
    andThen (fixedGit x [''ls-remote'', ''--heads'', ''--exit-code'', remote, ''refs/heads/'' @ branch] root
      ''existing remote branch is unavailable'') (\<lambda>v.
    guard (lower (first_word v) = expectedHead) ''workspace expected-head mismatch for the existing remote branch'')"

definition gitRemoteIdentity :: "'r hx \<Rightarrow> string \<Rightarrow> string \<Rightarrow> ('r, string) hact" where
  "gitRemoteIdentity x root remote =
    andThen (fixedGit x [''remote'', ''get-url'', ''--all'', remote] root ''workspace remote configuration is unavailable'') (\<lambda>fetchUrls.
    andThen (fixedGit x [''remote'', ''get-url'', ''--push'', ''--all'', remote] root ''workspace remote configuration is unavailable'') (\<lambda>pushUrls.
    andThen (guard (fetchUrls \<noteq> [] \<and> pushUrls \<noteq> []) ''workspace remote configuration is unavailable'') (\<lambda>_.
    andThen (guard (nl \<notin> set fetchUrls \<and> nl \<notin> set pushUrls \<and> fetchUrls = pushUrls)
      ''workspace remote fetch and push routing must be one identical destination'') (\<lambda>_.
    ret (hx_sha256 x (''fetch'' @ [nul] @ fetchUrls @ [nul] @ ''push'' @ [nul] @ pushUrls))))))"

record worktree_record =
  wk_path :: string
  wk_head :: string
  wk_branch :: string

definition no_worktree :: worktree_record where
  "no_worktree = \<lparr>wk_path = [], wk_head = [], wk_branch = []\<rparr>"

definition flush_worktree :: "worktree_record \<Rightarrow> worktree_record list" where
  "flush_worktree w = (if wk_path w = [] then [] else [w])"

fun worktree_fields :: "string list \<Rightarrow> worktree_record \<Rightarrow> worktree_record list" where
  "worktree_fields [] w = flush_worktree w"
| "worktree_fields (f # fs) w =
    (if f = [] then flush_worktree w @ worktree_fields fs no_worktree
     else if startsWith f ''worktree '' then worktree_fields fs (w\<lparr>wk_path := drop 9 f\<rparr>)
     else if startsWith f ''HEAD '' then worktree_fields fs (w\<lparr>wk_head := lower (drop 5 f)\<rparr>)
     else if startsWith f ''branch '' then worktree_fields fs (w\<lparr>wk_branch := drop 7 f\<rparr>)
     else worktree_fields fs w)"

definition worktreeRecords :: "'r hx \<Rightarrow> string \<Rightarrow> ('r, worktree_record list) hact" where
  "worktreeRecords x root =
    andThen (hgit x [''worktree'', ''list'', ''--porcelain'', ''-z''] root) (\<lambda>out.
    ret (worktree_fields (split_on nul out) no_worktree))"

record branch_request =
  br_source :: string
  br_branch :: string
  br_expected :: string
  br_remote :: string
  br_identity :: string
  br_remoteIdentity :: string
  br_toplevel :: string

text \<open>A workspace of the same repository, branch, head and remote that is already in the index.\<close>

definition prior_matches :: "branch_request \<Rightarrow> json \<Rightarrow> bool" where
  "prior_matches q rec =
    (get rec ''repositoryIdentity'' = Some (JStr (br_identity q)) \<and> get rec ''requestedBranch'' = Some (JStr (br_branch q))
     \<and> get rec ''expectedHead'' = Some (JStr (br_expected q))
     \<and> (if truthy (get rec ''remote'') then get rec ''remote'' else Some (JStr [])) = Some (JStr (br_remote q)))"

definition resumePrior :: "'r hx \<Rightarrow> branch_request \<Rightarrow> json \<Rightarrow> json \<Rightarrow> ('r, json) hact" where
  "resumePrior x q index prior =
    andThen (guard (\<not> truthy (get prior ''remoteIdentity'') \<or> get prior ''remoteIdentity'' = Some (JStr (br_remoteIdentity q)))
      ''workspace remote identity changed since attachment'') (\<lambda>_.
    let adopt = truthy (get prior ''remote'') \<and> \<not> truthy (get prior ''remoteIdentity'');
        prior' = (if adopt then put_field ''remoteIdentity'' (JStr (br_remoteIdentity q)) prior else prior) in
    andThen (if adopt then addRecord index (string_or_empty (get prior ''id'')) prior' else ret ()) (\<lambda>_.
    andThen (inspectRecord x prior') (\<lambda>st.
    andThen (guard (gs_head st = Some (br_expected q)) ''workspace expected-head mismatch for the previously attached branch'') (\<lambda>_.
    described x prior' st))))"

text \<open>Where the branch is to be worked on: directory, kind and whether the index made it.\<close>

definition fetchExact :: "'r hx \<Rightarrow> branch_request \<Rightarrow> ('r, unit) hact" where
  "fetchExact x q =
    (let want = [''rev-parse'', ''--verify'', br_expected q @ ''^{commit}''] in
     andThen (optionalGit x want (br_source q)) (\<lambda>have_it.
     andThen (if have_it \<noteq> Some (br_expected q)
              then andThen (fixedGit x [''fetch'', ''--no-tags'', ''--no-write-fetch-head'', br_remote q, ''refs/heads/'' @ br_branch q]
                     (br_source q) ''exact remote branch could not be fetched'') (\<lambda>_. ret ())
              else ret ()) (\<lambda>_.
     andThen (optionalGit x want (br_source q)) (\<lambda>now.
     guard (now = Some (br_expected q)) ''verified remote branch head is unavailable locally''))))"

definition placeBranch :: "'r hx \<Rightarrow> branch_request \<Rightarrow> string \<Rightarrow> worktree_record option \<Rightarrow> string option \<Rightarrow> ('r, string \<times> string \<times> bool) hact" where
  "placeBranch x q key checkedOut localHead =
    (case checkedOut of
       Some w \<Rightarrow>
         andThen (peek (realDirectory x (Some (JStr (wk_path w))) ''existing branch worktree'')) (\<lambda>target.
         ret (target, ''existing-branch'', False))
     | None \<Rightarrow>
         let target = path_join (hx_worktreeRoot x) key in
         andThen (makeWorktreeRoot x) (\<lambda>_.
         andThen
           (if truthy_str localHead \<noteq> [] then
              andThen (hgit x [''worktree'', ''add'', target, br_branch q] (br_source q)) (\<lambda>_. ret ''existing-branch'')
            else
              andThen (fetchExact x q) (\<lambda>_.
              andThen (hgit x [''worktree'', ''add'', ''--detach'', target, br_expected q] (br_source q)) (\<lambda>_.
              ret ''remote-branch''))) (\<lambda>kind.
         andThen (peek (\<lambda>r. hx_realpath x r target)) (\<lambda>real.
         ret (real, kind, True)))))"

definition branch_record :: "branch_request \<Rightarrow> texts \<Rightarrow> string \<Rightarrow> string \<times> string \<times> bool \<Rightarrow> git_state \<Rightarrow> string \<Rightarrow> json" where
  "branch_record q t key place st now =
    (case place of (target, kind, managed) \<Rightarrow>
     JObj ([(''id'', JStr key), (''version'', JNum 1), (''kind'', JStr kind), (''managedWorktree'', JBool managed)] @ text_entries t @
      [(''repositoryPath'', JStr (br_toplevel q)), (''repositoryIdentity'', JStr (br_identity q)), (''worktreePath'', JStr target),
       (''branch'', JStr (gs_branch st)), (''requestedBranch'', JStr (br_branch q)), (''remote'', JStr (br_remote q)),
       (''remoteIdentity'', JStr (br_remoteIdentity q)), (''expectedHead'', JStr (br_expected q)),
       (''remoteHead'', if br_remote q \<noteq> [] then JStr (br_expected q) else JNull),
       (''baseRef'', JStr (if br_remote q \<noteq> [] then ''refs/remotes/'' @ br_remote q @ ''/'' @ br_branch q else ''refs/heads/'' @ br_branch q)),
       (''baseHead'', JStr (br_expected q)), (''observedHead'', JStr (br_expected q))] @ fresh_entries now))"

definition attachFresh :: "'r hx \<Rightarrow> branch_request \<Rightarrow> texts \<Rightarrow> json \<Rightarrow> ('r, json) hact" where
  "attachFresh x q t index =
    andThen (worktreeRecords x (br_source q)) (\<lambda>trees.
    let checkedOut = find (\<lambda>w. wk_branch w = ''refs/heads/'' @ br_branch q) trees in
    andThen (guard (case checkedOut of None \<Rightarrow> True | Some w \<Rightarrow> wk_head w = br_expected q)
      ''workspace expected-head mismatch for the existing branch worktree'') (\<lambda>_.
    andThen (optionalGit x [''rev-parse'', ''--verify'', ''refs/heads/'' @ br_branch q @ ''^{commit}''] (br_source q)) (\<lambda>localHead.
    andThen (guard (truthy_str localHead = [] \<or> truthy_str localHead = br_expected q)
      ''workspace expected-head mismatch for the existing local branch'') (\<lambda>_.
    andThen (guard (checkedOut \<noteq> None \<or> truthy_str localHead \<noteq> [] \<or> br_remote q \<noteq> [])
      ''existing local branch is unavailable; provide a remote name for exact remote verification'') (\<lambda>_.
    andThen (newId x) (\<lambda>key.
    andThen (placeBranch x q key checkedOut localHead) (\<lambda>place.
    andThen (inspectAttachedDirectory x (fst place)) (\<lambda>st.
    andThen (guard (gs_repository st \<and> gs_head st = Some (br_expected q)) ''workspace expected-head mismatch after branch attachment'') (\<lambda>_.
    andThen (peek (\<lambda>r. Inr (hx_now x r))) (\<lambda>now.
    let rec = branch_record q t key place st now in
    andThen (addRecord index key rec) (\<lambda>_.
    described x rec st)))))))))))"

definition attachBranch ::
  "'r hx \<Rightarrow> json option \<Rightarrow> json option \<Rightarrow> json option \<Rightarrow> string \<Rightarrow> json option \<Rightarrow> json option \<Rightarrow> json \<Rightarrow> ('r, json) hact" where
  "attachBranch x repositoryPath branch expectedHead remote objective project wscope =
    andThen (sourceWithBranch x repositoryPath branch) (\<lambda>source.
    let expected = lower (string_or_empty expectedHead) in
    andThen (guard (hex_40_64 expected) ''workspace expectedHead is invalid'') (\<lambda>_.
    andThen (guard (remote = [] \<or> remote_name remote) ''workspace remote name is invalid'') (\<lambda>_.
    andThen (look (\<lambda>_. workspace_texts objective project wscope)) (\<lambda>t.
    andThen (readIndex x) (\<lambda>index.
    andThen (hgit x [''rev-parse'', ''--show-toplevel''] source) (\<lambda>top.
    andThen (peek (\<lambda>r. hx_realpath x r top)) (\<lambda>toplevel.
    andThen (identityOf x source) (\<lambda>repositoryIdentity.
    andThen (if remote \<noteq> [] then gitRemoteIdentity x source remote else ret []) (\<lambda>remoteIdentity.
    andThen (if remote \<noteq> [] then verifyRemoteHead x source remote (branch_text branch) expected else ret ()) (\<lambda>_.
    let q = \<lparr>br_source = source, br_branch = branch_text branch, br_expected = expected, br_remote = remote,
             br_identity = repositoryIdentity, br_remoteIdentity = remoteIdentity, br_toplevel = toplevel\<rparr> in
    case find (prior_matches q) (map snd (workspaces_of index)) of
      Some prior \<Rightarrow> resumePrior x q index prior
    | None \<Rightarrow> attachFresh x q t index))))))))))"

section \<open>Publishing, resuming and checkpoints\<close>

record binding_view =
  bv_id :: string
  bv_kind :: string
  bv_worktreePath :: string
  bv_remote :: string
  bv_branch :: string
  bv_expectedHead :: string
  bv_localHead :: string

definition publishBinding :: "'r hx \<Rightarrow> string \<Rightarrow> ('r, binding_view) hact" where
  "publishBinding x key =
    andThen (getWorkspace x key) (\<lambda>rec.
    let f = (\<lambda>k. string_or_empty (get rec k)); root = f ''worktreePath''; kind = get rec ''kind'' in
    andThen (guard (kind \<in> Some ` JStr ` set [''existing-branch'', ''remote-branch''] \<and> truthy (get rec ''remote'')
        \<and> truthy (get rec ''remoteIdentity'')) ''workspace has no reviewed existing-branch publish binding'') (\<lambda>_.
    andThen (identityOf x root) (\<lambda>own.
    andThen (guard (get rec ''repositoryIdentity'' = Some (JStr own)) ''workspace repository identity changed since attachment'') (\<lambda>_.
    andThen (handle (gitRemoteIdentity x root (f ''remote'')) (\<lambda>_. fail ''workspace remote identity changed since attachment'')) (\<lambda>current.
    andThen (guard (get rec ''remoteIdentity'' = Some (JStr current)) ''workspace remote identity changed since attachment'') (\<lambda>_.
    andThen (inspectGit x root) (\<lambda>st.
    andThen (guard (kind \<noteq> Some (JStr ''existing-branch'') \<or> get rec ''requestedBranch'' = Some (JStr (gs_branch st)))
      ''workspace branch changed since attachment'') (\<lambda>_.
    andThen (guard (kind \<noteq> Some (JStr ''remote-branch'') \<or> gs_branch st = [])
      ''detached workspace acquired a branch and no longer matches its publish binding'') (\<lambda>_.
    ret \<lparr>bv_id = f ''id'', bv_kind = f ''kind'', bv_worktreePath = root, bv_remote = f ''remote'', bv_branch = f ''requestedBranch'',
         bv_expectedHead = f ''expectedHead'', bv_localHead = truthy_str (gs_head st)\<rparr>)))))))))"

definition recordPublishedHead :: "'r hx \<Rightarrow> string \<Rightarrow> json option \<Rightarrow> json option \<Rightarrow> ('r, json) hact" where
  "recordPublishedHead x key expectedHead publishedHead =
    andThen (guard (hash_field expectedHead \<and> hash_field publishedHead) ''published workspace head is invalid'') (\<lambda>_.
    andThen (readIndex x) (\<lambda>index.
    andThen (look (\<lambda>_. case map_of (workspaces_of index) key of
        Some rec \<Rightarrow> if truthy (Some rec) \<and> get rec ''expectedHead'' = expectedHead then Inr rec
                    else throw ''workspace publish baseline changed before readback was recorded''
      | None \<Rightarrow> throw ''workspace publish baseline changed before readback was recorded'')) (\<lambda>rec.
    andThen (publishBinding x key) (\<lambda>binding.
    andThen (guard (publishedHead = Some (JStr (bv_localHead binding))) ''workspace local HEAD moved before publish readback was recorded'') (\<lambda>_.
    andThen (peek (\<lambda>r. Inr (hx_now x r))) (\<lambda>now.
    let head = the publishedHead;
        rec' = put_fields [(''expectedHead'', head), (''remoteHead'', head), (''observedHead'', head), (''updatedAt'', JStr now)] rec in
    andThen (addRecord index key rec') (\<lambda>_.
    ret rec')))))))"

definition resumeWorkspace :: "'r hx \<Rightarrow> string \<Rightarrow> ('r, json) hact" where
  "resumeWorkspace x key =
    andThen (readIndex x) (\<lambda>index.
    andThen (look (\<lambda>_. find_record index key)) (\<lambda>rec.
    andThen (inspectRecord x rec) (\<lambda>st.
    andThen (peek (\<lambda>r. Inr (hx_now x r))) (\<lambda>now.
    let rec' = put_fields [(''observedHead'', str_or_null (gs_head st)), (''updatedAt'', JStr now)] rec in
    andThen (addRecord index key rec') (\<lambda>_.
    described x rec' st)))))"

definition workspaceStatus :: "'r hx \<Rightarrow> string \<Rightarrow> ('r, json) hact" where
  "workspaceStatus x key =
    andThen (getWorkspace x key) (\<lambda>rec. andThen (inspectRecord x rec) (\<lambda>st. described x rec st))"

text \<open>\<^verbatim>\<open>/^p_[A-Za-z0-9_]+$/\<close>.\<close>

definition process_ref :: "json \<Rightarrow> bool" where
  "process_ref v =
    (let s = to_string v in startsWith s ''p_'' \<and> drop 2 s \<noteq> [] \<and> list_all (\<lambda>c. is_alnum c \<or> c = CHR ''_'') (drop 2 s))"

definition pr_ok :: "json option \<Rightarrow> bool" where
  "pr_ok v = (case v of None \<Rightarrow> True | Some JNull \<Rightarrow> True | Some (JNum n) \<Rightarrow> 0 < n | _ \<Rightarrow> False)"

definition process_refs_ok :: "json option \<Rightarrow> bool" where
  "process_refs_ok v = (case v of None \<Rightarrow> True | Some (JArr xs) \<Rightarrow> list_all process_ref xs | _ \<Rightarrow> False)"

definition unique_values :: "json list \<Rightarrow> json list" where
  "unique_values xs = rev (remdups (rev xs))"

definition checkpointWorkspace :: "'r hx \<Rightarrow> string \<Rightarrow> json option \<Rightarrow> json option \<Rightarrow> json option \<Rightarrow> ('r, json) hact" where
  "checkpointWorkspace x key summary pr processIds =
    andThen (readIndex x) (\<lambda>index.
    andThen (look (\<lambda>_. find_record index key)) (\<lambda>rec.
    andThen (guard (pr_ok pr) ''workspace PR must be a positive integer'') (\<lambda>_.
    andThen (guard (process_refs_ok processIds) ''workspace process references are invalid'') (\<lambda>_.
    andThen (inspectRecord x rec) (\<lambda>st.
    andThen (look (\<lambda>_. bounded summary 2000 True)) (\<lambda>text'.
    andThen (peek (\<lambda>r. Inr (hx_now x r))) (\<lambda>now.
    let head = str_or_null (gs_head st);
        refs = (case processIds of Some (JArr xs) \<Rightarrow> [(''processIds'', JArr (unique_values xs))] | _ \<Rightarrow> []);
        rec' = put_fields ([(''observedHead'', head)] @ (case pr of None \<Rightarrow> [] | Some v \<Rightarrow> [(''pr'', v)]) @ refs @
          [(''checkpoint'', JObj [(''summary'', JStr text'), (''at'', JStr now), (''head'', head)]), (''updatedAt'', JStr now)]) rec in
    andThen (addRecord index key rec') (\<lambda>_.
    ret rec'))))))))"

end
