(* ===== verification/HostIndex.thy ===== *)
theory HostIndex
  imports HostWorkspaces
begin

text \<open>
  The index of host workspaces as an invariant: every operation of \<^verbatim>\<open>src/lib/host-workspaces.js\<close>
  writes an index that the next read accepts, the published head only advances from the head that was
  expected, and an attached branch is at the head its caller named.
\<close>

section \<open>Facts about single steps\<close>

lemma runs_peek [run_simps]: "runs (peek f) s v s' \<longleftrightarrow> f (ho_repo s) = Inr v \<and> s' = s"
  by (simp add: peek_def runs_look)

lemma runs_hspawn [run_simps]:
  "runs (hspawn x args cwd) s res s' \<longleftrightarrow>
     (\<exists>r. hx_git x (''--no-pager'' # args) cwd (hx_environ x @ [(''GIT_TERMINAL_PROMPT'', ''0'')]) (ho_repo s) = (res, r)
        \<and> s' = s\<lparr>ho_repo := r\<rparr>)"
  by (auto simp: hspawn_def runs_call split: prod.splits)

lemma runs_hgit [run_simps]:
  "runs (hgit x args cwd) s out s' \<longleftrightarrow>
     (\<exists>res. runs (hspawn x args cwd) s res s' \<and> p_status res = Some 0 \<and> out = trim (p_stdout res))"
  by (auto simp: hgit_def runs_andThen runs_ret runs_fail split: if_splits)

lemma runs_optionalGit [run_simps]:
  "runs (optionalGit x args cwd) s out s' \<longleftrightarrow>
     (\<exists>res. runs (hspawn x args cwd) s res s' \<and> out = (if p_status res = Some 0 then Some (trim (p_stdout res)) else None))"
  by (auto simp: optionalGit_def runs_andThen runs_ret)

text \<open>
  What is documented of the host: a real path is absolute, SHA-256 prints 64 hexadecimal digits, a
  random id 16, and a successful \<^verbatim>\<open>git rev-parse HEAD\<close> or \<^verbatim>\<open>--verify\<close> prints an
  object id.
\<close>

definition sound_host :: "'r hx \<Rightarrow> bool" where
  "sound_host x =
    ((\<forall>r p q. hx_realpath x r p = Inr q \<longrightarrow> is_absolute q) \<and> (\<forall>t. hex_exact 64 (hx_sha256 x t))
     \<and> (\<forall>r. hex_exact 16 (hx_randomHex x r))
     \<and> (\<forall>args cwd env r res r'. args = [''--no-pager'', ''rev-parse'', ''HEAD''] \<or> (\<exists>t. args = [''--no-pager'', ''rev-parse'', ''--verify'', t]) \<longrightarrow>
          hx_git x args cwd env r = (res, r') \<longrightarrow> p_status res = Some 0 \<longrightarrow> hex_40_64 (trim (p_stdout res))))"

lemma sound_hostD:
  assumes "sound_host x"
  shows "hx_realpath x r p = Inr q \<Longrightarrow> is_absolute q" and "hex_exact 64 (hx_sha256 x t)" and "hex_exact 16 (hx_randomHex x r)"
proof -
  have 1: "\<forall>r p q. hx_realpath x r p = Inr q \<longrightarrow> is_absolute q" and 2: "\<forall>t. hex_exact 64 (hx_sha256 x t)"
    and 3: "\<forall>r. hex_exact 16 (hx_randomHex x r)"
    using assms by (simp_all add: sound_host_def)
  show "hx_realpath x r p = Inr q \<Longrightarrow> is_absolute q" using 1 by blast
  show "hex_exact 64 (hx_sha256 x t)" using 2 by blast
  show "hex_exact 16 (hx_randomHex x r)" using 3 by blast
qed

lemma sound_git:
  assumes "sound_host x" "args = [''rev-parse'', ''HEAD''] \<or> args = [''rev-parse'', ''--verify'', v]"
    and "runs (hspawn x args cwd) s res s'" "p_status res = Some 0"
  shows "hex_40_64 (trim (p_stdout res))"
proof -
  obtain r where "hx_git x (''--no-pager'' # args) cwd (hx_environ x @ [(''GIT_TERMINAL_PROMPT'', ''0'')]) (ho_repo s) = (res, r)"
    using assms(3) by (auto simp: runs_hspawn)
  moreover have "''--no-pager'' # args = [''--no-pager'', ''rev-parse'', ''HEAD'']
      \<or> (\<exists>t. ''--no-pager'' # args = [''--no-pager'', ''rev-parse'', ''--verify'', t])"
    using assms(2) by blast
  moreover have "\<forall>args cwd env r res r'. args = [''--no-pager'', ''rev-parse'', ''HEAD''] \<or> (\<exists>t. args = [''--no-pager'', ''rev-parse'', ''--verify'', t]) \<longrightarrow>
          hx_git x args cwd env r = (res, r') \<longrightarrow> p_status res = Some 0 \<longrightarrow> hex_40_64 (trim (p_stdout res))"
    using assms(1) by (simp add: sound_host_def)
  ultimately show ?thesis using assms(4) by blast
qed

lemma sound_head:
  assumes "sound_host x"
  shows "runs (hgit x [''rev-parse'', ''HEAD''] root) s out s' \<Longrightarrow> hex_40_64 out"
    and "runs (hgit x [''rev-parse'', ''--verify'', v] root) s out s' \<Longrightarrow> hex_40_64 out"
    and "runs (optionalGit x [''rev-parse'', ''HEAD''] root) s (Some out) s' \<Longrightarrow> hex_40_64 out"
  using sound_git [OF assms, of "[''rev-parse'', ''HEAD'']"] sound_git [OF assms, of "[''rev-parse'', ''--verify'', v]"]
  by (auto simp: runs_hgit runs_optionalGit split: if_splits)

definition head_ok :: "git_state \<Rightarrow> bool" where
  "head_ok st = ((gs_repository st \<longrightarrow> gs_path st = [] \<or> is_absolute (gs_path st)) \<and> (\<forall>h. gs_head st = Some h \<longrightarrow> hex_40_64 h))"

lemma inspectGit_ok: "sound_host x \<Longrightarrow> runs (inspectGit x root) s st s' \<Longrightarrow> head_ok st"
  unfolding inspectGit_def runs_andThen runs_ret by (auto simp: head_ok_def dest: sound_head(1))

lemma inspectAttached_ok:
  assumes "sound_host x" "runs (inspectAttachedDirectory x root) s st s'"
  shows "head_ok st" and "gs_repository st \<Longrightarrow> is_absolute (gs_path st)"
proof -
  have "head_ok st \<and> (gs_repository st \<longrightarrow> is_absolute (gs_path st))"
    using assms(2) unfolding inspectAttachedDirectory_def inspectRepository_def runs_andThen runs_peek
    by (auto simp: runs_ret runs_andThen runs_peek head_ok_def no_repository_def split: if_splits
        dest: sound_hostD(1) [OF assms(1)] sound_head(3) [OF assms(1)])
  then show "head_ok st" and "gs_repository st \<Longrightarrow> is_absolute (gs_path st)" by auto
qed

lemma inspectRecord_ok: "sound_host x \<Longrightarrow> runs (inspectRecord x rec) s st s' \<Longrightarrow> head_ok st"
  by (auto simp: inspectRecord_def Let_def split: if_splits dest: inspectGit_ok inspectAttached_ok)

lemma head_ok_null: "head_ok st \<Longrightarrow> hash_or_null (Some (str_or_null (gs_head st)))"
  by (cases "gs_head st") (auto simp: head_ok_def hash_or_null_def hash_field_def str_or_null_def truthy_str_def)

lemma realDirectory_abs: "sound_host x \<Longrightarrow> realDirectory x v name r = Inr p \<Longrightarrow> is_absolute p"
  by (auto simp: realDirectory_def result_simps dest: sound_hostD(1))

lemma identity_ok: "sound_host x \<Longrightarrow> runs (identityOf x root) s i s' \<Longrightarrow> hex_exact 64 i"
  by (auto simp: identityOf_def runs_andThen runs_ret dest: sound_hostD(2))

section \<open>Valid records\<close>

lemma everyE_True: "everyE f xs = Inr True \<longleftrightarrow> (\<forall>v \<in> set xs. f v = Inr True)"
  by (induction xs) (auto simp: andE_def bindE_Inr split: if_splits)

lemma andE_True [simp]: "andE a b = Inr True \<longleftrightarrow> a = Inr True \<and> b = Inr True"
  by (auto simp: andE_def bindE_Inr split: if_splits)

lemma absolute_field_True: "absolute_field v k = Inr True \<longleftrightarrow> (\<exists>p. get v k = Some (JStr p) \<and> is_absolute p)"
  by (auto simp: absolute_field_def split: option.splits json.splits)

definition valid_record :: "string \<Rightarrow> json \<Rightarrow> bool" where
  "valid_record key rec = (valid_entry (key, rec) = Inr True)"

lemma valid_record_iff:
  "valid_record key rec \<longleftrightarrow>
    get rec ''id'' = Some (JStr key) \<and> workspace_id key \<and> get rec ''version'' = Some (JNum 1)
    \<and> (\<exists>p. get rec ''repositoryPath'' = Some (JStr p) \<and> is_absolute p)
    \<and> (\<exists>p. get rec ''worktreePath'' = Some (JStr p) \<and> is_absolute p)
    \<and> hex_exact 64 (string_or_empty (get rec ''repositoryIdentity'')) \<and> is_arr (get rec ''scope'')
    \<and> is_arr (get rec ''processIds'') \<and> validWorkspaceKind rec"
  by (auto simp: valid_record_def valid_entry_def absolute_field_True)

lemma validWorkspaceKind_iff:
  "validWorkspaceKind rec \<longleftrightarrow>
    (if \<not> truthy (get rec ''kind'') \<or> get rec ''kind'' = Some (JStr ''worktree'') then hash_field (get rec ''baseHead'')
     else get rec ''kind'' \<in> Some ` JStr ` set [''attached'', ''existing-branch'', ''remote-branch''] \<and> is_str (get rec ''branch'')
       \<and> is_str (get rec ''baseRef'') \<and> hash_or_null (get rec ''baseHead'') \<and> hash_or_null (get rec ''observedHead'')
       \<and> (get rec ''kind'' = Some (JStr ''attached'') \<or> valid_binding rec))"
  unfolding validWorkspaceKind_def Let_def by argo

lemma validIndex_iff:
  "validIndex v = Inr True \<longleftrightarrow> get v ''version'' = Some (JNum 1) \<and> (\<exists>kvs. get v ''workspaces'' = Some (JObj kvs))
     \<and> (\<forall>(key, rec) \<in> set (workspaces_of v). valid_record key rec)"
  by (auto simp: validIndex_def workspaces_of_def everyE_True valid_record_def split: option.splits json.splits)

lemmas put_field_obj [simp] = put_field_is_obj

lemma put_field_entries:
  "set (case put_field key rec (JObj kvs) of JObj ws \<Rightarrow> ws | _ \<Rightarrow> []) \<subseteq> insert (key, rec) (set kvs)"
proof -
  have "set (map (\<lambda>(m, w). if m = key then (key, rec) else (m, w)) kvs) \<subseteq> insert (key, rec) (set kvs)"
    by (induction kvs) auto
  then show ?thesis by (auto simp: put_field_def simp del: set_map)
qed

lemma put_record_valid:
  assumes "validIndex v = Inr True" "valid_record key rec"
  shows "validIndex (put_record key rec v) = Inr True"
proof -
  obtain kvs where k: "get v ''workspaces'' = Some (JObj kvs)" using assms(1) by (auto simp: validIndex_iff)
  have o: "is_obj v" using k by (auto simp: get_def is_obj_def split: json.splits)
  have w: "workspaces_of v = kvs" using k by (simp add: workspaces_of_def)
  obtain ws where ws: "put_field key rec (JObj kvs) = JObj ws" "set ws \<subseteq> insert (key, rec) (set kvs)"
    using put_field_entries [of key rec kvs] by (auto simp: put_field_def)
  have g: "get (put_record key rec v) m = (if m = ''workspaces'' then Some (JObj ws) else get v m)" for m
    by (simp add: put_record_def w ws(1) get_put_field [OF o])
  then have "workspaces_of (put_record key rec v) = ws" by (simp add: workspaces_of_def)
  then show ?thesis using assms w ws(2) g unfolding validIndex_iff by fastforce
qed

section \<open>Every write leaves a valid index\<close>

definition index_ok :: "'r hosts \<Rightarrow> bool" where
  "index_ok s = (case ho_file s of None \<Rightarrow> True | Some None \<Rightarrow> False | Some (Some v) \<Rightarrow> validIndex v = Inr True)"

lemma keeps_peek [hoare_intros]: "keeps index_ok (peek f)"
  by (simp add: peek_def hoare_intros)

lemma keeps_hspawn [hoare_intros]: "keeps index_ok (hspawn x args cwd)"
  by (auto simp: keeps_def hspawn_def call_def index_ok_def split: prod.splits)

lemma keeps_hgit [hoare_intros]: "keeps index_ok (hgit x args cwd)" "keeps index_ok (optionalGit x args cwd)"
    "keeps index_ok (fixedGit x args cwd m)"
  by (auto simp: hgit_def optionalGit_def fixedGit_def intro!: hoare_intros)

lemma keeps_mkdir [hoare_intros]: "keeps index_ok (makeWorktreeRoot x)"
  by (auto simp: keeps_def makeWorktreeRoot_def call_def index_ok_def)

lemma keeps_inspect [hoare_intros]: "keeps index_ok (inspectGit x root)" "keeps index_ok (inspectAttachedDirectory x root)"
    "keeps index_ok (inspectRecord x rec)"
proof -
  show g: "keeps index_ok (inspectGit x root)" for root by (auto simp: inspectGit_def intro!: hoare_intros)
  show a: "keeps index_ok (inspectAttachedDirectory x root)" for root
    by (auto simp: inspectAttachedDirectory_def inspectRepository_def intro!: hoare_intros)
  show "keeps index_ok (inspectRecord x rec)" by (auto simp: inspectRecord_def Let_def intro: g a)
qed

lemma keeps_helpers [hoare_intros]: "keeps index_ok (identityOf x root)" "keeps index_ok (newId x)" "keeps index_ok (described x rec st)"
    "keeps index_ok (sourceWithBranch x repo branch)" "keeps index_ok (verifyRemoteHead x root remote b e)"
    "keeps index_ok (gitRemoteIdentity x root remote)" "keeps index_ok (worktreeRecords x root)" "keeps index_ok (fetchExact x q)"
  by (auto simp: identityOf_def realGitCommonDir_def newId_def described_def sourceWithBranch_def verifyRemoteHead_def
      gitRemoteIdentity_def worktreeRecords_def fetchExact_def Let_def intro!: hoare_intros)

lemma keeps_place [hoare_intros]: "keeps index_ok (placeBranch x q key c h)"
  by (auto simp: placeBranch_def Let_def intro!: hoare_intros split: option.splits)

lemma keeps_recover [hoare_intros]: "keeps index_ok (recoverCandidates x)"
proof -
  have e: "keeps index_ok (recoverEntry x e)" for e by (auto simp: recoverEntry_def Let_def intro!: hoare_intros)
  have "keeps index_ok (recoverEntries x es)" for es by (induction es) (auto intro!: hoare_intros e)
  then show ?thesis by (auto simp: recoverCandidates_def intro!: hoare_intros)
qed

lemma keeps_readIndex [hoare_intros]: "keeps index_ok (readIndex x)"
proof -
  have "keeps index_ok (case f of None \<Rightarrow>
        andThen (recoverCandidates x) (\<lambda>found.
        andThen (guard (found = [])
          ''workspace index is missing while recoverable work exists; use workspace_recover for read-only candidates'') (\<lambda>_.
        ret empty_index))
    | Some None \<Rightarrow> fail m
    | Some (Some v) \<Rightarrow> andThen (look (\<lambda>_. validIndex v)) (\<lambda>ok. andThen (guard ok m') (\<lambda>_. ret v)))" for f m m'
    by (auto intro!: hoare_intros split: option.split)
  then show ?thesis unfolding readIndex_def by (intro keeps_andThen keeps_look)
qed

lemma readIndex_valid:
  "runs (readIndex x) s v s' \<Longrightarrow> validIndex v = Inr True"
  by (auto simp: readIndex_def run_simps validIndex_iff empty_index_def workspaces_of_def split: option.splits)

lemma keeps_write: "validIndex v = Inr True \<Longrightarrow> keeps index_ok (writeIndex v)"
  by (auto simp: keeps_def writeIndex_def store_def index_ok_def)

lemma keeps_addRecord: "validIndex v = Inr True \<Longrightarrow> valid_record key rec \<Longrightarrow> keeps index_ok (addRecord v key rec)"
  by (simp add: addRecord_def keeps_write put_record_valid)

text \<open>The steps of an operation, with what each returned as a fact.\<close>

lemma keeps_bind_run:
  assumes "keeps I m" and "\<And>s y s'. runs m s y s' \<Longrightarrow> keeps I (f y)"
  shows "keeps I (andThen m f)"
  using assms by (intro keeps_bind_fact [where C = "\<lambda>y. \<exists>s s'. runs m s y s'"]) blast+

lemmas host_steps = keeps_bind_run keeps_look keeps_peek keeps_hgit keeps_mkdir keeps_inspect keeps_helpers keeps_place
  keeps_readIndex keeps_if keeps_handle

lemma newId_ok: "sound_host x \<Longrightarrow> runs (newId x) s key s' \<Longrightarrow> workspace_id key"
  by (auto simp: newId_def runs_peek workspace_id_def dest: sound_hostD(3))

lemma created_valid:
  "workspace_id key \<Longrightarrow> is_absolute source \<Longrightarrow> is_absolute wt \<Longrightarrow> hex_exact 64 i \<Longrightarrow> hex_40_64 base \<Longrightarrow>
   valid_record key (created_record key t source i wt b r base now)"
  by (simp add: created_record_def valid_record_iff text_entries_def fresh_entries_def validWorkspaceKind_def is_arr_def hash_field_def)

lemma attached_valid:
  "workspace_id key \<Longrightarrow> is_absolute p \<Longrightarrow> is_absolute wt \<Longrightarrow> hex_exact 64 i \<Longrightarrow> head_ok st \<Longrightarrow>
   valid_record key (attached_record key t p i wt st now)"
  using head_ok_null [of st]
  by (simp add: attached_record_def valid_record_iff text_entries_def fresh_entries_def validWorkspaceKind_def is_arr_def is_str_def)

lemma branch_valid:
  assumes "workspace_id key" "is_absolute (br_toplevel q)" "is_absolute (fst place)" "hex_exact 64 (br_identity q)"
    "hex_40_64 (br_expected q)" "validBranch (Some (JStr (br_branch q)))"
    "br_remoteIdentity q = [] \<or> hex_exact 64 (br_remoteIdentity q)"
    "fst (snd place) = ''existing-branch'' \<or> fst (snd place) = ''remote-branch'' \<and> snd (snd place) \<and> br_remote q \<noteq> []"
  shows "valid_record key (branch_record q t key place st now)"
proof -
  obtain target kind managed where p: "place = (target, kind, managed)" by (cases place)
  have "hash_field (Some (JStr (br_expected q)))" using assms(5) by (simp add: hash_field_def)
  then show ?thesis using assms p
    by (auto simp: branch_record_def valid_record_iff text_entries_def fresh_entries_def validWorkspaceKind_iff is_arr_def is_str_def
        is_bool_def hash_or_null_def valid_binding_def)
qed

lemma sourceWithBranch_abs: "sound_host x \<Longrightarrow> runs (sourceWithBranch x repo branch) s source s' \<Longrightarrow> is_absolute source"
  unfolding sourceWithBranch_def runs_andThen runs_peek runs_ret by (auto dest: realDirectory_abs)

lemma sourceWithBranch_branch: "runs (sourceWithBranch x repo branch) s source s' \<Longrightarrow> validBranch branch"
  unfolding sourceWithBranch_def runs_andThen runs_guard by blast

lemma keeps_create:
  assumes "sound_host x"
  shows "keeps index_ok (createWorkspace x repo branch base objective project wscope)"
  unfolding createWorkspace_def Let_def
  by (intro host_steps keeps_addRecord)
     (auto simp: runs_peek intro!: created_valid
       dest: readIndex_valid newId_ok [OF assms] sourceWithBranch_abs [OF assms] sound_head(2) [OF assms]
         identity_ok [OF assms] sound_hostD(1) [OF assms])

lemma keeps_index_attach:
  assumes "sound_host x"
  shows "keeps index_ok (attachWorkspace x directory objective project wscope)"
  unfolding attachWorkspace_def Let_def
  by (intro host_steps keeps_addRecord)
     (auto simp: runs_peek runs_ret intro!: attached_valid sound_hostD(2) [OF assms] split: if_splits
       dest: readIndex_valid newId_ok [OF assms] realDirectory_abs [OF assms] inspectAttached_ok [OF assms]
         identity_ok [OF assms])

lemma remote_identity_ok: "sound_host x \<Longrightarrow> runs (gitRemoteIdentity x root remote) s i s' \<Longrightarrow> hex_exact 64 i"
  unfolding gitRemoteIdentity_def runs_andThen runs_ret by (auto dest: sound_hostD(2))

lemma place_ok:
  assumes "sound_host x" "runs (placeBranch x q key c h) s place s'" "c \<noteq> None \<or> truthy_str h \<noteq> [] \<or> br_remote q \<noteq> []"
  shows "is_absolute (fst place)
    \<and> (fst (snd place) = ''existing-branch'' \<or> fst (snd place) = ''remote-branch'' \<and> snd (snd place) \<and> br_remote q \<noteq> [])"
  using assms(2,3) unfolding placeBranch_def Let_def
  by (auto simp: runs_andThen runs_peek runs_ret split: option.splits if_splits
      dest: realDirectory_abs [OF assms(1)] sound_hostD(1) [OF assms(1)])

definition request_ok :: "branch_request \<Rightarrow> bool" where
  "request_ok q = (is_absolute (br_toplevel q) \<and> hex_exact 64 (br_identity q) \<and> hex_40_64 (br_expected q)
     \<and> validBranch (Some (JStr (br_branch q))) \<and> (br_remoteIdentity q = [] \<or> hex_exact 64 (br_remoteIdentity q))
     \<and> (br_remote q \<noteq> [] \<longrightarrow> hex_exact 64 (br_remoteIdentity q)))"

lemma keeps_attachFresh:
  assumes "sound_host x" "request_ok q" "validIndex index = Inr True"
  shows "keeps index_ok (attachFresh x q t index)"
  unfolding attachFresh_def Let_def
  by (intro host_steps keeps_addRecord)
     (use assms(2,3) in \<open>auto simp: request_ok_def runs_guard intro!: branch_valid dest: newId_ok [OF assms(1)] place_ok [OF assms(1)]\<close>)

lemma valid_record_obj: "valid_record key rec \<Longrightarrow> is_obj rec"
  by (cases rec) (auto simp: valid_record_iff get_def is_obj_def)

lemma keeps_resumePrior:
  assumes "request_ok q" "validIndex index = Inr True" "prior \<in> snd ` set (workspaces_of index)" "prior_matches q prior"
  shows "keeps index_ok (resumePrior x q index prior)"
proof -
  obtain key where k: "valid_record key prior" using assms(2,3) by (auto simp: validIndex_iff)
  have i: "string_or_empty (get prior ''id'') = key" using k by (simp add: valid_record_iff)
  have "valid_record key (put_field ''remoteIdentity'' (JStr (br_remoteIdentity q)) prior)" if "truthy (get prior ''remote'')"
  proof -
    have "br_remote q \<noteq> []" using that assms(4) by (auto simp: prior_matches_def)
    then have h: "hex_exact 64 (br_remoteIdentity q)" using assms(1) by (simp add: request_ok_def)
    show ?thesis using k h
      by (auto simp: valid_record_iff get_put_field [OF valid_record_obj [OF k]] validWorkspaceKind_iff valid_binding_def Let_def)
  qed
  then show ?thesis unfolding resumePrior_def Let_def i
    by (intro host_steps keeps_addRecord) (use assms(2) in auto)
qed

lemma find_in: "find P xs = Some y \<Longrightarrow> y \<in> set xs \<and> P y"
  by (induction xs) (auto split: if_splits)

lemma keeps_attachBranch:
  assumes "sound_host x"
  shows "keeps index_ok (attachBranch x repo branch expectedHead remote objective project wscope)"
proof -
  have q: "keeps index_ok (case find (prior_matches q) (map snd (workspaces_of index)) of
      Some prior \<Rightarrow> resumePrior x q index prior | None \<Rightarrow> attachFresh x q t index)"
    if "request_ok q" "validIndex index = Inr True" for q index t
  proof (cases "find (prior_matches q) (map snd (workspaces_of index))")
    case None
    then show ?thesis using that keeps_attachFresh [OF assms] by simp
  next
    case (Some prior)
    have "prior \<in> set (map snd (workspaces_of index)) \<and> prior_matches q prior"
      using find_in [OF Some] .
    then show ?thesis using that Some by (simp add: keeps_resumePrior)
  qed
  have b: "validBranch (Some (JStr (branch_text v)))" if "validBranch v" for v
    using that by (cases v; cases "the v") (auto simp: validBranch_def branch_text_def)
  show ?thesis
    unfolding attachBranch_def Let_def
    by (intro host_steps q)
       (auto simp: request_ok_def runs_guard runs_peek runs_ret split: if_splits
         dest: readIndex_valid sourceWithBranch_branch b identity_ok [OF assms] sound_hostD(1) [OF assms] remote_identity_ok [OF assms])
qed

text \<open>The fields an update may set without touching what makes a record valid.\<close>

lemma put_fields_obj: "is_obj v \<Longrightarrow> is_obj (put_fields fs v)"
  by (induction fs arbitrary: v) (auto simp: put_fields_def)

lemma put_fields_Cons: "put_fields ((k, j) # fs) v = put_fields fs (put_field k j v)"
  by (simp add: put_fields_def)

lemma valid_put:
  assumes "valid_record key rec"
    and "k \<in> {''updatedAt'', ''pr'', ''checkpoint''} \<or> k = ''processIds'' \<and> is_arr (Some j)
      \<or> k = ''observedHead'' \<and> hash_or_null (Some j)
      \<or> k = ''expectedHead'' \<and> hash_field (Some j) \<or> k = ''remoteHead'' \<and> (\<exists>h. j = JStr h \<and> hex_40_64 h)"
  shows "valid_record key (put_field k j rec)"
proof -
  note g = get_put_field [OF valid_record_obj [OF assms(1)]]
  have v: "validWorkspaceKind rec" using assms(1) by (simp add: valid_record_iff)
  have "validWorkspaceKind (put_field k j rec)"
  proof -
    have b: "valid_binding rec \<longrightarrow> valid_binding (put_field k j rec)"
      using assms(2) unfolding valid_binding_def
      by (elim disjE insertE emptyE conjE exE) (simp_all add: g)
    have o: "hash_or_null (get rec ''observedHead'') \<longrightarrow> hash_or_null (get (put_field k j rec) ''observedHead'')"
      using assms(2) by (elim disjE insertE emptyE conjE exE) (simp_all add: g)
    have s: "get (put_field k j rec) m = get rec m" if "m \<in> {''kind'', ''baseHead'', ''branch'', ''baseRef''}" for m
      using assms(2) that by (elim disjE insertE emptyE conjE exE) (simp_all add: g)
    show ?thesis
      using v b o s [of "''kind''"] s [of "''baseHead''"] s [of "''branch''"] s [of "''baseRef''"]
      unfolding validWorkspaceKind_iff by (cases "valid_binding rec") (auto split: if_splits)
  qed
  moreover have "''id'' \<noteq> k" "''version'' \<noteq> k" "''repositoryPath'' \<noteq> k" "''worktreePath'' \<noteq> k" "''repositoryIdentity'' \<noteq> k"
      "''scope'' \<noteq> k" "''processIds'' = k \<longrightarrow> is_arr (Some j)"
    using assms(2) by auto
  ultimately show ?thesis using assms(1) unfolding valid_record_iff by (simp add: g)
qed

lemma found_valid: "validIndex v = Inr True \<Longrightarrow> map_of (workspaces_of v) key = Some rec \<Longrightarrow> valid_record key rec"
  by (auto simp: validIndex_iff dest: map_of_SomeD)

lemma find_record_Inr: "find_record v key = Inr rec \<longleftrightarrow> map_of (workspaces_of v) key = Some rec \<and> truthy (Some rec)"
  by (auto simp: find_record_def split: option.splits if_splits)

lemma resumed_valid:
  "valid_record key rec \<Longrightarrow> head_ok st \<Longrightarrow>
   valid_record key (put_fields [(''observedHead'', str_or_null (gs_head st)), (''updatedAt'', JStr now)] rec)"
  by (simp add: put_fields_def valid_put head_ok_null)

lemma put_fields_append: "put_fields (a @ b) v = put_fields b (put_fields a v)"
  by (simp add: put_fields_def)

lemma put_fields_single: "put_fields [(k, j)] v = put_field k j v" "put_fields [] v = v"
  by (simp_all add: put_fields_def)

lemma checked_valid:
  assumes "valid_record key rec" "head_ok st"
  shows "valid_record key (put_fields ([(''observedHead'', str_or_null (gs_head st))] @ (case pr of None \<Rightarrow> [] | Some v \<Rightarrow> [(''pr'', v)]) @
      (case processIds of Some (JArr xs) \<Rightarrow> [(''processIds'', JArr (unique_values xs))] | _ \<Rightarrow> []) @
      [(''checkpoint'', c), (''updatedAt'', u)]) rec)"
proof -
  have 1: "valid_record key (put_fields [(''observedHead'', str_or_null (gs_head st))] rec)"
    using assms by (simp add: put_fields_single valid_put head_ok_null)
  have 2: "valid_record key (put_fields (case pr of None \<Rightarrow> [] | Some v \<Rightarrow> [(''pr'', v)]) r)" if "valid_record key r" for r
    using that by (cases pr) (simp_all add: put_fields_single valid_put)
  have 3: "valid_record key (put_fields (case processIds of Some (JArr xs) \<Rightarrow> [(''processIds'', JArr (unique_values xs))] | _ \<Rightarrow> []) r)"
    if "valid_record key r" for r
    using that by (simp add: put_fields_single valid_put is_arr_def split: option.split json.split)
  have 4: "valid_record key (put_fields [(''checkpoint'', c), (''updatedAt'', u)] r)" if "valid_record key r" for r
    using that by (simp add: put_fields_def valid_put)
  show ?thesis unfolding put_fields_append by (intro 1 2 3 4)
qed

lemma published_valid:
  "valid_record key rec \<Longrightarrow> hex_40_64 h \<Longrightarrow>
   valid_record key (put_fields [(''expectedHead'', JStr h), (''remoteHead'', JStr h), (''observedHead'', JStr h), (''updatedAt'', JStr now)] rec)"
  by (simp add: put_fields_def valid_put hash_or_null_def hash_field_def)

lemma keeps_resume:
  assumes "sound_host x"
  shows "keeps index_ok (resumeWorkspace x key)"
  unfolding resumeWorkspace_def Let_def
  by (intro host_steps keeps_addRecord resumed_valid)
     (auto simp: runs_look find_record_Inr dest: readIndex_valid found_valid inspectRecord_ok [OF assms])

lemma keeps_checkpoint:
  assumes "sound_host x"
  shows "keeps index_ok (checkpointWorkspace x key summary pr processIds)"
  unfolding checkpointWorkspace_def Let_def
  by (intro host_steps keeps_addRecord checked_valid)
     (auto simp: runs_look find_record_Inr dest: readIndex_valid found_valid inspectRecord_ok [OF assms])

lemma keeps_get [hoare_intros]: "keeps index_ok (getWorkspace x key)"
  by (auto simp: getWorkspace_def intro!: hoare_intros)

lemma keeps_binding [hoare_intros]: "keeps index_ok (publishBinding x key)"
  by (auto simp: publishBinding_def Let_def intro!: hoare_intros)

lemma binding_head:
  assumes "sound_host x" "runs (publishBinding x key) s b s'"
  shows "hex_40_64 (bv_localHead b)"
proof -
  obtain root s1 st s2 where "runs (inspectGit x root) s1 st s2" "bv_localHead b = truthy_str (gs_head st)"
    using assms(2) unfolding publishBinding_def Let_def runs_andThen runs_ret by auto
  moreover have "\<exists>h. gs_head st = Some h" using calculation(1) unfolding inspectGit_def runs_andThen runs_ret by auto
  ultimately show ?thesis using inspectGit_ok [OF assms(1)] by (auto simp: head_ok_def truthy_str_def)
qed

lemma keeps_published:
  assumes "sound_host x"
  shows "keeps index_ok (recordPublishedHead x key expected published)"
proof -
  have p: "keeps index_ok (addRecord v key (put_fields [(''expectedHead'', the published), (''remoteHead'', the published),
      (''observedHead'', the published), (''updatedAt'', JStr now)] rec))"
    if "validIndex v = Inr True" "valid_record key rec" "published = Some (JStr (bv_localHead b))" "hex_40_64 (bv_localHead b)"
    for v rec b now
    using that by (simp add: keeps_addRecord published_valid)
  show ?thesis
    unfolding recordPublishedHead_def Let_def
    by (intro host_steps keeps_binding p)
       (auto simp: runs_look runs_guard split: option.splits if_splits dest: readIndex_valid found_valid binding_head [OF assms])
qed

section \<open>Reachable indexes\<close>

datatype host_call =
    Create "json option" "json option" "json option" "json option" "json option" json
  | Attach "json option" "json option" "json option" json
  | AttachBranch "json option" "json option" "json option" string "json option" "json option" json
  | PublishedHead string "json option" "json option"
  | Resume string
  | Checkpoint string "json option" "json option" "json option"
  | Status string
  | Binding string

definition states_of :: "('r, 'a) hact \<Rightarrow> 'r hosts \<Rightarrow> 'r hosts set" where
  "states_of m s = (case m s of (r, s', h) \<Rightarrow> insert s' (set h))"

fun host_call_states :: "'r hx \<Rightarrow> host_call \<Rightarrow> 'r hosts \<Rightarrow> 'r hosts set" where
  "host_call_states x (Create repo branch base objective project wscope) =
    states_of (createWorkspace x repo branch base objective project wscope)"
| "host_call_states x (Attach directory objective project wscope) = states_of (attachWorkspace x directory objective project wscope)"
| "host_call_states x (AttachBranch repo branch expected remote objective project wscope) =
    states_of (attachBranch x repo branch expected remote objective project wscope)"
| "host_call_states x (PublishedHead key expected published) = states_of (recordPublishedHead x key expected published)"
| "host_call_states x (Resume key) = states_of (resumeWorkspace x key)"
| "host_call_states x (Checkpoint key summary pr processIds) = states_of (checkpointWorkspace x key summary pr processIds)"
| "host_call_states x (Status key) = states_of (workspaceStatus x key)"
| "host_call_states x (Binding key) = states_of (publishBinding x key)"

text \<open>The index starts as no file; a call may return, throw or be cut off after any of its writes.\<close>

inductive host_reachable :: "'r hx \<Rightarrow> 'r hosts \<Rightarrow> bool" for x where
  start: "ho_file s = None \<Longrightarrow> host_reachable x s"
| outside: "host_reachable x s \<Longrightarrow> host_reachable x (s\<lparr>ho_repo := r\<rparr>)"
| called: "host_reachable x s \<Longrightarrow> s' \<in> host_call_states x c s \<Longrightarrow> host_reachable x s'"

lemma keeps_states_of:
  assumes "keeps I m" "I s" "t \<in> states_of m s"
  shows "I t"
proof -
  obtain r s' h where m: "m s = (r, s', h)" by (cases "m s")
  with assms(1,2) have "I s'" "list_all I h" by (auto simp: keeps_def)
  then show ?thesis using assms(3) m by (auto simp: states_of_def list_all_iff)
qed

lemma keeps_status [hoare_intros]: "keeps index_ok (workspaceStatus x key)"
  by (auto simp: workspaceStatus_def intro!: hoare_intros)

text \<open>
  C12 (invariant).  On a host that behaves as documented, every index file the program leaves behind -
  after any sequence of calls, after a call that threw, and after a crash between two writes - passes
  the validation of the next read, so the index is never found corrupt by the program's own doing.
\<close>

theorem index_stays_valid:
  assumes "sound_host x" "host_reachable x s"
  shows "ho_file s = None \<or> (\<exists>v. ho_file s = Some (Some v) \<and> validIndex v = Inr True)"
proof -
  from assms(2) have "index_ok s"
  proof (induction rule: host_reachable.induct)
    case (start s)
    then show ?case by (simp add: index_ok_def)
  next
    case (outside s r)
    then show ?case by (simp add: index_ok_def)
  next
    case (called s s' c)
    note ok = keeps_create [OF assms(1)] keeps_index_attach [OF assms(1)] keeps_attachBranch [OF assms(1)] keeps_published [OF assms(1)]
      keeps_resume [OF assms(1)] keeps_checkpoint [OF assms(1)] keeps_status keeps_binding
    note after = ok [THEN keeps_states_of, OF called.IH]
    show ?case using called.hyps(2) by (cases c) (simp_all only: host_call_states.simps after)
  qed
  then show ?thesis by (auto simp: index_ok_def split: option.splits)
qed

section \<open>Advancing the published head\<close>

lemma runs_hgit_file: "runs (hgit x args cwd) s out s' \<Longrightarrow> ho_file s' = ho_file s"
  "runs (optionalGit x args cwd) s o' s' \<Longrightarrow> ho_file s' = ho_file s"
  "runs (fixedGit x args cwd m) s out s' \<Longrightarrow> ho_file s' = ho_file s"
  by (auto simp: run_simps fixedGit_def split: if_splits)

text \<open>Actions that never write the index file.\<close>

definition leaves_file :: "('r, 'a) hact \<Rightarrow> bool" where
  "leaves_file m = (\<forall>f. keeps (\<lambda>s. ho_file s = f) m)"

lemma leaves_fileD: "leaves_file m \<Longrightarrow> runs m s v s' \<Longrightarrow> ho_file s' = ho_file s"
  unfolding leaves_file_def by (rule keeps_runs [where I = "\<lambda>s'. ho_file s' = ho_file s"]) auto

lemma leaves_steps: "leaves_file (look f)" "leaves_file (ret v)" "leaves_file (fail m)" "leaves_file (guard c m)" "leaves_file (peek g)"
    "leaves_file (hspawn x args cwd)"
  by (auto simp: leaves_file_def peek_def hspawn_def keeps_def call_def look_def ret_def fail_def guard_def split: prod.splits)

lemma leaves_andThen: "leaves_file m \<Longrightarrow> (\<And>y. leaves_file (f y)) \<Longrightarrow> leaves_file (andThen m f)"
  by (simp add: leaves_file_def keeps_andThen)

lemma leaves_handle: "leaves_file m \<Longrightarrow> (\<And>e. leaves_file (f e)) \<Longrightarrow> leaves_file (handle m f)"
  by (simp add: leaves_file_def keeps_handle)

lemma leaves_if: "(c \<Longrightarrow> leaves_file m) \<Longrightarrow> (\<not> c \<Longrightarrow> leaves_file n) \<Longrightarrow> leaves_file (if c then m else n)"
  by simp

lemma leaves_git: "leaves_file (hgit x args cwd)" "leaves_file (optionalGit x args cwd)" "leaves_file (fixedGit x args cwd m)"
  by (auto simp: hgit_def optionalGit_def fixedGit_def intro!: leaves_steps leaves_andThen)

lemma leaves_identity: "leaves_file (identityOf x root)" "leaves_file (gitRemoteIdentity x root remote)" "leaves_file (inspectGit x root)"
  by (auto simp: identityOf_def realGitCommonDir_def gitRemoteIdentity_def inspectGit_def intro!: leaves_steps leaves_andThen leaves_git)

lemma leaves_recover: "leaves_file (recoverCandidates x)"
proof -
  have e: "leaves_file (recoverEntry x e)" for e
    by (auto simp: recoverEntry_def Let_def intro!: leaves_steps leaves_andThen leaves_handle leaves_identity)
  have "leaves_file (recoverEntries x es)" for es by (induction es) (auto intro!: leaves_steps leaves_andThen e)
  then show ?thesis by (auto simp: recoverCandidates_def intro!: leaves_steps leaves_andThen)
qed

lemma leaves_readIndex: "leaves_file (readIndex x)"
  unfolding readIndex_def by (intro leaves_andThen leaves_steps) (auto intro!: leaves_steps leaves_andThen leaves_recover split: option.split)

lemma leaves_binding: "leaves_file (publishBinding x key)"
  unfolding publishBinding_def getWorkspace_def Let_def
  by (intro leaves_andThen leaves_steps leaves_readIndex leaves_identity leaves_handle)

lemma readIndex_file:
  "runs (readIndex x) s v s' \<Longrightarrow> map_of (workspaces_of v) key = Some rec \<Longrightarrow> ho_file s = Some (Some v)"
  by (auto simp: readIndex_def run_simps empty_index_def workspaces_of_def split: option.splits)

lemma put_record_other:
  assumes "validIndex v = Inr True" "map_of (workspaces_of v) key = Some old"
  shows "map_of (workspaces_of (put_record key rec v)) = (map_of (workspaces_of v))(key \<mapsto> rec)"
proof -
  obtain kvs where k: "get v ''workspaces'' = Some (JObj kvs)" using assms(1) by (auto simp: validIndex_iff)
  have o: "is_obj v" using k by (auto simp: get_def is_obj_def split: json.splits)
  have w: "workspaces_of v = kvs" using k by (simp add: workspaces_of_def)
  obtain ws where ws: "put_field key rec (JObj kvs) = JObj ws" by (simp add: put_field_def)
  have "workspaces_of (put_record key rec v) = ws"
    by (simp add: put_record_def workspaces_of_def k get_put_field [OF o] ws)
  moreover have "map_of ws m = (if m = key then Some rec else map_of kvs m)" for m
    using get_put_field [of "JObj kvs" key rec m] by (simp add: ws)
  ultimately show ?thesis by (auto simp: w)
qed

text \<open>
  C13 (safety).  A published head is recorded only from the head that was expected: the record then
  expects exactly the local HEAD of its unchanged repository, remote and branch, and no other
  workspace changes.
\<close>

theorem published_head_advances:
  assumes "runs (recordPublishedHead x key expected published) s out s'"
  shows "\<exists>v rec binding h. ho_file s = Some (Some v) \<and> map_of (workspaces_of v) key = Some rec
    \<and> get rec ''expectedHead'' = expected \<and> published = Some (JStr h)
    \<and> (\<exists>s1 s2. runs (publishBinding x key) s1 binding s2) \<and> bv_localHead binding = h
    \<and> get out ''expectedHead'' = published
    \<and> (\<exists>v'. ho_file s' = Some (Some v') \<and> map_of (workspaces_of v') = (map_of (workspaces_of v))(key \<mapsto> out))"
proof -
  obtain v s1 rec b s2 s3 now where r: "runs (readIndex x) s v s1" "map_of (workspaces_of v) key = Some rec"
    "get rec ''expectedHead'' = expected" "runs (publishBinding x key) s2 b s3" "published = Some (JStr (bv_localHead b))"
    and o: "out = put_fields [(''expectedHead'', the published), (''remoteHead'', the published), (''observedHead'', the published),
        (''updatedAt'', JStr now)] rec" "ho_file s' = Some (Some (put_record key out v))"
    using assms unfolding recordPublishedHead_def Let_def
    by (auto simp: runs_andThen runs_guard runs_look runs_peek runs_ret runs_store addRecord_def writeIndex_def split: option.splits if_splits)
  have v: "validIndex v = Inr True" using r(1) by (rule readIndex_valid)
  have g: "is_obj rec" using found_valid [OF v r(2)] by (rule valid_record_obj)
  have "get out ''expectedHead'' = published"
    unfolding o(1) using g r(5) by (simp add: put_fields_def get_put_field)
  then show ?thesis
    using readIndex_file [OF r(1,2)] r o(2) put_record_other [OF v r(2), of out] by blast
qed

section \<open>The head of an attached branch\<close>

definition reported_head :: "json \<Rightarrow> json option" where
  "reported_head out = (case get out ''git'' of Some st \<Rightarrow> get st ''head'' | None \<Rightarrow> None)"

lemma described_head:
  assumes "runs (described x rec st) s out s'" "is_obj rec" "gs_head st = Some h"
  shows "get out ''expectedHead'' = get rec ''expectedHead''" "gs_repository st \<Longrightarrow> reported_head out = Some (JStr h)"
  using assms by (auto simp: described_def runs_peek put_fields_def get_put_field reported_head_def publicGitState_def)

lemma inspectRecord_repository:
  "runs (inspectRecord x rec) s st s' \<Longrightarrow> gs_head st \<noteq> None \<Longrightarrow> gs_repository st"
  unfolding inspectRecord_def inspectGit_def inspectAttachedDirectory_def inspectRepository_def Let_def
  by (auto simp: runs_andThen runs_ret runs_peek no_repository_def split: if_splits)

lemma branch_record_head: "is_obj (branch_record q t key place st now)"
    "get (branch_record q t key place st now) ''expectedHead'' = Some (JStr (br_expected q))"
  by (cases place; simp add: branch_record_def text_entries_def fresh_entries_def)+

lemma attachFresh_head:
  assumes "runs (attachFresh x q t index) s out s'"
  shows "get out ''expectedHead'' = Some (JStr (br_expected q)) \<and> reported_head out = Some (JStr (br_expected q))"
proof -
  obtain key place st now s1 where "runs (described x (branch_record q t key place st now) st) s1 out s'"
    "gs_repository st" "gs_head st = Some (br_expected q)"
    using assms unfolding attachFresh_def Let_def by (auto simp: runs_andThen runs_guard)
  then show ?thesis using described_head branch_record_head by metis
qed

lemma resumePrior_head:
  assumes "runs (resumePrior x q index prior) s out s'" "is_obj prior" "prior_matches q prior"
  shows "get out ''expectedHead'' = Some (JStr (br_expected q)) \<and> reported_head out = Some (JStr (br_expected q))"
proof -
  let ?p = "if truthy (get prior ''remote'') \<and> \<not> truthy (get prior ''remoteIdentity'')
     then put_field ''remoteIdentity'' (JStr (br_remoteIdentity q)) prior else prior"
  obtain st s1 s2 s3 where d: "runs (described x ?p st) s1 out s'" "gs_head st = Some (br_expected q)"
    and i: "runs (inspectRecord x ?p) s2 st s3"
    using assms(1) unfolding resumePrior_def Let_def runs_andThen runs_guard by blast
  have o: "is_obj ?p" "get ?p ''expectedHead'' = Some (JStr (br_expected q))"
    using assms(2,3) by (auto simp: get_put_field prior_matches_def)
  have "gs_repository st" using inspectRecord_repository [OF i] d(2) by simp
  then show ?thesis using described_head [OF d(1) o(1) d(2)] o(2) by simp
qed

text \<open>
  An attached branch is at the head its caller named: the answer expects that head and
  reports it as the HEAD of the working tree, and when a remote was named, the remote's branch was
  at that head, too.  A second attachment of the same branch is held to the same head.
\<close>

theorem attached_branch_at_head:
  assumes "runs (attachBranch x repo branch expectedHead remote objective project wscope) s out s'"
  shows "let expected = lower (string_or_empty expectedHead) in hex_40_64 expected \<and> validBranch branch
    \<and> get out ''expectedHead'' = Some (JStr expected) \<and> reported_head out = Some (JStr expected)
    \<and> (remote = [] \<or> (\<exists>source s1 s2. runs (verifyRemoteHead x source remote (branch_text branch) expected) s1 () s2))"
proof -
  obtain source s0 index si sj toplevel t identity rid where
    b: "runs (sourceWithBranch x repo branch) s source s0" and e: "hex_40_64 (lower (string_or_empty expectedHead))"
    and i: "runs (readIndex x) si index sj"
    and v: "remote = [] \<or> (\<exists>source s1 s2. runs (verifyRemoteHead x source remote (branch_text branch) (lower (string_or_empty expectedHead))) s1 () s2)"
    and o: "\<exists>s1. runs (let q = \<lparr>br_source = source, br_branch = branch_text branch, br_expected = lower (string_or_empty expectedHead), br_remote = remote,
             br_identity = identity, br_remoteIdentity = rid, br_toplevel = toplevel\<rparr> in
      case find (prior_matches q) (map snd (workspaces_of index)) of
        Some prior \<Rightarrow> resumePrior x q index prior | None \<Rightarrow> attachFresh x q t index) s1 out s'"
    using assms unfolding attachBranch_def runs_andThen Let_def [of "lower _"] runs_guard
    by (elim exE conjE) (rule that; (assumption | fastforce split: if_splits))
  define q where "q = \<lparr>br_source = source, br_branch = branch_text branch, br_expected = lower (string_or_empty expectedHead), br_remote = remote,
             br_identity = identity, br_remoteIdentity = rid, br_toplevel = toplevel\<rparr>"
  have x: "br_expected q = lower (string_or_empty expectedHead)" by (simp add: q_def)
  have "get out ''expectedHead'' = Some (JStr (br_expected q)) \<and> reported_head out = Some (JStr (br_expected q))"
  proof (cases "find (prior_matches q) (map snd (workspaces_of index))")
    case None
    then obtain s1 where "runs (attachFresh x q t index) s1 out s'" using o by (auto simp: Let_def q_def)
    then show ?thesis by (rule attachFresh_head)
  next
    case (Some prior)
    have p: "prior \<in> snd ` set (workspaces_of index)" "prior_matches q prior" using find_in [OF Some] by auto
    then have "is_obj prior" using readIndex_valid [OF i] by (auto simp: validIndex_iff dest!: valid_record_obj)
    moreover obtain s1 where "runs (resumePrior x q index prior) s1 out s'" using o Some by (auto simp: Let_def q_def)
    ultimately show ?thesis using resumePrior_head p(2) by fast
  qed
  then show ?thesis using e v sourceWithBranch_branch [OF b] unfolding x by (simp add: Let_def)
qed

end
