(* ===== verification/WorkspaceQueue.thy ===== *)
theory WorkspaceQueue
  imports Prelude
begin

text \<open>
  The order of calls on host workspaces (\<^verbatim>\<open>withHostWorkspace\<close> of
  \<^verbatim>\<open>src/lib/host-workspaces.js\<close>).  A call that mutates waits for the promise that was the tail
  of its worktree when it came, whether that one resolved or failed; a call that only reads runs at
  once.  A state is the map \<open>mutationTails\<close> and the calls so far, in the order they came; a step
  is one turn of the event loop.
\<close>

section \<open>Calls and tails\<close>

datatype phase = Waiting | Running | Settled | Left

record task =
  tk_path :: string
  tk_mutating :: bool
  tk_prior :: "nat option"
  tk_phase :: phase

record queue =
  q_tasks :: "task list"
  q_tails :: "string \<Rightarrow> nat option"

definition empty_queue :: queue where
  "empty_queue = \<lparr>q_tasks = [], q_tails = (\<lambda>_. None)\<rparr>"

definition finished :: "task \<Rightarrow> bool" where
  "finished t = (tk_phase t = Settled \<or> tk_phase t = Left)"

definition set_phase :: "nat \<Rightarrow> phase \<Rightarrow> queue \<Rightarrow> queue" where
  "set_phase n ph q = q\<lparr>q_tasks := (q_tasks q)[n := (q_tasks q ! n)\<lparr>tk_phase := ph\<rparr>]\<rparr>"

text \<open>The call comes: up to its first \<open>await\<close>.\<close>

definition withHostWorkspace :: "string \<Rightarrow> bool \<Rightarrow> queue \<Rightarrow> queue" where
  "withHostWorkspace path mutating q =
    (if \<not> mutating then q\<lparr>q_tasks := q_tasks q @ [\<lparr>tk_path = path, tk_mutating = False, tk_prior = None, tk_phase = Running\<rparr>]\<rparr>
     else \<lparr>q_tasks = q_tasks q @ [\<lparr>tk_path = path, tk_mutating = True, tk_prior = q_tails q path, tk_phase = Waiting\<rparr>],
           q_tails = (q_tails q)(path \<mapsto> List.length (q_tasks q))\<rparr>)"

text \<open>\<open>prior.catch(...).then(run)\<close> fires when the prior promise is settled.\<close>

definition may_run :: "queue \<Rightarrow> nat \<Rightarrow> bool" where
  "may_run q n = (n < List.length (q_tasks q) \<and> tk_phase (q_tasks q ! n) = Waiting
    \<and> (case tk_prior (q_tasks q ! n) of None \<Rightarrow> True | Some u \<Rightarrow> u < List.length (q_tasks q) \<and> finished (q_tasks q ! u)))"

text \<open>The \<open>finally\<close> block: the tail is removed if it is still this call's own.\<close>

definition leaveQueue :: "nat \<Rightarrow> queue \<Rightarrow> queue" where
  "leaveQueue n q = (let q' = set_phase n Left q; path = tk_path (q_tasks q ! n) in
    if tk_mutating (q_tasks q ! n) \<and> q_tails q path = Some n then q'\<lparr>q_tails := (q_tails q)(path := None)\<rparr> else q')"

inductive queue_step :: "queue \<Rightarrow> queue \<Rightarrow> bool" where
  enter: "queue_step q (withHostWorkspace path mutating q)"
| run: "may_run q n \<Longrightarrow> queue_step q (set_phase n Running q)"
| settle: "n < List.length (q_tasks q) \<Longrightarrow> tk_phase (q_tasks q ! n) = Running \<Longrightarrow> queue_step q (set_phase n Settled q)"
| leave: "n < List.length (q_tasks q) \<Longrightarrow> tk_phase (q_tasks q ! n) = Settled \<Longrightarrow> queue_step q (leaveQueue n q)"

inductive queue_reachable :: "queue \<Rightarrow> bool" where
  start: "queue_reachable empty_queue"
| more: "queue_reachable q \<Longrightarrow> queue_step q q' \<Longrightarrow> queue_reachable q'"

inductive_cases queue_stepE: "queue_step q q'"

section \<open>The chain of a worktree\<close>

text \<open>\<open>on q p n\<close>: call \<open>n\<close> mutates worktree \<open>p\<close>.\<close>

definition on :: "queue \<Rightarrow> string \<Rightarrow> nat \<Rightarrow> bool" where
  "on q p n = (n < List.length (q_tasks q) \<and> tk_mutating (q_tasks q ! n) \<and> tk_path (q_tasks q ! n) = p)"

definition done_at :: "queue \<Rightarrow> nat \<Rightarrow> bool" where
  "done_at q n = finished (q_tasks q ! n)"

definition chained :: "queue \<Rightarrow> bool" where
  "chained q = (\<forall>p n. on q p n \<longrightarrow>
    (tk_phase (q_tasks q ! n) \<noteq> Waiting \<longrightarrow> (\<forall>u<n. on q p u \<longrightarrow> done_at q u)) \<and>
    (case tk_prior (q_tasks q ! n) of
       None \<Rightarrow> \<forall>u<n. on q p u \<longrightarrow> done_at q u
     | Some u \<Rightarrow> u < n \<and> on q p u \<and> (\<forall>w. u < w \<longrightarrow> w < n \<longrightarrow> \<not> on q p w)))"

definition tails_last :: "queue \<Rightarrow> bool" where
  "tails_last q = (\<forall>p. case q_tails q p of
       None \<Rightarrow> \<forall>n. on q p n \<longrightarrow> done_at q n
     | Some t \<Rightarrow> on q p t \<and> tk_phase (q_tasks q ! t) \<noteq> Left \<and> (\<forall>w>t. \<not> on q p w))"

lemma chainedD:
  assumes "chained q" "on q p n"
  shows "tk_phase (q_tasks q ! n) \<noteq> Waiting \<Longrightarrow> u < n \<Longrightarrow> on q p u \<Longrightarrow> done_at q u"
    "tk_prior (q_tasks q ! n) = None \<Longrightarrow> u < n \<Longrightarrow> on q p u \<Longrightarrow> done_at q u"
    "tk_prior (q_tasks q ! n) = Some v \<Longrightarrow> v < n \<and> on q p v \<and> (\<forall>w. v < w \<longrightarrow> w < n \<longrightarrow> \<not> on q p w)"
proof -
  have "(tk_phase (q_tasks q ! n) \<noteq> Waiting \<longrightarrow> (\<forall>u<n. on q p u \<longrightarrow> done_at q u)) \<and>
    (case tk_prior (q_tasks q ! n) of None \<Rightarrow> \<forall>u<n. on q p u \<longrightarrow> done_at q u
     | Some u \<Rightarrow> u < n \<and> on q p u \<and> (\<forall>w. u < w \<longrightarrow> w < n \<longrightarrow> \<not> on q p w))"
    using assms unfolding chained_def by blast
  then show "tk_phase (q_tasks q ! n) \<noteq> Waiting \<Longrightarrow> u < n \<Longrightarrow> on q p u \<Longrightarrow> done_at q u"
    "tk_prior (q_tasks q ! n) = None \<Longrightarrow> u < n \<Longrightarrow> on q p u \<Longrightarrow> done_at q u"
    "tk_prior (q_tasks q ! n) = Some v \<Longrightarrow> v < n \<and> on q p v \<and> (\<forall>w. v < w \<longrightarrow> w < n \<longrightarrow> \<not> on q p w)"
    by auto
qed

lemma phase_kept [simp]:
  "List.length (q_tasks (set_phase n ph q)) = List.length (q_tasks q)" "q_tails (set_phase n ph q) = q_tails q"
  "n < List.length (q_tasks q) \<Longrightarrow> on (set_phase n ph q) p u = on q p u"
  "n < List.length (q_tasks q) \<Longrightarrow> tk_prior (q_tasks (set_phase n ph q) ! u) = tk_prior (q_tasks q ! u)"
  "n < List.length (q_tasks q) \<Longrightarrow> tk_phase (q_tasks (set_phase n ph q) ! u) = (if u = n then ph else tk_phase (q_tasks q ! u))"
  by (auto simp: set_phase_def on_def nth_list_update)

lemma done_at_phase: "done_at q n \<longleftrightarrow> tk_phase (q_tasks q ! n) = Settled \<or> tk_phase (q_tasks q ! n) = Left"
  by (simp add: done_at_def finished_def)

text \<open>What comes before a call that may run is done.\<close>

lemma before_runnable:
  assumes "chained q" "on q p n" "may_run q n" "u < n" "on q p u"
  shows "done_at q u"
proof (cases "tk_prior (q_tasks q ! n)")
  case None
  then show ?thesis using chainedD(2) [OF assms(1,2)] assms(4,5) by blast
next
  case (Some v)
  note v = chainedD(3) [OF assms(1,2) Some]
  have d: "done_at q v" using assms(3) Some by (auto simp: may_run_def done_at_def)
  consider "u = v" | "u < v" using v assms(4,5) by (metis linorder_neqE_nat)
  then show ?thesis
  proof cases
    case 1 then show ?thesis using d by simp
  next
    case 2
    have "tk_phase (q_tasks q ! v) \<noteq> Waiting" using d by (auto simp: done_at_phase)
    then show ?thesis using chainedD(1) [OF assms(1)] v 2 assms(5) by blast
  qed
qed

text \<open>A phase only grows.\<close>

lemma chained_phase:
  assumes "chained q" "n < List.length (q_tasks q)" "\<not> done_at q n \<or> ph = Left"
    and "ph = Settled \<or> ph = Left \<or> ph = Running"
    and "\<And>p u. on q p n \<Longrightarrow> u < n \<Longrightarrow> on q p u \<Longrightarrow> done_at q u"
  shows "chained (set_phase n ph q)"
  unfolding chained_def
proof (intro allI impI)
  fix p m assume m: "on (set_phase n ph q) p m"
  have more: "done_at (set_phase n ph q) u" if "done_at q u" for u
    using that assms(2,3) by (cases "u = n") (auto simp: done_at_phase)
  have o: "on q p m" using m assms(2) by simp
  have c: "(tk_phase (q_tasks q ! m) \<noteq> Waiting \<longrightarrow> (\<forall>u<m. on q p u \<longrightarrow> done_at q u)) \<and>
    (case tk_prior (q_tasks q ! m) of None \<Rightarrow> \<forall>u<m. on q p u \<longrightarrow> done_at q u
     | Some u \<Rightarrow> u < m \<and> on q p u \<and> (\<forall>w. u < w \<longrightarrow> w < m \<longrightarrow> \<not> on q p w))"
    using assms(1) o unfolding chained_def by blast
  show "(tk_phase (q_tasks (set_phase n ph q) ! m) \<noteq> Waiting \<longrightarrow> (\<forall>u<m. on (set_phase n ph q) p u \<longrightarrow> done_at (set_phase n ph q) u)) \<and>
    (case tk_prior (q_tasks (set_phase n ph q) ! m) of None \<Rightarrow> \<forall>u<m. on (set_phase n ph q) p u \<longrightarrow> done_at (set_phase n ph q) u
     | Some u \<Rightarrow> u < m \<and> on (set_phase n ph q) p u \<and> (\<forall>w. u < w \<longrightarrow> w < m \<longrightarrow> \<not> on (set_phase n ph q) p w))"
    using c o more assms(2,5) by (cases "m = n") (auto split: option.splits)
qed

lemma tails_phase:
  assumes "tails_last q" "n < List.length (q_tasks q)" "\<not> done_at q n" "ph = Settled \<or> ph = Running"
  shows "tails_last (set_phase n ph q)"
  unfolding tails_last_def
proof
  fix p
  have "case q_tails q p of None \<Rightarrow> \<forall>n. on q p n \<longrightarrow> done_at q n
     | Some t \<Rightarrow> on q p t \<and> tk_phase (q_tasks q ! t) \<noteq> Left \<and> (\<forall>w>t. \<not> on q p w)"
    using assms(1) by (simp add: tails_last_def)
  then show "case q_tails (set_phase n ph q) p of None \<Rightarrow> \<forall>m. on (set_phase n ph q) p m \<longrightarrow> done_at (set_phase n ph q) m
     | Some t \<Rightarrow> on (set_phase n ph q) p t \<and> tk_phase (q_tasks (set_phase n ph q) ! t) \<noteq> Left \<and> (\<forall>w>t. \<not> on (set_phase n ph q) p w)"
    using assms(2-4) by (auto simp: done_at_phase split: option.splits)
qed


lemma chained_tasks: "q_tasks q = q_tasks q' \<Longrightarrow> chained q = chained q'"
  by (simp add: chained_def on_def done_at_def cong: option.case_cong)

lemma leave_invariant:
  assumes "chained q" "tails_last q" "n < List.length (q_tasks q)" "tk_phase (q_tasks q ! n) = Settled"
  shows "chained (leaveQueue n q)" "tails_last (leaveQueue n q)"
proof -
  have c: "chained (set_phase n Left q)"
    using assms(1,3) by (rule chained_phase) (use assms(4) chainedD(1) [OF assms(1)] in auto)
  moreover have "q_tasks (leaveQueue n q) = q_tasks (set_phase n Left q)" by (simp add: leaveQueue_def Let_def)
  ultimately show "chained (leaveQueue n q)" using chained_tasks by blast
  show "tails_last (leaveQueue n q)"
    unfolding tails_last_def
  proof
    fix p
    let ?q = "leaveQueue n q"
    have t: "case q_tails q p of None \<Rightarrow> \<forall>n. on q p n \<longrightarrow> done_at q n
      | Some t \<Rightarrow> on q p t \<and> tk_phase (q_tasks q ! t) \<noteq> Left \<and> (\<forall>w>t. \<not> on q p w)"
      using assms(2) by (simp add: tails_last_def)
    have tasks: "q_tasks ?q = q_tasks (set_phase n Left q)" by (simp add: leaveQueue_def Let_def)
    have on': "on ?q p u = on q p u" for u
      using phase_kept(3) [OF assms(3), of Left p u] by (simp add: on_def tasks)
    have done': "done_at ?q u = done_at q u" for u
      using assms(3,4) by (cases "u = n") (auto simp: done_at_phase tasks)
    show "case q_tails ?q p of None \<Rightarrow> \<forall>n. on ?q p n \<longrightarrow> done_at ?q n
      | Some t \<Rightarrow> on ?q p t \<and> tk_phase (q_tasks ?q ! t) \<noteq> Left \<and> (\<forall>w>t. \<not> on ?q p w)"
    proof (cases "q_tails q p = Some n")
      case True
      then have o: "on q p n" "\<forall>w>n. \<not> on q p w" using t by auto
      have "q_tails ?q p = None" using True o by (auto simp: leaveQueue_def on_def)
      moreover have "done_at q u" if "on q p u" for u
        using that o chainedD(1) [OF assms(1) o(1), of u] assms(4) by (cases u n rule: linorder_cases) (auto simp: done_at_phase)
      ultimately show ?thesis by (simp add: on' done')
    next
      case False
      have "q_tails ?q p = q_tails q p" using False by (auto simp: leaveQueue_def Let_def)
      then show ?thesis using t False assms(3) by (auto simp: on' done' tasks split: option.splits)
    qed
  qed
qed

lemma enter_invariant:
  assumes "chained q" "tails_last q"
  shows "chained (withHostWorkspace path mutating q) \<and> tails_last (withHostWorkspace path mutating q)"
proof -
  let ?n = "List.length (q_tasks q)"
  define q' where "q' = withHostWorkspace path mutating q"
  have len: "List.length (q_tasks q') = Suc ?n" by (simp add: q'_def withHostWorkspace_def)
  have old: "q_tasks q' ! u = q_tasks q ! u" if "u < ?n" for u
    using that by (simp add: q'_def withHostWorkspace_def nth_append)
  have fresh: "tk_path (q_tasks q' ! ?n) = path" "tk_mutating (q_tasks q' ! ?n) = mutating"
    "mutating \<Longrightarrow> tk_phase (q_tasks q' ! ?n) = Waiting" "mutating \<Longrightarrow> tk_prior (q_tasks q' ! ?n) = q_tails q path"
    by (auto simp: q'_def withHostWorkspace_def)
  have on': "on q' p u \<longleftrightarrow> on q p u \<or> u = ?n \<and> mutating \<and> p = path" for p u
    using fresh old by (cases "u = ?n") (auto simp: on_def len less_Suc_eq)
  have bound: "on q p u \<Longrightarrow> u < ?n" for p u by (simp add: on_def)
  have done': "u < ?n \<Longrightarrow> done_at q' u = done_at q u" for u by (simp add: done_at_def old)
  have t: "case q_tails q p of None \<Rightarrow> \<forall>n. on q p n \<longrightarrow> done_at q n
      | Some t \<Rightarrow> on q p t \<and> tk_phase (q_tasks q ! t) \<noteq> Left \<and> (\<forall>w>t. \<not> on q p w)" for p
    using assms(2) by (simp add: tails_last_def)
  have "chained q'"
    unfolding chained_def
  proof (intro allI impI)
    fix p m assume m: "on q' p m"
    show "(tk_phase (q_tasks q' ! m) \<noteq> Waiting \<longrightarrow> (\<forall>u<m. on q' p u \<longrightarrow> done_at q' u)) \<and>
      (case tk_prior (q_tasks q' ! m) of None \<Rightarrow> \<forall>u<m. on q' p u \<longrightarrow> done_at q' u
       | Some u \<Rightarrow> u < m \<and> on q' p u \<and> (\<forall>w. u < w \<longrightarrow> w < m \<longrightarrow> \<not> on q' p w))"
    proof (cases "m = ?n")
      case True
      then have mu: "mutating" "p = path" using m bound on' by auto
      show ?thesis
        using t [of path] bound fresh mu True by (auto simp: on' done' split: option.splits)
    next
      case False
      then have o: "on q p m" "m < ?n" using m bound on' by auto
      show ?thesis
        using chainedD [OF assms(1) o(1)] o(2) by (auto simp: old on' done' split: option.splits)
    qed
  qed
  moreover have "tails_last q'"
    unfolding tails_last_def
  proof
    fix p
    show "case q_tails q' p of None \<Rightarrow> \<forall>n. on q' p n \<longrightarrow> done_at q' n
      | Some t \<Rightarrow> on q' p t \<and> tk_phase (q_tasks q' ! t) \<noteq> Left \<and> (\<forall>w>t. \<not> on q' p w)"
    proof (cases "mutating \<and> p = path")
      case True
      then have "q_tails q' p = Some ?n" by (simp add: q'_def withHostWorkspace_def)
      then show ?thesis using True fresh by (auto simp: on' dest: bound)
    next
      case False
      then have "q_tails q' p = q_tails q p" by (auto simp: q'_def withHostWorkspace_def)
      then show ?thesis using t [of p] False bound by (auto simp: on' done' old split: option.splits)
    qed
  qed
  ultimately show ?thesis by (simp add: q'_def)
qed

lemma queue_invariant: "queue_reachable q \<Longrightarrow> chained q \<and> tails_last q"
proof (induction rule: queue_reachable.induct)
  case start
  then show ?case by (simp add: chained_def tails_last_def on_def empty_queue_def)
next
  case (more q q')
  then have inv: "chained q" "tails_last q" by auto
  from more(2) show ?case
  proof (cases rule: queue_step.cases)
    case (enter path mutating)
    then show ?thesis using enter_invariant [OF inv] by simp
  next
    case (run n)
    then have n: "n < List.length (q_tasks q)" "\<not> done_at q n" by (auto simp: may_run_def done_at_phase)
    show ?thesis unfolding run(1)
      using chained_phase [OF inv(1) n(1), of Running] tails_phase [OF inv(2) n, of Running] n(2) before_runnable [OF inv(1) _ run(2)]
      by blast
  next
    case (settle n)
    then have d: "\<not> done_at q n" by (auto simp: done_at_phase)
    show ?thesis unfolding settle(1)
      using chained_phase [OF inv(1) settle(2), of Settled] tails_phase [OF inv(2) settle(2) d, of Settled] d chainedD(1) [OF inv(1)] settle(3)
      by auto
  next
    case (leave n)
    then show ?thesis using leave_invariant [OF inv] by simp
  qed
qed

section \<open>Exclusion, order, progress\<close>

text \<open>
  C14 (safety).  Over every interleaving of calls on host workspaces, the mutating calls of one
  worktree run one at a time and in the order they came: when one is running, every earlier one has
  settled and no later one has begun.
\<close>

theorem mutations_exclusive_in_order:
  assumes "queue_reachable q" "on q p n" "on q p m" "tk_phase (q_tasks q ! n) = Running"
  shows "if m < n then finished (q_tasks q ! m) else m = n \<or> tk_phase (q_tasks q ! m) = Waiting"
proof -
  have c: "chained q" using queue_invariant [OF assms(1)] ..
  have "m < n \<Longrightarrow> done_at q m" using chainedD(1) [OF c assms(2) _ _ assms(3)] assms(4) by simp
  moreover have "n < m \<Longrightarrow> tk_phase (q_tasks q ! m) = Waiting"
    using chainedD(1) [OF c assms(3) _ _ assms(2)] assms(4) by (cases "tk_phase (q_tasks q ! m)") (auto simp: done_at_def finished_def)
  ultimately show ?thesis by (cases m n rule: linorder_cases) (auto simp: done_at_def)
qed

text \<open>
  C15 (liveness).  A mutating call that waits is never stuck: some call of its worktree that did not
  come later is running or may run now.  When every call of a worktree has left, its tail is gone.
\<close>

theorem waiting_mutation_progresses:
  assumes "queue_reachable q" "on q p n"
  shows "(tk_phase (q_tasks q ! n) = Waiting \<longrightarrow> (\<exists>m\<le>n. on q p m \<and> (tk_phase (q_tasks q ! m) = Running \<or> may_run q m)))
    \<and> ((\<forall>m. on q p m \<longrightarrow> tk_phase (q_tasks q ! m) = Left) \<longrightarrow> q_tails q p = None)"
proof -
  have inv: "chained q" "tails_last q" using queue_invariant [OF assms(1)] by auto
  have first: "\<exists>m\<le>n. on q p m \<and> (tk_phase (q_tasks q ! m) = Running \<or> may_run q m)"
    if "on q p n" "tk_phase (q_tasks q ! n) = Waiting" for n
    using that
  proof (induction n rule: less_induct)
    case (less n)
    show ?case
    proof (cases "may_run q n")
      case False
      then obtain v where v: "tk_prior (q_tasks q ! n) = Some v" "\<not> (v < List.length (q_tasks q) \<and> finished (q_tasks q ! v))"
        using less(2,3) by (auto simp: may_run_def on_def split: option.splits)
      note c = chainedD(3) [OF inv(1) less(2) v(1)]
      have "tk_phase (q_tasks q ! v) = Waiting \<or> tk_phase (q_tasks q ! v) = Running"
        using v(2) c by (cases "tk_phase (q_tasks q ! v)") (auto simp: on_def finished_def)
      then show ?thesis using less(1) [of v] c by (meson less_imp_le_nat order_trans)
    qed (use less in auto)
  qed
  have gone: "q_tails q p = None" if "\<forall>m. on q p m \<longrightarrow> tk_phase (q_tasks q ! m) = Left"
  proof (cases "q_tails q p")
    case (Some t)
    then have "on q p t \<and> tk_phase (q_tasks q ! t) \<noteq> Left" using inv(2) unfolding tails_last_def by (auto dest!: spec [of _ p])
    then show ?thesis using that by blast
  qed
  show ?thesis using first [OF assms(2)] gone by blast
qed

text \<open>Two calls on one worktree: the second waits, and runs when the first has settled.\<close>

definition two_calls :: queue where
  "two_calls = set_phase 0 Running (withHostWorkspace ''/w'' True (withHostWorkspace ''/w'' True empty_queue))"

lemma two_calls_reachable: "queue_reachable two_calls"
  unfolding two_calls_def
  by (intro queue_reachable.more [OF _ queue_step.run] queue_reachable.more [OF _ queue_step.enter] queue_reachable.start)
    (simp add: may_run_def withHostWorkspace_def empty_queue_def)

lemma two_calls_on: "on two_calls ''/w'' 0" "on two_calls ''/w'' 1" "tk_phase (q_tasks two_calls ! 0) = Running"
  and two_calls_waiting: "tk_phase (q_tasks two_calls ! 1) = Waiting"
  by (simp_all add: two_calls_def on_def set_phase_def withHostWorkspace_def empty_queue_def)

theorem mutations_exclusive_witness: "tk_phase (q_tasks two_calls ! 1) = Waiting"
  using mutations_exclusive_in_order [OF two_calls_reachable two_calls_on(1,2,3)] by simp

theorem waiting_mutation_witness:
  "\<exists>m\<le>1. on two_calls ''/w'' m \<and> (tk_phase (q_tasks two_calls ! m) = Running \<or> may_run two_calls m)"
  using waiting_mutation_progresses [OF two_calls_reachable two_calls_on(2)] two_calls_waiting by simp

end
