(* ===== verification/HostWitness.thy ===== *)
theory HostWitness
  imports HostIndex WorkspaceQueue
begin

text \<open>
  A concrete host: a repository whose branch \<open>feature\<close> is checked out and whose head moves once.  The
  branch is attached, then a published head is recorded; the properties of \<open>HostIndex\<close> are applied to
  these two calls.
\<close>


definition first_head :: string where "first_head = replicate 40 (CHR ''a'')"
definition second_head :: string where "second_head = replicate 40 (CHR ''b'')"

definition answers :: "string \<Rightarrow> proc_result" where
  "answers out = \<lparr>p_status = Some 0, p_stdout = out, p_stderr = []\<rparr>"

definition demo_git :: "string list \<Rightarrow> string \<Rightarrow> (string \<times> string) list \<Rightarrow> bool \<Rightarrow> proc_result \<times> bool" where
  "demo_git args cwd env moved =
    (let head = if moved then second_head else first_head in
     (if args = [''--no-pager'', ''rev-parse'', ''HEAD''] then answers head
      else if take 3 args = [''--no-pager'', ''rev-parse'', ''--verify''] then answers first_head
      else if args = [''--no-pager'', ''branch'', ''--show-current''] then answers ''feature''
      else if args = [''--no-pager'', ''status'', ''--short'', ''--branch''] then answers ''## feature''
      else if args = [''--no-pager'', ''rev-parse'', ''--show-toplevel''] then answers ''/r''
      else if args = [''--no-pager'', ''rev-parse'', ''--git-common-dir''] then answers ''.git''
      else if take 3 args = [''--no-pager'', ''remote'', ''get-url''] then answers ''https://host/r''
      else if take 2 args = [''--no-pager'', ''ls-remote''] then answers (first_head @ '' refs'')
      else if take 3 args = [''--no-pager'', ''worktree'', ''list'']
        then answers (''worktree /r'' @ [nul] @ ''HEAD '' @ first_head @ [nul] @ ''branch refs/heads/feature'' @ [nul, nul])
      else answers [], moved))"

definition demo_host :: "bool hx" where
  "demo_host = \<lparr>hx_git = demo_git, hx_realpath = (\<lambda>_ p. if is_absolute p then Inr p else throw ''ENOENT''), hx_isDirectory = (\<lambda>_ _. Inr True),
    hx_exists = (\<lambda>_ _. False), hx_readdir = (\<lambda>_ _. []), hx_mkdir = (\<lambda>_ r. r), hx_sha256 = (\<lambda>_. replicate 64 (CHR ''0'')),
    hx_randomHex = (\<lambda>_. replicate 16 (CHR ''1'')), hx_now = (\<lambda>_. ''2024''), hx_environ = [], hx_cwd = ''/'', hx_stateFile = ''/s/i.json'',
    hx_worktreeRoot = ''/s/w'', hx_newest_first = (\<lambda>vs. vs)\<rparr>"

definition empty_host :: "bool hosts" where "empty_host = \<lparr>ho_repo = False, ho_file = None\<rparr>"

definition demo_attach :: "(bool, json) hact" where
  "demo_attach = attachBranch demo_host (Some (JStr ''/r'')) (Some (JStr ''feature'')) (Some (JStr first_head)) ''origin''
    (Some (JStr ''t'')) None (JArr [])"

definition attached_host :: "bool hosts" where
  "attached_host = fst (snd (demo_attach empty_host))"

definition demo_publish :: "(bool, json) hact" where
  "demo_publish = recordPublishedHead demo_host ''ws_1111111111111111'' (Some (JStr first_head)) (Some (JStr second_head))"

definition pushed_host :: "bool hosts" where
  "pushed_host = attached_host\<lparr>ho_repo := True\<rparr>"

definition published_host :: "bool hosts" where
  "published_host = fst (snd (demo_publish pushed_host))"

definition attached_answer :: json where
  "attached_answer = the_answer (demo_attach empty_host)"

definition published_answer :: json where
  "published_answer = the_answer (demo_publish pushed_host)"

lemma demo_attach_runs: "runs demo_attach empty_host attached_answer attached_host"
proof -
  have "answered (demo_attach empty_host)" by code_simp
  then show ?thesis unfolding attached_answer_def attached_host_def by (rule runs_answer)
qed

lemma host_publish_runs: "runs demo_publish pushed_host published_answer published_host"
proof -
  have "answered (demo_publish pushed_host)" by code_simp
  then show ?thesis unfolding published_answer_def published_host_def by (rule runs_answer)
qed

lemma demo_git_heads:
  "demo_git [''--no-pager'', ''rev-parse'', ''HEAD''] cwd env moved = (answers (if moved then second_head else first_head), moved)"
  "demo_git [''--no-pager'', ''rev-parse'', ''--verify'', t] cwd env moved = (answers first_head, moved)"
  by (simp_all add: demo_git_def Let_def)

lemma demo_git_head_text:
  assumes "demo_git args cwd env moved = (res, moved')"
    and "args = [''--no-pager'', ''rev-parse'', ''HEAD''] \<or> (\<exists>t. args = [''--no-pager'', ''rev-parse'', ''--verify'', t])"
  shows "p_stdout res = first_head \<or> p_stdout res = second_head"
  using assms by (auto simp: demo_git_heads answers_def simp del: list.inject split: if_splits)

lemma host_texts: "hex_exact 64 (replicate 64 (CHR ''0''))" "hex_exact 16 (replicate 16 (CHR ''1''))"
    "hex_40_64 (trim first_head)" "hex_40_64 (trim second_head)"
  by code_simp+

lemma demo_sound: "sound_host demo_host"
  unfolding sound_host_def
proof (intro conjI allI impI)
  show "is_absolute q" if "hx_realpath demo_host r p = Inr q" for r p q
    using that by (simp add: demo_host_def split: if_splits)
  show "hex_40_64 (trim (p_stdout res))"
    if "args = [''--no-pager'', ''rev-parse'', ''HEAD''] \<or> (\<exists>t. args = [''--no-pager'', ''rev-parse'', ''--verify'', t])"
      "hx_git demo_host args cwd env r = (res, r')" for args cwd env r res r'
  proof -
    have "demo_git args cwd env r = (res, r')" using that(2) by (simp add: demo_host_def)
    from demo_git_head_text [OF this that(1)] show ?thesis using host_texts by auto
  qed
qed (simp_all add: demo_host_def host_texts)

lemma host_demo_reachable: "host_reachable demo_host published_host"
proof -
  have "host_reachable demo_host empty_host" by (simp add: empty_host_def host_reachable.start)
  then have "host_reachable demo_host attached_host"
    by (rule host_reachable.called [where c = "AttachBranch (Some (JStr ''/r'')) (Some (JStr ''feature'')) (Some (JStr first_head)) ''origin''
        (Some (JStr ''t'')) None (JArr [])"])
      (simp add: states_of_def attached_host_def demo_attach_def split: prod.split)
  then have "host_reachable demo_host pushed_host" unfolding pushed_host_def by (rule host_reachable.outside)
  then show ?thesis
    by (rule host_reachable.called [where c = "PublishedHead ''ws_1111111111111111'' (Some (JStr first_head)) (Some (JStr second_head))"])
      (simp add: states_of_def published_host_def demo_publish_def split: prod.split)
qed

theorem index_stays_valid_witness:
  "ho_file published_host = None \<or> (\<exists>v. ho_file published_host = Some (Some v) \<and> validIndex v = Inr True)"
  by (rule index_stays_valid [OF demo_sound host_demo_reachable])

theorem published_head_witness: "get published_answer ''expectedHead'' = Some (JStr second_head)"
  using published_head_advances [OF host_publish_runs [unfolded demo_publish_def]] by auto

theorem attached_branch_witness: "reported_head attached_answer = Some (JStr (lower first_head))"
  using attached_branch_at_head [OF demo_attach_runs [unfolded demo_attach_def]]
  by (simp add: Let_def string_or_empty_def)

end
