(* ===== verification/DestructivePatterns.thy ===== *)
theory DestructivePatterns
  imports JsRegex
begin

text \<open>
  Which commands count as destructive (\<^verbatim>\<open>inspectDestructive\<close> and \<^verbatim>\<open>inspectGitDestructive\<close> of
  \<^verbatim>\<open>src/lib/policy.js\<close>).  The patterns carry the flag \<^verbatim>\<open>i\<close>; their literals are written here in lower case.
\<close>

section \<open>The patterns\<close>

abbreviation word_i :: "string list \<Rightarrow> re" where
  "word_i ws \<equiv> alts (map lit_i ws)"

abbreviation nonspace :: re where
  "nonspace \<equiv> Chr (\<lambda>c. \<not> is_space c)"

abbreviation rest_of_line :: re where
  "rest_of_line \<equiv> Star (Chr (\<lambda>c. c \<noteq> nl))"

abbreviation space_or_end :: re where
  "space_or_end \<equiv> alts [Chr is_space, Eol]"

definition command_start :: re where
  "command_start = alts [Bol, Chr (one_of '';&|()''), Chr is_space]"

definition path_char :: "char \<Rightarrow> bool" where
  "path_char c = (is_word c \<or> c \<in> set ''.+-'')"

text \<open>\<^verbatim>\<open>\bgit\s+(?:-[^\s]+\s+)*\<close>.\<close>

definition git_call :: "re list \<Rightarrow> re" where
  "git_call rest = seqs ([Wb, lit_i ''git'', spaces, Star (seqs [lit ''-'', Plus nonspace, spaces])] @ rest)"

definition DESTRUCTIVE_PATTERNS :: "(string \<times> re) list" where
  "DESTRUCTIVE_PATTERNS =
    [(''rm'', seqs [command_start, Opt (seqs [Plus (seqs [lit ''/'', Plus (Chr path_char)]), lit ''/'']), lit_i ''rm'', space_or_end]),
     (''rmdir'', seqs [command_start, word_i [''rmdir'', ''unlink'', ''shred'', ''srm'', ''trash''], space_or_end]),
     (''find-delete'', seqs [Wb, lit_i ''find'', Wb, rest_of_line, Chr is_space, lit_i ''-delete'', Wb]),
     (''truncate'', alts [seqs [Wb, lit_i ''truncate'', Wb], seqs [lit '':'', spaces0, lit ''>'', spaces0, Plus nonspace],
        seqs [Wb, lit_i ''clear-content'', Wb]]),
     (''windows-delete'', seqs [alts [Bol, Chr (one_of ''&|()''), Chr is_space], word_i [''del'', ''erase'', ''rd''],
        Star (seqs [spaces, lit ''/'', Plus (Chr (ci is_lower))]), spaces]),
     (''powershell-delete'', seqs [Wb, word_i [''remove-item'', ''clear-recyclebin''], Wb]),
     (''disk-destructive'', seqs [Wb, alts [seqs [lit_i ''mkfs'', Opt (seqs [lit ''.'', Plus (Chr is_word)])], seqs [lit_i ''diskpart'', spaces, lit_i ''clean''],
        seqs [lit_i ''format'', spaces, Chr (ci is_lower), lit '':''], seqs [lit_i ''dd'', spaces, word_i [''if'', ''of''], lit ''='']]]),
     (''interpreter-delete'', seqs [Wb, alts [seqs [lit_i ''os.'', word_i [''remove'', ''unlink'']], lit_i ''shutil.rmtree'',
        seqs [lit_i ''pathlib.path('', Star (Chr (\<lambda>c. c \<noteq> CHR '')'')), lit '').'', word_i [''unlink'', ''rmdir'']],
        seqs [lit_i ''fs.'', word_i [''rm'', ''unlink'', ''rmdir''], Opt (lit_i ''sync'')], seqs [lit_i ''file.'', word_i [''delete'', ''unlink'']]], Wb]),
     (''git-clean'', git_call [lit_i ''clean'', Wb]),
     (''git-reset-hard'', git_call [lit_i ''reset'', Wb, rest_of_line, lit_i ''--hard'', Wb]),
     (''git-checkout-files'', git_call [lit_i ''checkout'', Wb, rest_of_line, Chr is_space, lit ''--'', space_or_end]),
     (''git-switch-discard'', git_call [lit_i ''switch'', Wb, rest_of_line, word_i [''--discard-changes'', ''--force'', ''-f''], space_or_end]),
     (''git-restore'', git_call [lit_i ''restore'', Wb]),
     (''git-branch-delete'', git_call [lit_i ''branch'', spaces, word_i [''-d'', ''--delete'', ''--force-delete''], Wb]),
     (''git-tag-delete'', git_call [lit_i ''tag'', spaces, word_i [''-d'', ''--delete''], Wb]),
     (''git-ref-delete'', git_call [alts [seqs [lit_i ''update-ref'', spaces, word_i [''-d'', ''--delete'']], seqs [lit_i ''remote'', spaces, word_i [''remove'', ''rm'']],
        seqs [lit_i ''stash'', spaces, word_i [''drop'', ''clear'']], seqs [lit_i ''worktree'', spaces, word_i [''remove'', ''prune'']],
        seqs [lit_i ''reflog'', spaces, word_i [''delete'', ''expire'']], seqs [lit_i ''notes'', spaces, word_i [''remove'', ''prune'']]], Wb]),
     (''git-force-push'', git_call [lit_i ''push'', Wb, rest_of_line, alts [seqs [lit_i ''--force'', Opt (lit_i ''-with-lease'')], lit_i ''-f'', lit_i ''--delete'',
        seqs [Chr is_space, lit '':'', Plus nonspace]], space_or_end]),
     (''filesystem-api-delete'', seqs [Wb, word_i [''unlinksync'', ''rmsync'', ''rmdirsync'', ''deletefile'', ''deletedirectory''], Wb]),
     (''sql-delete'', seqs [Wb, alts [seqs [lit_i ''drop'', spaces, word_i [''table'', ''database'', ''schema'']], seqs [lit_i ''truncate'', spaces, lit_i ''table''],
        seqs [lit_i ''delete'', spaces, lit_i ''from'']], Wb]),
     (''container-prune'', seqs [Wb, word_i [''docker'', ''podman''], spaces, word_i [''system'', ''image'', ''container'', ''volume''], spaces, lit_i ''prune'', Wb]),
     (''kubernetes-delete'', seqs [Wb, lit_i ''kubectl'', spaces, lit_i ''delete'', Wb]),
     (''empty-trash'', seqs [Wb, alts [lit_i ''emptytrash'', seqs [lit_i ''empty'', Opt (Chr (\<lambda>c. \<not> is_newline c)), lit_i ''trash'']], Wb])]"

definition unquoted :: "string \<Rightarrow> string" where
  "unquoted s = map (\<lambda>c. if c = dquote \<or> c = squote \<or> c = CHR 0x60 then CHR '' '' else c) s"

text \<open>The ids that match, and the trimmed command.\<close>

definition inspectDestructive :: "string \<Rightarrow> bool \<times> string list \<times> string" where
  "inspectDestructive command =
    (let s = trim command; scan = unquoted s;
         found = (if s = [] then [] else map fst (filter (\<lambda>(_, r). re_test r s \<or> re_test r scan) DESTRUCTIVE_PATTERNS))
     in (found \<noteq> [], found, s))"

definition looksDestructive :: "string \<Rightarrow> bool" where
  "looksDestructive command = fst (inspectDestructive command)"

section \<open>Git arguments\<close>

definition flagged :: "string list \<Rightarrow> string list \<Rightarrow> bool" where
  "flagged flags rest = list_ex (\<lambda>a. a \<in> set flags) rest"

text \<open>\<^verbatim>\<open>/^:[^:]+/\<close>.\<close>

definition colon_ref :: "string \<Rightarrow> bool" where
  "colon_ref a = (case a of c # d # _ \<Rightarrow> c = CHR '':'' \<and> d \<noteq> CHR '':'' | _ \<Rightarrow> False)"

definition first_in :: "string list \<Rightarrow> string list \<Rightarrow> bool" where
  "first_in names rest = (rest \<noteq> [] \<and> hd rest \<in> set names)"

definition inspectGitDestructive :: "string list \<Rightarrow> bool \<times> string list" where
  "inspectGitDestructive argv =
    (case dropWhile (\<lambda>a. startsWith a ''-'') (map lower argv) of
       [] \<Rightarrow> (False, [])
     | command # rest \<Rightarrow>
         let opt = (\<lambda>c ident. if c then [ident] else []);
             found = opt (command = ''rm'' \<or> command = ''clean'') (''git-'' @ command)
               @ opt (command = ''reset'' \<and> flagged [''--hard''] rest) ''git-reset-hard''
               @ opt (command = ''restore'') ''git-restore''
               @ opt (command = ''checkout'' \<and> flagged [''--'', ''-f'', ''--force''] rest) ''git-checkout-discard''
               @ opt (command = ''switch'' \<and> flagged [''--discard-changes'', ''-f'', ''--force''] rest) ''git-switch-discard''
               @ opt (command = ''branch'' \<and> flagged [''-d'', ''-D'', ''--delete'', ''--force-delete''] rest) ''git-branch-delete''
               @ opt (command = ''tag'' \<and> flagged [''-d'', ''--delete''] rest) ''git-tag-delete''
               @ opt (command = ''push'' \<and> (flagged [''-f'', ''--force'', ''--force-with-lease'', ''--delete''] rest \<or> list_ex colon_ref rest)) ''git-push-delete-or-force''
               @ opt (command = ''remote'' \<and> first_in [''remove'', ''rm''] rest) ''git-remote-delete''
               @ opt (command = ''stash'' \<and> first_in [''drop'', ''clear''] rest) ''git-stash-delete''
               @ opt (command = ''worktree'' \<and> first_in [''remove'', ''prune''] rest) ''git-worktree-delete''
               @ opt (command = ''update-ref'' \<and> flagged [''-d'', ''--delete''] rest) ''git-ref-delete''
               @ opt (command = ''reflog'' \<and> first_in [''delete'', ''expire''] rest) ''git-reflog-delete''
               @ opt (command = ''notes'' \<and> first_in [''remove'', ''prune''] rest) ''git-notes-delete''
         in (found \<noteq> [], found))"

section \<open>Facts\<close>

lemma is_space_lower [simp]: "is_space (lower_char c) = is_space c"
  by (auto simp: is_space_def lower_char_def char_eq_nat Let_def)

lemma is_newline_lower [simp]: "is_newline (lower_char c) = is_newline c"
  by (auto simp: is_newline_def lower_char_def char_eq_nat Let_def)

lemma ci_is_lower_stable: "fold_stable (ci is_lower)"
  by (auto simp: fold_stable_def ci_def is_lower_def upper_char_def lower_char_def char_eq_nat Let_def)

lemma stable_is_char: "caseless d \<Longrightarrow> fold_stable (\<lambda>c. c \<noteq> d)" "caseless d \<Longrightarrow> fold_stable (\<lambda>c. c = d)"
  by (simp_all add: fold_stable_def lower_char_caseless)

lemma path_char_lower: "path_char (lower_char c) = path_char c"
  by (simp add: path_char_def lower_char_caseless caseless_def)

lemma stable_classes [simp]: "fold_stable is_space" "fold_stable (\<lambda>c. \<not> is_space c)" "fold_stable is_word" "fold_stable (\<lambda>c. \<not> is_newline c)"
  "fold_stable (ci is_lower)" "fold_stable path_char"
  by (simp_all add: ci_is_lower_stable) (simp_all add: fold_stable_def path_char_lower)

lemma stable_lists: "fold_stable (one_of '';&|()'')" "fold_stable (one_of ''&|()'')"
  by (rule fold_stable_one_of; simp add: caseless_def)+

lemma re_fold_star_spaces [simp]: "re_fold spaces" "re_fold spaces0" "re_fold (Opt r) = re_fold r" "re_fold (Plus r) = re_fold r"
  by (auto simp: Plus_def Opt_def)

lemma re_fold_lit: "list_all caseless w \<Longrightarrow> re_fold (lit w)"
  by (induction w) (auto simp: stable_is_char)

lemma patterns_fold: "list_all (\<lambda>(_, r). re_fold r) DESTRUCTIVE_PATTERNS"
  by (simp add: DESTRUCTIVE_PATTERNS_def git_call_def command_start_def re_fold_lit_i re_fold_lit folded_def stable_lists stable_is_char caseless_def
      del: lit.simps lit_i.simps)

lemma lower_space: "lower_char (CHR '' '') = CHR '' ''"
  by (simp add: lower_char_def)

lemma unquoted_lower: "unquoted (lower s) = lower (unquoted s)"
  by (induction s) (auto simp: unquoted_def lower_char_caseless lower_space caseless_def)

lemma dropWhile_lower: "dropWhile is_space (lower s) = lower (dropWhile is_space s)"
  by (induction s) auto

lemma rev_lower: "rev (lower s) = lower (rev s)"
  by (simp add: lower_def rev_map)

lemma trim_lower: "trim (lower s) = lower (trim s)"
  by (simp add: trim_def dropWhile_lower rev_lower)

text \<open>
  Whether a command counts as destructive, and for which reasons, does not depend on
  letter case.
\<close>

theorem destructive_case_insensitive: "fst (snd (inspectDestructive (lower command))) = fst (snd (inspectDestructive command))"
proof -
  have "filter (\<lambda>(_, r). re_test r (lower s) \<or> re_test r (lower t)) DESTRUCTIVE_PATTERNS
      = filter (\<lambda>(_, r). re_test r s \<or> re_test r t) DESTRUCTIVE_PATTERNS" for s t
    by (rule filter_cong) (use patterns_fold in \<open>auto simp: list_all_iff re_test_lower\<close>)
  then show ?thesis by (simp add: inspectDestructive_def Let_def trim_lower unquoted_lower)
qed

lemma matches_SeqI: "y \<in> set (matches r x) \<Longrightarrow> \<exists>z. z \<in> set (matches r' y) \<Longrightarrow> \<exists>z. z \<in> set (matches (Seq r r') x)"
  unfolding set_matches_Seq by blast

lemma rm_at:
  assumes "b = [] \<or> is_space (hd b)"
  shows "\<exists>y. y \<in> set (matches (Seq (Opt r) (Seq (lit_i ''rm'') space_or_end)) (p, ''rm'' @ b))"
proof -
  have "(Some (CHR ''m''), b) \<in> set (matches (lit_i ''rm'') (p, ''rm'' @ b))" by (simp add: ci_def)
  moreover have "\<exists>y. y \<in> set (matches space_or_end (Some (CHR ''m''), b))" using assms by (cases b) auto
  moreover have "(p, ''rm'' @ b) \<in> set (matches (Opt r) (p, ''rm'' @ b))" by (simp add: Opt_def)
  ultimately show ?thesis unfolding set_matches_Seq by blast
qed

lemma rm_pattern:
  assumes "s = a @ ''rm'' @ b" "a = [] \<or> is_space (last a) \<or> last a \<in> set '';&|()''" "b = [] \<or> is_space (hd b)"
  shows "re_test (seqs [command_start, Opt r, lit_i ''rm'', space_or_end]) s"
proof -
  let ?tail = "Seq (Opt r) (Seq (lit_i ''rm'') space_or_end)"
  have "\<exists>c d. s = c @ d \<and> (\<exists>y. y \<in> set (matches (Seq command_start ?tail) (if c = [] then None else Some (last c), d)))"
  proof (cases a rule: rev_cases)
    case Nil
    have "(None, s) \<in> set (matches command_start (None, s))" by (simp add: command_start_def)
    then have "\<exists>y. y \<in> set (matches (Seq command_start ?tail) (None, s))"
      by (rule matches_SeqI) (use rm_at [OF assms(3), of r None] assms(1) Nil in simp)
    then show ?thesis by (intro exI [of _ "[]"] exI [of _ s]) simp
  next
    case (snoc c ch)
    let ?p = "if c = [] then None else Some (last c)"
    have "(Some ch, ''rm'' @ b) \<in> set (matches command_start (?p, ch # ''rm'' @ b))"
      using assms(2) snoc by (auto simp: command_start_def one_of_def)
    then have "\<exists>y. y \<in> set (matches (Seq command_start ?tail) (?p, ch # ''rm'' @ b))"
      by (rule matches_SeqI) (rule rm_at [OF assms(3)])
    then show ?thesis using assms(1) snoc by (intro exI [of _ c] exI [of _ "ch # ''rm'' @ b"]) simp
  qed
  then show ?thesis unfolding re_test_iff seqs.simps by (metis empty_iff empty_set)
qed

text \<open>
  A command in which \<^verbatim>\<open>rm\<close> stands as a word at the beginning or after a separator is
  reported as destructive, whatever surrounds it.
\<close>

theorem rm_word_caught:
  assumes "trim command = a @ ''rm'' @ b" "a = [] \<or> is_space (last a) \<or> last a \<in> set '';&|()''" "b = [] \<or> is_space (hd b)"
  shows "''rm'' \<in> set (fst (snd (inspectDestructive command))) \<and> looksDestructive command"
proof -
  let ?rm = "seqs [command_start, Opt (seqs [Plus (seqs [lit ''/'', Plus (Chr path_char)]), lit ''/'']), lit_i ''rm'', space_or_end]"
  have p: "(''rm'', ?rm) \<in> set DESTRUCTIVE_PATTERNS" by (simp add: DESTRUCTIVE_PATTERNS_def)
  have "trim command \<noteq> []" using assms(1) by auto
  moreover have "re_test ?rm (trim command)" using assms by (rule rm_pattern)
  ultimately have "''rm'' \<in> set (fst (snd (inspectDestructive command)))"
    using p by (force simp: inspectDestructive_def Let_def simp del: seqs.simps)
  then show ?thesis by (auto simp: looksDestructive_def inspectDestructive_def Let_def)
qed

theorem rm_word_witness: "looksDestructive ''cd x && rm -rf y''"
proof -
  have "trim ''cd x && rm -rf y'' = ''cd x && '' @ ''rm'' @ '' -rf y''" by code_simp
  then show ?thesis using rm_word_caught [of "''cd x && rm -rf y''" "''cd x && ''" "'' -rf y''"] by (simp add: is_space_def)
qed

text \<open>
  The inspection of Git arguments takes the first argument that is not an option for the
  command, so the argument of an option that takes one hides the command behind it: with
  \<^verbatim>\<open>-C directory\<close> nothing that follows is reported, unless the directory has the name of a command.
\<close>

theorem git_option_argument_hides:
  assumes "lower dir \<notin> {''rm'', ''clean'', ''reset'', ''restore'', ''checkout'', ''switch'', ''branch'', ''tag'', ''push'', ''remote'', ''stash'',
      ''worktree'', ''update-ref'', ''reflog'', ''notes''}" "\<not> startsWith dir ''-''"
  shows "inspectGitDestructive (''-C'' # dir # rest) = (False, [])"
proof -
  have "\<not> startsWith (lower dir) ''-''"
    using assms(2) by (cases dir) (auto simp: lower_char_caseless)
  then show ?thesis using assms(1) by (simp add: inspectGitDestructive_def Let_def lower_char_caseless)
qed

theorem git_option_argument_witness:
  "inspectGitDestructive [''-C'', ''repo'', ''reset'', ''--hard''] = (False, [])"
  by (rule git_option_argument_hides) (simp_all add: lower_char_def)

end
