(* ===== verification/HostConfig.thy ===== *)
theory HostConfig
  imports JsonParse PosixPath
begin

text \<open>
  The configuration of the bridge (\<^verbatim>\<open>src/lib/config.js\<close>, with \<^verbatim>\<open>normalizeHost\<close> of
  \<^verbatim>\<open>src/lib/net.js\<close>) on a POSIX host: what is read from the environment when the module is
  loaded, the roots and the protected paths, and the state file.  The environment is a function; the
  file system is seen through \<open>fx\<close>, whose functions are parameters.
\<close>

section \<open>The file system as the tools see it\<close>

text \<open>\<open>fx_readFile\<close> gives bytes; \<open>fx_decode\<close> and \<open>fx_encode\<close> are UTF-8 (decoding replaces what is not
  UTF-8); \<open>fx_collated\<close> sorts by \<^verbatim>\<open>localeCompare\<close>.  \<open>Absent\<close> is \<^verbatim>\<open>ENOENT\<close>; \<open>Broken\<close> is any other failure, with its message.\<close>

datatype 'a lookup = Present 'a | Absent | Broken string

datatype node_kind = RegularFile | Directory | SymbolicLink | OtherNode

record node =
  nd_kind :: node_kind
  nd_size :: nat
  nd_mtime :: string
  nd_mode :: nat

record dir_entry =
  en_name :: string
  en_kind :: node_kind

record 'w fx =
  fx_lstat :: "'w \<Rightarrow> string \<Rightarrow> node lookup"
  fx_stat :: "'w \<Rightarrow> string \<Rightarrow> node lookup"
  fx_realpath :: "'w \<Rightarrow> string \<Rightarrow> string result"
  fx_readdir :: "'w \<Rightarrow> string \<Rightarrow> dir_entry list result"
  fx_readlink :: "'w \<Rightarrow> string \<Rightarrow> string result"
  fx_readFile :: "'w \<Rightarrow> string \<Rightarrow> string result"
  fx_git :: "'w \<Rightarrow> string list \<Rightarrow> string \<Rightarrow> (string \<times> string) list \<Rightarrow> proc_result"
  fx_decode :: "string \<Rightarrow> string"
  fx_encode :: "string \<Rightarrow> string"
  fx_base64 :: "string \<Rightarrow> string"
  fx_unbase64 :: "string \<Rightarrow> string"
  fx_sha256 :: "string \<Rightarrow> string"
  fx_collated :: "dir_entry list \<Rightarrow> dir_entry list"
  fx_environ :: "string \<Rightarrow> string option"
  fx_cwd :: string
  fx_home :: string

definition env_or :: "(string \<Rightarrow> string option) \<Rightarrow> string \<Rightarrow> string \<Rightarrow> string" where
  "env_or env name fallback = (case env name of Some v \<Rightarrow> if v = [] then fallback else v | None \<Rightarrow> fallback)"

definition existsSync :: "'w fx \<Rightarrow> 'w \<Rightarrow> string \<Rightarrow> bool" where
  "existsSync x w p = (case fx_stat x w p of Present _ \<Rightarrow> True | _ \<Rightarrow> False)"

definition isDirectory :: "'w fx \<Rightarrow> 'w \<Rightarrow> string \<Rightarrow> bool" where
  "isDirectory x w p = (case fx_stat x w p of Present n \<Rightarrow> nd_kind n = Directory | _ \<Rightarrow> False)"

text \<open>\<^verbatim>\<open>path.normalize\<close> of an absolute path keeps one slash at the end; \<^verbatim>\<open>path.join\<close>
  from an absolute directory.\<close>

definition path_normalize :: "string \<Rightarrow> string" where
  "path_normalize p = (let n = abs_path (comps_of p) in if endsWith p ''/'' \<and> n \<noteq> ''/'' then n @ ''/'' else n)"

definition path_join_any :: "string \<Rightarrow> string \<Rightarrow> string" where
  "path_join_any base rest = path_normalize (if rest = [] then base else base @ slash # rest)"

definition expandHome :: "string \<Rightarrow> string \<Rightarrow> string" where
  "expandHome home input =
    (if input = [] then input
     else if input = ''~'' then home
     else if startsWith input ''~/'' \<or> startsWith input (''~'' @ [backslash]) then path_join_any home (drop 2 input)
     else input)"

section \<open>Values of the environment\<close>

fun split_by :: "(char \<Rightarrow> bool) \<Rightarrow> string \<Rightarrow> string list" where
  "split_by P [] = [[]]"
| "split_by P (c # s) = (if P c then [] # split_by P s else (case split_by P s of [] \<Rightarrow> [[c]] | y # ys \<Rightarrow> (c # y) # ys))"

definition splitPathList :: "string \<Rightarrow> string list" where
  "splitPathList v = nonempty (map trim (split_by (\<lambda>c. c = CHR '':'' \<or> c = nl) v))"

definition splitRawList :: "string \<Rightarrow> string list" where
  "splitRawList v = nonempty (map trim (split_by (\<lambda>c. c = nl \<or> c = CHR '','') v))"

definition splitList :: "string \<Rightarrow> string list" where
  "splitList v = map lower (splitRawList v)"

definition readBoolean :: "(string \<Rightarrow> string option) \<Rightarrow> string \<Rightarrow> bool \<Rightarrow> bool result" where
  "readBoolean env name fallback =
    (case env name of
       None \<Rightarrow> Inr fallback
     | Some raw \<Rightarrow>
         if raw = [] then Inr fallback
         else if lower raw \<in> set [''1'', ''true'', ''yes'', ''on''] then Inr True
         else if lower raw \<in> set [''0'', ''false'', ''no'', ''off''] then Inr False
         else throw (name @ '' must be true or false''))"

definition readInteger :: "(string \<Rightarrow> string option) \<Rightarrow> string \<Rightarrow> int \<Rightarrow> int \<Rightarrow> int \<Rightarrow> int result" where
  "readInteger env name fallback lo hi =
    (case env name of
       None \<Rightarrow> Inr fallback
     | Some raw \<Rightarrow>
         if raw = [] then Inr fallback
         else (case js_integer raw of
             Some n \<Rightarrow> if n < lo \<or> hi < n
               then throw (name @ '' must be an integer between '' @ int_to_string lo @ '' and '' @ int_to_string hi) else Inr n
           | None \<Rightarrow> throw (name @ '' must be an integer between '' @ int_to_string lo @ '' and '' @ int_to_string hi)))"

definition readEnum :: "(string \<Rightarrow> string option) \<Rightarrow> string \<Rightarrow> string \<Rightarrow> string list \<Rightarrow> string result" where
  "readEnum env name fallback allowed =
    (let v = env_or env name fallback in
     if v \<in> set allowed then Inr v else throw (name @ '' must be one of: '' @ join '', '' allowed))"

section \<open>The loaded configuration\<close>

record config =
  c_profile :: string
  c_stateDir :: string
  c_hostWorktreeRoot :: string
  c_scratchDir :: string
  c_host :: string
  c_port :: int
  c_socketPath :: string
  c_commandTimeoutMs :: int
  c_maxStdoutChars :: int
  c_maxStderrChars :: int
  c_maxFetchBytes :: int
  c_maxOfficeFileBytes :: int
  c_maxConcurrentTools :: int
  c_maxProcessLogBytes :: int
  c_processRetentionDays :: int
  c_maxProcessRecords :: int
  c_auditFailClosed :: bool
  c_tokenTtlMs :: int
  c_approvalMode :: string
  c_hardened :: bool
  c_verifierCommand :: string
  c_verifierSha256 :: string
  c_allowPrivateNetwork :: bool
  c_allowCrossOriginRedirects :: bool
  c_allowToolRootRegistration :: bool
  c_includeCommonRoots :: bool
  c_includeScratchRoot :: bool
  c_webFetchAllowHosts :: "string list"
  c_inheritSecrets :: bool
  c_envAllowlist :: "string list"
  c_defaultWorkspace :: string
  c_workspaceRoots :: string
  c_denyPaths :: string

text \<open>The checks at the end of the module's constants.\<close>

definition checkHardened :: "config \<Rightarrow> config result" where
  "checkHardened c =
    bindE (ensure (\<not> (c_hardened c \<and> c_approvalMode c \<noteq> ''deny'')) ''BRIDGE_HARDENED requires DESTRUCTIVE_APPROVAL_MODE=deny'') (\<lambda>_.
    bindE (ensure (\<not> (c_hardened c \<and> (c_allowToolRootRegistration c \<or> c_includeCommonRoots c \<or> c_includeScratchRoot c
          \<or> c_inheritSecrets c \<or> c_allowPrivateNetwork c)))
      ''BRIDGE_HARDENED rejects root expansion, scratch roots, inherited secrets, and private-network access'') (\<lambda>_.
    Inr c))"

definition loadConfig :: "'w fx \<Rightarrow> config result" where
  "loadConfig x =
    (let env = fx_environ x; home = fx_home x;
         resolved = (\<lambda>p. path_resolve (fx_cwd x) (expandHome home p)) in
    bindE (readEnum env ''BRIDGE_PROFILE'' ''legacy'' [''legacy'', ''host'']) (\<lambda>profile.
    let defaultStateDir = (if profile = ''host'' then path_join_any home ''.chatgpt-sol-local-bridge/host-v1''
                           else path_join_any home ''.chatgpt-sol-local-bridge'');
        stateDir = resolved (env_or env ''BRIDGE_STATE_DIR'' defaultStateDir) in
    bindE (readInteger env ''PORT'' 8765 1 65535) (\<lambda>port.
    bindE (readInteger env ''COMMAND_TIMEOUT_MS'' 120000 1000 900000) (\<lambda>commandTimeout.
    bindE (readInteger env ''MAX_STDOUT_CHARS'' 24000 1000 1000000) (\<lambda>maxStdout.
    bindE (readInteger env ''MAX_STDERR_CHARS'' 12000 1000 500000) (\<lambda>maxStderr.
    bindE (readInteger env ''MAX_FETCH_BYTES'' 1000000 1024 10000000) (\<lambda>maxFetch.
    bindE (readInteger env ''MAX_OFFICE_FILE_BYTES'' 10000000 100000 100000000) (\<lambda>maxOffice.
    bindE (readInteger env ''MAX_CONCURRENT_TOOLS'' 8 1 64) (\<lambda>maxTools.
    bindE (readInteger env ''MAX_PROCESS_LOG_BYTES'' 10000000 100000 1000000000) (\<lambda>maxLog.
    bindE (readInteger env ''PROCESS_RETENTION_DAYS'' 14 1 365) (\<lambda>retention.
    bindE (readInteger env ''MAX_PROCESS_RECORDS'' 500 10 10000) (\<lambda>maxRecords.
    bindE (readBoolean env ''DESTRUCTIVE_AUDIT_FAIL_CLOSED'' True) (\<lambda>failClosed.
    bindE (readInteger env ''DESTRUCTIVE_TOKEN_TTL_MS'' 600000 60000 86400000) (\<lambda>ttl.
    bindE (readEnum env ''DESTRUCTIVE_APPROVAL_MODE'' ''deny'' [''deny'', ''chat'', ''external'']) (\<lambda>mode.
    bindE (readBoolean env ''BRIDGE_HARDENED'' False) (\<lambda>hardened.
    bindE (readBoolean env ''ALLOW_PRIVATE_NETWORK'' False) (\<lambda>private_network.
    bindE (readBoolean env ''ALLOW_CROSS_ORIGIN_REDIRECTS'' False) (\<lambda>redirects.
    bindE (readBoolean env ''ALLOW_TOOL_ROOT_REGISTRATION'' False) (\<lambda>registration.
    bindE (readBoolean env ''INCLUDE_COMMON_WORKSPACE_ROOTS'' False) (\<lambda>common.
    bindE (readBoolean env ''INCLUDE_SCRATCH_ROOT'' True) (\<lambda>scratch.
    bindE (readBoolean env ''TOOL_ENV_INHERIT_SECRETS'' False) (\<lambda>secrets.
    checkHardened \<lparr>c_profile = profile, c_stateDir = stateDir,
      c_hostWorktreeRoot = resolved (env_or env ''HOST_WORKTREE_ROOT'' (path_join_any stateDir ''worktrees'')),
      c_scratchDir = resolved (env_or env ''BRIDGE_SCRATCH_DIR'' (path_join_any home ''.chatgpt-sol-local-bridge-scratch'')),
      c_host = env_or env ''HOST'' ''127.0.0.1'', c_port = port, c_socketPath = env_or env ''MCP_UNIX_SOCKET_PATH'' [],
      c_commandTimeoutMs = commandTimeout, c_maxStdoutChars = maxStdout, c_maxStderrChars = maxStderr, c_maxFetchBytes = maxFetch,
      c_maxOfficeFileBytes = maxOffice, c_maxConcurrentTools = maxTools, c_maxProcessLogBytes = maxLog,
      c_processRetentionDays = retention, c_maxProcessRecords = maxRecords, c_auditFailClosed = failClosed, c_tokenTtlMs = ttl,
      c_approvalMode = mode, c_hardened = hardened, c_verifierCommand = env_or env ''APPROVAL_VERIFIER_COMMAND'' [],
      c_verifierSha256 = env_or env ''APPROVAL_VERIFIER_SHA256'' [], c_allowPrivateNetwork = private_network,
      c_allowCrossOriginRedirects = redirects, c_allowToolRootRegistration = registration, c_includeCommonRoots = common,
      c_includeScratchRoot = scratch, c_webFetchAllowHosts = splitList (env_or env ''WEB_FETCH_ALLOW_HOSTS'' []),
      c_inheritSecrets = secrets, c_envAllowlist = splitRawList (env_or env ''TOOL_ENV_ALLOWLIST'' []),
      c_defaultWorkspace = (if env_or env ''DEFAULT_WORKSPACE'' [] = [] then [] else resolved (env_or env ''DEFAULT_WORKSPACE'' [])),
      c_workspaceRoots = env_or env ''WORKSPACE_ROOTS'' [], c_denyPaths = env_or env ''BRIDGE_DENY_PATHS'' []\<rparr>))))))))))))))))))))))"

section \<open>Roots and protected paths\<close>

definition builtInRoots :: "'w fx \<Rightarrow> config \<Rightarrow> string list" where
  "builtInRoots x c =
    (if \<not> c_includeCommonRoots c then []
     else map (\<lambda>n. path_resolve (fx_cwd x) (path_join_any (fx_home x) n))
       [''Desktop'', ''Documents'', ''Downloads'', ''Developer'', ''dev'', ''src'', ''projects'', ''code'', ''workspace'', ''workspaces'', ''ghq''])"

definition extraRoots :: "'w fx \<Rightarrow> config \<Rightarrow> string list" where
  "extraRoots x c = map (\<lambda>item. path_resolve (fx_cwd x) (expandHome (fx_home x) item)) (splitPathList (c_workspaceRoots c))"

definition configuredDenyPaths :: "'w fx \<Rightarrow> config \<Rightarrow> string list" where
  "configuredDenyPaths x c =
    (let platformDefaults = [''/System'', ''/usr'', ''/bin'', ''/sbin'', ''/etc'', ''/private/etc'', ''/private/var/db'', ''/Library/Apple'']
          @ map (path_join_any (fx_home x)) [''Library/Keychains'', ''.ssh'', ''.aws'', ''.kube'', ''.config/gcloud'']
     in map (\<lambda>item. path_resolve (fx_cwd x) (expandHome (fx_home x) item)) (nonempty (platformDefaults @ splitPathList (c_denyPaths c))))"

definition defaultState :: "config \<Rightarrow> json" where
  "defaultState c = JObj [(''version'', JNum 1), (''currentWorkspace'', JStr (c_defaultWorkspace c)), (''extraRoots'', JArr [])]"

text \<open>What an object spread takes from a value: the fields of an object, the elements of an array and
  the characters of a string under their index, nothing from the others.\<close>

definition spread :: "json \<Rightarrow> (string \<times> json) list" where
  "spread v =
    (case v of
       JObj kvs \<Rightarrow> kvs
     | JArr vs \<Rightarrow> zip (map digits_of [0..<length vs]) vs
     | JStr s \<Rightarrow> zip (map digits_of [0..<length s]) (map (\<lambda>ch. JStr [ch]) s)
     | _ \<Rightarrow> [])"

definition stateFile :: "config \<Rightarrow> string" where
  "stateFile c = path_join_any (c_stateDir c) ''state.json''"

definition loadState :: "'w fx \<Rightarrow> config \<Rightarrow> 'w \<Rightarrow> json" where
  "loadState x c w =
    (if \<not> existsSync x w (stateFile c) then defaultState c
     else (case fx_readFile x w (stateFile c) of
         Inl _ \<Rightarrow> defaultState c
       | Inr t \<Rightarrow> (case JSON_parse (fx_decode x t) of None \<Rightarrow> defaultState c | Some v \<Rightarrow> put_fields (spread v) (defaultState c))))"

text \<open>The JSON text \<^verbatim>\<open>saveState\<close> writes is that of this value.\<close>

definition savedState :: "config \<Rightarrow> json \<Rightarrow> json" where
  "savedState c state = put_fields (spread state) (defaultState c)"

text \<open>\<^verbatim>\<open>path.resolve\<close> throws on what is not a string.\<close>

definition resolve_item :: "'w fx \<Rightarrow> json \<Rightarrow> string result" where
  "resolve_item x v =
    (case v of JStr s \<Rightarrow> Inr (path_resolve (fx_cwd x) s) | _ \<Rightarrow> throw ''The \"paths[0]\" argument must be of type string'')"

definition state_roots :: "'w fx \<Rightarrow> json \<Rightarrow> string list result" where
  "state_roots x state =
    (if \<not> truthy (get state ''extraRoots'') then Inr []
     else (case get state ''extraRoots'' of
         Some (JArr vs) \<Rightarrow> mapE (resolve_item x) vs
       | _ \<Rightarrow> throw ''(state.extraRoots || []).map is not a function''))"

text \<open>The elements of a \<^verbatim>\<open>Set\<close>, in the order of insertion.\<close>

fun first_only :: "'a list \<Rightarrow> 'a list" where
  "first_only [] = []"
| "first_only (y # ys) = y # filter (\<lambda>z. z \<noteq> y) (first_only ys)"

definition configuredWorkspaceRoots :: "'w fx \<Rightarrow> config \<Rightarrow> 'w \<Rightarrow> string list result" where
  "configuredWorkspaceRoots x c w =
    bindE (if c_hardened c then Inr [] else state_roots x (loadState x c w)) (\<lambda>registered.
    Inr (filter (isDirectory x w) (first_only (builtInRoots x c @ extraRoots x c @ registered))))"

definition workspaceRoots :: "'w fx \<Rightarrow> config \<Rightarrow> 'w \<Rightarrow> string list result" where
  "workspaceRoots x c w =
    bindE (configuredWorkspaceRoots x c w) (\<lambda>roots.
    Inr (filter (isDirectory x w) (first_only (roots @ (if c_includeScratchRoot c then [c_scratchDir c] else [])))))"

section \<open>Where the server listens\<close>

definition normalizeHost :: "string \<Rightarrow> string" where
  "normalizeHost host = (let v = trim host in if startsWith v ''['' \<and> endsWith v '']'' then drop 1 (butlast v) else v)"

definition isLoopbackHost :: "string \<Rightarrow> bool" where
  "isLoopbackHost host = (lower (normalizeHost host) \<in> set [''127.0.0.1'', ''::1'', ''localhost''])"

definition validateUnixSocketPath :: "config \<Rightarrow> string \<Rightarrow> unit result" where
  "validateUnixSocketPath c p =
    (if p = [] then Inr ()
     else bindE (ensure (is_absolute p \<and> nul \<notin> set p) ''MCP_UNIX_SOCKET_PATH must be an absolute Unix socket path'') (\<lambda>_.
       bindE (ensure (path_normalize p = p) ''MCP_UNIX_SOCKET_PATH must be normalized and must not contain traversal components'') (\<lambda>_.
       bindE (ensure (byteLength p \<le> 100) ''MCP_UNIX_SOCKET_PATH is too long for a Unix domain socket'') (\<lambda>_.
       ensure (\<not> (c_hardened c \<and> \<not> (p = ''/transport'' \<or> startsWith p ''/transport/'')))
         ''BRIDGE_HARDENED requires MCP_UNIX_SOCKET_PATH under /transport''))))"

definition validateRuntimeConfig :: "config \<Rightarrow> string \<Rightarrow> unit result" where
  "validateRuntimeConfig c effectiveHost =
    bindE (ensure (isLoopbackHost effectiveHost) (''Refusing HOST='' @ effectiveHost @
      ''; this bridge is intentionally loopback-only. Put an independently authenticated TLS proxy in front only after a separate security review.'')) (\<lambda>_.
    validateUnixSocketPath c (c_socketPath c))"

section \<open>What a loaded configuration promises\<close>

lemma readInteger_range:
  "readInteger env name fallback lo hi = Inr n \<Longrightarrow> lo \<le> fallback \<and> fallback \<le> hi \<longrightarrow> lo \<le> n \<and> n \<le> hi"
  by (auto simp: readInteger_def split: option.splits if_splits)

lemma readEnum_allowed: "readEnum env name fallback allowed = Inr v \<Longrightarrow> v \<in> set allowed"
  by (auto simp: readEnum_def Let_def split: if_splits)

lemma checkHardened_Inr:
  "checkHardened c = Inr d \<longleftrightarrow> d = c \<and> (c_hardened c \<longrightarrow> c_approvalMode c = ''deny'' \<and> \<not> c_allowToolRootRegistration c
    \<and> \<not> c_includeCommonRoots c \<and> \<not> c_includeScratchRoot c \<and> \<not> c_inheritSecrets c \<and> \<not> c_allowPrivateNetwork c)"
  by (auto simp: checkHardened_def result_simps)


lemma loaded_hardened: "loadConfig x = Inr c \<Longrightarrow> c_hardened c \<Longrightarrow> c_approvalMode c = ''deny'' \<and> \<not> c_includeCommonRoots c
    \<and> \<not> c_includeScratchRoot c \<and> \<not> c_allowToolRootRegistration c \<and> \<not> c_inheritSecrets c \<and> \<not> c_allowPrivateNetwork c"
  by (unfold loadConfig_def Let_def bindE_Inr checkHardened_Inr, elim exE conjE) simp

lemma set_first_only [simp]: "set (first_only ys) = set ys"
  by (induction ys) auto

lemma distinct_first_only: "distinct (first_only ys)"
  by (induction ys) auto

text \<open>
  A hardened bridge has no roots but directories that the environment names in
  \<^verbatim>\<open>WORKSPACE_ROOTS\<close>, whatever its state file says, and never executes destructive actions.
\<close>

theorem hardened_roots_explicit:
  assumes "loadConfig x = Inr c" "c_hardened c" "workspaceRoots x c w = Inr roots"
  shows "distinct roots \<and> set roots = {r \<in> set (extraRoots x c). isDirectory x w r} \<and> c_approvalMode c = ''deny''"
  using loaded_hardened [OF assms(1,2)] assms(2,3)
  by (auto simp: workspaceRoots_def configuredWorkspaceRoots_def builtInRoots_def distinct_first_only)

lemma normalized_comps:
  assumes "path_normalize p = p" "p \<noteq> ''/''" "startsWith p ''/transport/'' \<or> p = ''/transport''"
  shows "prefix [''transport''] (comps_of p)"
  using assms
proof -
  let ?cs = "comps_of p"
  have n: "p = abs_path ?cs \<or> p = abs_path ?cs @ ''/''" using assms(1) by (auto simp: path_normalize_def Let_def split: if_splits)
  have pl: "list_all plain_comp ?cs" unfolding comps_of_def by (rule norm_comps_plain) (auto dest: split_on_sep_free)
  obtain c cs where cs: "?cs = c # cs" using n assms(3) by (cases ?cs) (auto simp: abs_path_def)
  have c: "slash \<notin> set c" using pl cs by (simp add: plain_comp_def)
  obtain q where q: "abs_path ?cs = ''/'' @ c @ q" "q = [] \<or> (\<exists>t. q = slash # t)"
    unfolding cs by (cases cs) (auto simp: abs_path_def)
  have "\<exists>r. p = ''/'' @ c @ r \<and> (r = [] \<or> (\<exists>t. r = slash # t))"
  proof (cases "p = abs_path ?cs")
    case True
    show ?thesis by (rule exI [of _ q], rule conjI, rule trans [OF True q(1)], rule q(2))
  next
    case False
    then have "p = ''/'' @ c @ q @ ''/''" using n unfolding q(1) by simp
    moreover have "q @ ''/'' = [] \<or> (\<exists>t. q @ ''/'' = slash # t)" using q(2) by (cases q) auto
    ultimately show ?thesis by blast
  qed
  then obtain r where p: "p = ''/'' @ c @ r" "r = [] \<or> (\<exists>t. r = slash # t)" by blast
  have "takeWhile (\<lambda>ch. ch \<noteq> slash) (c @ r) = c @ takeWhile (\<lambda>ch. ch \<noteq> slash) r"
    using c by (intro takeWhile_append2) blast
  moreover have "takeWhile (\<lambda>ch. ch \<noteq> slash) r = []" using p(2) by (elim disjE exE) simp_all
  ultimately have split: "takeWhile (\<lambda>ch. ch \<noteq> slash) (c @ r) = c" by simp
  obtain t where t: "p = ''/transport'' @ t" "t = [] \<or> (\<exists>u. t = slash # u)"
    by (rule that [of "drop 10 p"]; use assms(3) in \<open>auto simp: startsWith_iff\<close>)
  have "c @ r = ''transport'' @ t" using p(1) t(1) by simp
  then have "c = takeWhile (\<lambda>ch. ch \<noteq> slash) (''transport'' @ t)" using split by simp
  also have "\<dots> = ''transport''" using t(2) by (elim disjE exE) simp_all
  finally show ?thesis using cs by simp
qed

text \<open>
  Under hardening an accepted socket path is absent or lies inside
  \<^verbatim>\<open>/transport\<close>: its components begin with \<^verbatim>\<open>transport\<close> and it fits a socket address.
\<close>

theorem hardened_socket_confined:
  assumes "validateUnixSocketPath c p = Inr ()" "c_hardened c"
  shows "p = [] \<or> (prefix [''transport''] (comps_of p) \<and> byteLength p \<le> 100)"
proof (cases "p = []")
  case False
  then have "path_normalize p = p" "startsWith p ''/transport/'' \<or> p = ''/transport''" "byteLength p \<le> 100"
    using assms by (auto simp: validateUnixSocketPath_def result_simps)
  moreover have "p \<noteq> ''/''" using calculation(2) by (auto simp: startsWith_iff)
  ultimately show ?thesis using normalized_comps [of p] by blast
qed simp

end
