(* ===== verification/WorkspacePaths.thy ===== *)
theory WorkspacePaths
  imports HostConfig JsRegex
begin

text \<open>
  Which paths the tools may touch (\<^verbatim>\<open>src/lib/paths.js\<close>) on a POSIX host.  A \<open>site\<close> is the
  configuration, the active host workspace (id and worktree) and the file system; \<open>w\<close> is the state
  of the file system the checks look at.
\<close>

section \<open>The site\<close>

record 'w site =
  si_fx :: "'w fx"
  si_config :: config
  si_active :: "(string \<times> string) option"

definition si_resolve :: "'w site \<Rightarrow> string \<Rightarrow> string" where
  "si_resolve x p = path_resolve (fx_cwd (si_fx x)) p"

definition si_within :: "'w site \<Rightarrow> string \<Rightarrow> string \<Rightarrow> bool" where
  "si_within x = isWithin_lib (fx_cwd (si_fx x))"

section \<open>Canonical paths\<close>

text \<open>The loop of \<^verbatim>\<open>canonicalPath\<close> for a path to be written: from \<open>cursor\<close> over the components that
  are left.\<close>

fun canonicalWalk :: "'w site \<Rightarrow> 'w \<Rightarrow> string \<Rightarrow> string list \<Rightarrow> string result" where
  "canonicalWalk x w cursor [] = fx_realpath (si_fx x) w cursor"
| "canonicalWalk x w cursor (c # rest) =
    (let next_cursor = path_join cursor c in
     case fx_lstat (si_fx x) w next_cursor of
       Absent \<Rightarrow> bindE (fx_realpath (si_fx x) w (path_dirname next_cursor)) (\<lambda>parentReal.
         Inr (si_resolve x (join ''/'' (parentReal # c # rest))))
     | Broken m \<Rightarrow> throw m
     | Present n \<Rightarrow>
         if nd_kind n = SymbolicLink
         then (case fx_realpath (si_fx x) w next_cursor of
             Inr real \<Rightarrow> canonicalWalk x w real rest
           | Inl _ \<Rightarrow> throw (''refusing dangling symlink in write path: '' @ next_cursor))
         else canonicalWalk x w next_cursor rest)"

definition canonicalPath :: "'w site \<Rightarrow> 'w \<Rightarrow> bool \<Rightarrow> string \<Rightarrow> string result" where
  "canonicalPath x w forWrite target =
    (let resolved = si_resolve x target in
     if \<not> forWrite then fx_realpath (si_fx x) w resolved
     else canonicalWalk x w ''/'' (comps_of resolved))"

definition canonical_or_resolved :: "'w site \<Rightarrow> 'w \<Rightarrow> string \<Rightarrow> string" where
  "canonical_or_resolved x w root = (case canonicalPath x w True root of Inr r \<Rightarrow> r | Inl _ \<Rightarrow> si_resolve x root)"

section \<open>Sensitive names\<close>

definition IGNORED_NAMES :: "string list" where
  "IGNORED_NAMES = [''.git'', ''node_modules'', ''.DS_Store'', ''.venv'', ''__pycache__'']"

definition DENIED_NAMES :: "string list" where
  "DENIED_NAMES = [''.git'', ''.storage'', ''.venv'', ''__pycache__'', ''backups'', ''backup'', ''logs'', ''log'', ''secrets'', ''credentials'']"

definition edge_before :: re where
  "edge_before = alts [Bol, Chr (one_of ''._-'')]"

definition edge_after :: re where
  "edge_after = alts [Eol, Chr (one_of ''._-'')]"

definition SENSITIVE_PATTERNS :: "re list" where
  "SENSITIVE_PATTERNS =
    [seqs [Bol, lit ''.'', alts (map lit_i [''git'', ''storage'', ''venv'']), Eol],
     seqs [Bol, lit_i ''.env'', Opt (seqs [lit ''.'', Star (Chr (\<lambda>c. \<not> is_newline c))]), Eol],
     seqs [Bol, lit_i ''db.env'', Eol],
     seqs [Bol, lit_i ''secret'', Opt (lit_i ''s''), lit ''.'', alts [seqs [lit_i ''y'', Opt (lit_i ''a''), lit_i ''ml''], lit_i ''json''], Eol],
     seqs [edge_before, alts [seqs [lit_i ''id_'', alts (map lit_i [''rsa'', ''dsa'', ''ecdsa'', ''ed25519''])], lit_i ''authorized_keys'', lit_i ''known_hosts''], edge_after],
     seqs [lit ''.'', alts (map lit_i [''pem'', ''key'', ''p12'', ''pfx'', ''jks'']), Eol],
     seqs [lit ''.'', alts (map lit_i [''db'', ''sqlite'', ''sqlite3'', ''wal'', ''shm'', ''dump'', ''bak'', ''backup'']), Eol],
     seqs [lit ''.'', lit_i ''log'', Eol]]"

definition sensitivePathReason :: "'w site \<Rightarrow> string \<Rightarrow> string" where
  "sensitivePathReason x target =
    (let parts = comps_of (si_resolve x target);
         directory = butlast (map lower parts);
         basename = (if parts = [] then [] else last parts);
         named = (\<lambda>p. p \<in> set DENIED_NAMES \<or> p \<in> set IGNORED_NAMES) in
     if list_ex named directory then ''denied directory''
     else if named basename then ''denied directory''
     else if list_ex (\<lambda>r. re_test r basename) SENSITIVE_PATTERNS then ''denied filename''
     else [])"

section \<open>Roots\<close>

definition effectiveRoots :: "'w site \<Rightarrow> 'w \<Rightarrow> string list result" where
  "effectiveRoots x w =
    bindE (workspaceRoots (si_fx x) (si_config x) w) (\<lambda>roots.
    Inr (roots @ (case si_active x of Some (_, tree) \<Rightarrow> [tree] | None \<Rightarrow> [])))"

definition currentWorkspace :: "'w site \<Rightarrow> 'w \<Rightarrow> string result" where
  "currentWorkspace x w =
    (case (c_profile (si_config x) = ''host'', si_active x) of
       (True, Some (_, tree)) \<Rightarrow> Inr tree
     | _ \<Rightarrow>
       (let state = loadState (si_fx x) (si_config x) w in
        if \<not> truthy (get state ''currentWorkspace'') then Inr []
        else (case get state ''currentWorkspace'' of
            Some (JStr current) \<Rightarrow>
              (case canonicalPath x w False current of
                 Inl _ \<Rightarrow> Inr []
               | Inr canonical \<Rightarrow>
                   bindE (workspaceRoots (si_fx x) (si_config x) w) (\<lambda>roots.
                   Inr (if list_ex (\<lambda>root. case canonicalPath x w False root of Inr r \<Rightarrow> si_within x canonical r | Inl _ \<Rightarrow> False) roots
                        then canonical else [])))
          | _ \<Rightarrow> Inr [])))"

definition resolveUserPath :: "'w site \<Rightarrow> 'w \<Rightarrow> string \<Rightarrow> string \<Rightarrow> string result" where
  "resolveUserPath x w input cwd =
    (let home = fx_home (si_fx x); expanded = expandHome home (trim input) in
     bindE (ensure (expanded \<noteq> []) ''path is required'') (\<lambda>_.
     bindE (if cwd \<noteq> [] then Inr (expandHome home cwd)
            else bindE (currentWorkspace x w) (\<lambda>c. Inr (if c \<noteq> [] then c else home))) (\<lambda>base.
     Inr (path_resolve (path_resolve (fx_cwd (si_fx x)) base) expanded))))"

definition workspaceRegistrationGuidance :: "'w site \<Rightarrow> string" where
  "workspaceRegistrationGuidance x =
    (if c_profile (si_config x) = ''host''
     then ''Call workspace_attach with the explicit existing location, then use its workspaceId.''
     else ''Configure WORKSPACE_ROOTS explicitly; tool-driven root registration is not available in S1.'')"

section \<open>The location of a path\<close>

definition assertAllowed :: "'w site \<Rightarrow> 'w \<Rightarrow> bool \<Rightarrow> string \<Rightarrow> string result" where
  "assertAllowed x w forWrite target =
    (let requested = si_resolve x target; reason = sensitivePathReason x requested in
     bindE (ensure (reason = []) (''refusing secret-sensitive or runtime path ('' @ reason @ ''): '' @ requested)) (\<lambda>_.
     bindE (canonicalPath x w forWrite requested) (\<lambda>canonical.
     bindE (ensure (canonical \<noteq> ''/'') ''refusing to touch filesystem root'') (\<lambda>_.
     bindE (ensure (\<not> list_ex (\<lambda>denied. si_within x canonical (canonical_or_resolved x w denied))
          (configuredDenyPaths (si_fx x) (si_config x))) (''refusing protected path: '' @ canonical)) (\<lambda>_.
     let sensitive = sensitivePathReason x canonical in
     bindE (ensure (sensitive = []) (''refusing secret-sensitive or runtime path ('' @ sensitive @ ''): '' @ canonical)) (\<lambda>_.
     bindE (if forWrite
            then bindE (effectiveRoots x w) (\<lambda>roots.
              ensure (list_ex (\<lambda>root. si_within x canonical (canonical_or_resolved x w root)) roots)
                (''path is outside registered workspace roots; write is limited to registered workspaces: '' @ canonical))
            else Inr ()) (\<lambda>_.
     Inr canonical)))))))"

definition assertLexicallyInWorkspace :: "'w site \<Rightarrow> 'w \<Rightarrow> string \<Rightarrow> string \<Rightarrow> unit result" where
  "assertLexicallyInWorkspace x w target word =
    (let requested = si_resolve x target;
         outside = ''path is outside '' @ word @ '' workspace roots: '' @ requested @ [nl] @ workspaceRegistrationGuidance x in
     bindE (effectiveRoots x w) (\<lambda>roots.
     let lexicalAllowed = list_ex (\<lambda>root. si_within x requested (si_resolve x root)) roots in
     case canonicalPath x w True requested of
       Inl _ \<Rightarrow> ensure lexicalAllowed outside
     | Inr candidate \<Rightarrow> ensure (list_ex (\<lambda>root. si_within x candidate (canonical_or_resolved x w root)) roots) outside))"

definition assertInRegisteredRoots :: "'w site \<Rightarrow> 'w \<Rightarrow> bool \<Rightarrow> string \<Rightarrow> string result" where
  "assertInRegisteredRoots x w forWrite target =
    bindE (assertLexicallyInWorkspace x w target ''configured'') (\<lambda>_.
    bindE (assertAllowed x w forWrite target) (\<lambda>canonical.
    bindE (workspaceRoots (si_fx x) (si_config x) w) (\<lambda>roots.
    bindE (ensure (list_ex (\<lambda>root. si_within x canonical (canonical_or_resolved x w root)) roots)
      (''path is outside configured workspace roots: '' @ canonical @ [nl] @
       ''Configure WORKSPACE_ROOTS explicitly; tool-driven root registration is not available in S1.'')) (\<lambda>_.
    Inr canonical))))"

definition assertInWorkspace :: "'w site \<Rightarrow> 'w \<Rightarrow> bool \<Rightarrow> string \<Rightarrow> string result" where
  "assertInWorkspace x w forWrite target =
    bindE (assertLexicallyInWorkspace x w target ''registered'') (\<lambda>_.
    bindE (assertAllowed x w forWrite target) (\<lambda>canonical.
    bindE (effectiveRoots x w) (\<lambda>roots.
    bindE (currentWorkspace x w) (\<lambda>current.
    bindE (ensure (list_ex (\<lambda>root. si_within x canonical (canonical_or_resolved x w root)) (nonempty (roots @ [current])))
      (''path is outside registered workspace roots: '' @ canonical @ [nl] @ workspaceRegistrationGuidance x)) (\<lambda>_.
    Inr canonical)))))"

section \<open>The repository around a path\<close>

text \<open>The loops that go up end at the root, where \<^verbatim>\<open>dirname\<close> is the path itself: they are recursions
  on the components, from the last one.\<close>

fun nearestExisting :: "'w site \<Rightarrow> 'w \<Rightarrow> string list \<Rightarrow> string list" where
  "nearestExisting x w [] = []"
| "nearestExisting x w (c # up) =
    (case fx_lstat (si_fx x) w (abs_path (rev (c # up))) of Present _ \<Rightarrow> c # up | _ \<Rightarrow> nearestExisting x w up)"

definition nearestExistingPath :: "'w site \<Rightarrow> 'w \<Rightarrow> string \<Rightarrow> string" where
  "nearestExistingPath x w target = abs_path (rev (nearestExisting x w (rev (comps_of (si_resolve x target)))))"

definition has_git :: "'w site \<Rightarrow> 'w \<Rightarrow> string \<Rightarrow> bool" where
  "has_git x w dir = (case fx_lstat (si_fx x) w (path_join dir ''.git'') of Present _ \<Rightarrow> True | _ \<Rightarrow> False)"

fun searchRepository :: "'w site \<Rightarrow> 'w \<Rightarrow> string list \<Rightarrow> string" where
  "searchRepository x w [] = (if has_git x w ''/'' then ''/'' else [])"
| "searchRepository x w (c # up) =
    (if has_git x w (abs_path (rev (c # up))) then abs_path (rev (c # up)) else searchRepository x w up)"

definition findRepositoryRoot :: "'w site \<Rightarrow> 'w \<Rightarrow> string \<Rightarrow> string" where
  "findRepositoryRoot x w target =
    (let cursor = nearestExistingPath x w target in
     case fx_stat (si_fx x) w cursor of
       Present n \<Rightarrow> searchRepository x w (rev (comps_of (if nd_kind n = Directory then cursor else path_dirname cursor)))
     | _ \<Rightarrow> [])"

definition gitProbeEnvironment :: "'w site \<Rightarrow> (string \<times> string) list" where
  "gitProbeEnvironment x =
    (let env = fx_environ (si_fx x) in
     [(''PATH'', env_or env ''PATH'' ''/usr/bin:/bin''), (''HOME'', env_or env ''HOME'' []), (''USERPROFILE'', env_or env ''USERPROFILE'' []),
      (''GIT_CONFIG_NOSYSTEM'', ''1''), (''GIT_CONFIG_GLOBAL'', ''/dev/null''), (''GIT_OPTIONAL_LOCKS'', ''0''), (''GIT_TERMINAL_PROMPT'', ''0'')])"

definition ignoredStatus :: "'w site \<Rightarrow> 'w \<Rightarrow> string \<Rightarrow> string \<Rightarrow> int option" where
  "ignoredStatus x w root relative =
    p_status (fx_git (si_fx x) w [''--no-pager'', ''-c'', ''core.excludesFile=/dev/null'', ''-c'', ''safe.directory='' @ root,
      ''check-ignore'', ''--no-index'', ''--quiet'', ''--'', relative] root (gitProbeEnvironment x))"

definition assertNotIgnored :: "'w site \<Rightarrow> 'w \<Rightarrow> string \<Rightarrow> unit result" where
  "assertNotIgnored x w canonical =
    (let root = findRepositoryRoot x w canonical in
     if root = [] then Inr ()
     else let relative = path_relative (fx_cwd (si_fx x)) root canonical in
       if relative = [] \<or> relative = ''.'' then Inr ()
       else let status = ignoredStatus x w root relative in
         if status = Some 0 then throw (''refusing repository-ignored path: '' @ canonical)
         else ensure (status = Some 1) (''refusing path because ignored-state verification failed: '' @ canonical))"

definition trackedHeadPaths :: "'w site \<Rightarrow> 'w \<Rightarrow> string \<Rightarrow> string \<Rightarrow> string list result" where
  "trackedHeadPaths x w root relative =
    (let res = fx_git (si_fx x) w [''--no-pager'', ''-c'', ''safe.directory='' @ root, ''ls-tree'', ''-r'', ''--name-only'', ''-z'', ''HEAD'', ''--'', relative]
       root (gitProbeEnvironment x) in
     if p_status res \<noteq> Some 0
     then throw (''refusing runtime path because tracked-state verification failed: '' @ path_join_any root relative)
     else Inr (nonempty (split_on nul (p_stdout res))))"

definition isVisibleTrackedRuntimeFile :: "'w site \<Rightarrow> 'w \<Rightarrow> string \<Rightarrow> string \<Rightarrow> bool" where
  "isVisibleTrackedRuntimeFile x w root relative =
    (let absolute = path_join_any root relative in
     case fx_lstat (si_fx x) w absolute of
       Present n \<Rightarrow> nd_kind n = RegularFile \<and> sensitivePathReason x absolute = [] \<and> ignoredStatus x w root relative = Some 1
     | _ \<Rightarrow> False)"

definition assertRuntimePathIsTrackedSource :: "'w site \<Rightarrow> 'w \<Rightarrow> string \<Rightarrow> unit result" where
  "assertRuntimePathIsTrackedSource x w requested =
    (let root = findRepositoryRoot x w requested in
     if root = [] then Inr ()
     else let relative = path_relative (fx_cwd (si_fx x)) root requested in
       if relative = [] \<or> relative = ''.'' \<or> startsWith relative ''../'' \<or> is_absolute relative then Inr ()
       else bindE (case fx_lstat (si_fx x) w requested of
             Present n \<Rightarrow> Inr (Some (nd_kind n)) | Absent \<Rightarrow> Inr None | Broken m \<Rightarrow> throw m) (\<lambda>stat.
         let parts = map lower (nonempty (split_on slash relative));
             beneathRuntime = ''runtime'' \<in> set (butlast parts) \<or> stat = Some Directory \<and> parts \<noteq> [] \<and> last parts = ''runtime'' in
         if \<not> beneathRuntime then Inr ()
         else bindE (ensure (stat \<noteq> Some SymbolicLink) (''refusing symlink beneath runtime source directory: '' @ requested)) (\<lambda>_.
           bindE (trackedHeadPaths x w root relative) (\<lambda>tracked.
           ensure (stat = Some RegularFile \<and> relative \<in> set tracked
               \<or> stat = Some Directory \<and> list_ex (isVisibleTrackedRuntimeFile x w root) tracked)
             (''refusing runtime path that is not tracked regular source: '' @ requested)))))"

definition assertStructuredPath :: "'w site \<Rightarrow> 'w \<Rightarrow> bool \<Rightarrow> string \<Rightarrow> string result" where
  "assertStructuredPath x w forWrite target =
    bindE (assertInWorkspace x w forWrite target) (\<lambda>canonical.
    bindE (assertNotIgnored x w canonical) (\<lambda>_.
    bindE (assertRuntimePathIsTrackedSource x w (si_resolve x target)) (\<lambda>_.
    Inr canonical)))"

definition isVisibleStructuredPath :: "'w site \<Rightarrow> 'w \<Rightarrow> string \<Rightarrow> bool" where
  "isVisibleStructuredPath x w target = is_ok (assertStructuredPath x w False target)"

section \<open>Snapshots and trees\<close>

datatype snapshot =
    DirSnapshot string "(string \<times> node_kind) list" bool
  | LinkSnapshot string string
  | OtherSnapshot string nat
  | FileSnapshot (snap_path: string) (snap_size: nat) (snap_mtime: string) (snap_truncated: bool) (snap_base64: bool) (snap_content: string)

definition fileSnapshot :: "'w site \<Rightarrow> 'w \<Rightarrow> nat \<Rightarrow> string \<Rightarrow> snapshot result" where
  "fileSnapshot x w maxBytes target =
    bindE (assertStructuredPath x w False target) (\<lambda>resolved.
    case fx_lstat (si_fx x) w resolved of
      Absent \<Rightarrow> throw (''ENOENT: '' @ resolved)
    | Broken m \<Rightarrow> throw m
    | Present n \<Rightarrow>
        (case nd_kind n of
           Directory \<Rightarrow> bindE (fx_readdir (si_fx x) w resolved) (\<lambda>entries.
             let visible = filter (\<lambda>e. isVisibleStructuredPath x w (path_join resolved (en_name e))) entries in
             Inr (DirSnapshot resolved (map (\<lambda>e. (en_name e, en_kind e)) (take 200 visible)) (200 < length visible)))
         | SymbolicLink \<Rightarrow> bindE (fx_readlink (si_fx x) w resolved) (\<lambda>to. Inr (LinkSnapshot resolved to))
         | OtherNode \<Rightarrow> Inr (OtherSnapshot resolved (nd_size n))
         | RegularFile \<Rightarrow> bindE (fx_readFile (si_fx x) w resolved) (\<lambda>contents.
             let bytes = min (nd_size n) maxBytes;
                 slice = take bytes contents @ replicate (bytes - length contents) nul;
                 looksBinary = nul \<in> set (fx_decode (si_fx x) slice) in
             Inr (FileSnapshot resolved (nd_size n) (nd_mtime n) (maxBytes < nd_size n) looksBinary
               (if looksBinary then fx_base64 (si_fx x) slice else fx_decode (si_fx x) slice)))))"

text \<open>\<^verbatim>\<open>walkTree\<close>: what is reported so far and the real directories visited.\<close>

record walk =
  wa_out :: "(string \<times> node_kind) list"
  wa_visited :: "string list"

fun walkEntries :: "'w site \<Rightarrow> 'w \<Rightarrow> string \<Rightarrow> nat \<Rightarrow> (string \<Rightarrow> walk \<Rightarrow> walk) \<Rightarrow> string \<Rightarrow> dir_entry list \<Rightarrow> walk \<Rightarrow> walk" where
  "walkEntries x w root maxEntries down dir [] s = s"
| "walkEntries x w root maxEntries down dir (e # es) s =
    (if maxEntries \<le> length (wa_out s) then s
     else let full = path_join dir (en_name e) in
       if en_name e \<in> set IGNORED_NAMES \<or> \<not> isVisibleStructuredPath x w full then walkEntries x w root maxEntries down dir es s
       else let rel = path_relative (fx_cwd (si_fx x)) root full;
                s' = s\<lparr>wa_out := wa_out s @ [(if rel = [] then ''.'' else rel, en_kind e)]\<rparr> in
         walkEntries x w root maxEntries down dir es (if en_kind e = Directory then down full s' else s'))"

definition walkDirectory :: "'w site \<Rightarrow> 'w \<Rightarrow> string \<Rightarrow> nat \<Rightarrow> (string \<Rightarrow> walk \<Rightarrow> walk) \<Rightarrow> string \<Rightarrow> walk \<Rightarrow> walk" where
  "walkDirectory x w root maxEntries down dir s =
    (if maxEntries \<le> length (wa_out s) then s
     else case fx_realpath (si_fx x) w dir of
         Inl _ \<Rightarrow> s
       | Inr real \<Rightarrow>
           if real \<in> set (wa_visited s) then s
           else let s' = s\<lparr>wa_visited := real # wa_visited s\<rparr> in
             (case fx_readdir (si_fx x) w dir of
                Inl _ \<Rightarrow> s'
              | Inr entries \<Rightarrow> walkEntries x w root maxEntries down dir (fx_collated (si_fx x) entries) s'))"

text \<open>The last argument but two is how many levels are still to be entered (\<^verbatim>\<open>maxDepth - depth\<close>).\<close>

primrec walkLevels :: "'w site \<Rightarrow> 'w \<Rightarrow> string \<Rightarrow> nat \<Rightarrow> nat \<Rightarrow> string \<Rightarrow> walk \<Rightarrow> walk" where
  "walkLevels x w root maxEntries 0 = walkDirectory x w root maxEntries (\<lambda>_ s. s)"
| "walkLevels x w root maxEntries (Suc n) = walkDirectory x w root maxEntries (walkLevels x w root maxEntries n)"

definition walkTree :: "'w site \<Rightarrow> 'w \<Rightarrow> nat \<Rightarrow> nat \<Rightarrow> string \<Rightarrow> (string \<times> (string \<times> node_kind) list \<times> bool) result" where
  "walkTree x w maxDepth maxEntries root =
    bindE (assertStructuredPath x w False root) (\<lambda>resolved.
    let out = wa_out (walkLevels x w resolved maxEntries (maxDepth - 1) resolved \<lparr>wa_out = [], wa_visited = []\<rparr>) in
    Inr (resolved, out, maxEntries \<le> length out))"

text \<open>\<^verbatim>\<open>visibleFilePaths\<close> enters every directory; \<open>fuel\<close> bounds the depth, and \<open>None\<close> is that it did not
  suffice.  A failure of \<^verbatim>\<open>canonicalPath\<close> is thrown.\<close>

fun fileEntries :: "'w site \<Rightarrow> 'w \<Rightarrow> nat \<Rightarrow> (string \<Rightarrow> string list \<Rightarrow> string list result option) \<Rightarrow> string \<Rightarrow> dir_entry list
    \<Rightarrow> string list \<Rightarrow> string list result option" where
  "fileEntries x w maxFiles down dir [] out = Some (Inr out)"
| "fileEntries x w maxFiles down dir (e # es) out =
    (let full = path_join dir (en_name e) in
     if maxFiles \<le> length out \<or> en_name e \<in> set IGNORED_NAMES \<or> \<not> isVisibleStructuredPath x w full
     then fileEntries x w maxFiles down dir es out
     else if en_kind e = Directory
     then (case down full out of
         Some (Inr out') \<Rightarrow> fileEntries x w maxFiles down dir es out'
       | r \<Rightarrow> r)
     else if en_kind e = RegularFile
     then (case canonicalPath x w False full of
         Inr p \<Rightarrow> fileEntries x w maxFiles down dir es (out @ [p])
       | Inl err \<Rightarrow> Some (Inl err))
     else fileEntries x w maxFiles down dir es out)"

primrec visibleWalk :: "'w site \<Rightarrow> 'w \<Rightarrow> nat \<Rightarrow> nat \<Rightarrow> string \<Rightarrow> string list \<Rightarrow> string list result option" where
  "visibleWalk x w maxFiles 0 = (\<lambda>dir out. None)"
| "visibleWalk x w maxFiles (Suc fuel) = (\<lambda>dir out.
    if maxFiles \<le> length out then Some (Inr out)
    else case fx_readdir (si_fx x) w dir of
        Inl _ \<Rightarrow> Some (Inr out)
      | Inr entries \<Rightarrow> fileEntries x w maxFiles (visibleWalk x w maxFiles fuel) dir entries out)"

definition visibleFilePaths :: "'w site \<Rightarrow> 'w \<Rightarrow> nat \<Rightarrow> nat \<Rightarrow> string \<Rightarrow> string list result option" where
  "visibleFilePaths x w maxFiles fuel root =
    (case assertStructuredPath x w False root of
       Inl err \<Rightarrow> Some (Inl err)
     | Inr resolved \<Rightarrow>
         (case fx_stat (si_fx x) w resolved of
            Present n \<Rightarrow> if nd_kind n = RegularFile then Some (Inr [resolved]) else visibleWalk x w maxFiles fuel resolved []
          | _ \<Rightarrow> Some (Inr [])))"

end
