(* ===== verification/PathSafety.thy ===== *)
theory PathSafety
  imports WorkspacePaths
begin

text \<open>
  What the checks of \<open>WorkspacePaths\<close> promise: an accepted path is where the tools may be, and a
  path accepted for writing is canonical, whether it exists or not; trees and file lists are bounded
  and show only accepted paths.
\<close>

section \<open>Accepted paths\<close>

lemma sensitive_free:
  assumes "sensitivePathReason x p = []"
  shows "c \<in> set (butlast (comps_of (si_resolve x p))) \<Longrightarrow> lower c \<notin> set DENIED_NAMES \<union> set IGNORED_NAMES"
    "comps_of (si_resolve x p) \<noteq> [] \<Longrightarrow> last (comps_of (si_resolve x p)) \<notin> set DENIED_NAMES \<union> set IGNORED_NAMES"
  using assms unfolding sensitivePathReason_def Let_def list_ex_iff
  by (auto simp: map_butlast [symmetric] split: if_splits)

lemma sensitive_no_git:
  assumes "sensitivePathReason x p = []"
  shows "''.git'' \<notin> set (comps_of (si_resolve x p))"
proof
  assume "''.git'' \<in> set (comps_of (si_resolve x p))"
  then consider "''.git'' \<in> set (butlast (comps_of (si_resolve x p)))" | "comps_of (si_resolve x p) \<noteq> []" "''.git'' = last (comps_of (si_resolve x p))"
    by (metis append_butlast_last_id in_set_conv_decomp_last list.set_intros(1) rotate1.simps(2) set_rotate1 set_ConsD butlast.simps(1) empty_iff list.set(1))
  then show False
  proof cases
    case 1
    have "lower ''.git'' = ''.git''" by code_simp
    with sensitive_free(1) [OF assms 1] show False by (simp add: DENIED_NAMES_def)
  next
    case 2
    then show False using sensitive_free(2) [OF assms 2(1)] by (auto simp: DENIED_NAMES_def)
  qed
qed

lemma assertAllowed_Inr:
  assumes "assertAllowed x w forWrite target = Inr p"
  shows "sensitivePathReason x (si_resolve x target) = []" "canonicalPath x w forWrite (si_resolve x target) = Inr p"
    "p \<noteq> ''/''" "d \<in> set (configuredDenyPaths (si_fx x) (si_config x)) \<Longrightarrow> \<not> si_within x p (canonical_or_resolved x w d)"
    "sensitivePathReason x p = []"
    "forWrite \<Longrightarrow> \<exists>roots. effectiveRoots x w = Inr roots \<and> (\<exists>r \<in> set roots. si_within x p (canonical_or_resolved x w r))"
  using assms unfolding assertAllowed_def Let_def by (auto simp: result_simps list_ex_iff split: if_splits)

lemma assertInWorkspace_Inr:
  assumes "assertInWorkspace x w forWrite target = Inr p"
  shows "assertLexicallyInWorkspace x w target ''registered'' = Inr ()" "assertAllowed x w forWrite target = Inr p"
    "\<exists>roots current. effectiveRoots x w = Inr roots \<and> currentWorkspace x w = Inr current
      \<and> (\<exists>r \<in> set (roots @ [current]). r \<noteq> [] \<and> si_within x p (canonical_or_resolved x w r))"
  using assms unfolding assertInWorkspace_def by (auto simp: result_simps list_ex_iff nonempty_def split: if_splits)

lemma assertStructuredPath_Inr:
  assumes "assertStructuredPath x w forWrite target = Inr p"
  shows "assertInWorkspace x w forWrite target = Inr p" "assertNotIgnored x w p = Inr ()"
    "assertRuntimePathIsTrackedSource x w (si_resolve x target) = Inr ()"
  using assms unfolding assertStructuredPath_def by (auto simp: result_simps)

lemma si_within_prefix: "si_within x p r \<Longrightarrow> prefix (comps_of (si_resolve x r)) (comps_of (si_resolve x p))"
  unfolding si_within_def si_resolve_def path_resolve_def by (auto dest: lib_confine.within_location)


section \<open>Canonical paths on a POSIX file system\<close>

text \<open>
  The documented behaviour of \<^verbatim>\<open>realpath\<close> and \<^verbatim>\<open>lstat\<close> that the walk relies on: results are canonical,
  a name that is not a symbolic link below a canonical directory is canonical, what has no entry has
  no canonical path, and a canonical path is found component by component.
\<close>

definition posix_fs :: "'w site \<Rightarrow> 'w \<Rightarrow> bool" where
  "posix_fs x w = (let real = (\<lambda>cs. fx_realpath (si_fx x) w (abs_path cs)); entry = (\<lambda>cs. fx_lstat (si_fx x) w (abs_path cs)) in
    real [] = Inr (abs_path []) \<and>
    (\<forall>p q. fx_realpath (si_fx x) w p = Inr q \<longrightarrow> (\<exists>ds. list_all plain_comp ds \<and> q = abs_path ds \<and> real ds = Inr q)) \<and>
    (\<forall>cs c n. list_all plain_comp (cs @ [c]) \<longrightarrow> real cs = Inr (abs_path cs) \<longrightarrow> entry (cs @ [c]) = Present n \<longrightarrow> nd_kind n \<noteq> SymbolicLink \<longrightarrow> real (cs @ [c]) = Inr (abs_path (cs @ [c]))) \<and>
    (\<forall>cs c q. list_all plain_comp (cs @ [c]) \<longrightarrow> real (cs @ [c]) = Inr q \<longrightarrow> (\<exists>n. entry (cs @ [c]) = Present n)) \<and>
    (\<forall>cs ds rest. list_all plain_comp (cs @ rest) \<longrightarrow> list_all plain_comp ds \<longrightarrow> real cs = Inr (abs_path ds) \<longrightarrow> real (cs @ rest) = real (ds @ rest)) \<and>
    (\<forall>cs rest q. list_all plain_comp (cs @ rest) \<longrightarrow> real (cs @ rest) = Inr q \<longrightarrow> (\<exists>r. real cs = Inr r)))"

lemma posix_fsD:
  assumes "posix_fs x w"
  shows "fx_realpath (si_fx x) w (abs_path []) = Inr (abs_path [])"
    "fx_realpath (si_fx x) w p = Inr q \<Longrightarrow> \<exists>ds. list_all plain_comp ds \<and> q = abs_path ds \<and> fx_realpath (si_fx x) w (abs_path ds) = Inr q"
    "list_all plain_comp (cs @ [c]) \<Longrightarrow> fx_realpath (si_fx x) w (abs_path cs) = Inr (abs_path cs) \<Longrightarrow> fx_lstat (si_fx x) w (abs_path (cs @ [c])) = Present n \<Longrightarrow>
      nd_kind n \<noteq> SymbolicLink \<Longrightarrow> fx_realpath (si_fx x) w (abs_path (cs @ [c])) = Inr (abs_path (cs @ [c]))"
    "list_all plain_comp (cs @ [c]) \<Longrightarrow> fx_realpath (si_fx x) w (abs_path (cs @ [c])) = Inr q \<Longrightarrow> \<exists>n. fx_lstat (si_fx x) w (abs_path (cs @ [c])) = Present n"
    "list_all plain_comp (cs @ rest) \<Longrightarrow> list_all plain_comp ds \<Longrightarrow> fx_realpath (si_fx x) w (abs_path cs) = Inr (abs_path ds) \<Longrightarrow>
      fx_realpath (si_fx x) w (abs_path (cs @ rest)) = fx_realpath (si_fx x) w (abs_path (ds @ rest))"
    "list_all plain_comp (cs @ rest) \<Longrightarrow> fx_realpath (si_fx x) w (abs_path (cs @ rest)) = Inr q \<Longrightarrow> \<exists>r. fx_realpath (si_fx x) w (abs_path cs) = Inr r"
  using assms unfolding posix_fs_def Let_def by blast+

lemma dirname_abs_path [simp]: "list_all plain_comp cs \<Longrightarrow> plain_comp c \<Longrightarrow> path_dirname (abs_path (cs @ [c])) = abs_path cs"
  by (simp add: path_dirname_def)

lemma split_on_sep: "split_on c (a @ c # b) = split_on c a @ split_on c b"
  by (induction a) (auto split: list.splits)

lemma comps_below:
  assumes "list_all plain_comp cs" "list_all plain_comp rest"
  shows "comps_of (join ''/'' (abs_path cs # rest)) = cs @ rest"
proof (cases "rest = []")
  case False
  have "join ''/'' (abs_path cs # rest) = abs_path cs @ slash # join ''/'' rest" using False by (simp add: join_Cons)
  moreover have "split_on slash (join ''/'' rest) = rest" using False assms(2) by (simp add: split_on_join list_all_iff plain_comp_def)
  ultimately have "comps_of (join ''/'' (abs_path cs # rest)) = norm_comps (split_on slash (abs_path cs) @ rest)"
    by (simp add: comps_of_def split_on_sep)
  also have "\<dots> = foldl push_comp (comps_of (abs_path cs)) rest" by (simp add: norm_comps_def comps_of_def)
  finally show ?thesis using assms by (simp add: foldl_push_id)
qed (use assms in simp)

lemma resolve_absolute: "is_absolute p \<Longrightarrow> si_resolve x p = abs_path (comps_of p)"
  by (simp add: si_resolve_def path_resolve_def resolve_comps_def comps_of_def)

lemma resolve_below:
  assumes "list_all plain_comp cs" "list_all plain_comp rest"
  shows "si_resolve x (join ''/'' (abs_path cs # rest)) = abs_path (cs @ rest)"
proof -
  have "is_absolute (join ''/'' (abs_path cs # rest))" by (cases rest) (auto simp: is_absolute_def abs_path_def)
  then show ?thesis using comps_below [OF assms] by (simp add: resolve_absolute)
qed

lemma walk_existing:
  assumes "posix_fs x w" "list_all plain_comp cs" "list_all plain_comp rest"
    and "fx_realpath (si_fx x) w (abs_path cs) = Inr (abs_path cs)" "fx_realpath (si_fx x) w (abs_path (cs @ rest)) = Inr q"
  shows "canonicalWalk x w (abs_path cs) rest = Inr q"
  using assms(2-5)
proof (induction rest arbitrary: cs)
  case (Cons c rest)
  note law = posix_fsD [OF assms(1)]
  obtain r where r: "fx_realpath (si_fx x) w (abs_path (cs @ [c])) = Inr r" using law(6) [of "cs @ [c]" rest q] Cons.prems(1,2,4) by auto
  obtain n where n: "fx_lstat (si_fx x) w (abs_path (cs @ [c])) = Present n" using law(4) [OF _ r] Cons.prems(1,2) by auto
  obtain ds where ds: "list_all plain_comp ds" "r = abs_path ds" "fx_realpath (si_fx x) w (abs_path ds) = Inr (abs_path ds)" using law(2) [OF r] by auto
  show ?case
  proof (cases "nd_kind n = SymbolicLink")
    case True
    have "fx_realpath (si_fx x) w (abs_path (ds @ rest)) = Inr q" using law(5) [OF _ ds(1) r [unfolded ds(2)], of rest] Cons.prems(1,2,4) by simp
    then have "canonicalWalk x w (abs_path ds) rest = Inr q" using Cons.IH [OF ds(1) _ ds(3)] Cons.prems(2) by simp
    then show ?thesis using True n r ds(2) Cons.prems(1) by (simp add: join_abs_path)
  next
    case False
    have "canonicalWalk x w (abs_path (cs @ [c])) rest = Inr q"
      using Cons.IH [of "cs @ [c]"] Cons.prems law(3) [OF _ Cons.prems(3) n False] by simp
    then show ?thesis using False n Cons.prems(1) by (simp add: join_abs_path)
  qed
qed simp

definition fresh_below :: "'w site \<Rightarrow> 'w \<Rightarrow> string \<Rightarrow> bool" where
  "fresh_below x w q = (\<exists>ds c rest. list_all plain_comp (ds @ c # rest) \<and> q = abs_path (ds @ c # rest)
    \<and> fx_realpath (si_fx x) w (abs_path ds) = Inr (abs_path ds) \<and> fx_lstat (si_fx x) w (abs_path (ds @ [c])) = Absent)"

lemma walk_result:
  assumes "posix_fs x w" "list_all plain_comp cs" "list_all plain_comp rest"
    and "fx_realpath (si_fx x) w (abs_path cs) = Inr (abs_path cs)" "canonicalWalk x w (abs_path cs) rest = Inr q"
  shows "fx_realpath (si_fx x) w (abs_path (cs @ rest)) = Inr q \<or> fresh_below x w q"
  using assms(2-5)
proof (induction rest arbitrary: cs)
  case (Cons c rest)
  note law = posix_fsD [OF assms(1)]
  show ?case
  proof (cases "fx_lstat (si_fx x) w (abs_path (cs @ [c]))")
    case Absent
    then have "q = abs_path (cs @ c # rest)"
      using Cons.prems by (simp add: join_abs_path resolve_below del: join.simps)
    then have "fresh_below x w q" using Absent Cons.prems(1-3) by (auto simp: fresh_below_def)
    then show ?thesis ..
  next
    case (Present n)
    show ?thesis
    proof (cases "nd_kind n = SymbolicLink")
      case True
      then obtain r where r: "fx_realpath (si_fx x) w (abs_path (cs @ [c])) = Inr r" "canonicalWalk x w r rest = Inr q"
        using Cons.prems(1,4) Present by (auto simp: join_abs_path Let_def split: sum.splits)
      obtain ds where ds: "list_all plain_comp ds" "r = abs_path ds" "fx_realpath (si_fx x) w (abs_path ds) = Inr (abs_path ds)" using law(2) [OF r(1)] by auto
      have "fx_realpath (si_fx x) w (abs_path (ds @ rest)) = Inr q \<or> fresh_below x w q"
        using Cons.IH [OF ds(1) _ ds(3)] Cons.prems(2) r(2) ds(2) by simp
      then show ?thesis using law(5) [OF _ ds(1) r(1) [unfolded ds(2)], of rest] Cons.prems(1,2) by simp
    next
      case False
      then show ?thesis
        using Cons.IH [of "cs @ [c]"] Cons.prems Present law(3) [OF _ Cons.prems(3) Present False] by (simp add: join_abs_path)
    qed
  next
    case (Broken m)
    then show ?thesis using Cons.prems(1,4) by (simp add: join_abs_path)
  qed
qed simp

text \<open>
  For a path that exists, the walk that canonicalizes write targets gives exactly what
  \<^verbatim>\<open>realpath\<close> gives, symbolic links anywhere on the way included; for one that does not, it gives a
  path whose first missing entry lies directly in a canonical directory, so that no symbolic link
  can redirect what is written there.
\<close>

theorem canonical_write_path:
  assumes "posix_fs x w"
  shows "(\<forall>q. fx_realpath (si_fx x) w (si_resolve x target) = Inr q \<longrightarrow> canonicalPath x w True target = Inr q)
    \<and> (\<forall>q. canonicalPath x w True target = Inr q \<longrightarrow> fx_realpath (si_fx x) w (si_resolve x target) = Inr q \<or> fresh_below x w q)"
proof -
  have pl: "list_all plain_comp (comps_of (si_resolve x target))" by (simp add: si_resolve_def path_resolve_def)
  have e: "abs_path ([] @ comps_of (si_resolve x target)) = si_resolve x target" by (simp add: si_resolve_def path_resolve_def)
  have root: "abs_path [] = ''/''" by (simp add: abs_path_def)
  note walk = walk_existing [OF assms _ pl, of "[]"] walk_result [OF assms _ pl, of "[]"]
  show ?thesis
    using walk posix_fsD(1) [OF assms] unfolding canonicalPath_def Let_def e root by simp
qed

section \<open>Trees and file lists\<close>

definition shown :: "'w site \<Rightarrow> 'w \<Rightarrow> string \<Rightarrow> string \<times> node_kind \<Rightarrow> bool" where
  "shown x w root rk = (\<exists>dir name. name \<notin> set IGNORED_NAMES \<and> isVisibleStructuredPath x w (path_join dir name)
     \<and> fst rk = (let rel = path_relative (fx_cwd (si_fx x)) root (path_join dir name) in if rel = [] then ''.'' else rel))"

definition walk_ok :: "'w site \<Rightarrow> 'w \<Rightarrow> string \<Rightarrow> nat \<Rightarrow> walk \<Rightarrow> bool" where
  "walk_ok x w root maxEntries s = (length (wa_out s) \<le> maxEntries \<and> list_all (shown x w root) (wa_out s))"

lemma walkEntries_ok:
  assumes "\<And>full s. walk_ok x w root m s \<Longrightarrow> walk_ok x w root m (down full s)" "walk_ok x w root m s"
  shows "walk_ok x w root m (walkEntries x w root m down dir es s)"
  using assms(2)
proof (induction es arbitrary: s)
  case (Cons e es)
  let ?rel = "path_relative (fx_cwd (si_fx x)) root (path_join dir (en_name e))"
  let ?s = "s\<lparr>wa_out := wa_out s @ [(if ?rel = [] then ''.'' else ?rel, en_kind e)]\<rparr>"
  have "walk_ok x w root m ?s"
    if "\<not> m \<le> length (wa_out s)" "en_name e \<notin> set IGNORED_NAMES" "isVisibleStructuredPath x w (path_join dir (en_name e))"
    using that Cons.prems unfolding walk_ok_def shown_def by (auto simp: Let_def)
  note fresh = this
  show ?case
  proof (cases "m \<le> length (wa_out s) \<or> en_name e \<in> set IGNORED_NAMES \<or> \<not> isVisibleStructuredPath x w (path_join dir (en_name e))")
    case True
    then show ?thesis using Cons by (auto simp: Let_def)
  next
    case False
    then have f: "walk_ok x w root m ?s" using fresh by blast
    have "walk_ok x w root m (if en_kind e = Directory then down (path_join dir (en_name e)) ?s else ?s)"
      by (cases "en_kind e = Directory") (use f assms(1) [OF f] in \<open>simp_all only: if_True if_False simp_thms\<close>)
    from Cons.IH [OF this] show ?thesis using False by (simp only: walkEntries.simps Let_def if_False de_Morgan_disj simp_thms)
  qed
qed simp

lemma walkDirectory_ok:
  assumes "\<And>full s. walk_ok x w root m s \<Longrightarrow> walk_ok x w root m (down full s)" "walk_ok x w root m s"
  shows "walk_ok x w root m (walkDirectory x w root m down dir s)"
proof -
  have "walk_ok x w root m (s\<lparr>wa_visited := v\<rparr>)" for v using assms(2) by (simp add: walk_ok_def)
  then show ?thesis
    using assms(2) unfolding walkDirectory_def by (auto simp: Let_def intro!: walkEntries_ok assms(1) split: sum.splits)
qed

lemma walkLevels_ok: "walk_ok x w root m s \<Longrightarrow> walk_ok x w root m (walkLevels x w root m n dir s)"
  by (induction n arbitrary: dir s) (auto intro!: walkDirectory_ok)

text \<open>
  A tree lists at most the entries that were asked for, says whether it stopped there,
  and lists only paths that the structured check accepts.
\<close>

theorem tree_bounded_and_visible:
  assumes "walkTree x w maxDepth maxEntries root = Inr (resolved, out, truncated)"
  shows "length out \<le> maxEntries \<and> truncated = (length out = maxEntries) \<and> list_all (shown x w resolved) out
    \<and> assertStructuredPath x w False root = Inr resolved"
proof -
  have "walk_ok x w resolved maxEntries (walkLevels x w resolved maxEntries (maxDepth - 1) resolved \<lparr>wa_out = [], wa_visited = []\<rparr>)"
    by (rule walkLevels_ok) (simp add: walk_ok_def)
  then show ?thesis using assms by (auto simp: walkTree_def Let_def result_simps walk_ok_def)
qed

text \<open>Directories nested less than \<open>n\<close> deep.\<close>

primrec shallow :: "'w site \<Rightarrow> 'w \<Rightarrow> nat \<Rightarrow> string \<Rightarrow> bool" where
  "shallow x w 0 dir = False"
| "shallow x w (Suc n) dir = (case fx_readdir (si_fx x) w dir of
     Inl _ \<Rightarrow> True
   | Inr entries \<Rightarrow> list_all (\<lambda>e. en_kind e = Directory \<longrightarrow> shallow x w n (path_join dir (en_name e))) entries)"

lemma fileEntries_total:
  assumes "\<And>e out. e \<in> set es \<Longrightarrow> en_kind e = Directory \<Longrightarrow> down (path_join dir (en_name e)) out \<noteq> None"
  shows "fileEntries x w m down dir es out \<noteq> None"
  using assms
proof (induction es arbitrary: out)
  case (Cons e es)
  have t: "fileEntries x w m down dir es out \<noteq> None" for out using Cons by simp
  show ?case using Cons.prems [of e out] t by (auto simp: Let_def split: option.split sum.splits)
qed simp

lemma visibleWalk_total: "shallow x w fuel dir \<Longrightarrow> visibleWalk x w m fuel dir out \<noteq> None"
proof (induction fuel arbitrary: dir out)
  case (Suc fuel)
  have "fileEntries x w m (visibleWalk x w m fuel) dir es out \<noteq> None" if "fx_readdir (si_fx x) w dir = Inr es" for es
    by (rule fileEntries_total, rule Suc.IH) (use Suc.prems that in \<open>auto simp: list_all_iff\<close>)
  then show ?case by (auto simp del: not_None_eq split: sum.split)
qed simp

definition listed :: "'w site \<Rightarrow> 'w \<Rightarrow> string \<Rightarrow> bool" where
  "listed x w p = (\<exists>full. isVisibleStructuredPath x w full \<and> canonicalPath x w False full = Inr p)"

lemma fileEntries_listed:
  assumes "\<And>full out out'. length out \<le> m \<Longrightarrow> list_all (listed x w) out \<Longrightarrow> down full out = Some (Inr out') \<Longrightarrow>
      length out' \<le> m \<and> list_all (listed x w) out'"
    and "length out \<le> m" "list_all (listed x w) out" "fileEntries x w m down dir es out = Some (Inr out')"
  shows "length out' \<le> m \<and> list_all (listed x w) out'"
  using assms(2-4)
proof (induction es arbitrary: out)
  case (Cons e es)
  let ?full = "path_join dir (en_name e)"
  consider (skip) "m \<le> length out \<or> en_name e \<in> set IGNORED_NAMES \<or> \<not> isVisibleStructuredPath x w ?full"
      "fileEntries x w m down dir es out = Some (Inr out')"
    | (entered) out1 where "down ?full out = Some (Inr out1)" "fileEntries x w m down dir es out1 = Some (Inr out')"
    | (added) p where "length out < m" "isVisibleStructuredPath x w ?full" "canonicalPath x w False ?full = Inr p"
        "fileEntries x w m down dir es (out @ [p]) = Some (Inr out')"
    | (other) "fileEntries x w m down dir es out = Some (Inr out')"
    using Cons.prems(3) by (auto simp: Let_def split: if_splits option.splits sum.splits)
  then show ?case
  proof cases
    case skip then show ?thesis using Cons by blast
  next
    case (entered out1) then show ?thesis using Cons.IH assms(1) Cons.prems(1,2) by blast
  next
    case (added p)
    then have "listed x w p" unfolding listed_def by blast
    then have "list_all (listed x w) (out @ [p])" using Cons.prems(2) by simp
    then show ?thesis using Cons.IH [of "out @ [p]"] added by simp
  next
    case other then show ?thesis using Cons by blast
  qed
qed simp

lemma visibleWalk_listed:
  "length out \<le> m \<Longrightarrow> list_all (listed x w) out \<Longrightarrow> visibleWalk x w m fuel dir out = Some (Inr out') \<Longrightarrow>
    length out' \<le> m \<and> list_all (listed x w) out'"
proof (induction fuel arbitrary: dir out out')
  case (Suc fuel)
  have step: "length out' \<le> m \<and> list_all (listed x w) out'"
    if "fileEntries x w m (visibleWalk x w m fuel) dir es out = Some (Inr out')" for es
    by (rule fileEntries_listed [OF _ Suc.prems(1,2) that]) (rule Suc.IH)
  have "out' = out \<or> (\<exists>es. fileEntries x w m (visibleWalk x w m fuel) dir es out = Some (Inr out'))"
    using Suc.prems(3) by (auto split: if_splits sum.splits)
  then show ?case using step Suc.prems(1,2) by blast
qed simp

text \<open>
  C17 (termination).  When directories below the root are nested less than the fuel deep, the search for
  visible files returns; what it returns has at most the number of files asked for, each the
  canonical path of a file that the structured check accepts.
\<close>

theorem visible_files_returned:
  assumes "assertStructuredPath x w False root = Inr resolved" "shallow x w fuel resolved" "0 < maxFiles"
  shows "\<exists>r. visibleFilePaths x w maxFiles fuel root = Some r
    \<and> (\<forall>files. r = Inr files \<longrightarrow> length files \<le> maxFiles \<and> (files = [resolved] \<or> list_all (listed x w) files))"
proof -
  obtain r where r: "visibleWalk x w maxFiles fuel resolved [] = Some r" using visibleWalk_total [OF assms(2)] by blast
  have l: "length files \<le> maxFiles \<and> list_all (listed x w) files" if "r = Inr files" for files
    using visibleWalk_listed [of "[]" maxFiles x w fuel resolved files] r that by simp
  show ?thesis
  proof (cases "\<exists>n. fx_stat (si_fx x) w resolved = Present n \<and> nd_kind n = RegularFile")
    case True
    then show ?thesis using assms(1,3) by (auto simp: visibleFilePaths_def)
  next
    case False
    then have "visibleFilePaths x w maxFiles fuel root = Some r \<or> visibleFilePaths x w maxFiles fuel root = Some (Inr [])"
      using assms(1) r by (auto simp: visibleFilePaths_def split: lookup.splits)
    then show ?thesis using l by (elim disjE) auto
  qed
qed

end
