(* ===== verification/CoordinatorGuard.thy ===== *)
theory CoordinatorGuard
  imports Effects PathSafety
begin

text \<open>
  The guard in front of structured mutations (\<^verbatim>\<open>src/lib/coordinator-guard.js\<close>).  In the host profile
  it compares the file with the last complete read of it (content hash and Git head, kept in
  \<^verbatim>\<open>hostObservations\<close>); under S6 it asks the broker, whose answers are parameters here (the broker
  is modelled in \<open>Coordinator\<close> and \<open>BrokerProtocol\<close>).  The content version in a call is
  \<^verbatim>\<open>undefined\<close> (\<open>None\<close>), \<^verbatim>\<open>null\<close> (\<open>Some None\<close>) or a hash.
\<close>

section \<open>Parameters and state\<close>

record 'w gx =
  gx_site :: "'w site"
  gx_environ :: "(string \<times> string) list"
  gx_brokerReady :: "'w \<Rightarrow> bool"
  gx_coordinate :: "string \<Rightarrow> string \<Rightarrow> string option option \<Rightarrow> 'w \<Rightarrow> json result \<times> 'w"
  gx_observe :: "string \<Rightarrow> string option \<Rightarrow> 'w \<Rightarrow> json result \<times> 'w"

record observation =
  ob_content :: "string option"
  ob_head :: "string option"

record 'w tools =
  to_world :: 'w
  to_observed :: "(string \<times> observation) list"
  to_pending :: "json option"

type_synonym ('w, 'a) tact = "('w tools, 'a) act"

definition seen :: "('w \<Rightarrow> 'a result) \<Rightarrow> ('w, 'a) tact" where
  "seen f = look (\<lambda>s. f (to_world s))"

definition ask :: "('w \<Rightarrow> 'a result \<times> 'w) \<Rightarrow> ('w, 'a) tact" where
  "ask f = andThen (call (\<lambda>s. case f (to_world s) of (r, w) \<Rightarrow> (r, s\<lparr>to_world := w\<rparr>))) (\<lambda>r. case r of Inr v \<Rightarrow> ret v | Inl e \<Rightarrow> fail (message e))"

definition COVERED_ROUTES :: "string list" where
  "COVERED_ROUTES = [''write_file'', ''edit_file'', ''apply_patch'']"

definition coordinatorRouteCovered :: "string \<Rightarrow> bool" where
  "coordinatorRouteCovered operation = (operation \<in> set COVERED_ROUTES)"

definition host_profile :: "'w gx \<Rightarrow> bool" where
  "host_profile g = (c_profile (si_config (gx_site g)) = ''host'')"

definition governance_s6 :: "'w gx \<Rightarrow> bool" where
  "governance_s6 g = (fx_environ (si_fx (gx_site g)) ''BRIDGE_GOVERNANCE_MODE'' = Some ''s6'')"

section \<open>Target and snapshot\<close>

record target =
  tg_root :: string
  tg_resolved :: string
  tg_canonical :: string
  tg_relative :: string

definition existing_real :: "'w site \<Rightarrow> 'w \<Rightarrow> string \<Rightarrow> string result" where
  "existing_real x w p = (if existsSync (si_fx x) w p then fx_realpath (si_fx x) w p else Inr p)"

definition coordinatorTargetPath :: "'w site \<Rightarrow> 'w \<Rightarrow> string \<Rightarrow> target result" where
  "coordinatorTargetPath x w targetPath =
    (let env = fx_environ (si_fx x); cwd = fx_cwd (si_fx x) in
    bindE (if env_or env ''DEFAULT_WORKSPACE'' [] \<noteq> [] then Inr (env_or env ''DEFAULT_WORKSPACE'' [])
           else bindE (currentWorkspace x w) (\<lambda>c. Inr (if c \<noteq> [] then c else cwd))) (\<lambda>chosen.
    bindE (existing_real x w (si_resolve x chosen)) (\<lambda>root.
    bindE (existing_real x w (si_resolve x targetPath)) (\<lambda>canonicalTarget.
    bindE (ensure (si_within x canonicalTarget root \<and> canonicalTarget \<noteq> root) ''coordinator target is outside the current workspace'') (\<lambda>_.
    let relative = path_relative cwd root canonicalTarget in
    bindE (ensure (relative \<noteq> [] \<and> relative \<noteq> ''.'' \<and> nul \<notin> set relative
        \<and> list_all (\<lambda>p. p \<noteq> [] \<and> p \<noteq> ''.'' \<and> p \<noteq> ''..'') (split_on slash relative)) ''coordinator target is not a normalized repository-relative file'') (\<lambda>_.
    Inr \<lparr>tg_root = root, tg_resolved = si_resolve x targetPath, tg_canonical = canonicalTarget, tg_relative = relative\<rparr>))))))"

definition hostHead :: "'w gx \<Rightarrow> 'w \<Rightarrow> string \<Rightarrow> string option result" where
  "hostHead g w root =
    (let run = (\<lambda>args. fx_git (si_fx (gx_site g)) w args root (gx_environ g)) in
     if p_status (run [''rev-parse'', ''--is-inside-work-tree'']) \<noteq> Some 0 then Inr None
     else let res = run [''rev-parse'', ''HEAD'']; head = trim (p_stdout res) in
       bindE (ensure (p_status res = Some 0 \<and> hex_40_64 head) ''host Git HEAD observation is unavailable'') (\<lambda>_. Inr (Some head)))"

definition activeWorkspace :: "'w gx \<Rightarrow> string \<Rightarrow> (string \<times> string) result" where
  "activeWorkspace g m = (case si_active (gx_site g) of Some a \<Rightarrow> Inr a | None \<Rightarrow> throw m)"

text \<open>The worktree of no active workspace is read as a property of \<^verbatim>\<open>null\<close>, which throws.\<close>

definition hostSnapshot :: "'w gx \<Rightarrow> 'w \<Rightarrow> string \<Rightarrow> observation result" where
  "hostSnapshot g w targetPath =
    (let x = gx_site g; resolved = si_resolve x targetPath in
    bindE (if existsSync (si_fx x) w resolved
           then (case fx_lstat (si_fx x) w resolved of
               Present n \<Rightarrow>
                 bindE (ensure (nd_kind n = RegularFile) ''host freshness target is not a regular file'') (\<lambda>_.
                 bindE (fx_readFile (si_fx x) w resolved) (\<lambda>bytes. Inr (Some (fx_sha256 (si_fx x) bytes))))
             | Absent \<Rightarrow> throw (''ENOENT: '' @ resolved) | Broken m \<Rightarrow> throw m)
           else Inr None) (\<lambda>contentSha256.
    bindE (activeWorkspace g ''Cannot read properties of null (reading 'worktreePath')'') (\<lambda>active.
    bindE (hostHead g w (snd active)) (\<lambda>head.
    Inr \<lparr>ob_content = contentSha256, ob_head = head\<rparr>))))"

definition hostObservationKey :: "'w gx \<Rightarrow> string \<Rightarrow> string \<Rightarrow> string" where
  "hostObservationKey g workspaceId targetPath = workspaceId @ '':'' @ si_resolve (gx_site g) targetPath"

section \<open>Before a mutation\<close>

text \<open>What the guard hands to the write boundary: nothing was checked, a host snapshot, or the broker's answer.\<close>

datatype guarded = Unchecked | HostFresh observation | BrokerAnswer json

definition hostBeforeMutation :: "'w gx \<Rightarrow> string \<Rightarrow> string option option \<Rightarrow> ('w, guarded) tact" where
  "hostBeforeMutation g targetPath observed =
    andThen (look (\<lambda>_. activeWorkspace g ''host mutation requires explicit workspace context'')) (\<lambda>active.
    andThen (seen (\<lambda>w. coordinatorTargetPath (gx_site g) w targetPath)) (\<lambda>t.
    andThen (seen (\<lambda>w. hostSnapshot g w (tg_canonical t))) (\<lambda>current.
    andThen (look (\<lambda>s. case map_of (to_observed s) (hostObservationKey g (fst active) (tg_canonical t)) of
        None \<Rightarrow> ensure (ob_content current = None \<and> observed = Some None) ''STALE_OBSERVATION: reread the file before mutation (REFRESH)''
      | Some saved \<Rightarrow> ensure (ob_content saved = ob_content current \<and> ob_head saved = ob_head current)
          ''STALE_OBSERVATION: file content or Git HEAD moved; reread before mutation (REFRESH)'')) (\<lambda>_.
    andThen (guard (observed = None \<or> observed = Some (ob_content current)) ''STALE_OBSERVATION: request bytes changed before mutation (REFRESH)'') (\<lambda>_.
    ret (HostFresh current))))))"

definition allowing :: "json \<Rightarrow> bool" where
  "allowing r = (truthy (Some r) \<and> get r ''decision'' \<in> {Some (JStr ''ALLOW''), Some (JStr ''WARN'')})"

definition reason_of :: "json \<Rightarrow> string" where
  "reason_of r = (case get r ''reason_code'' of Some JNull \<Rightarrow> ''COORDINATOR_PROCESS_UNAVAILABLE'' | None \<Rightarrow> ''COORDINATOR_PROCESS_UNAVAILABLE''
     | Some v \<Rightarrow> if truthy (Some v) then to_string v else ''COORDINATOR_PROCESS_UNAVAILABLE'')"

definition content_version_ok :: "string option \<Rightarrow> bool" where
  "content_version_ok v = (case v of None \<Rightarrow> True | Some h \<Rightarrow> hex_exact 64 h)"

definition coordinatorBeforeMutation :: "'w gx \<Rightarrow> string \<Rightarrow> string \<Rightarrow> string option option \<Rightarrow> ('w, guarded) tact" where
  "coordinatorBeforeMutation g operation targetPath observed =
    andThen (guard (coordinatorRouteCovered operation) ''coordinator route is not covered by this adapter'') (\<lambda>_.
    if host_profile g then hostBeforeMutation g targetPath observed
    else if \<not> governance_s6 g then ret Unchecked
    else
      andThen (seen (\<lambda>w. ensure (gx_brokerReady g w) ''S7-B coordinator channel is not registered'')) (\<lambda>_.
      andThen (seen (\<lambda>w. coordinatorTargetPath (gx_site g) w targetPath)) (\<lambda>t.
      andThen (guard (content_version_ok (case observed of None \<Rightarrow> None | Some v \<Rightarrow> v)) ''coordinator observed content version is invalid'') (\<lambda>_.
      andThen (ask (gx_coordinate g operation (tg_relative t) observed)) (\<lambda>r.
      andThen (guard (allowing r) (''coordinator denied '' @ operation @ '': '' @ reason_of r)) (\<lambda>_.
      ret (BrokerAnswer r)))))))"

definition note_observation :: "string \<Rightarrow> observation \<Rightarrow> ('w, unit) tact" where
  "note_observation key ob = store (\<lambda>s. s\<lparr>to_observed := (key, ob) # filter (\<lambda>kv. fst kv \<noteq> key) (to_observed s)\<rparr>)"

text \<open>A complete read; \<^verbatim>\<open>contentSha256\<close> is the hash of the bytes that were returned.\<close>

definition coordinatorObserveRead :: "'w gx \<Rightarrow> string \<Rightarrow> string option \<Rightarrow> ('w, unit) tact" where
  "coordinatorObserveRead g targetPath contentSha256 =
    (if host_profile g then
       andThen (look (\<lambda>_. activeWorkspace g ''host observation requires explicit workspace context'')) (\<lambda>active.
       andThen (seen (\<lambda>w. coordinatorTargetPath (gx_site g) w targetPath)) (\<lambda>t.
       andThen (seen (\<lambda>w. hostHead g w (snd active))) (\<lambda>head.
       note_observation (hostObservationKey g (fst active) (tg_canonical t)) \<lparr>ob_content = contentSha256, ob_head = head\<rparr>)))
     else if \<not> governance_s6 g then ret ()
     else
       andThen (seen (\<lambda>w. ensure (gx_brokerReady g w) ''S7-B coordinator channel is not registered'')) (\<lambda>_.
       andThen (seen (\<lambda>w. coordinatorTargetPath (gx_site g) w targetPath)) (\<lambda>t.
       andThen (guard (content_version_ok contentSha256) ''coordinator observed content version is invalid'') (\<lambda>_.
       andThen (ask (gx_observe g (tg_relative t) contentSha256)) (\<lambda>r.
       guard (allowing r) (''coordinator observation denied: '' @ reason_of r))))))"

section \<open>The write boundary\<close>

text \<open>\<^verbatim>\<open>sameContentVersion\<close> on the version found and the one expected, both as JSON objects.\<close>

definition sameContentVersion :: "json \<Rightarrow> json \<Rightarrow> bool" where
  "sameContentVersion actual expected =
    (if get actual ''state'' \<noteq> get expected ''state'' then False
     else if get actual ''state'' = Some (JStr ''absent'') then True
     else get actual ''algorithm'' = get expected ''algorithm'' \<and> get actual ''hex'' = get expected ''hex'')"

definition actualVersion :: "'w site \<Rightarrow> 'w \<Rightarrow> string \<Rightarrow> json result" where
  "actualVersion x w canonicalTarget =
    (if \<not> existsSync (si_fx x) w canonicalTarget then Inr (JObj [(''state'', JStr ''absent'')])
     else (case fx_lstat (si_fx x) w canonicalTarget of
         Present n \<Rightarrow>
           bindE (ensure (nd_kind n = RegularFile) ''coordinator target changed to a non-regular file at the write boundary'') (\<lambda>_.
           bindE (fx_readFile (si_fx x) w canonicalTarget) (\<lambda>bytes.
           Inr (JObj [(''state'', JStr ''present''), (''algorithm'', JStr ''sha256''), (''hex'', JStr (fx_sha256 (si_fx x) bytes))])))
       | Absent \<Rightarrow> throw (''ENOENT: '' @ canonicalTarget) | Broken m \<Rightarrow> throw m))"

definition expectedVersion :: "guarded \<Rightarrow> json option" where
  "expectedVersion r =
    (case r of BrokerAnswer j \<Rightarrow>
       Option.bind (get j ''freshness'') (\<lambda>f. Option.bind (get f ''current'') (\<lambda>c. get c ''worktree_content_version''))
     | _ \<Rightarrow> None)"

definition is_object_value :: "json option \<Rightarrow> bool" where
  "is_object_value v = (case v of Some (JObj _) \<Rightarrow> True | Some (JArr _) \<Rightarrow> True | _ \<Rightarrow> False)"

definition assertCoordinatorWriteBoundary :: "'w gx \<Rightarrow> string \<Rightarrow> guarded \<Rightarrow> ('w, unit) tact" where
  "assertCoordinatorWriteBoundary g targetPath result =
    (if host_profile g then
       (case result of
          HostFresh expected \<Rightarrow>
            andThen (seen (\<lambda>w. hostSnapshot g w targetPath)) (\<lambda>actual.
            guard (ob_head actual = ob_head expected \<and> ob_content actual = ob_content expected) ''host freshness changed at write boundary: REFRESH'')
        | _ \<Rightarrow> fail ''host freshness evidence is missing at the write boundary'')
     else if \<not> governance_s6 g then ret ()
     else
       andThen (guard (is_object_value (expectedVersion result)) ''coordinator freshness evidence is missing at the write boundary'') (\<lambda>_.
       andThen (seen (\<lambda>w. coordinatorTargetPath (gx_site g) w targetPath)) (\<lambda>t.
       andThen (seen (\<lambda>w. actualVersion (gx_site g) w (tg_canonical t))) (\<lambda>actual.
       guard (sameContentVersion actual (the (expectedVersion result)))
         (''coordinator freshness changed at write boundary: REFRESH (expected='' @ stringify (the (expectedVersion result)) @ '' actual='' @ stringify actual @ '')'')))))"

end
