(* ===== verification/TextTools.thy ===== *)
theory TextTools
  imports JsonText JsRegex
begin

text \<open>
  The text helpers of the tools (\<^verbatim>\<open>src/lib/text.js\<close>): clipped replies, indented JSON, the
  splitting of an argument line and the redaction of secrets.  \<open>ellipsis\<close> stands for the character
  outside the model's 8-bit range.
\<close>

section \<open>Clipping and replies\<close>

definition clip :: "nat \<Rightarrow> string \<Rightarrow> string" where
  "clip max_chars value =
    (if length value \<le> max_chars then value
     else take max_chars value @ [nl, nl, ellipsis] @ '' truncated '' @ digits_of (length value - max_chars) @ '' chars'')"

definition clip_tail :: "nat \<Rightarrow> string \<Rightarrow> string" where
  "clip_tail max_chars value =
    (if length value \<le> max_chars then value
     else [ellipsis] @ '' truncated '' @ digits_of (length value - max_chars) @ '' chars; showing tail '' @ [ellipsis, nl] @
       (if max_chars = 0 then value else drop (length value - max_chars) value))"

text \<open>\<^verbatim>\<open>JSON.stringify(value, null, 2)\<close>; the first argument is the indentation reached.\<close>

definition json_lines :: "nat \<Rightarrow> char \<Rightarrow> char \<Rightarrow> string list \<Rightarrow> string" where
  "json_lines ind a b items =
    (if items = [] then [a, b]
     else [a, nl] @ join ([CHR '','', nl]) (map (\<lambda>i. replicate (ind + 2) (CHR '' '') @ i) items) @ [nl] @ replicate ind (CHR '' '') @ [b])"

fun pretty :: "nat \<Rightarrow> json \<Rightarrow> string" where
  "pretty ind (JArr vs) = json_lines ind (CHR ''['') (CHR '']'') (map (pretty (ind + 2)) vs)"
| "pretty ind (JObj kvs) = json_lines ind (CHR ''{'') (CHR ''}'') (map (\<lambda>(k, v). quote_string k @ '': '' @ pretty (ind + 2) v) kvs)"
| "pretty ind v = stringify v"

text \<open>The limits are those of the configuration.\<close>

record limits =
  max_stdout :: nat
  max_stderr :: nat

record reply =
  rp_text :: string
  rp_error :: bool

definition ok_reply :: "limits \<Rightarrow> string \<Rightarrow> reply" where
  "ok_reply l s = \<lparr>rp_text = clip (max_stdout l) s, rp_error = False\<rparr>"

definition fail_reply :: "limits \<Rightarrow> string \<Rightarrow> json option \<Rightarrow> reply" where
  "fail_reply l s details =
    \<lparr>rp_text = clip (max_stderr l) (if truthy details then s @ [nl] @ clip (max_stderr l) (pretty 0 (the details)) else s), rp_error = True\<rparr>"

definition json_reply :: "limits \<Rightarrow> json \<Rightarrow> reply" where
  "json_reply l v = ok_reply l (pretty 0 v)"

lemma reply_kinds [simp]: "rp_error (fail_reply l m d)" "\<not> rp_error (ok_reply l m)" "\<not> rp_error (json_reply l v)"
  by (simp_all add: fail_reply_def ok_reply_def json_reply_def)

section \<open>Splitting arguments\<close>

definition escapable :: "char \<Rightarrow> bool" where
  "escapable c = (is_space c \<or> c = backslash \<or> c = dquote \<or> c = squote)"

fun splitFrom :: "string \<Rightarrow> string list \<Rightarrow> string \<Rightarrow> char option \<Rightarrow> string list result" where
  "splitFrom [] args current quote =
    (if quote \<noteq> None then throw ''unterminated quote in arguments''
     else Inr (if current \<noteq> [] then args @ [current] else args))"
| "splitFrom (c # s) args current quote =
    (if c = backslash \<and> quote \<noteq> Some squote \<and> s \<noteq> [] \<and> escapable (hd s) then splitFrom (tl s) args (current @ [hd s]) quote
     else case quote of
         Some q \<Rightarrow> if c = q then splitFrom s args current None else splitFrom s args (current @ [c]) quote
       | None \<Rightarrow>
           if c = squote \<or> c = dquote then splitFrom s args current (Some c)
           else if is_space c then splitFrom s (if current \<noteq> [] then args @ [current] else args) [] None
           else splitFrom s args (current @ [c]) None)"

definition splitArgs :: "string \<Rightarrow> string list result" where
  "splitArgs source = splitFrom source [] [] None"

section \<open>Redaction\<close>

definition SECRET_KEY :: re where
  "SECRET_KEY = alts [lit_i ''authorization'', lit_i ''cookie'', lit_i ''token'', lit_i ''secret'', lit_i ''password'',
     seqs [lit_i ''api'', Opt (Chr (one_of ''-_'')), lit_i ''key''], lit_i ''credential'']"

definition TOKEN_TEXT :: re where
  "TOKEN_TEXT = seqs [Wb, alts
     [seqs [lit_i ''sk-'', rep 12 (Chr (\<lambda>c. is_word c \<or> c = CHR ''-'')), Star (Chr (\<lambda>c. is_word c \<or> c = CHR ''-''))],
      seqs [lit_i ''Bearer'', spaces, rep 12 (Chr (\<lambda>c. is_word c \<or> c \<in> set ''.~-'')), Star (Chr (\<lambda>c. is_word c \<or> c \<in> set ''.~-''))]], Wb]"

definition ASSIGNED_KEY :: re where
  "ASSIGNED_KEY = seqs [Wb, alts [lit_i ''password'', lit_i ''passwd'', lit_i ''token'', lit_i ''secret'',
       seqs [lit_i ''api'', Opt (Chr (one_of ''-_'')), lit_i ''key''], lit_i ''authorization''],
     alts [seqs [spaces0, Chr (one_of ''=:''), spaces0], spaces]]"

definition ASSIGNED_VALUE :: re where
  "ASSIGNED_VALUE = Plus (Chr (\<lambda>c. \<not> is_space c \<and> c \<noteq> squote \<and> c \<noteq> dquote))"

definition redact_string :: "string \<Rightarrow> string" where
  "redact_string s = clip 4000 (replace_all ASSIGNED_KEY ASSIGNED_VALUE ''[REDACTED]'' (replace_all Eps TOKEN_TEXT ''[REDACTED]'' s))"

fun redact :: "json \<Rightarrow> string \<Rightarrow> json" where
  "redact v key = (if re_test SECRET_KEY key then JStr ''[REDACTED]'' else
    case v of
      JArr vs \<Rightarrow> JArr (map (\<lambda>i. redact i []) vs)
    | JObj kvs \<Rightarrow> JObj (map (\<lambda>(k, i). (k, redact i k)) kvs)
    | JStr s \<Rightarrow> JStr (redact_string s)
    | _ \<Rightarrow> v)"

section \<open>Facts\<close>

lemma digits_of_ne: "digits_of n \<noteq> []"
  by (subst digits_of.simps) simp

lemma length_digits_of: "n < 10 ^ k \<Longrightarrow> 0 < k \<Longrightarrow> length (digits_of n) \<le> k"
proof (induction k arbitrary: n)
  case (Suc k)
  show ?case
  proof (cases "n < 10")
    case True
    then show ?thesis by (subst digits_of.simps) simp
  next
    case False
    then have "0 < k" using Suc.prems(1) by (cases k) auto
    then have "length (digits_of (n div 10)) \<le> k" using Suc by (simp add: less_mult_imp_div_less)
    then show ?thesis using False by (subst digits_of.simps) simp
  qed
qed simp

lemma clip_keeps: "length s \<le> m \<Longrightarrow> clip m s = s" "m < length s \<Longrightarrow> take m (clip m s) = take m s"
  by (auto simp: clip_def)

lemma length_clip: "length s < 10 ^ k \<Longrightarrow> 0 < k \<Longrightarrow> length (clip m s) \<le> m + 20 + k"
  using length_digits_of [of "length s - m" k] by (auto simp: clip_def)

text \<open>Escaping every character that splitting treats specially.\<close>

definition escape_arg :: "string \<Rightarrow> string" where
  "escape_arg a = concat (map (\<lambda>c. if escapable c then [backslash, c] else [c]) a)"

lemma split_escaped:
  "splitFrom (escape_arg a @ s) args current None = splitFrom s args (current @ a) None"
  unfolding escape_arg_def
proof (induction a arbitrary: current)
  case (Cons c a)
  show ?case
  proof (cases "escapable c")
    case True
    then show ?thesis using Cons by simp
  next
    case False
    then have "c \<noteq> backslash" "c \<noteq> squote" "c \<noteq> dquote" "\<not> is_space c" by (auto simp: escapable_def)
    then show ?thesis using Cons False by simp
  qed
qed simp

lemma escape_arg_ne: "a \<noteq> [] \<Longrightarrow> escape_arg a \<noteq> []"
  by (cases a) (auto simp: escape_arg_def)

text \<open>
  Arguments that are escaped and joined by spaces are split back into themselves,
  whatever characters they hold.
\<close>

theorem split_args_roundtrip:
  assumes "list_all (\<lambda>a. a \<noteq> []) args"
  shows "splitArgs (join '' '' (map escape_arg args)) = Inr args"
proof -
  have "splitFrom (join '' '' (map escape_arg args)) before [] None = Inr (before @ args)" for before
    using assms
  proof (induction args arbitrary: before rule: induct_list012)
    case (2 a)
    then show ?case using split_escaped [of a "[]" before "[]"] by simp
  next
    case (3 a b args)
    have "is_space (CHR '' '')" by (simp add: is_space_def)
    then have "splitFrom (CHR '' '' # s) before a None = splitFrom s (before @ [a]) [] None" for s
      using 3(3) by simp
    then show ?case using 3 split_escaped [of a _ before "[]"] by simp
  qed simp
  then show ?thesis by (simp add: splitArgs_def)
qed

text \<open>What a redacted value may hold: under a secret key only the mark, elsewhere clipped strings.\<close>

fun redacted :: "json \<Rightarrow> string \<Rightarrow> bool" where
  "redacted v key = (if re_test SECRET_KEY key then v = JStr ''[REDACTED]'' else
    case v of
      JArr vs \<Rightarrow> list_all (\<lambda>i. redacted i []) vs
    | JObj kvs \<Rightarrow> list_all (\<lambda>(k, i). redacted i k) kvs
    | JStr s \<Rightarrow> (\<exists>t. s = redact_string t)
    | _ \<Rightarrow> True)"

declare redact.simps [simp del] redacted.simps [simp del]

text \<open>
  Redaction reaches every depth: whatever is stored under a key that names a secret is
  replaced by the mark, and every other string has gone through the token patterns and the limit of
  4000 characters.  Everything else keeps its shape.
\<close>

theorem redaction_complete: "redacted (redact v key) key \<and> (\<not> re_test SECRET_KEY key \<longrightarrow> keys (redact v key) = keys v)"
proof -
  have "redacted (redact v key) key"
  proof (induction v key rule: redact.induct)
    case (1 v key)
    show ?case
    proof (cases "re_test SECRET_KEY key")
      case False
      show ?thesis
        by (subst redact.simps, subst redacted.simps, cases v) (use 1 False in \<open>auto simp: list_all_iff\<close>)
    qed (simp add: redact.simps redacted.simps)
  qed
  moreover have "\<not> re_test SECRET_KEY key \<Longrightarrow> keys (redact v key) = keys v" by (subst redact.simps, cases v) (auto simp: keys_def)
  ultimately show ?thesis by blast
qed

end
