(* ===== verification/PendingActions.thy ===== *)
theory PendingActions
  imports Effects HostConfig TextTools
begin

text \<open>
  The queue of destructive actions that wait for approval (\<^verbatim>\<open>src/lib/policy.js\<close>): previews are
  stored with a token, a fingerprint and a time to live, and a token is taken at most once.  The
  clock, randomness, SHA-256, the audit log, the verifier program and the order of
  \<^verbatim>\<open>localeCompare\<close> are parameters (\<open>px\<close>).  Tokens are looked up among the keys of the file.
\<close>

section \<open>Parameters and state\<close>

record 'w px =
  px_fx :: "'w fx"
  px_config :: config
  px_clock :: "'w \<Rightarrow> int \<times> 'w"
  px_iso :: "int \<Rightarrow> string"
  px_parse_date :: "string \<Rightarrow> int option"
  px_random :: "'w \<Rightarrow> string \<times> 'w"
  px_audit :: "string \<Rightarrow> json \<Rightarrow> 'w \<Rightarrow> bool \<times> 'w"
  px_spawn :: "string \<Rightarrow> string list \<Rightarrow> (string \<times> string) list \<Rightarrow> 'w \<Rightarrow> proc_result \<times> 'w"
  px_by_key :: "(string \<times> json) list \<Rightarrow> (string \<times> json) list"
  px_oldest_first :: "json list \<Rightarrow> json list"

text \<open>\<open>pe_file\<close> is the value in \<^verbatim>\<open>pending-destructive.json\<close>; \<open>None\<close> when there is no file or it does not parse.\<close>

record 'w pend =
  pe_world :: 'w
  pe_file :: "json option"

type_synonym ('w, 'a) pact = "('w pend, 'a) act"

definition on_world :: "('w \<Rightarrow> 'a \<times> 'w) \<Rightarrow> ('w, 'a) pact" where
  "on_world f = call (\<lambda>s. case f (pe_world s) of (y, w) \<Rightarrow> (y, s\<lparr>pe_world := w\<rparr>))"

text \<open>\<^verbatim>\<open>loadJson\<close>.\<close>

definition loadJson :: "'w pend \<Rightarrow> (string \<times> json) list" where
  "loadJson s = (case pe_file s of Some (JObj kvs) \<Rightarrow> kvs | _ \<Rightarrow> [])"

definition savePending :: "(string \<times> json) list \<Rightarrow> ('w, unit) pact" where
  "savePending kvs = store (\<lambda>s. s\<lparr>pe_file := Some (JObj kvs)\<rparr>)"

section \<open>Expiry\<close>

definition expired :: "'w px \<Rightarrow> int \<Rightarrow> json \<Rightarrow> bool result" where
  "expired x now item =
    (if item = JNull then throw ''Cannot read properties of null (reading 'expiresAt')''
     else Inr (\<not> truthy (get item ''expiresAt'') \<or>
       (case px_parse_date x (to_string (the (get item ''expiresAt''))) of Some t \<Rightarrow> t \<le> now | None \<Rightarrow> False)))"

text \<open>What is left, and whether something was deleted.\<close>

fun purgeExpired :: "'w px \<Rightarrow> int \<Rightarrow> (string \<times> json) list \<Rightarrow> ((string \<times> json) list \<times> bool) result" where
  "purgeExpired x now [] = Inr ([], False)"
| "purgeExpired x now ((tok, item) # kvs) =
    bindE (expired x now item) (\<lambda>e.
    bindE (purgeExpired x now kvs) (\<lambda>(kept, changed).
    Inr (if e then (kept, True) else ((tok, item) # kept, changed))))"

section \<open>Queueing\<close>

definition stringified :: "string \<Rightarrow> json \<Rightarrow> json" where
  "stringified k v = (case get v k of None \<Rightarrow> v | Some JNull \<Rightarrow> v | Some j \<Rightarrow> put_field k (JStr (to_string j)) v)"

definition normalizeAction :: "json \<Rightarrow> json" where
  "normalizeAction action = fold stringified [''command'', ''action'', ''summary'', ''cwd'', ''path'', ''diff''] (JObj (spread action))"

definition fingerprint :: "'w px \<Rightarrow> json \<Rightarrow> string" where
  "fingerprint x v = fx_sha256 (px_fx x) (stringify (JObj (px_by_key x (case v of JObj kvs \<Rightarrow> kvs | _ \<Rightarrow> []))))"

text \<open>A field of an object literal; \<^verbatim>\<open>undefined\<close> is left out of the JSON text.\<close>

definition opt_field :: "string \<Rightarrow> json option \<Rightarrow> (string \<times> json) list" where
  "opt_field k v = (case v of None \<Rightarrow> [] | Some j \<Rightarrow> [(k, j)])"

definition if_truthy :: "json option \<Rightarrow> (json \<Rightarrow> json) \<Rightarrow> json option" where
  "if_truthy v f = (if truthy v then map_option f v else None)"

definition absent :: "json option \<Rightarrow> bool" where
  "absent v = (v = None \<or> v = Some JNull)"

definition request_view :: "'w px \<Rightarrow> json \<Rightarrow> json" where
  "request_view x r =
    JObj ([(''method'', if truthy (get r ''method'') then the (get r ''method'') else JStr ''GET'')] @ opt_field ''url'' (get r ''url'') @
      (if absent (get r ''body'') then [] else [(''bodySha256'', JStr (fx_sha256 (px_fx x) (to_string (the (get r ''body'')))))]) @
      [(''headerNames'', JArr (map JStr (sort_strings (if truthy (get r ''headers'') then keys (the (get r ''headers'')) else []))))])"

definition preview :: "'w px \<Rightarrow> json \<Rightarrow> string" where
  "preview x item =
    (let f = get item; clipped = (\<lambda>v. JStr (clip 4000 (to_string v))) in
     clip 8000 (pretty 0 (JObj (opt_field ''kind'' (f ''kind'') @ opt_field ''summary'' (f ''summary'') @ opt_field ''cwd'' (f ''cwd'') @
       opt_field ''path'' (f ''path'') @ opt_field ''command'' (if_truthy (f ''command'') clipped) @
       opt_field ''action'' (if_truthy (f ''action'') clipped) @ opt_field ''tool'' (f ''tool'') @
       opt_field ''request'' (if_truthy (f ''request'') (request_view x)) @
       (if absent (f ''diff'') then opt_field ''diffPreview'' (f ''diffPreview'')
        else [(''diffSha256'', JStr (fx_sha256 (px_fx x) (to_string (the (f ''diff''))))), (''diffPreview'', clipped (the (f ''diff'')))]) @
       opt_field ''fingerprint'' (f ''fingerprint'')))))"

definition queued_item :: "'w px \<Rightarrow> json \<Rightarrow> string \<Rightarrow> int \<Rightarrow> json" where
  "queued_item x normalized tok now =
    put_fields [(''token'', JStr tok), (''createdAt'', JStr (px_iso x now)), (''expiresAt'', JStr (px_iso x (now + c_tokenTtlMs (px_config x)))),
      (''fingerprint'', JStr (fingerprint x normalized)), (''approvalMode'', JStr (c_approvalMode (px_config x)))] normalized"

text \<open>Assignment \<^verbatim>\<open>pending[token] = item\<close>.\<close>

definition with_token :: "string \<Rightarrow> json \<Rightarrow> (string \<times> json) list \<Rightarrow> (string \<times> json) list" where
  "with_token tok item kvs = (case put_field tok item (JObj kvs) of JObj out \<Rightarrow> out | _ \<Rightarrow> kvs)"

definition queueDestructive :: "'w px \<Rightarrow> json \<Rightarrow> ('w, json) pact" where
  "queueDestructive x action =
    andThen (look (\<lambda>s. Inr (loadJson s))) (\<lambda>loaded.
    andThen (on_world (px_clock x)) (\<lambda>purgeTime.
    andThen (look (\<lambda>_. purgeExpired x purgeTime loaded)) (\<lambda>purged.
    andThen (on_world (px_random x)) (\<lambda>bytes.
    andThen (on_world (px_clock x)) (\<lambda>now.
    let tok = ''del_'' @ bytes; normalized = normalizeAction action; item = queued_item x normalized tok now;
        pending = with_token tok item (fst purged) in
    andThen (on_world (px_audit x ''destructive.preview'' (JObj ([(''approvalToken'', JStr tok)] @ opt_field ''fingerprint'' (get item ''fingerprint'') @
        opt_field ''kind'' (get item ''kind'') @ opt_field ''cwd'' (get item ''cwd'') @ opt_field ''path'' (get item ''path'') @
        [(''preview'', JStr (preview x item))])))) (\<lambda>audited.
    andThen (guard (audited \<or> \<not> c_auditFailClosed (px_config x)) ''destructive action blocked because audit persistence failed'') (\<lambda>_.
    andThen (savePending pending) (\<lambda>_.
    ret item))))))))"

definition listPending :: "'w px \<Rightarrow> ('w, json list) pact" where
  "listPending x =
    andThen (look (\<lambda>s. Inr (loadJson s))) (\<lambda>loaded.
    andThen (on_world (px_clock x)) (\<lambda>now.
    andThen (look (\<lambda>_. purgeExpired x now loaded)) (\<lambda>(pending, changed).
    andThen (if changed then savePending pending else ret ()) (\<lambda>_.
    ret (px_oldest_first x (map snd pending))))))"

section \<open>Taking\<close>

datatype verdict = Approved | Denied string

text \<open>The \<^verbatim>\<open>try\<close> block: the verifier is a regular file with the pinned hash.\<close>

definition checkVerifier :: "'w px \<Rightarrow> 'w \<Rightarrow> verdict" where
  "checkVerifier x w =
    (let command = c_verifierCommand (px_config x); fx = px_fx x in
     case fx_lstat fx w command of
       Absent \<Rightarrow> Denied (''external verifier validation failed: ENOENT: '' @ command)
     | Broken m \<Rightarrow> Denied (''external verifier validation failed: '' @ m)
     | Present n \<Rightarrow>
         if nd_kind n \<noteq> RegularFile then Denied ''external verifier must be a regular non-symlink executable''
         else (case fx_readFile fx w command of
             Inl e \<Rightarrow> Denied (''external verifier validation failed: '' @ message e)
           | Inr bytes \<Rightarrow>
               if fx_sha256 fx bytes \<noteq> lower (c_verifierSha256 (px_config x)) then Denied ''external verifier hash mismatch'' else Approved))"

definition verifyExternalApproval :: "'w px \<Rightarrow> string \<Rightarrow> string \<Rightarrow> ('w, verdict) pact" where
  "verifyExternalApproval x tok fingerprintValue =
    (let c = px_config x; command = c_verifierCommand c; env = fx_environ (px_fx x) in
     if command = [] then ret (Denied ''APPROVAL_VERIFIER_COMMAND is required for external approval mode'')
     else if \<not> is_absolute command then ret (Denied ''APPROVAL_VERIFIER_COMMAND must be an absolute executable path'')
     else if \<not> hex_exact 64 (lower (c_verifierSha256 c)) then ret (Denied ''APPROVAL_VERIFIER_SHA256 must pin the verifier executable'')
     else andThen (look (\<lambda>s. Inr (checkVerifier x (pe_world s)))) (\<lambda>v.
       if v \<noteq> Approved then ret v
       else andThen (on_world (px_spawn x command [''verify'', tok, fingerprintValue]
           [(''PATH'', env_or env ''PATH'' []), (''HOME'', env_or env ''HOME'' []), (''USERPROFILE'', env_or env ''USERPROFILE'' [])])) (\<lambda>res.
         ret (if p_status res = Some 0 then Approved
              else Denied (clip 2000 (if p_stderr res \<noteq> [] then p_stderr res else if p_stdout res \<noteq> [] then p_stdout res
                                      else ''external verifier denied approval''))))))"

datatype taken = Taken json | Refused string

text \<open>What happens to an item that was found, after the verification \<open>v\<close>.\<close>

definition approveItem :: "'w px \<Rightarrow> string \<Rightarrow> json \<Rightarrow> (string \<times> json) list \<Rightarrow> verdict \<Rightarrow> ('w, taken) pact" where
  "approveItem x tok item pending v =
    (let c = px_config x in
     case v of
       Denied m \<Rightarrow> ret (Refused m)
     | Approved \<Rightarrow>
         andThen (on_world (px_audit x ''destructive.approved'' (JObj ([(''approvalToken'', JStr tok)] @ opt_field ''fingerprint'' (get item ''fingerprint'') @
           opt_field ''kind'' (get item ''kind'') @ [(''approvalMode'', JStr (c_approvalMode c))] @ opt_field ''cwd'' (get item ''cwd'') @
           opt_field ''path'' (get item ''path''))))) (\<lambda>audited.
         if \<not> audited \<and> c_auditFailClosed c then ret (Refused ''destructive action blocked because audit persistence failed'')
         else andThen (savePending (filter (\<lambda>kv. fst kv \<noteq> tok) pending)) (\<lambda>_. ret (Taken item))))"

definition takeItem :: "'w px \<Rightarrow> string \<Rightarrow> bool \<Rightarrow> json \<Rightarrow> (string \<times> json) list \<Rightarrow> ('w, taken) pact" where
  "takeItem x tok userSaidYes item pending =
    (let c = px_config x in
     if \<not> userSaidYes then ret (Refused ''userSaidYes must be true; never self-approve destructive work'')
     else if c_approvalMode c = ''deny'' then ret (Refused ''destructive execution is disabled; configure chat or external approval mode intentionally'')
     else andThen (if c_approvalMode c = ''external'' then verifyExternalApproval x tok (string_or_empty (get item ''fingerprint'')) else ret Approved)
       (approveItem x tok item pending))"

definition takeDestructive :: "'w px \<Rightarrow> string \<Rightarrow> bool \<Rightarrow> ('w, taken) pact" where
  "takeDestructive x tok userSaidYes =
    andThen (look (\<lambda>s. Inr (loadJson s))) (\<lambda>loaded.
    andThen (on_world (px_clock x)) (\<lambda>now.
    andThen (look (\<lambda>_. purgeExpired x now loaded)) (\<lambda>(pending, changed).
    if truthy (map_of pending tok) then takeItem x tok userSaidYes (the (map_of pending tok)) pending
    else andThen (if changed then savePending pending else ret ()) (\<lambda>_. ret (Refused ''unknown, expired, or already-used destructive token'')))))"

text \<open>The dash is outside the model's 8-bit range, as \<open>ellipsis\<close> is.\<close>

definition em_dash :: char where "em_dash = CHR 0x97"

definition denyDeleteMessage :: "'w px \<Rightarrow> json \<Rightarrow> string" where
  "denyDeleteMessage x item =
    (let shown_text = (\<lambda>k. case get item k of None \<Rightarrow> ''undefined'' | Some v \<Rightarrow> to_string v); mode = c_approvalMode (px_config x) in
     join [nl] (nonempty [''DELETE BLOCKED '' @ [em_dash] @ '' no destructive command was executed.'', ''Token: '' @ shown_text ''token'', ''Expires: '' @ shown_text ''expiresAt'',
       ''Preview: '' @ preview x item,
       if mode = ''deny'' then ''Destructive execution is disabled by configuration; this preview cannot be executed.''
       else ''Show this preview to the human. Only after an explicit yes, call confirm_destructive with this exact token and userSaidYes=true.'',
       if mode = ''external'' then ''The configured external verifier must also report this token/fingerprint as human-approved.'' else []]))"

section \<open>Expired and kept entries\<close>

lemma purge_kept:
  "purgeExpired x now kvs = Inr (kept, changed) \<Longrightarrow>
    kept = filter (\<lambda>kv. expired x now (snd kv) = Inr False) kvs \<and> (\<forall>kv \<in> set kvs. snd kv \<noteq> JNull)"
proof (induction kvs arbitrary: kept changed)
  case (Cons kv kvs)
  obtain tok item where kv: "kv = (tok, item)" by (cases kv)
  from Cons.prems obtain e kept' c where e: "expired x now item = Inr e" and k: "purgeExpired x now kvs = Inr (kept', c)"
    and o: "kept = (if e then kept' else kv # kept')"
    by (auto simp: kv result_simps split: if_splits)
  then show ?case using Cons.IH [OF k] by (auto simp: kv expired_def split: if_splits)
qed simp

lemma purge_total: "\<forall>kv \<in> set kvs. snd kv \<noteq> JNull \<Longrightarrow> \<exists>r. purgeExpired x now kvs = Inr r"
  by (induction kvs) (auto simp: expired_def)

definition token_free :: "string \<Rightarrow> 'w pend \<Rightarrow> bool" where
  "token_free tok s = (tok \<notin> fst ` set (loadJson s))"

lemma token_free_save: "token_free tok (s\<lparr>pe_file := Some (JObj kvs)\<rparr>) = (tok \<notin> fst ` set kvs)"
  by (simp add: token_free_def loadJson_def)

lemma token_free_world [simp]: "token_free tok (s\<lparr>pe_world := w\<rparr>) = token_free tok s"
  by (simp add: token_free_def loadJson_def)

lemma runs_pending_world [run_simps]: "runs (on_world f) s v s' \<longleftrightarrow> (\<exists>w. f (pe_world s) = (v, w) \<and> s' = s\<lparr>pe_world := w\<rparr>)"
  by (auto simp: on_world_def run_simps split: prod.splits)

lemma runs_savePending [run_simps]: "runs (savePending kvs) s u s' \<longleftrightarrow> s' = s\<lparr>pe_file := Some (JObj kvs)\<rparr>"
  by (auto simp: savePending_def run_simps)

lemma loadJson_world [simp]: "loadJson (s\<lparr>pe_world := w\<rparr>) = loadJson s"
  by (simp add: loadJson_def)

lemma loadJson_saved [simp]: "loadJson (s\<lparr>pe_file := Some (JObj kvs)\<rparr>) = kvs"
  by (simp add: loadJson_def)

lemma verify_file: "runs (verifyExternalApproval x tok f) s v s' \<Longrightarrow> pe_file s' = pe_file s"
  by (auto simp: verifyExternalApproval_def Let_def run_simps split: if_splits)

definition approved_by :: "'w px \<Rightarrow> string \<Rightarrow> json \<Rightarrow> bool" where
  "approved_by x tok item = (c_approvalMode (px_config x) \<noteq> ''deny'' \<and> (c_approvalMode (px_config x) = ''external'' \<longrightarrow>
     (\<exists>s1 s2. runs (verifyExternalApproval x tok (string_or_empty (get item ''fingerprint''))) s1 Approved s2)))"

lemma approve_cases:
  assumes "runs (approveItem x tok item pending v) s r s'"
  shows "(\<exists>m. r = Refused m) \<and> loadJson s' = loadJson s \<or> r = Taken item \<and> v = Approved \<and> loadJson s' = filter (\<lambda>kv. fst kv \<noteq> tok) pending"
  using assms by (cases v) (auto simp: approveItem_def Let_def run_simps split: if_splits)

lemma takeItem_cases:
  assumes "runs (takeItem x tok yes item pending) s r s'"
  shows "(\<exists>m. r = Refused m) \<and> loadJson s' = loadJson s
    \<or> r = Taken item \<and> yes \<and> approved_by x tok item \<and> loadJson s' = filter (\<lambda>kv. fst kv \<noteq> tok) pending"
proof (cases "yes \<and> c_approvalMode (px_config x) \<noteq> ''deny''")
  case True
  then obtain v s1 where v: "runs (if c_approvalMode (px_config x) = ''external'' then verifyExternalApproval x tok (string_or_empty (get item ''fingerprint'')) else ret Approved) s v s1"
    and r: "runs (approveItem x tok item pending v) s1 r s'"
    using assms by (auto simp: takeItem_def Let_def runs_andThen)
  have "loadJson s1 = loadJson s" using v by (auto simp: run_simps loadJson_def dest: verify_file split: if_splits)
  then show ?thesis using approve_cases [OF r] v True by (auto simp: approved_by_def split: if_splits)
next
  case False
  then show ?thesis using assms by (auto simp: takeItem_def Let_def run_simps split: if_splits)
qed

lemma take_cases:
  assumes "runs (takeDestructive x tok yes) s r s'"
  obtains now w pending changed where "px_clock x (pe_world s) = (now, w)" "purgeExpired x now (loadJson s) = Inr (pending, changed)"
    "(\<exists>m. r = Refused m) \<and> (loadJson s' = pending \<or> loadJson s' = loadJson s)
     \<or> (\<exists>item. r = Taken item \<and> map_of pending tok = Some item \<and> yes \<and> approved_by x tok item \<and> loadJson s' = filter (\<lambda>kv. fst kv \<noteq> tok) pending)"
proof -
  obtain now w pending changed where c: "px_clock x (pe_world s) = (now, w)" and p: "purgeExpired x now (loadJson s) = Inr (pending, changed)"
    and r: "runs (if truthy (map_of pending tok) then takeItem x tok yes (the (map_of pending tok)) pending
      else andThen (if changed then savePending pending else ret ()) (\<lambda>_. ret (Refused ''unknown, expired, or already-used destructive token'')))
      (s\<lparr>pe_world := w\<rparr>) r s'"
    using assms unfolding takeDestructive_def runs_andThen runs_look runs_pending_world by auto
  show thesis
  proof (rule that [OF c p], cases "map_of pending tok")
    case None
    then show "(\<exists>m. r = Refused m) \<and> (loadJson s' = pending \<or> loadJson s' = loadJson s)
     \<or> (\<exists>item. r = Taken item \<and> map_of pending tok = Some item \<and> yes \<and> approved_by x tok item \<and> loadJson s' = filter (\<lambda>kv. fst kv \<noteq> tok) pending)"
      using r by (auto simp: run_simps split: if_splits)
  next
    case (Some item)
    then show "(\<exists>m. r = Refused m) \<and> (loadJson s' = pending \<or> loadJson s' = loadJson s)
     \<or> (\<exists>item. r = Taken item \<and> map_of pending tok = Some item \<and> yes \<and> approved_by x tok item \<and> loadJson s' = filter (\<lambda>kv. fst kv \<noteq> tok) pending)"
      using r by (auto simp: run_simps split: if_splits dest!: takeItem_cases)
  qed
qed


text \<open>What may happen after a token was taken: any calls, failed ones included, and changes from outside, only that
  a later preview draws another token (16 random bytes).\<close>

inductive later :: "'w px \<Rightarrow> string \<Rightarrow> 'w pend \<Rightarrow> 'w pend \<Rightarrow> bool" for x tok s where
  here: "later x tok s s"
| world: "later x tok s t \<Longrightarrow> later x tok s (t\<lparr>pe_world := w\<rparr>)"
| took: "later x tok s t \<Longrightarrow> takeDestructive x tok' yes t = (r, t', h) \<Longrightarrow> later x tok s t'"
| listed: "later x tok s t \<Longrightarrow> listPending x t = (r, t', h) \<Longrightarrow> later x tok s t'"
| queued: "later x tok s t \<Longrightarrow> runs (queueDestructive x action) t item t' \<Longrightarrow> get item ''token'' \<noteq> Some (JStr tok) \<Longrightarrow> later x tok s t'"

lemma keeps_pending_world [hoare_intros]: "keeps (token_free tok) (on_world f)"
  by (auto simp: keeps_def on_world_def call_def split: prod.splits)

lemma purge_free: "purgeExpired x now kvs = Inr (kept, changed) \<Longrightarrow> tok \<notin> fst ` set kvs \<Longrightarrow> tok \<notin> fst ` set kept"
  by (drule purge_kept) auto

lemma keeps_save: "tok \<notin> fst ` set kvs \<Longrightarrow> keeps (token_free tok) (savePending kvs)"
  by (auto simp: keeps_def savePending_def store_def token_free_save)

lemma keeps_verify: "keeps (token_free tok) (verifyExternalApproval x t f)"
  unfolding verifyExternalApproval_def Let_def by (intro hoare_intros)

lemma keeps_loaded:
  assumes "\<And>l. tok \<notin> fst ` set l \<Longrightarrow> keeps (token_free tok) (f l)"
  shows "keeps (token_free tok) (andThen (look (\<lambda>s. Inr (loadJson s))) f)"
  by (rule keeps_bind_fact [where C = "\<lambda>l. tok \<notin> fst ` set l", OF keeps_look(1) _ assms]) (auto simp: runs_look token_free_def)

lemma keeps_purged:
  assumes "tok \<notin> fst ` set l" "\<And>pending changed. tok \<notin> fst ` set pending \<Longrightarrow> keeps (token_free tok) (f (pending, changed))"
  shows "keeps (token_free tok) (andThen (look (\<lambda>_. purgeExpired x now l)) f)"
proof (rule keeps_bind_fact [where C = "\<lambda>pc. tok \<notin> fst ` set (fst pc)", OF keeps_look(1)])
  fix s :: "'a pend" and pc s' assume "runs (look (\<lambda>_. purgeExpired x now l)) s pc s'"
  then show "tok \<notin> fst ` set (fst pc)" using assms(1) by (cases pc) (simp only: runs_look fst_conv, rule purge_free, auto)
next
  fix pc :: "(string \<times> json) list \<times> bool" assume "tok \<notin> fst ` set (fst pc)"
  then show "keeps (token_free tok) (f pc)" using assms(2) by (cases pc) simp
qed

lemma keeps_take: "keeps (token_free tok) (takeDestructive x t yes)"
proof -
  have a: "keeps (token_free tok) (approveItem x t item pending v)" if "tok \<notin> fst ` set pending" for item pending v
    using that by (cases v) (auto simp: approveItem_def Let_def intro!: hoare_intros keeps_save)
  have b: "keeps (token_free tok) (takeItem x t yes item pending)" if "tok \<notin> fst ` set pending" for item pending
    unfolding takeItem_def Let_def by (intro hoare_intros keeps_verify a that)
  show ?thesis
    unfolding takeDestructive_def
    by (rule keeps_loaded, rule keeps_andThen, rule keeps_pending_world, erule keeps_purged) (auto intro!: hoare_intros keeps_save b)
qed

lemma keeps_listPending: "keeps (token_free tok) (listPending x)"
  unfolding listPending_def
  by (rule keeps_loaded, rule keeps_andThen, rule keeps_pending_world, erule keeps_purged) (auto intro!: hoare_intros keeps_save)

lemma put_fields_get: "is_obj v \<Longrightarrow> get (put_field k j v) m = (if m = k then Some j else get v m)"
  by (rule get_put_field)

lemma stringified_obj: "is_obj v \<Longrightarrow> is_obj (stringified k v)"
  by (auto simp: stringified_def put_field_is_obj split: option.splits json.splits)

lemma normalize_obj: "is_obj (normalizeAction action)"
  by (simp add: normalizeAction_def stringified_obj)

lemma queued_fields:
  "get (queued_item x (normalizeAction a) tok now) m =
    (if m = ''approvalMode'' then Some (JStr (c_approvalMode (px_config x)))
     else if m = ''fingerprint'' then Some (JStr (fingerprint x (normalizeAction a)))
     else if m = ''expiresAt'' then Some (JStr (px_iso x (now + c_tokenTtlMs (px_config x))))
     else if m = ''createdAt'' then Some (JStr (px_iso x now))
     else if m = ''token'' then Some (JStr tok) else get (normalizeAction a) m)"
  "is_obj (queued_item x (normalizeAction a) tok now)"
  using normalize_obj [of a] by (simp_all add: queued_item_def put_fields_def get_put_field put_field_is_obj)

lemma with_token_keys: "fst ` set (with_token t item kvs) = insert t (fst ` set kvs)"
  by (force simp: with_token_def put_field_def split: if_splits)

lemma with_token_map: "map_of (with_token t item kvs) m = (if m = t then Some item else map_of kvs m)"
  using get_put_field [of "JObj kvs" t item m] by (cases "put_field t item (JObj kvs)") (auto simp: with_token_def put_field_def)

lemma with_token_only: "(t, v) \<in> set (with_token t item kvs) \<Longrightarrow> v = item"
  by (force simp: with_token_def put_field_def split: if_splits)

lemma queue_runs:
  assumes "runs (queueDestructive x action) s item s'"
  obtains now1 pending changed now bytes where "purgeExpired x now1 (loadJson s) = Inr (pending, changed)"
    "item = queued_item x (normalizeAction action) (''del_'' @ bytes) now" "loadJson s' = with_token (''del_'' @ bytes) item pending"
proof -
  have "\<exists>now1 pc bytes now. purgeExpired x now1 (loadJson s) = Inr pc \<and> item = queued_item x (normalizeAction action) (''del_'' @ bytes) now
      \<and> loadJson s' = with_token (''del_'' @ bytes) item (fst pc)"
    using assms unfolding queueDestructive_def Let_def runs_andThen runs_look runs_pending_world runs_guard runs_savePending runs_ret
    apply (elim exE conjE)
    subgoal premises p for l s1 t1 s2 pc s3 bytes s4 now s5 audited s6 u s7 u' s8
      using p by (intro exI [of _ t1] exI [of _ s3] exI [of _ s4] exI [of _ audited]) simp
    done
  then show thesis using that by (metis prod.collapse)
qed

lemma later_free: "later x tok s t \<Longrightarrow> token_free tok s \<Longrightarrow> token_free tok t"
proof (induction rule: later.induct)
  case (took t tok' yes r t' h)
  then show ?case using keeps_states(1) [OF keeps_take] by blast
next
  case (listed t r t' h)
  then show ?case using keeps_states(1) [OF keeps_listPending] by blast
next
  case (queued t action item t')
  show ?case
  proof (rule queue_runs [OF queued.hyps(2)])
    fix now1 pending changed now bytes
    assume q: "purgeExpired x now1 (loadJson t) = Inr (pending, changed)" "item = queued_item x (normalizeAction action) (''del_'' @ bytes) now"
      "loadJson t' = with_token (''del_'' @ bytes) item pending"
    have "tok \<noteq> ''del_'' @ bytes" using queued.hyps(3) unfolding q(2) queued_fields by auto
    then show ?thesis using q(3) purge_free [OF q(1)] queued.IH queued.prems by (simp add: token_free_def with_token_keys)
  qed
qed simp_all


text \<open>
  In the mode \<^verbatim>\<open>chat\<close> an approved token gives back exactly the action that was
  queued under it, fields, mode and fingerprint of the normalized action included, as long as the file is as
  the queueing left it and the token has not expired.
\<close>

theorem queue_take_roundtrip:
  assumes "runs (queueDestructive x action) s item s1" "pe_file s2 = pe_file s1"
    and "c_approvalMode (px_config x) = ''chat''" "\<And>n. px_parse_date x (px_iso x n) = Some n" "\<And>n. px_iso x n \<noteq> []"
    and "\<And>e d w. fst (px_audit x e d w)" "get item ''token'' = Some (JStr tok)"
    and "get item ''expiresAt'' = Some (JStr (px_iso x expiry))" "fst (px_clock x (pe_world s2)) < expiry"
  shows "(\<exists>s3. runs (takeDestructive x tok True) s2 (Taken item) s3)
    \<and> get item ''fingerprint'' = Some (JStr (fingerprint x (normalizeAction action)))"
proof (rule queue_runs [OF assms(1)])
  fix now1 pending changed now bytes
  assume p: "purgeExpired x now1 (loadJson s) = Inr (pending, changed)" and i: "item = queued_item x (normalizeAction action) (''del_'' @ bytes) now"
    and l: "loadJson s1 = with_token (''del_'' @ bytes) item pending"
  have tok: "tok = ''del_'' @ bytes" using assms(7) unfolding i queued_fields by simp
  have f: "get item ''fingerprint'' = Some (JStr (fingerprint x (normalizeAction action)))" unfolding i queued_fields by simp
  have o: "is_obj item" using queued_fields(2) i by simp
  have s2: "loadJson s2 = with_token tok item pending" using l assms(2) tok by (simp add: loadJson_def)
  have "\<forall>kv \<in> set pending. snd kv \<noteq> JNull" using purge_kept [OF p] by auto
  then have "\<forall>kv \<in> set (with_token tok item pending). snd kv \<noteq> JNull"
    using o by (auto simp: with_token_def put_field_def is_obj_def split: if_splits)
  obtain t2 w where c: "px_clock x (pe_world s2) = (t2, w)" by (cases "px_clock x (pe_world s2)")
  obtain kept ch where k: "purgeExpired x t2 (with_token tok item pending) = Inr (kept, ch)"
    using purge_total [OF \<open>\<forall>kv \<in> set (with_token tok item pending). snd kv \<noteq> JNull\<close>] by (metis surj_pair)
  have "expired x t2 item = Inr False"
    using o assms(4,5,8,9) c by (auto simp: expired_def is_obj_def split: json.splits)
  moreover have "map_of (with_token tok item pending) tok = Some item" by (simp add: with_token_map)
  ultimately have "(tok, item) \<in> set kept" using purge_kept [OF k] by (auto dest: map_of_SomeD)
  moreover have "v = item" if "(tok, v) \<in> set kept" for v
    using that purge_kept [OF k] by (auto dest: with_token_only)
  ultimately have m: "map_of kept tok = Some item" using map_of_SomeD by (metis map_of_eq_None_iff image_eqI fst_conv not_None_eq)
  have t: "truthy (Some item)" using o by (cases item) (auto simp: is_obj_def)
  obtain d where "runs (takeDestructive x tok True) s2 (Taken item) d"
  proof -
    let ?w = "s2\<lparr>pe_world := w\<rparr>"
    have a: "\<exists>d. runs (approveItem x tok item kept Approved) ?w (Taken item) d"
    proof -
      let ?data = "JObj ([(''approvalToken'', JStr tok)] @ opt_field ''fingerprint'' (get item ''fingerprint'') @
           opt_field ''kind'' (get item ''kind'') @ [(''approvalMode'', JStr (c_approvalMode (px_config x)))] @ opt_field ''cwd'' (get item ''cwd'') @
           opt_field ''path'' (get item ''path''))"
      obtain w' where "px_audit x ''destructive.approved'' ?data w = (True, w')"
        using assms(6) [of "''destructive.approved''" ?data w] by (cases "px_audit x ''destructive.approved'' ?data w") simp
      then have "runs (on_world (px_audit x ''destructive.approved'' ?data)) ?w True (?w\<lparr>pe_world := w'\<rparr>)"
        by (simp add: runs_pending_world)
      then show ?thesis
        unfolding approveItem_def Let_def verdict.case
        by (intro exI, rule runs_andThenI) (simp only: not_True_eq_False simp_thms if_False, rule runs_andThenI, simp only: runs_savePending, simp only: runs_ret)
    qed
    then have "\<exists>d. runs (takeItem x tok True item kept) ?w (Taken item) d"
      using assms(3) by (auto simp: takeItem_def Let_def runs_andThen runs_ret)
    then obtain d where d: "runs (takeItem x tok True item kept) ?w (Taken item) d" by blast
    have "runs (takeDestructive x tok True) s2 (Taken item) d"
      unfolding takeDestructive_def
    proof (rule runs_andThenI)
      show "runs (look (\<lambda>s. Inr (loadJson s))) s2 (loadJson s2) s2" by (simp add: runs_look)
    next
      show "runs (andThen (on_world (px_clock x)) (\<lambda>now. andThen (look (\<lambda>_. purgeExpired x now (loadJson s2))) (\<lambda>(pending, changed).
          if truthy (map_of pending tok) then takeItem x tok True (the (map_of pending tok)) pending
          else andThen (if changed then savePending pending else ret ()) (\<lambda>_. ret (Refused ''unknown, expired, or already-used destructive token''))))) s2 (Taken item) d"
      proof (rule runs_andThenI)
        show "runs (on_world (px_clock x)) s2 t2 ?w" using c by (simp add: runs_pending_world)
        have "runs (look (\<lambda>_. purgeExpired x t2 (loadJson s2))) ?w (kept, ch) ?w" by (simp add: runs_look s2 k)
        then show "runs (andThen (look (\<lambda>_. purgeExpired x t2 (loadJson s2))) (\<lambda>(pending, changed).
          if truthy (map_of pending tok) then takeItem x tok True (the (map_of pending tok)) pending
          else andThen (if changed then savePending pending else ret ()) (\<lambda>_. ret (Refused ''unknown, expired, or already-used destructive token'')))) ?w (Taken item) d"
          by (rule runs_andThenI) (simp only: case_prod_conv m t if_True option.sel d)
      qed
    qed
    then show thesis by (rule that)
  qed
  then show ?thesis using f by blast
qed

end
