(* ===== verification/FileTools.thy ===== *)
theory FileTools
  imports CoordinatorGuard PendingActions
begin

text \<open>
  The file tools (\<^verbatim>\<open>src/tools/files.js\<close>): reading, searching, writing, editing and patching files of
  a registered workspace.  Arguments are as the input schema of each tool lets them through.  Writing
  primitives, the commands that are run and the search program are parameters (\<open>ft\<close>).
\<close>

section \<open>Parameters\<close>

record run_result =
  rr_ok :: bool
  rr_stdout :: string
  rr_stderr :: string

record 'w ft =
  ft_guard :: "'w gx"
  ft_policy :: "'w px"
  ft_limits :: limits
  ft_mkdirp :: "string \<Rightarrow> 'w \<Rightarrow> unit result \<times> 'w"
  ft_writeFile :: "string \<Rightarrow> string \<Rightarrow> nat \<Rightarrow> 'w \<Rightarrow> unit result \<times> 'w"
  ft_rename :: "string \<Rightarrow> string \<Rightarrow> 'w \<Rightarrow> unit result \<times> 'w"
  ft_unlink :: "string \<Rightarrow> 'w \<Rightarrow> unit result \<times> 'w"
  ft_stamp :: "'w \<Rightarrow> string"
  ft_run :: "string list \<Rightarrow> string \<Rightarrow> string \<Rightarrow> 'w \<Rightarrow> run_result \<times> 'w"
  ft_commandExists :: "'w \<Rightarrow> string \<Rightarrow> bool"
  ft_ripgrep :: "'w \<Rightarrow> string list \<Rightarrow> proc_result"
  ft_fuel :: nat

abbreviation ft_site :: "'w ft \<Rightarrow> 'w site" where
  "ft_site t \<equiv> gx_site (ft_guard t)"

abbreviation ft_fx :: "'w ft \<Rightarrow> 'w fx" where
  "ft_fx t \<equiv> si_fx (ft_site t)"

text \<open>An operation on the queue of pending actions, on its part of the state.\<close>

definition with_pending :: "('w, 'a) pact \<Rightarrow> ('w, 'a) tact" where
  "with_pending m s =
    (case m \<lparr>pe_world = to_world s, pe_file = to_pending s\<rparr> of
       (r, p, h) \<Rightarrow> let back_to = (\<lambda>q. s\<lparr>to_world := pe_world q, to_pending := pe_file q\<rparr>) in (r, back_to p, map back_to h))"

text \<open>The \<^verbatim>\<open>try ... catch\<close> around every handler.\<close>

definition caught :: "'w ft \<Rightarrow> ('w, reply) tact \<Rightarrow> ('w, reply) tact" where
  "caught t m = handle m (\<lambda>e. ret (fail_reply (ft_limits t) (message e) None))"

definition denied :: "'w ft \<Rightarrow> json \<Rightarrow> ('w, reply) tact" where
  "denied t action =
    andThen (with_pending (queueDestructive (ft_policy t) action)) (\<lambda>item.
    ret (fail_reply (ft_limits t) (denyDeleteMessage (ft_policy t) item) None))"

definition structured :: "'w ft \<Rightarrow> bool \<Rightarrow> string \<Rightarrow> ('w, string) tact" where
  "structured t forWrite p = seen (\<lambda>w. assertStructuredPath (ft_site t) w forWrite p)"

definition user_path :: "'w ft \<Rightarrow> string \<Rightarrow> ('w, string) tact" where
  "user_path t input = seen (\<lambda>w. resolveUserPath (ft_site t) w input [])"

section \<open>Reading\<close>

definition kind_name :: "node_kind \<Rightarrow> string" where
  "kind_name k = (case k of Directory \<Rightarrow> ''dir'' | SymbolicLink \<Rightarrow> ''symlink'' | RegularFile \<Rightarrow> ''file'' | OtherNode \<Rightarrow> ''other'')"

fun snapshot_json :: "snapshot \<Rightarrow> json" where
  "snapshot_json (DirSnapshot p entries truncated) =
    JObj [(''path'', JStr p), (''type'', JStr ''dir''),
      (''entries'', JArr (map (\<lambda>(n, k). JObj [(''name'', JStr n), (''type'', JStr (kind_name k))]) entries)), (''truncated'', JBool truncated)]"
| "snapshot_json (LinkSnapshot p to) = JObj [(''path'', JStr p), (''type'', JStr ''symlink''), (''target'', JStr to)]"
| "snapshot_json (OtherSnapshot p n) = JObj [(''path'', JStr p), (''type'', JStr ''other''), (''size'', JNum (int n))]"
| "snapshot_json (FileSnapshot p n mtime truncated base64 contents) =
    JObj [(''path'', JStr p), (''type'', JStr ''file''), (''size'', JNum (int n)), (''mtime'', JStr mtime), (''truncated'', JBool truncated),
      (''encoding'', JStr (if base64 then ''base64'' else ''utf8'')), (''content'', JStr contents)]"

text \<open>The hash of the bytes that were returned, for a complete file.\<close>

definition returned_hash :: "'w fx \<Rightarrow> snapshot \<Rightarrow> string option" where
  "returned_hash x snap =
    (case snap of
       FileSnapshot _ _ _ truncated base64 contents \<Rightarrow>
         if truncated then None else Some (fx_sha256 x (if base64 then fx_unbase64 x contents else fx_encode x contents))
     | _ \<Rightarrow> None)"

definition read_file :: "'w ft \<Rightarrow> string \<Rightarrow> nat option \<Rightarrow> ('w, reply) tact" where
  "read_file t input maxBytes = caught t
    (andThen (user_path t input) (\<lambda>p.
     andThen (structured t False p) (\<lambda>resolved.
     andThen (seen (\<lambda>w. fileSnapshot (ft_site t) w (case maxBytes of None \<Rightarrow> 200000 | Some n \<Rightarrow> n) resolved)) (\<lambda>snap.
     andThen (case returned_hash (ft_fx t) snap of
         Some h \<Rightarrow> coordinatorObserveRead (ft_guard t) resolved (Some h)
       | None \<Rightarrow> ret ()) (\<lambda>_.
     ret (json_reply (ft_limits t) (snapshot_json snap)))))))"

section \<open>Searching\<close>

text \<open>The expression that the replacements of \<^verbatim>\<open>globToRegExp\<close> build, token by token: special characters are
  escaped, \<^verbatim>\<open>**\<close> becomes \<^verbatim>\<open>.*\<close> whose star the next replacement turns into
  \<^verbatim>\<open>[^/]*\<close>, a single star becomes \<^verbatim>\<open>[^/]*\<close>, a question mark any character.\<close>

definition any_char :: re where
  "any_char = Chr (\<lambda>c. \<not> is_newline c)"

definition within_name :: re where
  "within_name = Star (Chr (\<lambda>c. c \<noteq> slash))"

fun glob_body :: "string \<Rightarrow> re" where
  "glob_body [] = Eol"
| "glob_body (c # s) =
    (if c = CHR ''*'' then (if startsWith s ''*'' then Seq any_char (Seq within_name (glob_body (drop 1 s))) else Seq within_name (glob_body s))
     else if c = CHR ''?'' then Seq any_char (glob_body s)
     else Seq (Chr (\<lambda>d. d = c)) (glob_body s))"

definition globToRegExp :: "string \<Rightarrow> re" where
  "globToRegExp glob = Seq Bol (glob_body glob)"

definition glob_accepts :: "string option \<Rightarrow> string \<Rightarrow> bool" where
  "glob_accepts glob rel = (case glob of None \<Rightarrow> True | Some g \<Rightarrow> g = [] \<or> re_test (globToRegExp g) rel)"

text \<open>The visible files; running out of fuel is an error of the model.\<close>

definition visible_files :: "'w ft \<Rightarrow> 'w \<Rightarrow> string \<Rightarrow> string list result" where
  "visible_files t w root =
    (case visibleFilePaths (ft_site t) w 10000 (ft_fuel t) root of Some r \<Rightarrow> r | None \<Rightarrow> throw ''out of fuel'')"

definition file_relative :: "'w ft \<Rightarrow> string \<Rightarrow> string \<Rightarrow> string" where
  "file_relative t root full = path_relative (fx_cwd (ft_fx t)) root full"

definition match_row :: "json \<Rightarrow> json list" where
  "match_row row =
    (if get row ''type'' \<noteq> Some (JStr ''match'') then []
     else case get row ''data'' of
         None \<Rightarrow> []
       | Some JNull \<Rightarrow> []
       | Some d \<Rightarrow>
           [JObj (opt_field ''path'' (Option.bind (get d ''path'') (\<lambda>p. get p ''text'')) @ opt_field ''line'' (get d ''line_number'') @
             opt_field ''text'' (Option.bind (Option.bind (get d ''lines'') (\<lambda>p. get p ''text'')) (\<lambda>v. case v of JStr s \<Rightarrow> Some (JStr (trim s)) | _ \<Rightarrow> None)))])"

text \<open>A row without data, or whose text is not a string, makes the callback throw, which drops the row.\<close>

definition row_hits :: "string \<Rightarrow> json list" where
  "row_hits line =
    (case JSON_parse line of
       None \<Rightarrow> []
     | Some row \<Rightarrow>
         (case Option.bind (get row ''data'') (\<lambda>d. Option.bind (get d ''lines'') (\<lambda>p. get p ''text'')) of
            Some (JStr _) \<Rightarrow> match_row row | None \<Rightarrow> match_row row | Some JNull \<Rightarrow> match_row row | _ \<Rightarrow> []))"

definition searchWithRipgrep :: "'w ft \<Rightarrow> 'w \<Rightarrow> string \<Rightarrow> string \<Rightarrow> string option \<Rightarrow> nat \<Rightarrow> json result" where
  "searchWithRipgrep t w root pattern glob limit =
    bindE (visible_files t w root) (\<lambda>all_files.
    let files = filter (\<lambda>f. glob_accepts glob (file_relative t root f)) all_files in
    if files = [] then Inr (JObj [(''backend'', JStr ''ripgrep''), (''root'', JStr root), (''count'', JNum 0), (''hits'', JArr [])])
    else let res = ft_ripgrep t w ([''--json'', ''--max-count'', digits_of limit, ''--max-filesize'', ''1M'', ''--no-messages'', ''--'', pattern] @ files);
             hits = take limit (concat (map row_hits (nonempty (split_on nl (p_stdout res))))) in
      Inr (JObj ([(''backend'', JStr ''ripgrep''), (''root'', JStr root), (''count'', JNum (int (length hits))), (''hits'', JArr hits)] @
        (case p_status res of Some c \<Rightarrow> if 1 < c then [(''stderr'', JStr (p_stderr res))] else [] | None \<Rightarrow> []))))"

text \<open>The hits of the lines of one file, numbered from \<open>n\<close>, until there are \<open>limit\<close> of them.\<close>

fun line_hits :: "nat \<Rightarrow> string \<Rightarrow> string \<Rightarrow> nat \<Rightarrow> string list \<Rightarrow> json list \<Rightarrow> json list" where
  "line_hits limit pattern full n [] hits = hits"
| "line_hits limit pattern full n (l # ls) hits =
    (if limit \<le> length hits then hits
     else line_hits limit pattern full (Suc n) ls
       (if str_includes l pattern
        then hits @ [JObj [(''path'', JStr full), (''line'', JNum (int n)), (''text'', JStr (trim l))]] else hits))"

fun file_hits :: "'w ft \<Rightarrow> 'w \<Rightarrow> string \<Rightarrow> string \<Rightarrow> string option \<Rightarrow> nat \<Rightarrow> string list \<Rightarrow> json list \<Rightarrow> json list result" where
  "file_hits t w root pattern glob limit [] hits = Inr hits"
| "file_hits t w root pattern glob limit (full # fs) hits =
    (if limit \<le> length hits then Inr hits
     else if \<not> glob_accepts glob (file_relative t root full) then file_hits t w root pattern glob limit fs hits
     else (case fx_stat (ft_fx t) w full of
         Absent \<Rightarrow> throw (''ENOENT: '' @ full)
       | Broken m \<Rightarrow> throw m
       | Present n \<Rightarrow>
           if 1000000 < nd_size n then file_hits t w root pattern glob limit fs hits
           else bindE (fx_readFile (ft_fx t) w full) (\<lambda>bytes.
             file_hits t w root pattern glob limit fs
               (line_hits limit pattern full 1 (split_lines (fx_decode (ft_fx t) bytes)) hits))))"

definition searchWithJavaScript :: "'w ft \<Rightarrow> 'w \<Rightarrow> string \<Rightarrow> string \<Rightarrow> string option \<Rightarrow> nat \<Rightarrow> json result" where
  "searchWithJavaScript t w root pattern glob limit =
    bindE (visible_files t w root) (\<lambda>files.
    bindE (file_hits t w root pattern glob limit files []) (\<lambda>hits.
    Inr (JObj [(''backend'', JStr ''javascript-literal''), (''note'', JStr ''ripgrep unavailable; pattern was treated as literal text''),
      (''root'', JStr root), (''count'', JNum (int (length hits))), (''hits'', JArr hits)])))"

definition current_or_cwd :: "'w ft \<Rightarrow> ('w, string) tact" where
  "current_or_cwd t = seen (\<lambda>w. bindE (currentWorkspace (ft_site t) w) (\<lambda>c. Inr (if c \<noteq> [] then c else fx_cwd (ft_fx t))))"

definition search_text :: "'w ft \<Rightarrow> string \<Rightarrow> string option \<Rightarrow> string option \<Rightarrow> nat option \<Rightarrow> ('w, reply) tact" where
  "search_text t pattern input glob maxMatches = caught t
    (andThen (case input of Some p \<Rightarrow> if p = [] then current_or_cwd t else user_path t p | None \<Rightarrow> current_or_cwd t) (\<lambda>p.
     andThen (structured t False p) (\<lambda>root.
     let limit = (case maxMatches of None \<Rightarrow> 40 | Some n \<Rightarrow> n) in
     andThen (seen (\<lambda>w. if ft_commandExists t w ''rg'' then searchWithRipgrep t w root pattern glob limit
                       else searchWithJavaScript t w root pattern glob limit)) (\<lambda>v.
     ret (json_reply (ft_limits t) v)))))"

section \<open>Writing\<close>

definition atomicWriteText :: "'w ft \<Rightarrow> string \<Rightarrow> string \<Rightarrow> ('w, unit) tact" where
  "atomicWriteText t target contents =
    andThen (structured t True target) (\<lambda>revalidated.
    andThen (guard (revalidated = target) (''write path changed during validation: '' @ target)) (\<lambda>_.
    andThen (seen (\<lambda>w. Inr (case fx_stat (ft_fx t) w target of Present n \<Rightarrow> nd_mode n | _ \<Rightarrow> 420))) (\<lambda>mode.
    andThen (seen (\<lambda>w. Inr (ft_stamp t w))) (\<lambda>stamp.
    let tmp = path_join (path_dirname target) (''.'' @ path_basename target @ ''.'' @ stamp @ ''.tmp'') in
    andThen (ask (ft_writeFile t tmp (fx_encode (ft_fx t) contents) mode)) (\<lambda>_.
    handle (ask (ft_rename t tmp target)) (\<lambda>e.
      andThen (handle (ask (ft_unlink t tmp)) (\<lambda>_. ret ())) (\<lambda>_. fail (message e))))))))"

definition file_size :: "'w ft \<Rightarrow> 'w \<Rightarrow> string \<Rightarrow> nat result" where
  "file_size t w p = (case fx_stat (ft_fx t) w p of Present n \<Rightarrow> Inr (nd_size n) | Absent \<Rightarrow> throw (''ENOENT: '' @ p) | Broken m \<Rightarrow> throw m)"

definition would_empty :: "'w ft \<Rightarrow> 'w \<Rightarrow> string \<Rightarrow> string \<Rightarrow> bool result" where
  "would_empty t w p contents =
    (if \<not> existsSync (ft_fx t) w p then Inr False else bindE (file_size t w p) (\<lambda>n. Inr (0 < n \<and> contents = [])))"

definition write_file :: "'w ft \<Rightarrow> string \<Rightarrow> string \<Rightarrow> ('w, reply) tact" where
  "write_file t input contents = caught t
    (andThen (user_path t input) (\<lambda>p.
     andThen (structured t True p) (\<lambda>resolved.
     andThen (seen (\<lambda>w. Inr (if existsSync (ft_fx t) w resolved then None else Some None))) (\<lambda>observed.
     andThen (coordinatorBeforeMutation (ft_guard t) ''write_file'' resolved observed) (\<lambda>guarded.
     andThen (assertCoordinatorWriteBoundary (ft_guard t) resolved guarded) (\<lambda>_.
     andThen (ask (ft_mkdirp t (path_dirname resolved))) (\<lambda>_.
     andThen (seen (\<lambda>w. would_empty t w resolved contents)) (\<lambda>empties.
     if empties then
       andThen (seen (\<lambda>w. fx_readFile (ft_fx t) w resolved)) (\<lambda>current.
       denied t (JObj [(''kind'', JStr ''write_empty''), (''summary'', JStr (''truncate file to zero bytes: '' @ resolved)), (''path'', JStr resolved),
         (''expectedSha256'', JStr (fx_sha256 (ft_fx t) current))]))
     else
       andThen (atomicWriteText t resolved contents) (\<lambda>_.
       ret (ok_reply (ft_limits t) (''wrote '' @ resolved @ '' ('' @ digits_of (byteLength contents) @ '' bytes)'')))))))))))"

section \<open>Editing\<close>

text \<open>\<^verbatim>\<open>text.split(search)\<close> and the counting loop, for a search text that is not empty.\<close>

function split_text :: "string \<Rightarrow> string \<Rightarrow> string list" where
  "split_text search s =
    (case s of
       [] \<Rightarrow> [[]]
     | c # r \<Rightarrow>
         if search \<noteq> [] \<and> startsWith s search then [] # split_text search (drop (length search) s)
         else (case split_text search r of [] \<Rightarrow> [[c]] | y # ys \<Rightarrow> (c # y) # ys))"
  by pat_completeness auto
termination by (relation "measure (\<lambda>(search, s). length s)") auto

declare split_text.simps [simp del]

function countOccurrences :: "string \<Rightarrow> string \<Rightarrow> nat" where
  "countOccurrences s search =
    (case s of
       [] \<Rightarrow> 0
     | c # r \<Rightarrow> if search \<noteq> [] \<and> startsWith s search then Suc (countOccurrences (drop (length search) s) search)
               else countOccurrences r search)"
  by pat_completeness auto
termination by (relation "measure (\<lambda>(s, search). length s)") auto

declare countOccurrences.simps [simp del]

text \<open>The replacement text of \<^verbatim>\<open>String.replace\<close> with a string pattern: dollar patterns are expanded.\<close>

fun expand_dollars :: "string \<Rightarrow> string \<Rightarrow> string \<Rightarrow> string \<Rightarrow> string" where
  "expand_dollars before matched after [] = []"
| "expand_dollars before matched after [c] = [c]"
| "expand_dollars before matched after (c # d # s) =
    (if c \<noteq> CHR ''$'' then c # expand_dollars before matched after (d # s)
     else if d = CHR ''$'' then CHR ''$'' # expand_dollars before matched after s
     else if d = CHR ''&'' then matched @ expand_dollars before matched after s
     else if d = CHR 0x60 then before @ expand_dollars before matched after s
     else if d = squote then after @ expand_dollars before matched after s
     else c # expand_dollars before matched after (d # s))"

definition replace_first :: "string \<Rightarrow> string \<Rightarrow> string \<Rightarrow> string" where
  "replace_first search replacement s =
    (case split_text search s of
       before # part # parts \<Rightarrow>
         let after = join search (part # parts) in before @ expand_dollars before search after replacement @ after
     | _ \<Rightarrow> s)"

definition edited :: "string \<Rightarrow> string \<Rightarrow> bool \<Rightarrow> string \<Rightarrow> string" where
  "edited oldText newText replaceAll current =
    (if replaceAll then join newText (split_text oldText current) else replace_first oldText newText current)"

definition edit_file :: "'w ft \<Rightarrow> string \<Rightarrow> string \<Rightarrow> string \<Rightarrow> bool \<Rightarrow> ('w, reply) tact" where
  "edit_file t input oldText newText replaceAll = caught t
    (andThen (user_path t input) (\<lambda>p.
     andThen (structured t True p) (\<lambda>resolved.
     andThen (seen (\<lambda>w. fx_readFile (ft_fx t) w resolved)) (\<lambda>bytes.
     let x = ft_fx t; l = ft_limits t; current = fx_decode x bytes; found = countOccurrences current oldText;
         result = edited oldText newText replaceAll current in
     if found = 0 then ret (fail_reply l (''oldText not found in '' @ resolved) None)
     else if \<not> replaceAll \<and> found \<noteq> 1
     then ret (fail_reply l (''oldText matched '' @ digits_of found @ '' times in '' @ resolved @ ''; provide a unique match or set replaceAll=true'') None)
     else if current \<noteq> [] \<and> result = []
     then denied t (JObj [(''kind'', JStr ''write_empty''), (''summary'', JStr (''edit would truncate file to zero bytes: '' @ resolved)),
       (''path'', JStr resolved), (''expectedSha256'', JStr (fx_sha256 x (fx_encode x current)))])
     else
       andThen (coordinatorBeforeMutation (ft_guard t) ''edit_file'' resolved (Some (Some (fx_sha256 x (fx_encode x current))))) (\<lambda>guarded.
       andThen (assertCoordinatorWriteBoundary (ft_guard t) resolved guarded) (\<lambda>_.
       andThen (atomicWriteText t resolved result) (\<lambda>_.
       ret (ok_reply l (''updated '' @ resolved @ '' ('' @ digits_of (if replaceAll then found else 1) @ '' replacement'' @
         (if found = 1 then [] else ''s'') @ '')'')))))))))"

section \<open>Patches\<close>

definition patchDeletesFile :: "string \<Rightarrow> bool" where
  "patchDeletesFile diff =
    (re_test (seqs [BolM, lit ''deleted file mode'', Wb]) diff
     \<or> re_test (seqs [BolM, lit ''+++'', spaces, lit ''/dev/null'', Wb]) diff
     \<or> re_test (seqs [BolM, lit ''+++'', spaces, lit_i ''nul'', Wb]) diff)"

definition header_line :: "string list \<Rightarrow> string \<Rightarrow> bool" where
  "header_line marks line = (take 3 line \<in> set marks \<and> length line > 3 \<and> is_space (line ! 3))"

definition header_path :: "string \<Rightarrow> string" where
  "header_path line = takeWhile (\<lambda>c. c \<noteq> tab) (dropWhile is_space (drop 3 line))"

definition win32_absolute :: "string \<Rightarrow> bool" where
  "win32_absolute p =
    (p \<noteq> [] \<and> (hd p \<in> {slash, backslash}
      \<or> length p > 2 \<and> (is_lower (hd p) \<or> is_upper (hd p)) \<and> p ! 1 = CHR '':'' \<and> p ! 2 \<in> {slash, backslash}))"

definition without_prefix :: "string \<Rightarrow> string" where
  "without_prefix p = (if length p > 1 \<and> hd p \<in> {CHR ''a'', CHR ''b''} \<and> p ! 1 \<in> {slash, backslash} then drop 2 p else p)"

text \<open>\<^verbatim>\<open>path.normalize\<close> of any path.\<close>

definition push_relative :: "string list \<Rightarrow> string \<Rightarrow> string list" where
  "push_relative acc c =
    (if c = [] \<or> c = ''.'' then acc
     else if c = ''..'' then (if acc = [] \<or> last acc = ''..'' then acc @ [c] else butlast acc)
     else acc @ [c])"

definition normalize_any :: "string \<Rightarrow> string" where
  "normalize_any p =
    (if is_absolute p then path_normalize p
     else let body = join ''/'' (foldl push_relative [] (split_on slash p)); n = (if body = [] then ''.'' else body) in
       if endsWith p ''/'' then n @ ''/'' else n)"

definition no_file :: "string \<Rightarrow> bool" where
  "no_file p = (p = ''/dev/null'' \<or> p = ''NUL'')"

definition validatePatchPath :: "'w ft \<Rightarrow> 'w \<Rightarrow> string \<Rightarrow> string \<Rightarrow> unit result" where
  "validatePatchPath t w root value =
    bindE (ensure (\<not> (value = [] \<or> nul \<in> set value \<or> is_absolute value \<or> win32_absolute value)) (''patch path is not workspace-relative: '' @ value)) (\<lambda>_.
    let normalized = normalize_any (without_prefix value) in
    bindE (ensure (\<not> (normalized = ''.'' \<or> normalized = ''..'' \<or> startsWith normalized ''../'')) (''patch path escapes the workspace: '' @ value)) (\<lambda>_.
    bindE (assertStructuredPath (ft_site t) w True (path_resolve root normalized)) (\<lambda>_. Inr ())))"

definition patch_paths :: "string \<Rightarrow> string list" where
  "patch_paths diff = filter (\<lambda>p. \<not> no_file p) (map header_path (filter (header_line [''---'', ''+++'']) (split_lines diff)))"

definition validatePatchPaths :: "'w ft \<Rightarrow> 'w \<Rightarrow> string \<Rightarrow> string \<Rightarrow> unit result" where
  "validatePatchPaths t w diff root =
    bindE (ensure (patch_paths diff \<noteq> []) ''patch contains no readable file paths'') (\<lambda>_.
    forE (validatePatchPath t w root) (patch_paths diff))"

definition patchTargetPaths :: "string \<Rightarrow> string \<Rightarrow> string list result" where
  "patchTargetPaths diff root =
    (let targets = first_only (map (\<lambda>p. path_resolve root (normalize_any (without_prefix p)))
       (filter (\<lambda>p. \<not> no_file p) (map header_path (filter (header_line [''+++'']) (split_lines diff)))))
     in bindE (ensure (targets \<noteq> []) ''patch contains no coordinator target paths'') (\<lambda>_. Inr targets))"

definition observedContentVersion :: "'w ft \<Rightarrow> 'w \<Rightarrow> string \<Rightarrow> string option result" where
  "observedContentVersion t w p =
    (if \<not> existsSync (ft_fx t) w p then Inr None
     else (case fx_lstat (ft_fx t) w p of
         Present n \<Rightarrow>
           bindE (ensure (nd_kind n = RegularFile) ''patch target is not a regular file'') (\<lambda>_.
           bindE (fx_readFile (ft_fx t) w p) (\<lambda>bytes. Inr (Some (fx_sha256 (ft_fx t) bytes))))
       | Absent \<Rightarrow> throw (''ENOENT: '' @ p) | Broken m \<Rightarrow> throw m))"

fun guard_targets :: "'w gx \<Rightarrow> (string \<times> string option) list \<Rightarrow> ('w, guarded list) tact" where
  "guard_targets g [] = ret []"
| "guard_targets g ((p, observed) # rest) =
    andThen (coordinatorBeforeMutation g ''apply_patch'' p (Some observed)) (\<lambda>v.
    andThen (guard_targets g rest) (\<lambda>vs. ret (v # vs)))"

definition git_apply :: "string list" where
  "git_apply = [''git'', ''-c'', ''core.autocrlf=false'', ''-c'', ''core.eol=lf'', ''apply'']"

definition first_text :: "string \<Rightarrow> string \<Rightarrow> string \<Rightarrow> string" where
  "first_text a b fallback = (if a \<noteq> [] then a else if b \<noteq> [] then b else fallback)"

definition run_git :: "'w ft \<Rightarrow> string list \<Rightarrow> string \<Rightarrow> string \<Rightarrow> ('w, run_result) tact" where
  "run_git t args root diff = ask (\<lambda>w. case ft_run t (git_apply @ args) root diff w of (res, w') \<Rightarrow> (Inr res, w'))"

definition apply_patch :: "'w ft \<Rightarrow> string \<Rightarrow> string option \<Rightarrow> ('w, reply) tact" where
  "apply_patch t diff cwd = caught t
    (andThen (case cwd of Some d \<Rightarrow> if d = [] then current_or_cwd t else user_path t d | None \<Rightarrow> current_or_cwd t) (\<lambda>p.
     andThen (structured t True p) (\<lambda>root.
     andThen (seen (\<lambda>w. validatePatchPaths t w diff root)) (\<lambda>_.
     if patchDeletesFile diff
     then denied t (JObj [(''kind'', JStr ''apply_patch_delete''), (''summary'', JStr ''patch would delete one or more files''), (''cwd'', JStr root),
       (''diff'', JStr diff), (''diffPreview'', JStr (take 4000 diff))])
     else
       andThen (run_git t [''--check'', ''--whitespace=nowarn'', ''-''] root diff) (\<lambda>check.
       if \<not> rr_ok check then ret (fail_reply (ft_limits t) (first_text (rr_stderr check) (rr_stdout check) ''git apply --check failed'') None)
       else
         andThen (look (\<lambda>_. patchTargetPaths diff root)) (\<lambda>targets.
         andThen (seen (\<lambda>w. mapE (\<lambda>p. bindE (observedContentVersion t w p) (\<lambda>v. Inr (p, v))) targets)) (\<lambda>observations.
         andThen (guard_targets (ft_guard t) observations) (\<lambda>guards.
         andThen (forA (\<lambda>(ob, v). assertCoordinatorWriteBoundary (ft_guard t) (fst ob) v) (zip observations guards)) (\<lambda>_.
         andThen (run_git t [''--whitespace=nowarn'', ''-''] root diff) (\<lambda>result.
         ret (if rr_ok result then ok_reply (ft_limits t) (if rr_stdout result \<noteq> [] then rr_stdout result else ''applied patch in '' @ root)
              else fail_reply (ft_limits t) (first_text (rr_stderr result) (rr_stdout result) ''git apply failed'') None)))))))))))"

end
