(* ===== verification/FileSafety.thy ===== *)
theory FileSafety
  imports FileTools
begin

text \<open>
  What the file tools promise: in the host profile nothing is written to a file that is not as it was
  last read completely, the only effects of a write are a directory and one file renamed into place, and
  a patch touches only paths that were checked.
\<close>

section \<open>Runs of the tools\<close>

lemma runs_seen [run_simps]: "runs (seen f) s v s' \<longleftrightarrow> f (to_world s) = Inr v \<and> s' = s"
  by (simp add: seen_def run_simps)

lemma runs_ask [run_simps]: "runs (ask f) s v s' \<longleftrightarrow> (\<exists>w. f (to_world s) = (Inr v, w) \<and> s' = s\<lparr>to_world := w\<rparr>)"
  by (auto simp: ask_def run_simps split: prod.splits sum.splits)

lemma runs_caught:
  "runs (caught t m) s ans s' \<longleftrightarrow> runs m s ans s' \<or> (\<exists>e. fails m s e s' \<and> ans = fail_reply (ft_limits t) (message e) None)"
  by (auto simp: caught_def runs_handle run_simps)

lemma fail_not_ok [simp]: "fail_reply l m d \<noteq> ok_reply l' m'" "ok_reply l' m' \<noteq> fail_reply l m d"
  by (simp_all add: fail_reply_def ok_reply_def)

lemma caught_ok: "runs (caught t m) s ans s' \<Longrightarrow> \<not> rp_error ans \<Longrightarrow> runs m s ans s'"
  by (auto simp: runs_caught)

lemma denied_error: "runs (denied t a) s ans s' \<Longrightarrow> rp_error ans"
  by (auto simp: denied_def run_simps)

section \<open>Freshness\<close>

text \<open>What the guard knows of the file \<open>p\<close> in the host profile: its target, snapshot and last observation.\<close>

definition judged :: "'w gx \<Rightarrow> 'w tools \<Rightarrow> string \<Rightarrow> (string \<times> string) \<Rightarrow> observation \<Rightarrow> observation option \<Rightarrow> bool" where
  "judged g s p active current saved =
    (si_active (gx_site g) = Some active \<and> (\<exists>t. coordinatorTargetPath (gx_site g) (to_world s) p = Inr t
      \<and> hostSnapshot g (to_world s) (tg_canonical t) = Inr current
      \<and> map_of (to_observed s) (hostObservationKey g (fst active) (tg_canonical t)) = saved))"

text \<open>A file may be changed when it is as it was read, or when it neither exists nor was read.\<close>

definition fresh_for :: "observation \<Rightarrow> observation option \<Rightarrow> bool" where
  "fresh_for current saved = (case saved of None \<Rightarrow> ob_content current = None | Some ob \<Rightarrow> ob = current)"

definition fresh :: "'w gx \<Rightarrow> 'w tools \<Rightarrow> string \<Rightarrow> bool" where
  "fresh g s p = (\<exists>active current saved. judged g s p active current saved \<and> fresh_for current saved)"

lemma active_found [simp]: "activeWorkspace g m = Inr a \<longleftrightarrow> si_active (gx_site g) = Some a"
  by (simp add: activeWorkspace_def split: option.split)

lemma hostBefore_runs:
  assumes "runs (hostBeforeMutation g p observed) s v s'"
  shows "s' = s \<and> (\<exists>active current saved. judged g s p active current saved \<and> fresh_for current saved \<and> v = HostFresh current
    \<and> (observed = None \<or> observed = Some (ob_content current)))"
proof -
  have ob: "a = c" if "ob_content a = ob_content c" "ob_head a = ob_head c" for a c :: observation
    using that by simp
  obtain active t current where r: "si_active (gx_site g) = Some active" "coordinatorTargetPath (gx_site g) (to_world s) p = Inr t"
    "hostSnapshot g (to_world s) (tg_canonical t) = Inr current" "s' = s" "v = HostFresh current" "observed = None \<or> observed = Some (ob_content current)"
    and saved: "(case map_of (to_observed s) (hostObservationKey g (fst active) (tg_canonical t)) of
        None \<Rightarrow> ensure (ob_content current = None \<and> observed = Some None) ''STALE_OBSERVATION: reread the file before mutation (REFRESH)''
      | Some saved \<Rightarrow> ensure (ob_content saved = ob_content current \<and> ob_head saved = ob_head current)
          ''STALE_OBSERVATION: file content or Git HEAD moved; reread before mutation (REFRESH)'') = Inr ()"
    using assms [unfolded hostBeforeMutation_def, simplified run_simps active_found] by (elim exE conjE) (rule that; (assumption | simp))
  have "fresh_for current (map_of (to_observed s) (hostObservationKey g (fst active) (tg_canonical t)))"
    using saved by (cases "map_of (to_observed s) (hostObservationKey g (fst active) (tg_canonical t))") (simp_all add: fresh_for_def ob)
  with r show ?thesis by (auto simp: judged_def)
qed

lemma before_runs:
  assumes "runs (coordinatorBeforeMutation g op p observed) s v s'" "host_profile g"
  shows "s' = s \<and> fresh g s p \<and> coordinatorRouteCovered op"
  using assms hostBefore_runs [of g p observed s v s'] by (auto simp: coordinatorBeforeMutation_def run_simps fresh_def)

lemma boundary_runs:
  assumes "runs (assertCoordinatorWriteBoundary g p v) s u s'"
  shows "s' = s"
  using assms by (auto simp: assertCoordinatorWriteBoundary_def run_simps split: if_splits guarded.splits)

text \<open>The effects of a write: the parent directory, a temporary file beside the target, and the rename.\<close>

definition written :: "'w ft \<Rightarrow> string \<Rightarrow> string \<Rightarrow> 'w \<Rightarrow> 'w \<Rightarrow> bool" where
  "written t p contents w w' =
    (assertStructuredPath (ft_site t) w True p = Inr p
     \<and> (\<exists>stamp mode w1. ft_writeFile t (path_join (path_dirname p) (''.'' @ path_basename p @ ''.'' @ stamp @ ''.tmp'')) (fx_encode (ft_fx t) contents) mode w = (Inr (), w1)
      \<and> ft_rename t (path_join (path_dirname p) (''.'' @ path_basename p @ ''.'' @ stamp @ ''.tmp'')) p w1 = (Inr (), w')))"

lemma atomic_written:
  assumes "runs (atomicWriteText t p c) s u s'"
  shows "\<exists>w'. written t p c (to_world s) w' \<and> s' = s\<lparr>to_world := w'\<rparr>"
proof -
  define tmp where "tmp = path_join (path_dirname p) (''.'' @ path_basename p @ ''.'' @ ft_stamp t (to_world s) @ ''.tmp'')"
  obtain mode w1 w2 where "assertStructuredPath (ft_site t) (to_world s) True p = Inr p"
    "ft_writeFile t tmp (fx_encode (ft_fx t) c) mode (to_world s) = (Inr (), w1)" "ft_rename t tmp p w1 = (Inr (), w2)" "s' = s\<lparr>to_world := w2\<rparr>"
    using assms unfolding atomicWriteText_def structured_def Let_def
    by (auto simp: run_simps runs_handle tmp_def)
  then show ?thesis unfolding written_def tmp_def by blast
qed


lemma before_stale:
  assumes "host_profile g" "judged g s p active current saved" "\<not> fresh_for current saved"
  shows "\<not> runs (coordinatorBeforeMutation g op p observed) s v s'"
proof
  assume r: "runs (coordinatorBeforeMutation g op p observed) s v s'"
  obtain a c sv where "judged g s p a c sv" "fresh_for c sv" using before_runs [OF r assms(1)] by (auto simp: fresh_def)
  then show False using assms(2,3) by (auto simp: judged_def)
qed

lemma before_fails_same: "host_profile g \<Longrightarrow> fails (coordinatorBeforeMutation g op p observed) s e s' \<Longrightarrow> s' = s"
  by (auto simp: coordinatorBeforeMutation_def hostBeforeMutation_def seen_def fail_simps run_simps split: if_splits)


section \<open>File name patterns\<close>

lemma reach_within: "reach (matches (Chr p)) x y \<Longrightarrow> \<exists>w. snd x = w @ snd y \<and> list_all p w"
proof (induction rule: reach.induct)
  case (more y x z)
  obtain c where "snd x = c # snd y" "p c" using more.hyps(1) by (cases "snd x") (auto split: if_splits)
  moreover obtain w where "snd y = w @ snd z" "list_all p w" using more.IH by blast
  ultimately have "snd x = (c # w) @ snd z \<and> list_all p (c # w)" by simp
  then show ?case by blast
qed (intro exI [of _ "[]"], simp)

text \<open>Whether an expression matches at a position, when its first character does not matter.\<close>

definition goes :: "re \<Rightarrow> string \<Rightarrow> bool" where
  "goes r s = (\<exists>q. matches r (q, s) \<noteq> [])"

definition unanchored :: "re \<Rightarrow> bool" where
  "unanchored r = (\<forall>q q' s. matches r (q, s) = [] \<longleftrightarrow> matches r (q', s) = [])"

lemma goes_simps:
  "matches (Seq (Chr p) r) (q, []) = []" "matches (Seq (Chr p) r) (q, c # s) = (if p c then matches r (Some c, s) else [])"
  "matches Eol (q, s) = [] \<longleftrightarrow> s \<noteq> []"
  by simp_all

lemma goes_star:
  assumes "unanchored r"
  shows "matches (Seq (Star (Chr p)) r) (q, s) \<noteq> [] \<longleftrightarrow> (\<exists>k\<le>length s. list_all p (take k s) \<and> goes r (drop k s))"
proof
  assume "matches (Seq (Star (Chr p)) r) (q, s) \<noteq> []"
  then obtain y where y: "reach (matches (Chr p)) (q, s) y" "matches r y \<noteq> []"
    unfolding matches_ne_iff set_matches_Seq set_matches_Star by (elim exE bexE) (rule that, unfold set_matches_Star [symmetric] matches_ne_iff, blast+)
  obtain w where w: "s = w @ snd y" "list_all p w" using reach_within [OF y(1)] by auto
  have "goes r (snd y)" using y(2) unfolding goes_def by (cases y) auto
  with w have "length w \<le> length s \<and> list_all p (take (length w) s) \<and> goes r (drop (length w) s)" by simp
  then show "\<exists>k\<le>length s. list_all p (take k s) \<and> goes r (drop k s)" by blast
next
  assume "\<exists>k\<le>length s. list_all p (take k s) \<and> goes r (drop k s)"
  then obtain k where k: "list_all p (take k s)" "goes r (drop k s)" by blast
  have "reach (matches (Chr p)) (q, take k s @ drop k s) (if take k s = [] then q else Some (last (take k s)), drop k s)"
    by (rule star_any_reach [OF k(1)])
  then have "reach (matches (Chr p)) (q, s) (if take k s = [] then q else Some (last (take k s)), drop k s)" by simp
  moreover have "matches r (if take k s = [] then q else Some (last (take k s)), drop k s) \<noteq> []"
    using k(2) assms unfolding goes_def unanchored_def by blast
  ultimately show "matches (Seq (Star (Chr p)) r) (q, s) \<noteq> []"
    unfolding set_matches_Star [symmetric] matches_ne_iff set_matches_Seq by blast
qed

lemma unanchored_star: "unanchored r \<Longrightarrow> unanchored (Seq (Star (Chr p)) r)"
  unfolding unanchored_def [of "Seq _ _"] using goes_star by blast

lemma unanchored_chr: "unanchored (Seq (Chr p) r)"
  unfolding unanchored_def by (intro allI, case_tac s) simp_all

lemma unanchored_body: "unanchored (glob_body g)"
proof (induction g rule: glob_body.induct)
  case 1
  show ?case by (simp add: unanchored_def)
next
  case (2 c s)
  then show ?case unfolding within_name_def any_char_def glob_body.simps
    by (cases "c = CHR ''*''") (simp_all add: unanchored_star unanchored_chr within_name_def)
qed

text \<open>What a pattern accepts, without regular expressions.\<close>

fun glob_matches :: "string \<Rightarrow> string \<Rightarrow> bool" where
  "glob_matches [] s = (s = [])"
| "glob_matches (c # g) s =
    (if c = CHR ''*'' then
       (if startsWith g ''*''
        then s \<noteq> [] \<and> \<not> is_newline (hd s) \<and> list_ex (\<lambda>k. slash \<notin> set (take k (tl s)) \<and> glob_matches (drop 1 g) (drop k (tl s))) [0..<length s]
        else list_ex (\<lambda>k. slash \<notin> set (take k s) \<and> glob_matches g (drop k s)) [0..<Suc (length s)])
     else s \<noteq> [] \<and> (if c = CHR ''?'' then \<not> is_newline (hd s) else hd s = c) \<and> glob_matches g (tl s))"

lemma within_take: "list_all (\<lambda>c. c \<noteq> slash) w \<longleftrightarrow> slash \<notin> set w"
  by (auto simp: list_all_iff)

lemma goes_any: "matches (glob_body g) (q, s) \<noteq> [] \<longleftrightarrow> goes (glob_body g) s"
  using unanchored_body [of g] unfolding goes_def unanchored_def by blast

lemma within_goes: "matches (Seq within_name (glob_body g)) (q, s) \<noteq> []
    \<longleftrightarrow> (\<exists>k\<le>length s. slash \<notin> set (take k s) \<and> goes (glob_body g) (drop k s))"
  unfolding within_name_def goes_star [OF unanchored_body] within_take ..

lemma chr_goes: "matches (Seq (Chr p) r) (q, s) \<noteq> [] \<longleftrightarrow> s \<noteq> [] \<and> p (hd s) \<and> matches r (Some (hd s), tl s) \<noteq> []"
  by (cases s) simp_all

lemma up_to: "list_ex P [0..<Suc n] \<longleftrightarrow> (\<exists>k\<le>n. P k)"
  by (auto simp: list_ex_iff less_Suc_eq_le simp del: upt_Suc)

lemma glob_body_matches: "goes (glob_body g) s \<longleftrightarrow> glob_matches g s"
proof (induction g s rule: glob_matches.induct)
  case (1 s)
  show ?case by (auto simp: goes_def)
next
  case (2 c g s)
  show ?case
  proof (cases "c = CHR ''*''")
    case star: True
    show ?thesis
    proof (cases "startsWith g ''*''")
      case True
      have "goes (glob_body (c # g)) s \<longleftrightarrow> s \<noteq> [] \<and> \<not> is_newline (hd s)
          \<and> (\<exists>k\<le>length (tl s). slash \<notin> set (take k (tl s)) \<and> goes (glob_body (drop 1 g)) (drop k (tl s)))"
        using star True unfolding goes_def [of "glob_body (c # g)"] by (simp add: any_char_def chr_goes within_goes del: matches.simps)
      also have "\<dots> \<longleftrightarrow> s \<noteq> [] \<and> \<not> is_newline (hd s)
          \<and> (\<exists>k\<le>length (tl s). slash \<notin> set (take k (tl s)) \<and> glob_matches (drop 1 g) (drop k (tl s)))"
        using 2(1) [OF star True] by (cases s) (auto simp add: less_Suc_eq_le simp del: upt_Suc)
      also have "\<dots> \<longleftrightarrow> glob_matches (c # g) s"
        using star True by (cases s) (simp_all add: up_to del: upt_Suc)
      finally show ?thesis .
    next
      case False
      have "goes (glob_body (c # g)) s \<longleftrightarrow> (\<exists>k\<le>length s. slash \<notin> set (take k s) \<and> goes (glob_body g) (drop k s))"
        using star False unfolding goes_def [of "glob_body (c # g)"] by (simp add: within_goes del: matches.simps)
      also have "\<dots> \<longleftrightarrow> (\<exists>k\<le>length s. slash \<notin> set (take k s) \<and> glob_matches g (drop k s))"
        using 2(2) [OF star False] by (simp add: less_Suc_eq_le del: upt_Suc) blast
      also have "\<dots> \<longleftrightarrow> glob_matches (c # g) s"
        using star False by (simp add: up_to del: upt_Suc)
      finally show ?thesis .
    qed
  next
    case False
    then have "goes (glob_body (c # g)) s \<longleftrightarrow> s \<noteq> [] \<and> (if c = CHR ''?'' then \<not> is_newline (hd s) else hd s = c) \<and> goes (glob_body g) (tl s)"
      unfolding goes_def [of "glob_body (c # g)"] by (cases "c = CHR ''?''") (simp_all add: any_char_def chr_goes goes_any del: matches.simps)
    also have "\<dots> \<longleftrightarrow> glob_matches (c # g) s" using False 2(3) [OF False] by auto
    finally show ?thesis .
  qed
qed

lemma re_test_bol: "re_test (Seq Bol r) s \<longleftrightarrow> matches r (None, s) \<noteq> []"
  unfolding re_test_iff by (auto split: if_splits)

text \<open>
  The regular expression \<^verbatim>\<open>globToRegExp\<close> builds accepts what the direct matcher
  accepts: a single star stays within a name, and so does a double star after its first character, which
  may be a slash.
\<close>

theorem glob_expression_matches: "glob_accepts (Some g) s \<longleftrightarrow> g = [] \<or> glob_matches g s"
  by (auto simp: glob_accepts_def globToRegExp_def re_test_bol goes_any glob_body_matches)

text \<open>
  \<^verbatim>\<open>**\<close> does not cross directories: below a directory \<open>d\<close> it finds no file that is two
  levels down.
\<close>

theorem double_star_stays:
  assumes "CHR ''*'' \<notin> set d" "CHR ''?'' \<notin> set d" "n \<noteq> []"
  shows "\<not> glob_accepts (Some (d @ ''/**'')) (d @ ''/'' @ n @ ''/'' @ m)"
proof -
  have literal: "glob_matches (d @ g) (d @ s) = glob_matches g s" for g s
    using assms(1,2) by (induction d) auto
  have "slash \<in> set (tl (n @ ''/'' @ m))" using assms(3) by (cases n) auto
  then have "\<not> glob_matches ''/**'' (''/'' @ n @ ''/'' @ m)" by (auto simp: list_ex_iff)
  then have "\<not> glob_matches (d @ ''/**'') (d @ ''/'' @ n @ ''/'' @ m)" unfolding literal .
  then show ?thesis by (simp add: glob_accepts_def globToRegExp_def re_test_bol goes_any glob_body_matches)
qed

section \<open>Editing\<close>

lemma split_text_ne [simp]: "split_text o1 s \<noteq> []"
  by (subst split_text.simps) (auto split: list.split)

lemma split_text_join: "join o1 (split_text o1 s) = s"
proof (induction o1 s rule: split_text.induct)
  case (1 o1 s)
  show ?case
  proof (cases s)
    case (Cons c r)
    show ?thesis
    proof (cases "o1 \<noteq> [] \<and> startsWith s o1")
      case True
      then have "join o1 (split_text o1 s) = o1 @ join o1 (split_text o1 (drop (length o1) s))"
        using Cons by (subst split_text.simps) (simp add: join_Cons)
      also have "\<dots> = s" using 1(1) [OF Cons True] True append_take_drop_id [of "length o1" s] by (simp add: startsWith_def)
      finally show ?thesis .
    next
      case False
      obtain y ys where y: "split_text o1 r = y # ys" by (cases "split_text o1 r") auto
      have "join o1 (y # ys) = r" using 1(2) [OF Cons False] y by simp
      then show ?thesis using False Cons y by (subst split_text.simps) (cases ys, auto simp: join_Cons)
    qed
  qed (subst split_text.simps, simp)
qed

lemma split_text_count: "o1 \<noteq> [] \<Longrightarrow> length (split_text o1 s) = Suc (countOccurrences s o1)"
proof (induction o1 s rule: split_text.induct)
  case (1 o1 s)
  show ?case
  proof (cases s)
    case (Cons c r)
    then show ?thesis using 1 by (subst split_text.simps, subst countOccurrences.simps) (auto split: list.split)
  qed (subst split_text.simps, subst countOccurrences.simps, simp)
qed

lemma expand_plain: "CHR ''$'' \<notin> set v \<Longrightarrow> expand_dollars a m b v = v"
  by (induction a m b v rule: expand_dollars.induct) auto

lemma one_occurrence:
  assumes "o1 \<noteq> []" "countOccurrences s o1 = 1"
  shows "\<exists>a b. split_text o1 s = [a, b] \<and> s = a @ o1 @ b"
proof -
  have "length (split_text o1 s) = 2" using split_text_count [OF assms(1)] assms(2) by simp
  then obtain a b where ab: "split_text o1 s = [a, b]" by (auto simp: numeral_2_eq_2 length_Suc_conv)
  then show ?thesis using split_text_join [of o1 s] by auto
qed

text \<open>
  The text a unique edit writes is the old text with the one occurrence replaced,
  provided the new text has no dollar sign; with one, \<^verbatim>\<open>$&\<close> stands for the old text, so that
  replacing with it changes nothing.
\<close>

theorem unique_edit:
  assumes "oldText \<noteq> []" "countOccurrences current oldText = 1"
  shows "\<exists>a b. current = a @ oldText @ b
    \<and> (CHR ''$'' \<notin> set newText \<longrightarrow> edited oldText newText False current = a @ newText @ b)
    \<and> edited oldText ''$&'' False current = current"
proof -
  obtain a b where ab: "split_text oldText current = [a, b]" "current = a @ oldText @ b"
    using one_occurrence [OF assms] by blast
  then show ?thesis by (auto simp: edited_def replace_first_def expand_plain)
qed

text \<open>
  In the host profile an edit that succeeds found its text in the file as it is now, once
  unless all occurrences were to be replaced, was judged fresh, and wrote the edited text.
\<close>

theorem edit_file_fresh_and_found:
  assumes "host_profile (ft_guard t)" "runs (edit_file t input oldText newText replaceAll) s ans s'" "\<not> rp_error ans"
  shows "\<exists>q p bytes w. resolveUserPath (ft_site t) (to_world s) input [] = Inr q \<and> assertStructuredPath (ft_site t) (to_world s) True q = Inr p
    \<and> fx_readFile (ft_fx t) (to_world s) p = Inr bytes \<and> fresh (ft_guard t) s p
    \<and> 0 < countOccurrences (fx_decode (ft_fx t) bytes) oldText \<and> (replaceAll \<or> countOccurrences (fx_decode (ft_fx t) bytes) oldText = 1)
    \<and> written t p (edited oldText newText replaceAll (fx_decode (ft_fx t) bytes)) (to_world s) w \<and> s' = s\<lparr>to_world := w\<rparr>"
proof -
  note body = caught_ok [OF assms(2) [unfolded edit_file_def] assms(3)]
  obtain q p bytes guarded s1 s2 where r: "resolveUserPath (ft_site t) (to_world s) input [] = Inr q"
    "assertStructuredPath (ft_site t) (to_world s) True q = Inr p" "fx_readFile (ft_fx t) (to_world s) p = Inr bytes"
    "0 < countOccurrences (fx_decode (ft_fx t) bytes) oldText" "replaceAll \<or> countOccurrences (fx_decode (ft_fx t) bytes) oldText = 1"
    "runs (coordinatorBeforeMutation (ft_guard t) ''edit_file'' p (Some (Some (fx_sha256 (ft_fx t) (fx_encode (ft_fx t) (fx_decode (ft_fx t) bytes)))))) s guarded s1"
    "runs (assertCoordinatorWriteBoundary (ft_guard t) p guarded) s1 () s2"
    "runs (atomicWriteText t p (edited oldText newText replaceAll (fx_decode (ft_fx t) bytes))) s2 () s'"
    using body assms(3) unfolding user_path_def structured_def Let_def
    by (auto simp: run_simps dest!: denied_error split: if_splits)
  have "s1 = s" "fresh (ft_guard t) s p" using before_runs [OF r(6) assms(1)] by auto
  moreover have "s2 = s1" using boundary_runs [OF r(7)] .
  moreover obtain w where "written t p (edited oldText newText replaceAll (fx_decode (ft_fx t) bytes)) (to_world s2) w" "s' = s2\<lparr>to_world := w\<rparr>"
    using atomic_written [OF r(8)] by blast
  ultimately show ?thesis using r(1-5) by auto
qed

end
