(* ===== verification/ToolsWitness.thy ===== *)
theory ToolsWitness
  imports FileSafety HostWitness
begin

text \<open>
  A concrete host: a directory \<open>/r\<close> with a file and a link \<open>/l\<close> to it; the properties of the configuration,
  the paths, the pending actions and the file tools are applied there.
\<close>

section \<open>The demonstration host\<close>

text \<open>The state of the file system: the files by their components, and their contents.\<close>

type_synonym disk = "(string list \<times> string) list"

definition disk_dirs :: "string list list" where
  "disk_dirs = [[], [''r'']]"

definition follow :: "string list \<Rightarrow> string list" where
  "follow cs = (case cs of [] \<Rightarrow> [] | c # rest \<Rightarrow> if c = ''l'' then ''r'' # rest else cs)"

definition disk_node :: "disk \<Rightarrow> string list \<Rightarrow> node lookup" where
  "disk_node w cs =
    (if cs \<in> set disk_dirs then Present \<lparr>nd_kind = Directory, nd_size = 0, nd_mtime = ''t'', nd_mode = 493\<rparr>
     else (case map_of w cs of Some s \<Rightarrow> Present \<lparr>nd_kind = RegularFile, nd_size = length s, nd_mtime = ''t'', nd_mode = 420\<rparr> | None \<Rightarrow> Absent))"

definition disk_lnode :: "disk \<Rightarrow> string list \<Rightarrow> node lookup" where
  "disk_lnode w cs = (if cs = [''l''] then Present \<lparr>nd_kind = SymbolicLink, nd_size = 1, nd_mtime = ''t'', nd_mode = 511\<rparr> else disk_node w (follow cs))"

definition disk_real :: "disk \<Rightarrow> string list \<Rightarrow> string result" where
  "disk_real w cs = (if disk_node w (follow cs) \<noteq> Absent then Inr (abs_path (follow cs)) else throw ''ENOENT'')"

definition disk_entries :: "disk \<Rightarrow> string list \<Rightarrow> dir_entry list result" where
  "disk_entries w cs =
    (if follow cs = [''r''] then Inr (map (\<lambda>(p, _). \<lparr>en_name = last p, en_kind = RegularFile\<rparr>) w)
     else throw ''ENOTDIR'')"

definition demo_environ :: "(string \<times> string) list" where
  "demo_environ = [(''BRIDGE_PROFILE'', ''host''), (''BRIDGE_HARDENED'', ''true''), (''INCLUDE_SCRATCH_ROOT'', ''false''), (''WORKSPACE_ROOTS'', ''/r'')]"

definition demo_fx :: "disk fx" where
  "demo_fx = \<lparr>fx_lstat = (\<lambda>w p. disk_lnode w (comps_of p)), fx_stat = (\<lambda>w p. disk_node w (follow (comps_of p))),
    fx_realpath = (\<lambda>w p. disk_real w (comps_of p)), fx_readdir = (\<lambda>w p. disk_entries w (comps_of p)),
    fx_readlink = (\<lambda>_ _. Inr ''/r''),
    fx_readFile = (\<lambda>w p. case map_of w (follow (comps_of p)) of Some s \<Rightarrow> Inr s | None \<Rightarrow> throw ''ENOENT''),
    fx_git = (\<lambda>_ _ _ _. \<lparr>p_status = Some 1, p_stdout = [], p_stderr = []\<rparr>), fx_decode = (\<lambda>s. s), fx_encode = (\<lambda>s. s),
    fx_base64 = (\<lambda>s. s), fx_unbase64 = (\<lambda>s. s), fx_sha256 = (\<lambda>s. ''sha '' @ s), fx_collated = (\<lambda>es. es),
    fx_environ = map_of demo_environ, fx_cwd = ''/'', fx_home = ''/h''\<rparr>"

definition demo_config :: config where
  "demo_config = \<lparr>c_profile = ''host'', c_stateDir = ''/h/.chatgpt-sol-local-bridge/host-v1'',
    c_hostWorktreeRoot = ''/h/.chatgpt-sol-local-bridge/host-v1/worktrees'', c_scratchDir = ''/h/.chatgpt-sol-local-bridge-scratch'',
    c_host = ''127.0.0.1'', c_port = 8765, c_socketPath = [], c_commandTimeoutMs = 120000, c_maxStdoutChars = 24000, c_maxStderrChars = 12000,
    c_maxFetchBytes = 1000000, c_maxOfficeFileBytes = 10000000, c_maxConcurrentTools = 8, c_maxProcessLogBytes = 10000000,
    c_processRetentionDays = 14, c_maxProcessRecords = 500, c_auditFailClosed = True, c_tokenTtlMs = 600000, c_approvalMode = ''deny'',
    c_hardened = True, c_verifierCommand = [], c_verifierSha256 = [], c_allowPrivateNetwork = False, c_allowCrossOriginRedirects = False,
    c_allowToolRootRegistration = False, c_includeCommonRoots = False, c_includeScratchRoot = False, c_webFetchAllowHosts = [],
    c_inheritSecrets = False, c_envAllowlist = [], c_defaultWorkspace = [], c_workspaceRoots = ''/r'', c_denyPaths = []\<rparr>"

definition demo_site :: "disk site" where
  "demo_site = \<lparr>si_fx = demo_fx, si_config = demo_config, si_active = Some (''ws'', ''/r'')\<rparr>"

definition demo_disk :: disk where
  "demo_disk = [([''r'', ''a''], ''hello'')]"

lemma demo_environ_at:
  "map_of demo_environ ''BRIDGE_PROFILE'' = Some ''host''" "map_of demo_environ ''BRIDGE_HARDENED'' = Some ''true''"
  "map_of demo_environ ''INCLUDE_SCRATCH_ROOT'' = Some ''false''" "map_of demo_environ ''WORKSPACE_ROOTS'' = Some ''/r''"
  by (simp_all add: demo_environ_def)

lemma demo_environ_none: "name \<notin> set [''BRIDGE_PROFILE'', ''BRIDGE_HARDENED'', ''INCLUDE_SCRATCH_ROOT'', ''WORKSPACE_ROOTS''] \<Longrightarrow> map_of demo_environ name = None"
  by (simp add: demo_environ_def)

lemma tools_paths:
  "path_join_any ''/h'' ''.chatgpt-sol-local-bridge/host-v1'' = ''/h/.chatgpt-sol-local-bridge/host-v1''"
  "path_join_any ''/h/.chatgpt-sol-local-bridge/host-v1'' ''worktrees'' = ''/h/.chatgpt-sol-local-bridge/host-v1/worktrees''"
  "path_join_any ''/h'' ''.chatgpt-sol-local-bridge-scratch'' = ''/h/.chatgpt-sol-local-bridge-scratch''"
  "path_resolve ''/'' ''/h/.chatgpt-sol-local-bridge/host-v1'' = ''/h/.chatgpt-sol-local-bridge/host-v1''"
  "path_resolve ''/'' ''/h/.chatgpt-sol-local-bridge/host-v1/worktrees'' = ''/h/.chatgpt-sol-local-bridge/host-v1/worktrees''"
  "path_resolve ''/'' ''/h/.chatgpt-sol-local-bridge-scratch'' = ''/h/.chatgpt-sol-local-bridge-scratch''"
  "lower ''true'' = ''true''" "lower ''false'' = ''false''"
  "splitList [] = []" "splitRawList [] = []"
  by code_simp+

lemma demo_fx_simps: "fx_environ demo_fx = map_of demo_environ" "fx_home demo_fx = ''/h''" "fx_cwd demo_fx = ''/''"
  by (simp_all add: demo_fx_def)

lemma demo_unset:
  assumes "name \<notin> set [''BRIDGE_PROFILE'', ''BRIDGE_HARDENED'', ''INCLUDE_SCRATCH_ROOT'', ''WORKSPACE_ROOTS'']"
  shows "readInteger (map_of demo_environ) name n lo hi = Inr n" "readBoolean (map_of demo_environ) name c = Inr c"
    "env_or (map_of demo_environ) name v = v"
  using demo_environ_none [OF assms] by (simp_all add: readInteger_def readBoolean_def env_or_def)

lemma demo_set:
  "readEnum (map_of demo_environ) ''BRIDGE_PROFILE'' ''legacy'' [''legacy'', ''host''] = Inr ''host''"
  "readEnum (map_of demo_environ) ''DESTRUCTIVE_APPROVAL_MODE'' ''deny'' [''deny'', ''chat'', ''external''] = Inr ''deny''"
  "readBoolean (map_of demo_environ) ''BRIDGE_HARDENED'' c = Inr True" "readBoolean (map_of demo_environ) ''INCLUDE_SCRATCH_ROOT'' c = Inr False"
  "env_or (map_of demo_environ) ''WORKSPACE_ROOTS'' v = ''/r''"
  by (simp_all add: readEnum_def readBoolean_def env_or_def demo_environ_at demo_environ_none lower_char_def)

lemma expand_plain_path: "expandHome ''/h'' (slash # s) = slash # s"
  by (simp add: expandHome_def)

lemma demo_config_loaded: "loadConfig demo_fx = Inr demo_config"
  unfolding loadConfig_def demo_fx_simps Let_def demo_set bindE_simps
  by (simp add: demo_unset demo_set tools_paths expand_plain_path checkHardened_def demo_config_def)


definition demo_roots :: "string list" where "demo_roots = [''/r'']"

theorem hardened_roots_witness: "distinct demo_roots \<and> c_approvalMode demo_config = ''deny''"
proof -
  have "c_hardened demo_config" by (simp add: demo_config_def)
  moreover have "workspaceRoots demo_fx demo_config demo_disk = Inr demo_roots" by code_simp
  ultimately show ?thesis using hardened_roots_explicit [OF demo_config_loaded] by blast
qed

theorem hardened_socket_witness: "prefix [''transport''] (comps_of ''/transport/mcp.sock'')"
proof -
  have "c_hardened demo_config" by (simp add: demo_config_def)
  moreover have "validateUnixSocketPath demo_config ''/transport/mcp.sock'' = Inr ()" by code_simp
  ultimately have p: "validateUnixSocketPath demo_config ''/transport/mcp.sock'' = Inr ()" "c_hardened demo_config" by blast+
  from hardened_socket_confined [OF p] show ?thesis by simp
qed

section \<open>Paths\<close>

lemma demo_structured: "assertStructuredPath demo_site demo_disk True ''/l/a'' = Inr ''/r/a''"
  by code_simp

lemma demo_structured_again: "assertStructuredPath demo_site demo_disk True ''/r/a'' = Inr ''/r/a''"
  by code_simp

lemma demo_root: "assertStructuredPath demo_site demo_disk False ''/r'' = Inr ''/r''"
  by code_simp


theorem tree_witness: "\<exists>out truncated. walkTree demo_site demo_disk 1 5 ''/r'' = Inr (''/r'', out, truncated) \<and> length out \<le> 5"
proof -
  obtain out truncated where "walkTree demo_site demo_disk 1 5 ''/r'' = Inr (''/r'', out, truncated)"
    by (simp add: walkTree_def demo_root Let_def)
  with tree_bounded_and_visible [OF this] show ?thesis by blast
qed

theorem visible_files_witness: "\<exists>r. visibleFilePaths demo_site demo_disk 10 1 ''/r'' = Some r"
proof -
  have "shallow demo_site demo_disk 1 ''/r''" by code_simp
  from visible_files_returned [OF demo_root this, of 10] show ?thesis by auto
qed

lemma disk_node_present: "disk_node demo_disk cs \<noteq> Absent \<longleftrightarrow> cs \<in> {[], [''r''], [''r'', ''a'']}"
  by (auto simp: disk_node_def disk_dirs_def demo_disk_def)

lemma follow_append: "cs \<noteq> [] \<Longrightarrow> follow (cs @ rest) = follow cs @ rest"
  by (cases cs) (auto simp: follow_def)

lemma follow_twice: "follow (follow cs @ rest) = follow (cs @ rest)"
  by (cases cs) (auto simp: follow_def)

lemma known_start: "a @ b \<in> {[], [''r''], [''r'', ''a'']} \<Longrightarrow> a \<in> {[], [''r''], [''r'', ''a'']}"
  by (auto simp: append_eq_Cons_conv)

lemma known_plain: "cs \<in> {[], [''r''], [''r'', ''a'']} \<Longrightarrow> list_all plain_comp cs \<and> follow cs = cs"
  by (auto simp: plain_comp_def follow_def)

lemma demo_real:
  assumes "list_all plain_comp cs"
  shows "fx_realpath (si_fx demo_site) demo_disk (abs_path cs) =
    (if follow cs \<in> {[], [''r''], [''r'', ''a'']} then Inr (abs_path (follow cs)) else throw ''ENOENT'')"
  using assms by (simp add: demo_site_def demo_fx_def disk_real_def disk_node_present del: insert_iff)

lemma demo_entry: "list_all plain_comp cs \<Longrightarrow> fx_lstat (si_fx demo_site) demo_disk (abs_path cs) = disk_lnode demo_disk cs"
  by (simp add: demo_site_def demo_fx_def)

lemma abs_path_eq: "list_all plain_comp cs \<Longrightarrow> list_all plain_comp ds \<Longrightarrow> abs_path cs = abs_path ds \<longleftrightarrow> cs = ds"
  by (metis comps_of_abs_path)

lemma demo_posix: "posix_fs demo_site demo_disk"
  unfolding posix_fs_def Let_def
proof (intro conjI allI impI)
  show "fx_realpath (si_fx demo_site) demo_disk (abs_path []) = Inr (abs_path [])"
    by (simp add: demo_real follow_def)
next
  fix p q
  assume "fx_realpath (si_fx demo_site) demo_disk p = Inr q"
  then have "follow (comps_of p) \<in> {[], [''r''], [''r'', ''a'']}" "q = abs_path (follow (comps_of p))"
    by (simp_all add: demo_site_def demo_fx_def disk_real_def disk_node_present del: insert_iff split: if_splits)
  then show "\<exists>ds. list_all plain_comp ds \<and> q = abs_path ds \<and> fx_realpath (si_fx demo_site) demo_disk (abs_path ds) = Inr q"
    using known_plain by (intro exI [of _ "follow (comps_of p)"]) (simp add: demo_real del: insert_iff)
next
  fix cs c n
  assume p: "list_all plain_comp (cs @ [c])" and r: "fx_realpath (si_fx demo_site) demo_disk (abs_path cs) = Inr (abs_path cs)"
    and e: "fx_lstat (si_fx demo_site) demo_disk (abs_path (cs @ [c])) = Present n" "nd_kind n \<noteq> SymbolicLink"
  have cs: "follow cs = cs" "cs \<in> {[], [''r''], [''r'', ''a'']}"
    using p r known_plain [of "follow cs"] by (auto simp: demo_real abs_path_eq split: if_splits)
  have ne: "cs @ [c] \<noteq> [''l'']" using e p by (auto simp: demo_entry disk_lnode_def)
  then have f: "follow (cs @ [c]) = cs @ [c]" using cs by (cases cs) (auto simp: follow_def)
  moreover have "cs @ [c] \<in> {[], [''r''], [''r'', ''a'']}"
    using e p ne f disk_node_present [of "cs @ [c]"] by (auto simp: demo_entry disk_lnode_def simp del: insert_iff split: if_splits)
  ultimately show "fx_realpath (si_fx demo_site) demo_disk (abs_path (cs @ [c])) = Inr (abs_path (cs @ [c]))"
    using p by (simp add: demo_real del: insert_iff)
next
  fix cs c q
  assume p: "list_all plain_comp (cs @ [c])" and "fx_realpath (si_fx demo_site) demo_disk (abs_path (cs @ [c])) = Inr q"
  then have "disk_node demo_disk (follow (cs @ [c])) \<noteq> Absent"
    by (simp add: demo_real disk_node_present del: insert_iff split: if_splits)
  moreover have "disk_node demo_disk w \<noteq> Broken m" for w m by (simp add: disk_node_def split: option.split)
  ultimately show "\<exists>n. fx_lstat (si_fx demo_site) demo_disk (abs_path (cs @ [c])) = Present n"
    using p by (cases "disk_node demo_disk (follow (cs @ [c]))") (auto simp: demo_entry disk_lnode_def)
next
  fix cs ds rest
  assume p: "list_all plain_comp (cs @ rest)" "list_all plain_comp ds" and r: "fx_realpath (si_fx demo_site) demo_disk (abs_path cs) = Inr (abs_path ds)"
  have "follow cs \<in> {[], [''r''], [''r'', ''a'']}" "ds = follow cs"
    using p r known_plain [of "follow cs"] by (auto simp: demo_real abs_path_eq split: if_splits)
  then show "fx_realpath (si_fx demo_site) demo_disk (abs_path (cs @ rest)) = fx_realpath (si_fx demo_site) demo_disk (abs_path (ds @ rest))"
    using p by (simp add: demo_real follow_twice)
next
  fix cs rest q
  assume p: "list_all plain_comp (cs @ rest)" and "fx_realpath (si_fx demo_site) demo_disk (abs_path (cs @ rest)) = Inr q"
  then have k: "follow (cs @ rest) \<in> {[], [''r''], [''r'', ''a'']}" by (simp add: demo_real del: insert_iff split: if_splits)
  have "follow cs \<in> {[], [''r''], [''r'', ''a'']}"
  proof (cases "cs = []")
    case False
    then show ?thesis using k known_start by (simp add: follow_append del: insert_iff)
  qed (simp add: follow_def)
  then show "\<exists>r. fx_realpath (si_fx demo_site) demo_disk (abs_path cs) = Inr r"
    using p by (simp add: demo_real del: insert_iff)
qed

theorem canonical_write_witness: "canonicalPath demo_site demo_disk True ''/l/a'' = Inr ''/r/a''"
proof -
  have "fx_realpath (si_fx demo_site) demo_disk (si_resolve demo_site ''/l/a'') = Inr ''/r/a''" by code_simp
  with canonical_write_path [OF demo_posix] show ?thesis by blast
qed

section \<open>Texts\<close>

theorem split_args_witness: "splitArgs (join '' '' (map escape_arg [''a b'', ''c''])) = Inr [''a b'', ''c'']"
  by (rule split_args_roundtrip) simp

section \<open>Pending actions\<close>

text \<open>Dates in unary, with a sign.\<close>

definition unary_date :: "int \<Rightarrow> string" where
  "unary_date n = (if n < 0 then CHR ''-'' else CHR ''+'') # replicate (nat \<bar>n\<bar>) (CHR ''1'')"

definition parse_unary :: "string \<Rightarrow> int option" where
  "parse_unary s = (case s of [] \<Rightarrow> None | c # r \<Rightarrow> Some (if c = CHR ''-'' then - int (length r) else int (length r)))"

definition demo_px :: "disk px" where
  "demo_px = \<lparr>px_fx = demo_fx, px_config = demo_config\<lparr>c_hardened := False, c_approvalMode := ''chat'', c_tokenTtlMs := 5\<rparr>,
    px_clock = (\<lambda>w. (10, w)), px_iso = unary_date, px_parse_date = parse_unary, px_random = (\<lambda>w. (''0f'', w)),
    px_audit = (\<lambda>_ _ w. (True, w)), px_spawn = (\<lambda>_ _ _ w. (\<lparr>p_status = Some 0, p_stdout = [], p_stderr = []\<rparr>, w)),
    px_by_key = (\<lambda>kvs. kvs), px_oldest_first = (\<lambda>vs. vs)\<rparr>"

definition idle :: "disk pend" where "idle = \<lparr>pe_world = demo_disk, pe_file = None\<rparr>"

definition demo_action :: json where
  "demo_action = JObj [(''kind'', JStr ''shell''), (''command'', JStr ''rm a'')]"

definition queued_state :: "disk pend" where "queued_state = fst (snd (queueDestructive demo_px demo_action idle))"
definition queued_answer :: json where "queued_answer = the_answer (queueDestructive demo_px demo_action idle)"
definition taken_state :: "disk pend" where "taken_state = fst (snd (takeDestructive demo_px ''del_0f'' True queued_state))"

lemma queued_runs: "runs (queueDestructive demo_px demo_action) idle queued_answer queued_state"
proof -
  have "answered (queueDestructive demo_px demo_action idle)" by code_simp
  then show ?thesis unfolding queued_answer_def queued_state_def by (rule runs_answer)
qed

definition taken_item :: json where
  "taken_item = (case the_answer (takeDestructive demo_px ''del_0f'' True queued_state) of Taken item \<Rightarrow> item | Refused _ \<Rightarrow> JNull)"

lemma taken_runs: "runs (takeDestructive demo_px ''del_0f'' True) queued_state (Taken taken_item) taken_state"
proof -
  have "answered (takeDestructive demo_px ''del_0f'' True queued_state)" by code_simp
  then have "runs (takeDestructive demo_px ''del_0f'' True) queued_state (the_answer (takeDestructive demo_px ''del_0f'' True queued_state)) taken_state"
    unfolding taken_state_def by (rule runs_answer)
  moreover have "the_answer (takeDestructive demo_px ''del_0f'' True queued_state) = Taken taken_item" by code_simp
  ultimately show ?thesis by simp
qed



lemma unary_parses: "parse_unary (unary_date n) = Some n"
  by (simp add: parse_unary_def unary_date_def)

theorem queue_take_witness: "get queued_answer ''fingerprint'' = Some (JStr (fingerprint demo_px (normalizeAction demo_action)))"
proof -
  have tok: "get queued_answer ''token'' = Some (JStr ''del_0f'')" by code_simp
  have until: "get queued_answer ''expiresAt'' = Some (JStr (px_iso demo_px 15))" by code_simp
  have px: "c_approvalMode (px_config demo_px) = ''chat''" "px_parse_date demo_px (px_iso demo_px n) = Some n" "px_iso demo_px n \<noteq> []"
    "fst (px_audit demo_px e d w)" "fst (px_clock demo_px (pe_world queued_state)) < 15" for n e d w
    by (simp_all add: demo_px_def unary_parses) (simp add: unary_date_def)
  show ?thesis using queue_take_roundtrip [OF queued_runs refl px(1-4) tok until px(5)] by blast
qed

section \<open>The file tools\<close>

definition demo_guard :: "disk gx" where
  "demo_guard = \<lparr>gx_site = demo_site, gx_environ = [], gx_brokerReady = (\<lambda>_. False),
    gx_coordinate = (\<lambda>_ _ _ w. (throw ''none'', w)), gx_observe = (\<lambda>_ _ w. (throw ''none'', w))\<rparr>"

definition demo_tools :: "disk ft" where
  "demo_tools = \<lparr>ft_guard = demo_guard, ft_policy = demo_px, ft_limits = \<lparr>max_stdout = 1000, max_stderr = 1000\<rparr>,
    ft_mkdirp = (\<lambda>_ w. (Inr (), w)), ft_writeFile = (\<lambda>p c _ w. (Inr (), (comps_of p, c) # filter (\<lambda>f. fst f \<noteq> comps_of p) w)),
    ft_rename = (\<lambda>p q w. (Inr (), case map_of w (comps_of p) of None \<Rightarrow> w
      | Some c \<Rightarrow> (comps_of q, c) # filter (\<lambda>f. fst f \<noteq> comps_of p \<and> fst f \<noteq> comps_of q) w)),
    ft_unlink = (\<lambda>_ w. (Inr (), w)), ft_stamp = (\<lambda>_. ''1.2''), ft_run = (\<lambda>_ _ _ w. (\<lparr>rr_ok = True, rr_stdout = [], rr_stderr = []\<rparr>, w)),
    ft_commandExists = (\<lambda>_ _. False), ft_ripgrep = (\<lambda>_ _. \<lparr>p_status = Some 1, p_stdout = [], p_stderr = []\<rparr>), ft_fuel = 5\<rparr>"

definition seen_file :: observation where
  "seen_file = \<lparr>ob_content = Some ''sha hello'', ob_head = None\<rparr>"

text \<open>The file was read completely; and it was not.\<close>

definition after_read :: "disk tools" where
  "after_read = \<lparr>to_world = demo_disk, to_observed = [(''ws:/r/a'', seen_file)], to_pending = None\<rparr>"

definition not_read :: "disk tools" where
  "not_read = \<lparr>to_world = demo_disk, to_observed = [], to_pending = None\<rparr>"

lemma demo_parts: "ft_guard demo_tools = demo_guard" "gx_site demo_guard = demo_site" "host_profile demo_guard"
    "to_world after_read = demo_disk" "to_world not_read = demo_disk"
  by (simp_all add: demo_tools_def demo_guard_def host_profile_def demo_site_def demo_config_def after_read_def not_read_def)

lemma demo_user_path: "resolveUserPath demo_site demo_disk ''/l/a'' [] = Inr ''/l/a''"
  by code_simp

lemma tools_target: "coordinatorTargetPath demo_site demo_disk ''/r/a'' =
    Inr \<lparr>tg_root = ''/r'', tg_resolved = ''/r/a'', tg_canonical = ''/r/a'', tg_relative = ''a''\<rparr>"
  by code_simp

lemma tools_snapshot: "hostSnapshot demo_guard demo_disk ''/r/a'' = Inr seen_file"
  by code_simp

lemma demo_key: "hostObservationKey demo_guard ''ws'' ''/r/a'' = ''ws:/r/a''"
  by code_simp

lemma demo_exists: "existsSync demo_fx demo_disk ''/r/a''" "would_empty demo_tools demo_disk ''/r/a'' ''bye'' = Inr False"
    "fx_stat demo_fx demo_disk ''/r/a'' = Present \<lparr>nd_kind = RegularFile, nd_size = 5, nd_mtime = ''t'', nd_mode = 420\<rparr>"
  by code_simp+

lemma demo_active: "activeWorkspace demo_guard m = Inr (''ws'', ''/r'')"
  by (simp add: demo_guard_def demo_site_def)

lemma demo_fx_of: "si_fx demo_site = demo_fx"
  by (simp add: demo_site_def)

lemma demo_fresh: "runs (coordinatorBeforeMutation demo_guard ''write_file'' ''/r/a'' None) after_read (HostFresh seen_file) after_read"
  by (simp add: coordinatorBeforeMutation_def hostBeforeMutation_def demo_parts run_simps demo_active tools_target tools_snapshot demo_key
      coordinatorRouteCovered_def COVERED_ROUTES_def)
    (simp add: after_read_def seen_file_def)

lemma demo_boundary: "runs (assertCoordinatorWriteBoundary demo_guard ''/r/a'' (HostFresh seen_file)) after_read () after_read"
  by (simp add: assertCoordinatorWriteBoundary_def demo_parts run_simps tools_snapshot)

definition written_disk :: disk where "written_disk = [([''r'', ''a''], ''bye'')]"

definition demo_tmp :: string where "demo_tmp = ''/r/.a.1.2.tmp''"

lemma demo_tmp_path: "path_join (path_dirname ''/r/a'') (''.'' @ path_basename ''/r/a'' @ ''.'' @ ft_stamp demo_tools demo_disk @ ''.tmp'') = demo_tmp"
  by code_simp

definition tmp_disk :: disk where "tmp_disk = ([''r'', ''.a.1.2.tmp''], ''bye'') # demo_disk"

lemma demo_writes:
  "ft_mkdirp demo_tools (path_dirname ''/r/a'') demo_disk = (Inr (), demo_disk)"
  "ft_writeFile demo_tools demo_tmp (fx_encode demo_fx ''bye'') 420 demo_disk = (Inr (), tmp_disk)"
  "ft_rename demo_tools demo_tmp ''/r/a'' tmp_disk = (Inr (), written_disk)"
  by code_simp+

lemma demo_atomic: "runs (atomicWriteText demo_tools ''/r/a'' ''bye'') after_read () (after_read\<lparr>to_world := written_disk\<rparr>)"
  unfolding atomicWriteText_def Let_def structured_def
  by (simp add: run_simps runs_handle demo_parts demo_fx_of demo_structured_again demo_exists demo_tmp_path [simplified] demo_writes)

definition write_answer :: reply where
  "write_answer = ok_reply (ft_limits demo_tools) (''wrote '' @ ''/r/a'' @ '' ('' @ digits_of (byteLength ''bye'') @ '' bytes)'')"

lemma demo_write_steps:
  "runs (user_path demo_tools ''/l/a'') after_read ''/l/a'' after_read"
  "runs (structured demo_tools True ''/l/a'') after_read ''/r/a'' after_read"
  "runs (seen (\<lambda>w. Inr (if existsSync (ft_fx demo_tools) w ''/r/a'' then None else Some None))) after_read None after_read"
  "runs (ask (ft_mkdirp demo_tools (path_dirname ''/r/a''))) after_read () after_read"
  "runs (seen (\<lambda>w. would_empty demo_tools w ''/r/a'' ''bye'')) after_read False after_read"
proof -
  have same: "after_read\<lparr>to_world := demo_disk\<rparr> = after_read" by (simp add: after_read_def)
  show "runs (ask (ft_mkdirp demo_tools (path_dirname ''/r/a''))) after_read () after_read"
    unfolding runs_ask demo_parts demo_writes by (simp add: same)
qed (simp_all add: user_path_def structured_def run_simps demo_parts demo_fx_of demo_user_path demo_structured demo_exists)

lemma demo_write_runs: "runs (write_file demo_tools ''/l/a'' ''bye'') after_read write_answer (after_read\<lparr>to_world := written_disk\<rparr>)"
  unfolding write_file_def runs_caught
  by (rule disjI1, rule runs_andThenI [OF demo_write_steps(1)], rule runs_andThenI [OF demo_write_steps(2)], rule runs_andThenI [OF demo_write_steps(3)],
    unfold demo_parts(1), rule runs_andThenI [OF demo_fresh], rule runs_andThenI [OF demo_boundary], rule runs_andThenI [OF demo_write_steps(4)],
    rule runs_andThenI [OF demo_write_steps(5)], unfold if_False, rule runs_andThenI [OF demo_atomic])
    (simp add: run_simps write_answer_def)


lemma demo_stale: "judged demo_guard not_read ''/r/a'' (''ws'', ''/r'') seen_file None"
  by (simp add: judged_def demo_parts tools_target tools_snapshot) (simp add: demo_site_def not_read_def)

definition stale_answer :: reply where
  "stale_answer = the_answer (write_file demo_tools ''/l/a'' ''bye'' not_read)"

lemma caught_answers: "\<exists>ans s'. runs (caught t m) s ans s'"
  unfolding runs_caught by (cases "m s") (auto simp: runs_def fails_def, metis error.exhaust obj_sumE)


theorem unique_edit_witness: "edited ''b'' ''xyz'' False ''abc'' = ''axyzc''"
proof -
  have "countOccurrences ''abc'' ''b'' = 1" by code_simp
  from unique_edit [OF _ this, of "''xyz''"] show ?thesis by (auto simp: Cons_eq_append_conv)
qed

theorem double_star_witness: "\<not> glob_accepts (Some ''src/**'') ''src/lib/a.js''"
  using double_star_stays [of "''src''" "''lib''" "''a.js''"] by simp

theorem redaction_witness: "redacted (redact (JObj [(''password'', JStr ''x''), (''n'', JStr ''y'')]) ''args'') ''args''"
  using redaction_complete by blast

theorem glob_expression_witness: "glob_accepts (Some ''*.js'') ''a.js''"
  unfolding glob_expression_matches by code_simp

end
