(* ===== verification/Processes.thy ===== *)
theory Processes
  imports FileTools
begin

text \<open>
  Running programs (\<^verbatim>\<open>src/lib/exec.js\<close>) on Linux: the environment of a child, the collection of its
  output, a run until it is settled, and the processes the bridge started.  The process table, signals,
  time and the file system are parameters (\<open>kx\<close>).
\<close>

section \<open>Commands\<close>

text \<open>A command is a line for the shell or an array.\<close>

datatype command = Line string | Argv "string list"

definition normalizeCommand :: "command \<Rightarrow> (string \<times> string list) result" where
  "normalizeCommand c =
    (case c of
       Argv [] \<Rightarrow> throw ''command array is empty''
     | Argv (f # args) \<Rightarrow> Inr (f, args)
     | Line s \<Rightarrow> if trim s = [] then throw ''command is empty'' else Inr (s, []))"

definition shellQuote :: "string \<Rightarrow> string" where
  "shellQuote v = squote # concat (map (\<lambda>c. if c = squote then [squote, dquote, squote, dquote, squote] else [c]) v) @ [squote]"

definition displayCommand :: "command \<Rightarrow> string" where
  "displayCommand c = (case c of Argv args \<Rightarrow> join '' '' (map shellQuote args) | Line s \<Rightarrow> s)"

section \<open>The environment of a child\<close>

text \<open>Environments are objects: association lists without repeated keys.\<close>

type_synonym environ = "(string \<times> string) list"

definition set_key :: "string \<Rightarrow> string \<Rightarrow> environ \<Rightarrow> environ" where
  "set_key k v env = (if k \<in> fst ` set env then map (\<lambda>kv. if fst kv = k then (k, v) else kv) env else env @ [(k, v)])"

definition set_keys :: "environ \<Rightarrow> environ \<Rightarrow> environ" where
  "set_keys kvs env = fold (\<lambda>(k, v). set_key k v) kvs env"

text \<open>\<^verbatim>\<open>env.K ||= v\<close>.\<close>

definition default_key :: "string \<Rightarrow> string \<Rightarrow> environ \<Rightarrow> environ" where
  "default_key k v env = (case map_of env k of Some old \<Rightarrow> if old = [] then set_key k v env else env | None \<Rightarrow> set_key k v env)"

definition without_keys :: "(string \<Rightarrow> bool) \<Rightarrow> environ \<Rightarrow> environ" where
  "without_keys P env = filter (\<lambda>kv. \<not> P (fst kv)) env"

definition HARDENED_KEYS :: "string list" where
  "HARDENED_KEYS = [''CI'', ''HOME'', ''HOST'', ''LANG'', ''LC_ALL'', ''LC_CTYPE'', ''LOGNAME'', ''NODE_ENV'', ''NO_COLOR'',
    ''PATH'', ''PORT'', ''PWD'', ''TEMP'', ''TERM'', ''TMP'', ''TMPDIR'', ''TZ'', ''USER'',
    ''BRIDGE_GOVERNANCE_MODE'', ''BRIDGE_REVIEWED_HOOK_PATH'', ''BRIDGE_REVIEWED_HOOKS_PATH'', ''BRIDGE_REVIEWED_POLICY_PATH'']"

definition hardenedEnvironment :: "environ \<Rightarrow> environ \<Rightarrow> environ" where
  "hardenedEnvironment process_env overrides =
    (let env = without_keys (\<lambda>k. k \<notin> set HARDENED_KEYS) (set_keys overrides process_env);
         defaults = [(''HOME'', ''/home/bridge''), (''TMPDIR'', ''/tmp''), (''TMP'', ''/tmp''), (''TEMP'', ''/tmp''), (''NO_COLOR'', ''1'')];
         fixed_keys = [(''NPM_CONFIG_USERCONFIG'', ''/dev/null''), (''GIT_CONFIG_NOSYSTEM'', ''1''), (''GIT_CONFIG_GLOBAL'', ''/dev/null''), (''GIT_TERMINAL_PROMPT'', ''0'')]
     in set_keys fixed_keys (fold (\<lambda>(k, v). default_key k v) defaults env))"

definition BROKER_KEYS :: "string list" where
  "BROKER_KEYS = [''S6_BROKER_SOCKET'', ''S6_BROKER_CAPABILITY'', ''S6_GITHUB_TOKEN_FILE'', ''GITHUB_TOKEN'', ''GH_TOKEN'', ''GH_ENTERPRISE_TOKEN'',
    ''GITLAB_TOKEN'', ''BITBUCKET_TOKEN'', ''GIT_ASKPASS'', ''GIT_SSH_COMMAND'']"

definition GIT_CONFIG_KEY :: re where
  "GIT_CONFIG_KEY = seqs [Bol, lit ''GIT_CONFIG_'', alts [lit ''COUNT'', seqs [lit ''KEY_'', Plus (Chr is_digit)], seqs [lit ''VALUE_'', Plus (Chr is_digit)]], Eol]"

definition SECRET_ENV :: re where
  "SECRET_ENV = seqs [alts [Bol, lit ''_''],
     alts [lit_i ''TOKEN'', lit_i ''SECRET'', lit_i ''PASSWORD'', lit_i ''PASSWD'', lit_i ''KEY'', lit_i ''API_KEY'', lit_i ''PRIVATE_KEY'',
       seqs [lit_i ''CREDENTIAL'', Opt (lit_i ''S'')]],
     alts [Eol, lit ''_'']]"

definition secret_env_key :: "string \<Rightarrow> bool" where
  "secret_env_key k = (re_test SECRET_ENV k \<or> k \<in> set [''MCP_TOKEN'', ''CONTROL_PLANE_API_KEY'', ''OPENAI_API_KEY'', ''ANTHROPIC_API_KEY''])"

definition toolEnvironment :: "config \<Rightarrow> environ \<Rightarrow> environ \<Rightarrow> environ" where
  "toolEnvironment c process_env overrides =
    (let env0 = (if c_hardened c then hardenedEnvironment process_env overrides else set_keys overrides process_env);
         env1 = without_keys (\<lambda>k. k \<in> set BROKER_KEYS) env0;
         env = (if c_profile c \<noteq> ''host'' then without_keys (\<lambda>k. k = ''SSH_AUTH_SOCK'') env1 else env1)
     in if c_inheritSecrets c \<and> \<not> c_hardened c then env
        else without_keys (\<lambda>k. re_test GIT_CONFIG_KEY k \<or> k \<notin> set (c_envAllowlist c) \<and> secret_env_key k) env)"

section \<open>Collected output\<close>

record collector =
  co_text :: string
  co_omitted :: nat

definition collect :: "nat \<Rightarrow> string \<Rightarrow> collector \<Rightarrow> collector" where
  "collect limit chunk k =
    (let t = co_text k @ chunk in
     if limit * 2 < length t
     then \<lparr>co_text = (if limit = 0 then t else drop (length t - limit) t), co_omitted = co_omitted k + (length t - limit)\<rparr>
     else k\<lparr>co_text := t\<rparr>)"

definition collected :: "nat \<Rightarrow> collector \<Rightarrow> string" where
  "collected limit k =
    (if 0 < co_omitted k then clip_tail limit (co_text k) @ [nl, ellipsis] @ '' '' @ digits_of (co_omitted k) @ '' earlier chars discarded while streaming''
     else clip limit (co_text k))"

section \<open>A run\<close>

text \<open>What happens to a child that was started; a signal is only asked for at a time-out or an abort.\<close>

datatype child_event = TimedOut | Aborted | OutChunk string | ErrChunk string | SpawnError string | Closed "int option" "string option"

record run_answer =
  ra_ok :: bool
  ra_code :: "int option"
  ra_signal :: "string option"
  ra_timedOut :: bool
  ra_cancelled :: bool
  ra_stdout :: string
  ra_stderr :: string

record child =
  ch_timedOut :: bool
  ch_cancelled :: bool
  ch_out :: collector
  ch_err :: collector
  ch_answer :: "run_answer option"
  ch_kills :: "nat list"

definition new_child :: child where
  "new_child = \<lparr>ch_timedOut = False, ch_cancelled = False, ch_out = \<lparr>co_text = [], co_omitted = 0\<rparr>, ch_err = \<lparr>co_text = [], co_omitted = 0\<rparr>,
    ch_answer = None, ch_kills = []\<rparr>"

definition finish :: "nat \<Rightarrow> nat \<Rightarrow> int option \<Rightarrow> string option \<Rightarrow> child \<Rightarrow> child" where
  "finish maxOut maxErr code sig c =
    (if ch_answer c \<noteq> None then c
     else c\<lparr>ch_answer := Some \<lparr>ra_ok = (code = Some 0 \<and> \<not> ch_timedOut c \<and> \<not> ch_cancelled c), ra_code = code, ra_signal = sig,
       ra_timedOut = ch_timedOut c, ra_cancelled = ch_cancelled c, ra_stdout = collected maxOut (ch_out c), ra_stderr = collected maxErr (ch_err c)\<rparr>\<rparr>)"

text \<open>Finishing clears the timer and the abort listener, so that both are silent afterwards.\<close>

fun child_step :: "nat \<Rightarrow> nat \<Rightarrow> child_event \<Rightarrow> child \<Rightarrow> child" where
  "child_step maxOut maxErr TimedOut c = (if ch_answer c \<noteq> None then c else c\<lparr>ch_timedOut := True, ch_kills := ch_kills c @ [2000]\<rparr>)"
| "child_step maxOut maxErr Aborted c = (if ch_answer c \<noteq> None then c else c\<lparr>ch_cancelled := True, ch_kills := ch_kills c @ [500]\<rparr>)"
| "child_step maxOut maxErr (OutChunk s) c = c\<lparr>ch_out := collect maxOut s (ch_out c)\<rparr>"
| "child_step maxOut maxErr (ErrChunk s) c = c\<lparr>ch_err := collect maxErr s (ch_err c)\<rparr>"
| "child_step maxOut maxErr (SpawnError m) c = finish maxOut maxErr None None (c\<lparr>ch_err := collect maxErr (nl # m) (ch_err c)\<rparr>)"
| "child_step maxOut maxErr (Closed code sig) c = finish maxOut maxErr code sig c"

definition run_child :: "nat \<Rightarrow> nat \<Rightarrow> child_event list \<Rightarrow> child" where
  "run_child maxOut maxErr events = fold (child_step maxOut maxErr) events new_child"

text \<open>The answer as an object.\<close>

definition command_json :: "command \<Rightarrow> string \<Rightarrow> run_answer \<Rightarrow> json" where
  "command_json command cwd a =
    JObj [(''ok'', JBool (ra_ok a)), (''code'', case ra_code a of Some n \<Rightarrow> JNum n | None \<Rightarrow> JNull),
      (''signal'', case ra_signal a of Some s \<Rightarrow> JStr s | None \<Rightarrow> JNull), (''timedOut'', JBool (ra_timedOut a)), (''cancelled'', JBool (ra_cancelled a)),
      (''stdout'', JStr (ra_stdout a)), (''stderr'', JStr (ra_stderr a)), (''cwd'', JStr cwd), (''command'', JStr (displayCommand command))]"

section \<open>The process table\<close>

text \<open>\<open>kx_stat\<close> is the text of \<^verbatim>\<open>/proc/pid/stat\<close>; \<open>kx_running\<close> is the answer to signal 0; \<open>kx_kill\<close> tells
  whether the signal could be sent; \<open>kx_sleep\<close> is the world after a delay.  \<open>kx_newest_first\<close> sorts by
  \<^verbatim>\<open>localeCompare\<close>.\<close>

record 'w kx =
  kx_site :: "'w site"
  kx_environ :: environ
  kx_running :: "'w \<Rightarrow> int \<Rightarrow> bool"
  kx_stat :: "'w \<Rightarrow> int \<Rightarrow> string result"
  kx_kill :: "int \<Rightarrow> string \<Rightarrow> 'w \<Rightarrow> bool \<times> 'w"
  kx_sleep :: "nat \<Rightarrow> 'w \<Rightarrow> 'w"
  kx_spawnDetached :: "string \<Rightarrow> string list \<Rightarrow> string \<Rightarrow> environ \<Rightarrow> bool \<Rightarrow> string \<Rightarrow> string \<Rightarrow> 'w \<Rightarrow> int result \<times> 'w"
  kx_probe :: "'w \<Rightarrow> string list \<Rightarrow> proc_result"
  kx_openLog :: "string \<Rightarrow> 'w \<Rightarrow> unit result \<times> 'w"
  kx_writeJson :: "string \<Rightarrow> json \<Rightarrow> 'w \<Rightarrow> unit result \<times> 'w"
  kx_writeBytes :: "string \<Rightarrow> string \<Rightarrow> 'w \<Rightarrow> unit result \<times> 'w"
  kx_unlink :: "string \<Rightarrow> 'w \<Rightarrow> unit result \<times> 'w"
  kx_newId :: "'w \<Rightarrow> string \<times> 'w"
  kx_nowIso :: "'w \<Rightarrow> string"
  kx_now :: "'w \<Rightarrow> int"
  kx_parse_date :: "string \<Rightarrow> int option"
  kx_newest_first :: "(json \<times> string) list \<Rightarrow> (json \<times> string) list"

abbreviation kx_config :: "'w kx \<Rightarrow> config" where "kx_config x \<equiv> si_config (kx_site x)"

abbreviation kx_fx :: "'w kx \<Rightarrow> 'w fx" where "kx_fx x \<equiv> si_fx (kx_site x)"

definition attempt :: "('w \<Rightarrow> unit result \<times> 'w) \<Rightarrow> ('w, unit) act" where
  "attempt f = andThen (call f) (\<lambda>r. case r of Inr u \<Rightarrow> ret () | Inl e \<Rightarrow> fail (message e))"

text \<open>Such a write within \<^verbatim>\<open>try { ... } catch {}\<close>.\<close>

definition quietly :: "('w \<Rightarrow> unit result \<times> 'w) \<Rightarrow> ('w, unit) act" where
  "quietly f = handle (attempt f) (\<lambda>_. ret ())"

fun last_index :: "char \<Rightarrow> string \<Rightarrow> int" where
  "last_index c [] = - 1"
| "last_index c (d # s) = (let n = last_index c s in if n \<ge> 0 then n + 1 else if d = c then 0 else - 1)"

fun space_fields :: "string \<Rightarrow> string list" where
  "space_fields s = nonempty (split_by is_space s)"

definition start_time :: "string \<Rightarrow> string option" where
  "start_time stat =
    (let fields = space_fields (drop (nat (last_index (CHR '')'') stat + 2)) stat) in if 19 < length fields then Some (fields ! 19) else None)"

definition getProcessIdentity :: "'w kx \<Rightarrow> 'w \<Rightarrow> int \<Rightarrow> string" where
  "getProcessIdentity x w pid =
    (case kx_stat x w pid of
       Inl _ \<Rightarrow> []
     | Inr stat \<Rightarrow> (case start_time stat of Some t \<Rightarrow> ''linux:'' @ t | None \<Rightarrow> []))"

definition isPidRunning :: "'w kx \<Rightarrow> 'w \<Rightarrow> int \<Rightarrow> bool" where
  "isPidRunning x w pid = (0 < pid \<and> kx_running x w pid)"

definition isSameProcess :: "'w kx \<Rightarrow> 'w \<Rightarrow> int \<Rightarrow> string \<Rightarrow> bool" where
  "isSameProcess x w pid identity = (identity \<noteq> [] \<and> isPidRunning x w pid \<and> getProcessIdentity x w pid = identity)"

text \<open>A signal to the process group, or to the process when that fails; both may fail silently.\<close>

definition signal_tree :: "'w kx \<Rightarrow> int \<Rightarrow> string \<Rightarrow> ('w, unit) act" where
  "signal_tree x pid sig =
    andThen (call (kx_kill x (- pid) sig)) (\<lambda>sent.
    if sent then ret () else andThen (call (kx_kill x pid sig)) (\<lambda>_. ret ()))"

definition may_signal :: "'w kx \<Rightarrow> 'w \<Rightarrow> int \<Rightarrow> string \<Rightarrow> bool" where
  "may_signal x w pid expectedIdentity = (isPidRunning x w pid \<and> (expectedIdentity = [] \<or> getProcessIdentity x w pid = expectedIdentity))"

definition terminateProcessTree :: "'w kx \<Rightarrow> int \<Rightarrow> nat \<Rightarrow> string \<Rightarrow> ('w, unit) act" where
  "terminateProcessTree x pid forceAfterMs expectedIdentity =
    andThen (look (\<lambda>w. Inr (may_signal x w pid expectedIdentity))) (\<lambda>ok.
    if \<not> ok then ret ()
    else
      andThen (signal_tree x pid ''SIGTERM'') (\<lambda>_.
      andThen (call (\<lambda>w. ((), kx_sleep x (min forceAfterMs 2000) w))) (\<lambda>_.
      andThen (look (\<lambda>w. Inr (may_signal x w pid expectedIdentity))) (\<lambda>still.
      if \<not> still then ret () else signal_tree x pid ''SIGKILL''))))"

section \<open>Processes the bridge started\<close>

definition log_dir :: "'w kx \<Rightarrow> string" where "log_dir x = path_join_any (c_stateDir (kx_config x)) ''logs''"

definition proc_dir :: "'w kx \<Rightarrow> string" where "proc_dir x = path_join_any (c_stateDir (kx_config x)) ''processes''"

definition out_log :: "'w kx \<Rightarrow> string \<Rightarrow> string" where "out_log x i = path_join_any (log_dir x) (i @ ''.out.log'')"

definition err_log :: "'w kx \<Rightarrow> string \<Rightarrow> string" where "err_log x i = path_join_any (log_dir x) (i @ ''.err.log'')"

definition work_dir :: "'w kx \<Rightarrow> 'w \<Rightarrow> string \<Rightarrow> string result" where
  "work_dir x w cwd = (if cwd \<noteq> [] then Inr cwd else bindE (currentWorkspace (kx_site x) w) (\<lambda>c. Inr (if c \<noteq> [] then c else fx_cwd (kx_fx x))))"

definition startProcess :: "'w kx \<Rightarrow> command \<Rightarrow> string \<Rightarrow> environ \<Rightarrow> ('w, json) act" where
  "startProcess x command cwd overrides =
    andThen (call (kx_newId x)) (\<lambda>i.
    andThen (look (\<lambda>w. work_dir x w cwd)) (\<lambda>dir.
    andThen (attempt (kx_openLog x (out_log x i))) (\<lambda>_.
    andThen (attempt (kx_openLog x (err_log x i))) (\<lambda>_.
    andThen (look (\<lambda>_. normalizeCommand command)) (\<lambda>(prog, args).
    andThen (call (kx_spawnDetached x prog args dir (toolEnvironment (kx_config x) (kx_environ x) overrides)
        (case command of Line _ \<Rightarrow> True | Argv _ \<Rightarrow> False) (out_log x i) (err_log x i))) (\<lambda>started.
    andThen (case started of Inr pid \<Rightarrow> guard (pid \<noteq> 0) ''process did not return a pid'' | Inl e \<Rightarrow> fail (message e)) (\<lambda>_.
    andThen (look (\<lambda>w. Inr (JObj [(''id'', JStr i), (''pid'', JNum (projr started)), (''command'', JStr (displayCommand command)), (''cwd'', JStr dir),
      (''workspaceId'', case si_active (kx_site x) of Some (ws, _) \<Rightarrow> if ws = [] then JNull else JStr ws | None \<Rightarrow> JNull),
      (''startedAt'', JStr (kx_nowIso x w)), (''platform'', JStr ''linux''), (''identity'', JStr (getProcessIdentity x w (projr started))),
      (''stdoutPath'', JStr (out_log x i)), (''stderrPath'', JStr (err_log x i))]))) (\<lambda>meta.
    andThen (attempt (kx_writeJson x (path_join_any (proc_dir x) (i @ ''.json'')) meta)) (\<lambda>_.
    ret meta)))))))))"

definition capLogFile :: "'w kx \<Rightarrow> string \<Rightarrow> ('w, unit) act" where
  "capLogFile x p = handle
    (andThen (look (\<lambda>w. case fx_stat (kx_fx x) w p of Present n \<Rightarrow> Inr (nd_size n) | Absent \<Rightarrow> throw ''ENOENT'' | Broken m \<Rightarrow> throw m)) (\<lambda>size.
     if int size \<le> c_maxProcessLogBytes (kx_config x) then ret ()
     else
       andThen (look (\<lambda>w. fx_readFile (kx_fx x) w p)) (\<lambda>bytes.
       let keep = nat (c_maxProcessLogBytes (kx_config x) div 2) in
       attempt (kx_writeBytes x p (''[older bridge log output truncated]'' @ [nl] @ drop (length bytes - keep) bytes)))))
    (\<lambda>_. ret ())"

definition process_id_ok :: "json option \<Rightarrow> bool" where
  "process_id_ok v = re_test (seqs [Bol, lit ''p_'', Plus (Chr is_word), Eol]) (case v of None \<Rightarrow> ''undefined'' | Some j \<Rightarrow> to_string j)"

definition process_fields :: "json \<Rightarrow> (string \<times> int \<times> string) option" where
  "process_fields meta =
    (case (get meta ''id'', get meta ''pid'') of
       (i, Some (JNum pid)) \<Rightarrow> if process_id_ok i then Some (to_string (the i), pid, string_or_empty (get meta ''identity'')) else None
     | _ \<Rightarrow> None)"

text \<open>A record of a process file that is kept: its object with \<^verbatim>\<open>running\<close>, and the file.\<close>

definition process_record :: "'w kx \<Rightarrow> string \<Rightarrow> ('w, (json \<times> string) list) act" where
  "process_record x name =
    (let p = path_join_any (proc_dir x) name in
     andThen (look (\<lambda>w. Inr (case fx_readFile (kx_fx x) w p of
         Inl _ \<Rightarrow> None | Inr bytes \<Rightarrow> JSON_parse (fx_decode (kx_fx x) bytes)))) (\<lambda>parsed.
     case parsed of
       None \<Rightarrow> ret []
     | Some meta \<Rightarrow>
         (case (process_fields meta, get meta ''stdoutPath'', get meta ''stderrPath'') of
            (Some (i, pid, identity), Some (JStr outPath), Some (JStr errPath)) \<Rightarrow>
              if path_resolve (fx_cwd (kx_fx x)) outPath \<noteq> out_log x i \<or> path_resolve (fx_cwd (kx_fx x)) errPath \<noteq> err_log x i then ret []
              else
                andThen (capLogFile x (out_log x i)) (\<lambda>_.
                andThen (capLogFile x (err_log x i)) (\<lambda>_.
                look (\<lambda>w. Inr [(put_field ''running'' (JBool (isSameProcess x w pid identity)) meta, p)])))
          | _ \<Rightarrow> ret [])))"

fun process_records :: "'w kx \<Rightarrow> string list \<Rightarrow> ('w, (json \<times> string) list) act" where
  "process_records x [] = ret []"
| "process_records x (n # ns) = andThen (process_record x n) (\<lambda>r. andThen (process_records x ns) (\<lambda>rs. ret (r @ rs)))"

definition process_expired :: "'w kx \<Rightarrow> int \<Rightarrow> nat \<Rightarrow> json \<Rightarrow> bool" where
  "process_expired x cutoff index meta =
    ((case get meta ''startedAt'' of Some (JStr d) \<Rightarrow> (case kx_parse_date x d of Some t \<Rightarrow> t < cutoff | None \<Rightarrow> False) | _ \<Rightarrow> False)
     \<or> c_maxProcessRecords (kx_config x) \<le> int index)"

fun retain :: "'w kx \<Rightarrow> int \<Rightarrow> nat \<Rightarrow> (json \<times> string) list \<Rightarrow> ('w, json list) act" where
  "retain x cutoff index [] = ret []"
| "retain x cutoff index ((meta, p) # rs) =
    (if process_expired x cutoff index meta \<and> get meta ''running'' \<noteq> Some (JBool True)
     then andThen (forA (\<lambda>q. quietly (kx_unlink x q)) [p, string_or_empty (get meta ''stdoutPath''), string_or_empty (get meta ''stderrPath'')]) (\<lambda>_.
       retain x cutoff (Suc index) rs)
     else andThen (retain x cutoff (Suc index) rs) (\<lambda>kept. ret (meta # kept)))"

text \<open>The start times are strings (the bridge writes them); otherwise sorting two records throws.\<close>

definition listProcesses :: "'w kx \<Rightarrow> string option \<Rightarrow> ('w, json list) act" where
  "listProcesses x workspaceId =
    andThen (look (\<lambda>w. bindE (fx_readdir (kx_fx x) w (proc_dir x)) (\<lambda>es. Inr (filter (\<lambda>n. endsWith n ''.json'') (map en_name es))))) (\<lambda>names.
    andThen (process_records x names) (\<lambda>records.
    andThen (guard (length records \<le> 1 \<or> list_all (\<lambda>r. case get (fst r) ''startedAt'' of Some (JStr _) \<Rightarrow> True | _ \<Rightarrow> False) records)
      ''Cannot read properties of undefined (reading 'localeCompare')'') (\<lambda>_.
    andThen (look (\<lambda>w. Inr (kx_now x w - c_processRetentionDays (kx_config x) * 86400000))) (\<lambda>cutoff.
    andThen (retain x cutoff 0 (kx_newest_first x records)) (\<lambda>kept.
    ret (case workspaceId of None \<Rightarrow> kept | Some ws \<Rightarrow> if ws = [] then kept else filter (\<lambda>m. get m ''workspaceId'' = Some (JStr ws)) kept))))))"

definition find_process :: "string \<Rightarrow> json list \<Rightarrow> json option" where
  "find_process i ms = find (\<lambda>m. get m ''id'' = Some (JStr i)) ms"

definition stopProcess :: "'w kx \<Rightarrow> string \<Rightarrow> ('w, json) act" where
  "stopProcess x i =
    andThen (listProcesses x None) (\<lambda>ms.
    case find_process i ms of
      None \<Rightarrow> fail (''unknown bridge-managed process '' @ i)
    | Some m \<Rightarrow>
        (let pid = (case get m ''pid'' of Some (JNum n) \<Rightarrow> n | _ \<Rightarrow> 0); identity = string_or_empty (get m ''identity'') in
         andThen (look (\<lambda>w. ensure (\<not> (isPidRunning x w pid \<and> \<not> isSameProcess x w pid identity))
           (''PID '' @ int_to_string pid @ '' was reused; refusing to stop an unrelated process''))) (\<lambda>_.
         andThen (look (\<lambda>w. Inr (isSameProcess x w pid identity))) (\<lambda>same.
         andThen (if same then terminateProcessTree x pid 2000 identity else ret ()) (\<lambda>_.
         andThen (look (\<lambda>w. Inr (isSameProcess x w pid identity))) (\<lambda>still.
         ret (put_fields [(''running'', JBool still), (''signal'', JStr ''TERM'')] m)))))))"

section \<open>Logs and programs\<close>

definition tailFile :: "'w kx \<Rightarrow> 'w \<Rightarrow> string \<Rightarrow> nat \<Rightarrow> nat \<Rightarrow> string result" where
  "tailFile x w p lines maxBytes =
    (if \<not> existsSync (kx_fx x) w p then Inr []
     else bindE (fx_readFile (kx_fx x) w p) (\<lambda>bytes.
       let ls = split_lines (fx_decode (kx_fx x) (drop (length bytes - maxBytes) bytes)) in
       Inr (join [nl] (if lines = 0 then ls else drop (length ls - lines) ls))))"

definition commandExists :: "'w kx \<Rightarrow> 'w \<Rightarrow> string \<Rightarrow> bool" where
  "commandExists x w c = (p_status (kx_probe x w [''/bin/sh'', ''-lc'', ''command -v -- '' @ shellQuote c]) = Some 0)"

end
