(* ===== verification/GitTools.thy ===== *)
theory GitTools
  imports Processes HostIndex PolicyPath ReviewedHooks
begin

text \<open>
  The Git tools (\<^verbatim>\<open>src/tools/git.js\<close>) and the reviewed hooks (\<^verbatim>\<open>src/lib/git-governance.js\<close>).
  Running a program, probing Git synchronously and the broker's channel are parameters (\<open>gt\<close>); the index of host
  workspaces is the one of \<open>HostWorkspaces\<close>.  Abort signals only change what a run answers.
\<close>

section \<open>Parameters\<close>

record 'w gt =
  gt_site :: "'w site"
  gt_limits :: limits
  gt_run :: "string list \<Rightarrow> string \<Rightarrow> environ \<Rightarrow> 'w \<Rightarrow> run_answer \<times> 'w"
  gt_spawn :: "'w \<Rightarrow> spawn"
  gt_brokerConfigured :: "'w \<Rightarrow> bool"
  gt_preflight :: "'w \<Rightarrow> unit result \<times> 'w"
  gt_attest :: "string \<Rightarrow> 'w \<Rightarrow> unit result \<times> 'w"
  gt_publishBranch :: "'w \<Rightarrow> json result \<times> 'w"

abbreviation gt_fx :: "'w gt \<Rightarrow> 'w fx" where "gt_fx t \<equiv> si_fx (gt_site t)"

abbreviation gt_env :: "'w gt \<Rightarrow> string \<Rightarrow> string option" where "gt_env t \<equiv> fx_environ (gt_fx t)"

definition on_host :: "'w gt \<Rightarrow> bool" where
  "on_host t = (c_profile (si_config (gt_site t)) = ''host'')"

abbreviation answer_json :: "string list \<Rightarrow> string \<Rightarrow> run_answer \<Rightarrow> json" where
  "answer_json argv \<equiv> command_json (Argv argv)"

definition tool_reply :: "'w gt \<Rightarrow> ('w, json) act \<Rightarrow> ('w, reply) act" where
  "tool_reply t m = handle (andThen m (\<lambda>v. ret (json_reply (gt_limits t) v))) (\<lambda>e. ret (fail_reply (gt_limits t) (message e) None))"

section \<open>Git in a repository\<close>

definition nativeEnvironment :: "'w gt \<Rightarrow> environ" where
  "nativeEnvironment t = [(''GIT_TERMINAL_PROMPT'', ''0''), (''GIT_OPTIONAL_LOCKS'', ''0'')] @
    (if on_host t then [] else [(''GIT_CONFIG_NOSYSTEM'', ''1''), (''GIT_CONFIG_GLOBAL'', ''/dev/null'')])"

definition git_argv :: "string list \<Rightarrow> string \<Rightarrow> string list" where
  "git_argv args root = [''git'', ''--no-pager'', ''--literal-pathspecs'', ''-c'', ''safe.directory='' @ root] @ args"

definition run_in :: "'w gt \<Rightarrow> string list \<Rightarrow> string \<Rightarrow> ('w, run_answer) act" where
  "run_in t args root = call (gt_run t (git_argv args root) root (nativeEnvironment t))"

text \<open>The answer of a Git command as the tools return it.\<close>

definition git_json :: "'w gt \<Rightarrow> string list \<Rightarrow> string \<Rightarrow> ('w, json) act" where
  "git_json t args root = andThen (run_in t args root) (\<lambda>a. ret (answer_json (git_argv args root) root a))"

definition repositoryRoot :: "'w gt \<Rightarrow> string option \<Rightarrow> bool \<Rightarrow> ('w, string) act" where
  "repositoryRoot t cwd forWrite =
    (let x = gt_site t in
     andThen (look (\<lambda>w. bindE (case cwd of Some d \<Rightarrow> if d \<noteq> [] then resolveUserPath x w d [] else bindE (currentWorkspace x w) (\<lambda>c. Inr (if c \<noteq> [] then c else fx_cwd (gt_fx t)))
         | None \<Rightarrow> bindE (currentWorkspace x w) (\<lambda>c. Inr (if c \<noteq> [] then c else fx_cwd (gt_fx t)))) (assertInWorkspace x w forWrite))) (\<lambda>starting.
     andThen (call (gt_run t [''git'', ''-c'', ''safe.directory=*'', ''rev-parse'', ''--show-toplevel''] starting [])) (\<lambda>a.
     andThen (guard (ra_ok a) (if ra_stderr a \<noteq> [] then ra_stderr a else ''cwd is not inside a Git repository'')) (\<lambda>_.
     andThen (look (\<lambda>w. canonicalPath x w False (trim (ra_stdout a)))) (\<lambda>root.
     andThen (guard (si_within x root starting \<or> si_within x starting root) ''Git repository root is outside the workspace'') (\<lambda>_.
     andThen (look (\<lambda>w. assertInWorkspace x w forWrite root)) (\<lambda>_.
     ret root)))))))"

section \<open>Selected paths\<close>

definition glob_chars :: string where "glob_chars = ''*?[]:''"

definition literal_path :: "string \<Rightarrow> bool" where
  "literal_path v = (v \<noteq> [] \<and> nul \<notin> set v \<and> \<not> is_absolute v \<and> \<not> startsWith v ''-'' \<and> list_all (\<lambda>c. c \<notin> set v) glob_chars)"

definition selectedRepoPath :: "'w gt \<Rightarrow> 'w \<Rightarrow> string \<Rightarrow> bool \<Rightarrow> bool \<Rightarrow> bool \<Rightarrow> string \<Rightarrow> string result" where
  "selectedRepoPath t w root mustExist regularFileOnly allowMissing value =
    (let x = gt_site t; fx = gt_fx t in
    bindE (ensure (literal_path value) (''Git path must be a literal workspace-relative path: '' @ value)) (\<lambda>_.
    bindE (ensure (''..'' \<notin> set (split_by (\<lambda>c. c = slash \<or> c = backslash) value)) (''Git path may not contain '..': '' @ value)) (\<lambda>_.
    let resolved = path_resolve root (normalize_any value) in
    bindE (ensure (si_within x resolved root) (''Git path escapes repository root: '' @ value)) (\<lambda>_.
    bindE (assertStructuredPath x w True resolved) (\<lambda>checked.
    bindE (ensure (si_within x checked root) (''Git path resolves outside repository root: '' @ value)) (\<lambda>_.
    bindE (ensure (\<not> (\<not> allowMissing \<and> \<not> existsSync fx w checked \<and> mustExist)) (''Git path does not exist: '' @ value)) (\<lambda>_.
    bindE (if \<not> mustExist then Inr ()
           else (case fx_lstat fx w checked of
               Present n \<Rightarrow> ensure (nd_kind n \<noteq> SymbolicLink \<and> (regularFileOnly \<longrightarrow> nd_kind n = RegularFile)) (''Git stage accepts only existing regular files: '' @ value)
             | Absent \<Rightarrow> throw (''ENOENT: '' @ checked) | Broken m \<Rightarrow> throw m)) (\<lambda>_.
    Inr (path_relative (fx_cwd fx) root checked)))))))))"

definition names_of :: "'w gt \<Rightarrow> string list \<Rightarrow> string \<Rightarrow> string \<Rightarrow> ('w, string list) act" where
  "names_of t args failure root =
    andThen (run_in t args root) (\<lambda>a.
    andThen (guard (ra_ok a) (if ra_stderr a \<noteq> [] then ra_stderr a else failure)) (\<lambda>_.
    ret (nonempty (split_on nul (ra_stdout a)))))"

definition stagedPaths :: "'w gt \<Rightarrow> string \<Rightarrow> ('w, string list) act" where
  "stagedPaths t root = names_of t [''diff'', ''--cached'', ''--name-only'', ''-z''] ''could not inspect the Git index'' root"

definition stagedDeletedPaths :: "'w gt \<Rightarrow> string \<Rightarrow> ('w, string list) act" where
  "stagedDeletedPaths t root = names_of t [''diff'', ''--cached'', ''--name-only'', ''--diff-filter=D'', ''-z''] ''could not inspect staged deletions'' root"

definition stagedPathsForDiff :: "'w gt \<Rightarrow> string \<Rightarrow> bool \<Rightarrow> ('w, string list) act" where
  "stagedPathsForDiff t root staged =
    names_of t ([''diff''] @ (if staged then [''--cached''] else []) @ [''--name-only'', ''-z'']) ''could not inspect Git diff paths'' root"

definition assertVisibleDiffPaths :: "'w gt \<Rightarrow> string \<Rightarrow> bool \<Rightarrow> ('w, unit) act" where
  "assertVisibleDiffPaths t root staged =
    andThen (stagedPathsForDiff t root staged) (\<lambda>paths.
    look (\<lambda>w. bindE (mapE (selectedRepoPath t w root False False True) paths) (\<lambda>_. Inr ())))"

definition assertBranchName :: "'w gt \<Rightarrow> string \<Rightarrow> string \<Rightarrow> ('w, unit) act" where
  "assertBranchName t root name =
    andThen (guard (name \<noteq> [] \<and> \<not> startsWith name ''-'' \<and> nul \<notin> set name \<and> length name \<le> 120) ''invalid local branch name'') (\<lambda>_.
    andThen (run_in t [''check-ref-format'', ''--branch'', name] root) (\<lambda>a.
    guard (ra_ok a) (if ra_stderr a \<noteq> [] then ra_stderr a else ''invalid local branch name'')))"

section \<open>Reading and branching\<close>

definition runGitRead :: "'w gt \<Rightarrow> string list \<Rightarrow> string option \<Rightarrow> ('w, reply) act" where
  "runGitRead t args cwd = tool_reply t (andThen (repositoryRoot t cwd False) (git_json t args))"

definition git_status :: "'w gt \<Rightarrow> string option \<Rightarrow> ('w, reply) act" where
  "git_status t cwd = runGitRead t [''status'', ''--short'', ''--branch'', ''--untracked-files=no''] cwd"

definition git_log :: "'w gt \<Rightarrow> string option \<Rightarrow> nat option \<Rightarrow> ('w, reply) act" where
  "git_log t cwd limit = runGitRead t [''log'', ''-'' @ digits_of (case limit of Some n \<Rightarrow> n | None \<Rightarrow> 15), ''--oneline'', ''--decorate''] cwd"

definition git_diff :: "'w gt \<Rightarrow> string option \<Rightarrow> bool \<Rightarrow> string option \<Rightarrow> ('w, reply) act" where
  "git_diff t cwd staged selection = tool_reply t
    (andThen (repositoryRoot t cwd False) (\<lambda>root.
     andThen (case selection of Some p \<Rightarrow> if p \<noteq> [] then look (\<lambda>w. bindE (selectedRepoPath t w root False False False p) (\<lambda>r. Inr [r])) else ret []
       | None \<Rightarrow> ret []) (\<lambda>selected.
     andThen (if selected = [] then assertVisibleDiffPaths t root staged else ret ()) (\<lambda>_.
     git_json t ([''diff'', ''--no-ext-diff'', ''--no-textconv''] @ (if staged then [''--cached''] else []) @ [''--''] @ selected) root))))"

definition git_branch_create :: "'w gt \<Rightarrow> string \<Rightarrow> string option \<Rightarrow> ('w, reply) act" where
  "git_branch_create t name cwd = tool_reply t
    (andThen (repositoryRoot t cwd True) (\<lambda>root. andThen (assertBranchName t root name) (\<lambda>_. git_json t [''branch'', ''--'', name] root)))"

definition git_branch_switch :: "'w gt \<Rightarrow> string \<Rightarrow> string option \<Rightarrow> ('w, reply) act" where
  "git_branch_switch t name cwd = tool_reply t
    (andThen (repositoryRoot t cwd True) (\<lambda>root. andThen (assertBranchName t root name) (\<lambda>_. git_json t [''switch'', ''--no-guess'', ''--'', name] root)))"

definition git_stage :: "'w gt \<Rightarrow> string list \<Rightarrow> string option \<Rightarrow> ('w, reply) act" where
  "git_stage t paths cwd = tool_reply t
    (andThen (repositoryRoot t cwd True) (\<lambda>root.
     andThen (look (\<lambda>w. mapE (selectedRepoPath t w root True True False) paths)) (\<lambda>selected.
     andThen (guard (distinct selected) ''git_stage received duplicate paths'') (\<lambda>_.
     git_json t ([''add'', ''--''] @ selected) root))))"

section \<open>Reviewed hooks\<close>

definition reviewedHooksPath :: "'w gt \<Rightarrow> string" where
  "reviewedHooksPath t = env_or (gt_env t) ''BRIDGE_REVIEWED_HOOKS_PATH'' ''.githooks''"

definition hook_path :: "'w gt \<Rightarrow> bool \<Rightarrow> string \<Rightarrow> string" where
  "hook_path t s6 root = (if s6 then env_or (gt_env t) ''BRIDGE_REVIEWED_HOOK_PATH'' ''/bridge-governance/hooks/pre-commit''
    else path_join_any root ''.githooks/pre-commit'')"

definition policy_path :: "'w gt \<Rightarrow> bool \<Rightarrow> string \<Rightarrow> string" where
  "policy_path t s6 root = (if s6 then env_or (gt_env t) ''BRIDGE_REVIEWED_POLICY_PATH'' ''/bridge-governance/pre-commit-policy.mjs''
    else path_join_any root ''scripts/pre-commit-policy.mjs'')"

definition node_at :: "'w gt \<Rightarrow> 'w \<Rightarrow> string \<Rightarrow> node result" where
  "node_at t w p = (case fx_lstat (gt_fx t) w p of Present n \<Rightarrow> Inr n | Absent \<Rightarrow> throw (''ENOENT: '' @ p) | Broken m \<Rightarrow> throw m)"

text \<open>\<^verbatim>\<open>mode & 0o111\<close>.\<close>

definition executable_bits :: "nat \<Rightarrow> bool" where
  "executable_bits mode = (odd mode \<or> odd (mode div 8) \<or> odd (mode div 64))"

definition reviewed_files :: "'w gt \<Rightarrow> 'w \<Rightarrow> string \<Rightarrow> string \<Rightarrow> unit result" where
  "reviewed_files t w mode root =
    (let s6 = (mode = ''s6''); fx = gt_fx t in
    bindE (node_at t w (hook_path t s6 root)) (\<lambda>n.
    bindE (ensure (nd_kind n = RegularFile \<and> executable_bits (nd_mode n)) ''reviewed executable pre-commit hook is required'') (\<lambda>_.
    bindE (fx_readFile fx w (hook_path t s6 root)) (\<lambda>hook.
    bindE (ensure (fx_decode fx hook = (if s6 then S6_REVIEWED_HOOK_SOURCE else REVIEWED_HOOK_SOURCE))
      (''reviewed '' @ mode @ '' pre-commit hook does not match the approved hook'')) (\<lambda>_.
    bindE (node_at t w (policy_path t s6 root)) (\<lambda>p.
    bindE (ensure (nd_kind p = RegularFile) ''reviewed pre-commit policy helper is required'') (\<lambda>_.
    bindE (fx_readFile fx w (policy_path t s6 root)) (\<lambda>policy.
    ensure (fx_sha256 fx policy = REVIEWED_POLICY_SHA256) ''pre-commit policy helper hash is not the reviewed bridge version''))))))))"

definition assertReviewedHooks :: "'w gt \<Rightarrow> string \<Rightarrow> string \<Rightarrow> ('w, unit) act" where
  "assertReviewedHooks t mode root =
    andThen (guard (mode \<in> set [''s5'', ''s6'']) ''unknown reviewed governance mode'') (\<lambda>_.
    andThen (look (\<lambda>w. reviewed_files t w mode root)) (\<lambda>_.
    andThen (call (gt_run t [''git'', ''-c'', ''safe.directory='' @ root, ''config'', ''--local'', ''--get'', ''core.hooksPath''] root [])) (\<lambda>a.
    guard (ra_ok a \<and> trim (ra_stdout a) = reviewedHooksPath t) (''core.hooksPath must be exactly '' @ reviewedHooksPath t))))"

section \<open>Committing\<close>

definition governance_mode :: "'w gt \<Rightarrow> string" where
  "governance_mode t = (if on_host t then ''host'' else env_or (gt_env t) ''BRIDGE_GOVERNANCE_MODE'' ''s5'')"

definition governed_staged :: "'w gt \<Rightarrow> 'w \<Rightarrow> string \<Rightarrow> string list \<Rightarrow> unit result" where
  "governed_staged t w root staged =
    bindE (mapE (\<lambda>v. assertGovernedGitPath (gitProbe (gt_spawn t w) (env_or (gt_env t) ''PATH'' []) root) v ''HEAD'' [] False ''git_commit'') staged) (\<lambda>_. Inr ())"

definition wrapped :: "string \<Rightarrow> ('w \<Rightarrow> unit result \<times> 'w) \<Rightarrow> ('w, unit) act" where
  "wrapped label f = andThen (call f) (\<lambda>r. case r of Inr u \<Rightarrow> ret () | Inl e \<Rightarrow> fail (label @ message e))"

definition commitReviewedIndex :: "'w gt \<Rightarrow> string \<Rightarrow> string \<Rightarrow> string \<Rightarrow> ('w, json) act" where
  "commitReviewedIndex t mode root msg =
    andThen (guard (trim msg \<noteq> [] \<and> nul \<notin> set msg) ''commit message must be non-empty and contain no NUL bytes'') (\<lambda>_.
    andThen (if mode \<noteq> ''host'' then assertReviewedHooks t mode root else ret ()) (\<lambda>_.
    andThen (stagedPaths t root) (\<lambda>staged.
    andThen (guard (staged \<noteq> []) ''git_commit requires selected staged paths'') (\<lambda>_.
    andThen (if mode \<noteq> ''host''
             then andThen (stagedDeletedPaths t root) (\<lambda>deleted.
               andThen (guard (deleted = []) (''git_commit refuses staged deletions: '' @ join '', '' deleted)) (\<lambda>_.
               look (\<lambda>w. governed_staged t w root staged)))
             else ret ()) (\<lambda>_.
    andThen (if mode = ''s6''
             then andThen (look (\<lambda>w. ensure (gt_brokerConfigured t w) ''S6 structured commits require the manager-owned broker attestation channel'')) (\<lambda>_.
               wrapped ''S6 commit is not publishable before commit: '' (gt_preflight t))
             else ret ()) (\<lambda>_.
    let args = (if mode = ''host'' then [''commit'', ''-m'', msg] else [''-c'', ''core.hooksPath='' @ reviewedHooksPath t, ''commit'', ''-m'', msg]) in
    andThen (run_in t args root) (\<lambda>res.
    andThen (if mode = ''s6''
             then andThen (run_in t [''rev-parse'', ''HEAD''] root) (\<lambda>head.
               andThen (guard (ra_ok head) ''S6 commit was created but its HEAD could not be attested'') (\<lambda>_.
               wrapped ''S6 commit was created but is not publishable: '' (gt_attest t (trim (ra_stdout head)))))
             else ret ()) (\<lambda>_.
    ret (answer_json (git_argv args root) root res)))))))))"

definition git_commit :: "'w gt \<Rightarrow> string \<Rightarrow> string option \<Rightarrow> ('w, reply) act" where
  "git_commit t msg cwd = tool_reply t
    (andThen (repositoryRoot t cwd True) (\<lambda>root. commitReviewedIndex t (governance_mode t) root msg))"

definition git_publish_branch :: "'w gt \<Rightarrow> json \<Rightarrow> ('w, reply) act" where
  "git_publish_branch t args =
    (if keys args \<noteq> [] then ret (fail_reply (gt_limits t) ''git_publish_branch accepts no caller-supplied authority or target'' None)
     else if gt_env t ''BRIDGE_GOVERNANCE_MODE'' \<noteq> Some ''s6'' then ret (fail_reply (gt_limits t) ''git_publish_branch is available only in an active S6 session'' None)
     else tool_reply t (andThen (call (gt_publishBranch t)) (\<lambda>r. case r of Inr v \<Rightarrow> ret v | Inl e \<Rightarrow> fail (message e))))"

section \<open>Publishing an attached branch\<close>

definition remoteBranchHead :: "'r hosts gt \<Rightarrow> binding_view \<Rightarrow> ('r, string) hact" where
  "remoteBranchHead t b =
    andThen (run_in t [''ls-remote'', ''--heads'', ''--exit-code'', bv_remote b, ''refs/heads/'' @ bv_branch b] (bv_worktreePath b)) (\<lambda>a.
    andThen (guard (ra_ok a) ''attached workspace remote branch is unavailable'') (\<lambda>_.
    let head = lower (hd (split_by is_space (trim (ra_stdout a)) @ [[]])) in
    andThen (guard (hex_40_64 head) ''attached workspace remote branch returned an invalid head'') (\<lambda>_.
    ret head)))"

definition push_args :: "binding_view \<Rightarrow> string \<Rightarrow> string list" where
  "push_args b head = [''push'', ''--porcelain'', ''--no-force'', bv_remote b, head @ '':refs/heads/'' @ bv_branch b]"

definition publishAttachedBranch :: "'r hosts gt \<Rightarrow> 'r hx \<Rightarrow> string \<Rightarrow> ('r, json) hact" where
  "publishAttachedBranch t x workspaceId =
    andThen (publishBinding x workspaceId) (\<lambda>b.
    andThen (run_in t [''rev-parse'', ''HEAD''] (bv_worktreePath b)) (\<lambda>localHead.
    andThen (guard (ra_ok localHead \<and> hex_40_64 (trim (ra_stdout localHead))) ''attached workspace local HEAD is unavailable'') (\<lambda>_.
    let publishedHead = trim (ra_stdout localHead) in
    andThen (guard (publishedHead \<noteq> bv_expectedHead b) ''attached workspace has no new commit to publish'') (\<lambda>_.
    andThen (run_in t [''merge-base'', ''--is-ancestor'', bv_expectedHead b, publishedHead] (bv_worktreePath b)) (\<lambda>ancestor.
    andThen (guard (ra_ok ancestor) ''attached workspace HEAD is not a fast-forward of its expected remote head'') (\<lambda>_.
    andThen (remoteBranchHead t b) (\<lambda>before.
    andThen (guard (before = bv_expectedHead b) (''attached workspace remote head moved; expected '' @ bv_expectedHead b @ '', observed '' @ before)) (\<lambda>_.
    andThen (run_in t (push_args b publishedHead) (bv_worktreePath b)) (\<lambda>pushed.
    andThen (guard (ra_ok pushed) ''attached branch publish was refused by the recorded remote'') (\<lambda>_.
    andThen (remoteBranchHead t b) (\<lambda>readback.
    andThen (guard (readback = publishedHead) ''attached branch publish readback did not match the reviewed local HEAD'') (\<lambda>_.
    andThen (recordPublishedHead x workspaceId (Some (JStr (bv_expectedHead b))) (Some (JStr publishedHead))) (\<lambda>_.
    ret (JObj [(''workspaceId'', JStr workspaceId), (''remote'', JStr (bv_remote b)), (''branch'', JStr (bv_branch b)),
      (''previousRemoteHead'', JStr before), (''publishedHead'', JStr publishedHead), (''remoteHead'', JStr readback)]))))))))))))))"

definition git_publish_attached_branch :: "'r hosts gt \<Rightarrow> 'r hx \<Rightarrow> ('r, reply) hact" where
  "git_publish_attached_branch t x =
    (case si_active (gt_site t) of
       None \<Rightarrow> ret (fail_reply (gt_limits t) ''git_publish_attached_branch requires an explicit workspace ID'' None)
     | Some (ws, _) \<Rightarrow> tool_reply t (publishAttachedBranch t x ws))"

end
