(* ===== verification/GitSafety.thy ===== *)
theory GitSafety
  imports GitTools FileSafety
begin

text \<open>
  What the Git tools do when they answer without an error (\<^verbatim>\<open>src/tools/git.js\<close>, \<^verbatim>\<open>src/lib/git-governance.js\<close>):
  what is staged, what a commit went through first, what a publication of an attached branch moved.
\<close>

section \<open>Answers\<close>

lemma runs_answered:
  assumes "runs (tool_reply t m) s r s'" "\<not> rp_error r"
  shows "\<exists>v. runs m s v s' \<and> r = json_reply (gt_limits t) v"
  using assms by (auto simp: tool_reply_def runs_handle run_simps)

lemma runs_git_json:
  "runs (git_json t args root) s v s' \<longleftrightarrow>
    (\<exists>a. gt_run t (git_argv args root) root (nativeEnvironment t) s = (a, s') \<and> v = answer_json (git_argv args root) root a)"
  by (auto simp: git_json_def run_in_def run_simps)

section \<open>Staging\<close>

definition stageable :: "'w gt \<Rightarrow> 'w \<Rightarrow> string \<Rightarrow> string \<Rightarrow> string \<Rightarrow> bool" where
  "stageable t w root value selected =
    (\<exists>checked n. literal_path value \<and> ''..'' \<notin> set (split_by (\<lambda>c. c = slash \<or> c = backslash) value) \<and>
      assertStructuredPath (gt_site t) w True (path_resolve root (normalize_any value)) = Inr checked \<and>
      si_within (gt_site t) checked root \<and> existsSync (gt_fx t) w checked \<and>
      fx_lstat (gt_fx t) w checked = Present n \<and> nd_kind n = RegularFile \<and>
      selected = path_relative (fx_cwd (gt_fx t)) root checked)"

lemma selected_stageable:
  assumes "selectedRepoPath t w root True True False value = Inr selected"
  shows "stageable t w root value selected"
proof -
  obtain checked where c: "literal_path value" "''..'' \<notin> set (split_by (\<lambda>c. c = slash \<or> c = backslash) value)"
    "assertStructuredPath (gt_site t) w True (path_resolve root (normalize_any value)) = Inr checked"
    "si_within (gt_site t) checked root" "existsSync (gt_fx t) w checked" "selected = path_relative (fx_cwd (gt_fx t)) root checked"
    and n: "(case fx_lstat (gt_fx t) w checked of
        Present n \<Rightarrow> ensure (nd_kind n \<noteq> SymbolicLink \<and> (True \<longrightarrow> nd_kind n = RegularFile)) (''Git stage accepts only existing regular files: '' @ value)
      | Absent \<Rightarrow> throw (''ENOENT: '' @ checked) | Broken m \<Rightarrow> throw m) = Inr ()"
    using assms unfolding selectedRepoPath_def Let_def by (auto simp: result_simps)
  show ?thesis
  proof (cases "fx_lstat (gt_fx t) w checked")
    case (Present node)
    with n have "nd_kind node = RegularFile" by (auto simp: result_simps)
    then show ?thesis using c Present unfolding stageable_def by blast
  qed (use n in simp_all)
qed

text \<open>
  When \<open>git_stage\<close> answers without an error, every path given was literal and without \<open>..\<close>, the
  structured check accepted it for writing, it lies in the repository and is a regular file and not a link, no path
  is given twice, and \<open>git add --\<close> was run on exactly those paths, relative to the repository.
\<close>

theorem staged_paths_checked:
  assumes "runs (git_stage t paths cwd) s r s'" "\<not> rp_error r"
  shows "\<exists>root selected w a. list_all2 (stageable t w root) paths selected \<and> distinct selected \<and>
    gt_run t (git_argv ([''add'', ''--''] @ selected) root) root (nativeEnvironment t) w = (a, s')"
proof -
  obtain v where "runs (andThen (repositoryRoot t cwd True) (\<lambda>root.
     andThen (look (\<lambda>w. mapE (selectedRepoPath t w root True True False) paths)) (\<lambda>selected.
     andThen (guard (distinct selected) ''git_stage received duplicate paths'') (\<lambda>_.
     git_json t ([''add'', ''--''] @ selected) root)))) s v s'"
    using runs_answered [OF assms [unfolded git_stage_def]] by blast
  then obtain root selected w where m: "mapE (selectedRepoPath t w root True True False) paths = Inr selected" and d: "distinct selected"
    and g: "runs (git_json t ([''add'', ''--''] @ selected) root) w v s'"
    unfolding runs_andThen runs_look runs_guard by blast
  obtain a where "gt_run t (git_argv ([''add'', ''--''] @ selected) root) root (nativeEnvironment t) w = (a, s')"
    using g unfolding runs_git_json by blast
  moreover have "list_all2 (stageable t w root) paths selected"
    using m [unfolded mapE_Inr] by (rule list_all2_mono) (rule selected_stageable)
  ultimately show ?thesis using d by blast
qed

section \<open>Committing\<close>

lemma staged_allowed:
  assumes "governed_staged t w root staged = Inr u"
  shows "list_all (\<lambda>p. pd_allowed (classifyPolicyPath p)) staged"
proof -
  obtain gs where "list_all2 (\<lambda>v g. assertGovernedGitPath (gitProbe (gt_spawn t w) (env_or (gt_env t) ''PATH'' []) root) v ''HEAD'' [] False ''git_commit'' = Inr g) staged gs"
    using assms by (auto simp: governed_staged_def result_simps mapE_Inr)
  then show ?thesis
    by (induction rule: list_all2_induct) (auto simp: assertGovernedGitPath_def Let_def split: if_split_asm)
qed

lemma wrapped_runs: "runs (wrapped label f) s u s' \<longleftrightarrow> f s = (Inr (), s')"
  by (cases "f s"; cases "fst (f s)") (auto simp: wrapped_def run_simps)

text \<open>The commit command, and the state it runs in after the last check at \<open>w\<close>.\<close>

definition commit_args :: "'w gt \<Rightarrow> string \<Rightarrow> string \<Rightarrow> string list" where
  "commit_args t mode msg = (if mode = ''host'' then [''commit'', ''-m'', msg] else [''-c'', ''core.hooksPath='' @ reviewedHooksPath t, ''commit'', ''-m'', msg])"

definition before_commit :: "'w gt \<Rightarrow> string \<Rightarrow> 'w \<Rightarrow> 'w" where
  "before_commit t mode w = (if mode = ''s6'' then snd (gt_preflight t w) else w)"

lemma commit_stages:
  assumes "runs (commitReviewedIndex t mode root msg) s v s'" "mode \<noteq> ''host''"
  shows "\<exists>w0 staged w1 w a w2. runs (assertReviewedHooks t mode root) s () w0 \<and> runs (stagedPaths t root) w0 staged w1 \<and> staged \<noteq> [] \<and>
    runs (stagedDeletedPaths t root) w1 [] w \<and> governed_staged t w root staged = Inr () \<and>
    (mode = ''s6'' \<longrightarrow> gt_brokerConfigured t w \<and> fst (gt_preflight t w) = Inr ()) \<and>
    runs (run_in t (commit_args t mode msg) root) (before_commit t mode w) a w2 \<and> v = answer_json (git_argv (commit_args t mode msg) root) root a \<and>
    (if mode = ''s6'' then \<exists>head w3. runs (run_in t [''rev-parse'', ''HEAD''] root) w2 head w3 \<and> ra_ok head \<and> gt_attest t (trim (ra_stdout head)) w3 = (Inr (), s')
     else s' = w2)"
proof (cases "mode = ''s6''")
  case True
  have m: "(mode = ''s6'') = True" "(mode = ''host'') = False" using assms(2) True by simp_all
  show ?thesis
    using assms(1) [unfolded commitReviewedIndex_def Let_def, folded commit_args_def]
    apply (simp only: run_simps result_simps simp_thms wrapped_runs m if_True if_False)
    apply (elim exE conjE)
    apply (intro exI conjI)
    apply (simp add: before_commit_def True | assumption)+
    done
next
  case False
  have m: "(mode = ''s6'') = False" "(mode = ''host'') = False" using assms(2) False by simp_all
  show ?thesis
    using assms(1) [unfolded commitReviewedIndex_def Let_def, folded commit_args_def]
    apply (simp only: run_simps result_simps simp_thms m if_True if_False)
    apply (elim exE conjE)
    apply hypsubst_thin
    apply (intro exI conjI)
    apply (simp add: before_commit_def False | assumption)+
    done
qed

text \<open>
  C23 (safety).  A commit outside the host profile that answers went through every check, in order and with nothing
  in between: the hook and the policy helper at the start were the reviewed ones, paths were staged and none of them
  a deletion, every staged path passed the path policy and names a regular file of the index, in an S6 session the
  broker was there and agreed; only then was the commit command run, with the reviewed hooks directory.
\<close>

theorem commit_governed:
  assumes "runs (commitReviewedIndex t mode root msg) s v s'" "mode \<noteq> ''host''"
  shows "mode \<in> {''s5'', ''s6''} \<and> reviewed_files t s mode root = Inr () \<and>
    (\<exists>w0 staged w1 w a w2. runs (stagedPaths t root) w0 staged w1 \<and> staged \<noteq> [] \<and> runs (stagedDeletedPaths t root) w1 [] w \<and>
       governed_staged t w root staged = Inr () \<and> list_all (\<lambda>p. pd_allowed (classifyPolicyPath p)) staged \<and>
       (mode = ''s6'' \<longrightarrow> gt_brokerConfigured t w \<and> fst (gt_preflight t w) = Inr ()) \<and>
       runs (run_in t (commit_args t mode msg) root) (before_commit t mode w) a w2 \<and> get v ''ok'' = Some (JBool (ra_ok a)))"
proof -
  obtain w0 staged w1 w a w2 where h: "runs (assertReviewedHooks t mode root) s () w0"
    and c: "runs (stagedPaths t root) w0 staged w1" "staged \<noteq> []" "runs (stagedDeletedPaths t root) w1 [] w" "governed_staged t w root staged = Inr ()"
      "mode = ''s6'' \<longrightarrow> gt_brokerConfigured t w \<and> fst (gt_preflight t w) = Inr ()"
      "runs (run_in t (commit_args t mode msg) root) (before_commit t mode w) a w2"
    and v: "v = answer_json (git_argv (commit_args t mode msg) root) root a"
    using commit_stages [OF assms] by blast
  have "get v ''ok'' = Some (JBool (ra_ok a))" by (simp add: v command_json_def get_def)
  moreover have "mode \<in> {''s5'', ''s6''} \<and> reviewed_files t s mode root = Inr ()"
    using h by (auto simp: assertReviewedHooks_def run_simps)
  ultimately show ?thesis using c staged_allowed [OF c(4)] by blast
qed

text \<open>
  C25 (error).  In an S6 session the HEAD is handed to the broker as the commit just made even when the commit command
  failed and made none.
\<close>

theorem head_attested_after_failed_commit:
  assumes "runs (commitReviewedIndex t ''s6'' root msg) s v s'" "get v ''ok'' = Some (JBool False)"
  shows "\<exists>w a w2 head w3. runs (run_in t (commit_args t ''s6'' msg) root) w a w2 \<and> \<not> ra_ok a \<and>
    runs (run_in t [''rev-parse'', ''HEAD''] root) w2 head w3 \<and> gt_attest t (trim (ra_stdout head)) w3 = (Inr (), s')"
proof -
  have s6: "''s6'' \<noteq> ''host''" by simp
  obtain w a w2 where a: "runs (run_in t (commit_args t ''s6'' msg) root) (before_commit t ''s6'' w) a w2"
      "v = answer_json (git_argv (commit_args t ''s6'' msg) root) root a"
      "\<exists>head w3. runs (run_in t [''rev-parse'', ''HEAD''] root) w2 head w3 \<and> ra_ok head \<and> gt_attest t (trim (ra_stdout head)) w3 = (Inr (), s')"
    using commit_stages [OF assms(1) s6] by (simp only: simp_thms if_True) blast
  moreover have "\<not> ra_ok a" using assms(2) a(2) by (simp add: command_json_def get_def)
  ultimately show ?thesis by blast
qed

section \<open>Publishing an attached branch\<close>

lemma remote_head_runs:
  assumes "runs (remoteBranchHead t b) s h s'"
  shows "hex_40_64 h \<and> (\<exists>a. gt_run t (git_argv [''ls-remote'', ''--heads'', ''--exit-code'', bv_remote b, ''refs/heads/'' @ bv_branch b] (bv_worktreePath b)) (bv_worktreePath b)
    (nativeEnvironment t) s = (a, s') \<and> ra_ok a)"
  using assms by (auto simp: remoteBranchHead_def run_in_def Let_def run_simps)


end
