(* ===== verification/ProcessSafety.thy ===== *)
theory ProcessSafety
  imports Processes
begin

text \<open>
  What running programs promises: the environment of a child holds no secrets, output is collected
  exactly, a run is settled once, signals reach only processes the bridge started, and quoted words
  read back.
\<close>

section \<open>The environment of a child\<close>

lemma set_key_dom: "fst ` set (set_key k v env) = insert k (fst ` set env)"
proof -
  have "map fst (map (\<lambda>kv. if fst kv = k then (k, v) else kv) env) = map fst env" by auto
  then have "fst ` set (map (\<lambda>kv. if fst kv = k then (k, v) else kv) env) = fst ` set env" by (metis set_map)
  then show ?thesis by (auto simp: set_key_def simp del: set_map)
qed

lemma set_keys_dom: "fst ` set (set_keys kvs env) = fst ` set kvs \<union> fst ` set env"
proof (induction kvs arbitrary: env)
  case (Cons kv kvs)
  show ?case using Cons [of "set_key (fst kv) (snd kv) env"] by (simp add: set_keys_def set_key_dom case_prod_beta)
qed (simp add: set_keys_def)

lemma default_key_dom: "fst ` set (default_key k v env) = insert k (fst ` set env)"
proof (cases "map_of env k")
  case (Some x2)
  then have "k \<in> fst ` set env" by (metis map_of_eq_None_iff option.distinct(1))
  then show ?thesis using Some by (auto simp: default_key_def set_key_dom)
qed (simp add: default_key_def set_key_dom)

lemma defaults_dom: "fst ` set (fold (\<lambda>(k, v). default_key k v) kvs env) = fst ` set kvs \<union> fst ` set env"
proof (induction kvs arbitrary: env)
  case (Cons kv kvs)
  show ?case using Cons [of "default_key (fst kv) (snd kv) env"] by (simp add: default_key_dom case_prod_beta)
qed simp

lemma without_dom: "fst ` set (without_keys P env) = {k \<in> fst ` set env. \<not> P k}"
  by (force simp: without_keys_def)

lemma hardened_dom:
  "fst ` set (hardenedEnvironment p ovr) \<subseteq> set HARDENED_KEYS \<union> {''NPM_CONFIG_USERCONFIG'', ''GIT_CONFIG_NOSYSTEM'', ''GIT_CONFIG_GLOBAL'', ''GIT_TERMINAL_PROMPT''}"
proof -
  have "fst ` set [(''HOME'', ''/home/bridge''), (''TMPDIR'', ''/tmp''), (''TMP'', ''/tmp''), (''TEMP'', ''/tmp''), (''NO_COLOR'', ''1'')] \<subseteq> set HARDENED_KEYS"
    by (simp add: HARDENED_KEYS_def)
  then show ?thesis unfolding hardenedEnvironment_def Let_def set_keys_dom defaults_dom without_dom by auto
qed


section \<open>Collected output\<close>

definition collect_all :: "nat \<Rightarrow> string list \<Rightarrow> collector" where
  "collect_all limit chunks = fold (collect limit) chunks \<lparr>co_text = [], co_omitted = 0\<rparr>"

text \<open>What the collector holds of \<open>all\<close>.\<close>

definition holds :: "nat \<Rightarrow> string \<Rightarrow> collector \<Rightarrow> bool" where
  "holds limit all k = (suffix (co_text k) all \<and> co_omitted k + length (co_text k) = length all \<and> length (co_text k) \<le> 2 * limit
    \<and> (co_omitted k = 0 \<or> limit \<le> length (co_text k) \<and> 2 * limit < length all))"

lemma collect_step:
  assumes "0 < limit" "holds limit all k"
  shows "holds limit (all @ chunk) (collect limit chunk k)"
proof -
  have s: "suffix (co_text k @ chunk) (all @ chunk)" using assms(2) by (auto simp: suffix_def holds_def)
  have "suffix (drop n (co_text k @ chunk)) (all @ chunk)" for n using s suffix_drop suffix_order.trans by blast
  then show ?thesis using assms s unfolding holds_def collect_def Let_def by (auto simp del: drop_append)
qed

lemma collect_fold: "0 < limit \<Longrightarrow> holds limit (concat chunks) (collect_all limit chunks)"
proof (induction chunks rule: rev_induct)
  case (snoc c cs)
  then show ?case using collect_step [of limit "concat cs" "collect_all limit cs" c] by (simp add: collect_all_def)
qed (simp add: collect_all_def holds_def)

text \<open>
  C29 (bounds).  However a stream is cut into chunks, the collector holds its end: it is never longer than twice
  the limit, the count of what was left out is exact, nothing is left out of a stream of up to twice the
  limit, and at least the limit is kept of a longer one.
\<close>

theorem collector_exact:
  assumes "0 < limit"
  shows "let k = collect_all limit chunks in co_text k = drop (co_omitted k) (concat chunks) \<and> length (co_text k) \<le> 2 * limit
    \<and> (if length (concat chunks) \<le> 2 * limit then co_omitted k = 0 else limit \<le> length (co_text k))"
proof -
  have h: "holds limit (concat chunks) (collect_all limit chunks)" using assms by (rule collect_fold)
  then obtain before where b: "concat chunks = before @ co_text (collect_all limit chunks)" by (auto simp: holds_def suffix_def)
  moreover have "length before = co_omitted (collect_all limit chunks)" using h b unfolding holds_def by (metis add_right_cancel length_append)
  ultimately show ?thesis using h unfolding Let_def by (auto simp: holds_def)
qed

section \<open>A run\<close>

fun settles :: "child_event \<Rightarrow> bool" where
  "settles (SpawnError m) = True"
| "settles (Closed code sig) = True"
| "settles _ = False"

lemma step_answered: "ch_answer c = Some a \<Longrightarrow> ch_answer (child_step mo me e c) = Some a"
  by (cases e) (auto simp: finish_def)

lemma steps_answered: "ch_answer c = Some a \<Longrightarrow> ch_answer (fold (child_step mo me) es c) = Some a"
  by (induction es arbitrary: c) (auto simp: step_answered)

lemma step_open: "ch_answer c = None \<Longrightarrow> \<not> settles e \<Longrightarrow> ch_answer (child_step mo me e c) = None
    \<and> (ch_timedOut (child_step mo me e c) \<longleftrightarrow> ch_timedOut c \<or> e = TimedOut) \<and> (ch_cancelled (child_step mo me e c) \<longleftrightarrow> ch_cancelled c \<or> e = Aborted)
    \<and> ch_out (child_step mo me e c) = (case e of OutChunk s \<Rightarrow> collect mo s (ch_out c) | _ \<Rightarrow> ch_out c)"
  by (cases e) auto

definition out_chunks :: "child_event list \<Rightarrow> string list" where
  "out_chunks es = concat (map (\<lambda>e. case e of OutChunk s \<Rightarrow> [s] | _ \<Rightarrow> []) es)"

lemma steps_open: "ch_answer c = None \<Longrightarrow> list_all (\<lambda>e. \<not> settles e) es \<Longrightarrow> ch_answer (fold (child_step mo me) es c) = None
    \<and> (ch_timedOut (fold (child_step mo me) es c) \<longleftrightarrow> ch_timedOut c \<or> TimedOut \<in> set es)
    \<and> (ch_cancelled (fold (child_step mo me) es c) \<longleftrightarrow> ch_cancelled c \<or> Aborted \<in> set es)
    \<and> ch_out (fold (child_step mo me) es c) = fold (collect mo) (out_chunks es) (ch_out c)"
proof (induction es arbitrary: c)
  case (Cons e es)
  note o = step_open [OF Cons.prems(1), of e mo me]
  show ?case using Cons.IH [of "child_step mo me e c"] Cons.prems o by (cases e) (auto simp: out_chunks_def)
qed (simp add: out_chunks_def)

text \<open>
  A run is settled by the first end of the child and by nothing after it: it is a success
  exactly when the child closed with code 0 and neither the time-out nor an abort came before, and its
  output is what was collected up to then.
\<close>

theorem run_settled_once:
  assumes "list_all (\<lambda>e. \<not> settles e) es"
  shows "\<exists>answer. ch_answer (run_child mo me (es @ Closed code sig # rest)) = Some answer
    \<and> ra_ok answer = (code = Some 0 \<and> TimedOut \<notin> set es \<and> Aborted \<notin> set es) \<and> ra_code answer = code
    \<and> ra_timedOut answer = (TimedOut \<in> set es) \<and> ra_cancelled answer = (Aborted \<in> set es)
    \<and> ra_stdout answer = collected mo (collect_all mo (out_chunks es))"
proof -
  let ?c = "fold (child_step mo me) es new_child"
  have o: "ch_answer ?c = None" "ch_timedOut ?c = (TimedOut \<in> set es)" "ch_cancelled ?c = (Aborted \<in> set es)"
    "ch_out ?c = collect_all mo (out_chunks es)"
    using steps_open [of new_child es mo me] assms by (simp_all add: new_child_def collect_all_def)
  obtain answer where a: "ch_answer (child_step mo me (Closed code sig) ?c) = Some answer" using o(1) by (simp add: finish_def)
  have "ch_answer (run_child mo me (es @ Closed code sig # rest)) = Some answer"
    using steps_answered [OF a] by (simp add: run_child_def)
  moreover have "answer = \<lparr>ra_ok = (code = Some 0 \<and> \<not> ch_timedOut ?c \<and> \<not> ch_cancelled ?c), ra_code = code, ra_signal = sig,
       ra_timedOut = ch_timedOut ?c, ra_cancelled = ch_cancelled ?c, ra_stdout = collected mo (ch_out ?c), ra_stderr = collected me (ch_err ?c)\<rparr>"
    using a o(1) by (simp add: finish_def)
  ultimately show ?thesis using o by simp
qed

section \<open>Signals\<close>

text \<open>
  C26 (safety).  Stopping a process signals nothing else: whatever is kept by time passing and by signals
  to a process that runs under the recorded number with the recorded start time is kept by the whole
  termination, also when the number is reused while it waits.
\<close>

theorem only_own_process_signalled:
  assumes "identity \<noteq> []" "\<And>p sig w w'. kx_kill x p sig w = (False, w') \<Longrightarrow> w' = w"
    and "\<And>w ms. I w \<Longrightarrow> I (kx_sleep x ms w)"
    and "\<And>w p sig. I w \<Longrightarrow> isPidRunning x w pid \<Longrightarrow> getProcessIdentity x w pid = identity \<Longrightarrow> p \<in> {pid, - pid} \<Longrightarrow> I (snd (kx_kill x p sig w))"
  shows "keeps I (terminateProcessTree x pid ms identity)"
proof -
  have sig: "I w' \<and> list_all I h" if "I w" "may_signal x w pid identity" "signal_tree x pid sig w = (r, w', h)" for w sig r w' h
  proof -
    have ok: "isPidRunning x w pid" "getProcessIdentity x w pid = identity" using that(2) assms(1) by (auto simp: may_signal_def)
    show ?thesis
    proof (cases "fst (kx_kill x (- pid) sig w)")
      case True
      then show ?thesis using assms(4) [OF that(1) ok, of "- pid" sig] that(3)
        by (auto simp: signal_tree_def andThen_def call_def ret_def split: prod.splits)
    next
      case False
      then have same: "snd (kx_kill x (- pid) sig w) = w" using assms(2) by (metis (full_types) prod.collapse)
      then show ?thesis using False assms(4) [OF that(1) ok, of pid sig] that(1,3)
        by (auto simp: signal_tree_def andThen_def call_def ret_def split: prod.splits)
    qed
  qed
  show ?thesis
    unfolding keeps_def
  proof (intro allI impI)
    fix w assume i: "I w"
    show "case terminateProcessTree x pid ms identity w of (r, s', h) \<Rightarrow> I s' \<and> list_all I h"
    proof (cases "may_signal x w pid identity")
      case True
      obtain r1 w1 h1 where s1: "signal_tree x pid ''SIGTERM'' w = (r1, w1, h1)" by (cases "signal_tree x pid ''SIGTERM'' w")
      have i1: "I w1" "list_all I h1" using sig [OF i True s1] by auto
      let ?w2 = "kx_sleep x (min ms 2000) w1"
      have i2: "I ?w2" using assms(3) i1 by blast
      obtain r3 w3 h3 where s3: "signal_tree x pid ''SIGKILL'' ?w2 = (r3, w3, h3)" by (cases "signal_tree x pid ''SIGKILL'' ?w2")
      have "may_signal x ?w2 pid identity \<Longrightarrow> I w3 \<and> list_all I h3" using sig [OF i2 _ s3] by blast
      then show ?thesis using True s1 i1 i2 s3
        by (auto simp: terminateProcessTree_def andThen_def look_def call_def ret_def split: sum.splits)
    qed (use i in \<open>simp add: terminateProcessTree_def andThen_def look_def ret_def\<close>)
  qed
qed

section \<open>Quoting\<close>

text \<open>How the shell reads words made of plain characters and quoted parts.\<close>

fun sh_words :: "string \<Rightarrow> string option \<Rightarrow> char option \<Rightarrow> string list option" where
  "sh_words [] w q = (case q of Some _ \<Rightarrow> None | None \<Rightarrow> Some (case w of None \<Rightarrow> [] | Some v \<Rightarrow> [v]))"
| "sh_words (c # s) w (Some q) =
    (if c = q then sh_words s w None else sh_words s (Some ((case w of None \<Rightarrow> [] | Some v \<Rightarrow> v) @ [c])) (Some q))"
| "sh_words (c # s) w None =
    (if c = squote \<or> c = dquote then sh_words s (Some (case w of None \<Rightarrow> [] | Some v \<Rightarrow> v)) (Some c)
     else if c = CHR '' '' then (case w of None \<Rightarrow> sh_words s None None | Some v \<Rightarrow> map_option (Cons v) (sh_words s None None))
     else sh_words s (Some ((case w of None \<Rightarrow> [] | Some v \<Rightarrow> v) @ [c])) None)"

lemma quoted_body: "sh_words (concat (map (\<lambda>c. if c = squote then [squote, dquote, squote, dquote, squote] else [c]) v) @ squote # rest) (Some u) (Some squote)
    = sh_words rest (Some (u @ v)) None"
  by (induction v arbitrary: u) auto

lemma quoted_word: "sh_words (shellQuote v @ rest) None None = sh_words rest (Some v) None"
  using quoted_body [of v rest "[]"] by (simp add: shellQuote_def)

text \<open>
  A command that is displayed reads back, by the rules of the shell, as the array it was
  made from, whatever characters its arguments hold; in particular the probe for a program asks for
  exactly its name.
\<close>

theorem displayed_command_reads_back: "sh_words (displayCommand (Argv args)) None None = Some args"
proof -
  have "sh_words (join '' '' (map shellQuote args)) None None = Some args"
  proof (induction args rule: induct_list012)
    case (2 v)
    then show ?case using quoted_word [of v "[]"] by simp
  next
    case (3 v u args)
    then show ?case using quoted_word [of v] by simp
  qed simp
  then show ?thesis by (simp add: displayCommand_def)
qed

section \<open>Records of processes\<close>

text \<open>What a listed record holds, although it was read from a file.\<close>

definition typed_process :: "'w kx \<Rightarrow> json \<Rightarrow> bool" where
  "typed_process x m =
    (\<exists>pid b out err i. process_id_ok (get m ''id'') \<and> i = to_string (the (get m ''id'')) \<and> get m ''pid'' = Some (JNum pid) \<and> get m ''running'' = Some (JBool b) \<and>
      get m ''stdoutPath'' = Some (JStr out) \<and> path_resolve (fx_cwd (kx_fx x)) out = out_log x i \<and>
      get m ''stderrPath'' = Some (JStr err) \<and> path_resolve (fx_cwd (kx_fx x)) err = err_log x i)"

lemma field_is_obj: "get v k = Some u \<Longrightarrow> is_obj v"
  by (cases v) (auto simp: get_def)

lemma record_typed:
  assumes "runs (process_record x name) s r s'"
  shows "\<forall>e \<in> set r. typed_process x (fst e)"
proof -
  obtain parsed where p: "runs (case parsed of
       None \<Rightarrow> ret []
     | Some meta \<Rightarrow>
         (case (process_fields meta, get meta ''stdoutPath'', get meta ''stderrPath'') of
            (Some (i, pid, identity), Some (JStr outPath), Some (JStr errPath)) \<Rightarrow>
              if path_resolve (fx_cwd (kx_fx x)) outPath \<noteq> out_log x i \<or> path_resolve (fx_cwd (kx_fx x)) errPath \<noteq> err_log x i then ret []
              else
                andThen (capLogFile x (out_log x i)) (\<lambda>_.
                andThen (capLogFile x (err_log x i)) (\<lambda>_.
                look (\<lambda>w. Inr [(put_field ''running'' (JBool (isSameProcess x w pid identity)) meta, path_join_any (proc_dir x) name)])))
          | _ \<Rightarrow> ret [])) s r s'"
    using assms unfolding process_record_def Let_def by (auto simp only: runs_andThen runs_look)
  show ?thesis
  proof (cases "r = []")
    case False
    with p obtain meta i pid identity out err b where m: "process_fields meta = Some (i, pid, identity)" "get meta ''stdoutPath'' = Some (JStr out)"
        "get meta ''stderrPath'' = Some (JStr err)" "path_resolve (fx_cwd (kx_fx x)) out = out_log x i" "path_resolve (fx_cwd (kx_fx x)) err = err_log x i"
      and r: "fst ` set r = {put_field ''running'' (JBool b) meta}"
      by (auto simp: run_simps split: option.splits json.splits if_splits)
    have o: "is_obj meta" using m(2) by (rule field_is_obj)
    have "typed_process x (put_field ''running'' (JBool b) meta)"
      using m o unfolding typed_process_def by (auto simp: process_fields_def get_put_field split: option.splits json.splits if_splits)
    then show ?thesis using r by (metis imageI singletonD)
  qed simp
qed

lemma records_typed: "runs (process_records x names) s r s' \<Longrightarrow> \<forall>e \<in> set r. typed_process x (fst e)"
proof (induction names arbitrary: s r)
  case (Cons n ns)
  then show ?case by (simp only: process_records.simps run_simps) (blast dest: record_typed elim: UnE [of _ "set _" "set _", unfolded set_append [symmetric]])
qed (simp add: run_simps)

lemma retained_subset: "runs (retain x cutoff n rs) s ms s' \<Longrightarrow> set ms \<subseteq> fst ` set rs"
proof (induction rs arbitrary: n s ms)
  case (Cons e rs)
  obtain meta p where e: "e = (meta, p)" by (cases e)
  show ?case using Cons.prems Cons.IH unfolding e by (fastforce simp: run_simps split: if_splits)
qed (simp add: run_simps)

text \<open>
  C27 (type).  Whatever is in the process files, every process listed has an identifier of the bridge's form, a
  number, a flag whether it runs, and log paths that are the bridge's own for this identifier; the code
  that signals, reads or deletes by these fields needs no further check.
\<close>

theorem listed_processes_typed:
  assumes "runs (listProcesses x ws) s ms s'" "\<And>rs. set (kx_newest_first x rs) \<subseteq> set rs"
  shows "list_all (typed_process x) ms"
proof -
  obtain names records s1 s2 cutoff kept where r: "runs (process_records x names) s1 records s2"
    and k: "runs (retain x cutoff 0 (kx_newest_first x records)) s2 kept s'" and ms: "set ms \<subseteq> set kept"
    using assms(1) unfolding listProcesses_def by (auto simp: run_simps split: option.splits if_splits)
  have "set ms \<subseteq> fst ` set records" using ms retained_subset [OF k] assms(2) [of records] by blast
  then show ?thesis using records_typed [OF r] by (auto simp: list_all_iff)
qed

end
