(* ===== verification/AuditLog.thy ===== *)
theory AuditLog
  imports PendingActions
begin

text \<open>
  The audit log and the limit on concurrent tool calls (\<^verbatim>\<open>src/lib/audit.js\<close>).  Each entry
  carries the hash of the one before it; the file is rotated at 10 MB.  SHA-256, the clocks, randomness,
  UTF-8, modification times and whether directories and appends work are parameters (\<open>ax\<close>); an append
  writes a line completely or not at all.
\<close>

section \<open>Parameters and state\<close>

record 'w ax =
  ax_sha256 :: "string \<Rightarrow> string"
  ax_nowIso :: "'w \<Rightarrow> string \<times> 'w"
  ax_clock :: "'w \<Rightarrow> int \<times> 'w"
  ax_random :: "nat \<Rightarrow> 'w \<Rightarrow> string \<times> 'w"
  ax_pid :: int
  ax_mkdirs :: "'w \<Rightarrow> unit result \<times> 'w"
  ax_append :: "'w \<Rightarrow> unit result \<times> 'w"
  ax_mtime :: "'w \<Rightarrow> string \<Rightarrow> int"
  ax_encode :: "string \<Rightarrow> string"
  ax_decode :: "string \<Rightarrow> string"
  ax_maxTools :: nat

text \<open>The bytes of the log, the other files of its directory, \<^verbatim>\<open>lastHash\<close> (\<open>None\<close> for \<^verbatim>\<open>undefined\<close>)
  and \<^verbatim>\<open>activeTools\<close>.\<close>

record 'w audit =
  au_world :: 'w
  au_file :: "string option"
  au_dir :: "(string \<times> string) list"
  au_last :: "string option"
  au_active :: nat

type_synonym ('w, 'a) aact = "('w audit, 'a) act"

definition on_audit :: "('w \<Rightarrow> 'a \<times> 'w) \<Rightarrow> ('w, 'a) aact" where
  "on_audit f = call (\<lambda>s. case f (au_world s) of (y, w) \<Rightarrow> (y, s\<lparr>au_world := w\<rparr>))"

definition try_audit :: "('w \<Rightarrow> unit result \<times> 'w) \<Rightarrow> ('w, unit) aact" where
  "try_audit f = andThen (on_audit f) (\<lambda>r. case r of Inr _ \<Rightarrow> ret () | Inl e \<Rightarrow> fail (message e))"

definition MAX_AUDIT_BYTES :: nat where "MAX_AUDIT_BYTES = 10 * 1024 * 1024"

definition MAX_ROTATED_AUDIT_FILES :: nat where "MAX_ROTATED_AUDIT_FILES = 3"

section \<open>Rotation and the last hash\<close>

definition rotated_name :: "string \<Rightarrow> bool" where
  "rotated_name n = re_test (seqs [Bol, lit ''bridge-'', Plus (Chr is_digit), lit ''-'', Plus (Chr (\<lambda>c. is_digit c \<or> c \<in> set ''abcdef'')), lit ''.jsonl'', Eol]) n"

definition dropped :: "'w ax \<Rightarrow> 'w audit \<Rightarrow> string list" where
  "dropped x s = drop MAX_ROTATED_AUDIT_FILES (sort_key (\<lambda>n. - ax_mtime x (au_world s) n) (filter rotated_name (map fst (au_dir s))))"

definition rotateIfNeeded :: "'w ax \<Rightarrow> ('w, unit) aact" where
  "rotateIfNeeded x =
    andThen (look (\<lambda>s. Inr (au_file s))) (\<lambda>bytes.
    case bytes of
      None \<Rightarrow> ret ()
    | Some b \<Rightarrow>
        if length b < MAX_AUDIT_BYTES then ret ()
        else andThen (on_audit (ax_clock x)) (\<lambda>now.
          andThen (on_audit (ax_random x 4)) (\<lambda>hex.
          let rotated = ''bridge-'' @ int_to_string now @ ''-'' @ hex @ ''.jsonl'' in
          andThen (store (\<lambda>s. s\<lparr>au_file := None, au_dir := (rotated, b) # filter (\<lambda>f. fst f \<noteq> rotated) (au_dir s)\<rparr>)) (\<lambda>_.
          store (\<lambda>s. s\<lparr>au_dir := filter (\<lambda>f. fst f \<notin> set (dropped x s)) (au_dir s)\<rparr>)))))"

definition last_line :: "string \<Rightarrow> string" where
  "last_line t = (case split_lines (trim t) of [] \<Rightarrow> [] | ls \<Rightarrow> last ls)"

text \<open>A hash that is truthy but not a string takes part in templates as its text.\<close>

definition readLastHash :: "'w ax \<Rightarrow> string option \<Rightarrow> string" where
  "readLastHash x log =
    (case log of
       None \<Rightarrow> []
     | Some b \<Rightarrow>
         let line = last_line (ax_decode x (drop (length b - 64 * 1024) b)) in
         if line = [] then []
         else (case JSON_parse line of
             None \<Rightarrow> []
           | Some v \<Rightarrow> if truthy (get v ''hash'') then to_string (the (get v ''hash'')) else []))"

section \<open>Events\<close>

definition audit_payload :: "'w ax \<Rightarrow> string \<Rightarrow> string \<Rightarrow> json \<Rightarrow> string \<Rightarrow> json" where
  "audit_payload x at event data prev =
    put_field ''previousHash'' (if prev = [] then JNull else JStr prev)
      (put_fields (spread (redact data [])) (JObj [(''at'', JStr at), (''pid'', JNum (ax_pid x)), (''event'', JStr event)]))"

definition entry_hash :: "'w ax \<Rightarrow> string \<Rightarrow> json \<Rightarrow> string" where
  "entry_hash x prev payload = ax_sha256 x (prev @ [nl] @ stringify payload)"

definition entry_line :: "'w ax \<Rightarrow> string \<Rightarrow> json \<Rightarrow> string" where
  "entry_line x prev payload = ax_encode x (stringify (put_field ''hash'' (JStr (entry_hash x prev payload)) payload) @ [nl])"

definition recall_hash :: "'w ax \<Rightarrow> ('w, string) aact" where
  "recall_hash x =
    andThen (look (\<lambda>s. Inr (au_last s))) (\<lambda>h.
    case h of Some v \<Rightarrow> ret v
    | None \<Rightarrow> andThen (look (\<lambda>s. Inr (readLastHash x (au_file s)))) (\<lambda>v. andThen (store (\<lambda>s. s\<lparr>au_last := Some v\<rparr>)) (\<lambda>_. ret v)))"

text \<open>Whether the event was written; a failure is reported on \<^verbatim>\<open>stderr\<close> only.\<close>

definition auditEvent :: "'w ax \<Rightarrow> string \<Rightarrow> json \<Rightarrow> ('w, bool) aact" where
  "auditEvent x event data = handle
    (andThen (try_audit (ax_mkdirs x)) (\<lambda>_.
     andThen (rotateIfNeeded x) (\<lambda>_.
     andThen (recall_hash x) (\<lambda>prev.
     andThen (on_audit (ax_nowIso x)) (\<lambda>at.
     let payload = audit_payload x at event data prev in
     andThen (try_audit (ax_append x)) (\<lambda>_.
     andThen (store (\<lambda>s. s\<lparr>au_file := Some ((case au_file s of None \<Rightarrow> [] | Some b \<Rightarrow> b) @ entry_line x prev payload)\<rparr>)) (\<lambda>_.
     andThen (store (\<lambda>s. s\<lparr>au_last := Some (entry_hash x prev payload)\<rparr>)) (\<lambda>_.
     ret True))))))))
    (\<lambda>_. ret False)"

section \<open>Tool calls\<close>

definition outputLength :: "reply \<Rightarrow> nat" where
  "outputLength r = length (rp_text r)"

text \<open>What became of a call when it came, and how a handler ended.\<close>

datatype arrival = Busy reply | Begun string int

datatype ending = Answered reply | Threw string

definition busy_reply :: "'w ax \<Rightarrow> nat \<Rightarrow> reply" where
  "busy_reply x active = \<lparr>rp_text = ''bridge is busy ('' @ digits_of active @ ''/'' @ digits_of (ax_maxTools x) @ '' tool calls); retry shortly'', rp_error = True\<rparr>"

definition toolCalled :: "'w ax \<Rightarrow> string \<Rightarrow> json option \<Rightarrow> ('w, arrival) aact" where
  "toolCalled x tool args =
    andThen (on_audit (ax_random x 8)) (\<lambda>hex.
    let requestId = ''req_'' @ hex in
    andThen (look (\<lambda>s. Inr (au_active s))) (\<lambda>active.
    if ax_maxTools x \<le> active then
      andThen (auditEvent x ''tool.rejected_busy'' (JObj [(''requestId'', JStr requestId), (''tool'', JStr tool), (''activeTools'', JNum (int active))])) (\<lambda>_.
      ret (Busy (busy_reply x active)))
    else
      andThen (store (\<lambda>s. s\<lparr>au_active := au_active s + 1\<rparr>)) (\<lambda>_.
      andThen (on_audit (ax_clock x)) (\<lambda>started.
      andThen (auditEvent x ''tool.started'' (JObj [(''requestId'', JStr requestId), (''tool'', JStr tool),
        (''args'', redact (if truthy args then the args else JObj []) [])])) (\<lambda>_.
      ret (Begun requestId started))))))"

definition toolEnded :: "'w ax \<Rightarrow> string \<Rightarrow> int \<Rightarrow> string \<Rightarrow> ending \<Rightarrow> ('w, ending) aact" where
  "toolEnded x requestId started tool e =
    andThen (on_audit (ax_clock x)) (\<lambda>now.
    let called = [(''requestId'', JStr requestId), (''tool'', JStr tool), (''durationMs'', JNum (now - started))] in
    andThen (case e of
        Answered r \<Rightarrow> auditEvent x ''tool.completed'' (JObj (called @ [(''isError'', JBool (rp_error r)), (''outputChars'', JNum (int (outputLength r)))]))
      | Threw m \<Rightarrow> auditEvent x ''tool.failed'' (JObj (called @ [(''error'', redact (JStr m) [])]))) (\<lambda>_.
    andThen (store (\<lambda>s. s\<lparr>au_active := au_active s - 1\<rparr>)) (\<lambda>_.
    ret e)))"

text \<open>Calls run concurrently: the running ones are listed, each came and ends once.\<close>

record running =
  rn_id :: string
  rn_started :: int
  rn_tool :: string

inductive tools_run :: "'w ax \<Rightarrow> 'w audit \<Rightarrow> running list \<Rightarrow> bool" for x where
  fresh: "au_active s = 0 \<Longrightarrow> tools_run x s []"
| outside: "tools_run x s rs \<Longrightarrow> tools_run x (s\<lparr>au_world := w\<rparr>) rs"
| event: "tools_run x s rs \<Longrightarrow> auditEvent x event data s = (r, s', h) \<Longrightarrow> tools_run x s' rs"
| begun: "tools_run x s rs \<Longrightarrow> runs (toolCalled x tool args) s (Begun i t) s'
    \<Longrightarrow> tools_run x s' (\<lparr>rn_id = i, rn_started = t, rn_tool = tool\<rparr> # rs)"
| busy: "tools_run x s rs \<Longrightarrow> runs (toolCalled x tool args) s (Busy r) s' \<Longrightarrow> tools_run x s' rs"
| ended: "tools_run x s (as @ c # bs) \<Longrightarrow> runs (toolEnded x (rn_id c) (rn_started c) (rn_tool c) e) s e' s' \<Longrightarrow> tools_run x s' (as @ bs)"

section \<open>What an event does\<close>

text \<open>Rotation keeps \<^verbatim>\<open>lastHash\<close> and the count; the log is as it was or new.\<close>

lemma rotate_result:
  assumes "rotateIfNeeded x s = (r, s', h)"
  shows "r = Inr () \<and> au_last s' = au_last s \<and> au_active s' = au_active s
    \<and> (au_file s' = au_file s \<or> au_file s' = None \<and> (\<exists>b. au_file s = Some b \<and> MAX_AUDIT_BYTES \<le> length b))"
  using assms by (auto simp: rotateIfNeeded_def andThen_def look_def ret_def on_audit_def call_def store_def Let_def
      split: option.splits if_splits prod.splits)

lemma recall_result:
  assumes "recall_hash x s = (r, s', h)"
  shows "\<exists>prev. r = Inr prev \<and> au_last s' = Some prev \<and> au_file s' = au_file s \<and> au_active s' = au_active s
    \<and> prev = (case au_last s of Some v \<Rightarrow> v | None \<Rightarrow> readLastHash x (au_file s))"
  using assms by (auto simp: recall_hash_def andThen_def look_def ret_def store_def split: option.splits)

definition log_bytes :: "'w audit \<Rightarrow> string" where
  "log_bytes s = (case au_file s of None \<Rightarrow> [] | Some b \<Rightarrow> b)"

text \<open>What an event that was written, or was not, leaves of the log, of \<^verbatim>\<open>lastHash\<close> and of the count.\<close>

text \<open>The log after rotation, and the hash that the next entry links to.\<close>

definition rotated_log :: "'w audit \<Rightarrow> string option \<Rightarrow> bool" where
  "rotated_log s log = (log = au_file s \<or> log = None \<and> MAX_AUDIT_BYTES \<le> length (log_bytes s))"

definition linked_hash :: "'w ax \<Rightarrow> 'w audit \<Rightarrow> string option \<Rightarrow> string" where
  "linked_hash x s log = (case au_last s of Some v \<Rightarrow> v | None \<Rightarrow> readLastHash x log)"

definition appended :: "'w ax \<Rightarrow> string \<Rightarrow> json \<Rightarrow> 'w audit \<Rightarrow> 'w audit \<Rightarrow> bool" where
  "appended x event data s s' =
    (\<exists>log at. rotated_log s log \<and> (let prev = linked_hash x s log; payload = audit_payload x at event data prev in
      au_file s' = Some ((case log of None \<Rightarrow> [] | Some b \<Rightarrow> b) @ entry_line x prev payload) \<and> au_last s' = Some (entry_hash x prev payload)))"

definition unwritten :: "'w ax \<Rightarrow> 'w audit \<Rightarrow> 'w audit \<Rightarrow> bool" where
  "unwritten x s s' = (rotated_log s (au_file s') \<and> (au_last s' = au_last s \<or> au_last s' = Some (linked_hash x s (au_file s'))))"

lemma try_result:
  assumes "try_audit f s = (r, s', h)"
  shows "(r = Inr () \<or> (\<exists>e. r = Inl e)) \<and> au_file s' = au_file s \<and> au_last s' = au_last s \<and> au_active s' = au_active s"
  using assms by (auto simp: try_audit_def andThen_def on_audit_def call_def ret_def fail_def throw_def split: sum.splits prod.splits)

lemma event_result:
  assumes "auditEvent x event data s = (r, s', h)"
  shows "au_active s' = au_active s \<and> (r = Inr True \<and> appended x event data s s' \<or> r = Inr False \<and> unwritten x s s')"
proof -
  obtain r1 s1 h1 where p1: "try_audit (ax_mkdirs x) s = (r1, s1, h1)" by (cases "try_audit (ax_mkdirs x) s")
  obtain r2 s2 h2 where p2: "rotateIfNeeded x s1 = (r2, s2, h2)" by (cases "rotateIfNeeded x s1")
  obtain r3 s3 h3 where p3: "recall_hash x s2 = (r3, s3, h3)" by (cases "recall_hash x s2")
  obtain at w where p4: "ax_nowIso x (au_world s3) = (at, w)" by (cases "ax_nowIso x (au_world s3)")
  obtain r5 s5 h5 where p5: "try_audit (ax_append x) (s3\<lparr>au_world := w\<rparr>) = (r5, s5, h5)" by (cases "try_audit (ax_append x) (s3\<lparr>au_world := w\<rparr>)")
  note q1 = try_result [OF p1] and q2 = rotate_result [OF p2] and q3 = recall_result [OF p3] and q5 = try_result [OF p5]
  have log: "rotated_log s (au_file s2)"
    using q1 q2 by (auto simp: rotated_log_def log_bytes_def)
  obtain prev where prev: "r3 = Inr prev" "au_last s3 = Some prev" "au_file s3 = au_file s2"
    "prev = linked_hash x s (au_file s2)" "au_active s3 = au_active s" using q1 q2 q3 by (auto simp: linked_hash_def)
  show ?thesis
  proof (cases "\<exists>e. r1 = Inl e")
    case True
    then have "r = Inr False" "s' = s1" using assms p1 by (auto simp: auditEvent_def handle_def andThen_def ret_def)
    then show ?thesis using q1 by (auto simp: unwritten_def rotated_log_def)
  next
    case False
    then have r1: "r1 = Inr ()" using q1 by auto
    show ?thesis
    proof (cases "\<exists>e. r5 = Inl e")
      case True
      then have "r = Inr False" "s' = s5" using assms p1 p2 p3 p4 p5 r1 q2 prev(1)
        by (auto simp: auditEvent_def handle_def andThen_def ret_def on_audit_def call_def Let_def)
      then show ?thesis using q5 log prev by (auto simp: unwritten_def)
    next
      case False
      then have r5: "r5 = Inr ()" using q5 by auto
      then have "r = Inr True" and s': "s' = s5\<lparr>au_file := Some ((case au_file s5 of None \<Rightarrow> [] | Some b \<Rightarrow> b) @ entry_line x prev (audit_payload x at event data prev)),
          au_last := Some (entry_hash x prev (audit_payload x at event data prev))\<rparr>"
        using assms p1 p2 p3 p4 p5 r1 q2 prev(1)
        by (auto simp: auditEvent_def handle_def andThen_def ret_def on_audit_def call_def store_def Let_def)
      moreover have "au_file s5 = au_file s2" using q5 prev(3) by simp
      ultimately show ?thesis using log prev(4,5) q5 unfolding appended_def Let_def by auto
    qed
  qed
qed

section \<open>The limit on concurrent calls\<close>

lemma runs_event: "runs (auditEvent x event data) s r s' \<Longrightarrow> au_active s' = au_active s"
  unfolding runs_def by (elim exE) (drule event_result, simp)

lemma runs_on_audit [run_simps]: "runs (on_audit f) s v s' \<longleftrightarrow> (\<exists>w. f (au_world s) = (v, w) \<and> s' = s\<lparr>au_world := w\<rparr>)"
  by (auto simp: on_audit_def run_simps split: prod.splits)

lemma called_begun: "runs (toolCalled x tool args) s (Begun i t) s' \<Longrightarrow> au_active s < ax_maxTools x \<and> au_active s' = Suc (au_active s)"
  unfolding toolCalled_def Let_def by (auto simp: run_simps dest!: runs_event split: if_splits)

lemma called_busy: "runs (toolCalled x tool args) s (Busy r) s' \<Longrightarrow> au_active s' = au_active s"
  unfolding toolCalled_def Let_def by (auto simp: run_simps dest!: runs_event split: if_splits)

lemma ended_active: "runs (toolEnded x i t tool e) s e' s' \<Longrightarrow> au_active s' = au_active s - 1"
  unfolding toolEnded_def Let_def by (cases e) (auto simp: run_simps dest!: runs_event)

text \<open>
  At any time the counter is the number of calls that run, and there are never more than
  \<^verbatim>\<open>MAX_CONCURRENT_TOOLS\<close> of them.
\<close>

theorem tools_bounded:
  assumes "tools_run x s rs"
  shows "au_active s = length rs \<and> length rs \<le> ax_maxTools x"
  using assms
proof (induction rule: tools_run.induct)
  case (event s rs ev data r s' h)
  then show ?case using event_result by metis
next
  case (begun s rs tool args i t s')
  then show ?case using called_begun [of x tool args s i t s'] by auto
next
  case (busy s rs tool args r s')
  then show ?case using called_busy [of x tool args s r s'] by auto
next
  case (ended s as c bs e e' s')
  then show ?case using ended_active [of x _ _ _ e s e' s'] by auto
qed simp_all

section \<open>The chain of entries\<close>

fun log_text :: "'w ax \<Rightarrow> string \<Rightarrow> json list \<Rightarrow> string" where
  "log_text x prev [] = []"
| "log_text x prev (p # ps) = entry_line x prev p @ log_text x (entry_hash x prev p) ps"

fun log_hash :: "'w ax \<Rightarrow> string \<Rightarrow> json list \<Rightarrow> string" where
  "log_hash x prev [] = prev"
| "log_hash x prev (p # ps) = log_hash x (entry_hash x prev p) ps"

fun linked :: "'w ax \<Rightarrow> string \<Rightarrow> json list \<Rightarrow> bool" where
  "linked x prev [] = True"
| "linked x prev (p # ps) = (get p ''previousHash'' = Some (if prev = [] then JNull else JStr prev) \<and> linked x (entry_hash x prev p) ps)"

lemma log_append:
  "log_text x prev (ps @ [p]) = log_text x prev ps @ entry_line x (log_hash x prev ps) p"
  "log_hash x prev (ps @ [p]) = entry_hash x (log_hash x prev ps) p"
  "linked x prev (ps @ [p]) \<longleftrightarrow> linked x prev ps \<and> get p ''previousHash'' = Some (if log_hash x prev ps = [] then JNull else JStr (log_hash x prev ps))"
  by (induction ps arbitrary: prev) auto

text \<open>The log is a chain of entries that starts at some hash and ends at \<^verbatim>\<open>lastHash\<close>.\<close>

definition chain_log :: "'w ax \<Rightarrow> 'w audit \<Rightarrow> bool" where
  "chain_log x s = (case au_last s of
     None \<Rightarrow> au_file s = None
   | Some final \<Rightarrow> \<exists>start ps. log_bytes s = log_text x start ps \<and> linked x start ps \<and> log_hash x start ps = final)"

text \<open>A process that starts without a log; time passes, events are logged, calls come and end.\<close>

inductive log_run :: "'w ax \<Rightarrow> 'w audit \<Rightarrow> bool" for x where
  new: "au_file s = None \<Longrightarrow> au_last s = None \<Longrightarrow> log_run x s"
| later: "log_run x s \<Longrightarrow> log_run x (s\<lparr>au_world := w\<rparr>)"
| logged: "log_run x s \<Longrightarrow> auditEvent x event data s = (r, s', h) \<Longrightarrow> log_run x s'"

lemma payload_previous: "get (audit_payload x at event data prev) ''previousHash'' = Some (if prev = [] then JNull else JStr prev)"
proof -
  have "is_obj (put_fields fs v)" if "is_obj v" for fs v
    using that by (induction fs arbitrary: v) (auto simp: put_fields_def put_field_is_obj)
  then show ?thesis by (simp add: audit_payload_def get_put_field)
qed

lemma chain_event:
  assumes "chain_log x s" "auditEvent x event data s = (r, s', h)"
  shows "chain_log x s'"
proof -
  have prior: "\<exists>start ps. (case log of None \<Rightarrow> [] | Some b \<Rightarrow> b) = log_text x start ps \<and> linked x start ps \<and> log_hash x start ps = linked_hash x s log"
    if "rotated_log s log" for log
  proof (cases "log = au_file s")
    case True
    show ?thesis
    proof (cases "au_last s")
      case None
      then have "log = None" using True assms(1) by (simp add: chain_log_def)
      then have "(case log of None \<Rightarrow> [] | Some b \<Rightarrow> b) = log_text x (linked_hash x s log) []" by simp
      then show ?thesis by (intro exI [of _ "linked_hash x s log"] exI [of _ "[]"]) simp
    next
      case (Some final)
      then show ?thesis using True assms(1) by (simp add: chain_log_def log_bytes_def linked_hash_def)
    qed
  next
    case False
    then have "log = None" using that by (simp add: rotated_log_def)
    then show ?thesis by (intro exI [of _ "linked_hash x s log"] exI [of _ "[]"]) simp
  qed
  from event_result [OF assms(2)] consider "appended x event data s s'" | "unwritten x s s'" by blast
  then show ?thesis
  proof cases
    case 1
    then obtain log at where log: "rotated_log s log"
      and s': "au_file s' = Some ((case log of None \<Rightarrow> [] | Some b \<Rightarrow> b) @ entry_line x (linked_hash x s log) (audit_payload x at event data (linked_hash x s log)))"
        "au_last s' = Some (entry_hash x (linked_hash x s log) (audit_payload x at event data (linked_hash x s log)))"
      unfolding appended_def Let_def by blast
    obtain start ps where ps: "(case log of None \<Rightarrow> [] | Some b \<Rightarrow> b) = log_text x start ps" "linked x start ps" "log_hash x start ps = linked_hash x s log"
      using prior [OF log] by blast
    show ?thesis
      unfolding chain_log_def s' option.case
      by (rule exI [of _ start], rule exI [of _ "ps @ [audit_payload x at event data (linked_hash x s log)]"])
        (use ps s' in \<open>simp add: log_bytes_def log_append payload_previous\<close>)
  next
    case 2
    then have log: "rotated_log s (au_file s')" and last: "au_last s' = au_last s \<or> au_last s' = Some (linked_hash x s (au_file s'))"
      by (auto simp: unwritten_def)
    show ?thesis
    proof (cases "au_last s'")
      case None
      then have "au_last s = None" using last by simp
      then have "au_file s = None" using assms(1) by (simp add: chain_log_def)
      then show ?thesis using log None by (auto simp: chain_log_def rotated_log_def)
    next
      case (Some v)
      then have "v = linked_hash x s (au_file s')" using last Some by (cases "au_last s") (auto simp: linked_hash_def)
      then show ?thesis using prior [OF log] Some by (simp add: chain_log_def log_bytes_def)
    qed
  qed
qed


text \<open>The texts that were hashed along a chain.\<close>

fun hashed :: "'w ax \<Rightarrow> string \<Rightarrow> json list \<Rightarrow> string list" where
  "hashed x prev [] = []"
| "hashed x prev (p # ps) = (prev @ [nl] @ stringify p) # hashed x (entry_hash x prev p) ps"

lemma hashed_append: "hashed x prev (ps @ [p]) = hashed x prev ps @ [log_hash x prev ps @ [nl] @ stringify p]"
  by (induction ps arbitrary: prev) auto

lemma nl_split: "a @ [c] @ u = b @ [c] @ v \<Longrightarrow> c \<notin> set a \<Longrightarrow> c \<notin> set b \<Longrightarrow> a = b \<and> u = v"
proof (induction a arbitrary: b)
  case Nil then show ?case by (cases b) auto
next
  case (Cons d a) then show ?case by (cases b) auto
qed

text \<open>
  The last hash binds the log: of two chains of the same length that end at the same
  hash either all entries and the starting hashes are the same, or SHA-256 maps two different texts that were hashed in them
  to one hash.
\<close>

theorem chain_binds_history:
  assumes "log_hash x start ps = log_hash x start' qs" "length ps = length qs"
    and "nl \<notin> set start" "nl \<notin> set start'" "\<And>t. nl \<notin> set (ax_sha256 x t)"
  shows "start = start' \<and> map stringify ps = map stringify qs
    \<or> (\<exists>u \<in> set (hashed x start ps). \<exists>v \<in> set (hashed x start' qs). u \<noteq> v \<and> ax_sha256 x u = ax_sha256 x v)"
  using assms(1,2)
proof (induction ps arbitrary: qs rule: rev_induct)
  case (snoc p ps)
  obtain qs' q where qs: "qs = qs' @ [q]" using snoc.prems(2) by (cases qs rule: rev_cases) auto
  have no: "nl \<notin> set (log_hash x s rs)" if "nl \<notin> set s" for s rs
    using that assms(5) by (induction rs arbitrary: s) (auto simp: entry_hash_def)
  let ?u = "log_hash x start ps @ [nl] @ stringify p" and ?v = "log_hash x start' qs' @ [nl] @ stringify q"
  have same: "ax_sha256 x ?u = ax_sha256 x ?v" using snoc.prems(1) by (simp add: qs log_append entry_hash_def)
  show ?case
  proof (cases "?u = ?v")
    case True
    have t: "log_hash x start ps = log_hash x start' qs'" "stringify p = stringify q"
      using nl_split [OF True no [OF assms(3)] no [OF assms(4)]] by auto
    show ?thesis using snoc.IH [OF t(1)] snoc.prems(2) t(2) by (auto simp: qs hashed_append)
  next
    case False
    then show ?thesis using same unfolding qs hashed_append set_append by auto
  qed
qed simp

end
