(* ===== verification/ProcessWitness.thy ===== *)
theory ProcessWitness
  imports ProcessSafety AuditLog ToolsWitness
begin

text \<open>
  The properties of running programs and of the audit log at concrete inputs.
\<close>

section \<open>Running programs\<close>

definition tame_config :: config where
  "tame_config = demo_config\<lparr>c_hardened := False\<rparr>"


theorem collector_witness: "length (co_text (collect_all 2 [''ab'', ''cde''])) \<le> 4"
  using collector_exact [of 2 "[''ab'', ''cde'']", unfolded Let_def, THEN conjunct2, THEN conjunct1] by simp

theorem run_settled_witness:
  "\<exists>answer. ch_answer (run_child 9 9 [OutChunk ''a'', TimedOut, Closed (Some 0) None, Aborted]) = Some answer \<and> \<not> ra_ok answer \<and> \<not> ra_cancelled answer"
  using run_settled_once [of "[OutChunk ''a'', TimedOut]" 9 9 "Some 0" None "[Aborted]"] by auto

text \<open>A file system without files.\<close>

definition still_site :: "'w site" where
  "still_site = \<lparr>si_fx = \<lparr>fx_lstat = (\<lambda>_ _. Absent), fx_stat = (\<lambda>_ _. Absent), fx_realpath = (\<lambda>_ p. Inr p), fx_readdir = (\<lambda>_ _. Inr []),
      fx_readlink = (\<lambda>_ p. Inr p), fx_readFile = (\<lambda>_ _. throw ''ENOENT''), fx_git = (\<lambda>_ _ _ _. \<lparr>p_status = Some 1, p_stdout = [], p_stderr = []\<rparr>),
      fx_decode = (\<lambda>s. s), fx_encode = (\<lambda>s. s), fx_base64 = (\<lambda>s. s), fx_unbase64 = (\<lambda>s. s), fx_sha256 = (\<lambda>s. s), fx_collated = (\<lambda>es. es),
      fx_environ = (\<lambda>_. None), fx_cwd = ''/'', fx_home = ''/h''\<rparr>, si_config = demo_config, si_active = None\<rparr>"

text \<open>A world that records the signals; only process 7 runs.\<close>

definition signal_kx :: "(int \<times> string) list kx" where
  "signal_kx = \<lparr>kx_site = still_site,
    kx_environ = [], kx_running = (\<lambda>_ p. p = 7), kx_stat = (\<lambda>_ _. Inr (''7 (a) b) S '' @ concat (replicate 20 ''1 ''))),
    kx_kill = (\<lambda>p sig w. (True, w @ [(p, sig)])), kx_sleep = (\<lambda>_ w. w),
    kx_spawnDetached = (\<lambda>_ _ _ _ _ _ _ w. (Inr 7, w)), kx_probe = (\<lambda>_ _. \<lparr>p_status = Some 1, p_stdout = [], p_stderr = []\<rparr>),
    kx_openLog = (\<lambda>_ w. (Inr (), w)), kx_writeJson = (\<lambda>_ _ w. (Inr (), w)), kx_writeBytes = (\<lambda>_ _ w. (Inr (), w)), kx_unlink = (\<lambda>_ w. (Inr (), w)),
    kx_newId = (\<lambda>w. (''p_1'', w)), kx_nowIso = (\<lambda>_. ''t''), kx_now = (\<lambda>_. 0), kx_parse_date = (\<lambda>_. None), kx_newest_first = (\<lambda>rs. rs)\<rparr>"

lemma signal_parts: "kx_kill signal_kx p sig w = (True, w @ [(p, sig)])" "kx_sleep signal_kx ms w = w"
  by (simp_all add: signal_kx_def)

lemma signals_sent: "snd (snd (terminateProcessTree signal_kx 7 100 ''linux:1'' [])) = [[(-7, ''SIGTERM'')], [(-7, ''SIGTERM'')], [(-7, ''SIGTERM''), (-7, ''SIGKILL'')]]"
  by code_simp

theorem only_own_process_witness: "keeps (\<lambda>w. fst ` set w \<subseteq> {7, - 7}) (terminateProcessTree signal_kx 7 100 ''linux:1'')"
  by (rule only_own_process_signalled) (auto simp: signal_parts)


text \<open>One process file.\<close>

definition process_file :: string where
  "process_file = stringify (JObj [(''id'', JStr ''p_1''), (''pid'', JNum 7), (''identity'', JStr ''linux:1''),
    (''stdoutPath'', JStr ''/h/.chatgpt-sol-local-bridge/host-v1/logs/p_1.out.log''), (''stderrPath'', JStr ''/h/.chatgpt-sol-local-bridge/host-v1/logs/p_1.err.log'')])"

definition listing_kx :: "(int \<times> string) list kx" where
  "listing_kx = signal_kx\<lparr>kx_site := still_site\<lparr>si_fx := (si_fx still_site)
    \<lparr>fx_readdir := (\<lambda>_ _. Inr [\<lparr>en_name = ''p_1.json'', en_kind = RegularFile\<rparr>]), fx_readFile := (\<lambda>_ _. Inr process_file)\<rparr>\<rparr>\<rparr>"

lemma listed_one: "answered (listProcesses listing_kx None [])" "length (the_answer (listProcesses listing_kx None [])) = 1"
  by code_simp+

theorem listed_processes_witness: "\<exists>m s'. runs (listProcesses listing_kx None) [] [m] s' \<and> typed_process listing_kx m"
proof -
  obtain m where m: "the_answer (listProcesses listing_kx None []) = [m]" using listed_one(2) by (auto simp: length_Suc_conv)
  have r: "runs (listProcesses listing_kx None) [] [m] (fst (snd (listProcesses listing_kx None [])))"
    using runs_answer [of "listProcesses listing_kx None" "[]", OF listed_one(1)] m by simp
  have "set (kx_newest_first listing_kx rs) \<subseteq> set rs" for rs by (simp add: listing_kx_def signal_kx_def)
  from listed_processes_typed [OF r this] r show ?thesis by auto
qed

section \<open>The audit log\<close>

definition quiet_ax :: "unit ax" where
  "quiet_ax = \<lparr>ax_sha256 = (\<lambda>t. replicate (length t) (CHR ''a'')), ax_nowIso = (\<lambda>w. (''t'', w)), ax_clock = (\<lambda>w. (1, w)), ax_random = (\<lambda>_ w. (''0f'', w)),
    ax_pid = 7, ax_mkdirs = (\<lambda>w. (Inr (), w)), ax_append = (\<lambda>w. (Inr (), w)), ax_mtime = (\<lambda>_ _. 0), ax_encode = (\<lambda>s. s), ax_decode = (\<lambda>s. s), ax_maxTools = 1\<rparr>"

definition quiet_audit :: "unit audit" where
  "quiet_audit = \<lparr>au_world = (), au_file = None, au_dir = [], au_last = None, au_active = 0\<rparr>"

theorem tools_bounded_witness: "\<exists>s. runs (toolCalled quiet_ax ''read_file'' None) quiet_audit (Begun ''req_0f'' 1) s \<and> au_active s = 1"
proof -
  have any: "\<exists>s' b. runs (auditEvent quiet_ax event data) s b s'" for event data s
    using event_result [of quiet_ax event data s] by (cases "auditEvent quiet_ax event data s") (auto simp: runs_def)
  have "\<exists>s. runs (toolCalled quiet_ax ''read_file'' None) quiet_audit (Begun ''req_0f'' 1) s"
    unfolding toolCalled_def Let_def
    by (simp add: run_simps quiet_ax_def [THEN arg_cong [where f = ax_random]] quiet_ax_def [THEN arg_cong [where f = ax_maxTools]]
        quiet_ax_def [THEN arg_cong [where f = ax_clock]] quiet_audit_def any)
  then obtain s where s: "runs (toolCalled quiet_ax ''read_file'' None) quiet_audit (Begun ''req_0f'' 1) s" by blast
  moreover have "tools_run quiet_ax quiet_audit []" by (rule tools_run.fresh) (simp add: quiet_audit_def)
  ultimately have "tools_run quiet_ax s [\<lparr>rn_id = ''req_0f'', rn_started = 1, rn_tool = ''read_file''\<rparr>]"
    by (metis tools_run.begun)
  from tools_bounded [OF this] show ?thesis using s by auto
qed

definition logged_once :: "unit audit" where
  "logged_once = fst (snd (auditEvent quiet_ax ''start'' (JObj []) quiet_audit))"


text \<open>This hash only counts, so that two logs end at the same hash: there are two texts it maps to one.\<close>

theorem chain_binds_witness:
  "\<exists>u \<in> set (hashed quiet_ax [] [JNull]). \<exists>v \<in> set (hashed quiet_ax [] [JBool True]). u \<noteq> v \<and> ax_sha256 quiet_ax u = ax_sha256 quiet_ax v"
proof -
  have "nl \<notin> set (ax_sha256 quiet_ax t)" for t by (simp add: quiet_ax_def)
  moreover have "log_hash quiet_ax [] [JNull] = log_hash quiet_ax [] [JBool True]" by code_simp
  moreover have "map stringify [JNull] \<noteq> map stringify [JBool True]" by code_simp
  ultimately show ?thesis using chain_binds_history [of quiet_ax "[]" "[JNull]" "[]" "[JBool True]"] by simp
qed

end
