(* ===== verification/GitWitness.thy ===== *)
theory GitWitness
  imports GitSafety ProcessWitness
begin

text \<open>
  The properties of the Git tools at concrete inputs: an index with one staged file, with a commit that works and one
  that fails, and an attached branch whose new commit is pushed.
\<close>

section \<open>An index with a staged file\<close>

definition ran :: "bool \<Rightarrow> string \<Rightarrow> run_answer" where
  "ran fine out = \<lparr>ra_ok = fine, ra_code = Some (if fine then 0 else 1), ra_signal = None, ra_timedOut = False, ra_cancelled = False, ra_stdout = out, ra_stderr = []\<rparr>"

definition git_fx :: "disk fx" where
  "git_fx = demo_fx\<lparr>fx_lstat := (\<lambda>w p.
      if p = ''/bridge-governance/hooks/pre-commit'' then Present \<lparr>nd_kind = RegularFile, nd_size = 1, nd_mtime = ''t'', nd_mode = 493\<rparr>
      else if p = ''/bridge-governance/pre-commit-policy.mjs'' then Present \<lparr>nd_kind = RegularFile, nd_size = 1, nd_mtime = ''t'', nd_mode = 420\<rparr>
      else disk_lnode w (comps_of p)),
    fx_readFile := (\<lambda>w p. if p = ''/bridge-governance/hooks/pre-commit'' then Inr S6_REVIEWED_HOOK_SOURCE else Inr ''policy''),
    fx_sha256 := (\<lambda>_. REVIEWED_POLICY_SHA256)\<rparr>"

definition index_run :: "bool \<Rightarrow> string list \<Rightarrow> run_answer" where
  "index_run works argv =
    (if ''--show-toplevel'' \<in> set argv then ran True ''/r''
     else if ''core.hooksPath'' \<in> set argv then ran True ''.githooks''
     else if ''--diff-filter=D'' \<in> set argv then ran True []
     else if ''--name-only'' \<in> set argv then ran True [CHR ''a'', nul]
     else if ''commit'' \<in> set argv then ran works []
     else if ''HEAD'' \<in> set argv then ran True first_head
     else ran True [])"

definition index_spawn :: spawn where
  "index_spawn argv cwd env =
    (if ''ls-files'' \<in> set argv then \<lparr>p_status = Some 0, p_stdout = ''100644 d 0'' @ [tab] @ ''a'', p_stderr = []\<rparr>
     else \<lparr>p_status = Some 1, p_stdout = [], p_stderr = []\<rparr>)"

definition git_tools :: "bool \<Rightarrow> disk gt" where
  "git_tools works = \<lparr>gt_site = demo_site\<lparr>si_fx := git_fx\<rparr>, gt_limits = \<lparr>max_stdout = 9, max_stderr = 9\<rparr>,
    gt_run = (\<lambda>argv cwd env w. (index_run works argv, w)), gt_spawn = (\<lambda>_. index_spawn), gt_brokerConfigured = (\<lambda>_. True),
    gt_preflight = (\<lambda>w. (Inr (), w)), gt_attest = (\<lambda>h w. (if h = first_head then Inr () else throw ''unknown'', w)), gt_publishBranch = (\<lambda>w. (throw ''none'', w))\<rparr>"

definition commit_demo :: "bool \<Rightarrow> (disk, json) act" where
  "commit_demo works = commitReviewedIndex (git_tools works) ''s6'' ''/r'' ''msg''"

lemma commit_done: "answered (commit_demo True demo_disk)"
  by code_simp

lemma commit_failed: "answered (commit_demo False demo_disk)" "get (the_answer (commit_demo False demo_disk)) ''ok'' = Some (JBool False)"
  by code_simp+

theorem commit_witness: "\<exists>v s'. runs (commitReviewedIndex (git_tools True) ''s6'' ''/r'' ''msg'') demo_disk v s' \<and> reviewed_files (git_tools True) demo_disk ''s6'' ''/r'' = Inr ()"
proof -
  have r: "runs (commitReviewedIndex (git_tools True) ''s6'' ''/r'' ''msg'') demo_disk (the_answer (commit_demo True demo_disk)) (fst (snd (commit_demo True demo_disk)))"
    using runs_answer [of "commit_demo True" demo_disk, OF commit_done] by (simp add: commit_demo_def)
  have m: "''s6'' \<noteq> ''host''" by simp
  from commit_governed [OF r m] r show ?thesis by blast
qed

theorem failed_commit_witness: "\<exists>w head w3. runs (run_in (git_tools False) [''rev-parse'', ''HEAD''] ''/r'') w head w3 \<and> gt_attest (git_tools False) (trim (ra_stdout head)) w3 = (Inr (), w3)"
proof -
  have r: "runs (commitReviewedIndex (git_tools False) ''s6'' ''/r'' ''msg'') demo_disk (the_answer (commit_demo False demo_disk)) (fst (snd (commit_demo False demo_disk)))"
    using runs_answer [of "commit_demo False" demo_disk, OF commit_failed(1)] by (simp add: commit_demo_def)
  obtain w2 head w3 s' where h: "runs (run_in (git_tools False) [''rev-parse'', ''HEAD''] ''/r'') w2 head w3" "gt_attest (git_tools False) (trim (ra_stdout head)) w3 = (Inr (), s')"
    using head_attested_after_failed_commit [OF r commit_failed(2)] by blast
  moreover have "s' = w3" using h(2) by (simp add: git_tools_def)
  ultimately show ?thesis by blast
qed

text \<open>Staging: each step by itself.\<close>

lemma root_read: "assertInWorkspace (demo_site\<lparr>si_fx := git_fx\<rparr>) demo_disk True ''/r'' = Inr ''/r''"
    "canonicalPath (demo_site\<lparr>si_fx := git_fx\<rparr>) demo_disk False ''/r'' = Inr ''/r''" "currentWorkspace (demo_site\<lparr>si_fx := git_fx\<rparr>) demo_disk = Inr ''/r''"
    "si_within (demo_site\<lparr>si_fx := git_fx\<rparr>) ''/r'' ''/r''"
  by code_simp+

lemma index_runs: "index_run works [''git'', ''-c'', ''safe.directory=*'', ''rev-parse'', ''--show-toplevel''] = ran True ''/r''" "trim ''/r'' = ''/r''"
  by code_simp+

lemma selected_read: "selectedRepoPath (git_tools True) demo_disk ''/r'' True True False ''a'' = Inr ''a''"
  by code_simp

lemma repository_read: "runs (repositoryRoot (git_tools works) None True) demo_disk ''/r'' demo_disk"
  by (simp add: repositoryRoot_def Let_def git_tools_def root_read index_runs run_simps) (simp add: ran_def root_read index_runs)

lemma stage_done: "\<exists>r. runs (git_stage (git_tools True) [''a''] None) demo_disk r demo_disk \<and> \<not> rp_error r"
proof -
  have g: "runs (git_json (git_tools True) [''add'', ''--'', ''a''] ''/r'') demo_disk
      (answer_json (git_argv [''add'', ''--'', ''a''] ''/r'') ''/r'' (index_run True (git_argv [''add'', ''--'', ''a''] ''/r''))) demo_disk"
    unfolding runs_git_json by (intro exI conjI) (simp_all add: git_tools_def)
  have s: "runs (look (\<lambda>w. mapE (selectedRepoPath (git_tools True) w ''/r'' True True False) [''a''])) demo_disk [''a''] demo_disk"
    by (simp add: run_simps selected_read)
  obtain v where v: "runs (git_json (git_tools True) [''add'', ''--'', ''a''] ''/r'') demo_disk v demo_disk" using g by blast
  have "runs (andThen (repositoryRoot (git_tools True) None True) (\<lambda>root.
     andThen (look (\<lambda>w. mapE (selectedRepoPath (git_tools True) w root True True False) [''a''])) (\<lambda>selected.
     andThen (guard (distinct selected) ''git_stage received duplicate paths'') (\<lambda>_.
     git_json (git_tools True) ([''add'', ''--''] @ selected) root)))) demo_disk v demo_disk"
    by (rule runs_andThenI [OF repository_read]) (rule runs_andThenI [OF s], simp add: run_simps v)
  then have "runs (git_stage (git_tools True) [''a''] None) demo_disk (json_reply (gt_limits (git_tools True)) v) demo_disk"
    unfolding git_stage_def tool_reply_def runs_handle by (intro disjI1) (rule runs_andThenI, assumption, simp add: run_simps)
  then show ?thesis using reply_kinds(3) by blast
qed

theorem stage_witness: "\<exists>w root selected. stageable (git_tools True) w root ''a'' selected"
proof -
  obtain r where r: "runs (git_stage (git_tools True) [''a''] None) demo_disk r demo_disk" "\<not> rp_error r" using stage_done by blast
  obtain root selected w where "list_all2 (stageable (git_tools True) w root) [''a''] selected"
    using staged_paths_checked [OF r] by blast
  then show ?thesis by (auto simp: list_all2_Cons1)
qed

section \<open>Publishing\<close>

definition origin_hx :: "(bool \<times> bool) hx" where
  "origin_hx = \<lparr>hx_git = (\<lambda>args cwd env r. (fst (demo_git args cwd env (fst r)), r)), hx_realpath = (\<lambda>_ p. if is_absolute p then Inr p else throw ''ENOENT''),
    hx_isDirectory = (\<lambda>_ _. Inr True),
    hx_exists = (\<lambda>_ _. False), hx_readdir = (\<lambda>_ _. []), hx_mkdir = (\<lambda>_ r. r), hx_sha256 = (\<lambda>_. replicate 64 (CHR ''0'')),
    hx_randomHex = (\<lambda>_. replicate 16 (CHR ''1'')), hx_now = (\<lambda>_. ''2024''), hx_environ = [], hx_cwd = ''/'', hx_stateFile = ''/s/i.json'',
    hx_worktreeRoot = ''/s/w'', hx_newest_first = (\<lambda>vs. vs)\<rparr>"

definition push_run :: "string list \<Rightarrow> (bool \<times> bool) hosts \<Rightarrow> run_answer \<times> (bool \<times> bool) hosts" where
  "push_run argv s =
    (if ''ls-remote'' \<in> set argv then (ran True (if snd (ho_repo s) then second_head else first_head), s)
     else if ''push'' \<in> set argv then (ran True [], s\<lparr>ho_repo := (True, True)\<rparr>)
     else if ''rev-parse'' \<in> set argv then (ran True second_head, s)
     else (ran True [], s))"

definition push_tools :: "(bool \<times> bool) hosts gt" where
  "push_tools = \<lparr>gt_site = still_site, gt_limits = \<lparr>max_stdout = 9, max_stderr = 9\<rparr>,
    gt_run = (\<lambda>argv cwd env. push_run argv), gt_spawn = (\<lambda>_. index_spawn), gt_brokerConfigured = (\<lambda>_. False),
    gt_preflight = (\<lambda>w. (Inr (), w)), gt_attest = (\<lambda>h w. (Inr (), w)), gt_publishBranch = (\<lambda>w. (throw ''none'', w))\<rparr>"

definition attached_index :: json where
  "attached_index = JObj [(''version'', JNum 1), (''workspaces'', JObj [(''ws_1111111111111111'', JObj
    [(''id'', JStr ''ws_1111111111111111''), (''version'', JNum 1), (''kind'', JStr ''existing-branch''), (''managedWorktree'', JBool False), (''project'', JStr []),
     (''objective'', JStr ''t''), (''scope'', JArr []), (''repositoryPath'', JStr ''/r''), (''repositoryIdentity'', JStr (replicate 64 (CHR ''0''))),
     (''worktreePath'', JStr ''/r''), (''branch'', JStr ''feature''), (''requestedBranch'', JStr ''feature''), (''remote'', JStr ''origin''),
     (''remoteIdentity'', JStr (replicate 64 (CHR ''0''))), (''expectedHead'', JStr first_head), (''remoteHead'', JStr first_head),
     (''baseRef'', JStr ''refs/remotes/origin/feature''), (''baseHead'', JStr first_head), (''observedHead'', JStr first_head), (''pr'', JNull),
     (''checkpoint'', JNull), (''processIds'', JArr []), (''createdAt'', JStr ''2024''), (''updatedAt'', JStr ''2024'')])])]"

definition committed_host :: "(bool \<times> bool) hosts" where
  "committed_host = \<lparr>ho_repo = (True, False), ho_file = Some (Some attached_index)\<rparr>"

definition origin_binding :: binding_view where
  "origin_binding = the_answer (publishBinding origin_hx ''ws_1111111111111111'' committed_host)"

lemma binding_done: "answered (publishBinding origin_hx ''ws_1111111111111111'' committed_host)"
    "bv_expectedHead origin_binding = first_head" "bv_remote origin_binding = ''origin''" "bv_branch origin_binding = ''feature''"
    "bv_worktreePath origin_binding = ''/r''"
  by code_simp+

lemma same_hosts: "fst (snd (publishBinding origin_hx ''ws_1111111111111111'' committed_host)) = committed_host"
  by code_simp

lemma record_done: "answered (recordPublishedHead origin_hx ''ws_1111111111111111'' (Some (JStr first_head)) (Some (JStr second_head)) (committed_host\<lparr>ho_repo := (True, True)\<rparr>))"
  by code_simp

lemma heads: "trim first_head = first_head" "trim second_head = second_head" "hex_40_64 first_head" "hex_40_64 second_head" "first_head \<noteq> second_head"
    "''ls-remote'' \<noteq> first_head" "''ls-remote'' \<noteq> second_head" "''rev-parse'' \<noteq> first_head" "''rev-parse'' \<noteq> second_head" "''push'' \<noteq> first_head" "''push'' \<noteq> second_head"
    "lower (hd (split_by is_space first_head @ [[]])) = first_head" "lower (hd (split_by is_space second_head @ [[]])) = second_head"
  by code_simp+

lemma push_read: "run_in push_tools args root s = call (push_run (git_argv args root)) s"
  by (simp add: run_in_def push_tools_def)

lemma publish_done: "\<exists>v s'. runs (publishAttachedBranch push_tools origin_hx ''ws_1111111111111111'') committed_host v s'"
proof -
  have b: "runs (publishBinding origin_hx ''ws_1111111111111111'') committed_host origin_binding committed_host"
    using runs_answer [of "publishBinding origin_hx ''ws_1111111111111111''" committed_host, OF binding_done(1)] by (simp add: origin_binding_def same_hosts)
  obtain r s' where r: "runs (recordPublishedHead origin_hx ''ws_1111111111111111'' (Some (JStr first_head)) (Some (JStr second_head)))
      (committed_host\<lparr>ho_repo := (True, True)\<rparr>) r s'"
    using runs_answer [of "recordPublishedHead origin_hx ''ws_1111111111111111'' (Some (JStr first_head)) (Some (JStr second_head))", OF record_done] by blast
  have q: "runs (run_in push_tools args root) s a s1 \<longleftrightarrow> push_run (git_argv args root) s = (a, s1)" for args root s a s1
    by (simp add: run_in_def push_tools_def run_simps)
  show ?thesis
    unfolding publishAttachedBranch_def remoteBranchHead_def Let_def
    apply (intro exI, rule runs_andThenI, rule b)
    apply (simp add: run_simps q push_run_def git_argv_def push_args_def binding_done heads heads(5) [symmetric] ran_def committed_host_def)
    apply (intro exI conjI)
    apply (rule r [unfolded committed_host_def, simplified])
    apply (rule refl)
    done
qed


end
