(* ===== verification/Disposable.thy ===== *)
theory Disposable
  imports BrokerWorld HostConfig
begin

text \<open>
  The manager of disposable workspaces (\<^verbatim>\<open>scripts/disposable-workspace.mjs\<close>): sessions are cloned, prepared,
  refreshed, kept alive, destroyed and reaped when they are stale.  What changes the file system goes through
  \<open>dx_do\<close>, one \<open>fsop\<close> each; Git, the materializer, randomness, clocks, process liveness and the URL parser are
  parameters.  JSON files are written atomically (a temporary file that is renamed).
\<close>

section \<open>Parameters\<close>

datatype fsop = MakeDir string | Chmod string nat | CopyFile string string | RemoveTree string | RemoveFile string
  | RenamePath string string | WriteNew string json | WriteOver string json

record url =
  ur_protocol :: string
  ur_username :: string
  ur_password :: string
  ur_hostname :: string
  ur_path :: string

text \<open>\<open>dx_stack\<close> bounds the depth of a recursion over directories; \<open>dx_readdir\<close> gives names and kinds; \<open>dx_url\<close>
  parses, with the path decoded.\<close>

record 'w dx =
  dx_do :: "fsop \<Rightarrow> 'w \<Rightarrow> unit result \<times> 'w"
  dx_git :: "string list \<Rightarrow> string \<Rightarrow> (string \<times> string) list \<Rightarrow> 'w \<Rightarrow> proc_result \<times> 'w"
  dx_materialize :: "string \<Rightarrow> string \<Rightarrow> string \<Rightarrow> string \<Rightarrow> string \<Rightarrow> 'w \<Rightarrow> json result \<times> 'w"
  dx_random :: "nat \<Rightarrow> 'w \<Rightarrow> string \<times> 'w"
  dx_exists :: "'w \<Rightarrow> string \<Rightarrow> bool"
  dx_lstat :: "'w \<Rightarrow> string \<Rightarrow> fstat option"
  dx_stat :: "'w \<Rightarrow> string \<Rightarrow> fstat option"
  dx_realpath :: "'w \<Rightarrow> string \<Rightarrow> string result"
  dx_readdir :: "'w \<Rightarrow> string \<Rightarrow> (string \<times> string) list result"
  dx_read :: "'w \<Rightarrow> string \<Rightarrow> string result"
  dx_sha256 :: "string \<Rightarrow> string"
  dx_iso :: "'w \<Rightarrow> string"
  dx_now :: "'w \<Rightarrow> int"
  dx_now36 :: "'w \<Rightarrow> string"
  dx_parse_date :: "string \<Rightarrow> int option"
  dx_alive :: "'w \<Rightarrow> int \<Rightarrow> bool"
  dx_url :: "string \<Rightarrow> url result"
  dx_environ :: "string \<Rightarrow> string option"
  dx_cwd :: string
  dx_home :: string
  dx_uid :: nat
  dx_pid :: int
  dx_platform :: string
  dx_stack :: nat

text \<open>The manager: its options after the constructor.\<close>

record manager =
  dm_root :: string
  dm_source :: "string option"
  dm_external :: bool
  dm_hookFile :: string
  dm_policyFile :: string
  dm_hooksPath :: string
  dm_policyPath :: string
  dm_identity :: "(string \<times> string) option"
  dm_protected :: "string list"
  dm_staleAfterMs :: int
  dm_sessionPrefix :: string
  dm_branchPrefix :: string
  dm_remoteName :: string
  dm_materializes :: bool
  dm_allowed :: "string list"

definition dm_sessions :: "manager \<Rightarrow> string" where "dm_sessions m = path_join (dm_root m) ''sessions''"
definition dm_state :: "manager \<Rightarrow> string" where "dm_state m = path_join (dm_root m) ''manager-state''"
definition dm_gitHome :: "manager \<Rightarrow> string" where "dm_gitHome m = path_join (dm_root m) ''git-home''"
definition dm_governance :: "manager \<Rightarrow> string" where "dm_governance m = path_join (dm_root m) ''governance''"

section \<open>Effects\<close>

definition effect :: "'w dx \<Rightarrow> fsop \<Rightarrow> ('w, unit) act" where
  "effect x op = andThen (call (dx_do x op)) (\<lambda>r. case r of Inr u \<Rightarrow> ret () | Inl e \<Rightarrow> fail (message e))"

text \<open>What a \<^verbatim>\<open>try\<close> block did, as a value, so that its handler can use what was known before it.\<close>

definition tried :: "('w, 'a) act \<Rightarrow> ('w, 'a result) act" where
  "tried a s = (case a s of (r, s', h) \<Rightarrow> (Inr r, s', h))"

definition dm_gitEnv :: "'w dx \<Rightarrow> manager \<Rightarrow> (string \<times> string) list" where
  "dm_gitEnv x m =
    [(''PATH'', env_or (dx_environ x) ''PATH'' ''/usr/bin:/bin''), (''HOME'', dm_gitHome m), (''XDG_CONFIG_HOME'', path_join (dm_gitHome m) ''config''),
     (''LANG'', ''C''), (''LC_ALL'', ''C''), (''GIT_CONFIG_NOSYSTEM'', ''1''), (''GIT_CONFIG_GLOBAL'', ''/dev/null''), (''GIT_TERMINAL_PROMPT'', ''0''),
     (''GIT_ASKPASS'', ''/usr/bin/false''), (''GIT_OPTIONAL_LOCKS'', ''0'')]"

definition dm_gitStatus :: "'w dx \<Rightarrow> manager \<Rightarrow> string list \<Rightarrow> string \<Rightarrow> ('w, proc_result) act" where
  "dm_gitStatus x m args cwd = call (dx_git x args cwd (dm_gitEnv x m))"

definition dm_git :: "'w dx \<Rightarrow> manager \<Rightarrow> string list \<Rightarrow> string \<Rightarrow> ('w, string) act" where
  "dm_git x m args cwd =
    andThen (dm_gitStatus x m args cwd) (\<lambda>res.
    if p_status res \<noteq> Some 0
    then fail (''git '' @ join '' '' args @ '' failed: '' @ trim (if p_stderr res \<noteq> [] then p_stderr res else p_stdout res))
    else ret (p_stdout res))"

definition lstat_of :: "'w dx \<Rightarrow> 'w \<Rightarrow> string \<Rightarrow> fstat result" where
  "lstat_of x w p = (case dx_lstat x w p of Some st \<Rightarrow> Inr st | None \<Rightarrow> throw (''ENOENT: '' @ p))"

definition stat_of :: "'w dx \<Rightarrow> 'w \<Rightarrow> string \<Rightarrow> fstat result" where
  "stat_of x w p = (case dx_stat x w p of Some st \<Rightarrow> Inr st | None \<Rightarrow> throw (''ENOENT: '' @ p))"

text \<open>A path argument out of a JSON value.\<close>

definition path_arg :: "'w dx \<Rightarrow> json option \<Rightarrow> string result" where
  "path_arg x v = (case v of Some (JStr s) \<Rightarrow> Inr (path_resolve (dx_cwd x) s) | _ \<Rightarrow> throw ''The path argument must be of type string'')"

definition text_of :: "json option \<Rightarrow> string" where
  "text_of v = (case v of None \<Rightarrow> ''undefined'' | Some j \<Rightarrow> to_string j)"

text \<open>Only a real directory of this user, strictly below \<open>parent\<close>, is removed.\<close>

definition removeOwnedPath :: "'w dx \<Rightarrow> string \<Rightarrow> string \<Rightarrow> ('w, unit) act" where
  "removeOwnedPath x target parent =
    (let resolved = path_resolve (dx_cwd x) target; parentResolved = path_resolve (dx_cwd x) parent in
     andThen (guard (isWithin (dx_cwd x) resolved parentResolved \<and> resolved \<noteq> parentResolved) (''refusing to remove unowned disposable path: '' @ resolved)) (\<lambda>_.
     andThen (look (\<lambda>w. Inr (dx_exists x w resolved))) (\<lambda>there.
     if \<not> there then ret ()
     else
       andThen (look (\<lambda>w. bindE (lstat_of x w resolved) (\<lambda>st.
         bindE (ensure (BrokerWorld.isDirectory st \<and> \<not> isSymbolicLink st) (''refusing to remove non-directory disposable path: '' @ resolved)) (\<lambda>_.
         ensure (st_uid st = dx_uid x) (''refusing to remove disposable path owned by another user: '' @ resolved))))) (\<lambda>_.
       effect x (RemoveTree resolved)))))"

text \<open>The same with the path from a record, when it has one.\<close>

definition removeGovernance :: "'w dx \<Rightarrow> manager \<Rightarrow> json \<Rightarrow> ('w, unit) act" where
  "removeGovernance x m v =
    (if truthy (get v ''governanceHostRoot'')
     then andThen (look (\<lambda>_. path_arg x (get v ''governanceHostRoot''))) (\<lambda>p. removeOwnedPath x p (dm_governance m))
     else ret ())"

definition quiet :: "('w, unit) act \<Rightarrow> ('w, unit) act" where
  "quiet a = handle a (\<lambda>_. ret ())"

section \<open>Identities of sessions\<close>

definition SESSION_ID :: re where
  "SESSION_ID = (let alnum = (\<lambda>c. is_lower c \<or> is_digit c) in
    seqs ([Bol, Chr is_lower, Star (Chr (\<lambda>c. alnum c \<or> c = CHR ''-'')), lit ''-'', Plus (Chr alnum), lit ''-''] @ replicate 16 (Chr is_hex) @ [Eol]))"

definition makeSessionId :: "'w dx \<Rightarrow> manager \<Rightarrow> ('w, string) act" where
  "makeSessionId x m =
    andThen (look (\<lambda>w. Inr (dx_now36 x w))) (\<lambda>t.
    andThen (call (dx_random x 8)) (\<lambda>hex.
    ret (dm_sessionPrefix m @ ''-'' @ t @ ''-'' @ hex)))"

definition assertOwnedRecord :: "'w dx \<Rightarrow> manager \<Rightarrow> json \<Rightarrow> unit result" where
  "assertOwnedRecord x m rec =
    (let sid = text_of (get rec ''sessionId'') in
     bindE (ensure (truthy (Some rec) \<and> get rec ''version'' = Some (JNum 1) \<and> get rec ''kind'' = Some (JStr ''workspace'') \<and> re_test SESSION_ID sid)
       ''invalid disposable session state'') (\<lambda>_.
     bindE (ensure (tagged_id (dm_sessionPrefix m) 16 sid) ''disposable session namespace mismatch'') (\<lambda>_.
     bindE (ensure (get rec ''branch'' = Some (JStr (dm_branchPrefix m @ ''/'' @ sid))) ''disposable session branch identity mismatch'') (\<lambda>_.
     bindE (path_arg x (get rec ''statePath'')) (\<lambda>sp.
     bindE (ensure (sp = path_join (dm_state m) (sid @ ''.json'')) ''disposable state path escaped manager state'') (\<lambda>_.
     bindE (path_arg x (get rec ''workspacePath'')) (\<lambda>wp.
     bindE (ensure (wp = path_join (dm_sessions m) sid) ''disposable workspace path escaped manager sessions'') (\<lambda>_.
     ensure (get rec ''ownerUid'' = Some (JNum (int (dx_uid x)))) ''disposable session owner mismatch''))))))))"

text \<open>\<^verbatim>\<open>^<id>\.(?:incoming|retired)-[0-9a-f]{16}$\<close>.\<close>

definition transient_name :: "string \<Rightarrow> string \<Rightarrow> bool" where
  "transient_name sid n = list_ex (\<lambda>k. let p = sid @ ''.'' @ k @ ''-'' in startsWith n p \<and> hex_exact 16 (drop (length p) n)) [''incoming'', ''retired'']"

definition assertOwnedState :: "'w dx \<Rightarrow> manager \<Rightarrow> string \<Rightarrow> json \<Rightarrow> unit result" where
  "assertOwnedState x m expected rec =
    (let sid = text_of (get rec ''sessionId''); cwd = dx_cwd x in
     if get rec ''kind'' = Some (JStr ''refresh'') then
       bindE (ensure (get rec ''version'' = Some (JNum 1) \<and> re_test SESSION_ID sid \<and> tagged_id (dm_sessionPrefix m) 16 sid
         \<and> get rec ''ownerUid'' = Some (JNum (int (dx_uid x)))) ''invalid disposable refresh state'') (\<lambda>_.
       bindE (path_arg x (get rec ''statePath'')) (\<lambda>sp.
       bindE (ensure (path_dirname sp = path_resolve cwd (dm_state m) \<and> startsWith (path_basename sp) (sid @ ''.refresh-'')) ''disposable refresh state escaped manager state'') (\<lambda>_.
       bindE (ensure (sp = path_resolve cwd expected) ''disposable refresh state identity mismatch'') (\<lambda>_.
       bindE (path_arg x (get rec ''workspacePath'')) (\<lambda>wp.
       ensure (isWithin cwd wp (path_resolve cwd (dm_sessions m)) \<and> transient_name sid (path_basename wp)) ''disposable refresh path escaped manager sessions'')))))
     else
       bindE (path_arg x (get rec ''statePath'')) (\<lambda>sp.
       bindE (ensure (sp = path_resolve cwd expected) ''disposable state identity mismatch'') (\<lambda>_.
       assertOwnedRecord x m rec)))"

definition isStale :: "'w dx \<Rightarrow> 'w \<Rightarrow> int \<Rightarrow> int \<Rightarrow> json \<Rightarrow> bool" where
  "isStale x w now staleAfterMs rec =
    (let stamp = (if truthy (get rec ''heartbeatAt'') then text_of (get rec ''heartbeatAt'') else if truthy (get rec ''createdAt'') then text_of (get rec ''createdAt'') else []) in
     case dx_parse_date x stamp of
       None \<Rightarrow> False
     | Some heartbeat \<Rightarrow> now - heartbeat > staleAfterMs \<and> \<not> (case get rec ''pid'' of Some (JNum p) \<Rightarrow> 0 < p \<and> dx_alive x w p | _ \<Rightarrow> False))"

definition readRecord :: "'w dx \<Rightarrow> manager \<Rightarrow> 'w \<Rightarrow> string \<Rightarrow> json result" where
  "readRecord x m w sessionId =
    (let p = path_join (dm_state m) (sessionId @ ''.json'') in
     bindE (ensure (tagged_id (dm_sessionPrefix m) 16 sessionId) (''invalid session id: '' @ sessionId)) (\<lambda>_.
     bindE (ensure (dx_exists x w p) (''unknown disposable session: '' @ sessionId)) (\<lambda>_.
     bindE (dx_read x w p) (\<lambda>t.
     case JSON_parse t of
       None \<Rightarrow> throw ''Unexpected token in JSON''
     | Some rec \<Rightarrow> if get rec ''sessionId'' = Some (JStr sessionId) then Inr rec else throw (''session state identity mismatch: '' @ sessionId)))))"

definition ownedRecord :: "'w dx \<Rightarrow> manager \<Rightarrow> string \<Rightarrow> ('w, json) act" where
  "ownedRecord x m sessionId = look (\<lambda>w. bindE (readRecord x m w sessionId) (\<lambda>rec. bindE (assertOwnedRecord x m rec) (\<lambda>_. Inr rec)))"

section \<open>Trees\<close>

fun walkNoSymlinks :: "'w dx \<Rightarrow> 'w \<Rightarrow> nat \<Rightarrow> string \<Rightarrow> unit result" where
  "walkNoSymlinks x w 0 target = throw ''Maximum call stack size exceeded''"
| "walkNoSymlinks x w (Suc n) target =
    bindE (lstat_of x w target) (\<lambda>st.
    if isSymbolicLink st then throw (''source contains a symlink: '' @ target)
    else if \<not> BrokerWorld.isDirectory st then Inr ()
    else bindE (dx_readdir x w target) (\<lambda>es. forE (\<lambda>e. walkNoSymlinks x w n (path_join target (fst e))) es))"

text \<open>\<open>mode\<close> is what a file gets by its path and its old mode.\<close>

fun restrict :: "'w dx \<Rightarrow> (string \<Rightarrow> nat \<Rightarrow> nat) \<Rightarrow> (string \<Rightarrow> string) \<Rightarrow> string \<Rightarrow> nat \<Rightarrow> string \<Rightarrow> ('w, unit) act" where
  "restrict x mode not_dir not_file 0 target = fail ''Maximum call stack size exceeded''"
| "restrict x mode not_dir not_file (Suc n) target =
    andThen (look (\<lambda>w. lstat_of x w target)) (\<lambda>st.
    andThen (guard (BrokerWorld.isDirectory st \<and> \<not> isSymbolicLink st) (not_dir target)) (\<lambda>_.
    andThen (effect x (Chmod target 448)) (\<lambda>_.
    andThen (look (\<lambda>w. dx_readdir x w target)) (\<lambda>es.
    forA (\<lambda>e. let full = path_join target (fst e) in
      if snd e = ''directory'' then restrict x mode not_dir not_file n full
      else if snd e = ''file'' then andThen (look (\<lambda>w. lstat_of x w full)) (\<lambda>fst. effect x (Chmod full (mode full (st_mode fst))))
      else fail (not_file @ full)) es))))"

definition file_mode :: "string \<Rightarrow> nat \<Rightarrow> nat" where
  "file_mode full old =
    (if endsWith full ''.githooks/pre-commit'' \<or> endsWith full ''scripts/pre-commit-policy.mjs'' then 365 else if mode_has old 73 then 448 else 384)"

definition restrictTree :: "'w dx \<Rightarrow> string \<Rightarrow> ('w, unit) act" where
  "restrictTree x target = restrict x file_mode (\<lambda>t. ''workspace is not a real directory: '' @ t) ''workspace contains unsupported filesystem entry: '' (dx_stack x) target"

definition restrictGovernanceTree :: "'w dx \<Rightarrow> string \<Rightarrow> ('w, unit) act" where
  "restrictGovernanceTree x target =
    restrict x (\<lambda>_ _. 365) (\<lambda>_. ''external governance root is not a real directory'') ''external governance contains unsupported entry: '' (dx_stack x) target"

section \<open>Preparing a clone\<close>

definition hasRuntimeDirectory :: "string \<Rightarrow> bool" where
  "hasRuntimeDirectory p = list_ex (\<lambda>part. lower part = ''runtime'') (butlast (split_on slash p))"

definition check_tracked :: "'w dx \<Rightarrow> manager \<Rightarrow> string \<Rightarrow> string \<Rightarrow> ('w, unit) act" where
  "check_tracked x m wp p =
    andThen (guard (pd_allowed (classifyPolicyPath p) \<or> p \<in> set (dm_allowed m)) (''source contains forbidden tracked path: '' @ p)) (\<lambda>_.
    if \<not> hasRuntimeDirectory p then ret ()
    else andThen (dm_gitStatus x m [''check-ignore'', ''--no-index'', ''--quiet'', ''--'', p] wp) (\<lambda>ignored.
      andThen (guard (p_status ignored \<noteq> Some 0) (''source contains repository-ignored tracked runtime path: '' @ p)) (\<lambda>_.
      guard (p_status ignored = Some 1) (''source ignored-state verification failed for tracked runtime path: '' @ p))))"

definition validateWorkspaceContents :: "'w dx \<Rightarrow> manager \<Rightarrow> string \<Rightarrow> ('w, unit) act" where
  "validateWorkspaceContents x m wp =
    andThen (dm_git x m [''ls-files'', ''-z''] wp) (\<lambda>out.
    andThen (forA (check_tracked x m wp) (nonempty (split_on nul out))) (\<lambda>_.
    andThen (look (\<lambda>w. walkNoSymlinks x w (dx_stack x) wp)) (\<lambda>_.
    andThen (dm_git x m [''status'', ''--porcelain'', ''--ignored'', ''--untracked-files=all''] wp) (\<lambda>st.
    guard (trim st = []) (''fresh clone contains unexpected material: '' @ trim st)))))"

definition governanceHooksPath :: "manager \<Rightarrow> string" where
  "governanceHooksPath m = (if dm_external m then (if dm_hooksPath m \<noteq> [] then dm_hooksPath m else ''/bridge-governance/hooks'') else ''.githooks'')"

definition copyReviewedFile :: "'w dx \<Rightarrow> string \<Rightarrow> string \<Rightarrow> ('w, unit) act" where
  "copyReviewedFile x source target =
    andThen (guard (source \<noteq> []) ''external governance source is required'') (\<lambda>_.
    andThen (look (\<lambda>w. dx_realpath x w source)) (\<lambda>resolved.
    andThen (look (\<lambda>w. lstat_of x w resolved)) (\<lambda>st.
    andThen (guard (isFile st \<and> \<not> isSymbolicLink st) (''governance source is not a file: '' @ source)) (\<lambda>_.
    effect x (CopyFile resolved target)))))"

definition install_in_clone :: "'w dx \<Rightarrow> string \<Rightarrow> string \<times> string list \<Rightarrow> ('w, unit) act" where
  "install_in_clone x wp = (\<lambda>(source, parts).
    if source = [] then ret ()
    else
      andThen (look (\<lambda>w. dx_realpath x w source)) (\<lambda>resolved.
      andThen (look (\<lambda>w. stat_of x w resolved)) (\<lambda>st.
      andThen (guard (isFile st) (''governance source is not a file: '' @ source)) (\<lambda>_.
      andThen (effect x (MakeDir (foldl path_join wp (butlast parts)))) (\<lambda>_.
      effect x (CopyFile resolved (foldl path_join wp parts)))))))"

definition hook_parts :: "string list" where "hook_parts = [''.githooks'', ''pre-commit'']"

definition policy_parts :: "string list" where "policy_parts = [''scripts'', ''pre-commit-policy.mjs'']"

definition dm_installGovernance :: "'w dx \<Rightarrow> manager \<Rightarrow> string \<Rightarrow> string \<Rightarrow> ('w, json) act" where
  "dm_installGovernance x m wp sessionId =
    (if \<not> dm_external m
     then andThen (forA (install_in_clone x wp) [(dm_hookFile m, hook_parts), (dm_policyFile m, policy_parts)]) (\<lambda>_. ret (JObj []))
     else
       andThen (guard (re_test SESSION_ID sessionId) ''external governance session identity is invalid'') (\<lambda>_.
       andThen (call (dx_random x 8)) (\<lambda>hex.
       let root = path_join (dm_governance m) (sessionId @ ''-'' @ hex) in
       andThen (effect x (MakeDir (path_join root ''hooks''))) (\<lambda>_.
       andThen (copyReviewedFile x (dm_hookFile m) (path_join (path_join root ''hooks'') ''pre-commit'')) (\<lambda>_.
       andThen (copyReviewedFile x (dm_policyFile m) (path_join root ''pre-commit-policy.mjs'')) (\<lambda>_.
       andThen (restrictGovernanceTree x root) (\<lambda>_.
       ret (JObj [(''governanceHostRoot'', JStr root)]))))))))"

definition real_file :: "'w dx \<Rightarrow> 'w \<Rightarrow> string \<Rightarrow> string \<Rightarrow> unit result" where
  "real_file x w p msg = bindE (stat_of x w p) (\<lambda>st. bindE (if isFile st then lstat_of x w p else Inr st) (\<lambda>l. ensure (isFile st \<and> \<not> isSymbolicLink l) msg))"

definition same_file :: "'w dx \<Rightarrow> 'w \<Rightarrow> string \<Rightarrow> string \<Rightarrow> string \<Rightarrow> unit result" where
  "same_file x w target source msg =
    (if source = [] then Inr ()
     else bindE (dx_read x w target) (\<lambda>a. bindE (dx_read x w source) (\<lambda>b. ensure (dx_sha256 x a = dx_sha256 x b) msg)))"

definition check_governance :: "'w dx \<Rightarrow> manager \<Rightarrow> 'w \<Rightarrow> string \<Rightarrow> json option \<Rightarrow> unit result" where
  "check_governance x m w wp hostRoot =
    (let hook = foldl path_join wp hook_parts; policy = foldl path_join wp policy_parts in
     if dm_external m then
       (case hostRoot of
          Some (JStr g) \<Rightarrow>
            bindE (ensure (g \<noteq> [] \<and> isWithin (dx_cwd x) g (dm_governance m)) ''external governance path escaped manager root'') (\<lambda>_.
            forE (\<lambda>(target, source). bindE (real_file x w target ''external governance file missing or symlinked'') (\<lambda>_.
              same_file x w target source ''external governance file does not match reviewed source''))
              [(path_join (path_join g ''hooks'') ''pre-commit'', dm_hookFile m), (path_join g ''pre-commit-policy.mjs'', dm_policyFile m)])
        | _ \<Rightarrow> throw ''external governance path escaped manager root'')
     else
       bindE (real_file x w hook ''governance file missing or symlinked: .githooks/pre-commit'') (\<lambda>_.
       bindE (real_file x w policy ''governance file missing or symlinked: scripts/pre-commit-policy.mjs'') (\<lambda>_.
       bindE (same_file x w hook (dm_hookFile m) ''installed hook does not match reviewed hook'') (\<lambda>_.
       same_file x w policy (dm_policyFile m) ''installed policy does not match reviewed policy''))))"

definition validatePreparedWorkspace :: "'w dx \<Rightarrow> manager \<Rightarrow> string \<Rightarrow> string \<Rightarrow> json option \<Rightarrow> ('w, unit) act" where
  "validatePreparedWorkspace x m wp branch hostRoot =
    andThen (dm_git x m [''config'', ''--local'', ''--get'', ''core.hooksPath''] wp) (\<lambda>hooks.
    andThen (guard (trim hooks = governanceHooksPath m) (''core.hooksPath was not fixed to '' @ governanceHooksPath m @ '': '' @ trim hooks)) (\<lambda>_.
    andThen (dm_git x m [''branch'', ''--show-current''] wp) (\<lambda>current.
    andThen (guard (trim current = branch) (''session branch mismatch: '' @ trim current)) (\<lambda>_.
    andThen (dm_git x m [''rev-parse'', ''--is-shallow-repository''] wp) (\<lambda>shallow.
    andThen (guard (trim shallow = ''false'') ''disposable clone is shallow'') (\<lambda>_.
    andThen (dm_git x m [''config'', ''--get'', ''remote.'' @ dm_remoteName m @ ''.url''] wp) (\<lambda>remote.
    andThen (guard (CHR ''@'' \<notin> set (trim remote)) ''source remote contains unexpected credential material'') (\<lambda>_.
    look (\<lambda>w. check_governance x m w wp hostRoot)))))))))"

text \<open>What follows the installation of the governance files.\<close>

definition dm_prepare :: "'w dx \<Rightarrow> manager \<Rightarrow> string \<Rightarrow> string \<Rightarrow> json \<Rightarrow> ('w, unit) act" where
  "dm_prepare x m wp branch preparation =
    andThen (case dm_identity m of None \<Rightarrow> ret ()
      | Some (name, email) \<Rightarrow> andThen (dm_git x m [''config'', ''--local'', ''user.name'', name] wp) (\<lambda>_. andThen (dm_git x m [''config'', ''--local'', ''user.email'', email] wp) (\<lambda>_. ret ()))) (\<lambda>_.
    andThen (dm_git x m [''config'', ''--local'', ''core.hooksPath'', governanceHooksPath m] wp) (\<lambda>_.
    andThen (dm_git x m [''switch'', ''--create'', branch] wp) (\<lambda>_.
    andThen (validatePreparedWorkspace x m wp branch (get preparation ''governanceHostRoot'')) (\<lambda>_.
    restrictTree x wp))))"

definition dm_undo :: "'w dx \<Rightarrow> manager \<Rightarrow> string \<Rightarrow> json \<Rightarrow> error \<Rightarrow> ('w, 'a) act" where
  "dm_undo x m wp preparation e =
    andThen (removeOwnedPath x wp (dm_sessions m)) (\<lambda>_. andThen (removeGovernance x m preparation) (\<lambda>_. fail (message e)))"

definition materialized :: "json \<Rightarrow> json" where
  "materialized v = (if truthy (Some v) then JObj (spread v) else JObj [])"

definition dm_clone :: "'w dx \<Rightarrow> manager \<Rightarrow> string \<Rightarrow> string \<Rightarrow> string \<Rightarrow> string \<Rightarrow> ('w, json) act" where
  "dm_clone x m source wp branch sessionId =
    (if dm_materializes m
     then andThen (call (dx_materialize x source (dm_remoteName m) wp branch sessionId)) (\<lambda>r. case r of Inr v \<Rightarrow> ret (materialized v) | Inl e \<Rightarrow> fail (message e))
     else andThen (dm_git x m [''clone'', ''--no-local'', ''--no-hardlinks'', ''--origin'', dm_remoteName m, source, wp] (dm_root m)) (\<lambda>_. ret (JObj [])))"

definition cloneAndPrepare :: "'w dx \<Rightarrow> manager \<Rightarrow> string \<Rightarrow> string \<Rightarrow> string \<Rightarrow> ('w, json) act" where
  "cloneAndPrepare x m wp branch sessionId =
    (case dm_source m of
       None \<Rightarrow> fail ''disposable workspace source is required for clone''
     | Some source \<Rightarrow>
         andThen (look (\<lambda>w. ensure (\<not> dx_exists x w wp) (''workspace destination already exists: '' @ wp))) (\<lambda>_.
         andThen (dm_clone x m source wp branch sessionId) (\<lambda>preparation.
         andThen (tried (andThen (validateWorkspaceContents x m wp) (\<lambda>_. dm_installGovernance x m wp sessionId))) (\<lambda>r.
         case r of
           Inl e \<Rightarrow> dm_undo x m wp preparation e
         | Inr governance \<Rightarrow>
             (let prepared = put_fields (spread governance) preparation in
              andThen (tried (dm_prepare x m wp branch prepared)) (\<lambda>q. case q of Inl e \<Rightarrow> dm_undo x m wp prepared e | Inr _ \<Rightarrow> ret prepared))))))"

section \<open>Operations\<close>

definition reapSessionTransients :: "'w dx \<Rightarrow> manager \<Rightarrow> string \<Rightarrow> ('w, unit) act" where
  "reapSessionTransients x m sessionId =
    (if \<not> re_test SESSION_ID sessionId then ret ()
     else
       andThen (look (\<lambda>w. dx_readdir x w (dm_sessions m))) (\<lambda>es.
       forA (\<lambda>e. if snd e = ''directory'' \<and> transient_name sessionId (fst e) then removeOwnedPath x (path_join (dm_sessions m) (fst e)) (dm_sessions m) else ret ()) es))"

text \<open>The state file of an entry, when it parses and is this manager's.\<close>

definition ownedState :: "'w dx \<Rightarrow> manager \<Rightarrow> 'w \<Rightarrow> string \<Rightarrow> json option" where
  "ownedState x m w name =
    (let p = path_join (dm_state m) name in
     case bindE (dx_read x w p) (\<lambda>t. case JSON_parse t of None \<Rightarrow> throw ''Unexpected token in JSON''
       | Some rec \<Rightarrow> bindE (assertOwnedState x m p rec) (\<lambda>_. Inr rec)) of
       Inl _ \<Rightarrow> None | Inr rec \<Rightarrow> Some rec)"

definition state_entry :: "string \<times> string \<Rightarrow> bool" where
  "state_entry e = (snd e = ''file'' \<and> endsWith (fst e) ''.json'')"

definition removeSession :: "'w dx \<Rightarrow> manager \<Rightarrow> json \<Rightarrow> string \<Rightarrow> ('w, unit) act" where
  "removeSession x m rec record_file =
    (let sid = text_of (get rec ''sessionId'') in
     andThen (look (\<lambda>_. path_arg x (get rec ''workspacePath''))) (\<lambda>wp.
     andThen (removeOwnedPath x wp (dm_sessions m)) (\<lambda>_.
     andThen (removeGovernance x m rec) (\<lambda>_.
     andThen (effect x (RemoveFile record_file)) (\<lambda>_.
     effect x (RemoveFile (path_join (dm_state m) (sid @ ''.published.json''))))))))"

fun reapEntries :: "'w dx \<Rightarrow> manager \<Rightarrow> int \<Rightarrow> (string \<times> string) list \<Rightarrow> ('w, string list) act" where
  "reapEntries x m now [] = ret []"
| "reapEntries x m now (e # es) =
    (if \<not> state_entry e then reapEntries x m now es
     else
       andThen (look (\<lambda>w. Inr (case ownedState x m w (fst e) of Some rec \<Rightarrow> if isStale x w now (dm_staleAfterMs m) rec then Some rec else None | None \<Rightarrow> None))) (\<lambda>found.
       case found of
         None \<Rightarrow> reapEntries x m now es
       | Some rec \<Rightarrow>
           andThen (removeSession x m rec (path_join (dm_state m) (fst e))) (\<lambda>_.
           andThen (reapSessionTransients x m (text_of (get rec ''sessionId''))) (\<lambda>_.
           andThen (reapEntries x m now es) (\<lambda>rest.
           ret (text_of (get rec ''sessionId'') # rest))))))"

definition reapStale :: "'w dx \<Rightarrow> manager \<Rightarrow> ('w, string list) act" where
  "reapStale x m =
    andThen (look (\<lambda>w. Inr (dx_now x w))) (\<lambda>now.
    andThen (look (\<lambda>w. dx_readdir x w (dm_state m))) (\<lambda>es. reapEntries x m now es))"

fun destroyEntries :: "'w dx \<Rightarrow> manager \<Rightarrow> (string \<times> string) list \<Rightarrow> ('w, string list) act" where
  "destroyEntries x m [] = ret []"
| "destroyEntries x m (e # es) =
    (if \<not> state_entry e then destroyEntries x m es
     else
       andThen (handle
         (andThen (look (\<lambda>w. case ownedState x m w (fst e) of Some rec \<Rightarrow> Inr rec | None \<Rightarrow> throw ''invalid state'')) (\<lambda>rec.
          andThen (look (\<lambda>_. path_arg x (get rec ''statePath''))) (\<lambda>sp.
          andThen (removeSession x m rec sp) (\<lambda>_.
          andThen (reapSessionTransients x m (text_of (get rec ''sessionId''))) (\<lambda>_.
          ret [text_of (get rec ''sessionId'')])))))
         (\<lambda>_. ret [])) (\<lambda>a.
       andThen (destroyEntries x m es) (\<lambda>rest. ret (a @ rest))))"

definition destroyAll :: "'w dx \<Rightarrow> manager \<Rightarrow> ('w, string list) act" where
  "destroyAll x m = andThen (look (\<lambda>w. dx_readdir x w (dm_state m))) (\<lambda>es. destroyEntries x m es)"

definition destroySession :: "'w dx \<Rightarrow> manager \<Rightarrow> string \<Rightarrow> ('w, json) act" where
  "destroySession x m sessionId =
    andThen (ownedRecord x m sessionId) (\<lambda>rec.
    andThen (look (\<lambda>_. path_arg x (get rec ''statePath''))) (\<lambda>sp.
    andThen (removeSession x m rec sp) (\<lambda>_.
    ret (JObj [(''sessionId'', JStr sessionId), (''destroyed'', JBool True)]))))"

definition touchSession :: "'w dx \<Rightarrow> manager \<Rightarrow> string \<Rightarrow> ('w, json) act" where
  "touchSession x m sessionId =
    andThen (ownedRecord x m sessionId) (\<lambda>rec.
    andThen (look (\<lambda>w. Inr (put_fields [(''heartbeatAt'', JStr (dx_iso x w)), (''pid'', JNum (dx_pid x))] rec))) (\<lambda>v.
    andThen (look (\<lambda>_. path_arg x (get rec ''statePath''))) (\<lambda>sp.
    andThen (effect x (WriteOver sp v)) (\<lambda>_. ret v))))"

text \<open>What Git says of the clone; a count that is no number is written as \<^verbatim>\<open>null\<close>.\<close>

definition observedClone :: "'w dx \<Rightarrow> manager \<Rightarrow> string \<Rightarrow> ('w, (string \<times> json) list) act" where
  "observedClone x m wp =
    andThen (dm_git x m [''rev-parse'', ''HEAD''] wp) (\<lambda>head.
    andThen (dm_git x m [''rev-list'', ''--all'', ''--count''] wp) (\<lambda>count.
    andThen (dm_git x m [''config'', ''--local'', ''--get'', ''core.hooksPath''] wp) (\<lambda>hooks.
    ret [(''sourceCommit'', JStr (trim head)), (''historyCommits'', case js_integer (trim count) of Some n \<Rightarrow> JNum n | None \<Rightarrow> JNull),
      (''coreHooksPath'', JStr (trim hooks))])))"

definition createSession :: "'w dx \<Rightarrow> manager \<Rightarrow> ('w, json) act" where
  "createSession x m =
    (case dm_source m of
       None \<Rightarrow> fail ''disposable workspace source is required for create''
     | Some source \<Rightarrow>
         andThen (reapStale x m) (\<lambda>_.
         andThen (makeSessionId x m) (\<lambda>sid.
         let branch = dm_branchPrefix m @ ''/'' @ sid; wp = path_join (dm_sessions m) sid; sp = path_join (dm_state m) (sid @ ''.json'');
             undo = (\<lambda>preparation e. andThen (removeOwnedPath x wp (dm_sessions m)) (\<lambda>_. andThen (quiet (removeGovernance x m preparation)) (\<lambda>_.
               andThen (effect x (RemoveFile sp)) (\<lambda>_. fail (message e))))) in
         andThen (look (\<lambda>w. Inr (JObj [(''version'', JNum 1), (''kind'', JStr ''workspace''), (''state'', JStr ''provisioning''), (''sessionId'', JStr sid),
           (''branch'', JStr branch), (''source'', JStr source), (''workspacePath'', JStr wp), (''statePath'', JStr sp), (''ownerUid'', JNum (int (dx_uid x))),
           (''pid'', JNum (dx_pid x)), (''createdAt'', JStr (dx_iso x w)), (''heartbeatAt'', JStr (dx_iso x w))]))) (\<lambda>rec.
         andThen (effect x (WriteNew sp rec)) (\<lambda>_.
         andThen (tried (cloneAndPrepare x m wp branch sid)) (\<lambda>r.
         case r of
           Inl e \<Rightarrow> undo (JObj []) e
         | Inr preparation \<Rightarrow>
             andThen (tried (andThen (observedClone x m wp) (\<lambda>seen.
               andThen (look (\<lambda>w. Inr (put_fields ((''state'', JStr ''active'') # seen @ [(''heartbeatAt'', JStr (dx_iso x w))]) (put_fields (spread preparation) rec)))) (\<lambda>prepared.
               andThen (effect x (WriteOver sp prepared)) (\<lambda>_. ret prepared))))) (\<lambda>q.
             case q of Inl e \<Rightarrow> undo preparation e | Inr prepared \<Rightarrow> ret prepared)))))))"

text \<open>The governance directory of the new clone replaces an old one.\<close>

definition other_governance :: "json \<Rightarrow> json \<Rightarrow> bool" where
  "other_governance old v = (truthy (get old ''governanceHostRoot'') \<and> get v ''governanceHostRoot'' \<noteq> get old ''governanceHostRoot'')"

definition refreshSession :: "'w dx \<Rightarrow> manager \<Rightarrow> string \<Rightarrow> ('w, json) act" where
  "refreshSession x m sessionId =
    andThen (ownedRecord x m sessionId) (\<lambda>current.
    andThen (call (dx_random x 8)) (\<lambda>h1. andThen (call (dx_random x 8)) (\<lambda>h2. andThen (call (dx_random x 8)) (\<lambda>h3.
    andThen (look (\<lambda>_. path_arg x (get current ''statePath''))) (\<lambda>sp.
    andThen (look (\<lambda>_. path_arg x (get current ''workspacePath''))) (\<lambda>wp.
    let incoming = path_join (dm_sessions m) (sessionId @ ''.incoming-'' @ h1);
        retired = path_join (dm_sessions m) (sessionId @ ''.retired-'' @ h2);
        refreshState = path_join (dm_state m) (sessionId @ ''.refresh-'' @ h3 @ ''.json'');
        undo = (\<lambda>preparation e.
          andThen (removeOwnedPath x incoming (dm_sessions m)) (\<lambda>_.
          andThen (if other_governance preparation current then quiet (removeGovernance x m preparation) else ret ()) (\<lambda>_.
          andThen (look (\<lambda>w. Inr (dx_exists x w retired \<and> \<not> dx_exists x w wp))) (\<lambda>back.
          andThen (if back then effect x (RenamePath retired wp) else ret ()) (\<lambda>_.
          andThen (effect x (RemoveFile refreshState)) (\<lambda>_.
          andThen (effect x (WriteOver sp current)) (\<lambda>_.
          fail (message e)))))))) in
    andThen (look (\<lambda>w. Inr (put_fields [(''state'', JStr ''refreshing''), (''pid'', JNum (dx_pid x)), (''heartbeatAt'', JStr (dx_iso x w))] current))) (\<lambda>refreshing.
    andThen (effect x (WriteOver sp refreshing)) (\<lambda>_.
    andThen (look (\<lambda>w. Inr (JObj [(''version'', JNum 1), (''kind'', JStr ''refresh''), (''sessionId'', JStr sessionId), (''workspacePath'', JStr incoming),
      (''statePath'', JStr refreshState), (''ownerUid'', JNum (int (dx_uid x))), (''pid'', JNum (dx_pid x)), (''createdAt'', JStr (dx_iso x w)), (''heartbeatAt'', JStr (dx_iso x w))]))) (\<lambda>note.
    andThen (effect x (WriteNew refreshState note)) (\<lambda>_.
    andThen (tried (cloneAndPrepare x m incoming (text_of (get current ''branch'')) sessionId)) (\<lambda>r.
    case r of
      Inl e \<Rightarrow> undo (JObj []) e
    | Inr preparation \<Rightarrow>
        andThen (tried
          (andThen (effect x (RenamePath wp retired)) (\<lambda>_.
           andThen (effect x (RenamePath incoming wp)) (\<lambda>_.
           andThen (removeOwnedPath x retired (dm_sessions m)) (\<lambda>_.
           andThen (if other_governance current preparation then removeGovernance x m current else ret ()) (\<lambda>_.
           andThen (effect x (RemoveFile refreshState)) (\<lambda>_.
           andThen (observedClone x m wp) (\<lambda>seen.
           andThen (look (\<lambda>w. Inr (put_fields ([(''state'', JStr ''active''), (''pid'', JNum (dx_pid x))] @ seen @ [(''refreshedAt'', JStr (dx_iso x w)), (''heartbeatAt'', JStr (dx_iso x w))])
             (put_fields (spread preparation) current)))) (\<lambda>refreshed.
           andThen (effect x (WriteOver sp refreshed)) (\<lambda>_. ret refreshed)))))))))) (\<lambda>q.
        case q of Inl e \<Rightarrow> undo preparation e | Inr refreshed \<Rightarrow> ret refreshed))))))))))))"

section \<open>The constructor\<close>

definition FORBIDDEN_ROOTS :: "string list" where "FORBIDDEN_ROOTS = [''/Volumes'', ''/volume1/docker'']"

definition overlaps :: "'w dx \<Rightarrow> string \<Rightarrow> string \<Rightarrow> bool" where
  "overlaps x a b = (isWithin (dx_cwd x) a b \<or> isWithin (dx_cwd x) b a)"

definition protected_overlap :: "'w dx \<Rightarrow> string list \<Rightarrow> string \<Rightarrow> (string \<Rightarrow> string) \<Rightarrow> unit result" where
  "protected_overlap x protectedPaths p label =
    forE (\<lambda>q. let candidate = path_resolve (dx_cwd x) q in ensure (\<not> overlaps x p candidate) (label candidate)) protectedPaths"

definition ssh_source :: re where
  "ssh_source = alts [seqs [Bol, Plus (Chr (\<lambda>c. c \<noteq> slash)), lit ''@'', Plus (Chr (\<lambda>c. c \<noteq> slash)), lit '':''], seqs [Bol, lit_i ''ssh://'']]"

definition url_source :: re where
  "url_source = seqs [Bol, Chr (ci is_lower), Star (Chr (ci (\<lambda>c. is_lower c \<or> is_digit c \<or> c \<in> set ''+.-''))), lit ''://'']"

definition dm_local_source :: "'w dx \<Rightarrow> 'w \<Rightarrow> string list \<Rightarrow> string \<Rightarrow> string result" where
  "dm_local_source x w protectedPaths p =
    bindE (dx_realpath x w p) (\<lambda>real.
    bindE (ensure (\<not> isWithin (dx_cwd x) real (dx_home x)) ''disposable workspace source may not be inside the normal user's home'') (\<lambda>_.
    bindE (protected_overlap x protectedPaths real (\<lambda>_. ''source overlaps protected checkout: '' @ real)) (\<lambda>_. Inr real)))"

definition dm_validateSource :: "'w dx \<Rightarrow> 'w \<Rightarrow> string \<Rightarrow> string list \<Rightarrow> string result" where
  "dm_validateSource x w source protectedPaths =
    (if re_test ssh_source source then throw ''SSH source URLs are not allowed for disposable workspace materialization''
     else if re_test url_source source then
       bindE (dx_url x source) (\<lambda>u.
       bindE (ensure (ur_protocol u \<in> set [''https:'', ''file:'']) (''unsupported source URL protocol: '' @ ur_protocol u)) (\<lambda>_.
       bindE (ensure (ur_username u = [] \<and> ur_password u = []) ''source URL must not contain credentials'') (\<lambda>_.
       if ur_protocol u = ''file:'' then
         bindE (ensure (ur_hostname u = [] \<or> ur_hostname u = ''localhost'') ''file source URL must be local'') (\<lambda>_.
         bindE (dm_local_source x w protectedPaths (ur_path u)) (\<lambda>_. Inr source))
       else Inr source)))
     else if \<not> is_absolute source then throw ''local disposable source must be an absolute path''
     else dm_local_source x w protectedPaths source)"

definition single_line :: "string \<Rightarrow> bool" where
  "single_line s = (s \<noteq> [] \<and> nul \<notin> set s \<and> cr \<notin> set s \<and> nl \<notin> set s)"

definition normalizeGitIdentity :: "(string \<times> string) option \<Rightarrow> (string \<times> string) option result" where
  "normalizeGitIdentity identity =
    (case identity of
       None \<Rightarrow> Inr None
     | Some (name, email) \<Rightarrow> if single_line name \<and> single_line email then Inr (Some (name, email))
         else throw ''disposable Git identity must contain non-empty single-line name and email'')"

definition assertNoSymlinkAncestors :: "'w dx \<Rightarrow> 'w \<Rightarrow> string \<Rightarrow> unit result" where
  "assertNoSymlinkAncestors x w target =
    forE (\<lambda>p. if \<not> dx_exists x w p then Inr ()
        else bindE (lstat_of x w p) (\<lambda>st.
          if isSymbolicLink st then ensure (dx_platform x = ''darwin'' \<and> p \<in> set [''/tmp'', ''/var'']) (''disposable workspace root has a symlink ancestor: '' @ p)
          else ensure (BrokerWorld.isDirectory st) (''disposable workspace root ancestor is not a directory: '' @ p)))
      (ancestors (path_resolve (dx_cwd x) target))"

definition assertSafeManagerRoot :: "'w dx \<Rightarrow> 'w \<Rightarrow> string \<Rightarrow> string list \<Rightarrow> bool \<Rightarrow> unit result" where
  "assertSafeManagerRoot x w root protectedPaths allowHomeRoot =
    (let cwd = dx_cwd x; resolved = path_resolve cwd root; support = foldl path_join (path_resolve cwd (dx_home x)) [''Library'', ''Application Support'', ''ChatGPT Local Bridge''];
         homeRootAllowed = (allowHomeRoot \<and> isWithin cwd resolved support \<and> resolved \<noteq> support) in
     bindE (ensure (resolved \<noteq> ''/'') ''disposable workspace root may not be a filesystem root'') (\<lambda>_.
     bindE (ensure (\<not> overlaps x resolved (dx_home x) \<or> homeRootAllowed) ''disposable workspace root may not be inside or above the normal user's home'') (\<lambda>_.
     bindE (forE (\<lambda>f. ensure (\<not> overlaps x resolved f) (''disposable workspace root overlaps '' @ f)) FORBIDDEN_ROOTS) (\<lambda>_.
     bindE (protected_overlap x protectedPaths resolved (\<lambda>q. ''disposable workspace root overlaps protected checkout: '' @ q)) (\<lambda>_.
     assertNoSymlinkAncestors x w resolved)))))"

definition ensureRoot :: "'w dx \<Rightarrow> string \<Rightarrow> ('w, unit) act" where
  "ensureRoot x directory =
    andThen (effect x (MakeDir directory)) (\<lambda>_.
    andThen (look (\<lambda>w. lstat_of x w directory)) (\<lambda>st.
    andThen (guard (BrokerWorld.isDirectory st \<and> \<not> isSymbolicLink st) (''disposable manager path is not a real directory: '' @ directory)) (\<lambda>_.
    andThen (effect x (Chmod directory 448)) (\<lambda>_.
    guard (st_uid st = dx_uid x) (''disposable manager path is not owned by the current user: '' @ directory)))))"

definition ensureRoots :: "'w dx \<Rightarrow> manager \<Rightarrow> ('w, unit) act" where
  "ensureRoots x m = forA (ensureRoot x) [dm_root m, dm_sessions m, dm_state m, dm_gitHome m, path_join (dm_gitHome m) ''config'', dm_governance m]"

definition prefix_ok :: "string \<Rightarrow> bool" where
  "prefix_ok s = (s \<noteq> [] \<and> is_lower (hd s) \<and> list_all (\<lambda>c. is_lower c \<or> is_digit c \<or> c = CHR ''-'') s)"

definition tracked_ok :: "string \<Rightarrow> bool" where
  "tracked_ok s = (s \<noteq> [] \<and> \<not> is_absolute s \<and> \<not> str_includes s ''..'' \<and> backslash \<notin> set s \<and> nul \<notin> set s)"

text \<open>The options are a manager whose root, source, identity and protected paths are as given.\<close>

definition newManager :: "'w dx \<Rightarrow> manager \<Rightarrow> bool \<Rightarrow> bool \<Rightarrow> ('w, manager) act" where
  "newManager x opts allowHomeRoot readOnly =
    (let source = (case dm_source opts of Some s \<Rightarrow> s | None \<Rightarrow> []); branch = dm_branchPrefix opts in
     andThen (guard (dm_root opts \<noteq> [] \<and> is_absolute (dm_root opts)) ''disposable workspace root must be an absolute path'') (\<lambda>_.
     andThen (guard (source \<noteq> [] \<or> readOnly) ''disposable workspace source is required'') (\<lambda>_.
     andThen (guard (0 < dm_staleAfterMs opts) ''staleAfterMs must be positive'') (\<lambda>_.
     andThen (guard (prefix_ok (dm_sessionPrefix opts)) ''disposable session prefix is invalid'') (\<lambda>_.
     andThen (guard (startsWith branch ''bridge/'' \<and> prefix_ok (drop 7 branch)) ''disposable branch prefix is invalid'') (\<lambda>_.
     andThen (guard (prefix_ok (dm_remoteName opts)) ''disposable remote name is invalid'') (\<lambda>_.
     andThen (guard (list_all tracked_ok (dm_allowed opts)) ''disposable allowed tracked paths are invalid'') (\<lambda>_.
     andThen (look (\<lambda>w. if source = [] then Inr None else bindE (dm_validateSource x w source (dm_protected opts)) (\<lambda>s. Inr (Some s)))) (\<lambda>src.
     andThen (look (\<lambda>_. normalizeGitIdentity (dm_identity opts))) (\<lambda>identity.
     let m = opts\<lparr>dm_root := path_resolve (dx_cwd x) (dm_root opts), dm_source := src, dm_identity := identity,
                dm_protected := map (path_resolve (dx_cwd x)) (dm_protected opts)\<rparr> in
     andThen (look (\<lambda>w. assertSafeManagerRoot x w (dm_root m) (dm_protected m) allowHomeRoot)) (\<lambda>_.
     andThen (ensureRoots x m) (\<lambda>_.
     ret m))))))))))))"

definition governanceFiles :: "manager \<Rightarrow> json \<Rightarrow> (string \<times> string) list option" where
  "governanceFiles m rec =
    (if \<not> truthy (get rec ''governanceHostRoot'') then None
     else (let root = text_of (get rec ''governanceHostRoot'') in
       Some [(''hostRoot'', root), (''hooks'', path_join root ''hooks''), (''hookFile'', path_join (path_join root ''hooks'') ''pre-commit''),
         (''policyFile'', path_join root ''pre-commit-policy.mjs''), (''hooksPath'', governanceHooksPath m),
         (''policyPath'', if dm_policyPath m \<noteq> [] then dm_policyPath m else ''/bridge-governance/pre-commit-policy.mjs'')]))"

end
