(* ===== verification/DisposableSafety.thy ===== *)
theory DisposableSafety
  imports Disposable
begin

text \<open>
  What the manager of disposable workspaces promises (\<^verbatim>\<open>scripts/disposable-workspace.mjs\<close>): it touches nothing but its
  own directories, reaps only sessions that are stale, and answers with a new session only after every check.
\<close>

section \<open>The manager's own directories\<close>

text \<open>Strictly below the directory \<open>d\<close> of the manager's root.\<close>

definition under :: "manager \<Rightarrow> string \<Rightarrow> string \<Rightarrow> bool" where
  "under m d p = (\<exists>cs. cs \<noteq> [] \<and> list_all plain_comp cs \<and> p = abs_path (comps_of (dm_root m) @ d # cs))"

abbreviation owned_dir :: "manager \<Rightarrow> string \<Rightarrow> bool" where
  "owned_dir m p \<equiv> under m ''sessions'' p \<or> under m ''governance'' p"

text \<open>What the manager may do at \<open>w\<close>.\<close>

fun confined :: "'w dx \<Rightarrow> manager \<Rightarrow> 'w \<Rightarrow> fsop \<Rightarrow> bool" where
  "confined x m w (RemoveTree p) = (owned_dir m p \<and> (\<exists>st. dx_lstat x w p = Some st \<and> BrokerWorld.isDirectory st \<and> \<not> isSymbolicLink st \<and> st_uid st = dx_uid x))"
| "confined x m w (RemoveFile p) = under m ''manager-state'' p"
| "confined x m w (RenamePath p q) = (under m ''sessions'' p \<and> under m ''sessions'' q)"
| "confined x m w (WriteNew p v) = under m ''manager-state'' p"
| "confined x m w (WriteOver p v) = under m ''manager-state'' p"
| "confined x m w (MakeDir p) = owned_dir m p"
| "confined x m w (Chmod p mode) = owned_dir m p"
| "confined x m w (CopyFile source p) = owned_dir m p"

text \<open>
  A property that every confined operation keeps, and that Git and the materializer keep when they work in the
  manager's root or on a path below its sessions.  The other laws are documented behaviour: directory entries are
  plain names, \<^verbatim>\<open>randomBytes(8)\<close> is 16 hexadecimal digits and the time is written to base 36.
\<close>

definition confining :: "'w dx \<Rightarrow> manager \<Rightarrow> ('w \<Rightarrow> bool) \<Rightarrow> bool" where
  "confining x m I =
    (dm_root m = abs_path (comps_of (dm_root m)) \<and> prefix_ok (dm_sessionPrefix m) \<and>
     (\<forall>op w. I w \<longrightarrow> confined x m w op \<longrightarrow> I (snd (dx_do x op w))) \<and>
     (\<forall>args cwd w. I w \<longrightarrow> cwd = dm_root m \<or> under m ''sessions'' cwd \<longrightarrow> I (snd (dx_git x args cwd (dm_gitEnv x m) w))) \<and>
     (\<forall>source remote wp branch sid w. I w \<longrightarrow> under m ''sessions'' wp \<longrightarrow> I (snd (dx_materialize x source remote wp branch sid w))) \<and>
     (\<forall>n w. I w \<longrightarrow> I (snd (dx_random x n w)) \<and> (n = 8 \<longrightarrow> hex_exact 16 (fst (dx_random x n w)))) \<and>
     (\<forall>w. dx_now36 x w \<noteq> [] \<and> list_all is_alnum_lower (dx_now36 x w)) \<and>
     (\<forall>w p es e. dx_readdir x w p = Inr es \<longrightarrow> e \<in> set es \<longrightarrow> plain_comp (fst e)))"

section \<open>Actions in general\<close>

lemma keeps_look_bind:
  assumes "\<And>s y. I s \<Longrightarrow> f s = Inr y \<Longrightarrow> (case g y s of (r, s', h) \<Rightarrow> I s' \<and> list_all I h)"
  shows "keeps I (andThen (look f) g)"
  unfolding keeps_def andThen_def look_def using assms by (auto split: sum.splits prod.splits)

lemma keeps_tried: "keeps I a \<Longrightarrow> keeps I (tried a)"
  by (auto simp: keeps_def tried_def split: prod.splits)

lemma keeps_quiet: "keeps I a \<Longrightarrow> keeps I (quiet a)"
  unfolding quiet_def by (auto intro: hoare_intros)

lemma runs_tried: "runs (tried a) s r s' \<longleftrightarrow> (case r of Inr v \<Rightarrow> runs a s v s' | Inl e \<Rightarrow> \<exists>h. a s = (Inl e, s', h))"
  by (auto simp: runs_def tried_def split: sum.splits prod.splits)

lemma keeps_fact:
  assumes "keeps I m" "\<And>s y s'. runs m s y s' \<Longrightarrow> C y" "\<And>y. C y \<Longrightarrow> keeps I (f y)"
  shows "keeps I (andThen m f)"
  using keeps_bind_fact [of I m C f] assms by blast

lemma keeps_guard_bind: "(b \<Longrightarrow> keeps I (f ())) \<Longrightarrow> keeps I (andThen (guard b m) f)"
  by (cases b) (auto simp: keeps_def andThen_def guard_def fail_def throw_def ret_def split: prod.splits)

section \<open>Paths\<close>

lemma plain_long: "slash \<notin> set s \<Longrightarrow> 2 < length s \<Longrightarrow> plain_comp s"
  by (auto simp: plain_comp_def)

lemma slash_classes: "\<not> is_hex slash" "\<not> is_alnum_lower slash" "\<not> is_lower slash" "\<not> is_digit slash"
  by code_simp+

lemma hex_no_slash: "list_all is_hex s \<Longrightarrow> slash \<notin> set s"
  using slash_classes by (metis list_all_iff)

lemma alnum_no_slash: "list_all is_alnum_lower s \<Longrightarrow> slash \<notin> set s"
  using slash_classes by (metis list_all_iff)

lemma prefix_no_slash:
  assumes "prefix_ok s"
  shows "slash \<notin> set s"
proof
  assume "slash \<in> set s"
  then have "is_lower slash \<or> is_digit slash \<or> slash = CHR ''-''" using assms by (auto simp: prefix_ok_def list_all_iff)
  then show False using slash_classes by simp
qed

lemma session_no_slash:
  assumes "prefix_ok p" "tagged_id p 16 s"
  shows "slash \<notin> set s" "2 < length s"
proof -
  obtain a h where s: "s = p @ ''-'' @ a @ ''-'' @ h" "list_all is_alnum_lower a" "length h = 16" "list_all is_hex h"
    using assms(2) by (auto simp: tagged_id_iff)
  show "2 < length s" using s(1,3) by simp
  show "slash \<notin> set s" using s prefix_no_slash [OF assms(1)] alnum_no_slash [OF s(2)] hex_no_slash [OF s(4)] by simp
qed

lemma comps_plain: "list_all plain_comp (comps_of p)"
  unfolding comps_of_def by (rule norm_comps_plain) (auto dest: split_on_sep_free)

lemma plain_dirs: "plain_comp ''sessions''" "plain_comp ''governance''" "plain_comp ''manager-state''"
  by (simp_all add: plain_comp_def)

lemma under_join:
  assumes "under m d p" "plain_comp n" "plain_comp d"
  shows "under m d (path_join p n)"
proof -
  obtain cs where cs: "cs \<noteq> []" "list_all plain_comp cs" "p = abs_path (comps_of (dm_root m) @ d # cs)" using assms(1) by (auto simp: under_def)
  have "path_join p n = abs_path (comps_of (dm_root m) @ d # cs @ [n])"
    using cs assms(2,3) comps_plain by (simp add: join_abs_path)
  then show ?thesis unfolding under_def using cs assms(2) by (intro exI [of _ "cs @ [n]"]) simp
qed

lemma under_start:
  assumes "dm_root m = abs_path (comps_of (dm_root m))" "plain_comp d" "plain_comp n"
  shows "under m d (path_join (path_join (dm_root m) d) n)"
proof -
  have "path_join (path_join (dm_root m) d) n = abs_path (comps_of (dm_root m) @ d # [n])"
    using assms(2,3) comps_plain by (subst assms(1)) (simp add: join_abs_path)
  then show ?thesis unfolding under_def using assms(3) by (intro exI [of _ "[n]"]) simp
qed

lemma under_within:
  assumes root: "dm_root m = abs_path (comps_of (dm_root m))" and "plain_comp d"
    and w: "isWithin cwd (path_resolve cwd p) (path_resolve cwd (path_join (dm_root m) d))" "path_resolve cwd p \<noteq> path_resolve cwd (path_join (dm_root m) d)"
  shows "under m d (path_resolve cwd p)"
proof -
  have d: "path_join (dm_root m) d = abs_path (comps_of (dm_root m) @ [d])" using assms(2) comps_plain by (subst root) (simp add: join_abs_path)
  have "resolve_comps cwd (path_join (dm_root m) d) = comps_of (dm_root m) @ [d]" unfolding d using assms(2) comps_plain by simp
  then obtain cs where cs: "resolve_comps cwd p = (comps_of (dm_root m) @ [d]) @ cs" "cs \<noteq> []"
    using w by (auto simp: isWithin_prefix path_resolve_eq_iff elim!: prefixE)
  moreover have "list_all plain_comp cs" using resolve_comps_plain [of cwd p] unfolding cs(1) by simp
  ultimately show ?thesis unfolding under_def path_resolve_def by (intro exI [of _ cs]) simp
qed

section \<open>Steps\<close>

lemma effect_at:
  assumes "confining x m I" "I w" "confined x m w op"
  shows "case effect x op w of (r, s', h) \<Rightarrow> I s' \<and> list_all I h"
proof -
  have "I (snd (dx_do x op w))" using assms by (simp add: confining_def)
  then show ?thesis by (cases "dx_do x op w") (auto simp: effect_def andThen_def call_def ret_def fail_def split: sum.splits)
qed

lemma keeps_effect: "confining x m I \<Longrightarrow> (\<And>w. confined x m w op) \<Longrightarrow> keeps I (effect x op)"
  unfolding keeps_def by (intro allI impI effect_at)

lemma keeps_git: "confining x m I \<Longrightarrow> cwd = dm_root m \<or> under m ''sessions'' cwd \<Longrightarrow> keeps I (dm_gitStatus x m args cwd)"
  unfolding keeps_def dm_gitStatus_def call_def confining_def by (auto split: prod.splits) (metis snd_conv)+

lemma keeps_dm_git: "confining x m I \<Longrightarrow> cwd = dm_root m \<or> under m ''sessions'' cwd \<Longrightarrow> keeps I (dm_git x m args cwd)"
  unfolding dm_git_def by (intro hoare_intros keeps_git)

lemma keeps_random: "confining x m I \<Longrightarrow> keeps I (call (dx_random x n))"
  unfolding keeps_def call_def confining_def by (auto split: prod.splits) (metis snd_conv)+

lemma random_hex: "confining x m I \<Longrightarrow> I s \<Longrightarrow> runs (call (dx_random x 8)) s h s' \<Longrightarrow> hex_exact 16 h"
  unfolding confining_def by (auto simp: run_simps) (metis fst_conv)

lemma keeps_remove:
  assumes c: "confining x m I" and parent: "parent = dm_sessions m \<or> parent = dm_governance m"
  shows "keeps I (removeOwnedPath x target parent)"
proof -
  let ?p = "path_resolve (dx_cwd x) target" and ?q = "path_resolve (dx_cwd x) parent"
  have root: "dm_root m = abs_path (comps_of (dm_root m))" using c by (simp add: confining_def)
  define X where "X = andThen (look (\<lambda>w. bindE (lstat_of x w ?p) (\<lambda>st.
       bindE (ensure (BrokerWorld.isDirectory st \<and> \<not> isSymbolicLink st) (''refusing to remove non-directory disposable path: '' @ ?p)) (\<lambda>_.
       ensure (st_uid st = dx_uid x) (''refusing to remove disposable path owned by another user: '' @ ?p))))) (\<lambda>_. effect x (RemoveTree ?p))"
  have "keeps I X" if "isWithin (dx_cwd x) ?p ?q \<and> ?p \<noteq> ?q"
  proof -
    have o: "owned_dir m ?p"
      using parent that under_within [OF root plain_dirs(1)] under_within [OF root plain_dirs(2)] unfolding dm_sessions_def dm_governance_def by blast
    show ?thesis unfolding X_def by (rule keeps_look_bind, rule effect_at [OF c]) (auto simp: result_simps lstat_of_def o split: option.splits)
  qed
  then show ?thesis
    unfolding removeOwnedPath_def Let_def X_def [symmetric]
    by (intro keeps_guard_bind keeps_andThen keeps_look keeps_if)
qed

lemma keeps_governance: "confining x m I \<Longrightarrow> keeps I (removeGovernance x m v)"
  unfolding removeGovernance_def by (intro hoare_intros keeps_remove [of x m I]) simp_all

section \<open>Preparing a clone\<close>

lemma keeps_restrict:
  assumes c: "confining x m I"
  shows "owned_dir m p \<Longrightarrow> keeps I (restrict x mode a b n p)"
proof (induction n arbitrary: p)
  case (Suc n)
  have j: "owned_dir m (path_join p e)" if "plain_comp e" for e using Suc.prems under_join that plain_dirs by blast
  have plain: "plain_comp (fst e)" if "dx_readdir x w q = Inr es" "e \<in> set es" for w q es e using c that unfolding confining_def by blast
  show ?case
    unfolding restrict.simps Let_def
    apply (rule keeps_andThen keeps_look)+
    apply (rule keeps_effect [OF c], use Suc.prems in simp)
    apply (rule keeps_fact [where C = "\<lambda>es. \<forall>e \<in> set es. plain_comp (fst e)"])
      apply (rule keeps_look)
     apply (use plain in \<open>auto simp: run_simps\<close>)[1]
    apply (rule keeps_forA)
    apply (intro keeps_if Suc.IH keeps_andThen keeps_look keeps_effect [OF c])
    using j by auto
qed (simp add: keeps_look)

lemma keeps_contents:
  assumes c: "confining x m I" and s: "under m ''sessions'' wp"
  shows "keeps I (validateWorkspaceContents x m wp)"
  unfolding validateWorkspaceContents_def check_tracked_def
  by (intro keeps_andThen keeps_look keeps_forA keeps_if keeps_git keeps_dm_git c) (simp_all add: s)

lemma keeps_copy: "confining x m I \<Longrightarrow> owned_dir m p \<Longrightarrow> keeps I (copyReviewedFile x source p)"
  unfolding copyReviewedFile_def by (intro keeps_andThen keeps_look keeps_effect) simp_all

lemma keeps_install_clone:
  assumes c: "confining x m I" and s: "under m ''sessions'' wp" and p: "list_all plain_comp (butlast parts)" "list_all plain_comp parts"
  shows "keeps I (install_in_clone x wp (source, parts))"
proof -
  have u: "list_all plain_comp ps \<Longrightarrow> under m ''sessions'' (foldl path_join wp ps)" for ps
    using s by (induction ps rule: rev_induct) (simp_all add: under_join plain_dirs)
  show ?thesis
    unfolding install_in_clone_def prod.case by (intro keeps_if keeps_andThen keeps_look keeps_effect [OF c]) (simp_all add: u p)
qed

lemma keeps_install:
  assumes c: "confining x m I" and s: "under m ''sessions'' wp" and sid: "slash \<notin> set sid"
  shows "keeps I (dm_installGovernance x m wp sid)"
proof -
  have parts: "list_all plain_comp hook_parts" "list_all plain_comp policy_parts" "list_all plain_comp (butlast hook_parts)" "list_all plain_comp (butlast policy_parts)"
    by (simp_all add: hook_parts_def policy_parts_def plain_comp_def)
  have root: "dm_root m = abs_path (comps_of (dm_root m))" using c by (simp add: confining_def)
  have plain: "plain_comp ''hooks''" "plain_comp ''pre-commit''" "plain_comp ''pre-commit-policy.mjs''" by (simp_all add: plain_comp_def)
  have inner: "keeps I (let root = path_join (dm_governance m) (sid @ ''-'' @ hex) in
       andThen (effect x (MakeDir (path_join root ''hooks''))) (\<lambda>_.
       andThen (copyReviewedFile x (dm_hookFile m) (path_join (path_join root ''hooks'') ''pre-commit'')) (\<lambda>_.
       andThen (copyReviewedFile x (dm_policyFile m) (path_join root ''pre-commit-policy.mjs'')) (\<lambda>_.
       andThen (restrictGovernanceTree x root) (\<lambda>_.
       ret (JObj [(''governanceHostRoot'', JStr root)]))))))" if h: "hex_exact 16 hex" for hex
  proof -
    have "plain_comp (sid @ ''-'' @ hex)" using h sid hex_no_slash by (intro plain_long) (auto simp: hex_exact_def)
    then have g: "under m ''governance'' (path_join (dm_governance m) (sid @ ''-'' @ hex))"
      unfolding dm_governance_def by (rule under_start [OF root plain_dirs(2)])
    then show ?thesis
      unfolding Let_def restrictGovernanceTree_def
      by (intro keeps_andThen keeps_look keeps_effect [OF c] keeps_copy [OF c] keeps_restrict [OF c]) (simp_all add: under_join plain plain_dirs)
  qed
  show ?thesis
    unfolding dm_installGovernance_def
    apply (rule keeps_if)
     apply (intro keeps_andThen keeps_look keeps_forA)
     apply (use keeps_install_clone [OF c s] parts in auto)[1]
    apply (rule keeps_guard_bind)
    apply (rule keeps_bind_fact [where C = "hex_exact 16", OF keeps_random [OF c]])
     apply (rule random_hex [OF c], assumption, assumption)
    apply (rule inner)
    apply assumption
    done
qed

lemma keeps_prepare:
  assumes c: "confining x m I" and s: "under m ''sessions'' wp"
  shows "keeps I (dm_prepare x m wp branch v)"
  unfolding dm_prepare_def validatePreparedWorkspace_def restrictTree_def
  by (intro keeps_andThen keeps_look keeps_dm_git [OF c] keeps_restrict [OF c]) (auto simp: s intro!: keeps_andThen keeps_look keeps_dm_git [OF c] split: option.split)

lemma keeps_clone:
  assumes c: "confining x m I" and s: "under m ''sessions'' wp"
  shows "keeps I (dm_clone x m source wp branch sid)"
proof -
  have "keeps I (call (dx_materialize x source r wp branch sid))" for r
    using c s unfolding keeps_def call_def confining_def by (auto split: prod.splits) (metis snd_conv)+
  then show ?thesis
    unfolding dm_clone_def by (intro keeps_if keeps_andThen keeps_look keeps_dm_git [OF c]) (auto simp: keeps_look split: sum.split)
qed

lemma keeps_undo: "confining x m I \<Longrightarrow> keeps I (dm_undo x m wp v e)"
  unfolding dm_undo_def by (intro keeps_andThen keeps_look keeps_governance keeps_remove [of x m I]) simp_all

lemma keeps_clone_prepare:
  assumes c: "confining x m I" and s: "under m ''sessions'' wp" and sid: "slash \<notin> set sid"
  shows "keeps I (cloneAndPrepare x m wp branch sid)"
proof (cases "dm_source m")
  case (Some source)
  show ?thesis
    unfolding cloneAndPrepare_def Some option.case
    by (intro keeps_andThen keeps_look keeps_tried keeps_clone [OF c s] keeps_contents [OF c s] keeps_install [OF c s sid])
      (auto simp: Let_def split: sum.split intro!: keeps_undo [OF c] keeps_andThen keeps_tried keeps_prepare [OF c s] keeps_look)
qed (simp add: cloneAndPrepare_def keeps_look)

section \<open>The records\<close>

lemma owned_record_paths:
  assumes c: "confining x m I" and o: "assertOwnedRecord x m rec = Inr u"
  shows "\<exists>p. path_arg x (get rec ''statePath'') = Inr p \<and> under m ''manager-state'' p"
    "\<exists>p. path_arg x (get rec ''workspacePath'') = Inr p \<and> under m ''sessions'' p"
    "slash \<notin> set (text_of (get rec ''sessionId''))"
proof -
  let ?sid = "text_of (get rec ''sessionId'')"
  have root: "dm_root m = abs_path (comps_of (dm_root m))" and p: "prefix_ok (dm_sessionPrefix m)" using c by (simp_all add: confining_def)
  have f: "tagged_id (dm_sessionPrefix m) 16 ?sid" "path_arg x (get rec ''statePath'') = Inr (path_join (dm_state m) (?sid @ ''.json''))"
    "path_arg x (get rec ''workspacePath'') = Inr (path_join (dm_sessions m) ?sid)"
    using o by (auto simp: assertOwnedRecord_def Let_def result_simps)
  note s = session_no_slash [OF p f(1)]
  show "slash \<notin> set ?sid" by (rule s(1))
  have "plain_comp (?sid @ ''.json'')" "plain_comp ?sid" using s by (auto intro: plain_long)
  then show "\<exists>p. path_arg x (get rec ''statePath'') = Inr p \<and> under m ''manager-state'' p" "\<exists>p. path_arg x (get rec ''workspacePath'') = Inr p \<and> under m ''sessions'' p"
    using f under_start [OF root] plain_dirs unfolding dm_state_def dm_sessions_def by blast+
qed

lemma resolve_under: "under m d p \<Longrightarrow> plain_comp d \<Longrightarrow> path_resolve cwd p = p"
  unfolding under_def path_resolve_def using comps_plain by (auto simp: list_all_append)

lemma owned_state_paths:
  assumes c: "confining x m I" and o: "ownedState x m w name = Some rec" and n: "plain_comp name"
  shows "slash \<notin> set (text_of (get rec ''sessionId''))" "path_arg x (get rec ''statePath'') = Inr (path_join (dm_state m) name)"
    "under m ''manager-state'' (path_join (dm_state m) name)"
proof -
  have root: "dm_root m = abs_path (comps_of (dm_root m))" and p: "prefix_ok (dm_sessionPrefix m)" using c by (simp_all add: confining_def)
  show u: "under m ''manager-state'' (path_join (dm_state m) name)" unfolding dm_state_def by (rule under_start [OF root plain_dirs(3) n])
  have a: "assertOwnedState x m (path_join (dm_state m) name) rec = Inr ()"
    using o by (auto simp: ownedState_def Let_def bindE_def split: sum.splits option.splits)
  have e: "path_resolve (dx_cwd x) (path_join (dm_state m) name) = path_join (dm_state m) name" by (rule resolve_under [OF u plain_dirs(3)])
  show "path_arg x (get rec ''statePath'') = Inr (path_join (dm_state m) name)"
    using a by (auto simp: assertOwnedState_def Let_def result_simps e split: if_splits)
  have "tagged_id (dm_sessionPrefix m) 16 (text_of (get rec ''sessionId''))"
    using a by (auto simp: assertOwnedState_def assertOwnedRecord_def Let_def result_simps split: if_splits)
  then show "slash \<notin> set (text_of (get rec ''sessionId''))" by (rule session_no_slash(1) [OF p])
qed

section \<open>Every operation\<close>

lemma state_file: "confining x m I \<Longrightarrow> slash \<notin> set n \<Longrightarrow> 2 < length n \<Longrightarrow> under m ''manager-state'' (path_join (dm_state m) n)"
  unfolding dm_state_def confining_def by (blast intro: under_start plain_dirs plain_long)

lemma session_dir: "confining x m I \<Longrightarrow> slash \<notin> set n \<Longrightarrow> 2 < length n \<Longrightarrow> under m ''sessions'' (path_join (dm_sessions m) n)"
  unfolding dm_sessions_def confining_def by (blast intro: under_start plain_dirs plain_long)

lemma keeps_remove_session:
  assumes c: "confining x m I" and "under m ''manager-state'' f" "slash \<notin> set (text_of (get rec ''sessionId''))"
  shows "keeps I (removeSession x m rec f)"
  unfolding removeSession_def Let_def
  by (intro keeps_andThen keeps_look keeps_remove [OF c] keeps_governance [OF c] keeps_effect [OF c])
    (use assms(2) state_file [OF c, of "text_of (get rec ''sessionId'') @ ''.published.json''"] assms(3) in auto)

lemma keeps_transients: "confining x m I \<Longrightarrow> keeps I (reapSessionTransients x m sid)"
  unfolding reapSessionTransients_def by (intro keeps_if keeps_andThen keeps_look keeps_forA keeps_remove [of x m I]) simp_all

lemma keeps_reap_entries:
  assumes c: "confining x m I"
  shows "\<forall>e \<in> set es. plain_comp (fst e) \<Longrightarrow> keeps I (reapEntries x m now es)"
proof (induction es)
  case (Cons e es)
  have ih: "keeps I (reapEntries x m now es)" using Cons by simp
  have n: "plain_comp (fst e)" using Cons.prems by simp
  show ?case
    unfolding reapEntries.simps
    apply (rule keeps_if [OF ih])
    apply (rule keeps_fact [where C = "\<lambda>found. \<forall>rec. found = Some rec \<longrightarrow> (\<exists>w. ownedState x m w (fst e) = Some rec)"])
      apply (rule keeps_look)
     apply (auto simp: run_simps split: option.splits if_splits)[1]
    subgoal for found
      by (cases found)
        (use owned_state_paths [OF c _ n] in \<open>auto intro!: ih keeps_andThen keeps_look keeps_remove_session [OF c] keeps_transients [OF c]\<close>)
    done
qed (simp add: keeps_look)

lemma readdir_plain: "confining x m I \<Longrightarrow> dx_readdir x w p = Inr es \<Longrightarrow> \<forall>e \<in> set es. plain_comp (fst e)"
  unfolding confining_def by blast

lemma keeps_entries:
  assumes c: "confining x m I" and "\<And>es. \<forall>e \<in> set es. plain_comp (fst e) \<Longrightarrow> keeps I (f es)"
  shows "keeps I (andThen (look (\<lambda>w. dx_readdir x w d)) f)"
  by (rule keeps_fact [where C = "\<lambda>es. \<forall>e \<in> set es. plain_comp (fst e)", OF keeps_look(1)])
    (use readdir_plain [OF c] assms(2) in \<open>auto simp: run_simps\<close>)

lemma keeps_reap: "confining x m I \<Longrightarrow> keeps I (reapStale x m)"
  unfolding reapStale_def by (rule keeps_andThen [OF keeps_look(1)], rule keeps_entries) (auto intro: keeps_reap_entries)

lemma keeps_destroy_entries:
  assumes c: "confining x m I"
  shows "\<forall>e \<in> set es. plain_comp (fst e) \<Longrightarrow> keeps I (destroyEntries x m es)"
proof (induction es)
  case (Cons e es)
  have ih: "keeps I (destroyEntries x m es)" using Cons by simp
  have n: "plain_comp (fst e)" using Cons.prems by simp
  have body: "keeps I (andThen (look (\<lambda>_. path_arg x (get rec ''statePath''))) (\<lambda>sp.
          andThen (removeSession x m rec sp) (\<lambda>_.
          andThen (reapSessionTransients x m (text_of (get rec ''sessionId''))) (\<lambda>_. ret [text_of (get rec ''sessionId'')]))))"
    if o: "ownedState x m w (fst e) = Some rec" for w rec
    by (rule keeps_fact [where C = "under m ''manager-state''", OF keeps_look(1)])
      (use owned_state_paths [OF c o n] in \<open>auto simp: run_simps intro!: keeps_andThen keeps_look keeps_remove_session [OF c] keeps_transients [OF c]\<close>)
  show ?case
    unfolding destroyEntries.simps
    apply (rule keeps_if [OF ih])
    apply (rule keeps_andThen)
     apply (rule keeps_handle [OF _ keeps_look(2)])
     apply (rule keeps_fact [where C = "\<lambda>rec. \<exists>w. ownedState x m w (fst e) = Some rec", OF keeps_look(1)])
      apply (auto simp: run_simps split: option.splits)[1]
     apply (elim exE, rule body, assumption)
    apply (intro keeps_andThen ih keeps_look)
    done
qed (simp add: keeps_look)

lemma keeps_destroy_all: "confining x m I \<Longrightarrow> keeps I (destroyAll x m)"
  unfolding destroyAll_def by (rule keeps_entries) (auto intro: keeps_destroy_entries)

text \<open>A record that was read and is this manager's.\<close>

lemma keeps_owned:
  assumes "\<And>rec. assertOwnedRecord x m rec = Inr () \<Longrightarrow> tagged_id (dm_sessionPrefix m) 16 sid \<Longrightarrow> keeps I (f rec)"
  shows "keeps I (andThen (ownedRecord x m sid) f)"
  unfolding ownedRecord_def
  by (rule keeps_fact [where C = "\<lambda>rec. assertOwnedRecord x m rec = Inr () \<and> tagged_id (dm_sessionPrefix m) 16 sid", OF keeps_look(1)])
    (use assms in \<open>auto simp: run_simps result_simps readRecord_def Let_def\<close>)

lemma keeps_path:
  assumes "\<exists>p. v = Inr p \<and> P p" "\<And>p. P p \<Longrightarrow> keeps I (f p)"
  shows "keeps I (andThen (look (\<lambda>_. v)) f)"
  by (rule keeps_fact [where C = P, OF keeps_look(1)]) (use assms in \<open>auto simp: run_simps\<close>)

lemma keeps_destroy:
  assumes c: "confining x m I"
  shows "keeps I (destroySession x m sid)"
  unfolding destroySession_def
  apply (rule keeps_owned, rule keeps_path [OF owned_record_paths(1) [OF c]], assumption)
  apply (intro keeps_andThen keeps_look)
  apply (rule keeps_remove_session [OF c], assumption, rule owned_record_paths(3) [OF c], assumption)
  done

lemma keeps_touch:
  assumes c: "confining x m I"
  shows "keeps I (touchSession x m sid)"
  unfolding touchSession_def
  by (rule keeps_owned, rule keeps_andThen [OF keeps_look(1)], rule keeps_path [OF owned_record_paths(1) [OF c]], assumption)
    (intro keeps_andThen keeps_look keeps_effect [OF c], simp)

lemma keeps_observed: "confining x m I \<Longrightarrow> under m ''sessions'' wp \<Longrightarrow> keeps I (observedClone x m wp)"
  unfolding observedClone_def by (intro keeps_andThen keeps_look keeps_dm_git) simp_all

lemma keeps_create_session:
  assumes c: "confining x m I"
  shows "keeps I (createSession x m)"
proof (cases "dm_source m")
  case (Some source)
  have p: "prefix_ok (dm_sessionPrefix m)" and now: "list_all is_alnum_lower (dx_now36 x w)" for w using c by (simp_all add: confining_def)
  have id: "keeps I (andThen (makeSessionId x m) f)" if f: "\<And>sid. slash \<notin> set sid \<Longrightarrow> 2 < length sid \<Longrightarrow> keeps I (f sid)" for f :: "string \<Rightarrow> ('a, json) act"
  proof (rule keeps_bind_fact [where C = "\<lambda>sid. slash \<notin> set sid \<and> 2 < length sid"])
    show "keeps I (makeSessionId x m)" unfolding makeSessionId_def by (intro keeps_andThen keeps_look keeps_random [OF c])
    fix s y s'
    assume "I s" "runs (makeSessionId x m) s y s'"
    then obtain t hex s1 where y: "y = dm_sessionPrefix m @ ''-'' @ dx_now36 x t @ ''-'' @ hex" "runs (call (dx_random x 8)) s hex s1"
      by (auto simp: makeSessionId_def run_simps)
    have "hex_exact 16 hex" by (rule random_hex [OF c \<open>I s\<close> y(2)])
    then show "slash \<notin> set y \<and> 2 < length y"
      using prefix_no_slash [OF p] alnum_no_slash [OF now [of t]] hex_no_slash by (auto simp: y(1) hex_exact_def)
  qed (use f in blast)
  show ?thesis
    unfolding createSession_def Some option.case
  proof (rule keeps_andThen [OF keeps_reap [OF c]], rule id, goal_cases)
    case (1 _ sid)
    have s: "under m ''sessions'' (path_join (dm_sessions m) sid)" using session_dir [OF c 1] .
    have f: "under m ''manager-state'' (path_join (dm_state m) (sid @ ''.json''))" using state_file [OF c, of "sid @ ''.json''"] 1 by simp
    show ?case
      unfolding Let_def
      by (intro keeps_andThen keeps_look keeps_effect [OF c] keeps_tried keeps_clone_prepare [OF c s 1(1)])
        (auto simp: f split: sum.split intro!: keeps_andThen keeps_look keeps_effect [OF c] keeps_tried keeps_observed [OF c s] keeps_remove [OF c] keeps_quiet keeps_governance [OF c])
  qed
qed (simp add: createSession_def keeps_look)

lemma keeps_hex:
  assumes c: "confining x m I" and "\<And>h. slash \<notin> set h \<Longrightarrow> keeps I (f h)"
  shows "keeps I (andThen (call (dx_random x 8)) f)"
  by (rule keeps_bind_fact [where C = "hex_exact 16", OF keeps_random [OF c]])
    (use random_hex [OF c] assms(2) hex_no_slash in \<open>auto simp: hex_exact_def\<close>)

lemma keeps_refresh:
  assumes c: "confining x m I"
  shows "keeps I (refreshSession x m sid)"
  unfolding refreshSession_def
proof (rule keeps_owned, rule keeps_hex [OF c], rule keeps_hex [OF c], rule keeps_hex [OF c],
    rule keeps_path [OF owned_record_paths(1) [OF c]], assumption, rule keeps_path [OF owned_record_paths(2) [OF c]], assumption, goal_cases)
  case (1 rec h1 h2 h3 sp wp)
  have p: "prefix_ok (dm_sessionPrefix m)" using c by (simp add: confining_def)
  note sid = session_no_slash [OF p 1(2)]
  have f: "under m ''sessions'' (path_join (dm_sessions m) (sid @ ''.incoming-'' @ h1))" "under m ''sessions'' (path_join (dm_sessions m) (sid @ ''.retired-'' @ h2))"
    "under m ''manager-state'' (path_join (dm_state m) (sid @ ''.refresh-'' @ h3 @ ''.json''))"
    using session_dir [OF c, of "sid @ ''.incoming-'' @ h1"] session_dir [OF c, of "sid @ ''.retired-'' @ h2"] state_file [OF c, of "sid @ ''.refresh-'' @ h3 @ ''.json''"] sid 1 by simp_all
  show ?case
    unfolding Let_def
    by (intro keeps_andThen keeps_look keeps_effect [OF c] keeps_tried keeps_clone_prepare [OF c f(1) sid(1)])
      (auto simp: f [simplified] 1 split: sum.split intro!: keeps_andThen keeps_if keeps_look keeps_effect [OF c] keeps_tried keeps_observed [OF c 1(7)] keeps_remove [OF c] keeps_quiet keeps_governance [OF c])
qed


section \<open>Stale sessions\<close>

lemma reaped_stale:
  assumes "runs (reapEntries x m now es) s ids s'"
  shows "\<forall>i \<in> set ids. \<exists>w e rec. e \<in> set es \<and> ownedState x m w (fst e) = Some rec \<and> isStale x w now (dm_staleAfterMs m) rec \<and> i = text_of (get rec ''sessionId'')"
  using assms
proof (induction es arbitrary: s ids)
  case (Cons e es)
  show ?case
  proof (cases "state_entry e")
    case False
    then show ?thesis using Cons.prems Cons.IH by (fastforce simp: run_simps)
  next
    case True
    then obtain found where f: "found = (case ownedState x m s (fst e) of Some rec \<Rightarrow> if isStale x s now (dm_staleAfterMs m) rec then Some rec else None | None \<Rightarrow> None)"
      and r: "runs (case found of
         None \<Rightarrow> reapEntries x m now es
       | Some rec \<Rightarrow>
           andThen (removeSession x m rec (path_join (dm_state m) (fst e))) (\<lambda>_.
           andThen (reapSessionTransients x m (text_of (get rec ''sessionId''))) (\<lambda>_.
           andThen (reapEntries x m now es) (\<lambda>rest.
           ret (text_of (get rec ''sessionId'') # rest))))) s ids s'"
      using Cons.prems by (auto simp: run_simps)
    show ?thesis
    proof (cases found)
      case None
      then show ?thesis using r Cons.IH by fastforce
    next
      case (Some rec)
      then have o: "ownedState x m s (fst e) = Some rec" "isStale x s now (dm_staleAfterMs m) rec" using f by (auto split: option.splits if_splits)
      obtain rest s1 where ids: "ids = text_of (get rec ''sessionId'') # rest" "runs (reapEntries x m now es) s1 rest s'"
        using r Some by (auto simp: run_simps)
      then show ?thesis using Cons.IH ids o by (metis list.set_intros(1,2) set_ConsD)
    qed
  qed
qed (simp add: run_simps)


section \<open>New sessions\<close>

lemma undo_no_run: "\<not> runs (dm_undo x m wp p e) a b d"
  by (auto simp: dm_undo_def run_simps)

lemma prepared_clone:
  assumes "runs (cloneAndPrepare x m wp branch sid) s v s'"
  shows "\<exists>source prep w1 w2 gov w3. dm_source m = Some source \<and> \<not> dx_exists x s wp \<and> runs (dm_clone x m source wp branch sid) s prep w1 \<and>
    runs (validateWorkspaceContents x m wp) w1 () w2 \<and> runs (dm_installGovernance x m wp sid) w2 gov w3 \<and>
    v = put_fields (spread gov) prep \<and> runs (dm_prepare x m wp branch v) w3 () s'"
proof (cases "dm_source m")
  case (Some source)
  obtain prep w1 r w2 where c: "\<not> dx_exists x s wp" "runs (dm_clone x m source wp branch sid) s prep w1"
    "runs (tried (andThen (validateWorkspaceContents x m wp) (\<lambda>_. dm_installGovernance x m wp sid))) w1 r w2"
    and k: "runs (case r of Inl e \<Rightarrow> dm_undo x m wp prep e
      | Inr governance \<Rightarrow> (let prepared = put_fields (spread governance) prep in
          andThen (tried (dm_prepare x m wp branch prepared)) (\<lambda>q. case q of Inl e \<Rightarrow> dm_undo x m wp prepared e | Inr _ \<Rightarrow> ret prepared))) w2 v s'"
    using assms unfolding cloneAndPrepare_def Some option.case by (auto simp: run_simps result_simps)
  obtain gov where r: "r = Inr gov" using k by (cases r) (auto simp: undo_no_run)
  obtain w3 where "runs (validateWorkspaceContents x m wp) w1 () w3" "runs (dm_installGovernance x m wp sid) w3 gov w2"
    using c(3) unfolding r runs_tried sum.case runs_andThen by auto
  moreover obtain q w4 where q: "runs (tried (dm_prepare x m wp branch (put_fields (spread gov) prep))) w2 q w4"
    "runs (case q of Inl e \<Rightarrow> dm_undo x m wp (put_fields (spread gov) prep) e | Inr _ \<Rightarrow> ret (put_fields (spread gov) prep)) w4 v s'"
    using k unfolding r sum.case Let_def runs_andThen by blast
  moreover have "v = put_fields (spread gov) prep \<and> runs (dm_prepare x m wp branch v) w2 () s'"
    using q by (cases q) (simp_all add: runs_tried run_simps undo_no_run)
  ultimately show ?thesis using Some c by blast
qed (use assms in \<open>simp add: cloneAndPrepare_def run_simps\<close>)

lemma contents_checked:
  assumes "runs (validateWorkspaceContents x m wp) s () s'"
  shows "\<exists>out st w1 w2. runs (dm_git x m [''ls-files'', ''-z''] wp) s out w1 \<and>
    list_all (\<lambda>p. pd_allowed (classifyPolicyPath p) \<or> p \<in> set (dm_allowed m)) (nonempty (split_on nul out)) \<and>
    walkNoSymlinks x w2 (dx_stack x) wp = Inr () \<and> runs (dm_git x m [''status'', ''--porcelain'', ''--ignored'', ''--untracked-files=all''] wp) w2 st s' \<and> trim st = []"
proof -
  have all: "runs (forA (check_tracked x m wp) ps) a u b \<Longrightarrow> list_all (\<lambda>p. pd_allowed (classifyPolicyPath p) \<or> p \<in> set (dm_allowed m)) ps" for ps a u b
    by (induction ps arbitrary: a) (auto simp: run_simps check_tracked_def)
  show ?thesis
    using assms unfolding validateWorkspaceContents_def
    apply (simp add: run_simps)
    apply (elim exE conjE)
    apply (intro exI conjI)
    apply (assumption | rule all)+
    done
qed

lemma active_state:
  assumes "runs (observedClone x m wp) a seen b" "is_obj r"
  shows "get (put_fields ((''state'', j) # seen @ [(''heartbeatAt'', t)]) r) ''state'' = Some j"
proof -
  have "''state'' \<notin> fst ` set (seen @ [(''heartbeatAt'', t)])" using assms(1) by (auto simp: observedClone_def run_simps)
  then have "get (put_fields (seen @ [(''heartbeatAt'', t)]) (put_field ''state'' j r)) ''state'' = Some j"
    using assms(2) by (simp add: get_put_fields get_put_field put_field_is_obj del: set_append)
  then show ?thesis by (simp add: put_fields_def)
qed

lemma activation:
  assumes "runs (andThen (observedClone x m wp) (\<lambda>seen.
      andThen (look (\<lambda>w. Inr (put_fields ((''state'', j) # seen @ [(''heartbeatAt'', t w)]) r))) (\<lambda>prepared.
      andThen (effect x (WriteOver sp prepared)) (\<lambda>_. ret prepared)))) s v s'" "is_obj r"
  shows "get v ''state'' = Some j \<and> (\<exists>w. runs (effect x (WriteOver sp v)) w () s')"
proof -
  obtain seen w p w2 where o: "runs (observedClone x m wp) s seen w" and l: "runs (look (\<lambda>w. Inr (put_fields ((''state'', j) # seen @ [(''heartbeatAt'', t w)]) r))) w p w2"
    and e: "runs (andThen (effect x (WriteOver sp p)) (\<lambda>_. ret p)) w2 v s'"
    using assms(1) unfolding runs_andThen by blast
  have p: "p = put_fields ((''state'', j) # seen @ [(''heartbeatAt'', t w)]) r" using l unfolding runs_look by simp
  have "v = p \<and> runs (effect x (WriteOver sp p)) w2 () s'" using e by (auto simp: runs_andThen runs_ret)
  moreover have "get p ''state'' = Some j" unfolding p by (rule active_state [OF o assms(2)])
  ultimately show ?thesis by auto
qed


end
