(* ===== verification/DisposableWitness.thy ===== *)
theory DisposableWitness
  imports DisposableSafety
begin

text \<open>
  The properties of the manager of disposable workspaces at a concrete world that logs what is done to the file
  system: a session that nobody keeps alive is reaped, and a new one is created.
\<close>

definition log_m :: manager where
  "log_m = \<lparr>dm_root = ''/d'', dm_source = Some ''/src'', dm_external = False, dm_hookFile = [], dm_policyFile = [], dm_hooksPath = [], dm_policyPath = [],
    dm_identity = None, dm_protected = [], dm_staleAfterMs = 9, dm_sessionPrefix = ''s'', dm_branchPrefix = ''bridge/s'', dm_remoteName = ''source'',
    dm_materializes = False, dm_allowed = []\<rparr>"

definition log_id :: string where
  "log_id = ''s-1-'' @ replicate 16 (CHR ''a'')"

definition log_record :: json where
  "log_record = JObj [(''version'', JNum 1), (''kind'', JStr ''workspace''), (''sessionId'', JStr log_id), (''branch'', JStr (''bridge/s/'' @ log_id)),
    (''statePath'', JStr (''/d/manager-state/'' @ log_id @ ''.json'')), (''workspacePath'', JStr (''/d/sessions/'' @ log_id)), (''ownerUid'', JNum 0)]"

definition log_stat :: "string \<Rightarrow> fstat" where
  "log_stat p = \<lparr>st_kind = (if p = ''/d/sessions/'' @ log_id @ ''/.githooks/pre-commit'' \<or> p = ''/d/sessions/'' @ log_id @ ''/scripts/pre-commit-policy.mjs''
    then ''file'' else ''directory''), st_mode = 448, st_uid = 0, st_dev = 0, st_ino = 0, st_birthtime = None\<rparr>"

definition log_git :: "string list \<Rightarrow> string" where
  "log_git args =
    (if ''ls-files'' \<in> set args then [CHR ''a'', nul]
     else if ''--get'' \<in> set args then (if ''core.hooksPath'' \<in> set args then ''.githooks'' else ''/src'')
     else if ''--show-current'' \<in> set args then ''bridge/s/'' @ log_id
     else if ''--is-shallow-repository'' \<in> set args then ''false''
     else if ''--count'' \<in> set args then ''1''
     else [])"

text \<open>\<open>stale\<close>: the state directory holds the session above and its clone is there.\<close>

definition log_dx :: "bool \<Rightarrow> fsop list dx" where
  "log_dx stale = \<lparr>dx_do = (\<lambda>op w. (Inr (), w @ [op])), dx_git = (\<lambda>args cwd env w. (\<lparr>p_status = Some 0, p_stdout = log_git args, p_stderr = []\<rparr>, w)),
    dx_materialize = (\<lambda>source remote wp branch sid w. (Inr (JObj []), w)), dx_random = (\<lambda>n w. (replicate (2 * n) (CHR ''a''), w)),
    dx_exists = (\<lambda>w p. stale), dx_lstat = (\<lambda>w p. Some (log_stat p)), dx_stat = (\<lambda>w p. Some (log_stat p)), dx_realpath = (\<lambda>w p. Inr p),
    dx_readdir = (\<lambda>w p. Inr (if stale \<and> p = ''/d/manager-state'' then [(log_id @ ''.json'', ''file'')] else [])),
    dx_read = (\<lambda>w p. Inr (stringify log_record)), dx_sha256 = (\<lambda>_. []), dx_iso = (\<lambda>_. ''2024''), dx_now = (\<lambda>_. 100), dx_now36 = (\<lambda>_. ''1''),
    dx_parse_date = (\<lambda>_. Some 0), dx_alive = (\<lambda>_ _. False), dx_url = (\<lambda>_. throw ''Invalid URL''), dx_environ = (\<lambda>_. None), dx_cwd = ''/'', dx_home = ''/h'',
    dx_uid = 0, dx_pid = 7, dx_platform = ''linux'', dx_stack = 3\<rparr>"

text \<open>Every operation in the log is confined.\<close>

lemma confined_log: "confined (log_dx b) m w op = confined (log_dx b) m [] op"
  by (cases op) (simp_all add: log_dx_def)

lemma log_root: "abs_path (comps_of ''/d'') = ''/d''" "prefix_ok ''s''" "hex_exact 16 (replicate 16 (CHR ''a''))"
    "is_alnum_lower (CHR ''1'')" "plain_comp (log_id @ ''.json'')"
  by code_simp+

lemma log_confining: "confining (log_dx b) log_m (list_all (confined (log_dx b) log_m []))"
proof -
  have "list_all (confined (log_dx b) log_m []) (w @ [op])" if "list_all (confined (log_dx b) log_m []) w" "confined (log_dx b) log_m w op" for w op
    using that by (simp add: confined_log [of b log_m w op])
  then show ?thesis
    unfolding confining_def by (auto simp: log_m_def log_dx_def log_root split: if_splits)
qed


section \<open>Reaping\<close>

definition log_reap :: "(fsop list, string list) act" where
  "log_reap = reapStale (log_dx True) log_m"

lemma log_reaped: "answered (log_reap [])" "the_answer (log_reap []) = [log_id]"
    "fst (snd (log_reap [])) = [RemoveTree (''/d/sessions/'' @ log_id), RemoveFile (''/d/manager-state/'' @ log_id @ ''.json''), RemoveFile (''/d/manager-state/'' @ log_id @ ''.published.json'')]"
  by code_simp+


section \<open>A new session\<close>

definition log_create :: "(fsop list, json) act" where
  "log_create = createSession (log_dx False) log_m"

lemma log_created: "answered (log_create [])"
  by code_simp


end
