(* ===== verification/ProcessTools.thy ===== *)
theory ProcessTools
  imports Processes
begin

text \<open>
  The tools that run programs: the shell and the managed processes (\<^verbatim>\<open>src/tools/process.js\<close>) and the commands
  of a project (\<^verbatim>\<open>src/tools/project.js\<close>), on \<^verbatim>\<open>runCommand\<close> of \<^verbatim>\<open>src/lib/exec.js\<close>.  The child
  process is a parameter: what happens to it until it is closed, as the events of \<open>Processes\<close>.
\<close>

section \<open>Running a command\<close>

text \<open>\<open>pt_child\<close>: program, arguments, directory, environment, shell and time-out; the last two results are how it closed.\<close>

record 'w pt =
  pt_kx :: "'w kx"
  pt_limits :: limits
  pt_child :: "string \<Rightarrow> string list \<Rightarrow> string \<Rightarrow> environ \<Rightarrow> bool \<Rightarrow> nat \<Rightarrow> 'w \<Rightarrow> (child_event list \<times> int option \<times> string option) \<times> 'w"

abbreviation pt_site :: "'w pt \<Rightarrow> 'w site" where "pt_site t \<equiv> kx_site (pt_kx t)"

definition is_line :: "command \<Rightarrow> bool" where
  "is_line c = (case c of Line _ \<Rightarrow> True | Argv _ \<Rightarrow> False)"

definition settled_answer :: "limits \<Rightarrow> child_event list \<Rightarrow> int option \<Rightarrow> string option \<Rightarrow> run_answer" where
  "settled_answer l events code sig = the (ch_answer (run_child (max_stdout l) (max_stderr l) (events @ [Closed code sig])))"

definition runCommand :: "'w pt \<Rightarrow> command \<Rightarrow> string \<Rightarrow> nat option \<Rightarrow> ('w, json) act" where
  "runCommand t command cwd timeoutMs =
    (let x = pt_kx t in
     andThen (look (\<lambda>w. work_dir x w cwd)) (\<lambda>dir.
     andThen (look (\<lambda>_. normalizeCommand command)) (\<lambda>(prog, args).
     andThen (call (pt_child t prog args dir (toolEnvironment (kx_config x) (kx_environ x) []) (is_line command)
       (case timeoutMs of Some n \<Rightarrow> n | None \<Rightarrow> nat (c_commandTimeoutMs (kx_config x))))) (\<lambda>(events, code, sig).
     ret (command_json command dir (settled_answer (pt_limits t) events code sig))))))"

text \<open>A tool's \<^verbatim>\<open>try ... catch\<close>.\<close>

definition pt_tool :: "'w pt \<Rightarrow> ('w, json) act \<Rightarrow> ('w, reply) act" where
  "pt_tool t m = handle (andThen m (\<lambda>v. ret (json_reply (pt_limits t) v))) (\<lambda>e. ret (fail_reply (pt_limits t) (message e) None))"

section \<open>Shell and processes\<close>

text \<open>An empty \<^verbatim>\<open>cwd\<close> is none.\<close>

definition given :: "string option \<Rightarrow> string option" where
  "given cwd = (case cwd of Some d \<Rightarrow> if d = [] then None else Some d | None \<Rightarrow> None)"

definition writable_dir :: "'w pt \<Rightarrow> 'w \<Rightarrow> string \<Rightarrow> string result" where
  "writable_dir t w d = bindE (resolveUserPath (pt_site t) w d []) (assertInWorkspace (pt_site t) w True)"

definition shell_root :: "'w pt \<Rightarrow> string option \<Rightarrow> ('w, string) act" where
  "shell_root t cwd =
    andThen (look (\<lambda>w. case given cwd of Some d \<Rightarrow> writable_dir t w d | None \<Rightarrow> currentWorkspace (pt_site t) w)) (\<lambda>root.
    andThen (guard (root \<noteq> []) (if c_profile (kx_config (pt_kx t)) = ''host'' then ''no explicit host workspace''
      else ''no workspace - call workspace_open first or pass cwd'')) (\<lambda>_.
    ret root))"

definition repo_shell :: "'w pt \<Rightarrow> string \<Rightarrow> string option \<Rightarrow> nat option \<Rightarrow> ('w, reply) act" where
  "repo_shell t command cwd timeoutMs = pt_tool t (andThen (shell_root t cwd) (\<lambda>root. runCommand t (Line command) root timeoutMs))"

definition process_start :: "'w pt \<Rightarrow> string \<Rightarrow> string option \<Rightarrow> ('w, reply) act" where
  "process_start t command cwd = pt_tool t (andThen (shell_root t cwd) (\<lambda>root. startProcess (pt_kx t) (Line command) root []))"

definition active_id :: "'w pt \<Rightarrow> string option" where
  "active_id t = map_option fst (si_active (pt_site t))"

text \<open>Without a handler of its own an error leaves the tool.\<close>

definition process_list :: "'w pt \<Rightarrow> ('w, reply) act" where
  "process_list t = andThen (listProcesses (pt_kx t) (active_id t)) (\<lambda>ms. ret (json_reply (pt_limits t) (JArr ms)))"

definition process_logs :: "'w pt \<Rightarrow> string \<Rightarrow> nat option \<Rightarrow> ('w, reply) act" where
  "process_logs t i lines =
    andThen (listProcesses (pt_kx t) (active_id t)) (\<lambda>ms.
    case find_process i ms of
      None \<Rightarrow> ret (fail_reply (pt_limits t) (''unknown bridge-managed process '' @ i) None)
    | Some m \<Rightarrow>
        (let n = (case lines of Some k \<Rightarrow> k | None \<Rightarrow> 80) in
         andThen (look (\<lambda>w. tailFile (pt_kx t) w (string_or_empty (get m ''stdoutPath'')) n 256000)) (\<lambda>out.
         andThen (look (\<lambda>w. tailFile (pt_kx t) w (string_or_empty (get m ''stderrPath'')) n 256000)) (\<lambda>err.
         ret (json_reply (pt_limits t) (put_fields [(''stdout'', JStr out), (''stderr'', JStr err)] m))))))"

definition process_stop :: "'w pt \<Rightarrow> string \<Rightarrow> ('w, reply) act" where
  "process_stop t i = pt_tool t
    (andThen (listProcesses (pt_kx t) (active_id t)) (\<lambda>ms.
     case find_process i ms of
       None \<Rightarrow> fail (''process '' @ i @ '' is not associated with this workspace'')
     | Some m \<Rightarrow> stopProcess (pt_kx t) i))"

section \<open>Commands of a project\<close>

definition has_file :: "'w pt \<Rightarrow> 'w \<Rightarrow> string \<Rightarrow> string \<Rightarrow> bool" where
  "has_file t w root name = existsSync (kx_fx (pt_kx t)) w (path_join root name)"

definition has_command :: "'w pt \<Rightarrow> 'w \<Rightarrow> string \<Rightarrow> bool" where
  "has_command t w c = commandExists (pt_kx t) w c"

definition packageRun :: "'w pt \<Rightarrow> 'w \<Rightarrow> string \<Rightarrow> string \<Rightarrow> string" where
  "packageRun t w root script =
    (if (has_file t w root ''bun.lock'' \<or> has_file t w root ''bun.lockb'') \<and> has_command t w ''bun'' then ''bun run '' @ script
     else if has_file t w root ''pnpm-lock.yaml'' \<and> has_command t w ''pnpm'' then ''pnpm run '' @ script
     else if has_file t w root ''yarn.lock'' \<and> has_command t w ''yarn'' then ''yarn '' @ script
     else ''npm run '' @ script @ '' --silent'')"

text \<open>A package file that is \<^verbatim>\<open>null\<close> throws; \<open>name\<close> is no property of any prototype.\<close>

definition package_script :: "'w pt \<Rightarrow> 'w \<Rightarrow> string \<Rightarrow> string \<Rightarrow> json \<Rightarrow> string option result" where
  "package_script t w root name pkg =
    (if pkg = JNull then throw ''Cannot read properties of null (reading 'scripts')''
     else
       (let scripts = (case get pkg ''scripts'' of Some s \<Rightarrow> s | None \<Rightarrow> JObj []);
            dependency = (\<lambda>k. case get pkg k of Some d \<Rightarrow> map_of (spread d) ''typescript'' | None \<Rightarrow> None);
            typescript = (case dependency ''devDependencies'' of Some d \<Rightarrow> Some d | None \<Rightarrow> dependency ''dependencies'') in
        if truthy (get scripts name) then Inr (Some (packageRun t w root name))
        else if name = ''typecheck'' \<and> truthy typescript \<and> has_command t w ''npx'' then Inr (Some ''npx --no-install tsc --noEmit'')
        else Inr None))"

definition detectPackageCommand :: "'w pt \<Rightarrow> 'w \<Rightarrow> string \<Rightarrow> string \<Rightarrow> string option result" where
  "detectPackageCommand t w root name =
    (if \<not> has_file t w root ''package.json'' then Inr None
     else (case fx_readFile (kx_fx (pt_kx t)) w (path_join root ''package.json'') of
         Inl _ \<Rightarrow> Inr None
       | Inr bytes \<Rightarrow> (case JSON_parse (fx_decode (kx_fx (pt_kx t)) bytes) of None \<Rightarrow> Inr None | Some pkg \<Rightarrow> package_script t w root name pkg)))"

definition python_recipe :: "'w pt \<Rightarrow> 'w \<Rightarrow> string \<Rightarrow> string \<Rightarrow> string option" where
  "python_recipe t w root name =
    (let prefix = (if has_file t w root ''uv.lock'' \<and> has_command t w ''uv'' then ''uv run '' else []) in
     if name = ''test'' then Some (prefix @ ''pytest'')
     else if name = ''lint'' then (if has_command t w ''ruff'' \<or> prefix \<noteq> [] then Some (prefix @ ''ruff check .'') else None)
     else if name = ''typecheck'' then
       (if has_command t w ''mypy'' \<or> prefix \<noteq> [] then Some (prefix @ ''mypy .'') else if has_command t w ''pyright'' then Some ''pyright'' else None)
     else if name = ''build'' then Some (if has_command t w ''python'' then ''python -m build'' else ''python3 -m build'')
     else None)"

definition cargo_recipe :: "string \<Rightarrow> string option" where
  "cargo_recipe = map_of [(''test'', ''cargo test''), (''lint'', ''cargo clippy --all-targets --all-features''), (''typecheck'', ''cargo check''),
     (''build'', ''cargo build''), (''dev'', ''cargo run'')]"

definition go_recipe :: "string \<Rightarrow> string option" where
  "go_recipe = map_of [(''test'', ''go test ./...''), (''lint'', ''go vet ./...''), (''typecheck'', ''go vet ./...''), (''build'', ''go build ./...''), (''dev'', ''go run .'')]"

definition detectCommand :: "'w pt \<Rightarrow> 'w \<Rightarrow> string \<Rightarrow> string \<Rightarrow> string option result" where
  "detectCommand t w root name =
    bindE (detectPackageCommand t w root name) (\<lambda>found.
    case found of Some c \<Rightarrow> Inr (Some c) | None \<Rightarrow>
      (let python = (if has_file t w root ''pyproject.toml'' \<or> has_file t w root ''pytest.ini'' \<or> has_file t w root ''requirements.txt''
           then python_recipe t w root name else None) in
       case python of Some c \<Rightarrow> Inr (Some c) | None \<Rightarrow>
         Inr (if has_file t w root ''Cargo.toml'' \<and> has_command t w ''cargo'' then cargo_recipe name
              else if has_file t w root ''go.mod'' \<and> has_command t w ''go'' then go_recipe name
              else None)))"

definition PROJECT_NAMES :: "string list" where
  "PROJECT_NAMES = [''test'', ''lint'', ''typecheck'', ''build'']"

definition project_tool :: "'w pt \<Rightarrow> string \<Rightarrow> string option \<Rightarrow> string option \<Rightarrow> ('w, reply) act" where
  "project_tool t name cwd command = pt_tool t
    (andThen (look (\<lambda>w. case given cwd of
        Some d \<Rightarrow> writable_dir t w d
      | None \<Rightarrow> bindE (currentWorkspace (pt_site t) w) (\<lambda>c. assertInWorkspace (pt_site t) w True (if c \<noteq> [] then c else fx_cwd (kx_fx (pt_kx t)))))) (\<lambda>root.
     andThen (look (\<lambda>w. case given command of Some c \<Rightarrow> Inr (Some c) | None \<Rightarrow> detectCommand t w root name)) (\<lambda>picked.
     case picked of
       None \<Rightarrow> fail (''no '' @ name @ '' command detected; pass command explicitly'')
     | Some c \<Rightarrow> andThen (runCommand t (Line c) root (Some 300000)) (\<lambda>v. ret (put_fields (spread v) (JObj [(''command'', JStr c)]))))))"

section \<open>Facts\<close>

lemma runs_pt_tool: "runs (pt_tool t m) s r s' \<Longrightarrow> \<not> rp_error r \<Longrightarrow> \<exists>v. runs m s v s' \<and> r = json_reply (pt_limits t) v"
  by (auto simp: pt_tool_def runs_handle run_simps fail_reply_def)

lemma fails_pt_tool: "fails m s e s' \<Longrightarrow> runs (pt_tool t m) s (fail_reply (pt_limits t) (message e) None) s'"
  by (auto simp: pt_tool_def runs_handle fails_andThen runs_ret)

lemma runs_runCommand:
  assumes "runs (runCommand t command cwd timeoutMs) s v s'"
  shows "\<exists>dir prog args events code sig. work_dir (pt_kx t) s cwd = Inr dir \<and> normalizeCommand command = Inr (prog, args)
    \<and> pt_child t prog args dir (toolEnvironment (kx_config (pt_kx t)) (kx_environ (pt_kx t)) []) (is_line command)
        (case timeoutMs of Some n \<Rightarrow> n | None \<Rightarrow> nat (c_commandTimeoutMs (kx_config (pt_kx t)))) s = ((events, code, sig), s')
    \<and> v = command_json command dir (settled_answer (pt_limits t) events code sig)"
  using assms unfolding runCommand_def Let_def
  by (auto simp: run_simps split: prod.splits)

text \<open>The child that is closed has an answer.\<close>

lemma closed_settles: "ch_answer (run_child mo me (events @ [Closed code sig])) \<noteq> None"
  by (simp add: run_child_def finish_def)

lemma shell_root_runs:
  assumes "runs (shell_root t cwd) s root s'"
  shows "s' = s \<and> root \<noteq> [] \<and> (case given cwd of
      Some d \<Rightarrow> (\<exists>p. resolveUserPath (pt_site t) s d [] = Inr p \<and> assertInWorkspace (pt_site t) s True p = Inr root)
    | None \<Rightarrow> currentWorkspace (pt_site t) s = Inr root)"
  using assms by (auto simp: shell_root_def run_simps writable_dir_def result_simps split: option.splits)

lemma listed_own:
  assumes "runs (listProcesses x (Some ws)) s ms s'" "ws \<noteq> []"
  shows "list_all (\<lambda>m. get m ''workspaceId'' = Some (JStr ws)) ms"
  using assms by (auto simp: listProcesses_def run_simps list_all_iff)

lemma find_process_none: "list_all (\<lambda>m. get m ''id'' \<noteq> Some (JStr i)) ms \<Longrightarrow> find_process i ms = None"
  by (auto simp: find_process_def find_None_iff list_all_iff)

text \<open>A project's own script comes first.\<close>

lemma package_script_first:
  assumes "has_file t w root ''package.json''" "fx_readFile (kx_fx (pt_kx t)) w (path_join root ''package.json'') = Inr bytes"
    and "JSON_parse (fx_decode (kx_fx (pt_kx t)) bytes) = Some pkg" "get pkg ''scripts'' = Some scripts" "truthy (get scripts name)"
  shows "detectCommand t w root name = Inr (Some (packageRun t w root name))"
proof -
  have "pkg \<noteq> JNull" using assms(4) by (auto simp: get_def)
  then have "detectPackageCommand t w root name = Inr (Some (packageRun t w root name))"
    using assms by (simp add: detectPackageCommand_def package_script_def Let_def)
  then show ?thesis by (simp add: detectCommand_def bindE_def)
qed

section \<open>Properties\<close>

text \<open>
  C39 (safety).  A shell command that answers ran in the current workspace, or in the directory asked for after it was
  accepted for writing inside a workspace; it ran with the environment of tools and the time-out asked for, and what is
  answered is what became of the child.
\<close>

theorem shell_runs_in_workspace:
  assumes "runs (repo_shell t command cwd timeoutMs) s r s'" "\<not> rp_error r"
  shows "\<exists>root events code sig. root \<noteq> []
    \<and> (case given cwd of
         Some d \<Rightarrow> (\<exists>p. resolveUserPath (pt_site t) s d [] = Inr p \<and> assertInWorkspace (pt_site t) s True p = Inr root)
       | None \<Rightarrow> currentWorkspace (pt_site t) s = Inr root)
    \<and> pt_child t command [] root (toolEnvironment (kx_config (pt_kx t)) (kx_environ (pt_kx t)) []) True
        (case timeoutMs of Some n \<Rightarrow> n | None \<Rightarrow> nat (c_commandTimeoutMs (kx_config (pt_kx t)))) s = ((events, code, sig), s')
    \<and> r = json_reply (pt_limits t) (command_json (Line command) root (settled_answer (pt_limits t) events code sig))"
proof -
  obtain v where v: "runs (andThen (shell_root t cwd) (\<lambda>root. runCommand t (Line command) root timeoutMs)) s v s'" "r = json_reply (pt_limits t) v"
    using runs_pt_tool [OF assms(1) [unfolded repo_shell_def] assms(2)] by blast
  obtain root s1 where root: "runs (shell_root t cwd) s root s1" and c: "runs (runCommand t (Line command) root timeoutMs) s1 v s'"
    using v(1) unfolding runs_andThen by blast
  note rt = shell_root_runs [OF root]
  obtain dir prog args events code sig where d: "work_dir (pt_kx t) s1 root = Inr dir" "normalizeCommand (Line command) = Inr (prog, args)"
    "pt_child t prog args dir (toolEnvironment (kx_config (pt_kx t)) (kx_environ (pt_kx t)) []) (is_line (Line command))
        (case timeoutMs of Some n \<Rightarrow> n | None \<Rightarrow> nat (c_commandTimeoutMs (kx_config (pt_kx t)))) s1 = ((events, code, sig), s')"
    "v = command_json (Line command) dir (settled_answer (pt_limits t) events code sig)"
    using runs_runCommand [OF c] by blast
  have "dir = root" using d(1) rt by (simp add: work_dir_def)
  moreover have "prog = command \<and> args = []" using d(2) by (simp add: normalizeCommand_def split: if_splits)
  ultimately show ?thesis using rt d(3,4) v(2) by (auto simp: is_line_def)
qed

text \<open>
  In a call that is bound to a workspace the processes of others do not exist: they are not listed, and
  asking for the logs of one, or to stop it, is refused and does nothing beyond the listing.
\<close>

theorem foreign_process_untouched:
  assumes "active_id t = Some ws" "ws \<noteq> []" "runs (listProcesses (pt_kx t) (Some ws)) s ms w" "list_all (\<lambda>m. get m ''id'' \<noteq> Some (JStr i)) ms"
  shows "list_all (\<lambda>m. get m ''workspaceId'' = Some (JStr ws)) ms
    \<and> runs (process_stop t i) s (fail_reply (pt_limits t) (''process '' @ i @ '' is not associated with this workspace'') None) w
    \<and> runs (process_logs t i n) s (fail_reply (pt_limits t) (''unknown bridge-managed process '' @ i) None) w"
proof -
  have f: "find_process i ms = None" using find_process_none [OF assms(4)] .
  let ?why = "''process '' @ i @ '' is not associated with this workspace''"
  have l: "runs (listProcesses (pt_kx t) (active_id t)) s ms w" using assms(1,3) by simp
  have "fails (andThen (listProcesses (pt_kx t) (active_id t)) (\<lambda>ms. case find_process i ms of None \<Rightarrow> fail ?why | Some m \<Rightarrow> stopProcess (pt_kx t) i)) s (Error ?why) w"
    unfolding fails_andThen by (intro disjI2 exI conjI) (rule l, simp only: f option.case fails_steps simp_thms)
  then have "runs (process_stop t i) s (fail_reply (pt_limits t) ?why None) w"
    unfolding process_stop_def by (rule fails_pt_tool [where e = "Error ?why", unfolded message.simps])
  moreover have "runs (process_logs t i n) s (fail_reply (pt_limits t) (''unknown bridge-managed process '' @ i) None) w"
    unfolding process_logs_def runs_andThen by (intro exI conjI) (rule l, simp only: f option.case runs_ret simp_thms)
  ultimately show ?thesis using listed_own [OF assms(3,2)] by blast
qed

end
