(* ===== verification/ServerFront.thy ===== *)
theory ServerFront
  imports HostConfig BrokerWorld
begin

text \<open>
  The front of the HTTP server (\<^verbatim>\<open>src/server.js\<close>): the check of the Host header, authorization, the routes, and
  the Unix socket it may listen on.  Express is a parameter: which paths its mount and route patterns match, and the
  outcome of its body parser.
\<close>

section \<open>Requests\<close>

datatype body = Parsed | TooLarge | Invalid string

record request =
  rq_method :: string
  rq_path :: string
  rq_authorization :: "string option"
  rq_host :: "string option"
  rq_body :: body

datatype answer = Status nat | ToMcp

record http =
  ht_mounted :: "string \<Rightarrow> string \<Rightarrow> bool"
  ht_routed :: "string \<Rightarrow> string \<Rightarrow> bool"
  ht_token :: string

definition header :: "string option \<Rightarrow> string" where
  "header h = (case h of Some s \<Rightarrow> s | None \<Rightarrow> [])"

definition authorized :: "string \<Rightarrow> request \<Rightarrow> bool" where
  "authorized tok r =
    (if tok = [] then True
     else startsWith (header (rq_authorization r)) ''Bearer '' \<and> drop 7 (header (rq_authorization r)) = tok)"

text \<open>The name in a Host header: what stands in brackets (without an end: all but the last character), or what comes before a colon.\<close>

definition header_hostname :: "string \<Rightarrow> string" where
  "header_hostname raw =
    (if startsWith raw ''['' then (if CHR '']'' \<in> set raw then takeWhile (\<lambda>c. c \<noteq> CHR '']'') (tl raw) else butlast (tl raw))
     else takeWhile (\<lambda>c. c \<noteq> CHR '':'') raw)"

definition LOOPBACK_NAMES :: "string list" where
  "LOOPBACK_NAMES = [''127.0.0.1'', ''localhost'', ''::1'']"

definition hostHeaderGuardFor :: "string \<Rightarrow> request \<Rightarrow> bool" where
  "hostHeaderGuardFor host r =
    (if \<not> isLoopbackHost host then True
     else lower (normalizeHost (header_hostname (header (rq_host r)))) \<in> set LOOPBACK_NAMES)"

text \<open>The handlers in the order in which \<^verbatim>\<open>createApp\<close> adds them.  A GET route also takes HEAD,
  and Express itself answers OPTIONS for a path that has routes but none for it.\<close>

definition handleRequest :: "http \<Rightarrow> string \<Rightarrow> request \<Rightarrow> answer" where
  "handleRequest x host r =
    (let getting = (rq_method r = ''GET'' \<or> rq_method r = ''HEAD'') in
     if \<not> hostHeaderGuardFor host r then Status 403
     else if ht_mounted x ''/mcp'' (rq_path r) \<and> \<not> authorized (ht_token x) r then Status 401
     else case rq_body r of
         TooLarge \<Rightarrow> Status 413
       | Invalid _ \<Rightarrow> Status 400
       | Parsed \<Rightarrow>
           if getting \<and> ht_routed x ''/healthz'' (rq_path r) then Status 200
           else if getting \<and> ht_routed x ''/readyz'' (rq_path r) then Status 200
           else if rq_method r = ''POST'' \<and> ht_routed x ''/mcp'' (rq_path r) then ToMcp
           else if ht_routed x ''/mcp'' (rq_path r) then Status 405
           else if rq_method r = ''OPTIONS'' \<and> (ht_routed x ''/healthz'' (rq_path r) \<or> ht_routed x ''/readyz'' (rq_path r)) then Status 200
           else Status 404)"

definition createApp :: "config \<Rightarrow> http \<Rightarrow> string \<Rightarrow> (request \<Rightarrow> answer) result" where
  "createApp c x host = bindE (validateRuntimeConfig c host) (\<lambda>_. Inr (handleRequest x host))"

section \<open>One request to the MCP endpoint\<close>

text \<open>The transports that are open; a request closes its own once, at the end of the response or of the connection.\<close>

record exchange =
  ex_closed :: bool
  ex_closings :: nat

definition opened :: exchange where
  "opened = \<lparr>ex_closed = False, ex_closings = 0\<rparr>"

definition close_exchange :: "exchange \<Rightarrow> exchange" where
  "close_exchange e = (if ex_closed e then e else \<lparr>ex_closed = True, ex_closings = ex_closings e + 1\<rparr>)"

section \<open>The Unix socket\<close>

record 'w sx =
  sx_mkdir :: "string \<Rightarrow> 'w \<Rightarrow> unit result \<times> 'w"
  sx_unlink :: "string \<Rightarrow> 'w \<Rightarrow> unit result \<times> 'w"
  sx_stat :: "'w \<Rightarrow> string \<Rightarrow> fstat option"
  sx_lstat :: "'w \<Rightarrow> string \<Rightarrow> fstat option"
  sx_realpath :: "'w \<Rightarrow> string \<Rightarrow> string result"
  sx_cwd :: string
  sx_hardened :: bool

definition isSocket :: "fstat \<Rightarrow> bool" where
  "isSocket st = (st_kind st = ''socket'')"

definition attempt_op :: "('w \<Rightarrow> unit result \<times> 'w) \<Rightarrow> ('w, unit) act" where
  "attempt_op f = andThen (call f) (\<lambda>r. case r of Inr u \<Rightarrow> ret () | Inl e \<Rightarrow> fail (message e))"

definition found :: "fstat option \<Rightarrow> fstat result" where
  "found st = (case st of Some s \<Rightarrow> Inr s | None \<Rightarrow> throw ''ENOENT'')"

definition escapes_transport :: "'w sx \<Rightarrow> 'w \<Rightarrow> string \<Rightarrow> bool result" where
  "escapes_transport x w parent =
    (if \<not> sx_hardened x then Inr False
     else bindE (sx_realpath x w ''/transport'') (\<lambda>root.
       bindE (sx_realpath x w parent) (\<lambda>real.
       Inr (root \<noteq> ''/transport'' \<or> \<not> isWithin (sx_cwd x) real root))))"

definition replaceSocket :: "'w sx \<Rightarrow> string \<Rightarrow> ('w, unit) act" where
  "replaceSocket x p =
    andThen (look (\<lambda>w. found (sx_lstat x w p))) (\<lambda>st.
    andThen (guard (isSocket st) (''Refusing to replace non-socket MCP_UNIX_SOCKET_PATH: '' @ p)) (\<lambda>_.
    attempt_op (sx_unlink x p)))"

definition prepareUnixSocket :: "'w sx \<Rightarrow> string \<Rightarrow> ('w, unit) act" where
  "prepareUnixSocket x p =
    (let parent = path_dirname p in
     andThen (attempt_op (sx_mkdir x parent)) (\<lambda>_.
     andThen (look (\<lambda>w. found (sx_stat x w parent))) (\<lambda>d.
     andThen (guard (\<not> mode_has (st_mode d) 63) (''MCP Unix socket parent must be private: '' @ parent)) (\<lambda>_.
     andThen (look (\<lambda>w. escapes_transport x w parent)) (\<lambda>escaped.
     andThen (guard (\<not> escaped) (''MCP Unix socket parent escaped /transport: '' @ parent)) (\<lambda>_.
     andThen (look (\<lambda>w. Inr (sx_stat x w p \<noteq> None))) (\<lambda>there.
     if there then replaceSocket x p else ret ())))))))"

definition unlinkIfSocket :: "'w sx \<Rightarrow> string \<Rightarrow> ('w, unit) act" where
  "unlinkIfSocket x p = andThen (look (\<lambda>w. found (sx_lstat x w p))) (\<lambda>st. if isSocket st then attempt_op (sx_unlink x p) else ret ())"

definition removeOwnedUnixSocket :: "'w sx \<Rightarrow> string \<Rightarrow> ('w, unit) act" where
  "removeOwnedUnixSocket x p =
    handle (unlinkIfSocket x p) (\<lambda>_. ret ())"

section \<open>Facts\<close>

lemma authorized_iff: "authorized tok r \<longleftrightarrow> tok = [] \<or> rq_authorization r = Some (''Bearer '' @ tok)"
proof -
  have "startsWith h ''Bearer '' \<and> drop 7 h = tok \<longleftrightarrow> h = ''Bearer '' @ tok" for h
    by (auto simp: startsWith_iff)
  then show ?thesis by (cases "rq_authorization r") (auto simp: authorized_def header_def)
qed

lemma loopback_started: "createApp c x host = Inr app \<Longrightarrow> isLoopbackHost host \<and> app = handleRequest x host"
  by (auto simp: createApp_def validateRuntimeConfig_def result_simps)

lemma close_exchange_stays: "ex_closed e \<Longrightarrow> (close_exchange ^^ n) e = e"
  by (induction n) (simp_all add: close_exchange_def)

text \<open>However often a response finishes or its connection closes, its transport is closed once.\<close>

lemma closed_once: "ex_closings ((close_exchange ^^ Suc n) opened) = 1"
proof -
  have "(close_exchange ^^ Suc n) opened = (close_exchange ^^ n) (close_exchange opened)" by (simp add: funpow_swap1)
  moreover have "ex_closed (close_exchange opened)" by (simp add: close_exchange_def opened_def)
  ultimately show ?thesis by (simp add: close_exchange_stays) (simp add: close_exchange_def opened_def)
qed

section \<open>Properties\<close>

text \<open>
  C36 (safety).  A server that starts hands a request to the MCP transport only if its Host header names the loopback
  interface and, when a token is configured, it carries exactly this token; the mount pattern of Express matches
  whatever its route pattern matches.
\<close>

theorem mcp_requests_checked:
  assumes "createApp c x host = Inr app" "app r = ToMcp" "\<And>p. ht_routed x ''/mcp'' p \<Longrightarrow> ht_mounted x ''/mcp'' p"
  shows "(ht_token x = [] \<or> rq_authorization r = Some (''Bearer '' @ ht_token x))
    \<and> lower (normalizeHost (header_hostname (header (rq_host r)))) \<in> set LOOPBACK_NAMES \<and> rq_method r = ''POST'' \<and> rq_body r = Parsed"
proof -
  have h: "isLoopbackHost host" and a: "app = handleRequest x host" using loopback_started [OF assms(1)] by auto
  show ?thesis
    using assms(2,3) h unfolding a handleRequest_def hostHeaderGuardFor_def Let_def
    by (auto simp: authorized_iff split: if_splits body.splits)
qed

text \<open>
  Preparing and removing the Unix socket removes nothing but a socket: a property of the file system that
  making the private parent directory and removing a socket keep is kept, however the calls fail.
\<close>

theorem only_sockets_removed:
  assumes "\<And>w. I w \<Longrightarrow> I (snd (sx_mkdir x (path_dirname p) w))"
    and "\<And>w st. I w \<Longrightarrow> sx_lstat x w p = Some st \<Longrightarrow> isSocket st \<Longrightarrow> I (snd (sx_unlink x p w))"
  shows "keeps I (prepareUnixSocket x p) \<and> keeps I (removeOwnedUnixSocket x p)"
proof -
  have u: "I s \<Longrightarrow> found (sx_lstat x s p) = Inr st \<Longrightarrow> isSocket st \<Longrightarrow> (case attempt_op (sx_unlink x p) s of (r, s', h) \<Rightarrow> I s' \<and> list_all I h)" for s st
    using assms(2) [of s st] by (auto simp: found_def attempt_op_def andThen_def call_def ret_def fail_def throw_def split: option.splits prod.splits sum.splits)
  have "keeps I (attempt_op (sx_mkdir x (path_dirname p)))"
    using assms(1) by (auto simp: keeps_def attempt_op_def andThen_def call_def ret_def fail_def throw_def split: prod.splits sum.splits) (metis snd_conv)+
  moreover have "keeps I (replaceSocket x p)" "keeps I (unlinkIfSocket x p)"
    unfolding keeps_def replaceSocket_def unlinkIfSocket_def andThen_def look_def guard_def
    using u by (auto simp: ret_def fail_def throw_def split: sum.splits prod.splits)
  ultimately show ?thesis
    unfolding prepareUnixSocket_def removeOwnedUnixSocket_def Let_def by (intro conjI keeps_andThen keeps_handle keeps_look keeps_if allI impI) auto
qed

end
