(* ===== verification/WorkspaceTools.thy ===== *)
theory WorkspaceTools
  imports HostIndex FileTools
begin

text \<open>
  The workspace tools (\<^verbatim>\<open>src/tools/workspace.js\<close>), over the index of host workspaces and the paths of a site.
  Writing the state file and the three Git probes of a snapshot are parameters.
\<close>

section \<open>Parameters\<close>

record 'r wt =
  wt_hx :: "'r hx"
  wt_site :: "'r hosts site"
  wt_limits :: limits
  wt_writeState :: "json \<Rightarrow> 'r hosts \<Rightarrow> unit result \<times> 'r hosts"
  wt_git :: "'r hosts \<Rightarrow> string list \<Rightarrow> string \<Rightarrow> proc_result"
  wt_catalogVersion :: string

abbreviation wt_fx :: "'r wt \<Rightarrow> 'r hosts fx" where "wt_fx t \<equiv> si_fx (wt_site t)"

definition wt_host :: "'r wt \<Rightarrow> bool" where
  "wt_host t = (c_profile (si_config (wt_site t)) = ''host'')"

definition wt_fails :: "'r wt \<Rightarrow> error \<Rightarrow> ('r, reply) hact" where
  "wt_fails t e = ret (fail_reply (wt_limits t) (message e) None)"

definition wt_json :: "'r wt \<Rightarrow> ('r, json) hact \<Rightarrow> ('r, reply) hact" where
  "wt_json t m = handle (andThen m (\<lambda>v. ret (json_reply (wt_limits t) v))) (wt_fails t)"

text \<open>An object with the keys that are there.\<close>

definition pick :: "string list \<Rightarrow> json \<Rightarrow> (string \<times> json) list" where
  "pick ks v = concat (map (\<lambda>k. case get v k of Some j \<Rightarrow> [(k, j)] | None \<Rightarrow> []) ks)"

definition stat_is_directory :: "'r wt \<Rightarrow> 'r hosts \<Rightarrow> string \<Rightarrow> bool result" where
  "stat_is_directory t s p =
    (case fx_stat (wt_fx t) s p of Present n \<Rightarrow> Inr (nd_kind n = Directory) | Absent \<Rightarrow> throw (''ENOENT: '' @ p) | Broken m \<Rightarrow> throw m)"

section \<open>Listing and opening\<close>

definition isVisiblePath :: "'r wt \<Rightarrow> 'r hosts \<Rightarrow> string \<Rightarrow> bool" where
  "isVisiblePath t s p = is_ok (assertStructuredPath (wt_site t) s False p)"

definition listed_workspace :: "json \<Rightarrow> json" where
  "listed_workspace r =
    JObj (pick [''id''] r @ [(''kind'', if truthy (get r ''kind'') then the (get r ''kind'') else JStr ''worktree'')] @
      pick [''project'', ''objective'', ''branch'', ''baseRef'', ''baseHead'', ''observedHead'', ''pr'', ''checkpoint'', ''createdAt'', ''updatedAt''] r)"

definition candidate_json :: "string \<times> git_state \<Rightarrow> json" where
  "candidate_json = (\<lambda>(p, st). JObj [(''worktreePath'', JStr p), (''head'', str_or_null (gs_head st)), (''branch'', JStr (gs_branch st)),
     (''dirty'', JBool (gs_dirty st)), (''status'', JArr (map JStr (gs_status st)))])"

definition workspace_list :: "'r wt \<Rightarrow> ('r, reply) hact" where
  "workspace_list t =
    (if \<not> wt_host t
     then andThen (look (\<lambda>s. bindE (currentWorkspace (wt_site t) s) (\<lambda>c. bindE (workspaceRoots (wt_fx t) (si_config (wt_site t)) s) (\<lambda>roots.
         Inr (JObj [(''current'', if c \<noteq> [] then JStr c else JNull), (''roots'', JArr (map JStr (filter (isVisiblePath t s) roots)))]))))) (\<lambda>v.
       ret (json_reply (wt_limits t) v))
     else handle
       (andThen (listWorkspaces (wt_hx t)) (\<lambda>rs.
        ret (json_reply (wt_limits t) (JObj [(''catalog'', JStr (wt_catalogVersion t)), (''workspaces'', JArr (map listed_workspace rs))]))))
       (\<lambda>e. andThen (recoverCandidates (wt_hx t)) (\<lambda>cs.
        ret (fail_reply (wt_limits t) (message e @ ''; recovery candidates: '' @ stringify (JArr (map candidate_json cs))) None))))"

definition workspace_open :: "'r wt \<Rightarrow> string \<Rightarrow> ('r, reply) hact" where
  "workspace_open t input =
    handle
      (andThen (look (\<lambda>s. bindE (resolveUserPath (wt_site t) s input []) (assertStructuredPath (wt_site t) s False))) (\<lambda>resolved.
       andThen (look (\<lambda>s. stat_is_directory t s resolved)) (\<lambda>dir.
       if \<not> dir then ret (fail_reply (wt_limits t) (resolved @ '' is not a directory'') None)
       else
         andThen (look (\<lambda>s. canonicalPath (wt_site t) s False resolved)) (\<lambda>canonical.
         andThen (look (\<lambda>s. Inr (put_field ''currentWorkspace'' (JStr canonical) (loadState (wt_fx t) (si_config (wt_site t)) s)))) (\<lambda>state.
         andThen (call (wt_writeState t (savedState (si_config (wt_site t)) state))) (\<lambda>r.
         case r of Inl e \<Rightarrow> fail (message e) | Inr _ \<Rightarrow> ret (ok_reply (wt_limits t) (''current workspace = '' @ canonical))))))))
      (wt_fails t)"

section \<open>Workspaces of the index\<close>

definition scope_of :: "json \<Rightarrow> json" where
  "scope_of args = (case get args ''scope'' of Some v \<Rightarrow> v | None \<Rightarrow> JArr [])"

definition base_of :: "json \<Rightarrow> json" where
  "base_of args = (case get args ''base'' of Some v \<Rightarrow> v | None \<Rightarrow> JStr ''HEAD'')"

definition workspace_create :: "'r wt \<Rightarrow> json \<Rightarrow> ('r, reply) hact" where
  "workspace_create t args = wt_json t
    (createWorkspace (wt_hx t) (get args ''repositoryPath'') (get args ''branch'') (Some (base_of args)) (get args ''objective'') (get args ''project'') (scope_of args))"

text \<open>Which of the two modes the arguments ask for.\<close>

definition attach_mode :: "json \<Rightarrow> bool result" where
  "attach_mode args =
    (let directoryMode = truthy (get args ''path'');
         branchMode = list_ex (\<lambda>k. truthy (get args k)) [''repositoryPath'', ''branch'', ''expectedHead'', ''remote''] in
     bindE (ensure (directoryMode \<noteq> branchMode) ''workspace_attach requires exactly one mode: path, or repositoryPath + branch + expectedHead'') (\<lambda>_.
     bindE (ensure (branchMode \<longrightarrow> list_all (\<lambda>k. truthy (get args k)) [''repositoryPath'', ''branch'', ''expectedHead'']) ''branch attachment requires repositoryPath, branch, and expectedHead'') (\<lambda>_.
     Inr directoryMode)))"

definition attach_directory :: "'r wt \<Rightarrow> 'r hosts \<Rightarrow> string \<Rightarrow> string result" where
  "attach_directory t s selected =
    (let expanded = expandHome (fx_home (wt_fx t)) selected in
     bindE (ensure (is_absolute expanded) ''workspace_attach paths must be absolute or start with ~'') (\<lambda>_.
     bindE (assertAllowed (wt_site t) s False expanded) (\<lambda>directoryPath.
     bindE (stat_is_directory t s directoryPath) (\<lambda>dir.
     bindE (ensure dir (directoryPath @ '' is not a directory'')) (\<lambda>_. Inr directoryPath)))))"

definition workspace_attach :: "'r wt \<Rightarrow> json \<Rightarrow> ('r, reply) hact" where
  "workspace_attach t args = wt_json t
    (andThen (look (\<lambda>_. attach_mode args)) (\<lambda>directoryMode.
     andThen (look (\<lambda>s. attach_directory t s (string_or_empty (get args (if directoryMode then ''path'' else ''repositoryPath''))))) (\<lambda>directoryPath.
     if directoryMode then attachWorkspace (wt_hx t) (Some (JStr directoryPath)) (get args ''objective'') (get args ''project'') (scope_of args)
     else attachBranch (wt_hx t) (Some (JStr directoryPath)) (get args ''branch'') (get args ''expectedHead'') (string_or_empty (get args ''remote''))
       (get args ''objective'') (get args ''project'') (scope_of args))))"

definition workspace_resume :: "'r wt \<Rightarrow> string \<Rightarrow> ('r, reply) hact" where
  "workspace_resume t workspaceId = wt_json t (resumeWorkspace (wt_hx t) workspaceId)"

definition workspace_status :: "'r wt \<Rightarrow> string \<Rightarrow> ('r, reply) hact" where
  "workspace_status t workspaceId = wt_json t (workspaceStatus (wt_hx t) workspaceId)"

definition workspace_checkpoint :: "'r wt \<Rightarrow> string \<Rightarrow> json \<Rightarrow> ('r, reply) hact" where
  "workspace_checkpoint t workspaceId checkpoint = wt_json t
    (checkpointWorkspace (wt_hx t) workspaceId (get checkpoint ''summary'') (get checkpoint ''pr'') (get checkpoint ''processIds''))"

definition workspace_recover :: "'r wt \<Rightarrow> ('r, reply) hact" where
  "workspace_recover t =
    andThen (recoverCandidates (wt_hx t)) (\<lambda>cs.
    ret (json_reply (wt_limits t) (JObj [(''candidates'', JArr (map candidate_json cs)), (''metadataChanged'', JBool False)])))"

section \<open>Looking at a workspace\<close>

definition no_workspace :: "'r wt \<Rightarrow> string" where
  "no_workspace t = (if wt_host t then ''no explicit host workspace'' else ''no current workspace - call workspace_open first'')"

definition tree_json :: "string \<times> (string \<times> node_kind) list \<times> bool \<Rightarrow> json" where
  "tree_json = (\<lambda>(root, out, truncated). JObj [(''root'', JStr root), (''count'', JNum (int (length out))), (''truncated'', JBool truncated),
     (''entries'', JArr (map (\<lambda>(p, k). JObj [(''path'', JStr p), (''type'', JStr (kind_name k))]) out))])"

definition workspace_tree :: "'r wt \<Rightarrow> string option \<Rightarrow> nat option \<Rightarrow> nat option \<Rightarrow> ('r, reply) hact" where
  "workspace_tree t input maxDepth maxEntries = wt_json t
    (andThen (look (\<lambda>s. case input of Some p \<Rightarrow> if p \<noteq> [] then resolveUserPath (wt_site t) s p [] else currentWorkspace (wt_site t) s
        | None \<Rightarrow> currentWorkspace (wt_site t) s)) (\<lambda>root.
     andThen (guard (root \<noteq> []) (if wt_host t then no_workspace t else no_workspace t @ '' or pass path'')) (\<lambda>_.
     look (\<lambda>s. bindE (walkTree (wt_site t) s (case maxDepth of Some n \<Rightarrow> n | None \<Rightarrow> 3) (case maxEntries of Some n \<Rightarrow> n | None \<Rightarrow> 400) root) (\<lambda>v. Inr (tree_json v))))))"

definition gitSnapshot :: "'r wt \<Rightarrow> 'r hosts \<Rightarrow> string \<Rightarrow> json" where
  "gitSnapshot t s root =
    (if \<not> existsSync (wt_fx t) s (path_join root ''.git'') then JObj [(''repository'', JBool False)]
     else let head = wt_git t s [''rev-parse'', ''--short'', ''HEAD''] root; branch = wt_git t s [''branch'', ''--show-current''] root;
              st = wt_git t s [''status'', ''--short''] root;
              shown = (\<lambda>r. if p_status r = Some 0 then JStr (trim (p_stdout r)) else JNull) in
       JObj [(''repository'', JBool True), (''head'', shown head), (''branch'', shown branch), (''dirty'', JBool (trim (p_stdout st) \<noteq> [])),
         (''status'', JArr (map JStr (take 100 (nonempty (split_lines (p_stdout st))))))])"

definition present_or_null :: "json option \<Rightarrow> json" where
  "present_or_null v = (if truthy v then the v else JNull)"

definition package_json :: "'r wt \<Rightarrow> 'r hosts \<Rightarrow> string \<Rightarrow> json result" where
  "package_json t s p =
    (if \<not> (existsSync (wt_fx t) s p \<and> isVisiblePath t s p) then Inr JNull
     else bindE (fx_readFile (wt_fx t) s p) (\<lambda>bytes.
       case JSON_parse (fx_decode (wt_fx t) bytes) of
         None \<Rightarrow> throw ''Unexpected token in JSON''
       | Some JNull \<Rightarrow> throw ''Cannot read properties of null (reading 'name')''
       | Some v \<Rightarrow> Inr (JObj [(''name'', present_or_null (get v ''name'')), (''version'', present_or_null (get v ''version'')),
           (''scripts'', JArr (map (JStr \<circ> fst) (if truthy (get v ''scripts'') then spread (the (get v ''scripts'')) else [])))])))"

definition top_names :: "'r wt \<Rightarrow> 'r hosts \<Rightarrow> string \<Rightarrow> dir_entry list \<Rightarrow> string list" where
  "top_names t s root es =
    take 100 (sort_strings (map path_basename (filter (isVisiblePath t s) (map (path_join root) (filter (\<lambda>n. n \<noteq> ''.DS_Store'') (map en_name es))))))"

definition workspace_snapshot :: "'r wt \<Rightarrow> ('r, reply) hact" where
  "workspace_snapshot t = wt_json t
    (andThen (look (currentWorkspace (wt_site t))) (\<lambda>root.
     andThen (guard (root \<noteq> []) (no_workspace t)) (\<lambda>_.
     look (\<lambda>s. bindE (fx_readdir (wt_fx t) s root) (\<lambda>es.
       bindE (package_json t s (path_join root ''package.json'')) (\<lambda>pkg.
       Inr (JObj [(''path'', JStr root), (''top'', JArr (map JStr (top_names t s root es))), (''package'', pkg), (''git'', gitSnapshot t s root)])))))))"

section \<open>Facts\<close>

lemma runs_wt_json: "runs (wt_json t m) s r s' \<Longrightarrow> \<not> rp_error r \<Longrightarrow> \<exists>v. runs m s v s' \<and> r = json_reply (wt_limits t) v"
  by (auto simp: wt_json_def wt_fails_def runs_handle run_simps)

lemma runs_look_bind: "runs (andThen (look f) g) s v s' \<longleftrightarrow> (\<exists>y. f s = Inr y \<and> runs (g y) s v s')"
  by (auto simp: run_simps)

lemma attached_directory:
  assumes "attach_directory t s selected = Inr d"
  shows "\<exists>n. assertAllowed (wt_site t) s False (expandHome (fx_home (wt_fx t)) selected) = Inr d \<and> fx_stat (wt_fx t) s d = Present n \<and> nd_kind n = Directory"
proof -
  obtain dir where "assertAllowed (wt_site t) s False (expandHome (fx_home (wt_fx t)) selected) = Inr d" "stat_is_directory t s d = Inr dir" "dir"
    using assms by (auto simp: attach_directory_def result_simps Let_def)
  then show ?thesis by (auto simp: stat_is_directory_def split: lookup.splits)
qed

lemma attach_modes:
  assumes "attach_mode args = Inr mode"
  shows "mode = truthy (get args ''path'')" "mode \<Longrightarrow> \<not> truthy (get args ''branch'')" "\<not> mode \<Longrightarrow> truthy (get args ''branch'') \<and> truthy (get args ''expectedHead'')"
proof -
  let ?b = "list_ex (\<lambda>k. truthy (get args k)) [''repositoryPath'', ''branch'', ''expectedHead'', ''remote'']"
  have m: "mode = truthy (get args ''path'')" "mode \<noteq> ?b" "?b \<longrightarrow> list_all (\<lambda>k. truthy (get args k)) [''repositoryPath'', ''branch'', ''expectedHead'']"
    using assms unfolding attach_mode_def Let_def by (simp_all only: bindE_Inr ensure_Inr sum.inject) blast+
  show "mode = truthy (get args ''path'')" by (rule m(1))
  show "mode \<Longrightarrow> \<not> truthy (get args ''branch'')" using m(2) by (simp only: list_ex_iff list.set insert_iff empty_iff) blast
  show "\<not> mode \<Longrightarrow> truthy (get args ''branch'') \<and> truthy (get args ''expectedHead'')" using m(2,3) by (simp only: list_all_iff list.set insert_iff empty_iff) blast
qed

text \<open>What leaves the index file as it is.\<close>

abbreviation same_index :: "json option option \<Rightarrow> 'r hosts \<Rightarrow> bool" where
  "same_index f s \<equiv> ho_file s = f"

lemma same_peek: "keeps I (peek f)"
  by (auto simp: keeps_def peek_def look_def)

lemma same_hspawn: "keeps (same_index f) (hspawn x args cwd)"
  by (auto simp: keeps_def hspawn_def andThen_def call_def look_def ret_def split: prod.splits)

lemma same_hgit: "keeps (same_index f) (hgit x args cwd)" "keeps (same_index f) (optionalGit x args cwd)"
  by (auto simp: hgit_def optionalGit_def intro!: hoare_intros same_hspawn)

lemma same_inspect: "keeps (same_index f) (inspectGit x p)" "keeps (same_index f) (inspectAttachedDirectory x p)" "keeps (same_index f) (inspectRecord x rec)"
  by (auto simp: inspectGit_def inspectAttachedDirectory_def inspectRepository_def inspectRecord_def Let_def intro!: hoare_intros same_hgit same_peek split: option.split)

lemma same_recover: "keeps (same_index f) (recoverCandidates x)"
proof -
  have "keeps (same_index f) (recoverEntries x es)" for es
    by (induction es) (auto simp: recoverEntry_def Let_def intro!: hoare_intros same_inspect)
  then show ?thesis by (auto simp: recoverCandidates_def intro!: hoare_intros same_peek)
qed

lemma same_readIndex: "keeps (same_index f) (readIndex x)"
  by (auto simp: readIndex_def intro!: hoare_intros same_recover split: option.split)

lemma keeps_wt_json: "keeps I m \<Longrightarrow> keeps I (wt_json t m)"
  by (auto simp: wt_json_def wt_fails_def intro!: hoare_intros)

section \<open>Properties\<close>

text \<open>
  C40 (safety).  Attaching answers only for an existing directory that the path policy allows, in exactly one of the two
  modes: the directory itself, or an exact branch at an expected commit in that repository.
\<close>

theorem attached_directory_allowed:
  assumes "runs (workspace_attach t args) s r s'" "\<not> rp_error r"
  shows "\<exists>d n v. assertAllowed (wt_site t) s False (expandHome (fx_home (wt_fx t)) (string_or_empty (get args (if truthy (get args ''path'') then ''path'' else ''repositoryPath'')))) = Inr d
    \<and> fx_stat (wt_fx t) s d = Present n \<and> nd_kind n = Directory \<and> r = json_reply (wt_limits t) v
    \<and> (if truthy (get args ''path'')
       then \<not> truthy (get args ''branch'') \<and> runs (attachWorkspace (wt_hx t) (Some (JStr d)) (get args ''objective'') (get args ''project'') (scope_of args)) s v s'
       else truthy (get args ''branch'') \<and> truthy (get args ''expectedHead'')
         \<and> runs (attachBranch (wt_hx t) (Some (JStr d)) (get args ''branch'') (get args ''expectedHead'') (string_or_empty (get args ''remote'')) (get args ''objective'') (get args ''project'') (scope_of args)) s v s')"
proof -
  obtain v where r: "r = json_reply (wt_limits t) v"
    and v: "runs (andThen (look (\<lambda>_. attach_mode args)) (\<lambda>directoryMode.
     andThen (look (\<lambda>s. attach_directory t s (string_or_empty (get args (if directoryMode then ''path'' else ''repositoryPath''))))) (\<lambda>directoryPath.
     if directoryMode then attachWorkspace (wt_hx t) (Some (JStr directoryPath)) (get args ''objective'') (get args ''project'') (scope_of args)
     else attachBranch (wt_hx t) (Some (JStr directoryPath)) (get args ''branch'') (get args ''expectedHead'') (string_or_empty (get args ''remote''))
       (get args ''objective'') (get args ''project'') (scope_of args)))) s v s'"
    using runs_wt_json [OF assms(1) [unfolded workspace_attach_def] assms(2)] by blast
  obtain mode d where m: "attach_mode args = Inr mode" and d: "attach_directory t s (string_or_empty (get args (if mode then ''path'' else ''repositoryPath''))) = Inr d"
    and k: "runs (if mode then attachWorkspace (wt_hx t) (Some (JStr d)) (get args ''objective'') (get args ''project'') (scope_of args)
     else attachBranch (wt_hx t) (Some (JStr d)) (get args ''branch'') (get args ''expectedHead'') (string_or_empty (get args ''remote''))
       (get args ''objective'') (get args ''project'') (scope_of args)) s v s'"
    using v unfolding runs_look_bind by (elim exE conjE) (rule that)
  note mode = attach_modes [OF m]
  show ?thesis using attached_directory [OF d] k mode r by (cases mode) auto
qed

text \<open>
  Listing, status, recovery, the tree and the snapshot never write the index of workspaces, whatever
  they meet.
\<close>

theorem reading_keeps_index:
  "keeps (same_index f) (workspace_list t) \<and> keeps (same_index f) (workspace_status t k) \<and> keeps (same_index f) (workspace_recover t)
    \<and> keeps (same_index f) (workspace_tree t input maxDepth maxEntries) \<and> keeps (same_index f) (workspace_snapshot t)"
proof -
  have "keeps (same_index f) (workspaceStatus (wt_hx t) k)"
    by (auto simp: workspaceStatus_def getWorkspace_def described_def intro!: hoare_intros same_readIndex same_inspect same_peek)
  moreover have "keeps (same_index f) (listWorkspaces (wt_hx t))"
    by (auto simp: listWorkspaces_def intro!: hoare_intros same_readIndex)
  ultimately show ?thesis
    by (auto simp: workspace_list_def workspace_status_def workspace_recover_def workspace_tree_def workspace_snapshot_def
        intro!: hoare_intros keeps_wt_json same_recover)
qed

end
