(* ===== verification/ServerWitness.thy ===== *)
theory ServerWitness
  imports GitWitness ProcessTools ServerFront WorkspaceTools
begin

text \<open>
  The properties of the server's front and of the tools around it at concrete inputs.
\<close>

section \<open>Requests and the socket\<close>

definition front :: http where
  "front = \<lparr>ht_mounted = (\<lambda>q p. startsWith p q), ht_routed = (\<lambda>q p. p = q), ht_token = ''t''\<rparr>"

definition front_request :: request where
  "front_request = \<lparr>rq_method = ''POST'', rq_path = ''/mcp'', rq_authorization = Some ''Bearer t'', rq_host = Some ''localhost:8765'', rq_body = Parsed\<rparr>"

lemma front_answers: "handleRequest front ''127.0.0.1'' front_request = ToMcp" "is_ok (createApp demo_config front ''127.0.0.1'')"
  by code_simp+

theorem mcp_request_witness: "rq_authorization front_request = Some (''Bearer '' @ ht_token front)"
proof -
  obtain app where app: "createApp demo_config front ''127.0.0.1'' = Inr app" using front_answers(2) by (auto simp: is_ok_def split: sum.splits)
  have "app front_request = ToMcp" using front_answers(1) loopback_started [OF app] by simp
  moreover have "ht_routed front ''/mcp'' p \<Longrightarrow> ht_mounted front ''/mcp'' p" for p by (simp add: front_def startsWith_iff)
  ultimately show ?thesis using mcp_requests_checked [OF app] by (auto simp: front_def)
qed

text \<open>A world that records what is removed; only \<open>/s/k\<close> is a socket.\<close>

definition socket_sx :: "string list sx" where
  "socket_sx = \<lparr>sx_mkdir = (\<lambda>_ w. (Inr (), w)), sx_unlink = (\<lambda>p w. (Inr (), p # w)),
    sx_stat = (\<lambda>_ p. Some \<lparr>st_kind = (if p = ''/s/k'' then ''socket'' else ''directory''), st_mode = 448, st_uid = 0, st_dev = 0, st_ino = 0, st_birthtime = None\<rparr>),
    sx_lstat = (\<lambda>_ p. Some \<lparr>st_kind = (if p = ''/s/k'' then ''socket'' else ''directory''), st_mode = 448, st_uid = 0, st_dev = 0, st_ino = 0, st_birthtime = None\<rparr>),
    sx_realpath = (\<lambda>_ p. Inr p), sx_cwd = ''/'', sx_hardened = False\<rparr>"

lemma socket_removed: "fst (snd (prepareUnixSocket socket_sx ''/s/k'' [])) = [''/s/k'']"
  by code_simp

theorem sockets_witness: "keeps (\<lambda>w. set w \<subseteq> {''/s/k''}) (prepareUnixSocket socket_sx ''/s/d'')"
proof -
  have "snd (sx_mkdir socket_sx (path_dirname ''/s/d'') w) = w" for w by (simp add: socket_sx_def)
  moreover have "\<not> (sx_lstat socket_sx w ''/s/d'' = Some st \<and> isSocket st)" for w st by (auto simp: socket_sx_def isSocket_def)
  ultimately show ?thesis using only_sockets_removed [of "\<lambda>w. set w \<subseteq> {''/s/k''}" socket_sx "''/s/d''"] by auto
qed

section \<open>Programs\<close>

definition shell_pt :: "(int \<times> string) list pt" where
  "shell_pt = \<lparr>pt_kx = listing_kx\<lparr>kx_site := (kx_site listing_kx)\<lparr>si_active := Some (''ws_1'', ''/r'')\<rparr>\<rparr>, pt_limits = \<lparr>max_stdout = 9, max_stderr = 9\<rparr>,
    pt_child = (\<lambda>prog args dir env sh timeout w. (([OutChunk ''hi''], Some 0, None), w))\<rparr>"

lemma shell_parts: "currentWorkspace (pt_site shell_pt) [] = Inr ''/r''"
  by code_simp

lemma shell_child: "pt_child shell_pt prog args dir env sh timeout w = (([OutChunk ''hi''], Some 0, None), w)"
  by (simp add: shell_pt_def)

lemma shell_done: "\<exists>r. runs (repo_shell shell_pt ''make'' None None) [] r [] \<and> \<not> rp_error r"
proof -
  have s: "runs (shell_root shell_pt None) [] ''/r'' []" by (simp add: shell_root_def given_def run_simps shell_parts)
  have t: "trim ''make'' \<noteq> []" by code_simp
  have "\<exists>v. runs (runCommand shell_pt (Line ''make'') ''/r'' None) [] v []"
    unfolding runCommand_def Let_def using t by (simp add: run_simps work_dir_def normalizeCommand_def shell_child)
  then obtain v where "runs (runCommand shell_pt (Line ''make'') ''/r'' None) [] v []" by blast
  then have "runs (andThen (shell_root shell_pt None) (\<lambda>root. runCommand shell_pt (Line ''make'') root None)) [] v []" by (rule runs_andThenI [OF s])
  then have "runs (repo_shell shell_pt ''make'' None None) [] (json_reply (pt_limits shell_pt) v) []"
    unfolding repo_shell_def pt_tool_def runs_handle by (intro disjI1) (rule runs_andThenI, assumption, simp add: run_simps)
  then show ?thesis using reply_kinds(3) by blast
qed

theorem shell_witness: "\<exists>root. root \<noteq> [] \<and> currentWorkspace (pt_site shell_pt) [] = Inr root"
proof -
  obtain r where r: "runs (repo_shell shell_pt ''make'' None None) [] r []" "\<not> rp_error r" using shell_done by blast
  from shell_runs_in_workspace [OF r] show ?thesis by (auto simp: given_def)
qed

lemma listed_none: "answered (listProcesses (pt_kx shell_pt) (Some ''ws_1'') [])" "the_answer (listProcesses (pt_kx shell_pt) (Some ''ws_1'') []) = []"
  by code_simp+

theorem foreign_process_witness: "\<exists>r w. runs (process_stop shell_pt ''p_1'') [] r w \<and> rp_error r"
proof -
  have a: "active_id shell_pt = Some ''ws_1''" by (simp add: active_id_def shell_pt_def)
  have l: "runs (listProcesses (pt_kx shell_pt) (Some ''ws_1'')) [] [] (fst (snd (listProcesses (pt_kx shell_pt) (Some ''ws_1'') [])))"
    using runs_answer [of "listProcesses (pt_kx shell_pt) (Some ''ws_1'')" "[]", OF listed_none(1)] listed_none(2) by simp
  from foreign_process_untouched [OF a _ l, of "''p_1''" None] show ?thesis by auto
qed

section \<open>Attaching a directory\<close>

definition tool_wt :: "bool wt" where
  "tool_wt = \<lparr>wt_hx = demo_host, wt_site = \<lparr>si_fx = (si_fx still_site)\<lparr>fx_stat := (\<lambda>_ p. Present \<lparr>nd_kind = Directory, nd_size = 0, nd_mtime = ''t'', nd_mode = 493\<rparr>)\<rparr>,
      si_config = tame_config, si_active = None\<rparr>,
    wt_limits = \<lparr>max_stdout = 9, max_stderr = 9\<rparr>, wt_writeState = (\<lambda>_ s. (Inr (), s)), wt_git = (\<lambda>_ _ _. answers []), wt_catalogVersion = ''v''\<rparr>"

definition attach_args :: json where
  "attach_args = JObj [(''path'', JStr ''/r''), (''objective'', JStr ''o'')]"

lemma attach_done: "\<exists>r s. runs (workspace_attach tool_wt attach_args) empty_host r s \<and> \<not> rp_error r"
proof -
  have m: "attach_mode attach_args = Inr True" by code_simp
  have d: "attach_directory tool_wt empty_host ''/r'' = Inr ''/r''" by code_simp
  have p: "string_or_empty (get attach_args (if True then ''path'' else ''repositoryPath'')) = ''/r''" by code_simp
  have w: "answered (attachWorkspace (wt_hx tool_wt) (Some (JStr ''/r'')) (get attach_args ''objective'') (get attach_args ''project'') (scope_of attach_args) empty_host)" by code_simp
  obtain v s where v: "runs (attachWorkspace (wt_hx tool_wt) (Some (JStr ''/r'')) (get attach_args ''objective'') (get attach_args ''project'') (scope_of attach_args)) empty_host v s"
    using runs_answer [of "attachWorkspace (wt_hx tool_wt) (Some (JStr ''/r'')) (get attach_args ''objective'') (get attach_args ''project'') (scope_of attach_args)" empty_host, OF w] by blast
  have "runs (andThen (look (\<lambda>_. attach_mode attach_args)) (\<lambda>directoryMode.
     andThen (look (\<lambda>s. attach_directory tool_wt s (string_or_empty (get attach_args (if directoryMode then ''path'' else ''repositoryPath''))))) (\<lambda>directoryPath.
     if directoryMode then attachWorkspace (wt_hx tool_wt) (Some (JStr directoryPath)) (get attach_args ''objective'') (get attach_args ''project'') (scope_of attach_args)
     else attachBranch (wt_hx tool_wt) (Some (JStr directoryPath)) (get attach_args ''branch'') (get attach_args ''expectedHead'') (string_or_empty (get attach_args ''remote''))
       (get attach_args ''objective'') (get attach_args ''project'') (scope_of attach_args)))) empty_host v s"
    unfolding runs_look_bind by (intro exI conjI) (rule m, simp only: p d, simp only: if_True v)
  then have "runs (workspace_attach tool_wt attach_args) empty_host (json_reply (wt_limits tool_wt) v) s"
    unfolding workspace_attach_def wt_json_def runs_handle by (intro disjI1) (rule runs_andThenI, assumption, simp add: run_simps)
  then show ?thesis using reply_kinds(3) by blast
qed

theorem attach_tool_witness: "\<exists>d n. fx_stat (wt_fx tool_wt) empty_host d = Present n \<and> nd_kind n = Directory"
proof -
  obtain r s where r: "runs (workspace_attach tool_wt attach_args) empty_host r s" "\<not> rp_error r" using attach_done by blast
  from attached_directory_allowed [OF r] show ?thesis by blast
qed

end
