(* ===== verification/GateCEvidence.thy ===== *)
theory GateCEvidence
  imports BrokerWorld TextTools JsonParse
begin

text \<open>
  The tool that collects the HC01 Gate-C evidence (\<^verbatim>\<open>src/tools/hc01-gate-c-evidence.js\<close>): a fixed
  collector program is run with a fixed environment, and the receipt it prints is answered only when it has exactly the
  reviewed shape and holds no private material.  The file system and the run of the program are parameters; every
  failure is the same refusal.
\<close>

section \<open>Constants\<close>

definition HC01_GATE_C_FAILURE :: string where
  "HC01_GATE_C_FAILURE = ''HC01_GATE_C_READONLY_EVIDENCE_REFUSED''"

definition SOURCE_KEYS :: "string list" where
  "SOURCE_KEYS = [''canonical_git'', ''provider_catalog_revision'', ''provider_identity'', ''entitlement_observation'', ''host_binding'',
    ''runtime_snapshot'', ''enforcement_attestation'', ''economics_observation'', ''live_runtime'', ''state_store'', ''checkpoint'']"

definition PROOF_EXTRAS :: "string list" where
  "PROOF_EXTRAS = [''initial_profile_registry_seed'', ''profile_registry_revision'']"

definition DIGEST :: "string \<Rightarrow> bool" where
  "DIGEST s = (startsWith s ''sha256:'' \<and> hex_exact 64 (drop 7 s))"

definition PRIVATE_PATTERNS :: "re list" where
  "PRIVATE_PATTERNS =
    [lit_i ''-----BEGIN'', Seq (lit_i ''bearer'') (Chr is_space), lit_i ''authorization'', lit_i ''password'', lit_i ''credential'',
     Seq (lit_i ''private'') (Seq (Opt (Chr (one_of ''_ -''))) (lit_i ''key'')), Seq (lit_i ''private'') (Seq (Opt (Chr (one_of ''_ -''))) (lit_i ''binding'')),
     lit_i ''secret'', lit_i ''token'', Seq (lit_i ''api'') (Seq (Opt (Chr (one_of ''_ -''))) (lit_i ''key'')),
     lit_i ''/private/'', lit_i ''/Users/'', lit_i ''/home/'']"

definition PRIVATE_MATERIAL :: re where
  "PRIVATE_MATERIAL = alts PRIVATE_PATTERNS"

definition FIXED_COLLECTOR_ENV :: "(string \<times> string) list" where
  "FIXED_COLLECTOR_ENV = [(''PATH'', ''/usr/bin:/bin''), (''LANG'', ''C''), (''LC_ALL'', ''C''), (''NODE_NO_WARNINGS'', ''1'')]"

section \<open>The shape of a receipt\<close>

definition refuse_unless :: "bool \<Rightarrow> unit result" where
  "refuse_unless b = ensure b HC01_GATE_C_FAILURE"

text \<open>A value is answered as it is; the results below are checks only.\<close>

definition exactKeys :: "json option \<Rightarrow> string list \<Rightarrow> string list \<Rightarrow> json result" where
  "exactKeys v required optional =
    (case v of
       Some (JObj kvs) \<Rightarrow>
         bindE (refuse_unless (list_all (\<lambda>k. k \<in> fst ` set kvs) required \<and> list_all (\<lambda>kv. fst kv \<in> set required \<or> fst kv \<in> set optional) kvs)) (\<lambda>_.
         Inr (JObj kvs))
     | _ \<Rightarrow> throw HC01_GATE_C_FAILURE)"

fun noPrivateMaterial :: "json \<Rightarrow> bool" where
  "noPrivateMaterial (JStr s) = (\<not> re_test PRIVATE_MATERIAL s)"
| "noPrivateMaterial (JArr xs) = list_all noPrivateMaterial xs"
| "noPrivateMaterial (JObj kvs) = list_all (\<lambda>(k, v). noPrivateMaterial v) kvs"
| "noPrivateMaterial _ = True"

definition str_value :: "json option \<Rightarrow> bool" where
  "str_value v = (case v of Some (JStr _) \<Rightarrow> True | _ \<Rightarrow> False)"

definition digest :: "json option \<Rightarrow> unit result" where
  "digest v = refuse_unless (case v of Some (JStr s) \<Rightarrow> DIGEST s | _ \<Rightarrow> False)"

text \<open>A list that may be missing, each of whose items passes.\<close>

definition optional_list :: "(json \<Rightarrow> bool) \<Rightarrow> json option \<Rightarrow> bool" where
  "optional_list ok v = (case v of None \<Rightarrow> True | Some (JArr xs) \<Rightarrow> list_all ok xs | _ \<Rightarrow> False)"

definition validateReadiness :: "json option \<Rightarrow> unit result" where
  "validateReadiness v =
    bindE (exactKeys v [''schema_version'', ''scope'', ''state'', ''next_action'', ''downstream_state'']
      [''missing_owner_keys'', ''dependency_keys'', ''subject_digests'', ''evidence_digests'']) (\<lambda>r.
    bindE (refuse_unless (list_all (\<lambda>k. str_value (get r k)) [''schema_version'', ''scope'', ''state'', ''next_action'', ''downstream_state''])) (\<lambda>_.
    bindE (refuse_unless (list_all (\<lambda>k. optional_list (\<lambda>j. str_value (Some j)) (get r k)) [''missing_owner_keys'', ''dependency_keys''])) (\<lambda>_.
    refuse_unless (list_all (\<lambda>k. optional_list (\<lambda>j. is_ok (digest (Some j))) (get r k)) [''subject_digests'', ''evidence_digests'']))))"

definition SUBJECT :: "json option \<Rightarrow> bool" where
  "SUBJECT v = (case v of Some (JStr s) \<Rightarrow> hex_exact 40 s | _ \<Rightarrow> False)"

text \<open>A receipt that says the collector refused.\<close>

definition validateRefused :: "json \<Rightarrow> unit result" where
  "validateRefused r =
    bindE (refuse_unless (get r ''code'' = Some (JStr HC01_GATE_C_FAILURE))) (\<lambda>_.
    bindE (refuse_unless (list_all (\<lambda>k. get r k = None) [''observed_at'', ''source_keys'', ''source_owner_proof_digests'', ''host_binding'', ''q'', ''closure_freeze_digest''])) (\<lambda>_.
    bindE (refuse_unless (get r ''state_status'' = None \<or> str_value (get r ''state_status''))) (\<lambda>_.
    if get r ''readiness'' = None then Inr () else validateReadiness (get r ''readiness''))))"

definition validateProofs :: "json option \<Rightarrow> unit result" where
  "validateProofs v = bindE (exactKeys v SOURCE_KEYS PROOF_EXTRAS) (\<lambda>p. case p of JObj kvs \<Rightarrow> forE (\<lambda>kv. digest (Some (snd kv))) kvs | _ \<Rightarrow> Inr ())"

definition validateHost :: "json option \<Rightarrow> unit result" where
  "validateHost v =
    bindE (exactKeys v [''owner_reference'', ''reference_id'', ''snapshot_digest'', ''attested'', ''owner_proof_digest'', ''observed_at'', ''valid_until''] []) (\<lambda>h.
    bindE (refuse_unless (str_value (get h ''owner_reference'') \<and> str_value (get h ''reference_id'') \<and> get h ''attested'' = Some (JBool True)
      \<and> str_value (get h ''observed_at'') \<and> str_value (get h ''valid_until''))) (\<lambda>_.
    bindE (digest (get h ''snapshot_digest'')) (\<lambda>_. digest (get h ''owner_proof_digest''))))"

definition validateWindow :: "json option \<Rightarrow> unit result" where
  "validateWindow v =
    bindE (exactKeys v [''valid_from'', ''expiry''] []) (\<lambda>w. refuse_unless (str_value (get w ''valid_from'') \<and> str_value (get w ''expiry'')))"

definition validateFreeze :: "json \<Rightarrow> unit result" where
  "validateFreeze r =
    bindE (refuse_unless (get r ''card_window'' \<noteq> None)) (\<lambda>_.
    bindE (exactKeys (get r ''q'') [''schema_version'', ''request_digest'', ''q_digest''] []) (\<lambda>q.
    bindE (refuse_unless (get q ''schema_version'' = Some (JStr ''authority-closure-freeze-q/v2''))) (\<lambda>_.
    bindE (digest (get q ''request_digest'')) (\<lambda>_. bindE (digest (get q ''q_digest'')) (\<lambda>_. digest (get r ''closure_freeze_digest''))))))"

definition receipt_shape :: "json \<Rightarrow> json result" where
  "receipt_shape v =
    bindE (exactKeys (Some v) [''schema_version'', ''adapter'', ''status'', ''release'']
      [''code'', ''observed_at'', ''source_keys'', ''source_owner_proof_digests'', ''state_status'', ''readiness'', ''host_binding'', ''card_window'', ''q'', ''closure_freeze_digest'']) (\<lambda>r.
    bindE (refuse_unless (get r ''schema_version'' = Some (JStr ''gate-c-readonly-owner-evidence-receipt/v1'') \<and> get r ''adapter'' = Some (JStr ''hc01-gate-c-readonly-owner-evidence/v1''))) (\<lambda>_.
    bindE (refuse_unless (get r ''status'' \<in> (\<lambda>s. Some (JStr s)) ` set [''REFUSED'', ''CARD_WINDOW_REQUIRED'', ''FREEZE_READY''])) (\<lambda>_.
    bindE (exactKeys (get r ''release'') [''repository'', ''subject''] []) (\<lambda>release.
    bindE (refuse_unless (get release ''repository'' = Some (JStr ''cardkazuma/ai-project-execution'') \<and> str_value (get release ''subject'')
      \<and> (get release ''subject'' = Some (JStr ''unavailable'') \<or> SUBJECT (get release ''subject'')))) (\<lambda>_.
    if get r ''status'' = Some (JStr ''REFUSED'') then bindE (validateRefused r) (\<lambda>_. Inr r)
    else
      bindE (refuse_unless (SUBJECT (get release ''subject'') \<and> str_value (get r ''observed_at'') \<and> get r ''source_keys'' = Some (JArr (map JStr SOURCE_KEYS)))) (\<lambda>_.
      bindE (refuse_unless (get r ''state_status'' \<in> (\<lambda>s. Some (JStr s)) ` set [''ABSENT_EXPECTED'', ''PRESENT_RECONCILED''])) (\<lambda>_.
      bindE (validateProofs (get r ''source_owner_proof_digests'')) (\<lambda>_.
      bindE (validateReadiness (get r ''readiness'')) (\<lambda>_.
      bindE (validateHost (get r ''host_binding'')) (\<lambda>_.
      bindE (if get r ''card_window'' = None then Inr () else validateWindow (get r ''card_window'')) (\<lambda>_.
      bindE (refuse_unless (\<not> (get r ''status'' = Some (JStr ''CARD_WINDOW_REQUIRED'') \<and> get r ''q'' \<noteq> None))) (\<lambda>_.
      bindE (if get r ''status'' = Some (JStr ''FREEZE_READY'') then validateFreeze r else Inr ()) (\<lambda>_.
      Inr r)))))))))))))"

text \<open>Both kinds of receipt end with the search for private material.\<close>

definition validateReceipt :: "json \<Rightarrow> json result" where
  "validateReceipt v = bindE (receipt_shape v) (\<lambda>r. bindE (refuse_unless (noPrivateMaterial r)) (\<lambda>_. Inr r))"

section \<open>The collector\<close>

record collector_answer =
  ca_failed :: bool
  ca_stdout :: string
  ca_stderr :: string

text \<open>\<open>gc_exec\<close>: program, arguments, directory, environment, time-out and buffer; \<open>gc_decode\<close> is strict UTF-8.\<close>

record 'w gc =
  gc_lstat :: "'w \<Rightarrow> string \<Rightarrow> fstat option"
  gc_realpath :: "'w \<Rightarrow> string \<Rightarrow> string result"
  gc_exec :: "string \<Rightarrow> string list \<Rightarrow> string \<Rightarrow> (string \<times> string) list \<Rightarrow> nat \<Rightarrow> nat \<Rightarrow> 'w \<Rightarrow> collector_answer \<times> 'w"
  gc_decode :: "string \<Rightarrow> string option"
  gc_node :: string
  gc_cwd :: string
  gc_profile :: string
  gc_collectorRoot :: string
  gc_controllerConfig :: string
  gc_limits :: limits

definition absolutePath :: "'w gc \<Rightarrow> string \<Rightarrow> string result" where
  "absolutePath x v = bindE (refuse_unless (is_absolute v \<and> path_resolve (gc_cwd x) v = v \<and> nul \<notin> set v)) (\<lambda>_. Inr v)"

definition gc_entry :: "'w gc \<Rightarrow> 'w \<Rightarrow> (fstat \<Rightarrow> bool) \<Rightarrow> string \<Rightarrow> string result" where
  "gc_entry x w good target =
    (case gc_lstat x w target of
       None \<Rightarrow> throw ''ENOENT''
     | Some st \<Rightarrow>
         bindE (gc_realpath x w target) (\<lambda>real.
         bindE (refuse_unless (good st \<and> \<not> isSymbolicLink st \<and> real = target)) (\<lambda>_. Inr target)))"

definition privateDirectory :: "'w gc \<Rightarrow> 'w \<Rightarrow> string \<Rightarrow> string result" where
  "privateDirectory x w v = bindE (absolutePath x v) (gc_entry x w (\<lambda>st. BrokerWorld.isDirectory st \<and> \<not> mode_has (st_mode st) 18))"

definition privateConfig :: "'w gc \<Rightarrow> 'w \<Rightarrow> string \<Rightarrow> string result" where
  "privateConfig x w v = bindE (absolutePath x v) (gc_entry x w (\<lambda>st. isFile st \<and> st_mode st mod 512 = 384))"

definition collectorEntrypoint :: "'w gc \<Rightarrow> 'w \<Rightarrow> string \<Rightarrow> string result" where
  "collectorEntrypoint x w root =
    bindE (privateDirectory x w root) (\<lambda>d.
    gc_entry x w (\<lambda>st. isFile st \<and> \<not> mode_has (st_mode st) 18) (foldl path_join d [''dist'', ''controller'', ''hc01_owner_evidence_cli.js'']))"

text \<open>What is answered of a run.\<close>

definition read_receipt :: "'w gc \<Rightarrow> collector_answer \<Rightarrow> json result" where
  "read_receipt x a =
    bindE (refuse_unless (\<not> ca_failed a \<and> ca_stderr a = [])) (\<lambda>_.
    case gc_decode x (ca_stdout a) of
      None \<Rightarrow> throw HC01_GATE_C_FAILURE
    | Some t \<Rightarrow>
        bindE (refuse_unless (byteLength t \<le> 1000000)) (\<lambda>_.
        case JSON_parse t of None \<Rightarrow> throw HC01_GATE_C_FAILURE | Some v \<Rightarrow> validateReceipt v))"

definition runHC01GateCCollector :: "'w gc \<Rightarrow> ('w, json) act" where
  "runHC01GateCCollector x =
    handle
      (andThen (look (\<lambda>w. collectorEntrypoint x w (gc_collectorRoot x))) (\<lambda>entry.
       andThen (look (\<lambda>w. privateConfig x w (gc_controllerConfig x))) (\<lambda>config.
       andThen (call (gc_exec x (gc_node x) [entry, ''--config'', config] (path_dirname (path_dirname (path_dirname entry))) FIXED_COLLECTOR_ENV 120000 1000000)) (\<lambda>a.
       look (\<lambda>_. read_receipt x a)))))
      (\<lambda>_. fail HC01_GATE_C_FAILURE)"

definition emptyInput :: "json \<Rightarrow> bool" where
  "emptyInput v = (v = JObj [])"

definition collect_hc01_gate_c_readonly_evidence :: "'w gc \<Rightarrow> json \<Rightarrow> ('w, reply) act" where
  "collect_hc01_gate_c_readonly_evidence x args =
    (let refused = fail_reply (gc_limits x) HC01_GATE_C_FAILURE None in
     if gc_profile x \<noteq> ''host'' \<or> \<not> emptyInput args then ret refused
     else handle
       (andThen (runHC01GateCCollector x) (\<lambda>receipt.
        if get receipt ''status'' = Some (JStr ''REFUSED'') then ret refused else ret (json_reply (gc_limits x) receipt)))
       (\<lambda>_. ret refused))"

section \<open>Facts\<close>

lemma refuse_Inr [result_simps]: "refuse_unless b = Inr u \<longleftrightarrow> b"
  by (simp add: refuse_unless_def)

lemma exactKeys_Inr [result_simps]:
  "exactKeys v req opt = Inr r \<longleftrightarrow> v = Some r \<and> is_obj r \<and> set req \<subseteq> set (keys r) \<and> set (keys r) \<subseteq> set req \<union> set opt"
  by (cases v; cases r) (auto simp: exactKeys_def result_simps list_all_iff is_obj_def split: json.splits)

lemma digest_Inr [result_simps]: "digest v = Inr u \<longleftrightarrow> (\<exists>d. v = Some (JStr d) \<and> DIGEST d)"
  by (auto simp: digest_def result_simps split: option.splits json.splits)

lemma SUBJECT_iff: "SUBJECT v \<longleftrightarrow> (\<exists>d. v = Some (JStr d) \<and> hex_exact 40 d)"
  by (auto simp: SUBJECT_def split: option.splits json.splits)

text \<open>All strings in a value.\<close>

fun strings_in :: "json \<Rightarrow> string list" where
  "strings_in (JStr s) = [s]"
| "strings_in (JArr xs) = concat (map strings_in xs)"
| "strings_in (JObj kvs) = concat (map (\<lambda>(k, v). strings_in v) kvs)"
| "strings_in _ = []"

lemma private_free: "noPrivateMaterial v \<longleftrightarrow> (\<forall>s \<in> set (strings_in v). \<not> re_test PRIVATE_MATERIAL s)"
  by (induction v rule: noPrivateMaterial.induct) (auto simp: list_all_iff; fastforce)+

text \<open>What matches holds one of these words, in any case.\<close>

definition PRIVATE_WORDS :: "string list" where
  "PRIVATE_WORDS = [''-----begin'', ''bearer'', ''authorization'', ''password'', ''credential'', ''private'', ''secret'', ''token'', ''api'', ''/private/'', ''/users/'', ''/home/'']"

lemma lower_upper: "lower_char (upper_char c) = lower_char c"
  unfolding char_eq_nat [of "lower_char _"] by (auto simp: upper_char_def lower_char_def Let_def)

lemma ci_lower: "ci (\<lambda>x. x = k) c \<Longrightarrow> lower_char c = lower_char k"
  using lower_upper [of c] by (auto simp: ci_def)

lemma lit_i_starts: "matches (lit_i w) (p, s) \<noteq> [] \<Longrightarrow> \<exists>t. lower s = lower w @ t"
proof (induction w arbitrary: p s)
  case (Cons k w)
  then show ?case by (cases s) (auto simp: ci_lower split: if_splits)
qed (simp add: lower_def)

lemma re_test_lit_i: "re_test (lit_i w) s \<Longrightarrow> str_includes (lower s) (lower w)"
proof -
  assume "re_test (lit_i w) s"
  then obtain a b where "s = a @ b" "matches (lit_i w) (if a = [] then None else Some (last a), b) \<noteq> []" by (auto simp: re_test_iff)
  then show ?thesis using lit_i_starts by (fastforce simp: str_includes_iff lower_def)
qed

lemma re_test_Seq: "re_test (Seq r q) s \<Longrightarrow> re_test r s"
  unfolding re_test_iff matches.simps by (metis concat.simps(1) list.simps(8))

definition PRIVATE_STEMS :: "string list" where
  "PRIVATE_STEMS = [''-----BEGIN'', ''bearer'', ''authorization'', ''password'', ''credential'', ''private'', ''private'', ''secret'', ''token'', ''api'', ''/private/'', ''/Users/'', ''/home/'']"

lemma private_stems: "list_all (\<lambda>w. lower w \<in> set PRIVATE_WORDS) PRIVATE_STEMS"
  by code_simp

lemma private_patterns: "list_all2 (\<lambda>w r. r = lit_i w \<or> (\<exists>q. r = Seq (lit_i w) q)) PRIVATE_STEMS PRIVATE_PATTERNS"
  unfolding PRIVATE_STEMS_def PRIVATE_PATTERNS_def by (simp del: lit_i.simps)

lemma private_words: "re_test PRIVATE_MATERIAL s \<Longrightarrow> \<exists>w \<in> set PRIVATE_WORDS. str_includes (lower s) w"
proof -
  assume "re_test PRIVATE_MATERIAL s"
  moreover have "PRIVATE_PATTERNS \<noteq> []" by (simp add: PRIVATE_PATTERNS_def)
  ultimately obtain r where r: "r \<in> set PRIVATE_PATTERNS" "re_test r s" unfolding PRIVATE_MATERIAL_def using re_test_alts by blast
  obtain i where i: "i < length PRIVATE_PATTERNS" "r = PRIVATE_PATTERNS ! i" using r(1) by (auto simp: in_set_conv_nth)
  let ?w = "PRIVATE_STEMS ! i"
  have w: "?w \<in> set PRIVATE_STEMS" "r = lit_i ?w \<or> (\<exists>q. r = Seq (lit_i ?w) q)"
    using private_patterns i by (simp_all add: list_all2_conv_all_nth)
  have "re_test (lit_i ?w) s" using w(2) r(2) re_test_Seq by auto
  then show ?thesis using re_test_lit_i private_stems w(1) by (auto simp: list_all_iff)
qed

lemma proofs_checked: "validateProofs v = Inr u \<longleftrightarrow> (\<exists>kvs. v = Some (JObj kvs) \<and> set SOURCE_KEYS \<subseteq> fst ` set kvs \<and> fst ` set kvs \<subseteq> set SOURCE_KEYS \<union> set PROOF_EXTRAS
    \<and> (\<forall>kv \<in> set kvs. \<exists>d. snd kv = JStr d \<and> DIGEST d))"
proof (cases v)
  case (Some j)
  then show ?thesis by (cases j) (auto simp: validateProofs_def result_simps is_obj_def)
qed (simp add: validateProofs_def result_simps)

lemma host_checked: "validateHost v = Inr u \<Longrightarrow> \<exists>h a b. v = Some h \<and> get h ''attested'' = Some (JBool True)
    \<and> get h ''snapshot_digest'' = Some (JStr a) \<and> DIGEST a \<and> get h ''owner_proof_digest'' = Some (JStr b) \<and> DIGEST b"
  by (auto simp: validateHost_def result_simps)

lemma freeze_checked: "validateFreeze r = Inr u \<Longrightarrow> \<exists>q a b c. get r ''q'' = Some q \<and> get q ''request_digest'' = Some (JStr a) \<and> DIGEST a
    \<and> get q ''q_digest'' = Some (JStr b) \<and> DIGEST b \<and> get r ''closure_freeze_digest'' = Some (JStr c) \<and> DIGEST c"
  by (auto simp: validateFreeze_def result_simps)

text \<open>What a receipt that is answered is.\<close>

definition typed_receipt :: "json \<Rightarrow> bool" where
  "typed_receipt r =
    ((\<exists>rel sha. get r ''release'' = Some rel \<and> get rel ''repository'' = Some (JStr ''cardkazuma/ai-project-execution'') \<and> get rel ''subject'' = Some (JStr sha) \<and> hex_exact 40 sha)
     \<and> get r ''source_keys'' = Some (JArr (map JStr SOURCE_KEYS))
     \<and> (\<exists>kvs. get r ''source_owner_proof_digests'' = Some (JObj kvs) \<and> set SOURCE_KEYS \<subseteq> fst ` set kvs \<and> (\<forall>kv \<in> set kvs. \<exists>d. snd kv = JStr d \<and> DIGEST d))
     \<and> (\<exists>h a. get r ''host_binding'' = Some h \<and> get h ''attested'' = Some (JBool True) \<and> get h ''snapshot_digest'' = Some (JStr a) \<and> DIGEST a)
     \<and> (get r ''status'' = Some (JStr ''CARD_WINDOW_REQUIRED'') \<and> get r ''q'' = None
        \<or> get r ''status'' = Some (JStr ''FREEZE_READY'') \<and> (\<exists>c. get r ''closure_freeze_digest'' = Some (JStr c) \<and> DIGEST c))
     \<and> (\<forall>s \<in> set (strings_in r). \<not> re_test PRIVATE_MATERIAL s))"

lemma receipt_typed:
  assumes "validateReceipt v = Inr r" "get r ''status'' \<noteq> Some (JStr ''REFUSED'')"
  shows "typed_receipt r"
proof -
  obtain release where rel: "get r ''release'' = Some release" "get release ''repository'' = Some (JStr ''cardkazuma/ai-project-execution'')" "SUBJECT (get release ''subject'')"
    and st: "get r ''status'' = Some (JStr ''CARD_WINDOW_REQUIRED'') \<or> get r ''status'' = Some (JStr ''FREEZE_READY'')"
    and ks: "get r ''source_keys'' = Some (JArr (map JStr SOURCE_KEYS))" and pr: "validateProofs (get r ''source_owner_proof_digests'') = Inr ()"
    and ho: "validateHost (get r ''host_binding'') = Inr ()" and q: "get r ''status'' = Some (JStr ''CARD_WINDOW_REQUIRED'') \<longrightarrow> get r ''q'' = None"
    and fr: "get r ''status'' = Some (JStr ''FREEZE_READY'') \<longrightarrow> validateFreeze r = Inr ()" and pm: "noPrivateMaterial r"
    using assms unfolding validateReceipt_def receipt_shape_def by (auto simp: result_simps split: if_splits)
  obtain sha where "get release ''subject'' = Some (JStr sha)" "hex_exact 40 sha" using rel(3) by (auto simp: SUBJECT_iff)
  moreover obtain kvs where "get r ''source_owner_proof_digests'' = Some (JObj kvs)" "set SOURCE_KEYS \<subseteq> fst ` set kvs" "\<forall>kv \<in> set kvs. \<exists>d. snd kv = JStr d \<and> DIGEST d"
    using pr by (auto simp: proofs_checked)
  moreover obtain h a where "get r ''host_binding'' = Some h" "get h ''attested'' = Some (JBool True)" "get h ''snapshot_digest'' = Some (JStr a)" "DIGEST a"
    using host_checked [OF ho] by blast
  moreover have "get r ''status'' = Some (JStr ''FREEZE_READY'') \<longrightarrow> (\<exists>c. get r ''closure_freeze_digest'' = Some (JStr c) \<and> DIGEST c)"
    using fr freeze_checked by blast
  ultimately show ?thesis unfolding typed_receipt_def using rel st ks q pm private_free by blast
qed

lemma entry_checked: "gc_entry x w good target = Inr p \<longleftrightarrow> p = target \<and> (\<exists>st. gc_lstat x w target = Some st \<and> good st \<and> \<not> isSymbolicLink st \<and> gc_realpath x w target = Inr target)"
  by (auto simp: gc_entry_def result_simps split: option.splits)

section \<open>Properties\<close>



end
