(* ===== verification/EvidenceWitness.thy ===== *)
theory EvidenceWitness
  imports GateCEvidence
begin

text \<open>
  A receipt that passes, and the properties of the evidence tool applied to the run that answers it.
\<close>

definition some_digest :: json where
  "some_digest = JStr (''sha256:'' @ replicate 64 (CHR ''a''))"

definition some_receipt :: json where
  "some_receipt = JObj
    [(''schema_version'', JStr ''gate-c-readonly-owner-evidence-receipt/v1''), (''adapter'', JStr ''hc01-gate-c-readonly-owner-evidence/v1''),
     (''status'', JStr ''CARD_WINDOW_REQUIRED''),
     (''release'', JObj [(''repository'', JStr ''cardkazuma/ai-project-execution''), (''subject'', JStr (replicate 40 (CHR ''b'')))]),
     (''observed_at'', JStr ''2024''), (''source_keys'', JArr (map JStr SOURCE_KEYS)), (''source_owner_proof_digests'', JObj (map (\<lambda>k. (k, some_digest)) SOURCE_KEYS)),
     (''state_status'', JStr ''ABSENT_EXPECTED''),
     (''readiness'', JObj (map (\<lambda>k. (k, JStr ''x'')) [''schema_version'', ''scope'', ''state'', ''next_action'', ''downstream_state''])),
     (''host_binding'', JObj [(''owner_reference'', JStr ''o''), (''reference_id'', JStr ''r''), (''snapshot_digest'', some_digest), (''attested'', JBool True),
       (''owner_proof_digest'', some_digest), (''observed_at'', JStr ''2024''), (''valid_until'', JStr ''2025'')])]"

definition evidence_gc :: "unit gc" where
  "evidence_gc = \<lparr>gc_lstat = (\<lambda>_ p. Some \<lparr>st_kind = (if p = ''/c'' then ''directory'' else ''file''), st_mode = 384, st_uid = 0, st_dev = 0, st_ino = 0, st_birthtime = None\<rparr>),
    gc_realpath = (\<lambda>_ p. Inr p), gc_exec = (\<lambda>prog args dir env timeout buffer w. (\<lparr>ca_failed = False, ca_stdout = stringify some_receipt, ca_stderr = []\<rparr>, w)),
    gc_decode = Some, gc_node = ''/node'', gc_cwd = ''/'', gc_profile = ''host'', gc_collectorRoot = ''/c'', gc_controllerConfig = ''/g'', gc_limits = \<lparr>max_stdout = 9, max_stderr = 9\<rparr>\<rparr>"

lemma receipt_shaped: "receipt_shape some_receipt = Inr some_receipt"
  by code_simp

text \<open>A search that stops at the first character that differs.\<close>

fun begins :: "string \<Rightarrow> string \<Rightarrow> bool" where
  "begins [] s = True"
| "begins (c # w) [] = False"
| "begins (c # w) (d # s) = (c = d \<and> begins w s)"

fun holds_word :: "string \<Rightarrow> string \<Rightarrow> bool" where
  "holds_word w [] = (w = [])"
| "holds_word w (c # s) = (begins w (c # s) \<or> holds_word w s)"

lemma begins_startsWith: "begins w s = startsWith s w"
  by (induction w s rule: begins.induct) auto

lemma holds_word_includes: "holds_word w s = str_includes s w"
  by (induction s) (simp_all add: begins_startsWith)

definition receipt_strings :: "string list" where
  "receipt_strings = remdups (strings_in some_receipt)"

definition wordless :: "string \<Rightarrow> bool" where
  "wordless s = (let l = lower s in \<not> list_ex (\<lambda>w. holds_word w l) PRIVATE_WORDS)"

lemma receipt_wordless: "list_all wordless (take 6 receipt_strings)" "list_all wordless (take 6 (drop 6 receipt_strings))"
    "list_all wordless (drop 12 receipt_strings)"
  by code_simp+

lemma receipt_words: "s \<in> set (strings_in some_receipt) \<Longrightarrow> wordless s"
proof -
  assume "s \<in> set (strings_in some_receipt)"
  then have "s \<in> set (take 6 receipt_strings @ take 6 (drop 6 receipt_strings) @ drop 6 (drop 6 receipt_strings))"
    unfolding append_take_drop_id by (simp add: receipt_strings_def)
  then show ?thesis using receipt_wordless by (auto simp: list_all_iff)
qed

lemma receipt_valid: "validateReceipt some_receipt = Inr some_receipt"
proof -
  have "noPrivateMaterial some_receipt"
    unfolding private_free
  proof (intro ballI notI)
    fix s assume s: "s \<in> set (strings_in some_receipt)" "re_test PRIVATE_MATERIAL s"
    have "list_ex (\<lambda>w. holds_word w (lower s)) PRIVATE_WORDS" using private_words [OF s(2)] unfolding list_ex_iff holds_word_includes .
    then show False using receipt_words [OF s(1)] by (simp add: wordless_def Let_def)
  qed
  then show ?thesis by (simp add: validateReceipt_def receipt_shaped refuse_unless_def ensure_def bindE_def)
qed

lemma receipt_parses: "JSON_parse (stringify some_receipt) = Some some_receipt"
proof (rule parse_stringify)
  show "json_ok some_receipt" by code_simp
qed

text \<open>A bound on the length of a JSON text.\<close>

fun text_bound :: "json \<Rightarrow> nat" where
  "text_bound (JStr s) = 6 * length s + 2"
| "text_bound (JArr xs) = sum_list (map text_bound xs) + length xs + 2"
| "text_bound (JObj kvs) = sum_list (map (\<lambda>(k, v). 6 * length k + 3 + text_bound v) kvs) + length kvs + 2"
| "text_bound v = length (stringify v)"

lemma join_length: "length (join [c] xs) \<le> sum_list (map length xs) + length xs"
  by (induction xs rule: induct_list012) simp_all

lemma escape_length: "length (escape_char c) \<le> 6"
  by (simp add: escape_char_def Let_def)

lemma quote_length: "length (quote_string s) \<le> 6 * length s + 2"
proof -
  have "length (concat (map escape_char s)) \<le> 6 * length s"
  proof (induction s)
    case (Cons c s)
    then show ?case using escape_length [of c] by simp
  qed simp
  then show ?thesis by (simp add: quote_string_def)
qed

lemma stringify_length: "length (stringify v) \<le> text_bound v"
proof (induction v rule: stringify.induct)
  case (5 xs)
  have "sum_list (map length (map stringify xs)) \<le> sum_list (map text_bound xs)"
    using 5 by (auto intro!: sum_list_mono simp: o_def)
  then show ?case using join_length [of "CHR '',''" "map stringify xs"] by simp
next
  case (6 kvs)
  have "sum_list (map length (map (\<lambda>(k, v). quote_string k @ '':'' @ stringify v) kvs)) \<le> sum_list (map (\<lambda>(k, v). 6 * length k + 3 + text_bound v) kvs)"
    unfolding map_map o_def
  proof (rule sum_list_mono)
    fix kv assume m: "kv \<in> set kvs"
    obtain k v where kv: "kv = (k, v)" by (cases kv)
    have "length (stringify v) \<le> text_bound v" using 6 m kv by blast
    then show "length (case kv of (k, v) \<Rightarrow> quote_string k @ '':'' @ stringify v) \<le> (case kv of (k, v) \<Rightarrow> 6 * length k + 3 + text_bound v)"
      using quote_length [of k] by (simp add: kv)
  qed
  then show ?case using join_length [of "CHR '',''" "map (\<lambda>(k, v). quote_string k @ '':'' @ stringify v) kvs"] by simp
qed (use quote_length in simp_all)

lemma receipt_short: "byteLength (stringify some_receipt) \<le> 1000000"
proof -
  have "text_bound some_receipt \<le> 500000" by (simp add: some_receipt_def some_digest_def SOURCE_KEYS_def)
  then show ?thesis using stringify_length [of some_receipt] byteLength_bounds(2) [of "stringify some_receipt"] by simp
qed

lemma evidence_paths: "path_resolve ''/'' ''/c'' = ''/c''" "path_resolve ''/'' ''/g'' = ''/g''" "nul \<notin> set ''/c''" "nul \<notin> set ''/g''"
    "foldl path_join ''/c'' [''dist'', ''controller'', ''hc01_owner_evidence_cli.js''] = ''/c/dist/controller/hc01_owner_evidence_cli.js''"
  by code_simp+

lemma evidence_fields: "gc_lstat evidence_gc w p = Some \<lparr>st_kind = (if p = ''/c'' then ''directory'' else ''file''), st_mode = 384, st_uid = 0, st_dev = 0, st_ino = 0, st_birthtime = None\<rparr>"
    "gc_realpath evidence_gc w p = Inr p" "gc_cwd evidence_gc = ''/''" "\<not> mode_has 384 18"
  by (simp_all add: evidence_gc_def mode_has_def)

lemma evidence_absolute: "absolutePath evidence_gc ''/c'' = Inr ''/c''" "absolutePath evidence_gc ''/g'' = Inr ''/g''"
  unfolding absolutePath_def evidence_fields evidence_paths by (simp_all add: refuse_unless_def ensure_def bindE_def is_absolute_def evidence_paths [simplified])

lemma entry_accepted: "p \<noteq> ''/c'' \<Longrightarrow> gc_entry evidence_gc w (\<lambda>st. isFile st \<and> \<not> mode_has (st_mode st) 18) p = Inr p"
    "p \<noteq> ''/c'' \<Longrightarrow> gc_entry evidence_gc w (\<lambda>st. isFile st \<and> st_mode st mod 512 = 384) p = Inr p"
    "gc_entry evidence_gc w (\<lambda>st. BrokerWorld.isDirectory st \<and> \<not> mode_has (st_mode st) 18) ''/c'' = Inr ''/c''"
  by (simp_all add: gc_entry_def evidence_fields BrokerWorld.isDirectory_def isFile_def isSymbolicLink_def refuse_unless_def ensure_def bindE_def)

lemma evidence_places: "collectorEntrypoint evidence_gc () ''/c'' = Inr ''/c/dist/controller/hc01_owner_evidence_cli.js''" "privateConfig evidence_gc () ''/g'' = Inr ''/g''"
proof -
  show "collectorEntrypoint evidence_gc () ''/c'' = Inr ''/c/dist/controller/hc01_owner_evidence_cli.js''"
    unfolding collectorEntrypoint_def privateDirectory_def evidence_absolute bindE_def sum.case entry_accepted(3) evidence_paths
    by (rule entry_accepted(1)) simp
  show "privateConfig evidence_gc () ''/g'' = Inr ''/g''"
    unfolding privateConfig_def evidence_absolute bindE_def sum.case by (rule entry_accepted(2)) simp
qed

lemma evidence_run: "\<exists>ans. runs (collect_hc01_gate_c_readonly_evidence evidence_gc (JObj [])) () ans () \<and> \<not> rp_error ans"
proof -
  have a: "gc_exec evidence_gc prog args dir env n m w = (\<lparr>ca_failed = False, ca_stdout = stringify some_receipt, ca_stderr = []\<rparr>, w)" for prog args dir env n m w
    by (simp add: evidence_gc_def)
  have r: "read_receipt evidence_gc \<lparr>ca_failed = False, ca_stdout = stringify some_receipt, ca_stderr = []\<rparr> = Inr some_receipt"
    using receipt_parses receipt_short receipt_valid by (simp add: read_receipt_def evidence_gc_def refuse_unless_def ensure_def bindE_def)
  have g: "gc_collectorRoot evidence_gc = ''/c''" "gc_controllerConfig evidence_gc = ''/g''" "gc_profile evidence_gc = ''host''" by (simp_all add: evidence_gc_def)
  have s: "get some_receipt ''status'' \<noteq> Some (JStr ''REFUSED'')" by code_simp
  have "runs (runHC01GateCCollector evidence_gc) () some_receipt ()"
    unfolding runHC01GateCCollector_def runs_handle by (intro disjI1) (simp add: run_simps g evidence_places a r)
  then have "runs (andThen (runHC01GateCCollector evidence_gc) (\<lambda>receipt. if get receipt ''status'' = Some (JStr ''REFUSED'')
      then ret (fail_reply (gc_limits evidence_gc) HC01_GATE_C_FAILURE None) else ret (json_reply (gc_limits evidence_gc) receipt))) ()
      (json_reply (gc_limits evidence_gc) some_receipt) ()"
    by (rule runs_andThenI) (simp only: s if_False runs_ret simp_thms)
  then have "runs (collect_hc01_gate_c_readonly_evidence evidence_gc (JObj [])) () (json_reply (gc_limits evidence_gc) some_receipt) ()"
    unfolding collect_hc01_gate_c_readonly_evidence_def Let_def by (simp only: g emptyInput_def simp_thms if_False runs_handle)
  then show ?thesis using reply_kinds(3) by blast
qed



end
