(* ===== verification/ToolRegistry.thy ===== *)
theory ToolRegistry
  imports HostConfig WorkspaceQueue
begin

text \<open>
  Which tools the server exposes and how a call reaches its handler: the reviewed catalogs
  (\<^verbatim>\<open>src/tool-contract.js\<close>), the gate all registration sites go through
  (\<^verbatim>\<open>src/lib/tool-registry.js\<close>) and the sites of \<^verbatim>\<open>createServer\<close>.
\<close>

section \<open>The reviewed catalogs\<close>

record tool_entry =
  te_name :: string
  te_family :: string
  te_readOnly :: bool
  te_mutating :: bool

definition plain :: "string \<times> string \<Rightarrow> tool_entry" where
  "plain = (\<lambda>(n, f). \<lparr>te_name = n, te_family = f, te_readOnly = False, te_mutating = False\<rparr>)"

definition TOOL_CATALOG :: "tool_entry list" where
  "TOOL_CATALOG = map plain
    [(''bridge_instructions'', ''policy''), (''workspace_list'', ''workspace''), (''workspace_open'', ''workspace''), (''workspace_tree'', ''workspace''),
     (''workspace_snapshot'', ''workspace''), (''read_file'', ''files''), (''search_text'', ''files''), (''write_file'', ''files''),
     (''apply_patch'', ''files''), (''edit_file'', ''files''), (''git_status'', ''git-read''), (''git_diff'', ''git-read''), (''git_log'', ''git-read''),
     (''git_branch_create'', ''git-write''), (''git_branch_switch'', ''git-write''), (''git_stage'', ''git-write''), (''git_commit'', ''git-write''),
     (''git_publish_branch'', ''git-remote-write''), (''project_test'', ''project''), (''project_lint'', ''project''), (''project_typecheck'', ''project''),
     (''project_build'', ''project''), (''repo_shell'', ''execution''), (''process_start'', ''processes''), (''process_list'', ''processes''),
     (''process_logs'', ''processes''), (''process_stop'', ''processes''), (''health'', ''runtime'')]"

definition EXPECTED_TOOL_NAMES :: "string list" where
  "EXPECTED_TOOL_NAMES =
    [''bridge_instructions'', ''workspace_list'', ''workspace_open'', ''workspace_tree'', ''workspace_snapshot'', ''read_file'', ''search_text'',
     ''write_file'', ''apply_patch'', ''edit_file'', ''git_status'', ''git_diff'', ''git_log'', ''git_branch_create'', ''git_branch_switch'', ''git_stage'',
     ''git_commit'', ''git_publish_branch'', ''project_test'', ''project_lint'', ''project_typecheck'', ''project_build'', ''repo_shell'', ''process_start'',
     ''process_list'', ''process_logs'', ''process_stop'', ''health'']"

definition mutates :: "string \<times> string \<Rightarrow> tool_entry" where
  "mutates nf = (plain nf)\<lparr>te_mutating := True\<rparr>"

definition HOST_TOOL_CATALOG :: "tool_entry list" where
  "HOST_TOOL_CATALOG =
    map (\<lambda>e. if te_name e = ''repo_shell'' then e\<lparr>te_mutating := True\<rparr> else e)
      ([plain (''bridge_instructions'', ''policy''), (plain (''collect_hc01_gate_c_readonly_evidence'', ''hc01-readonly''))\<lparr>te_readOnly := True\<rparr>,
        plain (''workspace_list'', ''workspace''), mutates (''workspace_create'', ''workspace''), mutates (''workspace_attach'', ''workspace''),
        plain (''workspace_resume'', ''workspace''), plain (''workspace_status'', ''workspace''), mutates (''workspace_checkpoint'', ''workspace''),
        plain (''workspace_recover'', ''workspace''), mutates (''git_publish_attached_branch'', ''git-remote-write'')] @
       filter (\<lambda>e. te_name e \<notin> set [''bridge_instructions'', ''workspace_list'', ''workspace_open'', ''git_publish_branch'']) TOOL_CATALOG)"

definition CATALOGS :: "string \<Rightarrow> tool_entry list option" where
  "CATALOGS = map_of [(''legacy'', TOOL_CATALOG), (''host'', HOST_TOOL_CATALOG)]"

definition VERSIONS :: "string \<Rightarrow> string option" where
  "VERSIONS = map_of [(''legacy'', ''legacy-s6-v1''), (''host'', ''daily-use-v2'')]"

definition toolCatalogForProfile :: "string \<Rightarrow> tool_entry list result" where
  "toolCatalogForProfile profile = (case CATALOGS profile of Some c \<Rightarrow> Inr c | None \<Rightarrow> throw (''unsupported bridge profile: '' @ profile))"

definition catalogVersionForProfile :: "string \<Rightarrow> string option result" where
  "catalogVersionForProfile profile = bindE (toolCatalogForProfile profile) (\<lambda>_. Inr (VERSIONS profile))"

text \<open>The enabled names; a set of JavaScript keeps the order in which they came.\<close>

definition enabled_names :: "string \<Rightarrow> string list" where
  "enabled_names raw = nonempty (map trim (split_by (\<lambda>c. c = nl \<or> c = CHR '','') raw))"

definition parseEnabledTools :: "string option \<Rightarrow> string \<Rightarrow> string list result" where
  "parseEnabledTools rawValue profile =
    bindE (toolCatalogForProfile profile) (\<lambda>catalog.
    let expected = map te_name catalog in
    case rawValue of
      None \<Rightarrow> Inr expected
    | Some value \<Rightarrow>
        (let raw = trim value; names = enabled_names raw in
         bindE (ensure (raw \<noteq> []) ''ENABLED_TOOLS must contain at least one reviewed bridge tool name'') (\<lambda>_.
         bindE (ensure (distinct names) ''ENABLED_TOOLS contains duplicate tool names'') (\<lambda>_.
         let unsupported = filter (\<lambda>n. n \<notin> set expected) names in
         bindE (ensure (unsupported = []) (''ENABLED_TOOLS contains unsupported or disabled tool(s): '' @ join '', '' unsupported)) (\<lambda>_.
         Inr names)))))"

section \<open>Registration\<close>

definition CONTEXT_FREE :: "string list" where
  "CONTEXT_FREE = [''bridge_instructions'', ''collect_hc01_gate_c_readonly_evidence'', ''workspace_list'', ''workspace_create'', ''workspace_attach'',
    ''workspace_resume'', ''workspace_status'', ''workspace_checkpoint'', ''workspace_recover'', ''health'']"

text \<open>What a call of a registered tool does: its handler at once, or inside the call queue of the workspace it names.\<close>

datatype route = Direct | Bound bool

record registered =
  rg_name :: string
  rg_route :: route
  rg_inputs :: "string list"
  rg_strict :: bool

text \<open>A site: the name, the read-only hint, the names of the inputs and whether others are refused.\<close>

record registration =
  rs_name :: string
  rs_readOnly :: bool
  rs_inputs :: "string list"
  rs_strict :: bool

definition registerEnabledTool :: "string list \<Rightarrow> string \<Rightarrow> registration \<Rightarrow> registered list \<Rightarrow> registered list" where
  "registerEnabledTool enabled profile site server =
    (if rs_name site \<notin> set enabled then server
     else if profile \<noteq> ''host'' \<or> rs_name site \<in> set CONTEXT_FREE
     then server @ [\<lparr>rg_name = rs_name site, rg_route = Direct, rg_inputs = rs_inputs site, rg_strict = rs_strict site\<rparr>]
     else server @ [\<lparr>rg_name = rs_name site, rg_route = Bound (\<not> rs_readOnly site), rg_inputs = remdups (rs_inputs site @ [''workspaceId'']),
         rg_strict = rs_strict site\<rparr>])"

definition tool_site :: "string \<Rightarrow> bool \<Rightarrow> string list \<Rightarrow> registration" where
  "tool_site n readOnly inputs = \<lparr>rs_name = n, rs_readOnly = readOnly, rs_inputs = inputs, rs_strict = False\<rparr>"

definition registerPolicy :: "registration list" where
  "registerPolicy = [tool_site ''bridge_instructions'' True []]"

definition registerWorkspace :: "registration list" where
  "registerWorkspace =
    [tool_site ''workspace_list'' True [], tool_site ''workspace_open'' False [''path''],
     tool_site ''workspace_create'' False [''repositoryPath'', ''branch'', ''base'', ''objective'', ''project'', ''scope''],
     tool_site ''workspace_attach'' False [''path'', ''repositoryPath'', ''branch'', ''expectedHead'', ''remote'', ''objective'', ''project'', ''scope''],
     tool_site ''workspace_resume'' True [''workspaceId''], tool_site ''workspace_status'' True [''workspaceId''],
     tool_site ''workspace_checkpoint'' False [''workspaceId'', ''summary'', ''pr'', ''processIds''], tool_site ''workspace_recover'' True [],
     tool_site ''workspace_tree'' True [''path'', ''maxDepth'', ''maxEntries''], tool_site ''workspace_snapshot'' True []]"

definition registerFiles :: "registration list" where
  "registerFiles =
    [tool_site ''read_file'' True [''path'', ''maxBytes''], tool_site ''search_text'' True [''pattern'', ''path'', ''glob'', ''maxMatches''],
     tool_site ''write_file'' False [''path'', ''content''], tool_site ''apply_patch'' False [''diff'', ''cwd''],
     tool_site ''edit_file'' False [''path'', ''oldText'', ''newText'', ''replaceAll'']]"

definition registerGit :: "string \<Rightarrow> registration list" where
  "registerGit profile =
    [tool_site ''git_status'' True [''cwd''], tool_site ''git_diff'' True [''cwd'', ''staged'', ''path''], tool_site ''git_log'' True [''cwd'', ''limit''],
     tool_site ''git_branch_create'' False [''name'', ''cwd''], tool_site ''git_branch_switch'' False [''name'', ''cwd''], tool_site ''git_stage'' False [''cwd'', ''paths''],
     tool_site ''git_commit'' False [''cwd'', ''message''], (tool_site ''git_publish_branch'' False [])\<lparr>rs_strict := True\<rparr>] @
    (if profile = ''host'' then [(tool_site ''git_publish_attached_branch'' False [])\<lparr>rs_strict := True\<rparr>] else [])"

definition registerProject :: "registration list" where
  "registerProject = map (\<lambda>n. tool_site (''project_'' @ n) False [''cwd'', ''command'']) [''test'', ''lint'', ''typecheck'', ''build'']"

definition registerProcess :: "registration list" where
  "registerProcess =
    [tool_site ''repo_shell'' False [''command'', ''cwd'', ''timeoutMs''], tool_site ''process_start'' False [''command'', ''cwd''], tool_site ''process_list'' True [],
     tool_site ''process_logs'' True [''id'', ''lines''], tool_site ''process_stop'' False [''id''], tool_site ''health'' True []]"

definition registerHC01GateCEvidence :: "registration list" where
  "registerHC01GateCEvidence = [(tool_site ''collect_hc01_gate_c_readonly_evidence'' True [])\<lparr>rs_strict := True\<rparr>]"

text \<open>The tools of \<^verbatim>\<open>createServer\<close>, in the order of registration.\<close>

definition registrations :: "string \<Rightarrow> registration list" where
  "registrations profile =
    registerPolicy @ registerWorkspace @ registerFiles @ registerGit profile @ registerProject @ registerProcess @ registerHC01GateCEvidence"

definition createServer :: "string list \<Rightarrow> string \<Rightarrow> registered list" where
  "createServer enabled profile = fold (registerEnabledTool enabled profile) (registrations profile) []"

definition ENABLED_TOOL_NAMES :: "string list \<Rightarrow> tool_entry list \<Rightarrow> string list" where
  "ENABLED_TOOL_NAMES enabled catalog = filter (\<lambda>n. n \<in> set enabled) (map te_name catalog)"

text \<open>A call: \<open>index\<close> gives the worktree of a workspace; the handler gets the arguments that are answered.\<close>

definition enter_call :: "(json option \<Rightarrow> string result) \<Rightarrow> registered \<Rightarrow> (string \<times> json) list \<Rightarrow> queue \<Rightarrow> ((string \<times> json) list \<times> queue) result" where
  "enter_call index t args q =
    (case rg_route t of
       Direct \<Rightarrow> Inr (args, q)
     | Bound mutating \<Rightarrow>
         bindE (index (map_of args ''workspaceId'')) (\<lambda>path.
         Inr (filter (\<lambda>kv. fst kv \<noteq> ''workspaceId'') args, withHostWorkspace path mutating q)))"

section \<open>Facts\<close>

text \<open>What a site becomes.\<close>

definition exposed :: "string \<Rightarrow> registration \<Rightarrow> registered" where
  "exposed profile s =
    (if profile \<noteq> ''host'' \<or> rs_name s \<in> set CONTEXT_FREE
     then \<lparr>rg_name = rs_name s, rg_route = Direct, rg_inputs = rs_inputs s, rg_strict = rs_strict s\<rparr>
     else \<lparr>rg_name = rs_name s, rg_route = Bound (\<not> rs_readOnly s), rg_inputs = remdups (rs_inputs s @ [''workspaceId'']), rg_strict = rs_strict s\<rparr>)"

lemma exposed_name [simp]: "rg_name (exposed profile s) = rs_name s"
  by (simp add: exposed_def)

lemma register_fold: "fold (registerEnabledTool enabled profile) sites server = server @ map (exposed profile) (filter (\<lambda>s. rs_name s \<in> set enabled) sites)"
  by (induction sites arbitrary: server) (auto simp: registerEnabledTool_def exposed_def)

lemma created: "createServer enabled profile = map (exposed profile) (filter (\<lambda>s. rs_name s \<in> set enabled) (registrations profile))"
  by (simp add: createServer_def register_fold)

text \<open>No name is registered twice, and every name of a catalog has a site.\<close>

lemma sites_cover:
  "distinct (map rs_name (registrations ''legacy''))" "distinct (map rs_name (registrations ''host''))"
  "list_all (\<lambda>e. te_name e \<in> set (map rs_name (registrations ''legacy''))) TOOL_CATALOG"
  "list_all (\<lambda>e. te_name e \<in> set (map rs_name (registrations ''host''))) HOST_TOOL_CATALOG"
  by code_simp+

lemma enabled_reviewed:
  assumes "parseEnabledTools raw profile = Inr enabled"
  shows "\<exists>c. CATALOGS profile = Some c \<and> set enabled \<subseteq> te_name ` set c"
  using assms by (auto simp: parseEnabledTools_def toolCatalogForProfile_def result_simps Let_def filter_empty_conv split: option.splits)

lemma catalog_sites: "CATALOGS profile = Some c \<Longrightarrow> distinct (map rs_name (registrations profile)) \<and> te_name ` set c \<subseteq> rs_name ` set (registrations profile)"
  using sites_cover by (auto simp: CATALOGS_def list_all_iff split: if_splits)

text \<open>The sites that only read, by name.\<close>

definition READING :: "string list" where
  "READING = [''workspace_tree'', ''workspace_snapshot'', ''read_file'', ''search_text'', ''git_status'', ''git_diff'', ''git_log'', ''process_list'', ''process_logs'']"

lemma reading_sites: "list_all (\<lambda>s. rs_name s \<in> set CONTEXT_FREE \<or> rs_readOnly s = (rs_name s \<in> set READING)) (registrations ''host'')"
  by code_simp

section \<open>Properties\<close>

text \<open>
  C34 (functional).  The server exposes exactly the enabled tools, each once; every enabled tool is of the reviewed catalog.
\<close>

theorem exposed_tools_exact:
  assumes "parseEnabledTools raw profile = Inr enabled"
  shows "set (map rg_name (createServer enabled profile)) = set enabled \<and> distinct (map rg_name (createServer enabled profile))
    \<and> (\<exists>c. toolCatalogForProfile profile = Inr c \<and> set enabled \<subseteq> te_name ` set c)"
proof -
  obtain c where c: "CATALOGS profile = Some c" "set enabled \<subseteq> te_name ` set c" using enabled_reviewed [OF assms] by blast
  note s = catalog_sites [OF c(1)]
  have "map rg_name (createServer enabled profile) = filter (\<lambda>n. n \<in> set enabled) (map rs_name (registrations profile))"
    by (simp add: created filter_map o_def)
  then show ?thesis using c s by (auto simp: toolCatalogForProfile_def)
qed

text \<open>
  C35 (safety).  On the host every tool but the context-free ones needs a workspace: its handler runs only inside the
  call queue of the worktree that the index gives for the workspace named, without that argument, and queued as a
  mutation unless the tool is one of the reading ones.
\<close>

theorem host_tools_bound:
  assumes "t \<in> set (createServer enabled ''host'')" "rg_name t \<notin> set CONTEXT_FREE" "enter_call index t args q = Inr (rest, q')"
  shows "\<exists>path. index (map_of args ''workspaceId'') = Inr path \<and> q' = withHostWorkspace path (rg_name t \<notin> set READING) q
    \<and> map_of rest ''workspaceId'' = None \<and> ''workspaceId'' \<in> set (rg_inputs t)"
proof -
  obtain s where s: "s \<in> set (registrations ''host'')" "t = exposed ''host'' s" using assms(1) by (auto simp: created)
  have n: "rs_name s \<notin> set CONTEXT_FREE" using assms(2) s(2) by simp
  have r: "rs_readOnly s = (rs_name s \<in> set READING)" using reading_sites s(1) n by (auto simp: list_all_iff)
  have route: "rg_route t = Bound (rg_name t \<notin> set READING)" "''workspaceId'' \<in> set (rg_inputs t)" using s(2) n r by (simp_all add: exposed_def)
  have "map_of (filter (\<lambda>kv. fst kv \<noteq> ''workspaceId'') args) ''workspaceId'' = None" by (auto simp: map_of_eq_None_iff)
  then show ?thesis using assms(3) route by (auto simp: enter_call_def result_simps)
qed

section \<open>Concrete inputs\<close>

theorem exposed_witness: "''read_file'' \<in> set (map rg_name (createServer [''health'', ''read_file''] ''legacy''))"
proof -
  have "parseEnabledTools (Some ''health, read_file'') ''legacy'' = Inr [''health'', ''read_file'']" by code_simp
  from exposed_tools_exact [OF this] show ?thesis by simp
qed

theorem bound_witness: "\<exists>path. path = ''/w'' \<and> withHostWorkspace ''/w'' True empty_queue = withHostWorkspace path (''git_stage'' \<notin> set READING) empty_queue"
proof -
  have t: "\<lparr>rg_name = ''git_stage'', rg_route = Bound True, rg_inputs = [''cwd'', ''paths'', ''workspaceId''], rg_strict = False\<rparr> \<in> set (createServer [''git_stage''] ''host'')" (is "?t \<in> _")
    by code_simp
  have n: "rg_name ?t \<notin> set CONTEXT_FREE" by code_simp
  have e: "enter_call (\<lambda>_. Inr ''/w'') ?t [] empty_queue = Inr ([], withHostWorkspace ''/w'' True empty_queue)" by (simp add: enter_call_def bindE_def)
  from host_tools_bound [OF t n e] show ?thesis by auto
qed

end
