(* ===== verification/Spec2Isabelle.thy ===== *)
theory Spec2Isabelle
  imports BrokerWitness CoordinatorWitness ProtocolWitness HostWitness DestructivePatterns ToolsWitness GitWitness DisposableWitness
    ServerWitness EvidenceWitness ToolRegistry
begin

text \<open>
  Verification of the local bridge: an MCP server that gives a remote model tools on a developer's machine
  (\<^verbatim>\<open>src/\<close>), and the host programs around it that hold the credentials (\<^verbatim>\<open>scripts/\<close>).

  \<^bold>\<open>The program and how its parts interact.\<close>  A request reaches \<^verbatim>\<open>src/server.js\<close>, which checks its Host
  header and its bearer token and hands it to the MCP transport.  The tools of a profile are registered through one gate
  (\<^verbatim>\<open>src/lib/tool-registry.js\<close>); on the host profile the gate also puts a call into the queue of the worktree it
  names (\<^verbatim>\<open>src/lib/host-workspaces.js\<close>), and every call passes the limit and the audit log
  (\<^verbatim>\<open>src/lib/audit.js\<close>).  The handlers (\<^verbatim>\<open>src/tools/\<close>) ask \<^verbatim>\<open>src/lib/paths.js\<close> which paths they
  may touch, \<^verbatim>\<open>src/lib/policy.js\<close> what is destructive and waits for approval, and
  \<^verbatim>\<open>src/lib/coordinator-guard.js\<close> whether a write is based on the current content.  Under S6 the guard and the Git
  tools talk to the broker on the host (\<^verbatim>\<open>scripts/s6-github-broker.mjs\<close>) over a socket, or over a sidecar
  (\<^verbatim>\<open>scripts/s6-broker-channel-proxy.mjs\<close>, \<^verbatim>\<open>scripts/s6-broker-proxy-host.mjs\<close>): the broker attests the
  commits made by the structured commit tool, checks history, tree and policy, and is the only part that pushes.  The
  workspace it watches is cloned and kept by \<^verbatim>\<open>scripts/disposable-workspace.mjs\<close>.

  \<^bold>\<open>Conventions.\<close>  A JavaScript string is a list of 8-bit code units and \<open>None\<close> is \<^verbatim>\<open>undefined\<close>; a value
  that comes from JSON is a \<open>json\<close>.  A function that throws returns \<open>'a result\<close>, with the thrown error on the left.  Code
  with effects is an action of \<open>Effects\<close>: from a state it gives the result or the error, the state it leaves, and the states
  it passed through at each write, so that a crash between two writes is one of them.  \<open>runs\<close> and \<open>fails\<close> say how an action
  ends, \<open>keeps\<close> and the triples what it preserves, crashes included.  Git, the file system, clocks, randomness,
  hashes, child processes and the libraries are fields of a record of functions that the definitions take; a property states
  what it needs of them as a premise and its witness gives a concrete world.  Promises that run up to an \<^verbatim>\<open>await\<close>
  are one action; where the order between calls matters (the queue of a worktree, the pieces of a connection, the calls
  counted by the limit) the steps are explicit.

  \<^bold>\<open>Shared theories.\<close>  \<open>Prelude\<close> has the error monad and the string operations; \<open>Effects\<close> the actions and their rules;
  \<open>JsRegex\<close> regular expressions with the order of a backtracking matcher; \<open>PosixPath\<close> Node's \<^verbatim>\<open>path\<close>, with the
  locales \<open>confinement\<close> and \<open>tree_confinement\<close> for the prefix tests of the program, interpreted on the two tests it has;
  \<open>Json\<close>, \<open>JsonText\<close>, \<open>JsonParse\<close> the values, their text and their reader.

  \<^bold>\<open>The broker.\<close>  \<open>PolicyPath\<close> models \<^verbatim>\<open>scripts/pre-commit-policy.mjs\<close>, \<open>ReviewedHooks\<close> the constants of
  \<^verbatim>\<open>src/lib/git-governance.js\<close>.  \<open>BrokerIdentity\<close>, \<open>BrokerWorld\<close>, \<open>BrokerInspect\<close> and \<open>BrokerPublish\<close> follow
  \<^verbatim>\<open>S6GitHubBroker\<close> method by method: a \<open>world\<close> holds the broker's files, its attested set and the opaque repository.
  \<open>BrokerSafety\<close> shows what a publication checked, \<open>BrokerProvenance\<close> the invariant of the attested set over all
  operations, crashes and restarts as a transition system, \<open>BrokerRefine\<close> the refinement of an abstract publication machine
  and that an interrupted publication is resumed.  \<open>Coordinator\<close> models the coordinator seam, \<open>BrokerProtocol\<close> the
  dispatcher, one server connection and the client (\<^verbatim>\<open>src/lib/s6-broker-client.js\<close>), \<open>ChannelProxy\<close> the sidecar;
  a client's call over any chunking is shown to be exactly the broker operation it names.

  \<^bold>\<open>Workspaces.\<close>  \<open>HostWorkspaces\<close> and \<open>HostIndex\<close> model \<^verbatim>\<open>HostWorkspaceIndex\<close> and the invariant that
  the index file passes the validation of the next read; \<open>WorkspaceQueue\<close> the chain of mutating calls;
  \<open>WorkspaceTools\<close> the tools of \<^verbatim>\<open>src/tools/workspace.js\<close> over them.  \<open>Disposable\<close> and \<open>DisposableSafety\<close> model the
  manager of disposable workspaces: every change of the file system is logged, and the lemmas show that it stays in the
  manager's directories whatever its state files hold.

  \<^bold>\<open>Configuration, paths and tools.\<close>  \<open>HostConfig\<close> models \<^verbatim>\<open>src/lib/config.js\<close>; \<open>WorkspacePaths\<close> and
  \<open>PathSafety\<close> model \<^verbatim>\<open>src/lib/paths.js\<close> and show what an accepted path is; \<open>TextTools\<close>
  \<^verbatim>\<open>src/lib/text.js\<close>; \<open>DestructivePatterns\<close> and \<open>PendingActions\<close> \<^verbatim>\<open>src/lib/policy.js\<close>;
  \<open>CoordinatorGuard\<close>, \<open>FileTools\<close> and \<open>FileSafety\<close> the guard and \<^verbatim>\<open>src/tools/files.js\<close>; \<open>Processes\<close>,
  \<open>ProcessSafety\<close> and \<open>ProcessTools\<close> \<^verbatim>\<open>src/lib/exec.js\<close>, \<^verbatim>\<open>src/tools/process.js\<close> and
  \<^verbatim>\<open>src/tools/project.js\<close>; \<open>AuditLog\<close> \<^verbatim>\<open>src/lib/audit.js\<close>; \<open>GitTools\<close> and \<open>GitSafety\<close>
  \<^verbatim>\<open>src/tools/git.js\<close> with the reviewed hooks; \<open>GateCEvidence\<close> the evidence tool; \<open>ToolRegistry\<close>
  \<^verbatim>\<open>src/tool-contract.js\<close>, the gate and all registration sites; \<open>ServerFront\<close> the front of
  \<^verbatim>\<open>src/server.js\<close>.  A handler is one definition with the name of its tool; its guards are in the order of the code,
  and a caught error is the reply the code makes of it.

  \<^bold>\<open>Witnesses.\<close>  The theories whose name ends in \<open>Witness\<close>, and \<open>BrokerDemo\<close>, hold concrete worlds (a clone with two
  commits, a coordinator that allows, a host with one repository, a directory with a link, a child that prints one
  word) and apply the properties there.

  \<^bold>\<open>Bounds and fuel.\<close>  The JSON reader has fuel for its depth: \<open>2 * length s + 1\<close> is never exhausted
  (\<open>pvalue_fuel\<close>).  The walk over visible files takes the fuel \<open>ft_fuel\<close>; \<open>visible_files_returned\<close> shows that it
  returns when directories are nested less deep, which holds for some fuel in every finite tree.  The walk of
  \<^verbatim>\<open>walkTree\<close> stops at the depth its caller gives.  \<open>dx_stack\<close> is the call stack of the manager's recursion over
  directories: beyond it the code throws as well.  Star and plus of a regular expression stop at the length of the input.

  \<^bold>\<open>Not modelled.\<close>  The branches for Windows and macOS, the desktop tools and what only they use (their names are in no
  catalog), the signal that aborts a call, timing, titles, descriptions and input schemas of tools, listening and
  shutdown of the server, and the launchers, credential helpers, packaging and proof scripts under
  \<^verbatim>\<open>scripts/\<close>, which are sequences of external programs.  Text beyond Latin-1 and numbers that are no
  integers are outside the values of the model.  In the broker a dispatch is one step, though in the program two
  connections can interleave at an \<^verbatim>\<open>await\<close>.
\<close>

end
